(* ===== verification/A2A_Prelude.thy ===== *)
theory A2A_Prelude
  imports Main "HOL-Library.AList" "HOL-Library.Multiset" "HOL-Library.Word" "HOL-Library.Char_ord"
    "HOL-Library.List_Lexorder" "HOL-Library.Product_Lexorder"
begin

text \<open>
  Shared vocabulary of the development.

  \<^item> A Python \<open>dict\<close> keeps the order of insertion and overwrites in place; it is an
    association list with the operations of \<^verbatim>\<open>HOL-Library.AList\<close>: reading is
    \<open>map_of\<close>, \<open>d[k] = v\<close> is \<open>AList.update k v d\<close>, \<open>del d[k]\<close> is \<open>AList.delete k d\<close>.
  \<^item> A Python \<open>str\<close> is a HOL \<open>string\<close>; \<open>bytes\<close> is a list of \<open>8 word\<close>.
  \<^item> A call that may raise returns \<open>Inl\<close> of the exception or \<open>Inr\<close> of its result.
  \<^item> \<open>None\<close> or an empty string is falsy: \<open>py_truthy\<close>.
\<close>

named_theorems a2a_defs "definitions unfolded by the component proofs"

type_synonym byte = "8 word"
type_synonym bytes = "byte list"
type_synonym ('k, 'v) dict = "('k \<times> 'v) list"

subsection \<open>Truth values of Python objects\<close>

fun py_truthy :: "string option \<Rightarrow> bool" where
  "py_truthy None = False"
| "py_truthy (Some s) = (s \<noteq> [])"

definition or_none :: "string \<Rightarrow> string option" where
  "or_none s = (if s = [] then None else Some s)"

definition or_empty :: "string option \<Rightarrow> string" where
  "or_empty s = (case s of None \<Rightarrow> [] | Some x \<Rightarrow> x)"

definition list_or_none :: "'a list \<Rightarrow> 'a list option" where
  "list_or_none xs = (if xs = [] then None else Some xs)"

definition list_or_nil :: "'a list option \<Rightarrow> 'a list" where
  "list_or_nil xs = (case xs of None \<Rightarrow> [] | Some ys \<Rightarrow> ys)"

lemma or_empty_simps [simp]: "or_empty None = []" "or_empty (Some s) = s"
  by (simp_all add: or_empty_def)

lemma or_none_Nil [simp]: "or_none [] = None"
  by (simp add: or_none_def)

lemma or_none_Cons [simp]: "s \<noteq> [] \<Longrightarrow> or_none s = Some s"
  by (simp add: or_none_def)

lemma or_none_eq_None [simp]: "or_none s = None \<longleftrightarrow> s = []"
  by (simp add: or_none_def)

lemma or_empty_or_none [simp]: "or_empty (or_none s) = s"
  by (simp add: or_none_def)

lemma or_none_or_empty: "s \<noteq> Some [] \<Longrightarrow> or_none (or_empty s) = s"
  by (cases s) (auto simp: or_none_def)

lemma list_or_nil_simps [simp]: "list_or_nil None = []" "list_or_nil (Some xs) = xs"
  by (simp_all add: list_or_nil_def)

lemma list_or_nil_list_or_none [simp]: "list_or_nil (list_or_none xs) = xs"
  by (simp add: list_or_none_def)

lemma list_or_none_simps [simp]: "list_or_none [] = None" "list_or_none (x # xs) = Some (x # xs)"
  by (simp_all add: list_or_none_def)

lemma list_or_none_list_or_nil: "xs \<noteq> Some [] \<Longrightarrow> list_or_none (list_or_nil xs) = xs"
  by (cases xs) (auto simp: list_or_none_def)

lemma py_truthy_iff: "py_truthy s \<longleftrightarrow> (\<exists>x. s = Some x \<and> x \<noteq> [])"
  by (cases s) auto

subsection \<open>Results\<close>

definition rbind :: "'e + 'a \<Rightarrow> ('a \<Rightarrow> 'e + 'b) \<Rightarrow> 'e + 'b" where
  "rbind r f = (case r of Inl e \<Rightarrow> Inl e | Inr x \<Rightarrow> f x)"

fun rmap_list :: "('a \<Rightarrow> 'e + 'b) \<Rightarrow> 'a list \<Rightarrow> 'e + 'b list" where
  "rmap_list f [] = Inr []"
| "rmap_list f (x # xs) =
     (case f x of Inl e \<Rightarrow> Inl e
      | Inr y \<Rightarrow> (case rmap_list f xs of Inl e \<Rightarrow> Inl e | Inr ys \<Rightarrow> Inr (y # ys)))"

lemma rbind_simps [simp]: "rbind (Inl e) f = Inl e" "rbind (Inr x) f = f x"
  by (simp_all add: rbind_def)

lemma rbind_eq_Inr [simp]: "rbind r f = Inr y \<longleftrightarrow> (\<exists>x. r = Inr x \<and> f x = Inr y)"
  by (cases r) simp_all

lemma rmap_list_Inr: "(\<And>x. x \<in> set xs \<Longrightarrow> f x = Inr (g x)) \<Longrightarrow> rmap_list f xs = Inr (map g xs)"
  by (induction xs) auto

fun rmap_opt :: "('a \<Rightarrow> 'e + 'b) \<Rightarrow> 'a option \<Rightarrow> 'e + 'b option" where
  "rmap_opt f None = Inr None"
| "rmap_opt f (Some x) = (case f x of Inl e \<Rightarrow> Inl e | Inr y \<Rightarrow> Inr (Some y))"

text \<open>A conversion and then its inverse, up to a normal form.\<close>

lemma rmap_list_back:
  "rmap_list f xs = Inr ys \<Longrightarrow> (\<And>x y. x \<in> set xs \<Longrightarrow> f x = Inr y \<Longrightarrow> g y = Inr (n x)) \<Longrightarrow>
   rmap_list g ys = Inr (map n xs)"
proof (induction xs arbitrary: ys)
  case (Cons x xs)
  from Cons.prems(1) obtain y ys' where y: "f x = Inr y" "rmap_list f xs = Inr ys'" "ys = y # ys'"
    by (auto split: sum.splits)
  have "g y = Inr (n x)" by (rule Cons.prems(2)) (simp_all add: y)
  moreover have "rmap_list g ys' = Inr (map n xs)"
    by (rule Cons.IH [OF y(2)]) (auto intro: Cons.prems(2))
  ultimately show ?case by (simp add: y)
qed simp

lemma rmap_opt_back:
  "rmap_opt f x = Inr y \<Longrightarrow> (\<And>a b. x = Some a \<Longrightarrow> f a = Inr b \<Longrightarrow> g b = Inr (n a)) \<Longrightarrow>
   rmap_opt g y = Inr (map_option n x)"
  by (cases x) (auto split: sum.splits)

lemma rmap_list_not_Inl: "(\<And>x. x \<in> set xs \<Longrightarrow> \<not> isl (f x)) \<Longrightarrow> \<not> isl (rmap_list f xs)"
  by (induction xs) (auto split: sum.splits simp: isl_def)

lemma rmap_list_length: "rmap_list f xs = Inr ys \<Longrightarrow> length ys = length xs"
  by (induction xs arbitrary: ys) (auto split: sum.splits)

lemma rmap_list_all2: "rmap_list f xs = Inr ys \<Longrightarrow> list_all2 (\<lambda>x y. f x = Inr y) xs ys"
  by (induction xs arbitrary: ys) (auto split: sum.splits)

subsection \<open>Dictionaries\<close>

definition dict_ok :: "('k, 'v) dict \<Rightarrow> bool" where
  "dict_ok d \<longleftrightarrow> distinct (map fst d)"

lemma dict_ok_Nil [simp]: "dict_ok []"
  by (simp add: dict_ok_def)

lemma dict_ok_update [simp]: "dict_ok d \<Longrightarrow> dict_ok (AList.update k v d)"
  by (simp add: dict_ok_def distinct_update)

lemma dict_ok_delete [simp]: "dict_ok d \<Longrightarrow> dict_ok (AList.delete k d)"
  by (simp add: dict_ok_def distinct_delete)

lemma map_of_update [simp]:
  "map_of (AList.update k v d) k' = (if k' = k then Some v else map_of d k')"
  by (simp add: update_conv)

lemma map_of_delete [simp]:
  "map_of (AList.delete k d) k' = (if k' = k then None else map_of d k')"
  by (simp add: delete_conv)

lemma dict_ok_map_of: "dict_ok d \<Longrightarrow> (k, v) \<in> set d \<longleftrightarrow> map_of d k = Some v"
  by (simp add: dict_ok_def)

lemma values_map_of: "dict_ok d \<Longrightarrow> v \<in> set (map snd d) \<longleftrightarrow> (\<exists>k. map_of d k = Some v)"
  by (force simp: dict_ok_map_of [symmetric])

text \<open>A dictionary all of whose entries satisfy a predicate, and its closure properties.\<close>

definition dict_all :: "('k \<Rightarrow> 'v \<Rightarrow> bool) \<Rightarrow> ('k, 'v) dict \<Rightarrow> bool" where
  "dict_all P d \<longleftrightarrow> dict_ok d \<and> (\<forall>k v. map_of d k = Some v \<longrightarrow> P k v)"

lemma dict_all_Nil [simp]: "dict_all P []"
  by (simp add: dict_all_def)

lemma dict_all_update: "dict_all P d \<Longrightarrow> P k v \<Longrightarrow> dict_all P (AList.update k v d)"
  by (simp add: dict_all_def)

lemma dict_all_delete: "dict_all P d \<Longrightarrow> dict_all P (AList.delete k d)"
  by (simp add: dict_all_def)

lemma dict_allD: "dict_all P d \<Longrightarrow> map_of d k = Some v \<Longrightarrow> P k v"
  by (simp add: dict_all_def)

lemma dict_all_ok: "dict_all P d \<Longrightarrow> dict_ok d"
  by (simp add: dict_all_def)

lemma dict_all_set: "dict_all P d \<Longrightarrow> (k, v) \<in> set d \<Longrightarrow> P k v"
  by (auto simp: dict_all_def dict_ok_map_of)

lemma update_not_Nil [simp]: "AList.update k v d \<noteq> []"
  by (cases d) auto

text \<open>How a predicate on an optional value is evaluated.\<close>

lemma pred_option_code [code]: "pred_option P None = True" "pred_option P (Some x) = P x"
  by simp_all

end
