(* ===== verification/A2A_Types.thy ===== *)
theory A2A_Types
  imports A2A_Prelude
begin

text \<open>
  The protocol's data (\<^verbatim>\<open>src/src/a2a/types/a2a_pb2.pyi\<close>): one record per protobuf message, with
  the fields of its \<^verbatim>\<open>__slots__\<close>. A scalar field without presence has its default when unset; a
  submessage field and a proto3 \<open>optional\<close> field are \<open>option\<close>s, whose \<open>None\<close> is
  \<^verbatim>\<open>HasField(...) == False\<close>; a \<open>oneof\<close> is an optional datatype. Reading an unset
  submessage gives the default instance, as protobuf does. \<^verbatim>\<open>CopyFrom\<close> is assignment of
  the value. Enum values outside the declared ones are not modelled.

  A \<^verbatim>\<open>google.protobuf.Struct\<close> is a dictionary of JSON values. JSON strings are lists
  of Unicode code points (\<open>ustr\<close>), since canonical JSON depends on them.
\<close>

subsection \<open>JSON values\<close>

type_synonym ustr = "nat list"

definition to_ustr :: "string \<Rightarrow> ustr" where
  "to_ustr s = map of_char s"

lemma to_ustr_inj [simp]: "to_ustr s = to_ustr t \<longleftrightarrow> s = t"
  by (simp add: to_ustr_def inj_map_eq_map inj_def)

text \<open>
  A Python float: \<open>FFin neg ds n\<close> is the value \<open>0.d1 d2 \<dots> dk * 10^n\<close> (negated when
  \<open>neg\<close>), with \<open>ds\<close> the digits of the shortest decimal that reads back to it.
\<close>

datatype pyfloat = FNan | FInf bool | FZero bool | FFin bool "nat list" int

datatype json =
    JNull
  | JBool bool
  | JInt int
  | JFloat pyfloat
  | JStr ustr
  | JArr "json list"
  | JObj "(ustr \<times> json) list"

type_synonym struct = "(ustr, json) dict"

definition struct_update :: "struct \<Rightarrow> struct \<Rightarrow> struct" where
  "struct_update new old = fold (\<lambda>(k, v). AList.update k v) new old"

text \<open>Merging an empty Struct leaves the presence of the target as it was.\<close>

definition meta_merge :: "struct option \<Rightarrow> struct option \<Rightarrow> struct option" where
  "meta_merge new old =
     (case new of None \<Rightarrow> old
      | Some [] \<Rightarrow> old
      | Some n \<Rightarrow> Some (struct_update n (case old of None \<Rightarrow> [] | Some st \<Rightarrow> st)))"

lemma struct_update_map_of:
  "dict_ok n \<Longrightarrow> map_of (struct_update n old) k = (case map_of n k of None \<Rightarrow> map_of old k | Some v \<Rightarrow> Some v)"
proof (induction n arbitrary: old)
  case Nil
  then show ?case by (simp add: struct_update_def)
next
  case (Cons p n)
  obtain k1 v1 where p: "p = (k1, v1)" by (cases p)
  from Cons.prems have ok: "dict_ok n" and fresh: "map_of n k1 = None"
    by (auto simp: dict_ok_def p map_of_eq_None_iff)
  have step: "struct_update (p # n) old = struct_update n (AList.update k1 v1 old)"
    by (simp add: struct_update_def p)
  show ?case
    by (simp only: step Cons.IH [OF ok]) (auto simp: p fresh split: option.splits)
qed

lemma dict_ok_struct_update: "dict_ok old \<Longrightarrow> dict_ok (struct_update n old)"
  by (induction n arbitrary: old) (auto simp: struct_update_def split: prod.splits)

subsection \<open>Enumerations\<close>

datatype task_state =
    TASK_STATE_UNSPECIFIED
  | TASK_STATE_SUBMITTED
  | TASK_STATE_WORKING
  | TASK_STATE_COMPLETED
  | TASK_STATE_FAILED
  | TASK_STATE_CANCELED
  | TASK_STATE_INPUT_REQUIRED
  | TASK_STATE_REJECTED
  | TASK_STATE_AUTH_REQUIRED

datatype role = ROLE_UNSPECIFIED | ROLE_USER | ROLE_AGENT

definition TERMINAL_TASK_STATES :: "task_state set" where
  "TERMINAL_TASK_STATES =
     {TASK_STATE_COMPLETED, TASK_STATE_CANCELED, TASK_STATE_FAILED, TASK_STATE_REJECTED}"

definition INTERRUPTED_TASK_STATES :: "task_state set" where
  "INTERRUPTED_TASK_STATES = {TASK_STATE_AUTH_REQUIRED, TASK_STATE_INPUT_REQUIRED}"

lemma terminal_interrupted_disjoint: "TERMINAL_TASK_STATES \<inter> INTERRUPTED_TASK_STATES = {}"
  by (auto simp: TERMINAL_TASK_STATES_def INTERRUPTED_TASK_STATES_def)

subsection \<open>Messages, artifacts, tasks\<close>

record timestamp =
  ts_seconds :: int
  ts_nanos :: int

datatype part_content = PText string | PRaw bytes | PUrl string | PData json

record part =
  part_content :: "part_content option"
  part_metadata :: "struct option"
  part_filename :: string
  part_media_type :: string

record message =
  message_id :: string
  message_context_id :: string
  message_task_id :: string
  message_role :: role
  message_parts :: "part list"
  message_metadata :: "struct option"
  message_extensions :: "string list"
  message_reference_task_ids :: "string list"

record artifact =
  artifact_id :: string
  artifact_name :: string
  artifact_description :: string
  artifact_parts :: "part list"
  artifact_metadata :: "struct option"
  artifact_extensions :: "string list"

record task_status =
  status_state :: task_state
  status_message :: "message option"
  status_timestamp :: "timestamp option"

record task =
  task_id :: string
  task_context_id :: string
  task_status :: "task_status option"
  task_artifacts :: "artifact list"
  task_history :: "message list"
  task_metadata :: "struct option"

record status_event =
  se_task_id :: string
  se_context_id :: string
  se_status :: "task_status option"
  se_metadata :: "struct option"

record artifact_event =
  ae_task_id :: string
  ae_context_id :: string
  ae_artifact :: "artifact option"
  ae_append :: bool
  ae_last_chunk :: bool
  ae_metadata :: "struct option"

text \<open>
  \<^verbatim>\<open>PushNotificationEvent = Task | TaskStatusUpdateEvent | TaskArtifactUpdateEvent\<close> and
  \<^verbatim>\<open>Event = Message | Task | TaskStatusUpdateEvent | TaskArtifactUpdateEvent\<close>.
\<close>

datatype task_event =
    TaskObj task
  | StatusUpdate status_event
  | ArtifactUpdate artifact_event

datatype event = MessageEv message | TaskEv task_event

subsection \<open>Default instances\<close>

definition empty_message :: message where
  "empty_message = \<lparr>message_id = [], message_context_id = [], message_task_id = [],
     message_role = ROLE_UNSPECIFIED, message_parts = [], message_metadata = None,
     message_extensions = [], message_reference_task_ids = []\<rparr>"

definition empty_artifact :: artifact where
  "empty_artifact = \<lparr>artifact_id = [], artifact_name = [], artifact_description = [],
     artifact_parts = [], artifact_metadata = None, artifact_extensions = []\<rparr>"

definition empty_status :: task_status where
  "empty_status = \<lparr>status_state = TASK_STATE_UNSPECIFIED, status_message = None,
     status_timestamp = None\<rparr>"

definition empty_task :: task where
  "empty_task = \<lparr>task_id = [], task_context_id = [], task_status = None, task_artifacts = [],
     task_history = [], task_metadata = None\<rparr>"

definition task_status_of :: "task \<Rightarrow> task_status" where
  "task_status_of t = (case task_status t of None \<Rightarrow> empty_status | Some st \<Rightarrow> st)"

definition task_state_of :: "task \<Rightarrow> task_state" where
  "task_state_of t = status_state (task_status_of t)"

definition se_status_of :: "status_event \<Rightarrow> task_status" where
  "se_status_of e = (case se_status e of None \<Rightarrow> empty_status | Some st \<Rightarrow> st)"

definition ae_artifact_of :: "artifact_event \<Rightarrow> artifact" where
  "ae_artifact_of e = (case ae_artifact e of None \<Rightarrow> empty_artifact | Some a \<Rightarrow> a)"

definition is_terminal :: "task \<Rightarrow> bool" where
  "is_terminal t \<longleftrightarrow> task_state_of t \<in> TERMINAL_TASK_STATES"

definition set_task_state :: "task_state \<Rightarrow> task \<Rightarrow> task" where
  "set_task_state st t = t\<lparr>task_status := Some ((task_status_of t)\<lparr>status_state := st\<rparr>)\<rparr>"

lemma task_state_of_set [simp]: "task_state_of (set_task_state st t) = st"
  by (simp add: task_state_of_def set_task_state_def task_status_of_def)

lemma set_task_state_ids [simp]:
  "task_id (set_task_state st t) = task_id t"
  "task_context_id (set_task_state st t) = task_context_id t"
  "task_history (set_task_state st t) = task_history t"
  "task_artifacts (set_task_state st t) = task_artifacts t"
  by (simp_all add: set_task_state_def)

subsection \<open>Requests, configurations and call contexts\<close>

record authentication_info =
  auth_scheme :: string
  auth_credentials :: string

record push_config =
  pc_tenant :: string
  pc_id :: string
  pc_task_id :: string
  pc_url :: string
  pc_token :: string
  pc_authentication :: "authentication_info option"

record send_config =
  sc_accepted_output_modes :: "string list"
  sc_push_config :: "push_config option"
  sc_history_length :: "int option"
  sc_return_immediately :: bool

record send_message_request =
  smr_tenant :: string
  smr_message :: "message option"
  smr_configuration :: "send_config option"
  smr_metadata :: "struct option"

record get_task_request =
  gt_tenant :: string
  gt_id :: string
  gt_history_length :: "int option"

record cancel_task_request =
  ct_tenant :: string
  ct_id :: string
  ct_metadata :: "struct option"

record subscribe_request =
  sb_tenant :: string
  sb_id :: string

record get_push_config_request =
  gpr_tenant :: string
  gpr_task_id :: string
  gpr_id :: string

record delete_push_config_request =
  dpr_tenant :: string
  dpr_task_id :: string
  dpr_id :: string

record list_push_configs_request =
  lpr_tenant :: string
  lpr_task_id :: string
  lpr_page_size :: int
  lpr_page_token :: string

record list_push_configs_response =
  lps_configs :: "push_config list"
  lps_next_page_token :: string

record list_tasks_request =
  lr_tenant :: string
  lr_context_id :: string
  lr_status :: task_state
  lr_page_size :: "int option"
  lr_page_token :: string
  lr_history_length :: "int option"
  lr_status_timestamp_after :: "timestamp option"
  lr_include_artifacts :: "bool option"

record list_tasks_response =
  lresp_tasks :: "task list"
  lresp_next_page_token :: string
  lresp_page_size :: int
  lresp_total_size :: int

text \<open>\<^verbatim>\<open>ServerCallContext\<close>: the user, the tenant, the requested extensions and the HTTP
  headers that the routes put in its \<^verbatim>\<open>state\<close>.\<close>

record call_context =
  cc_user_name :: string
  cc_tenant :: string
  cc_requested_extensions :: "string list"
  cc_headers :: "(string, string) dict"

definition resolve_user_scope :: "call_context \<Rightarrow> string" where
  "resolve_user_scope c = cc_user_name c"

end
