(* ===== verification/A2A_Errors.thy ===== *)
theory A2A_Errors
  imports A2A_Types
begin

text \<open>
  The error taxonomy of \<^verbatim>\<open>utils/errors.py\<close> with its three wire mappings (JSON-RPC code, HTTP
  status with gRPC status and reason) and the REST payloads of \<^verbatim>\<open>utils/error_handlers.py\<close>.
  An error carries its class, its message and its optional \<open>data\<close> dictionary, of which the
  payloads use the validation details under \<open>errors\<close>.
\<close>

datatype a2a_kind =
    TaskNotFoundError
  | TaskNotCancelableError
  | PushNotificationNotSupportedError
  | UnsupportedOperationError
  | ContentTypeNotSupportedError
  | InternalError
  | InvalidAgentResponseError
  | ExtendedAgentCardNotConfiguredError
  | InvalidParamsError
  | InvalidRequestError
  | MethodNotFoundError
  | JSONParseError
  | ExtensionSupportRequiredError
  | VersionNotSupportedError

text \<open>The class attribute \<open>message\<close> of each class.\<close>

fun default_message :: "a2a_kind \<Rightarrow> string" where
  "default_message TaskNotFoundError = ''Task not found''"
| "default_message TaskNotCancelableError = ''Task cannot be canceled''"
| "default_message PushNotificationNotSupportedError = ''Push Notification is not supported''"
| "default_message UnsupportedOperationError = ''This operation is not supported''"
| "default_message ContentTypeNotSupportedError = ''Incompatible content types''"
| "default_message InternalError = ''Internal error''"
| "default_message InvalidAgentResponseError = ''Invalid agent response''"
| "default_message ExtendedAgentCardNotConfiguredError =
     ''Authenticated Extended Card is not configured''"
| "default_message InvalidParamsError = ''Invalid params''"
| "default_message InvalidRequestError = ''Invalid Request''"
| "default_message MethodNotFoundError = ''Method not found''"
| "default_message JSONParseError = ''Invalid JSON payload''"
| "default_message ExtensionSupportRequiredError = ''Extension support required''"
| "default_message VersionNotSupportedError = ''Version not supported''"

record validation_detail =
  vd_field :: string
  vd_message :: string

text \<open>
  \<open>error.data\<close>: a dictionary, of which \<open>ed_errors\<close> is the entry \<open>errors\<close> when it is there,
  and \<open>ed_other\<close> the remaining entries.
\<close>

record error_data =
  ed_errors :: "validation_detail list option"
  ed_other :: struct

datatype a2a_error =
  A2AError (err_kind: a2a_kind) (err_message: string) (err_data: "error_data option")

definition mk_error :: "a2a_kind \<Rightarrow> string option \<Rightarrow> error_data option \<Rightarrow> a2a_error" where
  "mk_error k msg dt = A2AError k (if py_truthy msg then or_empty msg else default_message k) dt"

text \<open>Raising the class itself, or the class with a message.\<close>

definition err :: "a2a_kind \<Rightarrow> a2a_error" where
  "err k = mk_error k None None"

definition err_msg :: "a2a_kind \<Rightarrow> string \<Rightarrow> a2a_error" where
  "err_msg k m = mk_error k (Some m) None"

lemma err_kind_simps [simp]: "err_kind (err k) = k" "err_kind (err_msg k m) = k"
  by (simp_all add: err_def err_msg_def mk_error_def)

text \<open>
  Whatever a call may raise: an A2A error, one of the Python exceptions that the code raises
  itself, the shutdown of a queue, or an exception of the agent's code.
\<close>

datatype exn =
    A2A a2a_error
  | ValueError string
  | RuntimeError string
  | IndexError
  | KeyError string
  | QueueShutDown
  | AgentException string

fun is_a2a_kind :: "a2a_kind \<Rightarrow> exn \<Rightarrow> bool" where
  "is_a2a_kind k (A2A e) = (err_kind e = k)"
| "is_a2a_kind k _ = False"

subsection \<open>Wire mappings\<close>

fun JSON_RPC_ERROR_CODE_MAP :: "a2a_kind \<Rightarrow> int" where
  "JSON_RPC_ERROR_CODE_MAP TaskNotFoundError = -32001"
| "JSON_RPC_ERROR_CODE_MAP TaskNotCancelableError = -32002"
| "JSON_RPC_ERROR_CODE_MAP PushNotificationNotSupportedError = -32003"
| "JSON_RPC_ERROR_CODE_MAP UnsupportedOperationError = -32004"
| "JSON_RPC_ERROR_CODE_MAP ContentTypeNotSupportedError = -32005"
| "JSON_RPC_ERROR_CODE_MAP InvalidAgentResponseError = -32006"
| "JSON_RPC_ERROR_CODE_MAP ExtendedAgentCardNotConfiguredError = -32007"
| "JSON_RPC_ERROR_CODE_MAP ExtensionSupportRequiredError = -32008"
| "JSON_RPC_ERROR_CODE_MAP VersionNotSupportedError = -32009"
| "JSON_RPC_ERROR_CODE_MAP InvalidParamsError = -32602"
| "JSON_RPC_ERROR_CODE_MAP InvalidRequestError = -32600"
| "JSON_RPC_ERROR_CODE_MAP MethodNotFoundError = -32601"
| "JSON_RPC_ERROR_CODE_MAP InternalError = -32603"
| "JSON_RPC_ERROR_CODE_MAP JSONParseError = -32700"

record error_mapping =
  em_http_code :: int
  em_grpc_status :: string
  em_reason :: string

definition mapping :: "int \<Rightarrow> string \<Rightarrow> string \<Rightarrow> error_mapping option" where
  "mapping c g r = Some \<lparr>em_http_code = c, em_grpc_status = g, em_reason = r\<rparr>"

text \<open>The dictionary \<open>A2A_ERROR_MAPPING\<close>: \<open>JSONParseError\<close> is not one of its keys.\<close>

fun A2A_ERROR_MAPPING :: "a2a_kind \<Rightarrow> error_mapping option" where
  "A2A_ERROR_MAPPING TaskNotFoundError = mapping 404 ''NOT_FOUND'' ''TASK_NOT_FOUND''"
| "A2A_ERROR_MAPPING TaskNotCancelableError =
     mapping 400 ''FAILED_PRECONDITION'' ''TASK_NOT_CANCELABLE''"
| "A2A_ERROR_MAPPING PushNotificationNotSupportedError =
     mapping 400 ''FAILED_PRECONDITION'' ''PUSH_NOTIFICATION_NOT_SUPPORTED''"
| "A2A_ERROR_MAPPING UnsupportedOperationError =
     mapping 400 ''FAILED_PRECONDITION'' ''UNSUPPORTED_OPERATION''"
| "A2A_ERROR_MAPPING ContentTypeNotSupportedError =
     mapping 400 ''INVALID_ARGUMENT'' ''CONTENT_TYPE_NOT_SUPPORTED''"
| "A2A_ERROR_MAPPING InvalidAgentResponseError =
     mapping 500 ''INTERNAL'' ''INVALID_AGENT_RESPONSE''"
| "A2A_ERROR_MAPPING ExtendedAgentCardNotConfiguredError =
     mapping 400 ''FAILED_PRECONDITION'' ''EXTENDED_AGENT_CARD_NOT_CONFIGURED''"
| "A2A_ERROR_MAPPING ExtensionSupportRequiredError =
     mapping 400 ''FAILED_PRECONDITION'' ''EXTENSION_SUPPORT_REQUIRED''"
| "A2A_ERROR_MAPPING VersionNotSupportedError =
     mapping 400 ''FAILED_PRECONDITION'' ''VERSION_NOT_SUPPORTED''"
| "A2A_ERROR_MAPPING InvalidParamsError = mapping 400 ''INVALID_ARGUMENT'' ''INVALID_PARAMS''"
| "A2A_ERROR_MAPPING InvalidRequestError = mapping 400 ''INVALID_ARGUMENT'' ''INVALID_REQUEST''"
| "A2A_ERROR_MAPPING MethodNotFoundError = mapping 404 ''NOT_FOUND'' ''METHOD_NOT_FOUND''"
| "A2A_ERROR_MAPPING InternalError = mapping 500 ''INTERNAL'' ''INTERNAL_ERROR''"
| "A2A_ERROR_MAPPING JSONParseError = None"

text \<open>The keys of the dictionary, in source order.\<close>

definition mapped_kinds :: "a2a_kind list" where
  "mapped_kinds =
     [TaskNotFoundError, TaskNotCancelableError, PushNotificationNotSupportedError,
      UnsupportedOperationError, ContentTypeNotSupportedError, InvalidAgentResponseError,
      ExtendedAgentCardNotConfiguredError, ExtensionSupportRequiredError,
      VersionNotSupportedError, InvalidParamsError, InvalidRequestError, MethodNotFoundError,
      InternalError]"

text \<open>\<open>{cls: mapping.reason ...}\<close> and \<open>{mapping.reason: cls ...}\<close>.\<close>

definition A2A_ERROR_REASONS :: "a2a_kind \<Rightarrow> string option" where
  "A2A_ERROR_REASONS k = map_option em_reason (A2A_ERROR_MAPPING k)"

definition A2A_REASON_TO_ERROR :: "string \<Rightarrow> a2a_kind option" where
  "A2A_REASON_TO_ERROR r =
     map_of (rev (map (\<lambda>k. (or_empty (A2A_ERROR_REASONS k), k)) mapped_kinds)) r"

subsection \<open>REST payloads\<close>

record error_info =
  ei_reason :: string
  ei_metadata :: error_data

text \<open>A typed detail is a \<open>google.rpc.ErrorInfo\<close> or a \<open>google.rpc.BadRequest\<close>.\<close>

datatype error_detail = ErrorInfo error_info | BadRequest "validation_detail list"

definition empty_data :: error_data where
  "empty_data = \<lparr>ed_errors = None, ed_other = []\<rparr>"

definition mk_error_info :: "string \<Rightarrow> error_data option \<Rightarrow> error_detail" where
  "mk_error_info reason md =
     ErrorInfo \<lparr>ei_reason = reason, ei_metadata = (case md of None \<Rightarrow> empty_data | Some d \<Rightarrow> d)\<rparr>"

definition build_error_details :: "a2a_error \<Rightarrow> error_detail list" where
  "build_error_details e =
     (let reason = (case A2A_ERROR_REASONS (err_kind e) of None \<Rightarrow> ''UNKNOWN_ERROR'' | Some r \<Rightarrow> r);
          info = mk_error_info reason (err_data e)
      in (case err_data e of
            Some d \<Rightarrow>
              (case ed_errors d of
                 Some (v # vs) \<Rightarrow>
                   if err_kind e = InvalidParamsError then [info, BadRequest (v # vs)] else [info]
               | _ \<Rightarrow> [info])
          | None \<Rightarrow> [info]))"

record error_payload =
  ep_code :: int
  ep_status :: string
  ep_message :: string
  ep_details :: "error_detail list option"

definition build_error_payload ::
  "int \<Rightarrow> string \<Rightarrow> string \<Rightarrow> error_detail list \<Rightarrow> error_payload" where
  "build_error_payload c st m ds =
     \<lparr>ep_code = c, ep_status = st, ep_message = m, ep_details = list_or_none ds\<rparr>"

text \<open>An exception at the REST boundary: an A2A error, a JSON parse error, or any other.\<close>

datatype rest_exn = RestA2A a2a_error | RestParseError string | RestOther

fun build_rest_error_payload :: "rest_exn \<Rightarrow> error_payload" where
  "build_rest_error_payload (RestA2A e) =
     (let m = (case A2A_ERROR_MAPPING (err_kind e) of
                 None \<Rightarrow> \<lparr>em_http_code = 500, em_grpc_status = ''INTERNAL'', em_reason = ''INTERNAL_ERROR''\<rparr>
               | Some m \<Rightarrow> m)
      in build_error_payload (em_http_code m) (em_grpc_status m) (err_message e)
           (build_error_details e))"
| "build_rest_error_payload (RestParseError m) =
     build_error_payload 400 ''INVALID_ARGUMENT'' m [mk_error_info ''INVALID_REQUEST'' None]"
| "build_rest_error_payload RestOther =
     build_error_payload 500 ''INTERNAL'' ''unknown exception'' []"

text \<open>The HTTP status of the response is the code of the payload.\<close>

definition create_error_response :: "rest_exn \<Rightarrow> int \<times> error_payload" where
  "create_error_response e = (let p = build_rest_error_payload e in (ep_code p, p))"

definition rest_error_handler :: "rest_exn + 'a \<Rightarrow> (int \<times> error_payload) + 'a" where
  "rest_error_handler r =
     (case r of Inl e \<Rightarrow> Inl (create_error_response e) | Inr x \<Rightarrow> Inr x)"

subsection \<open>Properties\<close>

lemma mapped_kinds_iff: "k \<in> set mapped_kinds \<longleftrightarrow> k \<noteq> JSONParseError"
  by (cases k) (simp_all add: mapped_kinds_def)

lemma reasons_distinct: "distinct (map (\<lambda>k. or_empty (A2A_ERROR_REASONS k)) mapped_kinds)"
  by (simp add: mapped_kinds_def A2A_ERROR_REASONS_def mapping_def)

lemma reason_to_error: "A2A_REASON_TO_ERROR reason = Some k \<longleftrightarrow> A2A_ERROR_REASONS k = Some reason"
proof -
  have "map_of (rev (map (\<lambda>k. (or_empty (A2A_ERROR_REASONS k), k)) mapped_kinds)) reason = Some k \<longleftrightarrow>
      (reason, k) \<in> set (map (\<lambda>k. (or_empty (A2A_ERROR_REASONS k), k)) mapped_kinds)"
    using reasons_distinct by (subst map_of_eq_Some_iff) (simp_all add: comp_def rev_map [symmetric])
  also have "\<dots> \<longleftrightarrow> k \<noteq> JSONParseError \<and> reason = or_empty (A2A_ERROR_REASONS k)"
    by (auto simp: mapped_kinds_iff)
  also have "\<dots> \<longleftrightarrow> A2A_ERROR_REASONS k = Some reason"
    by (cases k) (auto simp: A2A_ERROR_REASONS_def mapping_def)
  finally show ?thesis by (simp add: A2A_REASON_TO_ERROR_def)
qed

lemma build_error_details_info:
  "\<exists>i ds. build_error_details e = ErrorInfo i # ds \<and>
     ei_reason i = (case A2A_ERROR_REASONS (err_kind e) of None \<Rightarrow> ''UNKNOWN_ERROR'' | Some r \<Rightarrow> r)"
  by (auto simp: build_error_details_def mk_error_info_def Let_def split: option.split list.split)

lemma payload_reason:
  "\<exists>i ds. ep_details (build_rest_error_payload (RestA2A e)) = Some (ErrorInfo i # ds) \<and>
     A2A_REASON_TO_ERROR (ei_reason i) = (if err_kind e = JSONParseError then None else Some (err_kind e))"
proof -
  obtain i ds where i: "build_error_details e = ErrorInfo i # ds"
    "ei_reason i = (case A2A_ERROR_REASONS (err_kind e) of None \<Rightarrow> ''UNKNOWN_ERROR'' | Some r \<Rightarrow> r)"
    using build_error_details_info by blast
  have "A2A_REASON_TO_ERROR (ei_reason i) = (if err_kind e = JSONParseError then None else Some (err_kind e))"
  proof (cases "err_kind e = JSONParseError")
    case True
    then have "ei_reason i = ''UNKNOWN_ERROR''" by (simp add: i(2) A2A_ERROR_REASONS_def)
    moreover have "A2A_ERROR_REASONS k \<noteq> Some ''UNKNOWN_ERROR''" for k
      by (cases k) (simp_all add: A2A_ERROR_REASONS_def mapping_def)
    ultimately have "A2A_REASON_TO_ERROR (ei_reason i) \<noteq> Some k" for k
      by (simp add: reason_to_error)
    with True show ?thesis by (cases "A2A_REASON_TO_ERROR (ei_reason i)") auto
  next
    case False
    then have "A2A_ERROR_REASONS (err_kind e) \<noteq> None"
      by (cases "err_kind e") (simp_all add: A2A_ERROR_REASONS_def mapping_def)
    then have "A2A_ERROR_REASONS (err_kind e) = Some (ei_reason i)"
      by (auto simp: i(2))
    with False show ?thesis by (simp add: reason_to_error)
  qed
  with i(1) show ?thesis
    by (intro exI [of _ i] exI [of _ ds]) (simp add: build_error_payload_def Let_def)
qed

end
