(* ===== verification/Page_Token.thy ===== *)
theory Page_Token
  imports A2A_Errors
begin

text \<open>
  The cursor of \<open>tasks/list\<close>: \<open>encode_page_token\<close> and \<open>decode_page_token\<close> of
  \<^verbatim>\<open>utils/task.py\<close>, with what they use of the standard library: UTF-8 (strict) and
  Base64 (\<open>b64encode\<close>, and \<open>b64decode\<close> in its default mode, which skips characters
  outside the alphabet and stops at complete padding).
\<close>

subsection \<open>UTF-8\<close>

definition is_surrogate :: "nat \<Rightarrow> bool" where
  "is_surrogate c \<longleftrightarrow> 0xD800 \<le> c \<and> c < 0xE000"

definition is_scalar :: "nat \<Rightarrow> bool" where
  "is_scalar c \<longleftrightarrow> c < 0x110000 \<and> \<not> is_surrogate c"

text \<open>The encoding of one code point, as numbers below 256; surrogates have none.\<close>

definition utf8_char :: "nat \<Rightarrow> nat list" where
  "utf8_char c =
     (if c < 0x80 then [c]
      else if c < 0x800 then [0xC0 + c div 64, 0x80 + c mod 64]
      else if c < 0x10000 then [0xE0 + c div 4096, 0x80 + (c div 64) mod 64, 0x80 + c mod 64]
      else [0xF0 + c div 262144, 0x80 + (c div 4096) mod 64, 0x80 + (c div 64) mod 64,
            0x80 + c mod 64])"

fun utf8_encode :: "ustr \<Rightarrow> nat list option" where
  "utf8_encode [] = Some []"
| "utf8_encode (c # cs) =
     (if is_scalar c then map_option (\<lambda>r. utf8_char c @ r) (utf8_encode cs) else None)"

definition is_cont :: "nat \<Rightarrow> bool" where
  "is_cont b \<longleftrightarrow> 0x80 \<le> b \<and> b < 0xC0"

text \<open>
  The strict decoder: shortest forms only, no surrogates, nothing above \<open>U+10FFFF\<close>.
  \<open>None\<close> is \<^verbatim>\<open>UnicodeDecodeError\<close>.
\<close>

fun utf8_decode :: "nat list \<Rightarrow> ustr option" where
  "utf8_decode [] = Some []"
| "utf8_decode (a # bs) =
     (if a < 0x80 then map_option (\<lambda>r. a # r) (utf8_decode bs)
      else if 0xC2 \<le> a \<and> a < 0xE0 then
        (case bs of b # rest \<Rightarrow>
           if is_cont b then map_option (\<lambda>r. ((a - 0xC0) * 64 + (b - 0x80)) # r) (utf8_decode rest)
           else None
         | _ \<Rightarrow> None)
      else if 0xE0 \<le> a \<and> a < 0xF0 then
        (case bs of b # c # rest \<Rightarrow>
           let v = (a - 0xE0) * 4096 + (b - 0x80) * 64 + (c - 0x80)
           in if is_cont b \<and> is_cont c \<and> 0x800 \<le> v \<and> \<not> is_surrogate v
              then map_option (\<lambda>r. v # r) (utf8_decode rest) else None
         | _ \<Rightarrow> None)
      else if 0xF0 \<le> a \<and> a < 0xF5 then
        (case bs of b # c # d # rest \<Rightarrow>
           let v = (a - 0xF0) * 262144 + (b - 0x80) * 4096 + (c - 0x80) * 64 + (d - 0x80)
           in if is_cont b \<and> is_cont c \<and> is_cont d \<and> 0x10000 \<le> v \<and> v < 0x110000
              then map_option (\<lambda>r. v # r) (utf8_decode rest) else None
         | _ \<Rightarrow> None)
      else None)"

declare utf8_decode.simps(2) [simp del]

lemma utf8_char_range: "is_scalar c \<Longrightarrow> b \<in> set (utf8_char c) \<Longrightarrow> b < 256"
  by (auto simp: utf8_char_def is_scalar_def split: if_splits)

lemma utf8_encode_range: "utf8_encode cs = Some bs \<Longrightarrow> b \<in> set bs \<Longrightarrow> b < 256"
  by (induction cs arbitrary: bs) (auto split: if_splits dest: utf8_char_range)

text \<open>The decoder on one well-formed sequence, by the number of its bytes.\<close>

lemma utf8_decode_1: "a < 0x80 \<Longrightarrow> utf8_decode (a # r) = map_option ((#) a) (utf8_decode r)"
  by (simp add: utf8_decode.simps(2) [of a r])

lemma utf8_decode_2:
  assumes "2 \<le> x" "x < 32" "y < 64"
  shows "utf8_decode ((0xC0 + x) # (0x80 + y) # r) = map_option ((#) (x * 64 + y)) (utf8_decode r)"
  using assms by (simp add: utf8_decode.simps(2) [of "0xC0 + x"] is_cont_def)

lemma utf8_decode_3:
  assumes "x < 16" "y < 64" "z < 64" "0x800 \<le> x * 4096 + y * 64 + z"
    "\<not> is_surrogate (x * 4096 + y * 64 + z)"
  shows "utf8_decode ((0xE0 + x) # (0x80 + y) # (0x80 + z) # r) =
    map_option ((#) (x * 4096 + y * 64 + z)) (utf8_decode r)"
  using assms by (simp add: utf8_decode.simps(2) [of "0xE0 + x"] is_cont_def Let_def)

lemma utf8_decode_4:
  assumes "x < 5" "y < 64" "z < 64" "w < 64"
    "0x10000 \<le> x * 262144 + y * 4096 + z * 64 + w" "x * 262144 + y * 4096 + z * 64 + w < 0x110000"
  shows "utf8_decode ((0xF0 + x) # (0x80 + y) # (0x80 + z) # (0x80 + w) # r) =
    map_option ((#) (x * 262144 + y * 4096 + z * 64 + w)) (utf8_decode r)"
  using assms by (simp add: utf8_decode.simps(2) [of "0xF0 + x"] is_cont_def Let_def)

lemma utf8_decode_char:
  assumes "is_scalar c"
  shows "utf8_decode (utf8_char c @ rest) = map_option ((#) c) (utf8_decode rest)"
proof -
  have split2: "(c div 64) * 64 + c mod 64 = c"
    by simp
  have d12: "c div 4096 = c div 64 div 64" and d18: "c div 262144 = c div 4096 div 64"
    by (simp_all add: div_mult2_eq [symmetric])
  have p12: "c div 4096 * 64 + c div 64 mod 64 = c div 64"
    unfolding d12 by (rule div_mult_mod_eq)
  have p18: "c div 262144 * 64 + c div 4096 mod 64 = c div 4096"
    unfolding d18 by (rule div_mult_mod_eq)
  have split3: "c div 4096 * 4096 + (c div 64 mod 64) * 64 + c mod 64 = c"
    using p12 split2 by linarith
  have split4: "c div 262144 * 262144 + (c div 4096 mod 64) * 4096 + (c div 64 mod 64) * 64 + c mod 64 = c"
    using p18 p12 split2 by linarith
  have top: "c < 0x110000" and nosur: "\<not> is_surrogate c"
    using assms by (auto simp: is_scalar_def)
  consider "c < 0x80" | "0x80 \<le> c" "c < 0x800" | "0x800 \<le> c" "c < 0x10000" | "0x10000 \<le> c"
    by linarith
  then show ?thesis
  proof cases
    case 1
    then show ?thesis by (simp add: utf8_char_def utf8_decode_1)
  next
    case 2
    then have "2 \<le> c div 64" "c div 64 < 32" by auto
    from utf8_decode_2 [OF this, of "c mod 64" rest] 2 split2 show ?thesis
      by (simp add: utf8_char_def)
  next
    case 3
    then have "c div 4096 < 16" by auto
    from utf8_decode_3 [OF this, of "c div 64 mod 64" "c mod 64" rest] 3 nosur show ?thesis
      unfolding split3 by (simp add: utf8_char_def)
  next
    case 4
    then have "c div 262144 < 5" using top by auto
    from utf8_decode_4 [OF this, of "c div 4096 mod 64" "c div 64 mod 64" "c mod 64" rest] 4 top
    show ?thesis
      unfolding split4 by (simp add: utf8_char_def)
  qed
qed

lemma utf8_roundtrip: "utf8_encode cs = Some bs \<Longrightarrow> utf8_decode bs = Some cs"
proof (induction cs arbitrary: bs)
  case Nil
  then show ?case by simp
next
  case (Cons c cs)
  from Cons.prems obtain r where "is_scalar c" "utf8_encode cs = Some r" "bs = utf8_char c @ r"
    by (auto split: if_splits)
  with Cons.IH show ?case by (simp add: utf8_decode_char)
qed

lemma utf8_encode_total: "(\<And>c. c \<in> set cs \<Longrightarrow> is_scalar c) \<Longrightarrow> \<exists>bs. utf8_encode cs = Some bs"
  by (induction cs) auto

text \<open>Every HOL character is a code point below 256, so a \<open>string\<close> always encodes.\<close>

lemma of_char_scalar: "is_scalar (of_char (ch :: char))"
proof -
  have "(of_char ch :: nat) < 256"
    using nat_of_char_less_256 [of ch] by simp
  then have "(of_char ch :: nat) < 0x110000" "(of_char ch :: nat) < 0xD800"
    by linarith+
  then show ?thesis by (simp add: is_scalar_def is_surrogate_def)
qed

lemma utf8_encode_string: "\<exists>bs. utf8_encode (to_ustr s) = Some bs"
  by (rule utf8_encode_total) (auto simp: to_ustr_def of_char_scalar)

subsection \<open>Base64\<close>

definition b64_alphabet :: string where
  "b64_alphabet = ''ABCDEFGHIJKLMNOPQRSTUVWXYZabcdefghijklmnopqrstuvwxyz0123456789+/''"

definition b64_char :: "nat \<Rightarrow> char" where
  "b64_char n = b64_alphabet ! n"

fun b64encode :: "nat list \<Rightarrow> string" where
  "b64encode [] = []"
| "b64encode [a] = [b64_char (a div 4), b64_char (a mod 4 * 16), CHR ''='', CHR ''='']"
| "b64encode [a, b] =
     [b64_char (a div 4), b64_char (a mod 4 * 16 + b div 16), b64_char (b mod 16 * 4), CHR ''='']"
| "b64encode (a # b # c # rest) =
     b64_char (a div 4) # b64_char (a mod 4 * 16 + b div 16) #
     b64_char (b mod 16 * 4 + c div 64) # b64_char (c mod 64) # b64encode rest"

fun index_of :: "'a \<Rightarrow> 'a list \<Rightarrow> nat option" where
  "index_of x [] = None"
| "index_of x (y # ys) = (if x = y then Some 0 else map_option Suc (index_of x ys))"

definition b64_val :: "char \<Rightarrow> nat option" where
  "b64_val ch = index_of ch b64_alphabet"

text \<open>
  The loop of \<^verbatim>\<open>binascii.a2b_base64\<close> with \<^verbatim>\<open>strict_mode=False\<close>: \<open>q\<close> counts the data
  characters of the current quad, \<open>left\<close> holds its unfinished bits, \<open>pads\<close> the padding
  characters since the last data character. \<open>None\<close> is \<^verbatim>\<open>binascii.Error\<close>.
\<close>

fun a2b_loop :: "nat \<Rightarrow> nat \<Rightarrow> nat \<Rightarrow> char list \<Rightarrow> nat list option" where
  "a2b_loop q left pads [] = (if q = 0 then Some [] else None)"
| "a2b_loop q left pads (ch # rest) =
     (if ch = CHR ''='' then
        (if 2 \<le> q then
           (if 4 \<le> q + Suc pads then Some [] else a2b_loop q left (Suc pads) rest)
         else a2b_loop q left pads rest)
      else (case b64_val ch of
              None \<Rightarrow> a2b_loop q left pads rest
            | Some v \<Rightarrow>
                (if q = 0 then a2b_loop 1 v 0 rest
                 else if q = 1 then map_option ((#) (left * 4 + v div 16)) (a2b_loop 2 (v mod 16) 0 rest)
                 else if q = 2 then map_option ((#) (left * 16 + v div 4)) (a2b_loop 3 (v mod 4) 0 rest)
                 else map_option ((#) (left * 64 + v)) (a2b_loop 0 0 0 rest))))"

definition b64decode :: "string \<Rightarrow> nat list option" where
  "b64decode s = a2b_loop 0 0 0 s"

lemma length_b64_alphabet: "length b64_alphabet = 64"
  by (simp add: b64_alphabet_def)

lemma index_of_nth: "distinct xs \<Longrightarrow> i < length xs \<Longrightarrow> index_of (xs ! i) xs = Some i"
  by (induction xs arbitrary: i) (auto simp: nth_Cons split: nat.splits)

lemma b64_val_char [simp]: "n < 64 \<Longrightarrow> b64_val (b64_char n) = Some n"
  unfolding b64_val_def b64_char_def
  by (rule index_of_nth) (simp_all add: b64_alphabet_def)

lemma b64_char_not_pad [simp]: "n < 64 \<Longrightarrow> b64_char n \<noteq> CHR ''=''"
proof -
  assume n: "n < 64"
  have "CHR ''='' \<notin> set b64_alphabet" by (simp add: b64_alphabet_def)
  moreover have "b64_char n \<in> set b64_alphabet"
    using n by (simp add: b64_char_def length_b64_alphabet)
  ultimately show ?thesis by metis
qed

lemma a2b_data [simp]:
  "v < 64 \<Longrightarrow> a2b_loop 0 l p (b64_char v # rest) = a2b_loop 1 v 0 rest"
  "v < 64 \<Longrightarrow> a2b_loop (Suc 0) l p (b64_char v # rest) =
     map_option ((#) (l * 4 + v div 16)) (a2b_loop 2 (v mod 16) 0 rest)"
  "v < 64 \<Longrightarrow> a2b_loop 2 l p (b64_char v # rest) =
     map_option ((#) (l * 16 + v div 4)) (a2b_loop 3 (v mod 4) 0 rest)"
  "v < 64 \<Longrightarrow> a2b_loop 3 l p (b64_char v # rest) = map_option ((#) (l * 64 + v)) (a2b_loop 0 0 0 rest)"
  by simp_all

declare a2b_loop.simps(2) [simp del]

lemma a2b_pad: "a2b_loop 2 l 0 (CHR ''='' # CHR ''='' # rest) = Some []"
  "a2b_loop 3 l 0 (CHR ''='' # rest) = Some []"
  by (simp_all add: a2b_loop.simps)

text \<open>
  Decoding the first characters of an encoding: a complete quad gives its three bytes and
  continues; the padded quads end.
\<close>

lemma divmod_digit: "(r::nat) < k \<Longrightarrow> (q * k + r) div k = q" "(r::nat) < k \<Longrightarrow> (q * k + r) mod k = r"
  by simp_all

lemma byte_halves:
  fixes a b :: nat
  assumes "a < 256" "b < 256"
  shows "a div 4 < 64" "a mod 4 * 16 + b div 16 < 64" "a mod 4 * 16 < 64" "b mod 16 * 4 < 64"
    "(a div 4) * 4 + (a mod 4 * 16 + b div 16) div 16 = a"
    "(a div 4) * 4 + (a mod 4 * 16) div 16 = a"
    "(a mod 4 * 16 + b div 16) mod 16 * 16 + (b mod 16 * 4) div 4 = b"
proof -
  have b16: "b div 16 < 16" and a4: "a mod 4 < 4" and "b mod 16 < 16"
    using assms by auto
  then show "a div 4 < 64" "a mod 4 * 16 + b div 16 < 64" "a mod 4 * 16 < 64" "b mod 16 * 4 < 64"
    using assms by auto
  show "(a div 4) * 4 + (a mod 4 * 16 + b div 16) div 16 = a"
    by (simp only: divmod_digit [OF b16]) (rule div_mult_mod_eq)
  show "(a div 4) * 4 + (a mod 4 * 16) div 16 = a"
    by simp
  show "(a mod 4 * 16 + b div 16) mod 16 * 16 + (b mod 16 * 4) div 4 = b"
    by (simp only: divmod_digit [OF b16]) simp
qed

lemma b64decode_quad:
  assumes "a < 256" "b < 256" "c < 256"
  shows "a2b_loop 0 l p (b64_char (a div 4) # b64_char (a mod 4 * 16 + b div 16) #
           b64_char (b mod 16 * 4 + c div 64) # b64_char (c mod 64) # rest) =
         map_option (\<lambda>r. a # b # c # r) (a2b_loop 0 0 0 rest)"
proof -
  have b16: "b div 16 < 16" and c64: "c div 64 < 4" "c mod 64 < 64" and bm: "b mod 16 < 16"
    using assms by auto
  note h = byte_halves [OF assms(1,2)]
  have s2: "(a mod 4 * 16 + b div 16) mod 16 * 16 + (b mod 16 * 4 + c div 64) div 4 = b"
    by (simp only: divmod_digit [OF b16] divmod_digit [OF c64(1)]) simp
  have s3: "(b mod 16 * 4 + c div 64) mod 4 * 64 + c mod 64 = c"
    by (simp only: divmod_digit [OF c64(1)]) simp
  have r: "b mod 16 * 4 + c div 64 < 64"
    using bm c64 by linarith
  show ?thesis
    by (simp only: a2b_data One_nat_def h r c64 s2 s3 option.map_comp comp_def)
qed

lemma b64_roundtrip: "(\<And>b. b \<in> set bs \<Longrightarrow> b < 256) \<Longrightarrow> b64decode (b64encode bs) = Some bs"
  unfolding b64decode_def
proof (induction bs rule: b64encode.induct)
  case 1
  then show ?case by simp
next
  case (2 a)
  then have "a < 256" by simp
  note h = byte_halves [OF this, of 0, simplified]
  from h show ?case by (simp add: a2b_pad)
next
  case (3 a b)
  then have "a < 256" "b < 256" by simp_all
  note h = byte_halves [OF this]
  from h show ?case by (simp add: a2b_pad)
next
  case (4 a b c rest)
  then show ?case by (simp add: b64decode_quad)
qed

lemma length_b64encode: "length (b64encode bs) mod 4 = 0"
  by (induction bs rule: b64encode.induct) simp_all

subsection \<open>Page tokens\<close>

definition encode_page_token :: "string \<Rightarrow> string" where
  "encode_page_token tid = b64encode (the (utf8_encode (to_ustr tid)))"

text \<open>
  The characters of the token reach the decoder as UTF-8 bytes; a byte of a non-ASCII
  character is outside the alphabet and is skipped, like any other such character. The
  decoded text may hold code points beyond those of \<open>string\<close>, so the result is a \<open>ustr\<close>.
\<close>

definition pad_token :: "string \<Rightarrow> string" where
  "pad_token s =
     (let missing_padding = length s mod 4
      in if missing_padding \<noteq> 0 then s @ replicate (4 - missing_padding) (CHR ''='') else s)"

definition decode_page_token :: "string \<Rightarrow> exn + ustr" where
  "decode_page_token tok =
     (case b64decode (pad_token tok) of
        None \<Rightarrow> Inl (A2A (err_msg InvalidParamsError ''Token is not a valid base64-encoded cursor.''))
      | Some bs \<Rightarrow>
          (case utf8_decode bs of
             None \<Rightarrow> Inl (A2A (err_msg InvalidParamsError ''Token is not a valid base64-encoded cursor.''))
           | Some cs \<Rightarrow> Inr cs))"

lemma decode_encode_token: "decode_page_token (encode_page_token tid) = Inr (to_ustr tid)"
proof -
  obtain bs where bs: "utf8_encode (to_ustr tid) = Some bs"
    using utf8_encode_string by blast
  then have "b64decode (b64encode bs) = Some bs" "utf8_decode bs = Some (to_ustr tid)"
    by (auto intro: b64_roundtrip utf8_encode_range utf8_roundtrip)
  then show ?thesis
    by (simp add: decode_page_token_def encode_page_token_def pad_token_def bs
        length_b64encode)
qed

lemma decode_page_token_error:
  "decode_page_token tok = Inl e \<Longrightarrow> is_a2a_kind InvalidParamsError e"
  by (auto simp: decode_page_token_def split: option.splits)

lemma encode_page_token_inj: "encode_page_token s = encode_page_token t \<longleftrightarrow> s = t"
  by (metis decode_encode_token sum.inject(2) to_ustr_inj)

end
