(* ===== verification/Task_Store.thy ===== *)
theory Task_Store
  imports Page_Token
begin

text \<open>
  The task store: the interface \<open>TaskStore\<close> as the locale \<open>task_store\<close>, and
  \<^verbatim>\<open>_InMemoryTaskStoreImpl\<close> of \<^verbatim>\<open>server/tasks/inmemory_task_store.py\<close>, which keeps the
  dictionary \<open>owner \<rightarrow> task id \<rightarrow> task\<close>. Its operations run under one lock, so each is
  one step. The owner of a call is computed by the \<open>owner_resolver\<close> argument.
  \<open>Timestamp.ToJsonString\<close> belongs to the protobuf package and is the argument \<open>tjs\<close>.
\<close>

subsection \<open>Python's indexing and slicing\<close>

definition py_index :: "'a list \<Rightarrow> int \<Rightarrow> exn + 'a" where
  "py_index xs i =
     (if i < - int (length xs) \<or> int (length xs) \<le> i then Inl IndexError
      else if i < 0 then Inr (xs ! nat (int (length xs) + i)) else Inr (xs ! nat i))"

definition clip :: "nat \<Rightarrow> int \<Rightarrow> nat" where
  "clip n i = (let j = (if i < 0 then int n + i else i) in min n (nat j))"

definition py_slice :: "'a list \<Rightarrow> int \<Rightarrow> int \<Rightarrow> 'a list" where
  "py_slice xs a b = take (clip (length xs) b - clip (length xs) a) (drop (clip (length xs) a) xs)"

lemma py_slice_nonneg: "py_slice xs (int a) (int a + int n) = take n (drop a xs)"
proof (cases "a \<le> length xs")
  case True
  then show ?thesis
    by (auto simp: py_slice_def clip_def Let_def min_def nat_add_distrib)
next
  case False
  then show ?thesis by (simp add: py_slice_def clip_def Let_def)
qed

lemma py_index_nonneg: "i < length xs \<Longrightarrow> py_index xs (int i) = Inr (xs ! i)"
  by (simp add: py_index_def Let_def)

text \<open>\<^verbatim>\<open>tasks.sort(key=..., reverse=True)\<close>: stable, in descending order of the key.\<close>

definition py_sort_reverse :: "('a \<Rightarrow> 'k::linorder) \<Rightarrow> 'a list \<Rightarrow> 'a list" where
  "py_sort_reverse key xs = rev (sort_key key (rev xs))"

lemma mset_py_sort_reverse [simp]: "set (py_sort_reverse key xs) = set xs"
  "length (py_sort_reverse key xs) = length xs"
  "distinct (map f (py_sort_reverse key xs)) \<longleftrightarrow> distinct (map f xs)"
proof -
  show "set (py_sort_reverse key xs) = set xs" "length (py_sort_reverse key xs) = length xs"
    by (simp_all add: py_sort_reverse_def)
  have "mset (map f (py_sort_reverse key xs)) = mset (map f xs)"
    by (simp add: py_sort_reverse_def)
  then show "distinct (map f (py_sort_reverse key xs)) \<longleftrightarrow> distinct (map f xs)"
    by (rule mset_eq_imp_distinct_iff)
qed

lemma sorted_py_sort_reverse: "sorted_wrt (\<ge>) (map key (py_sort_reverse key xs))"
proof -
  have "sorted (map key (sort_key key (rev xs)))" by simp
  then have "sorted_wrt (\<lambda>x y. y \<le> x) (rev (map key (sort_key key (rev xs))))"
    by (simp add: sorted_wrt_rev)
  then show ?thesis by (simp add: py_sort_reverse_def rev_map)
qed

subsection \<open>The interface\<close>

record 's store_ops =
  st_save :: "task \<Rightarrow> call_context \<Rightarrow> 's \<Rightarrow> 's"
  st_get :: "string \<Rightarrow> call_context \<Rightarrow> 's \<Rightarrow> task option"
  st_delete :: "string \<Rightarrow> call_context \<Rightarrow> 's \<Rightarrow> 's"

text \<open>
  What a \<open>TaskStore\<close> promises: it is a map from pairs of owner and task id, it keeps its
  invariant, and a task is found under its own id.
\<close>

locale task_store =
  fixes ops :: "'s store_ops"
    and owner :: "call_context \<Rightarrow> string"
    and sinv :: "'s \<Rightarrow> bool"
  assumes get_save:
      "sinv s \<Longrightarrow> st_get ops i c' (st_save ops t c s) =
         (if owner c' = owner c \<and> i = task_id t then Some t else st_get ops i c' s)"
    and get_delete:
      "sinv s \<Longrightarrow> st_get ops i c' (st_delete ops j c s) =
         (if owner c' = owner c \<and> i = j then None else st_get ops i c' s)"
    and inv_save: "sinv s \<Longrightarrow> sinv (st_save ops t c s)"
    and inv_delete: "sinv s \<Longrightarrow> sinv (st_delete ops j c s)"
    and get_id: "sinv s \<Longrightarrow> st_get ops i c s = Some t \<Longrightarrow> task_id t = i"
begin

lemma get_save_same: "sinv s \<Longrightarrow> st_get ops (task_id t) c (st_save ops t c s) = Some t"
  by (simp add: get_save)

lemma get_save_other_owner:
  "sinv s \<Longrightarrow> owner c' \<noteq> owner c \<Longrightarrow> st_get ops i c' (st_save ops t c s) = st_get ops i c' s"
  by (simp add: get_save)

lemma get_save_other_id:
  "sinv s \<Longrightarrow> i \<noteq> task_id t \<Longrightarrow> st_get ops i c' (st_save ops t c s) = st_get ops i c' s"
  by (simp add: get_save)

lemma save_save:
  "sinv s \<Longrightarrow> task_id t = task_id u \<Longrightarrow>
     st_get ops i c' (st_save ops t c (st_save ops u c s)) = st_get ops i c' (st_save ops t c s)"
  by (simp add: get_save inv_save)

end

subsection \<open>The in-memory store\<close>

record in_memory_store =
  ims_tasks :: "(string, (string, task) dict) dict"

definition ims_empty :: in_memory_store where
  "ims_empty = \<lparr>ims_tasks = []\<rparr>"

definition get_owner_tasks :: "string \<Rightarrow> in_memory_store \<Rightarrow> (string, task) dict" where
  "get_owner_tasks ow s = (case map_of (ims_tasks s) ow of None \<Rightarrow> [] | Some d \<Rightarrow> d)"

definition ims_save ::
  "(call_context \<Rightarrow> string) \<Rightarrow> task \<Rightarrow> call_context \<Rightarrow> in_memory_store \<Rightarrow> in_memory_store" where
  "ims_save resolver t c s =
     (let ow = resolver c; owner_tasks = get_owner_tasks ow s
      in s\<lparr>ims_tasks := AList.update ow (AList.update (task_id t) t owner_tasks) (ims_tasks s)\<rparr>)"

definition ims_get ::
  "(call_context \<Rightarrow> string) \<Rightarrow> string \<Rightarrow> call_context \<Rightarrow> in_memory_store \<Rightarrow> task option" where
  "ims_get resolver i c s = map_of (get_owner_tasks (resolver c) s) i"

definition ims_delete ::
  "(call_context \<Rightarrow> string) \<Rightarrow> string \<Rightarrow> call_context \<Rightarrow> in_memory_store \<Rightarrow> in_memory_store" where
  "ims_delete resolver i c s =
     (let ow = resolver c; owner_tasks = get_owner_tasks ow s
      in if map_of owner_tasks i = None then s
         else let owner_tasks' = AList.delete i owner_tasks
              in if owner_tasks' = [] then s\<lparr>ims_tasks := AList.delete ow (ims_tasks s)\<rparr>
                 else s\<lparr>ims_tasks := AList.update ow owner_tasks' (ims_tasks s)\<rparr>)"

definition ims_ops :: "(call_context \<Rightarrow> string) \<Rightarrow> in_memory_store store_ops" where
  "ims_ops resolver =
     \<lparr>st_save = ims_save resolver, st_get = ims_get resolver, st_delete = ims_delete resolver\<rparr>"

lemma ims_ops_simps [simp]:
  "st_save (ims_ops r) = ims_save r" "st_get (ims_ops r) = ims_get r"
  "st_delete (ims_ops r) = ims_delete r"
  by (simp_all add: ims_ops_def)

text \<open>
  The invariant: both levels are dictionaries, a task is stored under its id, and no owner is
  kept without a task.
\<close>

definition owner_ok :: "string \<Rightarrow> (string, task) dict \<Rightarrow> bool" where
  "owner_ok ow d \<longleftrightarrow> d \<noteq> [] \<and> dict_all (\<lambda>i t. task_id t = i) d"

definition ims_ok :: "in_memory_store \<Rightarrow> bool" where
  "ims_ok s \<longleftrightarrow> dict_all owner_ok (ims_tasks s)"

lemma ims_ok_empty [simp]: "ims_ok ims_empty"
  by (simp add: ims_ok_def ims_empty_def)

lemma owner_tasks_ok: "ims_ok s \<Longrightarrow> dict_all (\<lambda>i t. task_id t = i) (get_owner_tasks ow s)"
  by (auto simp: get_owner_tasks_def ims_ok_def owner_ok_def split: option.splits dest: dict_allD)

lemmas owner_tasks_dict_ok = owner_tasks_ok [THEN dict_all_ok]
lemmas owner_tasks_id = owner_tasks_ok [THEN dict_allD]

lemma get_owner_tasks_save:
  "get_owner_tasks ow (ims_save r t c s) =
     (if ow = r c then AList.update (task_id t) t (get_owner_tasks ow s) else get_owner_tasks ow s)"
  by (simp add: ims_save_def get_owner_tasks_def Let_def)

lemma get_owner_tasks_delete:
  "ims_ok s \<Longrightarrow> get_owner_tasks ow (ims_delete r i c s) =
     (if ow = r c then AList.delete i (get_owner_tasks ow s) else get_owner_tasks ow s)"
proof -
  have "AList.delete i (get_owner_tasks ow s) = get_owner_tasks ow s"
    if "map_of (get_owner_tasks ow s) i = None" for ow
    using that by (simp add: map_of_eq_None_iff delete_idem)
  then show ?thesis
    by (auto simp: ims_delete_def get_owner_tasks_def Let_def)
qed

lemma ims_ok_save: "ims_ok s \<Longrightarrow> ims_ok (ims_save r t c s)"
  using owner_tasks_ok [of s "r c"]
  by (simp add: ims_ok_def ims_save_def Let_def dict_all_update owner_ok_def)

lemma ims_ok_delete: "ims_ok s \<Longrightarrow> ims_ok (ims_delete r i c s)"
  using owner_tasks_ok [of s "r c"]
  by (simp add: ims_ok_def ims_delete_def Let_def dict_all_update dict_all_delete owner_ok_def)

interpretation ims: task_store "ims_ops r" r ims_ok for r
proof
  fix s :: in_memory_store and i c t c' j
  assume s: "ims_ok s"
  show "st_get (ims_ops r) i c' (st_save (ims_ops r) t c s) =
      (if r c' = r c \<and> i = task_id t then Some t else st_get (ims_ops r) i c' s)"
    by (simp add: ims_get_def get_owner_tasks_save)
  show "st_get (ims_ops r) i c' (st_delete (ims_ops r) j c s) =
      (if r c' = r c \<and> i = j then None else st_get (ims_ops r) i c' s)"
    using s by (simp add: ims_get_def get_owner_tasks_delete)
  show "ims_ok (st_save (ims_ops r) t c s)" "ims_ok (st_delete (ims_ops r) j c s)"
    using s by (simp_all add: ims_ok_save ims_ok_delete)
  assume "st_get (ims_ops r) i c s = Some t"
  then show "task_id t = i"
    using owner_tasks_id [OF s] by (auto simp: ims_get_def)
qed

end
