(* ===== verification/Task_List.thy ===== *)
theory Task_List
  imports Task_Store
begin

text \<open>
  Listing tasks: the filters, the order and the pagination of
  \<^verbatim>\<open>_InMemoryTaskStoreImpl.list\<close>, and the history and page-size helpers of
  \<^verbatim>\<open>utils/task.py\<close>.
\<close>

subsection \<open>History length and page size\<close>

definition DEFAULT_LIST_TASKS_PAGE_SIZE :: int where
  "DEFAULT_LIST_TASKS_PAGE_SIZE = 50"

definition MAX_LIST_TASKS_PAGE_SIZE :: int where
  "MAX_LIST_TASKS_PAGE_SIZE = 100"

text \<open>The argument is the optional field \<open>history_length\<close>; unset, it reads as 0.\<close>

definition validate_history_length :: "int option \<Rightarrow> exn + unit" where
  "validate_history_length h =
     (if (case h of None \<Rightarrow> 0 | Some n \<Rightarrow> n) < 0
      then Inl (A2A (err_msg InvalidParamsError ''history length must be non-negative''))
      else Inr ())"

definition apply_history_length :: "task \<Rightarrow> int option \<Rightarrow> task" where
  "apply_history_length t h =
     (case h of
        None \<Rightarrow> t
      | Some n \<Rightarrow>
          if n = 0 then (if task_history t = [] then t else t\<lparr>task_history := []\<rparr>)
          else if 0 < n \<and> task_history t \<noteq> [] then
            (if int (length (task_history t)) \<le> n then t
             else t\<lparr>task_history := drop (length (task_history t) - nat n) (task_history t)\<rparr>)
          else t)"

definition validate_page_size :: "int \<Rightarrow> exn + unit" where
  "validate_page_size n =
     (if n < 1 then Inl (A2A (err_msg InvalidParamsError ''minimum page size is 1''))
      else if MAX_LIST_TASKS_PAGE_SIZE < n
      then Inl (A2A (err_msg InvalidParamsError ''maximum page size is 100''))
      else Inr ())"

lemma validate_page_size_Inr: "validate_page_size n = Inr u \<longleftrightarrow> 1 \<le> n \<and> n \<le> 100"
  by (auto simp: validate_page_size_def MAX_LIST_TASKS_PAGE_SIZE_def)

lemma validate_history_length_Inr:
  "validate_history_length h = Inr u \<longleftrightarrow> (\<forall>n. h = Some n \<longrightarrow> 0 \<le> n)"
  by (cases h) (auto simp: validate_history_length_def)

lemma apply_history_length_eq:
  assumes "0 \<le> n"
  shows "apply_history_length t (Some n) =
    t\<lparr>task_history := drop (length (task_history t) - nat n) (task_history t)\<rparr>"
  using assms by (auto simp: apply_history_length_def)

lemma apply_history_length_fields [simp]:
  "task_id (apply_history_length t h) = task_id t"
  "task_status (apply_history_length t h) = task_status t"
  "task_artifacts (apply_history_length t h) = task_artifacts t"
  by (simp_all add: apply_history_length_def split: option.split)

subsection \<open>The sort key\<close>

datatype list_key = ListKey (lk_has: bool) (lk_time: string) (lk_id: string)

text \<open>Python compares the key tuples lexicographically.\<close>

instantiation list_key :: linorder
begin

definition less_eq_list_key :: "list_key \<Rightarrow> list_key \<Rightarrow> bool" where
  "less_eq_list_key a b \<longleftrightarrow> (lk_has a, lk_time a, lk_id a) \<le> (lk_has b, lk_time b, lk_id b)"

definition less_list_key :: "list_key \<Rightarrow> list_key \<Rightarrow> bool" where
  "less_list_key a b \<longleftrightarrow> (lk_has a, lk_time a, lk_id a) < (lk_has b, lk_time b, lk_id b)"

instance
  by standard
    (auto simp: less_eq_list_key_def less_list_key_def list_key.expand less_le_not_le
      intro: order_trans list_key.expand)

end

definition has_timestamp :: "task \<Rightarrow> bool" where
  "has_timestamp t \<longleftrightarrow>
     (case task_status t of None \<Rightarrow> False | Some st \<Rightarrow> status_timestamp st \<noteq> None)"

definition time_string :: "(timestamp \<Rightarrow> string) \<Rightarrow> task \<Rightarrow> string" where
  "time_string tjs t =
     (case task_status t of
        None \<Rightarrow> []
      | Some st \<Rightarrow> (case status_timestamp st of None \<Rightarrow> [] | Some ts \<Rightarrow> tjs ts))"

definition list_key :: "(timestamp \<Rightarrow> string) \<Rightarrow> task \<Rightarrow> list_key" where
  "list_key tjs t = ListKey (has_timestamp t) (time_string tjs t) (task_id t)"

subsection \<open>Filters\<close>

definition filter_tasks ::
  "(timestamp \<Rightarrow> string) \<Rightarrow> list_tasks_request \<Rightarrow> task list \<Rightarrow> task list" where
  "filter_tasks tjs req ts =
     (let ts1 = (if lr_context_id req \<noteq> []
                 then filter (\<lambda>t. task_context_id t = lr_context_id req) ts else ts);
          ts2 = (if lr_status req \<noteq> TASK_STATE_UNSPECIFIED
                 then filter (\<lambda>t. task_state_of t = lr_status req) ts1 else ts1)
      in (case lr_status_timestamp_after req of
            None \<Rightarrow> ts2
          | Some a \<Rightarrow> filter (\<lambda>t. has_timestamp t \<and> tjs a \<le> time_string tjs t) ts2))"

text \<open>What the filters select, as one predicate.\<close>

definition list_matches ::
  "(timestamp \<Rightarrow> string) \<Rightarrow> list_tasks_request \<Rightarrow> task \<Rightarrow> bool" where
  "list_matches tjs req t \<longleftrightarrow>
     (lr_context_id req = [] \<or> task_context_id t = lr_context_id req) \<and>
     (lr_status req = TASK_STATE_UNSPECIFIED \<or> task_state_of t = lr_status req) \<and>
     (\<forall>a. lr_status_timestamp_after req = Some a \<longrightarrow> has_timestamp t \<and> tjs a \<le> time_string tjs t)"

lemma filter_tasks_eq: "filter_tasks tjs req ts = filter (list_matches tjs req) ts"
  by (auto simp: filter_tasks_def list_matches_def Let_def intro!: filter_cong split: option.split)

subsection \<open>Pagination\<close>

definition page_start :: "list_tasks_request \<Rightarrow> task list \<Rightarrow> exn + nat" where
  "page_start req ts =
     (if lr_page_token req = [] then Inr 0
      else rbind (decode_page_token (lr_page_token req)) (\<lambda>start_id.
        (case index_of start_id (map (\<lambda>t. to_ustr (task_id t)) ts) of
           Some i \<Rightarrow> Inr i
         | None \<Rightarrow> Inl (A2A (err_msg InvalidParamsError
                      (''Invalid page token: '' @ lr_page_token req))))))"

definition page_size_of :: "list_tasks_request \<Rightarrow> int" where
  "page_size_of req =
     (case lr_page_size req of
        None \<Rightarrow> DEFAULT_LIST_TASKS_PAGE_SIZE
      | Some n \<Rightarrow> if n = 0 then DEFAULT_LIST_TASKS_PAGE_SIZE else n)"

definition paginate :: "list_tasks_request \<Rightarrow> task list \<Rightarrow> exn + list_tasks_response" where
  "paginate req ts =
     rbind (page_start req ts) (\<lambda>start_idx.
       let page_size = page_size_of req; end_idx = int start_idx + page_size
       in rbind (if end_idx < int (length ts)
                 then rbind (py_index ts end_idx) (\<lambda>t. Inr (encode_page_token (task_id t)))
                 else Inr [])
            (\<lambda>next. Inr \<lparr>lresp_tasks = py_slice ts (int start_idx) end_idx,
                          lresp_next_page_token = next,
                          lresp_page_size = page_size,
                          lresp_total_size = int (length ts)\<rparr>))"

definition ims_selected ::
  "(call_context \<Rightarrow> string) \<Rightarrow> (timestamp \<Rightarrow> string) \<Rightarrow> list_tasks_request \<Rightarrow> call_context \<Rightarrow>
   in_memory_store \<Rightarrow> task list" where
  "ims_selected resolver tjs req c s =
     py_sort_reverse (list_key tjs)
       (filter_tasks tjs req (map snd (get_owner_tasks (resolver c) s)))"

definition ims_list ::
  "(call_context \<Rightarrow> string) \<Rightarrow> (timestamp \<Rightarrow> string) \<Rightarrow> list_tasks_request \<Rightarrow> call_context \<Rightarrow>
   in_memory_store \<Rightarrow> exn + list_tasks_response" where
  "ims_list resolver tjs req c s = paginate req (ims_selected resolver tjs req c s)"

lemma index_of_map_nth:
  "distinct (map f xs) \<Longrightarrow> i < length xs \<Longrightarrow> index_of (f (xs ! i)) (map f xs) = Some i"
  using index_of_nth [of "map f xs" i] by simp

lemma distinct_to_ustr: "distinct (map task_id ts) \<Longrightarrow> distinct (map (\<lambda>t. to_ustr (task_id t)) ts)"
  by (auto simp: distinct_map inj_on_def)

lemma encode_page_token_Nil [simp]: "encode_page_token [] = []"
  by (simp add: encode_page_token_def to_ustr_def)

lemma encode_page_token_nonempty: "tid \<noteq> [] \<Longrightarrow> encode_page_token tid \<noteq> []"
  using encode_page_token_inj [of tid "[]"] by simp

text \<open>The page that a token of the \<open>i\<close>-th task asks for (no token: the first page).\<close>

definition token_at :: "task list \<Rightarrow> nat \<Rightarrow> string" where
  "token_at ts i = (if i = 0 \<or> length ts \<le> i then [] else encode_page_token (task_id (ts ! i)))"

lemma paginate_at:
  assumes "distinct (map task_id ts)" and ids: "\<forall>t \<in> set ts. task_id t \<noteq> []"
    and i: "i = 0 \<or> i < length ts" and tok: "lr_page_token req = token_at ts i"
    and n: "page_size_of req = int n" "0 < n"
  shows "paginate req ts = Inr \<lparr>lresp_tasks = take n (drop i ts),
     lresp_next_page_token = token_at ts (i + n),
     lresp_page_size = int n, lresp_total_size = int (length ts)\<rparr>"
proof -
  have "page_start req ts = Inr i"
  proof (cases "i = 0")
    case True
    then show ?thesis by (simp add: page_start_def tok token_at_def)
  next
    case False
    with i have lt: "i < length ts" by simp
    then have "lr_page_token req = encode_page_token (task_id (ts ! i))" "task_id (ts ! i) \<noteq> []"
      using False tok ids by (simp_all add: token_at_def)
    then show ?thesis
      using index_of_map_nth [OF distinct_to_ustr [OF assms(1)] lt]
      by (simp add: page_start_def encode_page_token_nonempty decode_encode_token)
  qed
  moreover have "py_slice ts (int i) (int i + int n) = take n (drop i ts)"
    by (rule py_slice_nonneg)
  moreover have "py_index ts (int i + int n) = Inr (ts ! (i + n))" if "i + n < length ts"
    using py_index_nonneg [OF that] by simp
  ultimately show ?thesis
    using n by (auto simp: paginate_def Let_def token_at_def)
qed

text \<open>A client that follows \<open>next_page_token\<close> until it is empty, with at most \<open>n\<close> calls.\<close>

fun collect_pages ::
  "nat \<Rightarrow> (list_tasks_request \<Rightarrow> exn + list_tasks_response) \<Rightarrow> list_tasks_request \<Rightarrow>
   (exn + task list) option" where
  "collect_pages 0 f req = None"
| "collect_pages (Suc n) f req =
     (case f req of
        Inl e \<Rightarrow> Some (Inl e)
      | Inr resp \<Rightarrow>
          if lresp_next_page_token resp = [] then Some (Inr (lresp_tasks resp))
          else map_option (\<lambda>r. rbind r (\<lambda>ts. Inr (lresp_tasks resp @ ts)))
                 (collect_pages n f (req\<lparr>lr_page_token := lresp_next_page_token resp\<rparr>)))"

lemma collect_pages_from:
  assumes "distinct (map task_id ts)" and "\<forall>t \<in> set ts. task_id t \<noteq> []"
    and "i = 0 \<or> i < length ts" and "lr_page_token req = token_at ts i"
    and "page_size_of req = int n" "0 < n" and "length ts - i < fuel"
  shows "collect_pages fuel (\<lambda>r. paginate r ts) req = Some (Inr (drop i ts))"
  using assms
proof (induction fuel arbitrary: i req)
  case 0
  then show ?case by simp
next
  case (Suc fuel)
  note page = paginate_at [OF Suc.prems(1-6)]
  show ?case
  proof (cases "i + n < length ts")
    case True
    then have ne: "token_at ts (i + n) \<noteq> []"
      using Suc.prems(2,6) by (auto simp: token_at_def encode_page_token_nonempty)
    have "collect_pages fuel (\<lambda>r. paginate r ts) (req\<lparr>lr_page_token := token_at ts (i + n)\<rparr>) =
      Some (Inr (drop (i + n) ts))"
      using Suc.prems True by (intro Suc.IH) (auto simp: page_size_of_def)
    then show ?thesis
      using ne by (simp add: page) (metis append_take_drop_id drop_drop add.commute)
  next
    case False
    then have "token_at ts (i + n) = []" by (simp add: token_at_def)
    with False show ?thesis by (simp add: page)
  qed
qed

lemma collect_pages_cong:
  "(\<And>r. f (req\<lparr>lr_page_token := r\<rparr>) = g (req\<lparr>lr_page_token := r\<rparr>)) \<Longrightarrow>
   collect_pages n f (req\<lparr>lr_page_token := tok\<rparr>) = collect_pages n g (req\<lparr>lr_page_token := tok\<rparr>)"
  by (induction n arbitrary: tok) (auto split: sum.split)

lemma owner_task_ids:
  assumes "ims_ok s"
  shows "map task_id (map snd (get_owner_tasks ow s)) = map fst (get_owner_tasks ow s)"
  using dict_all_set [OF owner_tasks_ok [OF assms]] by auto

lemma ims_selected_distinct:
  assumes "ims_ok s"
  shows "distinct (map task_id (ims_selected r tjs req c s))"
proof -
  have "distinct (map task_id (map snd (get_owner_tasks (r c) s)))"
    using owner_tasks_dict_ok [OF assms] by (simp only: owner_task_ids [OF assms] dict_ok_def)
  then show ?thesis
    by (simp add: ims_selected_def filter_tasks_eq distinct_map_filter)
qed

lemma set_ims_selected:
  assumes "ims_ok s"
  shows "set (ims_selected r tjs req c s) =
    {t. (\<exists>i. ims_get r i c s = Some t) \<and> list_matches tjs req t}"
  using values_map_of [OF owner_tasks_dict_ok [OF assms], of _ "r c"]
  by (auto simp: ims_selected_def filter_tasks_eq ims_get_def)

lemma list_matches_token [simp]: "list_matches tjs (req\<lparr>lr_page_token := tok\<rparr>) = list_matches tjs req"
  by (rule ext) (simp add: list_matches_def)

lemma ims_selected_token [simp]:
  "ims_selected r tjs (req\<lparr>lr_page_token := tok\<rparr>) c s = ims_selected r tjs req c s"
  by (simp add: ims_selected_def filter_tasks_eq)

subsection \<open>Properties\<close>

lemma list_all_pages:
  assumes "ims_ok s" and "\<forall>i t. ims_get r i c s = Some t \<longrightarrow> i \<noteq> []"
    and "lr_page_token req = []" and n: "0 < page_size_of req"
  shows "collect_pages (Suc (length (ims_selected r tjs req c s))) (\<lambda>q. ims_list r tjs q c s) req =
    Some (Inr (ims_selected r tjs req c s))"
proof -
  let ?L = "ims_selected r tjs req c s"
  have ids: "\<forall>t \<in> set ?L. task_id t \<noteq> []"
    using assms(2) ims.get_id [OF assms(1), of r] by (auto simp: set_ims_selected [OF assms(1)])
  have "collect_pages (Suc (length ?L)) (\<lambda>q. paginate q ?L) req = Some (Inr (drop 0 ?L))"
    by (rule collect_pages_from [OF ims_selected_distinct [OF assms(1)] ids, where n = "nat (page_size_of req)"])
       (use assms in \<open>auto simp: token_at_def\<close>)
  moreover have "collect_pages m (\<lambda>q. ims_list r tjs q c s) (req\<lparr>lr_page_token := tok\<rparr>) =
      collect_pages m (\<lambda>q. paginate q ?L) (req\<lparr>lr_page_token := tok\<rparr>)" for m tok
    by (rule collect_pages_cong) (simp add: ims_list_def)
  moreover have "req\<lparr>lr_page_token := []\<rparr> = req"
    using assms(3) by (cases req) simp
  ultimately show ?thesis by (metis drop0)
qed

lemma ims_selected_sorted: "sorted_wrt (\<ge>) (map (list_key tjs) (ims_selected r tjs req c s))"
  by (simp add: ims_selected_def sorted_py_sort_reverse)

end
