(* ===== verification/Task_Manager.thy ===== *)
theory Task_Manager
  imports Task_Store
begin

text \<open>
  \<^verbatim>\<open>TaskManager\<close> of \<^verbatim>\<open>server/tasks/task_manager.py\<close>, over any task store. Its state is the
  record \<open>task_manager\<close>: the attributes of the object and the store behind it. A method
  returns the new state together with its result or the exception it raises, since some
  attributes are assigned before an exception. The object handed to \<open>save_task_event\<close> is
  copied into the store by the copying adapter, so tasks are values here; the theory
  \<^verbatim>\<open>Copying_Store\<close> models the aliasing that the adapter prevents.
\<close>

subsection \<open>Artifacts\<close>

definition append_artifact_to_task :: "task \<Rightarrow> artifact_event \<Rightarrow> exn + task" where
  "append_artifact_to_task t ev =
     (let new = ae_artifact_of ev;
          idx = index_of (artifact_id new) (map artifact_id (task_artifacts t))
      in if \<not> ae_append ev then
           (case idx of
              Some i \<Rightarrow> Inr (t\<lparr>task_artifacts := (task_artifacts t)[i := new]\<rparr>)
            | None \<Rightarrow> Inr (t\<lparr>task_artifacts := task_artifacts t @ [new]\<rparr>))
         else
           (case idx of
              Some i \<Rightarrow>
                (let old = task_artifacts t ! i
                 in Inr (t\<lparr>task_artifacts := (task_artifacts t)[i :=
                      old\<lparr>artifact_parts := artifact_parts old @ artifact_parts new,
                          artifact_metadata :=
                            meta_merge (artifact_metadata new) (artifact_metadata old)\<rparr>]\<rparr>))
            | None \<Rightarrow> Inl (A2A (err InvalidAgentResponseError))))"

lemma index_of_Some: "index_of x xs = Some i \<Longrightarrow> i < length xs \<and> xs ! i = x"
  by (induction xs arbitrary: i) (auto split: if_splits)

lemma index_of_None: "index_of x xs = None \<longleftrightarrow> x \<notin> set xs"
  by (induction xs) auto

lemma index_of_Some_iff: "distinct xs \<Longrightarrow> index_of x xs = Some i \<longleftrightarrow> i < length xs \<and> xs ! i = x"
  using index_of_nth [of xs i] index_of_Some [of x xs i] by auto

text \<open>The artifact of a task with a given id.\<close>

definition find_artifact :: "string \<Rightarrow> task \<Rightarrow> artifact option" where
  "find_artifact aid t = List.find (\<lambda>a. artifact_id a = aid) (task_artifacts t)"

lemma find_artifact_index:
  "find_artifact aid t =
     map_option (\<lambda>i. task_artifacts t ! i) (index_of aid (map artifact_id (task_artifacts t)))"
proof -
  have "List.find (\<lambda>a. artifact_id a = aid) as =
      map_option (\<lambda>i. as ! i) (index_of aid (map artifact_id as))" for as
    by (induction as) (auto simp: option.map_comp comp_def)
  then show ?thesis by (simp add: find_artifact_def)
qed

lemma find_artifact_None: "find_artifact aid t = None \<longleftrightarrow> aid \<notin> artifact_id ` set (task_artifacts t)"
  by (auto simp: find_artifact_index index_of_None)

lemma find_list_update:
  assumes "index_of aid (map artifact_id as) = Some i" and "artifact_id a = aid"
  shows "List.find (\<lambda>x. artifact_id x = b) (as[i := a]) =
    (if b = aid then Some a else List.find (\<lambda>x. artifact_id x = b) as)"
  using assms
proof (induction as arbitrary: i)
  case Nil
  then show ?case by simp
next
  case (Cons x xs)
  show ?case
  proof (cases "artifact_id x = aid")
    case True
    then show ?thesis using Cons.prems by auto
  next
    case False
    with Cons.prems obtain j where "i = Suc j" "index_of aid (map artifact_id xs) = Some j"
      by auto
    with Cons False show ?thesis by auto
  qed
qed

lemma find_append:
  "List.find P (xs @ ys) = (case List.find P xs of Some x \<Rightarrow> Some x | None \<Rightarrow> List.find P ys)"
  by (induction xs) auto

text \<open>The three outcomes of an artifact event, as updates of the map from ids to artifacts.\<close>

lemma append_artifact_replace:
  assumes "\<not> ae_append ev"
  shows "\<exists>t'. append_artifact_to_task t ev = Inr t' \<and>
    find_artifact b t' = (if b = artifact_id (ae_artifact_of ev) then Some (ae_artifact_of ev)
                          else find_artifact b t)"
proof (cases "index_of (artifact_id (ae_artifact_of ev)) (map artifact_id (task_artifacts t))")
  case None
  then have "find_artifact (artifact_id (ae_artifact_of ev)) t = None"
    by (simp add: find_artifact_index)
  with None assms show ?thesis
    by (auto simp: append_artifact_to_task_def Let_def find_artifact_def find_append split: option.split)
next
  case (Some i)
  with assms show ?thesis
    by (auto simp: append_artifact_to_task_def Let_def find_artifact_def find_list_update [OF Some])
qed

lemma append_artifact_extend:
  assumes "ae_append ev" and old: "find_artifact (artifact_id (ae_artifact_of ev)) t = Some old"
  shows "\<exists>t'. append_artifact_to_task t ev = Inr t' \<and>
    find_artifact b t' =
      (if b = artifact_id (ae_artifact_of ev)
       then Some (old\<lparr>artifact_parts := artifact_parts old @ artifact_parts (ae_artifact_of ev),
              artifact_metadata := meta_merge (artifact_metadata (ae_artifact_of ev)) (artifact_metadata old)\<rparr>)
       else find_artifact b t)"
proof -
  from old obtain i where i: "index_of (artifact_id (ae_artifact_of ev)) (map artifact_id (task_artifacts t)) = Some i"
    and o: "task_artifacts t ! i = old"
    by (auto simp: find_artifact_index)
  have "artifact_id old = artifact_id (ae_artifact_of ev)"
    using index_of_Some [OF i] o by auto
  with i o assms(1) show ?thesis
    by (auto simp: append_artifact_to_task_def Let_def find_artifact_def find_list_update [OF i])
qed

lemma append_artifact_missing:
  assumes "ae_append ev" and "find_artifact (artifact_id (ae_artifact_of ev)) t = None"
  shows "append_artifact_to_task t ev = Inl (A2A (err InvalidAgentResponseError))"
  using assms by (auto simp: append_artifact_to_task_def Let_def find_artifact_index split: option.split)

text \<open>An artifact event changes nothing but the artifacts, and keeps their ids distinct.\<close>

lemma append_artifact_frame:
  assumes "append_artifact_to_task t ev = Inr t'"
  shows "task_id t' = task_id t" "task_context_id t' = task_context_id t"
    "task_status t' = task_status t" "task_history t' = task_history t"
    "task_metadata t' = task_metadata t"
  using assms by (auto simp: append_artifact_to_task_def Let_def split: if_splits option.splits)

lemma append_artifact_distinct:
  assumes "append_artifact_to_task t ev = Inr t'" and d: "distinct (map artifact_id (task_artifacts t))"
  shows "distinct (map artifact_id (task_artifacts t'))"
proof -
  have upd: "map artifact_id ((task_artifacts t)[i := a]) = map artifact_id (task_artifacts t)"
    if "index_of (artifact_id a) (map artifact_id (task_artifacts t)) = Some i" for a i
    using index_of_Some [OF that] by (simp add: map_update list_update_same_conv)
  show ?thesis
  proof (cases "index_of (artifact_id (ae_artifact_of ev)) (map artifact_id (task_artifacts t))")
    case None
    then have "artifact_id (ae_artifact_of ev) \<notin> artifact_id ` set (task_artifacts t)"
      by (simp add: index_of_None)
    with None assms show ?thesis
      by (auto simp: append_artifact_to_task_def Let_def split: if_splits)
  next
    case (Some i)
    then have "artifact_id (task_artifacts t ! i) = artifact_id (ae_artifact_of ev)"
      using index_of_Some [OF Some] by (auto simp: nth_map)
    with Some assms show ?thesis
      by (auto simp: append_artifact_to_task_def Let_def upd split: if_splits)
  qed
qed

subsection \<open>The manager\<close>

record 's task_manager =
  tm_store :: 's
  tm_call_context :: call_context
  tm_task_id :: "string option"
  tm_context_id :: "string option"
  tm_initial_message :: "message option"
  tm_current_task :: "task option"

definition tm_init ::
  "'s \<Rightarrow> call_context \<Rightarrow> string option \<Rightarrow> string option \<Rightarrow> message option \<Rightarrow> exn + 's task_manager" where
  "tm_init store c tid cid msg =
     (if tid \<noteq> None \<and> \<not> py_truthy tid
      then Inl (ValueError ''Task ID must be a non-empty string'')
      else Inr \<lparr>tm_store = store, tm_call_context = c, tm_task_id = tid, tm_context_id = cid,
                tm_initial_message = msg, tm_current_task = None\<rparr>)"

definition tm_get_task :: "'s store_ops \<Rightarrow> 's task_manager \<Rightarrow> 's task_manager \<times> task option" where
  "tm_get_task ops tm =
     (if \<not> py_truthy (tm_task_id tm) then (tm, None)
      else (case tm_current_task tm of
              Some t \<Rightarrow> (tm, Some t)
            | None \<Rightarrow>
                let t = st_get ops (or_empty (tm_task_id tm)) (tm_call_context tm) (tm_store tm)
                in (tm\<lparr>tm_current_task := t\<rparr>, t)))"

definition tm_save_task :: "'s store_ops \<Rightarrow> task \<Rightarrow> 's task_manager \<Rightarrow> 's task_manager" where
  "tm_save_task ops t tm =
     (let tm' = tm\<lparr>tm_store := st_save ops t (tm_call_context tm) (tm_store tm),
                    tm_current_task := Some t\<rparr>
      in if \<not> py_truthy (tm_task_id tm)
         then tm'\<lparr>tm_task_id := Some (task_id t), tm_context_id := Some (task_context_id t)\<rparr>
         else tm')"

definition tm_init_task_obj :: "'s task_manager \<Rightarrow> string \<Rightarrow> string \<Rightarrow> task" where
  "tm_init_task_obj tm tid cid =
     \<lparr>task_id = tid, task_context_id = cid,
      task_status = Some (empty_status\<lparr>status_state := TASK_STATE_SUBMITTED\<rparr>),
      task_artifacts = [],
      task_history = (case tm_initial_message tm of None \<Rightarrow> [] | Some m \<Rightarrow> [m]),
      task_metadata = None\<rparr>"

definition tm_ensure_task_id ::
  "'s store_ops \<Rightarrow> string \<Rightarrow> string \<Rightarrow> 's task_manager \<Rightarrow> 's task_manager \<times> task" where
  "tm_ensure_task_id ops tid cid tm =
     (let found =
        (case tm_current_task tm of
           Some t \<Rightarrow> Some t
         | None \<Rightarrow>
             if py_truthy (tm_task_id tm)
             then st_get ops (or_empty (tm_task_id tm)) (tm_call_context tm) (tm_store tm)
             else None)
      in (case found of
            Some t \<Rightarrow> (tm, t)
          | None \<Rightarrow> let t = tm_init_task_obj tm tid cid in (tm_save_task ops t tm, t)))"

text \<open>The ids of a task-related event.\<close>

fun event_task_id :: "task_event \<Rightarrow> string" where
  "event_task_id (TaskObj t) = task_id t"
| "event_task_id (StatusUpdate e) = se_task_id e"
| "event_task_id (ArtifactUpdate e) = ae_task_id e"

fun event_context_id :: "task_event \<Rightarrow> string" where
  "event_context_id (TaskObj t) = task_context_id t"
| "event_context_id (StatusUpdate e) = se_context_id e"
| "event_context_id (ArtifactUpdate e) = ae_context_id e"

definition status_messages :: "task \<Rightarrow> message list" where
  "status_messages t = (case status_message (task_status_of t) of None \<Rightarrow> [] | Some m \<Rightarrow> [m])"

definition apply_status_event :: "status_event \<Rightarrow> task \<Rightarrow> task" where
  "apply_status_event e t =
     t\<lparr>task_history := task_history t @ status_messages t,
       task_metadata := meta_merge (se_metadata e) (task_metadata t),
       task_status := Some (se_status_of e)\<rparr>"

definition tm_ids_check :: "task_event \<Rightarrow> 's task_manager \<Rightarrow> 's task_manager \<times> exn option" where
  "tm_ids_check ev tm =
     (if py_truthy (tm_task_id tm) \<and> tm_task_id tm \<noteq> Some (event_task_id ev)
      then (tm, Some (A2A (err InvalidParamsError)))
      else
        let tm1 = (if py_truthy (tm_task_id tm) then tm else tm\<lparr>tm_task_id := Some (event_task_id ev)\<rparr>)
        in if py_truthy (tm_context_id tm1) \<and> tm_context_id tm1 \<noteq> Some (event_context_id ev)
           then (tm1, Some (A2A (err InvalidParamsError)))
           else ((if py_truthy (tm_context_id tm1) then tm1
                  else tm1\<lparr>tm_context_id := Some (event_context_id ev)\<rparr>), None))"

definition tm_save_task_event ::
  "'s store_ops \<Rightarrow> task_event \<Rightarrow> 's task_manager \<Rightarrow> 's task_manager \<times> (exn + task)" where
  "tm_save_task_event ops ev tm =
     (case tm_ids_check ev tm of
        (tm1, Some e) \<Rightarrow> (tm1, Inl e)
      | (tm1, None) \<Rightarrow>
          (case ev of
             TaskObj t \<Rightarrow> (tm_save_task ops t tm1, Inr t)
           | StatusUpdate e \<Rightarrow>
               (let (tm2, t) = tm_ensure_task_id ops (se_task_id e) (se_context_id e) tm1;
                    t' = apply_status_event e t
                in (tm_save_task ops t' tm2, Inr t'))
           | ArtifactUpdate e \<Rightarrow>
               (let (tm2, t) = tm_ensure_task_id ops (ae_task_id e) (ae_context_id e) tm1
                in (case append_artifact_to_task t e of
                      Inl x \<Rightarrow> (tm2, Inl x)
                    | Inr t' \<Rightarrow> (tm_save_task ops t' tm2, Inr t')))))"

text \<open>\<^verbatim>\<open>process\<close> hands task-related events to \<^verbatim>\<open>save_task_event\<close> and returns the event.\<close>

definition tm_process ::
  "'s store_ops \<Rightarrow> event \<Rightarrow> 's task_manager \<Rightarrow> 's task_manager \<times> (exn + event)" where
  "tm_process ops ev tm =
     (case ev of
        MessageEv m \<Rightarrow> (tm, Inr ev)
      | TaskEv te \<Rightarrow>
          (case tm_save_task_event ops te tm of
             (tm', Inl e) \<Rightarrow> (tm', Inl e)
           | (tm', Inr t) \<Rightarrow> (tm', Inr ev)))"

definition add_message :: "message \<Rightarrow> task \<Rightarrow> task" where
  "add_message m t =
     (let t1 = (if status_messages t \<noteq> []
                then t\<lparr>task_history := task_history t @ status_messages t,
                       task_status := Some ((task_status_of t)\<lparr>status_message := None\<rparr>)\<rparr>
                else t)
      in t1\<lparr>task_history := task_history t1 @ [m]\<rparr>)"

definition tm_update_with_message ::
  "message \<Rightarrow> task \<Rightarrow> 's task_manager \<Rightarrow> 's task_manager \<times> task" where
  "tm_update_with_message m t tm =
     (let t' = add_message m t in (tm\<lparr>tm_current_task := Some t'\<rparr>, t'))"

text \<open>Processing a stream of events stops at the first exception.\<close>

fun tm_process_all ::
  "'s store_ops \<Rightarrow> event list \<Rightarrow> 's task_manager \<Rightarrow> 's task_manager \<times> exn option" where
  "tm_process_all ops [] tm = (tm, None)"
| "tm_process_all ops (ev # evs) tm =
     (case tm_process ops ev tm of
        (tm', Inl e) \<Rightarrow> (tm', Some e)
      | (tm', Inr _) \<Rightarrow> tm_process_all ops evs tm')"

subsection \<open>Coherence of the cached task with the store\<close>

text \<open>
  The invariant of a manager: when it holds a current task, the manager is bound to that
  task's id and the store holds the same task for the manager's caller.
\<close>

definition tm_coherent :: "'s store_ops \<Rightarrow> ('s \<Rightarrow> bool) \<Rightarrow> 's task_manager \<Rightarrow> bool" where
  "tm_coherent ops sinv tm \<longleftrightarrow>
     sinv (tm_store tm) \<and>
     (\<forall>t. tm_current_task tm = Some t \<longrightarrow>
        task_id t \<noteq> [] \<and> tm_task_id tm = Some (task_id t) \<and>
        st_get ops (task_id t) (tm_call_context tm) (tm_store tm) = Some t)"

text \<open>The task a manager works on: the cached one, else the stored one.\<close>

definition tm_view :: "'s store_ops \<Rightarrow> 's task_manager \<Rightarrow> task option" where
  "tm_view ops tm =
     (case tm_current_task tm of
        Some t \<Rightarrow> Some t
      | None \<Rightarrow>
          if py_truthy (tm_task_id tm)
          then st_get ops (or_empty (tm_task_id tm)) (tm_call_context tm) (tm_store tm)
          else None)"

lemma tm_ensure_task_id_eq:
  "tm_ensure_task_id ops tid cid tm =
     (case tm_view ops tm of
        Some t \<Rightarrow> (tm, t)
      | None \<Rightarrow> (tm_save_task ops (tm_init_task_obj tm tid cid) tm, tm_init_task_obj tm tid cid))"
  by (auto simp: tm_ensure_task_id_def tm_view_def Let_def split: option.split)

lemma tm_save_task_simps [simp]:
  "tm_store (tm_save_task ops t tm) = st_save ops t (tm_call_context tm) (tm_store tm)"
  "tm_current_task (tm_save_task ops t tm) = Some t"
  "tm_call_context (tm_save_task ops t tm) = tm_call_context tm"
  "py_truthy (tm_task_id tm) \<Longrightarrow> tm_task_id (tm_save_task ops t tm) = tm_task_id tm"
  by (simp_all add: tm_save_task_def Let_def)

lemma tm_ids_check_frame:
  assumes "tm_ids_check ev tm = (tm1, r)"
  shows "tm_store tm1 = tm_store tm" "tm_current_task tm1 = tm_current_task tm"
    "tm_call_context tm1 = tm_call_context tm" "tm_initial_message tm1 = tm_initial_message tm"
  using assms by (auto simp: tm_ids_check_def Let_def split: if_splits)

lemma tm_ids_check_None:
  assumes "tm_ids_check ev tm = (tm1, None)" and "event_task_id ev \<noteq> []"
  shows "tm_task_id tm1 = Some (event_task_id ev)"
    "py_truthy (tm_task_id tm) \<Longrightarrow> tm_task_id tm = Some (event_task_id ev)"
  using assms by (auto simp: tm_ids_check_def Let_def split: if_splits)

text \<open>The identifiers of an event are accepted exactly when they contradict nothing known.\<close>

lemma tm_ids_check_accepts:
  "snd (tm_ids_check ev tm) = None \<longleftrightarrow>
     (py_truthy (tm_task_id tm) \<longrightarrow> tm_task_id tm = Some (event_task_id ev)) \<and>
     (py_truthy (tm_context_id tm) \<longrightarrow> tm_context_id tm = Some (event_context_id ev))"
  by (auto simp: tm_ids_check_def Let_def)

lemma init_task_obj_id [simp]: "task_id (tm_init_task_obj tm tid cid) = tid"
  by (simp add: tm_init_task_obj_def)

lemma apply_status_event_id [simp]: "task_id (apply_status_event e t) = task_id t"
  by (simp add: apply_status_event_def)

context task_store
begin

lemma coherent_save:
  assumes "sinv (tm_store tm)" "task_id t \<noteq> []" "tm_task_id tm = Some (task_id t)"
  shows "tm_coherent ops sinv (tm_save_task ops t tm)"
  using assms by (simp add: tm_coherent_def inv_save get_save)

lemma coherent_ids_check:
  assumes co: "tm_coherent ops sinv tm" and chk: "tm_ids_check ev tm = (tm1, r)"
  shows "tm_coherent ops sinv tm1"
proof (cases "py_truthy (tm_task_id tm)")
  case True
  then have "tm_task_id tm1 = tm_task_id tm"
    using chk by (auto simp: tm_ids_check_def Let_def split: if_splits)
  with co show ?thesis
    unfolding tm_coherent_def tm_ids_check_frame [OF chk] by simp
next
  case False
  then have "tm_current_task tm = None"
    using co by (cases "tm_current_task tm") (auto simp: tm_coherent_def)
  with co show ?thesis
    unfolding tm_coherent_def tm_ids_check_frame [OF chk] by simp
qed

lemma coherent_view:
  assumes co: "tm_coherent ops sinv tm" and view: "tm_view ops tm = Some t"
  shows "tm_task_id tm = Some (task_id t) \<and> task_id t \<noteq> [] \<and>
    st_get ops (task_id t) (tm_call_context tm) (tm_store tm) = Some t"
proof (cases "tm_current_task tm")
  case (Some u)
  then show ?thesis using co view by (simp add: tm_coherent_def tm_view_def)
next
  case None
  with view obtain i where i: "tm_task_id tm = Some i" "i \<noteq> []"
    and got: "st_get ops i (tm_call_context tm) (tm_store tm) = Some t"
    by (auto simp: tm_view_def py_truthy_iff split: if_splits)
  have "task_id t = i"
    using co got by (intro get_id) (auto simp: tm_coherent_def)
  with i got show ?thesis by simp
qed

lemma coherent_get_task:
  assumes co: "tm_coherent ops sinv tm" and run: "tm_get_task ops tm = (tm', r)"
  shows "tm_coherent ops sinv tm' \<and> r = tm_view ops tm \<and> tm_store tm' = tm_store tm \<and>
    tm_call_context tm' = tm_call_context tm"
proof (cases "py_truthy (tm_task_id tm) \<and> tm_current_task tm = None")
  case True
  then have "tm' = tm\<lparr>tm_current_task := tm_view ops tm\<rparr>" "r = tm_view ops tm"
    using run by (auto simp: tm_get_task_def tm_view_def Let_def)
  then show ?thesis
    using co coherent_view [OF co] by (auto simp: tm_coherent_def)
next
  case False
  then have "tm' = tm" "r = tm_view ops tm"
    using run co
    by (auto simp: tm_get_task_def tm_view_def tm_coherent_def split: option.splits if_splits)
  with co show ?thesis by simp
qed

text \<open>Which keys of the store differ: none but the manager's own.\<close>

lemma ensure_task_id_spec:
  assumes "tm_coherent ops sinv tm" "tm_task_id tm = Some tid" "tid \<noteq> []"
    and "tm_ensure_task_id ops tid cid tm = (tm', t)"
  shows "tm_coherent ops sinv tm' \<and> task_id t = tid \<and> tm_task_id tm' = Some tid \<and>
    tm_call_context tm' = tm_call_context tm \<and> tm_view ops tm' = Some t \<and>
    (case tm_view ops tm of Some u \<Rightarrow> u | None \<Rightarrow> tm_init_task_obj tm tid cid) = t \<and>
    (\<forall>i c. owner c \<noteq> owner (tm_call_context tm) \<or> i \<noteq> tid \<longrightarrow>
       st_get ops i c (tm_store tm') = st_get ops i c (tm_store tm))"
proof (cases "tm_view ops tm")
  case None
  then have "tm' = tm_save_task ops t tm" "t = tm_init_task_obj tm tid cid"
    using assms(4) by (auto simp: tm_ensure_task_id_eq)
  moreover have "sinv (tm_store tm)" using assms(1) by (simp add: tm_coherent_def)
  ultimately show ?thesis
    using None assms(2,3)
    by (auto simp: coherent_save get_save tm_view_def)
next
  case (Some u)
  then have "tm' = tm" "t = u"
    using assms(4) by (simp_all add: tm_ensure_task_id_eq)
  then show ?thesis
    using Some assms coherent_view [OF assms(1) Some] by auto
qed

definition tm_frame :: "'s task_manager \<Rightarrow> string \<Rightarrow> 's task_manager \<Rightarrow> bool" where
  "tm_frame tm tid tm' \<longleftrightarrow>
     tm_coherent ops sinv tm' \<and> tm_call_context tm' = tm_call_context tm \<and>
     (\<forall>i c. owner c \<noteq> owner (tm_call_context tm) \<or> i \<noteq> tid \<longrightarrow>
        st_get ops i c (tm_store tm') = st_get ops i c (tm_store tm))"

lemma tm_frame_save:
  assumes "tm_frame tm tid tm'" "tid \<noteq> []" "tm_task_id tm' = Some tid" "task_id u = tid"
  shows "tm_frame tm tid (tm_save_task ops u tm')"
proof -
  have "sinv (tm_store tm')" using assms(1) by (simp add: tm_frame_def tm_coherent_def)
  with assms show ?thesis by (simp add: tm_frame_def coherent_save get_save)
qed

lemma tm_frame_ensure:
  assumes "tm_frame tm tid tm1" "tid \<noteq> []" "tm_task_id tm1 = Some tid"
    and "tm_ensure_task_id ops tid cid tm1 = (tm2, u)"
  shows "tm_frame tm tid tm2 \<and> tm_task_id tm2 = Some tid \<and> task_id u = tid"
proof -
  have "tm_coherent ops sinv tm1" using assms(1) by (simp add: tm_frame_def)
  from ensure_task_id_spec [OF this assms(3,2,4)] show ?thesis
    using assms(1) by (simp add: tm_frame_def)
qed

text \<open>
  Saving an event keeps the coherence, whether it succeeds or raises, touches no other key of
  the store, and on success the result is what the store holds.
\<close>

lemma save_task_event_spec:
  assumes co: "tm_coherent ops sinv tm" and ne: "event_task_id ev \<noteq> []"
    and run: "tm_save_task_event ops ev tm = (tm', r)"
  shows "tm_frame tm (event_task_id ev) tm' \<and>
    (\<forall>t. r = Inr t \<longrightarrow> tm_current_task tm' = Some t \<and> task_id t = event_task_id ev)"
proof -
  obtain tm1 x where chk: "tm_ids_check ev tm = (tm1, x)" by force
  have fr1: "tm_frame tm (event_task_id ev) tm1"
    using coherent_ids_check [OF co chk] tm_ids_check_frame [OF chk] by (simp add: tm_frame_def)
  show ?thesis
  proof (cases x)
    case (Some e)
    then show ?thesis using run chk fr1 by (auto simp: tm_save_task_event_def)
  next
    case None
    then have id1: "tm_task_id tm1 = Some (event_task_id ev)"
      using tm_ids_check_None chk ne by blast
    note run' = run [unfolded tm_save_task_event_def chk None, simplified]
    show ?thesis
    proof (cases ev)
      case (TaskObj t)
      with run' tm_frame_save [OF fr1 ne id1, of t] show ?thesis by auto
    next
      case (StatusUpdate e)
      obtain tm2 u where ens: "tm_ensure_task_id ops (event_task_id ev) (se_context_id e) tm1 = (tm2, u)"
        by force
      note fr2 = tm_frame_ensure [OF fr1 ne id1 ens]
      from run' ens StatusUpdate fr2 tm_frame_save [of tm "event_task_id ev" tm2 "apply_status_event e u"] ne
      show ?thesis by (auto simp: Let_def)
    next
      case (ArtifactUpdate e)
      obtain tm2 u where ens: "tm_ensure_task_id ops (event_task_id ev) (ae_context_id e) tm1 = (tm2, u)"
        by force
      note fr2 = tm_frame_ensure [OF fr1 ne id1 ens]
      show ?thesis
      proof (cases "append_artifact_to_task u e")
        case (Inl y)
        with run' ens ArtifactUpdate fr2 show ?thesis by auto
      next
        case (Inr v)
        with run' ens ArtifactUpdate fr2 tm_frame_save [of tm "event_task_id ev" tm2 v] ne
          append_artifact_frame(1) [OF Inr]
        show ?thesis by auto
      qed
    qed
  qed
qed

lemma ids_check_view:
  assumes "tm_coherent ops sinv tm" "tm_view ops tm = Some t" and chk: "tm_ids_check ev tm = (tm1, r)"
  shows "tm_view ops tm1 = Some t"
proof -
  have "py_truthy (tm_task_id tm)"
    using coherent_view [OF assms(1,2)] by simp
  then have id: "tm_task_id tm1 = tm_task_id tm"
    using chk by (auto simp: tm_ids_check_def Let_def split: if_splits)
  have "tm_view ops tm1 = tm_view ops tm"
    by (simp only: tm_view_def tm_ids_check_frame [OF chk] id)
  with assms(2) show ?thesis by simp
qed

text \<open>The result of a successful event on an existing task.\<close>

lemma save_task_event_result:
  assumes co: "tm_coherent ops sinv tm" and v: "tm_view ops tm = Some t"
    and run: "tm_save_task_event ops ev tm = (tm', Inr u)"
  shows "case ev of TaskObj t' \<Rightarrow> u = t' | StatusUpdate e \<Rightarrow> u = apply_status_event e t
    | ArtifactUpdate e \<Rightarrow> append_artifact_to_task t e = Inr u"
proof -
  obtain tm1 x where chk: "tm_ids_check ev tm = (tm1, x)" by force
  note v1 = ids_check_view [OF co v chk]
  from run chk have "x = None" by (auto simp: tm_save_task_event_def split: option.splits)
  with run chk v1 show ?thesis
    by (auto simp: tm_save_task_event_def tm_ensure_task_id_eq Let_def split: task_event.splits sum.splits)
qed

end

subsection \<open>The conversation of a task\<close>

text \<open>Every message of a task: its history, then the message of its current status.\<close>

definition conversation :: "task \<Rightarrow> message list" where
  "conversation t = task_history t @ status_messages t"

fun event_messages :: "event \<Rightarrow> message list" where
  "event_messages (TaskEv (StatusUpdate e)) =
     (case status_message (se_status_of e) of None \<Rightarrow> [] | Some m \<Rightarrow> [m])"
| "event_messages _ = []"

text \<open>An update event of the task \<open>i\<close>.\<close>

fun is_update_of :: "string \<Rightarrow> event \<Rightarrow> bool" where
  "is_update_of i (TaskEv (StatusUpdate e)) = (se_task_id e = i)"
| "is_update_of i (TaskEv (ArtifactUpdate e)) = (ae_task_id e = i)"
| "is_update_of i _ = False"

lemma conversation_status: "conversation (apply_status_event e t) =
    conversation t @ event_messages (TaskEv (StatusUpdate e))"
  by (simp add: conversation_def apply_status_event_def status_messages_def task_status_of_def)

lemma conversation_artifact: "append_artifact_to_task t e = Inr u \<Longrightarrow> conversation u = conversation t"
  by (simp add: conversation_def status_messages_def task_status_of_def append_artifact_frame)

lemma conversation_add_message: "conversation (add_message m t) = conversation t @ [m]"
  by (auto simp: conversation_def add_message_def Let_def status_messages_def task_status_of_def
      empty_status_def split: option.splits)

context task_store
begin

lemma process_step:
  assumes co: "tm_coherent ops sinv tm" and v: "tm_view ops tm = Some t" and u: "is_update_of (task_id t) ev"
    and run: "tm_process ops ev tm = (tm', Inr x)"
  shows "\<exists>t'. tm_coherent ops sinv tm' \<and> tm_view ops tm' = Some t' \<and> task_id t' = task_id t \<and>
    conversation t' = conversation t @ event_messages ev"
proof -
  obtain te where ev: "ev = TaskEv te" and id: "event_task_id te = task_id t"
    and noobj: "\<And>o'. te \<noteq> TaskObj o'"
    using u by (cases "(task_id t, ev)" rule: is_update_of.cases) auto
  obtain t' where sv: "tm_save_task_event ops te tm = (tm', Inr t')"
    using run ev by (auto simp: tm_process_def split: prod.splits sum.splits)
  have ne: "event_task_id te \<noteq> []" using coherent_view [OF co v] id by simp
  from save_task_event_spec [OF co ne sv]
  have "tm_coherent ops sinv tm'" "tm_view ops tm' = Some t'" "task_id t' = task_id t"
    by (auto simp: tm_frame_def tm_view_def id)
  moreover have "conversation t' = conversation t @ event_messages ev"
    using save_task_event_result [OF co v sv] noobj
    by (cases te) (auto simp: ev conversation_status conversation_artifact)
  ultimately show ?thesis by blast
qed

lemma process_all_conversation:
  assumes "tm_coherent ops sinv tm" and "tm_view ops tm = Some t"
    and "\<forall>ev \<in> set evs. is_update_of (task_id t) ev"
    and "tm_process_all ops evs tm = (tm', None)"
  shows "\<exists>t'. tm_coherent ops sinv tm' \<and> tm_view ops tm' = Some t' \<and>
    conversation t' = conversation t @ concat (map event_messages evs)"
  using assms
proof (induction evs arbitrary: tm t)
  case Nil
  then show ?case by auto
next
  case (Cons ev evs)
  obtain tm1 x where p: "tm_process ops ev tm = (tm1, Inr x)"
    and rest: "tm_process_all ops evs tm1 = (tm', None)"
    using Cons.prems(4) by (auto split: prod.splits sum.splits)
  from process_step [OF Cons.prems(1,2) _ p] Cons.prems(3)
  obtain t1 where "tm_coherent ops sinv tm1" "tm_view ops tm1 = Some t1" "task_id t1 = task_id t"
    "conversation t1 = conversation t @ event_messages ev" by auto
  with Cons.IH [OF _ _ _ rest, of t1] Cons.prems(3) show ?case by auto
qed

end

subsection \<open>Artifacts sent in chunks\<close>

fun append_all :: "task \<Rightarrow> artifact_event list \<Rightarrow> exn + task" where
  "append_all t [] = Inr t"
| "append_all t (e # es) = rbind (append_artifact_to_task t e) (\<lambda>t'. append_all t' es)"

lemma append_all_chunks:
  assumes "find_artifact aid t = Some a"
    and "\<forall>e \<in> set es. ae_append e \<and> artifact_id (ae_artifact_of e) = aid"
  shows "\<exists>t' a'. append_all t es = Inr t' \<and> find_artifact aid t' = Some a' \<and>
    artifact_parts a' = artifact_parts a @ concat (map (\<lambda>e. artifact_parts (ae_artifact_of e)) es) \<and>
    (\<forall>b. b \<noteq> aid \<longrightarrow> find_artifact b t' = find_artifact b t)"
  using assms
proof (induction es arbitrary: t a)
  case Nil
  then show ?case by simp
next
  case (Cons e es)
  then have e: "ae_append e" "artifact_id (ae_artifact_of e) = aid" by simp_all
  obtain t1 where t1: "append_artifact_to_task t e = Inr t1"
    using append_artifact_extend [OF e(1), of t a] e(2) Cons.prems(1) by auto
  have f: "find_artifact b t1 = (if b = aid
       then Some (a\<lparr>artifact_parts := artifact_parts a @ artifact_parts (ae_artifact_of e),
              artifact_metadata := meta_merge (artifact_metadata (ae_artifact_of e)) (artifact_metadata a)\<rparr>)
       else find_artifact b t)" for b
    using append_artifact_extend [OF e(1), of t a b] e(2) Cons.prems(1) t1 by auto
  from Cons.IH [OF f [of aid, simplified]] Cons.prems(2)
  show ?case by (auto simp: t1 f)
qed

end
