(* ===== verification/Proto_Helpers.thy ===== *)
theory Proto_Helpers
  imports Task_Manager
begin

text \<open>
  The constructors and readers of \<^verbatim>\<open>helpers/proto_helpers.py\<close>. \<open>uuid.uuid4()\<close> is an
  argument (\<open>uuid\<close>), as are the protobuf package's conversions between Python data and
  \<open>google.protobuf.Value\<close>: \<open>parse_value\<close> (\<^verbatim>\<open>ParseDict\<close>) and \<open>value_to_dict\<close>
  (\<^verbatim>\<open>MessageToDict\<close>). The lemmas show that the readers give back what the constructors put in,
  and that text sent in chunks through artifact events is reassembled.
\<close>

text \<open>\<open>delimiter.join(xs)\<close>\<close>

fun py_join :: "'a list \<Rightarrow> 'a list list \<Rightarrow> 'a list" where
  "py_join d [] = []"
| "py_join d [x] = x"
| "py_join d (x # y # ys) = x @ d @ py_join d (y # ys)"

lemma py_join_Nil: "py_join [] xs = concat xs"
  by (induction "[] :: 'a list" xs rule: py_join.induct) simp_all

subsection \<open>Parts\<close>

definition new_text_part :: "string \<Rightarrow> string option \<Rightarrow> part" where
  "new_text_part txt media_type =
     \<lparr>part_content = Some (PText txt), part_metadata = None, part_filename = [],
      part_media_type = or_empty media_type\<rparr>"

definition new_data_part :: "(json \<Rightarrow> exn + json) \<Rightarrow> json \<Rightarrow> string option \<Rightarrow> exn + part" where
  "new_data_part parse_value data media_type =
     rbind (parse_value data) (\<lambda>v. Inr
       \<lparr>part_content = Some (PData v), part_metadata = None, part_filename = [],
        part_media_type = or_empty media_type\<rparr>)"

definition new_raw_part :: "bytes \<Rightarrow> string option \<Rightarrow> string option \<Rightarrow> part" where
  "new_raw_part raw media_type filename =
     \<lparr>part_content = Some (PRaw raw), part_metadata = None, part_filename = or_empty filename,
      part_media_type = or_empty media_type\<rparr>"

definition new_url_part :: "string \<Rightarrow> string option \<Rightarrow> string option \<Rightarrow> part" where
  "new_url_part url media_type filename =
     \<lparr>part_content = Some (PUrl url), part_metadata = None, part_filename = or_empty filename,
      part_media_type = or_empty media_type\<rparr>"

fun text_of_part :: "part_content option \<Rightarrow> string option" where
  "text_of_part (Some (PText s)) = Some s"
| "text_of_part _ = None"

fun data_of_part :: "part_content option \<Rightarrow> json option" where
  "data_of_part (Some (PData v)) = Some v"
| "data_of_part _ = None"

fun raw_of_part :: "part_content option \<Rightarrow> bytes option" where
  "raw_of_part (Some (PRaw b)) = Some b"
| "raw_of_part _ = None"

fun url_of_part :: "part_content option \<Rightarrow> string option" where
  "url_of_part (Some (PUrl u)) = Some u"
| "url_of_part _ = None"

definition get_text_parts :: "part list \<Rightarrow> string list" where
  "get_text_parts parts = List.map_filter (\<lambda>p. text_of_part (part_content p)) parts"

definition get_data_parts :: "(json \<Rightarrow> json) \<Rightarrow> part list \<Rightarrow> json list" where
  "get_data_parts value_to_dict parts =
     map value_to_dict (List.map_filter (\<lambda>p. data_of_part (part_content p)) parts)"

definition get_raw_parts :: "part list \<Rightarrow> bytes list" where
  "get_raw_parts parts = List.map_filter (\<lambda>p. raw_of_part (part_content p)) parts"

definition get_url_parts :: "part list \<Rightarrow> string list" where
  "get_url_parts parts = List.map_filter (\<lambda>p. url_of_part (part_content p)) parts"

lemma map_filter_append: "List.map_filter f (xs @ ys) = List.map_filter f xs @ List.map_filter f ys"
  by (induction xs) (auto simp: List.map_filter_def)

lemma get_text_parts_append [simp]: "get_text_parts (ps @ qs) = get_text_parts ps @ get_text_parts qs"
  by (simp add: get_text_parts_def map_filter_append)

lemma get_text_parts_Nil [simp]: "get_text_parts [] = []"
  by (simp add: get_text_parts_def List.map_filter_def)

lemma get_text_parts_new [simp]: "get_text_parts [new_text_part s mt] = [s]"
  by (simp add: get_text_parts_def new_text_part_def List.map_filter_def)

lemma get_parts_new:
  "get_raw_parts [new_raw_part b mt fn] = [b]"
  "get_url_parts [new_url_part u mt fn] = [u]"
  "new_data_part pv d mt = Inr p \<Longrightarrow> (\<And>v. pv d = Inr v \<Longrightarrow> vd v = d) \<Longrightarrow> get_data_parts vd [p] = [d]"
  by (auto simp: get_raw_parts_def get_url_parts_def get_data_parts_def new_raw_part_def
      new_url_part_def new_data_part_def List.map_filter_def)

subsection \<open>Messages\<close>

definition new_message ::
  "string \<Rightarrow> part list \<Rightarrow> string option \<Rightarrow> string option \<Rightarrow> role \<Rightarrow> message" where
  "new_message uuid parts context_id tid role =
     empty_message\<lparr>message_role := role, message_parts := parts, message_id := uuid,
       message_task_id := or_empty tid, message_context_id := or_empty context_id\<rparr>"

definition new_text_message ::
  "string \<Rightarrow> string \<Rightarrow> string option \<Rightarrow> string option \<Rightarrow> string option \<Rightarrow> role \<Rightarrow> message" where
  "new_text_message uuid txt media_type context_id tid role =
     new_message uuid [new_text_part txt media_type] context_id tid role"

definition get_message_text :: "message \<Rightarrow> string \<Rightarrow> string" where
  "get_message_text m delimiter = py_join delimiter (get_text_parts (message_parts m))"

definition new_data_message ::
  "(json \<Rightarrow> exn + json) \<Rightarrow> string \<Rightarrow> json \<Rightarrow> string option \<Rightarrow> string option \<Rightarrow> string option \<Rightarrow> role \<Rightarrow>
   exn + message" where
  "new_data_message parse_value uuid data media_type context_id tid role =
     rbind (new_data_part parse_value data media_type)
       (\<lambda>p. Inr (new_message uuid [p] context_id tid role))"

definition new_raw_message ::
  "string \<Rightarrow> bytes \<Rightarrow> string option \<Rightarrow> string option \<Rightarrow> string option \<Rightarrow> string option \<Rightarrow> role \<Rightarrow> message" where
  "new_raw_message uuid raw media_type filename context_id tid role =
     new_message uuid [new_raw_part raw media_type filename] context_id tid role"

definition new_url_message ::
  "string \<Rightarrow> string \<Rightarrow> string option \<Rightarrow> string option \<Rightarrow> string option \<Rightarrow> string option \<Rightarrow> role \<Rightarrow> message" where
  "new_url_message uuid url media_type filename context_id tid role =
     new_message uuid [new_url_part url media_type filename] context_id tid role"

lemma get_message_text_new: "get_message_text (new_text_message u s mt c t r) d = s"
  by (simp add: get_message_text_def new_text_message_def new_message_def)

subsection \<open>Artifacts\<close>

text \<open>\<open>artifact_id or str(uuid.uuid4())\<close>\<close>

definition id_or :: "string option \<Rightarrow> string \<Rightarrow> string" where
  "id_or i uuid = (if py_truthy i then or_empty i else uuid)"

definition new_artifact ::
  "string \<Rightarrow> part list \<Rightarrow> string \<Rightarrow> string option \<Rightarrow> string option \<Rightarrow> artifact" where
  "new_artifact uuid parts name description aid =
     empty_artifact\<lparr>artifact_id := id_or aid uuid, artifact_parts := parts, artifact_name := name,
       artifact_description := or_empty description\<rparr>"

definition new_text_artifact ::
  "string \<Rightarrow> string \<Rightarrow> string \<Rightarrow> string option \<Rightarrow> string option \<Rightarrow> string option \<Rightarrow> artifact" where
  "new_text_artifact uuid name txt media_type description aid =
     new_artifact uuid [new_text_part txt media_type] name description aid"

definition new_data_artifact ::
  "(json \<Rightarrow> exn + json) \<Rightarrow> string \<Rightarrow> string \<Rightarrow> json \<Rightarrow> string option \<Rightarrow> string option \<Rightarrow> string option \<Rightarrow>
   exn + artifact" where
  "new_data_artifact parse_value uuid name data media_type description aid =
     rbind (new_data_part parse_value data media_type)
       (\<lambda>p. Inr (new_artifact uuid [p] name description aid))"

definition new_raw_artifact ::
  "string \<Rightarrow> string \<Rightarrow> bytes \<Rightarrow> string option \<Rightarrow> string option \<Rightarrow> string option \<Rightarrow> string option \<Rightarrow> artifact" where
  "new_raw_artifact uuid name raw media_type filename description aid =
     new_artifact uuid [new_raw_part raw media_type filename] name description aid"

definition new_url_artifact ::
  "string \<Rightarrow> string \<Rightarrow> string \<Rightarrow> string option \<Rightarrow> string option \<Rightarrow> string option \<Rightarrow> string option \<Rightarrow> artifact" where
  "new_url_artifact uuid name url media_type filename description aid =
     new_artifact uuid [new_url_part url media_type filename] name description aid"

definition get_artifact_text :: "artifact \<Rightarrow> string \<Rightarrow> string" where
  "get_artifact_text a delimiter = py_join delimiter (get_text_parts (artifact_parts a))"

subsection \<open>Tasks\<close>

definition empty_text_part :: "part \<Rightarrow> bool" where
  "empty_text_part p \<longleftrightarrow> text_of_part (part_content p) = Some []"

definition new_task_from_user_message :: "string \<Rightarrow> string \<Rightarrow> message \<Rightarrow> exn + task" where
  "new_task_from_user_message uuid1 uuid2 m =
     (if message_role m \<noteq> ROLE_USER then Inl (ValueError ''Message must be from a user'')
      else if message_parts m = [] then Inl (ValueError ''Message parts cannot be empty'')
      else if list_ex empty_text_part (message_parts m)
      then Inl (ValueError ''Message.text cannot be empty'')
      else Inr (empty_task\<lparr>
        task_status := Some (empty_status\<lparr>status_state := TASK_STATE_SUBMITTED\<rparr>),
        task_id := id_or (Some (message_task_id m)) uuid1,
        task_context_id := id_or (Some (message_context_id m)) uuid2,
        task_history := [m]\<rparr>))"

definition new_task ::
  "string \<Rightarrow> string \<Rightarrow> task_state \<Rightarrow> artifact list option \<Rightarrow> message list option \<Rightarrow> task" where
  "new_task tid cid state artifacts history =
     empty_task\<lparr>task_status := Some (empty_status\<lparr>status_state := state\<rparr>), task_id := tid,
       task_context_id := cid, task_artifacts := list_or_nil artifacts,
       task_history := list_or_nil history\<rparr>"

subsection \<open>Events\<close>

definition new_text_status_update_event ::
  "string \<Rightarrow> string \<Rightarrow> string \<Rightarrow> task_state \<Rightarrow> string \<Rightarrow> status_event" where
  "new_text_status_update_event uuid tid cid state txt =
     \<lparr>se_task_id = tid, se_context_id = cid,
      se_status = Some \<lparr>status_state = state,
        status_message = Some (new_text_message uuid txt None (Some cid) (Some tid) ROLE_AGENT),
        status_timestamp = None\<rparr>,
      se_metadata = None\<rparr>"

definition artifact_update :: "string \<Rightarrow> string \<Rightarrow> artifact \<Rightarrow> bool \<Rightarrow> bool \<Rightarrow> artifact_event" where
  "artifact_update tid cid a app last_chunk =
     \<lparr>ae_task_id = tid, ae_context_id = cid, ae_artifact = Some a, ae_append = app,
      ae_last_chunk = last_chunk, ae_metadata = None\<rparr>"

definition new_text_artifact_update_event ::
  "string \<Rightarrow> string \<Rightarrow> string \<Rightarrow> string \<Rightarrow> string \<Rightarrow> bool \<Rightarrow> bool \<Rightarrow> string option \<Rightarrow> artifact_event" where
  "new_text_artifact_update_event uuid tid cid name txt app last_chunk aid =
     artifact_update tid cid (new_text_artifact uuid name txt None None aid) app last_chunk"

definition new_data_artifact_update_event ::
  "(json \<Rightarrow> exn + json) \<Rightarrow> string \<Rightarrow> string \<Rightarrow> string \<Rightarrow> string \<Rightarrow> json \<Rightarrow> string option \<Rightarrow> bool \<Rightarrow> bool \<Rightarrow>
   string option \<Rightarrow> exn + artifact_event" where
  "new_data_artifact_update_event parse_value uuid tid cid name data media_type app last_chunk aid =
     rbind (new_data_artifact parse_value uuid name data media_type None aid)
       (\<lambda>a. Inr (artifact_update tid cid a app last_chunk))"

definition new_raw_artifact_update_event ::
  "string \<Rightarrow> string \<Rightarrow> string \<Rightarrow> string \<Rightarrow> bytes \<Rightarrow> string option \<Rightarrow> string option \<Rightarrow> bool \<Rightarrow> bool \<Rightarrow>
   string option \<Rightarrow> artifact_event" where
  "new_raw_artifact_update_event uuid tid cid name raw media_type filename app last_chunk aid =
     artifact_update tid cid (new_raw_artifact uuid name raw media_type filename None aid) app last_chunk"

definition new_url_artifact_update_event ::
  "string \<Rightarrow> string \<Rightarrow> string \<Rightarrow> string \<Rightarrow> string \<Rightarrow> string option \<Rightarrow> string option \<Rightarrow> bool \<Rightarrow> bool \<Rightarrow>
   string option \<Rightarrow> artifact_event" where
  "new_url_artifact_update_event uuid tid cid name url media_type filename app last_chunk aid =
     artifact_update tid cid (new_url_artifact uuid name url media_type filename None aid) app last_chunk"

text \<open>\<^verbatim>\<open>StreamResponse\<close>, a oneof over the four kinds of event.\<close>

datatype stream_response = EmptyResponse | StreamEvent event

text \<open>\<^verbatim>\<open>to_stream_response\<close> of \<^verbatim>\<open>utils/proto_utils.py\<close>\<close>

definition to_stream_response :: "event \<Rightarrow> stream_response" where
  "to_stream_response ev = StreamEvent ev"

fun get_stream_response_text :: "stream_response \<Rightarrow> string \<Rightarrow> string" where
  "get_stream_response_text (StreamEvent (MessageEv m)) d = get_message_text m d"
| "get_stream_response_text (StreamEvent (TaskEv (TaskObj t))) d =
     py_join d (filter (\<lambda>s. s \<noteq> []) (map (\<lambda>a. get_artifact_text a d) (task_artifacts t)))"
| "get_stream_response_text (StreamEvent (TaskEv (StatusUpdate e))) d =
     (case status_message (se_status_of e) of None \<Rightarrow> [] | Some m \<Rightarrow> get_message_text m d)"
| "get_stream_response_text (StreamEvent (TaskEv (ArtifactUpdate e))) d =
     get_artifact_text (ae_artifact_of e) d"
| "get_stream_response_text EmptyResponse d = []"

subsection \<open>Text in chunks\<close>

lemma new_text_chunk [simp]:
  "ae_append (new_text_artifact_update_event u t c n s app l aid) = app"
  "artifact_id (ae_artifact_of (new_text_artifact_update_event u t c n s app l aid)) = id_or aid u"
  "artifact_parts (ae_artifact_of (new_text_artifact_update_event u t c n s app l aid)) = [new_text_part s None]"
  by (simp_all add: new_text_artifact_update_event_def artifact_update_def ae_artifact_of_def
      new_text_artifact_def new_artifact_def)

lemma get_text_parts_chunks:
  "get_text_parts (concat (map (\<lambda>e. artifact_parts (ae_artifact_of e))
     (map (\<lambda>s. new_text_artifact_update_event u t c n s True l aid) ss))) = ss"
  by (induction ss) (simp_all flip: append_Cons)

text \<open>
  The first chunk opens the artifact and the others append to it: a reader that joins the
  parts of the stored artifact with the empty string reads the concatenation of the chunks.
\<close>

lemma streamed_text:
  assumes "aid \<noteq> []"
  shows "\<exists>t1 t' a'.
    append_artifact_to_task t (new_text_artifact_update_event u i c n s False l (Some aid)) = Inr t1 \<and>
    append_all t1 (map (\<lambda>s. new_text_artifact_update_event u i c n s True l (Some aid)) ss) = Inr t' \<and>
    find_artifact aid t' = Some a' \<and> get_artifact_text a' [] = concat (s # ss) \<and>
    (\<forall>b. b \<noteq> aid \<longrightarrow> find_artifact b t' = find_artifact b t)"
proof -
  let ?e = "new_text_artifact_update_event u i c n s False l (Some aid)"
  have id: "id_or (Some aid) u = aid" using assms by (simp add: id_or_def)
  obtain t1 where t1: "append_artifact_to_task t ?e = Inr t1"
    using append_artifact_replace [of ?e t] by auto
  have f: "find_artifact b t1 = (if b = aid then Some (ae_artifact_of ?e) else find_artifact b t)" for b
    using append_artifact_replace [of ?e t b] t1 id by simp
  from append_all_chunks [OF f [of aid, simplified],
      of "map (\<lambda>s. new_text_artifact_update_event u i c n s True l (Some aid)) ss"]
  obtain t' a' where t': "append_all t1 (map (\<lambda>s. new_text_artifact_update_event u i c n s True l (Some aid)) ss) = Inr t'"
    and a': "find_artifact aid t' = Some a'"
    and p: "artifact_parts a' = artifact_parts (ae_artifact_of ?e) @
      concat (map (\<lambda>e. artifact_parts (ae_artifact_of e))
        (map (\<lambda>s. new_text_artifact_update_event u i c n s True l (Some aid)) ss))"
    and o': "\<forall>b. b \<noteq> aid \<longrightarrow> find_artifact b t' = find_artifact b t1"
    by (auto simp: id)
  have "get_text_parts (artifact_parts a') = s # ss"
    unfolding p get_text_parts_append get_text_parts_chunks by simp
  then have "get_artifact_text a' [] = concat (s # ss)"
    by (simp add: get_artifact_text_def py_join_Nil)
  with t1 t' a' o' f show ?thesis by auto
qed

text \<open>The task built from a user message: exactly when it is refused, and what it holds.\<close>

lemma new_task_from_user_message_spec:
  "(case new_task_from_user_message u1 u2 m of
      Inl e \<Rightarrow> message_role m \<noteq> ROLE_USER \<or> message_parts m = [] \<or> [] \<in> set (get_text_parts (message_parts m))
    | Inr t \<Rightarrow> message_role m = ROLE_USER \<and> message_parts m \<noteq> [] \<and>
        [] \<notin> set (get_text_parts (message_parts m)) \<and>
        conversation t = [m] \<and> task_state_of t = TASK_STATE_SUBMITTED \<and>
        task_id t = (if message_task_id m = [] then u1 else message_task_id m) \<and>
        task_context_id t = (if message_context_id m = [] then u2 else message_context_id m))"
proof -
  have "list_ex empty_text_part ps \<longleftrightarrow> [] \<in> set (get_text_parts ps)" for ps
    by (induction ps) (auto simp: empty_text_part_def get_text_parts_def List.map_filter_def)
  then show ?thesis
    by (auto simp: new_task_from_user_message_def conversation_def status_messages_def
        task_status_of_def task_state_of_def empty_status_def id_or_def)
qed

end
