(* ===== verification/Push_Store.thy ===== *)
theory Push_Store
  imports Proto_Helpers
begin

text \<open>
  Push-notification configurations: the interface \<^verbatim>\<open>PushNotificationConfigStore\<close> as the locale
  \<open>push_store\<close>, \<^verbatim>\<open>InMemoryPushNotificationConfigStore\<close>
  (\<^verbatim>\<open>server/tasks/inmemory_push_notification_config_store.py\<close>), whose operations run under a
  lock, and the sender of \<^verbatim>\<open>server/tasks/base_push_notification_sender.py\<close>. The HTTP client,
  the URL policy and \<^verbatim>\<open>MessageToDict\<close> are arguments of the sender.
\<close>

subsection \<open>Lists of configurations\<close>

text \<open>
  \<^verbatim>\<open>for config in configs: if config.id == i: configs.remove(config); break\<close>.
  \<^verbatim>\<open>remove\<close> takes out the first element that equals its argument, and an equal element has
  the same id, so this is the element found.
\<close>

definition remove_config :: "string \<Rightarrow> push_config list \<Rightarrow> push_config list" where
  "remove_config i cs =
     (case List.find (\<lambda>c. pc_id c = i) cs of None \<Rightarrow> cs | Some c \<Rightarrow> remove1 c cs)"

definition config_ids_ok :: "push_config list \<Rightarrow> bool" where
  "config_ids_ok cs \<longleftrightarrow> distinct (map pc_id cs)"

lemma remove_config_filter:
  "config_ids_ok cs \<Longrightarrow> remove_config i cs = filter (\<lambda>c. pc_id c \<noteq> i) cs"
proof (induction cs)
  case Nil
  then show ?case by (simp add: remove_config_def)
next
  case (Cons c cs)
  then have IH: "remove_config i cs = filter (\<lambda>c. pc_id c \<noteq> i) cs" by (simp add: config_ids_ok_def)
  show ?case
  proof (cases "pc_id c = i")
    case True
    then have "\<forall>x \<in> set cs. pc_id x \<noteq> i"
      using Cons.prems by (auto simp: config_ids_ok_def) (metis imageI)
    then have "filter (\<lambda>c. pc_id c \<noteq> i) cs = cs"
      by (simp add: filter_id_conv)
    with True show ?thesis by (simp add: remove_config_def)
  next
    case False
    then have "remove_config i (c # cs) = c # remove_config i cs"
    proof (cases "List.find (\<lambda>c. pc_id c = i) cs")
      case (Some x)
      then have "pc_id x = i" by (auto simp: find_Some_iff)
      with False Some show ?thesis by (auto simp: remove_config_def)
    qed (simp add: remove_config_def)
    with False IH show ?thesis by simp
  qed
qed

text \<open>
  Setting replaces the configuration of the same id, and the new one comes last; deleting
  drops the configuration of an id, or all of them.
\<close>

definition remaining_configs :: "string option \<Rightarrow> push_config list \<Rightarrow> push_config list" where
  "remaining_configs i cs = (case i of None \<Rightarrow> [] | Some j \<Rightarrow> filter (\<lambda>x. pc_id x \<noteq> j) cs)"

lemma remaining_configs_simps [simp]:
  "remaining_configs None cs = []" "remaining_configs (Some j) cs = filter (\<lambda>x. pc_id x \<noteq> j) cs"
  "remaining_configs i [] = []"
  by (simp_all add: remaining_configs_def split: option.split)

definition upsert_config :: "push_config \<Rightarrow> push_config list \<Rightarrow> push_config list" where
  "upsert_config c cs = filter (\<lambda>x. pc_id x \<noteq> pc_id c) cs @ [c]"

lemma upsert_ids_ok: "config_ids_ok cs \<Longrightarrow> config_ids_ok (upsert_config c cs)"
  by (auto simp: config_ids_ok_def upsert_config_def distinct_map_filter)

lemma filter_ids_ok: "config_ids_ok cs \<Longrightarrow> config_ids_ok (filter P cs)"
  by (simp add: config_ids_ok_def distinct_map_filter)

lemma find_other_ids [simp]: "List.find (\<lambda>x. pc_id x = i) (filter (\<lambda>x. pc_id x \<noteq> i) cs) = None"
  by (simp add: find_None_iff)

subsection \<open>The interface\<close>

record 's push_ops =
  ps_set_info :: "string \<Rightarrow> push_config \<Rightarrow> call_context \<Rightarrow> 's \<Rightarrow> 's"
  ps_get_info :: "string \<Rightarrow> call_context \<Rightarrow> 's \<Rightarrow> push_config list"
  ps_get_info_for_dispatch :: "string \<Rightarrow> 's \<Rightarrow> push_config list"
  ps_delete_info :: "string \<Rightarrow> call_context \<Rightarrow> string option \<Rightarrow> 's \<Rightarrow> 's"

text \<open>An empty id is replaced by the task's id.\<close>

definition default_id :: "string \<Rightarrow> push_config \<Rightarrow> push_config" where
  "default_id tid c = (if pc_id c = [] then c\<lparr>pc_id := tid\<rparr> else c)"

locale push_store =
  fixes ops :: "'s push_ops"
    and owner :: "call_context \<Rightarrow> string"
    and pinv :: "'s \<Rightarrow> bool"
  assumes get_set:
      "pinv s \<Longrightarrow> ps_get_info ops t c' (ps_set_info ops tid cfg c s) =
         (if owner c' = owner c \<and> t = tid then upsert_config (default_id tid cfg) (ps_get_info ops t c' s)
          else ps_get_info ops t c' s)"
    and get_delete:
      "pinv s \<Longrightarrow> ps_get_info ops t c' (ps_delete_info ops tid c i s) =
         (if owner c' = owner c \<and> t = tid
          then remaining_configs i (ps_get_info ops t c' s)
          else ps_get_info ops t c' s)"
    and inv_set: "pinv s \<Longrightarrow> pinv (ps_set_info ops tid cfg c s)"
    and inv_delete: "pinv s \<Longrightarrow> pinv (ps_delete_info ops tid c i s)"
    and ids_ok: "pinv s \<Longrightarrow> config_ids_ok (ps_get_info ops t c s)"
begin

lemma get_set_same: "pinv s \<Longrightarrow> default_id tid cfg \<in> set (ps_get_info ops tid c (ps_set_info ops tid cfg c s))"
  by (simp add: get_set upsert_config_def)

lemma set_set:
  "pinv s \<Longrightarrow> pc_id (default_id tid a) = pc_id (default_id tid b) \<Longrightarrow>
    ps_get_info ops t c' (ps_set_info ops tid a c (ps_set_info ops tid b c s)) =
    ps_get_info ops t c' (ps_set_info ops tid a c s)"
  by (simp add: get_set inv_set upsert_config_def)

lemma delete_set:
  "pinv s \<Longrightarrow> pc_id (default_id tid a) \<notin> pc_id ` set (ps_get_info ops tid c s) \<Longrightarrow>
    ps_get_info ops t c' (ps_delete_info ops tid c (Some (pc_id (default_id tid a))) (ps_set_info ops tid a c s)) =
    (if owner c' = owner c \<and> t = tid
     then filter (\<lambda>x. pc_id x \<noteq> pc_id (default_id tid a)) (ps_get_info ops t c' s)
     else ps_get_info ops t c' s)"
  by (simp add: get_set get_delete inv_set upsert_config_def)

end

subsection \<open>The in-memory store\<close>

record push_config_store =
  pcs_infos :: "(string, (string, push_config list) dict) dict"

definition pcs_empty :: push_config_store where
  "pcs_empty = \<lparr>pcs_infos = []\<rparr>"

definition get_owner_infos :: "string \<Rightarrow> push_config_store \<Rightarrow> (string, push_config list) dict" where
  "get_owner_infos ow s = (case map_of (pcs_infos s) ow of None \<Rightarrow> [] | Some d \<Rightarrow> d)"

definition configs_at :: "string \<Rightarrow> (string, push_config list) dict \<Rightarrow> push_config list" where
  "configs_at tid d = (case map_of d tid of None \<Rightarrow> [] | Some cs \<Rightarrow> cs)"

definition pcs_set_info ::
  "(call_context \<Rightarrow> string) \<Rightarrow> string \<Rightarrow> push_config \<Rightarrow> call_context \<Rightarrow> push_config_store \<Rightarrow> push_config_store" where
  "pcs_set_info resolver tid cfg c s =
     (let ow = resolver c;
          owner_infos = get_owner_infos ow s;
          cfg' = (if pc_id cfg = [] then cfg\<lparr>pc_id := tid\<rparr> else cfg);
          cs = remove_config (pc_id cfg') (configs_at tid owner_infos) @ [cfg']
      in s\<lparr>pcs_infos := AList.update ow (AList.update tid cs owner_infos) (pcs_infos s)\<rparr>)"

definition pcs_get_info ::
  "(call_context \<Rightarrow> string) \<Rightarrow> string \<Rightarrow> call_context \<Rightarrow> push_config_store \<Rightarrow> push_config list" where
  "pcs_get_info resolver tid c s = configs_at tid (get_owner_infos (resolver c) s)"

definition pcs_get_info_for_dispatch :: "string \<Rightarrow> push_config_store \<Rightarrow> push_config list" where
  "pcs_get_info_for_dispatch tid s = concat (map (configs_at tid) (map snd (pcs_infos s)))"

text \<open>The part of \<^verbatim>\<open>delete_info\<close> that works on the dictionary of one owner.\<close>

definition delete_in_infos ::
  "string \<Rightarrow> string option \<Rightarrow> (string, push_config list) dict \<Rightarrow> (string, push_config list) dict" where
  "delete_in_infos tid config_id owner_infos =
     (case config_id of
        None \<Rightarrow> AList.delete tid owner_infos
      | Some i \<Rightarrow>
          (let configurations = configs_at tid owner_infos
           in if list_ex (\<lambda>x. pc_id x = i) configurations
              then (if remove_config i configurations = [] then AList.delete tid owner_infos
                    else AList.update tid (remove_config i configurations) owner_infos)
              else owner_infos))"

definition pcs_delete_info ::
  "(call_context \<Rightarrow> string) \<Rightarrow> string \<Rightarrow> call_context \<Rightarrow> string option \<Rightarrow> push_config_store \<Rightarrow> push_config_store" where
  "pcs_delete_info resolver tid c config_id s =
     (let ow = resolver c; owner_infos = get_owner_infos ow s
      in if map_of owner_infos tid = None then s
         else
           let owner_infos' = delete_in_infos tid config_id owner_infos
           in if owner_infos' = [] then s\<lparr>pcs_infos := AList.delete ow (pcs_infos s)\<rparr>
              else s\<lparr>pcs_infos := AList.update ow owner_infos' (pcs_infos s)\<rparr>)"

definition pcs_ops :: "(call_context \<Rightarrow> string) \<Rightarrow> push_config_store push_ops" where
  "pcs_ops resolver =
     \<lparr>ps_set_info = pcs_set_info resolver, ps_get_info = pcs_get_info resolver,
      ps_get_info_for_dispatch = pcs_get_info_for_dispatch, ps_delete_info = pcs_delete_info resolver\<rparr>"

lemma pcs_ops_simps [simp]:
  "ps_set_info (pcs_ops r) = pcs_set_info r" "ps_get_info (pcs_ops r) = pcs_get_info r"
  "ps_get_info_for_dispatch (pcs_ops r) = pcs_get_info_for_dispatch"
  "ps_delete_info (pcs_ops r) = pcs_delete_info r"
  by (simp_all add: pcs_ops_def)

text \<open>The invariant: no empty dictionary or list is kept, and the ids of a list differ.\<close>

definition infos_ok :: "string \<Rightarrow> (string, push_config list) dict \<Rightarrow> bool" where
  "infos_ok ow d \<longleftrightarrow> d \<noteq> [] \<and> dict_all (\<lambda>i cs. cs \<noteq> [] \<and> config_ids_ok cs) d"

definition pcs_ok :: "push_config_store \<Rightarrow> bool" where
  "pcs_ok s \<longleftrightarrow> dict_all infos_ok (pcs_infos s)"

lemma pcs_ok_empty [simp]: "pcs_ok pcs_empty"
  by (simp add: pcs_ok_def pcs_empty_def)

lemma owner_infos_ok: "pcs_ok s \<Longrightarrow> dict_all (\<lambda>i cs. cs \<noteq> [] \<and> config_ids_ok cs) (get_owner_infos ow s)"
  by (auto simp: get_owner_infos_def pcs_ok_def infos_ok_def split: option.splits dest: dict_allD)

lemma configs_at_ok: "pcs_ok s \<Longrightarrow> config_ids_ok (configs_at tid (get_owner_infos ow s))"
  by (auto simp: configs_at_def config_ids_ok_def split: option.splits dest: dict_allD [OF owner_infos_ok])

lemma configs_at_update [simp]:
  "configs_at t (AList.update tid cs d) = (if t = tid then cs else configs_at t d)"
  by (simp add: configs_at_def)

lemma configs_at_delete [simp]:
  "configs_at t (AList.delete tid d) = (if t = tid then [] else configs_at t d)"
  by (simp add: configs_at_def)

lemma configs_at_Nil [simp]: "configs_at t [] = []"
  by (simp add: configs_at_def)

lemma get_owner_infos_upd [simp]:
  "get_owner_infos ow (s\<lparr>pcs_infos := AList.update o' d (pcs_infos s)\<rparr>) =
     (if ow = o' then d else get_owner_infos ow s)"
  "get_owner_infos ow (s\<lparr>pcs_infos := AList.delete o' (pcs_infos s)\<rparr>) =
     (if ow = o' then [] else get_owner_infos ow s)"
  by (simp_all add: get_owner_infos_def)

lemma pcs_get_set:
  assumes "pcs_ok s"
  shows "pcs_get_info r t c' (pcs_set_info r tid cfg c s) =
    (if r c' = r c \<and> t = tid then upsert_config (default_id tid cfg) (pcs_get_info r t c' s)
     else pcs_get_info r t c' s)"
  using configs_at_ok [OF assms]
  by (auto simp: pcs_get_info_def pcs_set_info_def Let_def remove_config_filter upsert_config_def default_id_def)

lemma configs_at_delete_in:
  assumes "config_ids_ok (configs_at tid d)"
  shows "configs_at t (delete_in_infos tid i d) =
    (if t = tid then remaining_configs i (configs_at t d)
     else configs_at t d)"
proof (cases i)
  case None
  then show ?thesis by (simp add: delete_in_infos_def)
next
  case (Some j)
  have "filter (\<lambda>x. pc_id x \<noteq> j) cs = cs" if "\<not> list_ex (\<lambda>x. pc_id x = j) cs" for cs
    using that by (auto simp: list_ex_iff filter_id_conv)
  then have absent: "\<not> list_ex (\<lambda>x. pc_id x = j) (configs_at tid d) \<Longrightarrow>
      filter (\<lambda>x. pc_id x \<noteq> j) (configs_at tid d) = configs_at tid d"
    by blast
  show ?thesis
  proof (cases "list_ex (\<lambda>x. pc_id x = j) (configs_at tid d)")
    case True
    with Some remove_config_filter [OF assms, of j] show ?thesis
      by (simp add: delete_in_infos_def Let_def)
  next
    case False
    with Some absent show ?thesis by (simp add: delete_in_infos_def Let_def)
  qed
qed

lemma pcs_get_delete:
  assumes ok: "pcs_ok s"
  shows "pcs_get_info r t c' (pcs_delete_info r tid c i s) =
    (if r c' = r c \<and> t = tid
     then remaining_configs i (pcs_get_info r t c' s)
     else pcs_get_info r t c' s)"
proof (cases "map_of (get_owner_infos (r c) s) tid")
  case None
  then show ?thesis
    by (auto simp: pcs_get_info_def pcs_delete_info_def configs_at_def split: option.split)
next
  case (Some cs)
  let ?d = "delete_in_infos tid i (get_owner_infos (r c) s)"
  have "get_owner_infos (r c') (pcs_delete_info r tid c i s) =
      (if r c' = r c then ?d else get_owner_infos (r c') s)"
    using Some by (simp add: pcs_delete_info_def Let_def)
  then show ?thesis
    using configs_at_delete_in [OF configs_at_ok [OF ok], of t tid i "r c"]
    by (auto simp: pcs_get_info_def)
qed

lemma pcs_ok_set:
  assumes "pcs_ok s" shows "pcs_ok (pcs_set_info r tid cfg c s)"
proof -
  have "config_ids_ok (remove_config i (configs_at tid (get_owner_infos (r c) s)) @ [x])"
    if "pc_id x = i" for i x
    using upsert_ids_ok [OF configs_at_ok [OF assms, of tid "r c"], of x] that
    by (simp add: upsert_config_def remove_config_filter [OF configs_at_ok [OF assms]])
  with assms owner_infos_ok [OF assms, of "r c"] show ?thesis
    by (simp add: pcs_ok_def pcs_set_info_def Let_def dict_all_update infos_ok_def)
qed

lemma pcs_ok_delete:
  assumes ok: "pcs_ok s" shows "pcs_ok (pcs_delete_info r tid c i s)"
proof -
  let ?P = "\<lambda>(i :: string) cs. cs \<noteq> [] \<and> config_ids_ok cs" and ?d = "get_owner_infos (r c) s"
  note d = owner_infos_ok [OF ok, of "r c"]
  have "dict_all ?P (AList.update tid (remove_config j (configs_at tid ?d)) ?d)"
    if "remove_config j (configs_at tid ?d) \<noteq> []" for j
    using that d remove_config_filter [OF configs_at_ok [OF ok, of tid "r c"], of j]
      filter_ids_ok [OF configs_at_ok [OF ok, of tid "r c"]]
    by (intro dict_all_update) simp_all
  then have "dict_all ?P (delete_in_infos tid i ?d)"
    using d dict_all_delete [OF d] by (simp add: delete_in_infos_def Let_def split: option.split)
  then show ?thesis
    using ok by (simp add: pcs_ok_def pcs_delete_info_def Let_def infos_ok_def dict_all_update dict_all_delete)
qed

interpretation pcs: push_store "pcs_ops r" r pcs_ok for r
proof
  fix s :: push_config_store and t tid c c' cfg and i :: "string option"
  assume s: "pcs_ok s"
  show "ps_get_info (pcs_ops r) t c' (ps_set_info (pcs_ops r) tid cfg c s) =
      (if r c' = r c \<and> t = tid then upsert_config (default_id tid cfg) (ps_get_info (pcs_ops r) t c' s)
       else ps_get_info (pcs_ops r) t c' s)"
    using pcs_get_set [OF s] by simp
  show "ps_get_info (pcs_ops r) t c' (ps_delete_info (pcs_ops r) tid c i s) =
      (if r c' = r c \<and> t = tid
       then remaining_configs i (ps_get_info (pcs_ops r) t c' s)
       else ps_get_info (pcs_ops r) t c' s)"
    using pcs_get_delete [OF s] by simp
  show "pcs_ok (ps_set_info (pcs_ops r) tid cfg c s)" "pcs_ok (ps_delete_info (pcs_ops r) tid c i s)"
    using s by (simp_all add: pcs_ok_set pcs_ok_delete)
  show "config_ids_ok (ps_get_info (pcs_ops r) t c s)"
    using configs_at_ok [OF s] by (simp add: pcs_get_info_def)
qed

text \<open>Dispatch reads across owners: exactly the configurations that some owner sees.\<close>

lemma dispatch_iff:
  assumes "pcs_ok s"
  shows "cfg \<in> set (pcs_get_info_for_dispatch tid s) \<longleftrightarrow>
    (\<exists>ow. cfg \<in> set (configs_at tid (get_owner_infos ow s)))"
proof -
  have ok: "dict_ok (pcs_infos s)" using assms by (simp add: pcs_ok_def dict_all_ok)
  have "cfg \<in> set (pcs_get_info_for_dispatch tid s) \<longleftrightarrow>
      (\<exists>d \<in> set (map snd (pcs_infos s)). cfg \<in> set (configs_at tid d))"
    by (simp add: pcs_get_info_for_dispatch_def)
  also have "\<dots> \<longleftrightarrow> (\<exists>ow d. map_of (pcs_infos s) ow = Some d \<and> cfg \<in> set (configs_at tid d))"
    unfolding Bex_def values_map_of [OF ok] by blast
  also have "\<dots> \<longleftrightarrow> (\<exists>ow. cfg \<in> set (configs_at tid (get_owner_infos ow s)))"
    by (auto simp: get_owner_infos_def split: option.splits)
  finally show ?thesis .
qed

subsection \<open>The sender\<close>

record http_request =
  hr_url :: string
  hr_body :: json
  hr_headers :: "(string, string) dict option"

text \<open>
  The result of the post: whether a response came back and \<^verbatim>\<open>raise_for_status\<close> accepted it.
  \<^verbatim>\<open>_dispatch_notification\<close> catches every exception of the post.
\<close>

definition dispatch_notification ::
  "(string \<Rightarrow> bool) option \<Rightarrow> (stream_response \<Rightarrow> json) \<Rightarrow> (http_request \<Rightarrow> bool) \<Rightarrow> event \<Rightarrow> push_config \<Rightarrow>
   http_request list \<times> bool" where
  "dispatch_notification url_validator to_dict post ev cfg =
     (if (case url_validator of None \<Rightarrow> False | Some v \<Rightarrow> \<not> v (pc_url cfg)) then ([], False)
      else
        let req = \<lparr>hr_url = pc_url cfg, hr_body = to_dict (to_stream_response ev),
                   hr_headers = (if pc_token cfg = [] then None
                                 else Some [(''X-A2A-Notification-Token'', pc_token cfg)])\<rparr>
        in ([req], post req))"

text \<open>The requests of \<^verbatim>\<open>send_notification\<close>, one per configuration, and whether all succeeded.\<close>

definition send_notification ::
  "(string \<Rightarrow> bool) option \<Rightarrow> (stream_response \<Rightarrow> json) \<Rightarrow> (http_request \<Rightarrow> bool) \<Rightarrow> string \<Rightarrow> event \<Rightarrow>
   push_config_store \<Rightarrow> http_request list \<times> bool" where
  "send_notification url_validator to_dict post tid ev s =
     (let push_configs = pcs_get_info_for_dispatch tid s;
          results = map (dispatch_notification url_validator to_dict post ev) push_configs
      in (concat (map fst results), list_all snd results))"

text \<open>
  Who is notified: the url of every configuration any owner registered for the task and the
  policy accepts, whatever happens to the other posts.
\<close>

lemma send_notification_targets:
  assumes "pcs_ok s"
  shows "u \<in> hr_url ` set (fst (send_notification v to_dict post tid ev s)) \<longleftrightarrow>
    (\<exists>ow cfg. cfg \<in> set (configs_at tid (get_owner_infos ow s)) \<and> pc_url cfg = u \<and>
       (case v of None \<Rightarrow> True | Some ok \<Rightarrow> ok u))"
proof -
  have "u \<in> hr_url ` set (fst (dispatch_notification v to_dict post ev cfg)) \<longleftrightarrow>
      pc_url cfg = u \<and> (case v of None \<Rightarrow> True | Some ok \<Rightarrow> ok u)" for cfg
    by (auto simp: dispatch_notification_def Let_def split: option.splits)
  then have "u \<in> hr_url ` set (fst (send_notification v to_dict post tid ev s)) \<longleftrightarrow>
      (\<exists>cfg \<in> set (pcs_get_info_for_dispatch tid s). pc_url cfg = u \<and>
        (case v of None \<Rightarrow> True | Some ok \<Rightarrow> ok u))"
    by (auto simp: send_notification_def Let_def image_UN)
  then show ?thesis unfolding Bex_def dispatch_iff [OF assms] by blast
qed

end
