(* ===== verification/Task_Updater.thy ===== *)
theory Task_Updater
  imports Task_Manager
begin

text \<open>
  \<^verbatim>\<open>TaskUpdater\<close> of \<^verbatim>\<open>server/tasks/task_updater.py\<close>, the helper through which an agent publishes
  its events. The state is the object's attributes and the events it has put on its queue.
  \<^verbatim>\<open>update_status\<close> runs under the object's lock, so each call is one step. The clock, the id
  generator and \<open>datetime.fromisoformat\<close> are arguments: \<open>now\<close>, \<open>gen\<close> and \<open>from_iso\<close>.
\<close>

record task_updater =
  tu_task_id :: string
  tu_context_id :: string
  tu_terminal_state_reached :: bool
  tu_event_queue :: "event list"

definition tu_init :: "string \<Rightarrow> string \<Rightarrow> task_updater" where
  "tu_init tid cid = \<lparr>tu_task_id = tid, tu_context_id = cid, tu_terminal_state_reached = False,
     tu_event_queue = []\<rparr>"

definition enqueue_event :: "event \<Rightarrow> task_updater \<Rightarrow> task_updater" where
  "enqueue_event ev u = u\<lparr>tu_event_queue := tu_event_queue u @ [ev]\<rparr>"

text \<open>\<^verbatim>\<open>timestamp.replace('Z', '+00:00')\<close>\<close>

definition replace_Z :: "string \<Rightarrow> string" where
  "replace_Z s = concat (map (\<lambda>ch. if ch = CHR ''Z'' then ''+00:00'' else [ch]) s)"

definition tu_update_status ::
  "(string \<Rightarrow> exn + timestamp) \<Rightarrow> timestamp \<Rightarrow> task_state \<Rightarrow> message option \<Rightarrow> string option \<Rightarrow>
   struct option \<Rightarrow> task_updater \<Rightarrow> task_updater \<times> exn option" where
  "tu_update_status from_iso now state msg tstamp meta u =
     (if tu_terminal_state_reached u
      then (u, Some (RuntimeError (''Task '' @ tu_task_id u @ '' is already in a terminal state.'')))
      else
        let u1 = (if state \<in> TERMINAL_TASK_STATES then u\<lparr>tu_terminal_state_reached := True\<rparr> else u)
        in (case (if py_truthy tstamp then from_iso (replace_Z (or_empty tstamp)) else Inr now) of
              Inl e \<Rightarrow> (u1, Some e)
            | Inr ts \<Rightarrow>
                (enqueue_event (TaskEv (StatusUpdate
                   \<lparr>se_task_id = tu_task_id u1, se_context_id = tu_context_id u1,
                    se_status = Some \<lparr>status_state = state, status_message = msg, status_timestamp = Some ts\<rparr>,
                    se_metadata = meta\<rparr>)) u1, None)))"

definition tu_add_artifact ::
  "string \<Rightarrow> part list \<Rightarrow> string option \<Rightarrow> string option \<Rightarrow> struct option \<Rightarrow> bool option \<Rightarrow> bool option \<Rightarrow>
   string list option \<Rightarrow> task_updater \<Rightarrow> task_updater" where
  "tu_add_artifact gen parts aid name meta app last_chunk exts u =
     (let aid' = (if py_truthy aid then or_empty aid else gen)
      in enqueue_event (TaskEv (ArtifactUpdate
           \<lparr>ae_task_id = tu_task_id u, ae_context_id = tu_context_id u,
            ae_artifact = Some \<lparr>artifact_id = aid', artifact_name = or_empty name,
              artifact_description = [], artifact_parts = parts, artifact_metadata = meta,
              artifact_extensions = list_or_nil exts\<rparr>,
            ae_append = (app = Some True), ae_last_chunk = (last_chunk = Some True),
            ae_metadata = None\<rparr>)) u)"

text \<open>The shorthands for one state each.\<close>

definition tu_complete where
  "tu_complete from_iso now msg u =
     tu_update_status from_iso now TASK_STATE_COMPLETED msg None None u"

definition tu_failed where
  "tu_failed from_iso now msg u = tu_update_status from_iso now TASK_STATE_FAILED msg None None u"

definition tu_reject where
  "tu_reject from_iso now msg u = tu_update_status from_iso now TASK_STATE_REJECTED msg None None u"

definition tu_submit where
  "tu_submit from_iso now msg u = tu_update_status from_iso now TASK_STATE_SUBMITTED msg None None u"

definition tu_start_work where
  "tu_start_work from_iso now msg u = tu_update_status from_iso now TASK_STATE_WORKING msg None None u"

definition tu_cancel where
  "tu_cancel from_iso now msg u = tu_update_status from_iso now TASK_STATE_CANCELED msg None None u"

definition tu_requires_input where
  "tu_requires_input from_iso now msg u =
     tu_update_status from_iso now TASK_STATE_INPUT_REQUIRED msg None None u"

definition tu_requires_auth where
  "tu_requires_auth from_iso now msg u =
     tu_update_status from_iso now TASK_STATE_AUTH_REQUIRED msg None None u"

definition tu_new_agent_message ::
  "string \<Rightarrow> part list \<Rightarrow> struct option \<Rightarrow> task_updater \<Rightarrow> message" where
  "tu_new_agent_message gen parts meta u =
     empty_message\<lparr>message_role := ROLE_AGENT, message_task_id := tu_task_id u,
       message_context_id := tu_context_id u, message_id := gen, message_metadata := meta,
       message_parts := parts\<rparr>"

subsection \<open>Runs of an agent\<close>

datatype updater_call =
    UpdateStatus task_state "message option" "string option" "struct option"
  | AddArtifact "part list" "string option" "string option" "struct option" "bool option"
      "bool option" "string list option"
  | Complete "message option"
  | Failed "message option"
  | Reject "message option"
  | Submit "message option"
  | StartWork "message option"
  | Cancel "message option"
  | RequiresInput "message option"
  | RequiresAuth "message option"

fun tu_call ::
  "(string \<Rightarrow> exn + timestamp) \<Rightarrow> timestamp \<Rightarrow> string \<Rightarrow> updater_call \<Rightarrow> task_updater \<Rightarrow> task_updater \<times> exn option" where
  "tu_call f now gen (UpdateStatus st m ts md) u = tu_update_status f now st m ts md u"
| "tu_call f now gen (AddArtifact ps aid n md ap lc ex) u = (tu_add_artifact gen ps aid n md ap lc ex u, None)"
| "tu_call f now gen (Complete m) u = tu_complete f now m u"
| "tu_call f now gen (Failed m) u = tu_failed f now m u"
| "tu_call f now gen (Reject m) u = tu_reject f now m u"
| "tu_call f now gen (Submit m) u = tu_submit f now m u"
| "tu_call f now gen (StartWork m) u = tu_start_work f now m u"
| "tu_call f now gen (Cancel m) u = tu_cancel f now m u"
| "tu_call f now gen (RequiresInput m) u = tu_requires_input f now m u"
| "tu_call f now gen (RequiresAuth m) u = tu_requires_auth f now m u"

lemmas tu_shorthands = tu_complete_def tu_failed_def tu_reject_def tu_submit_def tu_start_work_def
  tu_cancel_def tu_requires_input_def tu_requires_auth_def

text \<open>A run makes its calls in order; an agent may catch the exceptions and go on.\<close>

fun tu_run ::
  "(string \<Rightarrow> exn + timestamp) \<Rightarrow> (timestamp \<times> string \<times> updater_call) list \<Rightarrow> task_updater \<Rightarrow> task_updater" where
  "tu_run f [] u = u"
| "tu_run f ((now, gen, c) # cs) u = tu_run f cs (fst (tu_call f now gen c u))"

fun event_states :: "event \<Rightarrow> task_state list" where
  "event_states (TaskEv (StatusUpdate e)) = [status_state (se_status_of e)]"
| "event_states _ = []"

definition published_states :: "task_updater \<Rightarrow> task_state list" where
  "published_states u = concat (map event_states (tu_event_queue u))"

text \<open>
  The invariant of an updater: its events carry its ids, only the last published state can be
  terminal, and then the flag is set.
\<close>

definition tu_ok :: "task_updater \<Rightarrow> bool" where
  "tu_ok u \<longleftrightarrow>
     (\<forall>ev \<in> set (tu_event_queue u).
        \<exists>te. ev = TaskEv te \<and> is_update_of (tu_task_id u) ev \<and> event_context_id te = tu_context_id u) \<and>
     (\<forall>st \<in> set (butlast (published_states u)). st \<notin> TERMINAL_TASK_STATES) \<and>
     (\<forall>st \<in> set (published_states u). st \<in> TERMINAL_TASK_STATES \<longrightarrow> tu_terminal_state_reached u)"

lemma tu_ok_init: "tu_ok (tu_init tid cid)"
  by (simp add: tu_ok_def tu_init_def published_states_def)

lemma published_enqueue [simp]:
  "published_states (enqueue_event ev u) = published_states u @ event_states ev"
  by (simp add: published_states_def enqueue_event_def)

lemma enqueue_event_simps [simp]:
  "tu_task_id (enqueue_event ev u) = tu_task_id u" "tu_context_id (enqueue_event ev u) = tu_context_id u"
  "tu_terminal_state_reached (enqueue_event ev u) = tu_terminal_state_reached u"
  "tu_event_queue (enqueue_event ev u) = tu_event_queue u @ [ev]"
  by (simp_all add: enqueue_event_def)

lemma tu_ok_flag: "tu_ok u \<Longrightarrow> tu_ok (u\<lparr>tu_terminal_state_reached := True\<rparr>)"
  by (simp add: tu_ok_def published_states_def)

lemma tu_ok_status:
  assumes "tu_ok u" "\<not> tu_terminal_state_reached u"
    and "se_task_id e = tu_task_id u" "se_context_id e = tu_context_id u"
    and v: "v = u \<and> status_state (se_status_of e) \<notin> TERMINAL_TASK_STATES \<or>
        v = u\<lparr>tu_terminal_state_reached := True\<rparr>"
  shows "tu_ok (enqueue_event (TaskEv (StatusUpdate e)) v)"
proof -
  have pub: "published_states v = published_states u" and ids: "tu_task_id v = tu_task_id u"
    "tu_context_id v = tu_context_id u" "tu_event_queue v = tu_event_queue u"
    using v by (auto simp: published_states_def)
  have nt: "\<forall>st \<in> set (published_states u). st \<notin> TERMINAL_TASK_STATES"
    using assms(1,2) by (auto simp: tu_ok_def)
  show ?thesis
    using assms nt unfolding tu_ok_def by (auto simp: pub ids)
qed

lemma tu_ok_artifact:
  assumes "tu_ok u" "ae_task_id e = tu_task_id u" "ae_context_id e = tu_context_id u"
  shows "tu_ok (enqueue_event (TaskEv (ArtifactUpdate e)) u)"
  using assms by (auto simp: tu_ok_def)

lemma tu_ok_update_status:
  assumes "tu_ok u" shows "tu_ok (fst (tu_update_status f now st m ts md u))"
proof (cases "tu_terminal_state_reached u")
  case True
  with assms show ?thesis by (simp add: tu_update_status_def)
next
  case False
  with assms show ?thesis
    by (auto simp: tu_update_status_def Let_def se_status_of_def
        intro!: tu_ok_status tu_ok_flag split: sum.split)
qed

lemma tu_ok_call: "tu_ok u \<Longrightarrow> tu_ok (fst (tu_call f now gen c u))"
  by (cases c)
     (auto simp: tu_shorthands tu_ok_update_status tu_add_artifact_def Let_def intro!: tu_ok_artifact)

lemma tu_ok_run: "tu_ok u \<Longrightarrow> tu_ok (tu_run f cs u)"
  by (induction f cs u rule: tu_run.induct) (simp_all add: tu_ok_call)

lemma tu_call_ids: "tu_task_id (fst (tu_call f now gen c u)) = tu_task_id u \<and>
    tu_context_id (fst (tu_call f now gen c u)) = tu_context_id u"
  by (cases c) (auto simp: tu_shorthands tu_update_status_def tu_add_artifact_def Let_def split: sum.split)

lemma tu_run_ids [simp]: "tu_task_id (tu_run f cs u) = tu_task_id u"
  "tu_context_id (tu_run f cs u) = tu_context_id u"
  by (induction f cs u rule: tu_run.induct) (simp_all add: tu_call_ids)

text \<open>A call either raises and publishes nothing, or publishes exactly one event.\<close>

lemma tu_call_publishes:
  "tu_call f now gen c u = (u', r) \<Longrightarrow>
     (case r of Some e \<Rightarrow> tu_event_queue u' = tu_event_queue u
      | None \<Rightarrow> \<exists>ev. tu_event_queue u' = tu_event_queue u @ [ev])"
  by (cases c) (auto simp: tu_shorthands tu_update_status_def tu_add_artifact_def Let_def
      split: sum.splits if_splits)

text \<open>
  A timestamp that does not parse: the flag is set before the string is read, so the call
  raises with nothing published and every later status call raises as well.
\<close>

lemma tu_bad_timestamp_locks:
  assumes "\<not> tu_terminal_state_reached u" "st \<in> TERMINAL_TASK_STATES" "py_truthy ts"
    and "f (replace_Z (or_empty ts)) = Inl e"
  shows "\<exists>u'. tu_update_status f now st m ts md u = (u', Some e) \<and>
    tu_event_queue u' = tu_event_queue u \<and>
    (\<forall>now' st' m' ts' md'. \<exists>e'. tu_update_status f now' st' m' ts' md' u' = (u', Some e'))"
  using assms by (auto simp: tu_update_status_def Let_def)

subsection \<open>The updater in front of a task manager\<close>

definition appends :: "event \<Rightarrow> bool" where
  "appends ev = (case ev of TaskEv (ArtifactUpdate e) \<Rightarrow> ae_append e | _ \<Rightarrow> False)"

text \<open>The state of a task after the events.\<close>

definition state_after :: "task_state \<Rightarrow> event list \<Rightarrow> task_state" where
  "state_after st evs = last (st # concat (map event_states evs))"

lemma state_after_Cons: "state_after st (ev # evs) = state_after (last (st # event_states ev)) evs"
  by (cases "event_states ev = []") (auto simp: state_after_def last_append)

lemma task_state_apply_status [simp]: "task_state_of (apply_status_event e t) = status_state (se_status_of e)"
  by (simp add: task_state_of_def apply_status_event_def task_status_of_def)

lemma task_state_append: "append_artifact_to_task t e = Inr u \<Longrightarrow> task_state_of u = task_state_of t"
  by (simp add: task_state_of_def task_status_of_def append_artifact_frame)

context task_store
begin

lemma process_update_ok:
  assumes co: "tm_coherent ops sinv tm" and v: "tm_view ops tm = Some t"
    and u: "is_update_of (task_id t) (TaskEv te)" and na: "\<not> appends (TaskEv te)"
    and cx: "py_truthy (tm_context_id tm) \<longrightarrow> tm_context_id tm = Some (event_context_id te)"
  shows "\<exists>tm' t'. tm_process ops (TaskEv te) tm = (tm', Inr (TaskEv te)) \<and>
    tm_coherent ops sinv tm' \<and> tm_view ops tm' = Some t' \<and> task_id t' = task_id t \<and>
    task_state_of t' = last (task_state_of t # event_states (TaskEv te)) \<and>
    tm_context_id tm' = (if py_truthy (tm_context_id tm) then tm_context_id tm else Some (event_context_id te))"
proof -
  note id = coherent_view [OF co v]
  have te: "event_task_id te = task_id t" using u by (cases te) auto
  let ?tm1 = "if py_truthy (tm_context_id tm) then tm else tm\<lparr>tm_context_id := Some (event_context_id te)\<rparr>"
  have chk: "tm_ids_check te tm = (?tm1, None)"
    using id te cx by (auto simp: tm_ids_check_def Let_def)
  have v1: "tm_view ops ?tm1 = Some t" by (rule ids_check_view [OF co v chk])
  obtain t' where sv: "tm_save_task_event ops te tm = (tm_save_task ops t' ?tm1, Inr t')"
    and st: "task_state_of t' = last (task_state_of t # event_states (TaskEv te))"
  proof (cases te)
    case (TaskObj x)
    with u show ?thesis by simp
  next
    case (StatusUpdate e)
    with chk v1 that [of "apply_status_event e t"] show ?thesis
      by (simp add: tm_save_task_event_def tm_ensure_task_id_eq Let_def)
  next
    case (ArtifactUpdate e)
    with na have "\<not> ae_append e" by (simp add: appends_def)
    from append_artifact_replace [OF this] obtain t' where a: "append_artifact_to_task t e = Inr t'"
      by blast
    with ArtifactUpdate chk v1 that [of t'] task_state_append [OF a] show ?thesis
      by (simp add: tm_save_task_event_def tm_ensure_task_id_eq Let_def)
  qed
  from save_task_event_spec [OF co _ sv] id te
  have "tm_coherent ops sinv (tm_save_task ops t' ?tm1)" "task_id t' = task_id t"
    by (auto simp: tm_frame_def)
  moreover have "tm_context_id (tm_save_task ops t' ?tm1) = tm_context_id ?tm1"
    using id by (simp add: tm_save_task_def Let_def)
  ultimately show ?thesis
    using sv st by (auto simp: tm_process_def tm_view_def)
qed

lemma process_updates_ok:
  assumes "tm_coherent ops sinv tm" and "tm_view ops tm = Some t"
    and "py_truthy (tm_context_id tm) \<longrightarrow> tm_context_id tm = Some cid"
    and "\<forall>ev \<in> set evs. \<exists>te. ev = TaskEv te \<and> is_update_of (task_id t) ev \<and> event_context_id te = cid"
    and "\<forall>ev \<in> set evs. \<not> appends ev"
  shows "\<exists>tm' t'. tm_process_all ops evs tm = (tm', None) \<and> tm_view ops tm' = Some t' \<and>
    task_state_of t' = state_after (task_state_of t) evs"
  using assms
proof (induction evs arbitrary: tm t)
  case Nil
  then show ?case by (simp add: state_after_def)
next
  case (Cons ev evs)
  then obtain te where te: "ev = TaskEv te" "is_update_of (task_id t) ev" "event_context_id te = cid"
    by auto
  have na: "\<not> appends (TaskEv te)" and cx: "py_truthy (tm_context_id tm) \<longrightarrow> tm_context_id tm = Some (event_context_id te)"
    using Cons.prems te by auto
  from process_update_ok [OF Cons.prems(1,2) te(2) [unfolded te(1)] na cx] obtain tm1 t1 where
    s: "tm_process ops ev tm = (tm1, Inr ev)" "tm_coherent ops sinv tm1" "tm_view ops tm1 = Some t1"
      "task_id t1 = task_id t" "task_state_of t1 = last (task_state_of t # event_states ev)"
      "tm_context_id tm1 = (if py_truthy (tm_context_id tm) then tm_context_id tm else Some cid)"
    using te by auto
  have "py_truthy (tm_context_id tm1) \<longrightarrow> tm_context_id tm1 = Some cid"
    using s(6) Cons.prems(3) by auto
  from Cons.IH [OF s(2,3) this] Cons.prems(4,5) s(1,4,5) show ?case
    by (auto simp: state_after_Cons)
qed

end

end
