(* ===== verification/Request_Context.thy ===== *)
theory Request_Context
  imports Proto_Helpers
begin

text \<open>
  \<^verbatim>\<open>RequestContext\<close> (\<^verbatim>\<open>server/agent_execution/context.py\<close>) and
  \<^verbatim>\<open>SimpleRequestContextBuilder\<close>. The id generators are arguments: functions of the id the
  generator's context carries. The request object is shared with the caller and the
  constructor writes the ids into its message, so the record holds the updated request.
\<close>

record request_context =
  rc_call_context :: call_context
  rc_params :: "send_message_request option"
  rc_task_id :: "string option"
  rc_context_id :: "string option"
  rc_current_task :: "task option"
  rc_related_tasks :: "task list"

definition params_message :: "send_message_request \<Rightarrow> message" where
  "params_message p = (case smr_message p of None \<Rightarrow> empty_message | Some m \<Rightarrow> m)"

definition set_params_message :: "(message \<Rightarrow> message) \<Rightarrow> send_message_request \<Rightarrow> send_message_request" where
  "set_params_message f p = p\<lparr>smr_message := Some (f (params_message p))\<rparr>"

lemma params_message_set [simp]: "params_message (set_params_message f p) = f (params_message p)"
  by (simp add: params_message_def set_params_message_def)

lemma set_params_message_frame [simp]:
  "smr_configuration (set_params_message f p) = smr_configuration p"
  "smr_metadata (set_params_message f p) = smr_metadata p"
  "smr_tenant (set_params_message f p) = smr_tenant p"
  by (simp_all add: set_params_message_def)

text \<open>\<^verbatim>\<open>_check_or_generate_task_id\<close> and \<^verbatim>\<open>_check_or_generate_context_id\<close>\<close>

definition check_or_generate_task_id ::
  "(string option \<Rightarrow> string) \<Rightarrow> request_context \<Rightarrow> request_context" where
  "check_or_generate_task_id gen rc =
     (case rc_params rc of
        None \<Rightarrow> rc
      | Some p \<Rightarrow>
          let p1 = (if \<not> py_truthy (rc_task_id rc) \<and> message_task_id (params_message p) = []
                    then set_params_message (\<lambda>m. m\<lparr>message_task_id := gen (rc_context_id rc)\<rparr>) p else p)
          in rc\<lparr>rc_params := Some p1,
                rc_task_id := (if message_task_id (params_message p1) \<noteq> []
                               then Some (message_task_id (params_message p1)) else rc_task_id rc)\<rparr>)"

definition check_or_generate_context_id ::
  "(string option \<Rightarrow> string) \<Rightarrow> request_context \<Rightarrow> request_context" where
  "check_or_generate_context_id gen rc =
     (case rc_params rc of
        None \<Rightarrow> rc
      | Some p \<Rightarrow>
          let p1 = (if \<not> py_truthy (rc_context_id rc) \<and> message_context_id (params_message p) = []
                    then set_params_message (\<lambda>m. m\<lparr>message_context_id := gen (rc_task_id rc)\<rparr>) p else p)
          in rc\<lparr>rc_params := Some p1,
                rc_context_id := (if message_context_id (params_message p1) \<noteq> []
                                  then Some (message_context_id (params_message p1)) else rc_context_id rc)\<rparr>)"

text \<open>The constructor. \<open>bad_id\<close> is the test on the given task.\<close>

definition bad_id :: "(task \<Rightarrow> string) \<Rightarrow> task option \<Rightarrow> string option \<Rightarrow> bool" where
  "bad_id f t i = (case t of None \<Rightarrow> False | Some t' \<Rightarrow> f t' \<noteq> or_empty i)"

definition rc_task_step ::
  "(string option \<Rightarrow> string) \<Rightarrow> request_context \<Rightarrow> exn + request_context" where
  "rc_task_step gen rc =
     (if py_truthy (rc_task_id rc) then
        (let rc1 = rc\<lparr>rc_params := map_option
                (set_params_message (\<lambda>m. m\<lparr>message_task_id := or_empty (rc_task_id rc)\<rparr>)) (rc_params rc)\<rparr>
         in if bad_id task_id (rc_current_task rc) (rc_task_id rc)
            then Inl (A2A (err_msg InvalidParamsError ''bad task id'')) else Inr rc1)
      else Inr (check_or_generate_task_id gen rc))"

definition rc_context_step ::
  "(string option \<Rightarrow> string) \<Rightarrow> request_context \<Rightarrow> exn + request_context" where
  "rc_context_step gen rc =
     (if py_truthy (rc_context_id rc) then
        (let rc1 = rc\<lparr>rc_params := map_option
                (set_params_message (\<lambda>m. m\<lparr>message_context_id := or_empty (rc_context_id rc)\<rparr>)) (rc_params rc)\<rparr>
         in if bad_id task_context_id (rc_current_task rc) (rc_context_id rc)
            then Inl (A2A (err_msg InvalidParamsError ''bad context id'')) else Inr rc1)
      else Inr (check_or_generate_context_id gen rc))"

definition rc_init ::
  "(string option \<Rightarrow> string) \<Rightarrow> (string option \<Rightarrow> string) \<Rightarrow> call_context \<Rightarrow> send_message_request option \<Rightarrow>
   string option \<Rightarrow> string option \<Rightarrow> task option \<Rightarrow> task list option \<Rightarrow> exn + request_context" where
  "rc_init gen_task gen_context c request tid cid t related =
     (let rc = \<lparr>rc_call_context = c, rc_params = request, rc_task_id = tid, rc_context_id = cid,
                rc_current_task = t, rc_related_tasks = list_or_nil related\<rparr>
      in if request = None then Inr rc
         else rbind (rc_task_step gen_task rc) (rc_context_step gen_context))"

definition rc_message :: "request_context \<Rightarrow> message option" where
  "rc_message rc = map_option params_message (rc_params rc)"

definition rc_configuration :: "request_context \<Rightarrow> send_config option" where
  "rc_configuration rc =
     (case rc_params rc of None \<Rightarrow> None
      | Some p \<Rightarrow> Some (case smr_configuration p of
          None \<Rightarrow> \<lparr>sc_accepted_output_modes = [], sc_push_config = None, sc_history_length = None,
                   sc_return_immediately = False\<rparr>
        | Some cfg \<Rightarrow> cfg))"

definition rc_metadata :: "request_context \<Rightarrow> struct" where
  "rc_metadata rc =
     (case rc_params rc of None \<Rightarrow> []
      | Some p \<Rightarrow> (case smr_metadata p of None \<Rightarrow> [] | Some st \<Rightarrow> st))"

definition rc_tenant :: "request_context \<Rightarrow> string" where
  "rc_tenant rc = cc_tenant (rc_call_context rc)"

definition rc_requested_extensions :: "request_context \<Rightarrow> string list" where
  "rc_requested_extensions rc = cc_requested_extensions (rc_call_context rc)"

definition get_user_input :: "string \<Rightarrow> request_context \<Rightarrow> string" where
  "get_user_input delimiter rc =
     (case rc_params rc of None \<Rightarrow> [] | Some p \<Rightarrow> get_message_text (params_message p) delimiter)"

definition attach_related_task :: "task \<Rightarrow> request_context \<Rightarrow> request_context" where
  "attach_related_task t rc = rc\<lparr>rc_related_tasks := rc_related_tasks rc @ [t]\<rparr>"

text \<open>The builder.\<close>

definition rcb_build ::
  "'s store_ops option \<Rightarrow> 's \<Rightarrow> bool \<Rightarrow> (string option \<Rightarrow> string) \<Rightarrow> (string option \<Rightarrow> string) \<Rightarrow>
   call_context \<Rightarrow> send_message_request option \<Rightarrow> string option \<Rightarrow> string option \<Rightarrow> task option \<Rightarrow>
   exn + request_context" where
  "rcb_build store_ops store should_populate gen_task gen_context c params tid cid t =
     (let related =
        (case (store_ops, params) of
           (Some ops, Some p) \<Rightarrow>
             (if should_populate \<and> message_reference_task_ids (params_message p) \<noteq> []
              then Some (List.map_filter (\<lambda>i. st_get ops i c store)
                     (message_reference_task_ids (params_message p)))
              else None)
         | _ \<Rightarrow> None)
      in rc_init gen_task gen_context c params tid cid t related)"

subsection \<open>The ids of a context\<close>

lemma rc_task_step_ids:
  assumes "rc_task_step gen rc = Inr rc'" "rc_params rc = Some p"
    and "\<And>x. gen x \<noteq> []"
  shows "\<exists>p'. rc_params rc' = Some p' \<and> rc_task_id rc' = Some (message_task_id (params_message p')) \<and>
    message_task_id (params_message p') =
      (if py_truthy (rc_task_id rc) then or_empty (rc_task_id rc)
       else if message_task_id (params_message p) \<noteq> [] then message_task_id (params_message p)
       else gen (rc_context_id rc)) \<and>
    params_message p' = (params_message p)\<lparr>message_task_id := message_task_id (params_message p')\<rparr> \<and>
    smr_configuration p' = smr_configuration p \<and>
    rc_context_id rc' = rc_context_id rc \<and> rc_current_task rc' = rc_current_task rc \<and>
    rc_related_tasks rc' = rc_related_tasks rc \<and> rc_call_context rc' = rc_call_context rc"
  using assms
  by (auto simp: rc_task_step_def check_or_generate_task_id_def Let_def py_truthy_iff split: if_splits)

lemma rc_context_step_ids:
  assumes "rc_context_step gen rc = Inr rc'" "rc_params rc = Some p"
    and "\<And>x. gen x \<noteq> []"
  shows "\<exists>p'. rc_params rc' = Some p' \<and> rc_context_id rc' = Some (message_context_id (params_message p')) \<and>
    message_context_id (params_message p') =
      (if py_truthy (rc_context_id rc) then or_empty (rc_context_id rc)
       else if message_context_id (params_message p) \<noteq> [] then message_context_id (params_message p)
       else gen (rc_task_id rc)) \<and>
    params_message p' = (params_message p)\<lparr>message_context_id := message_context_id (params_message p')\<rparr> \<and>
    smr_configuration p' = smr_configuration p \<and>
    rc_task_id rc' = rc_task_id rc \<and> rc_current_task rc' = rc_current_task rc \<and>
    rc_related_tasks rc' = rc_related_tasks rc \<and> rc_call_context rc' = rc_call_context rc"
  using assms
  by (auto simp: rc_context_step_def check_or_generate_context_id_def Let_def py_truthy_iff split: if_splits)

text \<open>
  A context built for a request has both ids, they are the ids of its message, explicit ids
  win over the message's and these over generated ones, and the message is otherwise the
  request's.
\<close>

lemma rc_init_ids:
  assumes "rc_init gt gc c (Some p) tid cid t rel = Inr rc"
    and "\<And>x. gt x \<noteq> []" "\<And>x. gc x \<noteq> []"
  shows "\<exists>m. rc_message rc = Some m \<and> rc_task_id rc = Some (message_task_id m) \<and>
    rc_context_id rc = Some (message_context_id m) \<and>
    message_task_id m = (if py_truthy tid then or_empty tid
      else if message_task_id (params_message p) \<noteq> [] then message_task_id (params_message p) else gt cid) \<and>
    message_context_id m = (if py_truthy cid then or_empty cid
      else if message_context_id (params_message p) \<noteq> [] then message_context_id (params_message p)
      else gc (Some (message_task_id m))) \<and>
    message_task_id m \<noteq> [] \<and> message_context_id m \<noteq> [] \<and>
    m = (params_message p)\<lparr>message_task_id := message_task_id m, message_context_id := message_context_id m\<rparr>"
proof -
  let ?rc = "\<lparr>rc_call_context = c, rc_params = Some p, rc_task_id = tid, rc_context_id = cid,
                rc_current_task = t, rc_related_tasks = list_or_nil rel\<rparr>"
  obtain rc1 where r1: "rc_task_step gt ?rc = Inr rc1" and r2: "rc_context_step gc rc1 = Inr rc"
    using assms(1) by (auto simp: rc_init_def)
  from rc_task_step_ids [OF r1 _ assms(2), of p] obtain p1 where
    p1: "rc_params rc1 = Some p1" "rc_task_id rc1 = Some (message_task_id (params_message p1))"
      "message_task_id (params_message p1) = (if py_truthy tid then or_empty tid
         else if message_task_id (params_message p) \<noteq> [] then message_task_id (params_message p) else gt cid)"
      "params_message p1 = (params_message p)\<lparr>message_task_id := message_task_id (params_message p1)\<rparr>"
      "rc_context_id rc1 = cid"
    by auto
  have ne: "message_task_id (params_message p1) \<noteq> []"
    unfolding p1(3) using assms(2) by (auto simp: py_truthy_iff)
  have cx: "message_context_id (params_message p1) = message_context_id (params_message p)"
    by (subst p1(4)) simp
  from rc_context_step_ids [OF r2 p1(1) assms(3)] obtain p2 where
    p2: "rc_params rc = Some p2" "rc_context_id rc = Some (message_context_id (params_message p2))"
      "message_context_id (params_message p2) = (if py_truthy cid then or_empty cid
         else if message_context_id (params_message p) \<noteq> [] then message_context_id (params_message p)
         else gc (Some (message_task_id (params_message p1))))"
      "params_message p2 = (params_message p1)\<lparr>message_context_id := message_context_id (params_message p2)\<rparr>"
      "rc_task_id rc = rc_task_id rc1"
    by (auto simp: p1(2,5) cx)
  have tid2: "message_task_id (params_message p2) = message_task_id (params_message p1)"
    by (subst p2(4)) simp
  have m: "params_message p2 = (params_message p)\<lparr>message_task_id := message_task_id (params_message p2),
      message_context_id := message_context_id (params_message p2)\<rparr>"
    unfolding tid2 by (subst p2(4), subst p1(4)) simp
  have "message_context_id (params_message p2) \<noteq> []"
    unfolding p2(3) using assms(3) by (auto simp: py_truthy_iff)
  with p1 p2 ne tid2 m show ?thesis
    by (intro exI [of _ "params_message p2"]) (simp add: rc_message_def)
qed

text \<open>A context is refused exactly when a given task contradicts a given id.\<close>

lemma rc_init_error:
  "(\<exists>e. rc_init gt gc c (Some p) tid cid t rel = Inl e) \<longleftrightarrow>
     (\<exists>u. t = Some u \<and> (py_truthy tid \<and> Some (task_id u) \<noteq> tid \<or> py_truthy cid \<and> Some (task_context_id u) \<noteq> cid))"
  by (auto simp: rc_init_def rbind_def rc_task_step_def rc_context_step_def bad_id_def Let_def
      py_truthy_iff check_or_generate_task_id_def split: option.splits)

end
