(* ===== verification/Event_Consumer.thy ===== *)
theory Event_Consumer
  imports Request_Context
begin

text \<open>
  \<^verbatim>\<open>EventConsumer\<close> of \<^verbatim>\<open>server/agent_execution/active_task.py\<close>: the loop that takes the events
  of the agent's queue one at a time, updates the task through the task manager, and hands each
  event with a snapshot of the task to the subscribers' queue. The record \<open>active_task\<close> holds
  the attributes of the consumer and those of its \<^verbatim>\<open>ActiveTask\<close> that it uses; the subscribers'
  queue and the push sender are the lists of what was handed to them. A step returns the new
  state and the exception that it raised, if any: the attributes assigned before a raise stay.
\<close>

text \<open>What travels on the agent's queue.\<close>

datatype agent_event =
    AgentEv event
  | RequestStarted nat "message option"
  | RequestCompleted nat
  | Failure exn

record 's active_task =
  at_task_id :: string
  at_task_manager :: "'s task_manager"
  at_task_created :: bool
  at_is_finished :: bool
  at_request_queue_open :: bool
  at_request_lock_held :: bool
  at_has_push_sender :: bool
  at_task_mode :: "bool option"
  at_message_to_save :: "message option"
  at_subscribers :: "(agent_event \<times> task option) list"
  at_notifications :: "task_event list"
  at_tasks_done :: nat

definition ec_get_task :: "'s store_ops \<Rightarrow> 's active_task \<Rightarrow> 's active_task \<times> task option" where
  "ec_get_task ops a =
     (let (tm, t) = tm_get_task ops (at_task_manager a) in (a\<lparr>at_task_manager := tm\<rparr>, t))"

definition ec_handle_message_event :: "'s active_task \<Rightarrow> 's active_task \<times> exn option" where
  "ec_handle_message_event a =
     (if at_task_mode a = Some True then
        (a, Some (A2A (err_msg InvalidAgentResponseError
          ''Received Message object in task mode. Use TaskStatusUpdateEvent or TaskArtifactUpdateEvent instead.'')))
      else if at_task_mode a = Some False then
        (a, Some (A2A (err_msg InvalidAgentResponseError ''Multiple Message objects received.'')))
      else (a\<lparr>at_task_mode := Some False\<rparr>, None))"

definition ec_handle_initial_task ::
  "'s store_ops \<Rightarrow> task \<Rightarrow> 's active_task \<Rightarrow> 's active_task \<times> exn option" where
  "ec_handle_initial_task ops t a =
     (let (a1, existing) = ec_get_task ops a
      in (case existing of
            Some u \<Rightarrow> (a1\<lparr>at_message_to_save := None\<rparr>, None)
          | None \<Rightarrow>
              (case tm_save_task_event ops (TaskObj t) (at_task_manager a1) of
                 (tm, Inl e) \<Rightarrow> (a1\<lparr>at_task_manager := tm\<rparr>, Some e)
               | (tm, Inr u) \<Rightarrow> (a1\<lparr>at_task_manager := tm, at_message_to_save := None\<rparr>, None))))"

text \<open>The message of the request goes into the history, unless its id is there.\<close>

definition ec_save_pending_message ::
  "'s store_ops \<Rightarrow> task \<Rightarrow> 's active_task \<Rightarrow> 's active_task \<times> exn option" where
  "ec_save_pending_message ops t a =
     (case at_message_to_save a of
        None \<Rightarrow> (a, None)
      | Some m \<Rightarrow>
          if list_ex (\<lambda>x. message_id x = message_id m) (task_history t)
          then (a\<lparr>at_message_to_save := None\<rparr>, None)
          else
            let (tm1, t1) = tm_update_with_message m t (at_task_manager a)
            in (case tm_save_task_event ops (TaskObj t1) tm1 of
                  (tm2, Inl e) \<Rightarrow> (a\<lparr>at_task_manager := tm2\<rparr>, Some e)
                | (tm2, Inr u) \<Rightarrow> (a\<lparr>at_task_manager := tm2, at_message_to_save := None\<rparr>, None)))"

fun is_status_update :: "task_event \<Rightarrow> bool" where
  "is_status_update (StatusUpdate e) = True"
| "is_status_update _ = False"

definition ec_handle_task_modification_event ::
  "'s store_ops \<Rightarrow> task_event \<Rightarrow> 's active_task \<Rightarrow> 's active_task \<times> exn option" where
  "ec_handle_task_modification_event ops te a =
     (let (a1, missing) =
        (if is_status_update te \<and> \<not> at_task_created a
         then (let (a', t) = ec_get_task ops a in (a', t = None)) else (a, False))
      in if missing then (a1, Some (A2A (err InvalidAgentResponseError)))
         else
           let (tm2, t) = tm_ensure_task_id ops (at_task_id a1) (event_context_id te) (at_task_manager a1)
           in (case ec_save_pending_message ops t (a1\<lparr>at_task_manager := tm2\<rparr>) of
                 (a3, Some e) \<Rightarrow> (a3, Some e)
               | (a3, None) \<Rightarrow>
                   (case tm_process ops (TaskEv te)
                           ((at_task_manager a3)\<lparr>tm_context_id := Some (event_context_id te)\<rparr>) of
                      (tm4, Inl e) \<Rightarrow> (a3\<lparr>at_task_manager := tm4\<rparr>, Some e)
                    | (tm4, Inr _) \<Rightarrow> (a3\<lparr>at_task_manager := tm4\<rparr>, None))))"

definition ec_handle_task_event ::
  "'s store_ops \<Rightarrow> task_event \<Rightarrow> 's active_task \<Rightarrow> 's active_task \<times> (exn + task)" where
  "ec_handle_task_event ops te a =
     (if at_task_mode a = Some False then (a, Inl (A2A (err InvalidAgentResponseError)))
      else
        (case (case te of TaskObj t \<Rightarrow> ec_handle_initial_task ops t a
               | _ \<Rightarrow> ec_handle_task_modification_event ops te a) of
           (a1, Some e) \<Rightarrow> (a1, Inl e)
         | (a1, None) \<Rightarrow>
             (case ec_get_task ops (a1\<lparr>at_task_mode := Some True\<rparr>) of
                (a2, None) \<Rightarrow> (a2, Inl (RuntimeError (''Task '' @ at_task_id a2 @ '' not found'')))
              | (a2, Some t) \<Rightarrow> (a2, Inr t))))"

definition ec_handle_terminal_state :: "'s active_task \<Rightarrow> 's active_task" where
  "ec_handle_terminal_state a = a\<lparr>at_is_finished := True, at_request_queue_open := False\<rparr>"

definition ec_update_task_state :: "task \<Rightarrow> task_event \<Rightarrow> 's active_task \<Rightarrow> 's active_task" where
  "ec_update_task_state updated te a =
     (let a1 = (if task_state_of updated \<in> TERMINAL_TASK_STATES then ec_handle_terminal_state a else a)
      in if at_has_push_sender a1 \<and> at_task_id a1 \<noteq> []
         then a1\<lparr>at_notifications := at_notifications a1 @ [te]\<rparr> else a1)"

text \<open>Task values are copied, so a subscriber's snapshot is the task at this moment.\<close>

definition ec_enqueue_to_subscribers ::
  "agent_event \<Rightarrow> task option \<Rightarrow> 's active_task \<Rightarrow> 's active_task" where
  "ec_enqueue_to_subscribers ev updated a =
     a\<lparr>at_subscribers := at_subscribers a @ [(ev, updated)], at_tasks_done := Suc (at_tasks_done a)\<rparr>"

text \<open>Of a task event the sender gets the stored task, of the others the event itself.\<close>

fun handled_event :: "task_event \<Rightarrow> task \<Rightarrow> task_event" where
  "handled_event (TaskObj t) updated = TaskObj updated"
| "handled_event te updated = te"

definition ec_process_event ::
  "'s store_ops \<Rightarrow> agent_event \<Rightarrow> 's active_task \<Rightarrow> 's active_task \<times> exn option" where
  "ec_process_event ops ev a =
     (case ev of
        RequestCompleted i \<Rightarrow>
          if at_request_lock_held a
          then (ec_enqueue_to_subscribers ev None (a\<lparr>at_request_lock_held := False\<rparr>), None)
          else (a, Some (RuntimeError ''Lock is not acquired.''))
      | RequestStarted i m \<Rightarrow>
          (ec_enqueue_to_subscribers ev None (a\<lparr>at_message_to_save := m\<rparr>), None)
      | Failure e \<Rightarrow> (a, Some e)
      | AgentEv (MessageEv m) \<Rightarrow>
          (case ec_handle_message_event a of
             (a1, Some e) \<Rightarrow> (a1, Some e)
           | (a1, None) \<Rightarrow> (ec_enqueue_to_subscribers ev None a1, None))
      | AgentEv (TaskEv te) \<Rightarrow>
          (case ec_handle_task_event ops te a of
             (a1, Inl e) \<Rightarrow> (a1, Some e)
           | (a1, Inr u) \<Rightarrow>
               (ec_enqueue_to_subscribers ev (Some u)
                  ((ec_update_task_state u (handled_event te u) a1)\<lparr>at_task_created := True\<rparr>), None)))"

text \<open>The \<open>except Exception\<close> branch of \<^verbatim>\<open>run\<close>. It may raise itself.\<close>

definition failed_event :: "task \<Rightarrow> task_event" where
  "failed_event t = StatusUpdate
     \<lparr>se_task_id = task_id t, se_context_id = task_context_id t,
      se_status = Some (empty_status\<lparr>status_state := TASK_STATE_FAILED\<rparr>), se_metadata = None\<rparr>"

definition ec_fail :: "'s store_ops \<Rightarrow> exn \<Rightarrow> 's active_task \<Rightarrow> 's active_task \<times> exn option" where
  "ec_fail ops e a =
     (let (a1, found) = ec_get_task ops a
      in if (case found of None \<Rightarrow> False | Some t \<Rightarrow> task_state_of t \<notin> TERMINAL_TASK_STATES)
         then (case ec_handle_task_event ops (failed_event (the found)) a1 of
                 (a2, Inl e') \<Rightarrow> (a2, Some e')
               | (a2, Inr u) \<Rightarrow> (ec_enqueue_to_subscribers (Failure e) (Some u) a2, None))
         else (ec_enqueue_to_subscribers (Failure e) None a1, None))"

text \<open>
  \<^verbatim>\<open>run\<close> over the events dequeued until the queue shuts down, with the exception that leaves it.
\<close>

fun ec_run :: "'s store_ops \<Rightarrow> agent_event list \<Rightarrow> 's active_task \<Rightarrow> 's active_task \<times> exn option" where
  "ec_run ops [] a = (a, None)"
| "ec_run ops (ev # evs) a =
     (case ec_process_event ops ev a of
        (a1, None) \<Rightarrow> ec_run ops evs a1
      | (a1, Some QueueShutDown) \<Rightarrow> (a1, None)
      | (a1, Some e) \<Rightarrow> ec_fail ops e a1)"

text \<open>The events processed without an exception: \<open>Some\<close> of the state after all of them.\<close>

fun ec_process_all :: "'s store_ops \<Rightarrow> agent_event list \<Rightarrow> 's active_task \<Rightarrow> 's active_task option" where
  "ec_process_all ops [] a = Some a"
| "ec_process_all ops (ev # evs) a =
     (case ec_process_event ops ev a of
        (a1, None) \<Rightarrow> ec_process_all ops evs a1
      | (a1, Some e) \<Rightarrow> None)"

lemma ec_run_process_all: "ec_process_all ops evs a = Some a' \<Longrightarrow> ec_run ops evs a = (a', None)"
  by (induction ops evs a rule: ec_process_all.induct) (auto split: prod.splits option.splits)

lemma ec_run_append:
  "ec_process_all ops evs a = Some a' \<Longrightarrow> ec_run ops (evs @ evs') a = ec_run ops evs' a'"
  by (induction ops evs a rule: ec_process_all.induct) (auto split: prod.splits option.splits)

subsection \<open>The discipline of the agent's events\<close>

fun agent_events :: "agent_event list \<Rightarrow> event list" where
  "agent_events [] = []"
| "agent_events (AgentEv ev # evs) = ev # agent_events evs"
| "agent_events (_ # evs) = agent_events evs"

fun is_message :: "event \<Rightarrow> bool" where
  "is_message (MessageEv m) = True"
| "is_message (TaskEv te) = False"

lemma ec_get_task_frame [simp]:
  "at_task_mode (fst (ec_get_task ops a)) = at_task_mode a"
  "at_task_id (fst (ec_get_task ops a)) = at_task_id a"
  "at_message_to_save (fst (ec_get_task ops a)) = at_message_to_save a"
  "at_is_finished (fst (ec_get_task ops a)) = at_is_finished a"
  "at_subscribers (fst (ec_get_task ops a)) = at_subscribers a"
  by (simp_all add: ec_get_task_def split: prod.split)

lemma handle_task_event_mode:
  "ec_handle_task_event ops te a = (a1, Inr u) \<Longrightarrow> at_task_mode a \<noteq> Some False \<and> at_task_mode a1 = Some True"
  by (auto simp: ec_handle_task_event_def ec_get_task_def split: if_splits prod.splits option.splits)

lemma process_event_mode:
  assumes "ec_process_event ops ev a = (a1, None)"
  shows "case ev of AgentEv (MessageEv m) \<Rightarrow> at_task_mode a = None \<and> at_task_mode a1 = Some False
    | AgentEv (TaskEv te) \<Rightarrow> at_task_mode a \<noteq> Some False \<and> at_task_mode a1 = Some True
    | _ \<Rightarrow> at_task_mode a1 = at_task_mode a"
  using assms handle_task_event_mode
  by (fastforce simp: ec_process_event_def ec_enqueue_to_subscribers_def ec_handle_message_event_def
      ec_update_task_state_def ec_handle_terminal_state_def Let_def
      split: agent_event.splits event.splits if_splits prod.splits sum.splits option.splits)

text \<open>What a consumer in a mode accepts without an exception.\<close>

fun mode_allows :: "bool option \<Rightarrow> event list \<Rightarrow> bool" where
  "mode_allows None evs \<longleftrightarrow> (\<exists>m. evs = [MessageEv m]) \<or> (\<forall>ev \<in> set evs. \<not> is_message ev)"
| "mode_allows (Some True) evs \<longleftrightarrow> (\<forall>ev \<in> set evs. \<not> is_message ev)"
| "mode_allows (Some False) evs \<longleftrightarrow> evs = []"

lemma process_all_discipline:
  "ec_process_all ops evs a = Some a' \<Longrightarrow> mode_allows (at_task_mode a) (agent_events evs)"
proof (induction ops evs a rule: ec_process_all.induct)
  case (1 ops a)
  then show ?case by (cases "(at_task_mode a, [] :: event list)" rule: mode_allows.cases) auto
next
  case (2 ops ev evs a)
  then obtain a1 where p: "ec_process_event ops ev a = (a1, None)"
    and r: "ec_process_all ops evs a1 = Some a'"
    by (auto split: prod.splits option.splits)
  note IH = "2.IH" [OF p [symmetric] refl r]
  note m = process_event_mode [OF p]
  show ?case
  proof (cases ev)
    case (AgentEv e)
    show ?thesis
    proof (cases e)
      case (MessageEv x)
      with m IH AgentEv show ?thesis by simp
    next
      case (TaskEv te)
      with m IH AgentEv show ?thesis
        by (cases "(at_task_mode a, [] :: event list)" rule: mode_allows.cases) auto
    qed
  qed (use m IH in simp_all)
qed

subsection \<open>What the consumer stores and delivers\<close>

text \<open>
  The invariant between events: the manager is bound to the active task's id and coherent
  with the store.
\<close>

definition at_ok :: "'s store_ops \<Rightarrow> ('s \<Rightarrow> bool) \<Rightarrow> 's active_task \<Rightarrow> bool" where
  "at_ok ops sinv a \<longleftrightarrow> tm_coherent ops sinv (at_task_manager a) \<and> at_task_id a \<noteq> [] \<and>
     tm_task_id (at_task_manager a) = Some (at_task_id a)"

definition at_view :: "'s store_ops \<Rightarrow> 's active_task \<Rightarrow> task option" where
  "at_view ops a = tm_view ops (at_task_manager a)"

text \<open>The messages that \<^verbatim>\<open>_handle_task_modification_event\<close> adds for the request.\<close>

definition pending_messages :: "message option \<Rightarrow> task \<Rightarrow> message list" where
  "pending_messages pending t =
     (case pending of None \<Rightarrow> []
      | Some m \<Rightarrow> if message_id m \<in> message_id ` set (task_history t) then [] else [m])"

text \<open>The task before the event: the stored one, or the one that \<^verbatim>\<open>ensure_task_id\<close> creates.\<close>

definition base_task :: "'s store_ops \<Rightarrow> 's active_task \<Rightarrow> task_event \<Rightarrow> task" where
  "base_task ops a te = (case at_view ops a of
     Some t \<Rightarrow> t
   | None \<Rightarrow> tm_init_task_obj (at_task_manager a) (at_task_id a) (event_context_id te))"

lemma ec_get_task_cached:
  "at_view ops (fst (ec_get_task ops a)) = at_view ops a" "snd (ec_get_task ops a) = None \<or> at_view ops a \<noteq> None"
  by (auto simp: ec_get_task_def at_view_def tm_get_task_def tm_view_def Let_def split: option.split)

lemma tm_context_id_irrelevant [simp]:
  "tm_coherent ops sinv (tm\<lparr>tm_context_id := c\<rparr>) = tm_coherent ops sinv tm"
  "tm_view ops (tm\<lparr>tm_context_id := c\<rparr>) = tm_view ops tm"
  by (simp_all add: tm_coherent_def tm_view_def split: option.split)

context task_store
begin

lemma at_ok_get_task:
  assumes ok: "at_ok ops sinv a" and run: "ec_get_task ops a = (a', r)"
  shows "at_ok ops sinv a' \<and> r = at_view ops a \<and> at_view ops a' = at_view ops a \<and>
    tm_store (at_task_manager a') = tm_store (at_task_manager a) \<and>
    tm_call_context (at_task_manager a') = tm_call_context (at_task_manager a) \<and>
    tm_context_id (at_task_manager a') = tm_context_id (at_task_manager a)"
proof -
  obtain tm r' where g: "tm_get_task ops (at_task_manager a) = (tm, r')" by force
  with run have a': "a' = a\<lparr>at_task_manager := tm\<rparr>" "r = r'" by (auto simp: ec_get_task_def)
  have co: "tm_coherent ops sinv (at_task_manager a)" using ok by (simp add: at_ok_def)
  have "tm_task_id tm = tm_task_id (at_task_manager a)" "tm_context_id tm = tm_context_id (at_task_manager a)"
    using g by (auto simp: tm_get_task_def Let_def split: if_splits option.splits)
  moreover have "at_view ops a' = at_view ops a"
    using ec_get_task_cached(1) [of ops a] run by simp
  ultimately show ?thesis
    using coherent_get_task [OF co g] ok a' by (simp add: at_ok_def at_view_def)
qed

lemma save_pending_ok:
  assumes ok: "at_ok ops sinv a" and v: "at_view ops a = Some t"
    and run: "ec_save_pending_message ops t a = (a', None)"
  shows "at_ok ops sinv a' \<and> at_message_to_save a' = None \<and> at_task_created a' = at_task_created a \<and>
    (\<exists>t'. at_view ops a' = Some t' \<and> task_id t' = task_id t \<and> task_context_id t' = task_context_id t \<and>
       conversation t' = conversation t @ pending_messages (at_message_to_save a) t)"
proof (cases "\<exists>m. at_message_to_save a = Some m \<and> message_id m \<notin> message_id ` set (task_history t)")
  case False
  then have "a' = a\<lparr>at_message_to_save := None\<rparr>" "pending_messages (at_message_to_save a) t = []"
    using run by (auto simp: ec_save_pending_message_def pending_messages_def list_ex_iff image_iff
        split: option.splits if_splits prod.splits sum.splits)
  with ok v show ?thesis by (simp add: at_ok_def at_view_def)
next
  case True
  then obtain m where m: "at_message_to_save a = Some m" "message_id m \<notin> message_id ` set (task_history t)"
    by blast
  let ?t = "add_message m t"
  let ?tm = "(at_task_manager a)\<lparr>tm_current_task := Some ?t\<rparr>"
  have co: "tm_coherent ops sinv (at_task_manager a)" using ok by (simp add: at_ok_def)
  have id: "tm_task_id (at_task_manager a) = Some (at_task_id a)" "task_id t = at_task_id a" "at_task_id a \<noteq> []"
    using ok coherent_view [OF co v [unfolded at_view_def]] by (simp_all add: at_ok_def)
  have inv: "sinv (tm_store (at_task_manager a))" using co by (simp add: tm_coherent_def)
  have tid: "task_id ?t = task_id t" "task_context_id ?t = task_context_id t"
    by (simp_all add: add_message_def Let_def)
  obtain tm1 x where chk: "tm_ids_check (TaskObj ?t) ?tm = (tm1, x)" by force
  have mem: "list_ex (\<lambda>x. message_id x = message_id m) (task_history t) = False"
    using m(2) by (auto simp: list_ex_iff image_iff)
  from run have run': "x = None" "a' = a\<lparr>at_task_manager := tm_save_task ops ?t tm1, at_message_to_save := None\<rparr>"
    unfolding ec_save_pending_message_def m(1) option.case tm_update_with_message_def Let_def mem
      tm_save_task_event_def
    by (auto simp: chk split: option.splits)
  have "tm_task_id tm1 = Some (task_id ?t)"
    using tm_ids_check_None(1) [OF chk [unfolded run'(1)]] tid id by simp
  moreover have "sinv (tm_store tm1)" using tm_ids_check_frame(1) [OF chk] inv by simp
  ultimately have "tm_coherent ops sinv (tm_save_task ops ?t tm1)" "tm_task_id tm1 = Some (at_task_id a)"
    using tid id by (auto intro: coherent_save)
  then show ?thesis
    using id m tid by (simp add: run'(2) at_ok_def at_view_def tm_view_def pending_messages_def
        conversation_add_message)
qed

lemma modification_ok:
  assumes ok: "at_ok ops sinv a" and te: "\<And>t. te \<noteq> TaskObj t"
    and run: "ec_handle_task_modification_event ops te a = (a', None)"
  shows "at_ok ops sinv a' \<and> at_message_to_save a' = None \<and> event_task_id te = at_task_id a \<and>
    (\<exists>t'. at_view ops a' = Some t' \<and> task_id t' = at_task_id a \<and>
       conversation t' = conversation (base_task ops a te) @ pending_messages (at_message_to_save a) (base_task ops a te) @
         event_messages (TaskEv te) \<and>
       (\<forall>e. te = StatusUpdate e \<longrightarrow> task_status t' = Some (se_status_of e)))"
proof -
  obtain a1 miss where st: "(if is_status_update te \<and> \<not> at_task_created a
         then (let (a', t) = ec_get_task ops a in (a', t = None)) else (a, False)) = (a1, miss)"
    by force
  have a1: "at_ok ops sinv a1" "at_view ops a1 = at_view ops a" "at_task_id a1 = at_task_id a"
    "at_message_to_save a1 = at_message_to_save a" "miss \<Longrightarrow> False"
    "tm_init_task_obj (at_task_manager a1) = tm_init_task_obj (at_task_manager a)"
  proof -
    obtain g r where g: "ec_get_task ops a = (g, r)" by force
    have "tm_initial_message (at_task_manager g) = tm_initial_message (at_task_manager a)"
      using g by (auto simp: ec_get_task_def tm_get_task_def Let_def split: prod.splits if_splits option.splits)
    moreover have "a1 = a \<or> a1 = g" using st g by (auto split: if_splits)
    moreover have "at_task_id g = at_task_id a" "at_message_to_save g = at_message_to_save a"
      using ec_get_task_frame(2,3) [of ops a] g by simp_all
    ultimately show "at_ok ops sinv a1" "at_view ops a1 = at_view ops a" "at_task_id a1 = at_task_id a"
      "at_message_to_save a1 = at_message_to_save a"
      "tm_init_task_obj (at_task_manager a1) = tm_init_task_obj (at_task_manager a)"
      using at_ok_get_task [OF ok g] ok by (auto simp: tm_init_task_obj_def fun_eq_iff)
    show "miss \<Longrightarrow> False" using run st by (auto simp: ec_handle_task_modification_event_def)
  qed
  then have nm: "miss = False" by blast
  obtain tm2 t where ens: "tm_ensure_task_id ops (at_task_id a1) (event_context_id te) (at_task_manager a1) = (tm2, t)"
    by force
  have "tm_coherent ops sinv (at_task_manager a1)" "tm_task_id (at_task_manager a1) = Some (at_task_id a1)"
    "at_task_id a1 \<noteq> []"
    using a1(1) by (simp_all add: at_ok_def)
  note es = ensure_task_id_spec [OF this ens]
  have "(case tm_view ops (at_task_manager a1) of Some u \<Rightarrow> u
      | None \<Rightarrow> tm_init_task_obj (at_task_manager a1) (at_task_id a1) (event_context_id te)) = base_task ops a te"
    using a1(2,3,6) by (cases "at_view ops a") (simp_all add: base_task_def at_view_def)
  with es a1(3) have e: "tm_coherent ops sinv tm2" "task_id t = at_task_id a"
    "tm_task_id tm2 = Some (at_task_id a)" "tm_view ops tm2 = Some t" "t = base_task ops a te"
    by simp_all
  have ok2: "at_ok ops sinv (a1\<lparr>at_task_manager := tm2\<rparr>)" "at_view ops (a1\<lparr>at_task_manager := tm2\<rparr>) = Some t"
    using a1(1,3) e by (simp_all add: at_ok_def at_view_def)
  obtain a3 x where sp: "ec_save_pending_message ops t (a1\<lparr>at_task_manager := tm2\<rparr>) = (a3, x)" by force
  have run1: "x = None" using run st ens sp
    by (simp add: ec_handle_task_modification_event_def nm split: option.splits)
  from save_pending_ok [OF ok2 sp [unfolded run1]] a1(4)
  obtain t3 where t3: "at_ok ops sinv a3" "at_message_to_save a3 = None" "at_view ops a3 = Some t3"
    "task_id t3 = at_task_id a" "conversation t3 = conversation t @ pending_messages (at_message_to_save a) t"
    using e(2) by auto
  have id3: "at_task_id a3 = at_task_id a"
    using t3 coherent_view [of "at_task_manager a3" t3] by (simp add: at_ok_def at_view_def)
  let ?tm3 = "(at_task_manager a3)\<lparr>tm_context_id := Some (event_context_id te)\<rparr>"
  obtain tm4 y where pr: "tm_process ops (TaskEv te) ?tm3 = (tm4, y)" by force
  obtain z where y: "y = Inr z" and a': "a' = a3\<lparr>at_task_manager := tm4\<rparr>"
    using run st ens sp run1 pr
    by (auto simp: ec_handle_task_modification_event_def nm split: sum.splits)
  have co3: "tm_coherent ops sinv ?tm3" "tm_view ops ?tm3 = Some t3" "tm_task_id ?tm3 = Some (at_task_id a)"
    using t3 id3 by (simp_all add: at_ok_def at_view_def)
  have teid: "event_task_id te = at_task_id a"
    using pr y co3(3) ok
    by (auto simp: at_ok_def tm_process_def tm_save_task_event_def tm_ids_check_def split: prod.splits sum.splits if_splits)
  then have "is_update_of (task_id t3) (TaskEv te)"
    using te t3(4) by (cases te) auto
  from process_step [OF co3(1,2) this pr [unfolded y]] obtain t4 where
    t4: "tm_coherent ops sinv tm4" "tm_view ops tm4 = Some t4" "task_id t4 = task_id t3"
      "conversation t4 = conversation t3 @ event_messages (TaskEv te)"
    by blast
  obtain u where sv: "tm_save_task_event ops te ?tm3 = (tm4, Inr u)"
    using pr y by (auto simp: tm_process_def split: prod.splits sum.splits)
  have "u = t4"
    using save_task_event_spec [OF co3(1) _ sv] teid ok t4(2) by (auto simp: at_ok_def tm_view_def)
  then have stt: "\<forall>e. te = StatusUpdate e \<longrightarrow> task_status t4 = Some (se_status_of e)"
    using save_task_event_result [OF co3(1,2) sv] by (auto simp: apply_status_event_def)
  have "tm_task_id tm4 = Some (at_task_id a)"
    using coherent_view [OF t4(1,2)] t4(3) t3(4) by simp
  with t4 t3 e id3 ok stt teid show ?thesis
    by (simp add: a' at_ok_def at_view_def)
qed

lemma initial_task_ok:
  assumes ok: "at_ok ops sinv a" and run: "ec_handle_initial_task ops t a = (a', None)"
  shows "at_ok ops sinv a' \<and> at_message_to_save a' = None \<and>
    at_view ops a' = Some (case at_view ops a of Some u \<Rightarrow> u | None \<Rightarrow> t)"
proof -
  obtain a1 r where g: "ec_get_task ops a = (a1, r)" by force
  note a1 = at_ok_get_task [OF ok g]
  have i1: "at_task_id a1 = at_task_id a" using ec_get_task_frame(2) [of ops a] g by simp
  show ?thesis
  proof (cases r)
    case (Some u)
    then have "a' = a1\<lparr>at_message_to_save := None\<rparr>"
      using run g by (simp add: ec_handle_initial_task_def)
    moreover have "at_view ops a = Some u" using a1 Some by simp
    ultimately show ?thesis using a1 by (simp add: at_ok_def at_view_def)
  next
    case None
    obtain tm u where sv: "tm_save_task_event ops (TaskObj t) (at_task_manager a1) = (tm, Inr u)"
      and a': "a' = a1\<lparr>at_task_manager := tm, at_message_to_save := None\<rparr>"
      using run g None by (auto simp: ec_handle_initial_task_def split: prod.splits sum.splits)
    have co: "tm_coherent ops sinv (at_task_manager a1)" "tm_task_id (at_task_manager a1) = Some (at_task_id a)"
      "at_task_id a \<noteq> []"
      using a1 i1 by (auto simp: at_ok_def)
    have "event_task_id (TaskObj t) = at_task_id a"
      using sv co(2,3) by (auto simp: tm_save_task_event_def tm_ids_check_def split: prod.splits if_splits)
    with save_task_event_spec [OF co(1) _ sv] co(3)
    have t: "tm_coherent ops sinv tm" "tm_current_task tm = Some u" "task_id u = at_task_id a"
      by (auto simp: tm_frame_def)
    have "u = t" using sv by (auto simp: tm_save_task_event_def split: prod.splits option.splits)
    moreover have "tm_view ops tm = Some u" using t(2) by (simp add: tm_view_def)
    moreover have "tm_task_id tm = Some (at_task_id a)"
      using coherent_view [OF t(1) \<open>tm_view ops tm = Some u\<close>] t(3) by simp
    ultimately show ?thesis
      using a1 None t co(3) i1 by (auto simp: a' at_ok_def at_view_def split: option.split)
  qed
qed

text \<open>
  A task event that is handled without an exception: the invariant holds again, the request's
  message is no longer pending, the returned task is the manager's and the store's.
\<close>

lemma handle_task_event_ok:
  assumes ok: "at_ok ops sinv a" and run: "ec_handle_task_event ops te a = (a', Inr u)"
  shows "at_ok ops sinv a' \<and> at_view ops a' = Some u \<and> at_message_to_save a' = None \<and>
    task_id u = at_task_id a' \<and>
    st_get ops (at_task_id a') (tm_call_context (at_task_manager a')) (tm_store (at_task_manager a')) = Some u"
proof -
  obtain a1 where h: "(case te of TaskObj t \<Rightarrow> ec_handle_initial_task ops t a
      | _ \<Rightarrow> ec_handle_task_modification_event ops te a) = (a1, None)"
    and g: "ec_get_task ops (a1\<lparr>at_task_mode := Some True\<rparr>) = (a', Some u)"
    using run by (auto simp: ec_handle_task_event_def split: if_splits prod.splits option.splits)
  have ok1: "at_ok ops sinv a1 \<and> at_message_to_save a1 = None"
  proof (cases te)
    case (TaskObj t)
    with h initial_task_ok [OF ok] show ?thesis by auto
  next
    case (StatusUpdate e)
    with h modification_ok [OF ok, of te] show ?thesis by auto
  next
    case (ArtifactUpdate e)
    with h modification_ok [OF ok, of te] show ?thesis by auto
  qed
  then have ok2: "at_ok ops sinv (a1\<lparr>at_task_mode := Some True\<rparr>)" by (simp add: at_ok_def)
  from at_ok_get_task [OF ok2 g]
  have v: "at_ok ops sinv a'" "at_view ops a' = Some u" by simp_all
  moreover have "at_message_to_save a' = None"
    using ec_get_task_frame(3) [of ops "a1\<lparr>at_task_mode := Some True\<rparr>"] g ok1 by simp
  ultimately show ?thesis
    using coherent_view [of "at_task_manager a'" u] by (auto simp: at_ok_def at_view_def)
qed

lemma process_event_ok:
  assumes ok: "at_ok ops sinv a" and run: "ec_process_event ops ev a = (a', None)"
  shows "at_ok ops sinv a' \<and>
    (\<forall>te. ev = AgentEv (TaskEv te) \<longrightarrow>
       (\<exists>u. at_subscribers a' = at_subscribers a @ [(ev, Some u)] \<and> at_view ops a' = Some u \<and>
          st_get ops (at_task_id a') (tm_call_context (at_task_manager a')) (tm_store (at_task_manager a')) = Some u))"
proof (cases "\<exists>te. ev = AgentEv (TaskEv te)")
  case False
  then show ?thesis
    using run ok
    by (auto simp: ec_process_event_def ec_enqueue_to_subscribers_def ec_handle_message_event_def at_ok_def
        split: agent_event.splits event.splits if_splits)
next
  case True
  then obtain te where te: "ev = AgentEv (TaskEv te)" by blast
  obtain a1 u where h: "ec_handle_task_event ops te a = (a1, Inr u)"
    and a': "a' = ec_enqueue_to_subscribers ev (Some u)
      ((ec_update_task_state u (handled_event te u) a1)\<lparr>at_task_created := True\<rparr>)"
    using run by (auto simp: te ec_process_event_def split: prod.splits sum.splits)
  have sub: "at_subscribers a1 = at_subscribers a"
    using h unfolding ec_handle_task_event_def ec_handle_initial_task_def ec_handle_task_modification_event_def
      ec_save_pending_message_def ec_get_task_def
    by (auto simp: Let_def split: if_splits prod.splits option.splits sum.splits task_event.splits)
  have fr: "at_task_manager a' = at_task_manager a1" "at_task_id a' = at_task_id a1"
    "at_subscribers a' = at_subscribers a1 @ [(ev, Some u)]"
    by (simp_all add: a' ec_enqueue_to_subscribers_def ec_update_task_state_def ec_handle_terminal_state_def Let_def)
  with handle_task_event_ok [OF ok h] sub te show ?thesis
    by (auto simp: at_ok_def at_view_def)
qed

lemma process_all_ok:
  "at_ok ops sinv a \<Longrightarrow> ec_process_all ops evs a = Some a' \<Longrightarrow> at_ok ops sinv a'"
proof (induction evs arbitrary: a)
  case Nil
  then show ?case by simp
next
  case (Cons ev evs)
  then obtain a1 where p: "ec_process_event ops ev a = (a1, None)"
    and r: "ec_process_all ops evs a1 = Some a'"
    by (auto split: prod.splits option.splits)
  from process_event_ok [OF Cons.prems(1) p] have "at_ok ops sinv a1" by blast
  with Cons.IH r show ?case by blast
qed

end

end
