(* ===== verification/Active_Task.thy ===== *)
theory Active_Task
  imports Task_Updater Event_Consumer
begin

text \<open>
  \<^verbatim>\<open>ActiveTask\<close> of \<^verbatim>\<open>server/agent_execution/active_task.py\<close>: what a consumer does with a failure,
  the lifecycle operations \<^verbatim>\<open>start\<close>, \<^verbatim>\<open>cancel\<close>, \<^verbatim>\<open>get_task\<close> and \<^verbatim>\<open>_mark_task_as_failed\<close>,
  and the producer and the consumer as the steps of one transition system, with the
  interleavings that the event loop allows. A step of the system ends where the code awaits.
\<close>

subsection \<open>Updates that the consumer accepts\<close>

context task_store
begin

text \<open>
  Without a pending message the consumer accepts every update of its task that is no append,
  whatever the state of the task and the context id of the event.
\<close>

lemma handle_update_succeeds:
  assumes ok: "at_ok ops sinv a" and v: "at_view ops a = Some t"
    and mode: "at_task_mode a \<noteq> Some False" and mts: "at_message_to_save a = None"
    and u: "is_update_of (at_task_id a) (TaskEv te)" and na: "\<not> appends (TaskEv te)"
  shows "\<exists>a' u. ec_handle_task_event ops te a = (a', Inr u) \<and>
    task_state_of u = last (task_state_of t # event_states (TaskEv te)) \<and>
    conversation u = conversation t @ event_messages (TaskEv te) \<and>
    at_subscribers a' = at_subscribers a"
proof -
  have noobj: "te \<noteq> TaskObj x" for x using u by auto
  obtain g r where g: "ec_get_task ops a = (g, r)" by force
  note gs = at_ok_get_task [OF ok g]
  define a1 where "a1 = (if is_status_update te \<and> \<not> at_task_created a then g else a)"
  have a1: "at_ok ops sinv a1" "at_view ops a1 = Some t" "at_message_to_save a1 = None"
    "at_task_id a1 = at_task_id a" "at_subscribers a1 = at_subscribers a"
    using gs ok v mts ec_get_task_frame [of ops a] g by (auto simp: a1_def)
  have co: "tm_coherent ops sinv (at_task_manager a1)" and vw: "tm_view ops (at_task_manager a1) = Some t"
    using a1 by (simp_all add: at_ok_def at_view_def)
  have tid: "task_id t = at_task_id a"
    using coherent_view [OF co vw] a1(1,4) by (simp add: at_ok_def)
  let ?tm = "(at_task_manager a1)\<lparr>tm_context_id := Some (event_context_id te)\<rparr>"
  obtain tm' t' where p: "tm_process ops (TaskEv te) ?tm = (tm', Inr (TaskEv te))"
    "tm_coherent ops sinv tm'" "tm_view ops tm' = Some t'"
    "task_state_of t' = last (task_state_of t # event_states (TaskEv te))"
    using process_update_ok [of ?tm t te] co vw u na tid by auto
  have "is_update_of (task_id t) (TaskEv te)" using u tid by simp
  from process_step [OF _ _ this p(1)] co vw p(3)
  have conv: "conversation t' = conversation t @ event_messages (TaskEv te)" by simp
  have h: "ec_handle_task_modification_event ops te a = (a1\<lparr>at_task_manager := tm'\<rparr>, None)"
  proof -
    have st: "(if is_status_update te \<and> \<not> at_task_created a
         then (let (a', t) = ec_get_task ops a in (a', t = None)) else (a, False)) = (a1, False)"
      using g gs v by (simp add: a1_def)
    have ens: "tm_ensure_task_id ops (at_task_id a1) (event_context_id te) (at_task_manager a1) =
        (at_task_manager a1, t)"
      using vw by (simp add: tm_ensure_task_id_eq)
    have "ec_save_pending_message ops t (a1\<lparr>at_task_manager := at_task_manager a1\<rparr>) = (a1, None)"
      using a1(3) by (simp add: ec_save_pending_message_def)
    then show ?thesis
      unfolding ec_handle_task_modification_event_def st by (simp add: ens p(1))
  qed
  let ?a2 = "a1\<lparr>at_task_manager := tm', at_task_mode := Some True\<rparr>"
  obtain a3 r3 where g3: "ec_get_task ops ?a2 = (a3, r3)" by force
  have "tm_task_id tm' = Some (at_task_id a)"
    using coherent_view [OF p(2,3)] process_step [OF _ _ \<open>is_update_of (task_id t) (TaskEv te)\<close> p(1)] co vw tid p(3)
    by auto
  then have ok2: "at_ok ops sinv ?a2" using ok a1(4) p(2) by (simp add: at_ok_def)
  have "r3 = Some t'" using at_ok_get_task [OF ok2 g3] p(3) by (simp add: at_view_def)
  moreover have "at_subscribers a3 = at_subscribers a"
    using ec_get_task_frame(5) [of ops ?a2] g3 a1(5) by simp
  ultimately show ?thesis
    using mode h g3 p(4) conv noobj
    by (auto simp: ec_handle_task_event_def split: task_event.split)
qed

text \<open>
  A failure in task mode: the task is stored as failed, and the subscribers get the exception
  with the failed task.
\<close>

lemma fail_marks_failed:
  assumes ok: "at_ok ops sinv a" and v: "at_view ops a = Some t"
    and nt: "task_state_of t \<notin> TERMINAL_TASK_STATES"
    and mode: "at_task_mode a \<noteq> Some False" and mts: "at_message_to_save a = None"
  shows "\<exists>a' u. ec_fail ops e a = (a', None) \<and>
    at_subscribers a' = at_subscribers a @ [(Failure e, Some u)] \<and>
    task_state_of u = TASK_STATE_FAILED \<and> conversation u = conversation t \<and>
    st_get ops (at_task_id a') (tm_call_context (at_task_manager a')) (tm_store (at_task_manager a')) = Some u"
proof -
  obtain a1 r where g: "ec_get_task ops a = (a1, r)" by force
  note a1 = at_ok_get_task [OF ok g]
  have fr: "at_task_mode a1 = at_task_mode a" "at_message_to_save a1 = at_message_to_save a"
    "at_subscribers a1 = at_subscribers a" "at_task_id a1 = at_task_id a"
    using ec_get_task_frame [of ops a] g by simp_all
  have "task_id t = at_task_id a"
    using coherent_view [of "at_task_manager a" t] ok v by (simp add: at_ok_def at_view_def)
  then have upd: "is_update_of (at_task_id a1) (TaskEv (failed_event t))" "\<not> appends (TaskEv (failed_event t))"
    using fr by (simp_all add: failed_event_def appends_def)
  from handle_update_succeeds [OF _ _ _ _ upd, of t] a1 v mode mts fr
  obtain a2 u where h: "ec_handle_task_event ops (failed_event t) a1 = (a2, Inr u)"
    and st: "task_state_of u = last (task_state_of t # event_states (TaskEv (failed_event t)))"
    and cv: "conversation u = conversation t @ event_messages (TaskEv (failed_event t))"
    and sb: "at_subscribers a2 = at_subscribers a"
    by auto
  have "ec_fail ops e a = (ec_enqueue_to_subscribers (Failure e) (Some u) a2, None)"
    using g a1 v nt h by (simp add: ec_fail_def)
  moreover have "task_state_of u = TASK_STATE_FAILED" "conversation u = conversation t"
    using st cv by (simp_all add: failed_event_def se_status_of_def empty_status_def)
  ultimately show ?thesis
    using handle_task_event_ok [OF _ h] a1 sb
    by (simp add: ec_enqueue_to_subscribers_def)
qed

text \<open>
  A failure in message mode while the task exists and is not terminal: the branch raises again,
  so the exception reaches no subscriber and the task stays as it was.
\<close>

lemma fail_in_message_mode:
  assumes ok: "at_ok ops sinv a" and v: "at_view ops a = Some t"
    and nt: "task_state_of t \<notin> TERMINAL_TASK_STATES" and mode: "at_task_mode a = Some False"
  shows "\<exists>a'. ec_fail ops e a = (a', Some (A2A (err InvalidAgentResponseError))) \<and>
    at_subscribers a' = at_subscribers a \<and> at_view ops a' = Some t \<and>
    tm_store (at_task_manager a') = tm_store (at_task_manager a)"
proof -
  obtain a1 r where g: "ec_get_task ops a = (a1, r)" by force
  note a1 = at_ok_get_task [OF ok g]
  have "at_task_mode a1 = Some False" "at_subscribers a1 = at_subscribers a"
    using ec_get_task_frame [of ops a] g mode by simp_all
  with a1 v nt g show ?thesis
    by (simp add: ec_fail_def ec_handle_task_event_def)
qed

end

subsection \<open>The operations of the active task\<close>

definition at_init :: "string \<Rightarrow> 's task_manager \<Rightarrow> bool \<Rightarrow> 's active_task" where
  "at_init tid tm has_push = \<lparr>at_task_id = tid, at_task_manager = tm, at_task_created = False,
     at_is_finished = False, at_request_queue_open = True, at_request_lock_held = False,
     at_has_push_sender = has_push, at_task_mode = None, at_message_to_save = None,
     at_subscribers = [], at_notifications = [], at_tasks_done = 0\<rparr>"

definition set_call_context :: "call_context \<Rightarrow> 's active_task \<Rightarrow> 's active_task" where
  "set_call_context c a = a\<lparr>at_task_manager := (at_task_manager a)\<lparr>tm_call_context := c\<rparr>\<rparr>"

text \<open>
  \<^verbatim>\<open>start\<close>, up to the creation of the background tasks, for a task that is not started yet.
  A failed start marks the active task finished.
\<close>

definition at_start ::
  "'s store_ops \<Rightarrow> call_context \<Rightarrow> bool \<Rightarrow> 's active_task \<Rightarrow> 's active_task \<times> exn option" where
  "at_start ops c create_if_missing a =
     (if at_is_finished a then (a, Some (A2A (err InvalidParamsError)))
      else
        let (a1, t) = ec_get_task ops (set_call_context c a)
        in (case t of
              Some u \<Rightarrow>
                if task_state_of u \<in> TERMINAL_TASK_STATES
                then (a1\<lparr>at_task_created := True, at_is_finished := True\<rparr>,
                      Some (A2A (err InvalidParamsError)))
                else (a1\<lparr>at_task_created := True\<rparr>, None)
            | None \<Rightarrow>
                if create_if_missing then (a1, None)
                else (a1\<lparr>at_is_finished := True\<rparr>, Some (A2A (err TaskNotFoundError)))))"

text \<open>\<^verbatim>\<open>get_task\<close>, once \<^verbatim>\<open>_task_created\<close> is set.\<close>

definition at_get_task :: "'s store_ops \<Rightarrow> 's active_task \<Rightarrow> 's active_task \<times> (exn + task)" where
  "at_get_task ops a =
     (case ec_get_task ops a of
        (a1, None) \<Rightarrow> (a1, Inl (RuntimeError ''Task should have been created''))
      | (a1, Some t) \<Rightarrow> (a1, Inr t))"

text \<open>The event that \<^verbatim>\<open>_mark_task_as_failed\<close> enqueues on the agent's queue.\<close>

definition at_mark_task_as_failed :: "'s store_ops \<Rightarrow> 's active_task \<Rightarrow> 's active_task \<times> agent_event list" where
  "at_mark_task_as_failed ops a =
     (if at_task_created a
      then (case ec_get_task ops a of
              (a1, None) \<Rightarrow> (a1, [])
            | (a1, Some t) \<Rightarrow> (a1, [AgentEv (TaskEv (failed_event t))]))
      else (a, []))"

text \<open>The end of \<^verbatim>\<open>cancel\<close>, after the wait for \<^verbatim>\<open>_is_finished\<close>.\<close>

definition at_close_out :: "'s store_ops \<Rightarrow> 's active_task \<Rightarrow> 's active_task \<times> (exn + task)" where
  "at_close_out ops a =
     (case ec_get_task ops a of
        (a1, None) \<Rightarrow> (a1, Inl (RuntimeError ''Task should have been created''))
      | (a1, Some t) \<Rightarrow>
          if task_state_of t \<notin> TERMINAL_TASK_STATES then
            (case tm_save_task_event ops (TaskObj (set_task_state TASK_STATE_CANCELED t)) (at_task_manager a1) of
               (tm, Inl e) \<Rightarrow> (a1\<lparr>at_task_manager := tm\<rparr>, Inl e)
             | (tm, Inr u) \<Rightarrow> (a1\<lparr>at_task_manager := tm\<rparr>, Inr (set_task_state TASK_STATE_CANCELED t)))
          else (a1, Inr t))"

text \<open>
  What the producer stores when the agent raises. The state is assigned in place, so it is
  also the state of the manager's cached task when the save is refused.
\<close>

definition at_persist_failure ::
  "'s store_ops \<Rightarrow> string \<Rightarrow> 's active_task \<Rightarrow> 's active_task \<times> exn option" where
  "at_persist_failure ops cid a =
     (let (tm1, t) = tm_ensure_task_id ops (at_task_id a) cid (at_task_manager a)
      in if task_state_of t \<notin> TERMINAL_TASK_STATES
         then (case tm_save_task_event ops (TaskObj (set_task_state TASK_STATE_FAILED t))
                      (tm1\<lparr>tm_current_task :=
                         map_option (\<lambda>_. set_task_state TASK_STATE_FAILED t) (tm_current_task tm1)\<rparr>) of
                 (tm2, Inl e) \<Rightarrow> (a\<lparr>at_task_manager := tm2\<rparr>, Some e)
               | (tm2, Inr u) \<Rightarrow> (a\<lparr>at_task_manager := tm2, at_task_created := True\<rparr>, None))
         else (a\<lparr>at_task_manager := tm1, at_task_created := True\<rparr>, None))"

context task_store
begin

lemma save_object_ok:
  assumes ok: "at_ok ops sinv a" and id: "task_id t = at_task_id a"
    and cx: "py_truthy (tm_context_id (at_task_manager a)) \<longrightarrow>
       tm_context_id (at_task_manager a) = Some (task_context_id t)"
  shows "\<exists>tm. tm_save_task_event ops (TaskObj t) (at_task_manager a) = (tm, Inr t) \<and>
    tm_coherent ops sinv tm \<and> tm_view ops tm = Some t \<and>
    st_get ops (task_id t) (tm_call_context tm) (tm_store tm) = Some t"
proof -
  have co: "tm_coherent ops sinv (at_task_manager a)" and ne: "event_task_id (TaskObj t) \<noteq> []"
    and tid: "tm_task_id (at_task_manager a) = Some (task_id t)"
    using ok id by (simp_all add: at_ok_def)
  obtain tm r where sv: "tm_save_task_event ops (TaskObj t) (at_task_manager a) = (tm, r)" by force
  have "snd (tm_ids_check (TaskObj t) (at_task_manager a)) = None"
    using tid cx by (simp add: tm_ids_check_accepts)
  then have r: "r = Inr t"
    using sv by (auto simp: tm_save_task_event_def split: prod.splits)
  from save_task_event_spec [OF co ne sv] r
  have t: "tm_coherent ops sinv tm" "tm_current_task tm = Some t" by (auto simp: tm_frame_def)
  then have "tm_view ops tm = Some t" by (simp add: tm_view_def)
  with t coherent_view [OF t(1), of t] sv r show ?thesis by auto
qed

text \<open>A cancelled task is stored in a terminal state, which is what the caller gets.\<close>

lemma close_out_terminal:
  assumes ok: "at_ok ops sinv a" and v: "at_view ops a = Some t"
    and cx: "py_truthy (tm_context_id (at_task_manager a)) \<longrightarrow>
       tm_context_id (at_task_manager a) = Some (task_context_id t)"
  shows "\<exists>a' u. at_close_out ops a = (a', Inr u) \<and> task_state_of u \<in> TERMINAL_TASK_STATES \<and>
    (task_state_of t \<in> TERMINAL_TASK_STATES \<longrightarrow> u = t) \<and> conversation u = conversation t \<and>
    st_get ops (task_id u) (tm_call_context (at_task_manager a')) (tm_store (at_task_manager a')) = Some u"
proof -
  obtain a1 r where g: "ec_get_task ops a = (a1, r)" by force
  note a1 = at_ok_get_task [OF ok g]
  have id1: "at_task_id a1 = at_task_id a" using ec_get_task_frame(2) [of ops a] g by simp
  have r: "r = Some t" and v1: "tm_view ops (at_task_manager a1) = Some t"
    and co1: "tm_coherent ops sinv (at_task_manager a1)"
    using a1 v by (simp_all add: at_ok_def at_view_def)
  note gt = coherent_view [OF co1 v1]
  show ?thesis
  proof (cases "task_state_of t \<in> TERMINAL_TASK_STATES")
    case True
    with g r gt show ?thesis by (simp add: at_close_out_def)
  next
    case False
    let ?u = "set_task_state TASK_STATE_CANCELED t"
    have "task_id ?u = at_task_id a1" using gt a1 by (simp add: at_ok_def)
    from save_object_ok [OF _ this] a1 cx obtain tm where
      "tm_save_task_event ops (TaskObj ?u) (at_task_manager a1) = (tm, Inr ?u)"
      "st_get ops (task_id ?u) (tm_call_context tm) (tm_store tm) = Some ?u"
      by auto
    moreover have "conversation ?u = conversation t"
      by (simp add: conversation_def status_messages_def set_task_state_def task_status_of_def)
    ultimately show ?thesis
      using g r False by (simp add: at_close_out_def TERMINAL_TASK_STATES_def)
  qed
qed

text \<open>
  When the manager's context id is another one, which an update event with that context id
  leaves behind, the same cancel raises and the task stays as it is.
\<close>

lemma close_out_other_context:
  assumes ok: "at_ok ops sinv a" and v: "at_view ops a = Some t"
    and nt: "task_state_of t \<notin> TERMINAL_TASK_STATES"
    and cx: "py_truthy (tm_context_id (at_task_manager a))"
      "tm_context_id (at_task_manager a) \<noteq> Some (task_context_id t)"
  shows "\<exists>a'. at_close_out ops a = (a', Inl (A2A (err InvalidParamsError))) \<and>
    tm_store (at_task_manager a') = tm_store (at_task_manager a)"
proof -
  obtain a1 r where g: "ec_get_task ops a = (a1, r)" by force
  note a1 = at_ok_get_task [OF ok g]
  have r: "r = Some t" using a1 v by simp
  have "tm_ids_check (TaskObj (set_task_state TASK_STATE_CANCELED t)) (at_task_manager a1) =
      (at_task_manager a1, Some (A2A (err InvalidParamsError)))"
    using cx a1 by (auto simp: tm_ids_check_def Let_def at_ok_def)
  then show ?thesis
    using g r nt a1 by (simp add: at_close_out_def tm_save_task_event_def)
qed

end

end
