(* ===== verification/Handlers.thy ===== *)
theory Handlers
  imports Task_List Push_Store Active_Task
begin

text \<open>
  \<^verbatim>\<open>DefaultRequestHandlerV2\<close> (\<^verbatim>\<open>server/request_handlers/default_request_handler_v2.py\<close>), the
  decorators of \<^verbatim>\<open>request_handler.py\<close> and \<^verbatim>\<open>ActiveTaskRegistry\<close>
  (\<^verbatim>\<open>agent_execution/active_task_registry.py\<close>), over any task store and push store. The
  required-field check of the request is the argument \<open>missing\<close>, the list of its violations. A
  subscription delivers pairs of an event and a snapshot, as the consumer enqueued them.
\<close>

subsection \<open>Decorators\<close>

definition validate_request_params :: "validation_detail list \<Rightarrow> exn + 'a \<Rightarrow> exn + 'a" where
  "validate_request_params missing r =
     (if missing \<noteq> []
      then Inl (A2A (mk_error InvalidParamsError (Some ''Validation failed'')
             (Some \<lparr>ed_errors = Some missing, ed_other = []\<rparr>)))
      else r)"

definition validate :: "bool \<Rightarrow> a2a_kind \<Rightarrow> string \<Rightarrow> exn + 'a \<Rightarrow> exn + 'a" where
  "validate ok k msg r = (if ok then r else Inl (A2A (err_msg k msg)))"

record ('s, 'p) handler =
  h_store_ops :: "'s store_ops"
  h_push_ops :: "'p push_ops option"
  h_streaming :: bool
  h_push_notifications :: bool
  h_url_validator :: "(string \<Rightarrow> bool) option"
  h_has_push_sender :: bool

subsection \<open>Reading tasks\<close>

definition on_get_task ::
  "('s, 'p) handler \<Rightarrow> validation_detail list \<Rightarrow> get_task_request \<Rightarrow> call_context \<Rightarrow> 's \<Rightarrow> exn + task" where
  "on_get_task h missing params c s =
     validate_request_params missing
       (rbind (validate_history_length (gt_history_length params)) (\<lambda>_.
          case st_get (h_store_ops h) (gt_id params) c s of
            None \<Rightarrow> Inl (A2A (err TaskNotFoundError))
          | Some t \<Rightarrow> Inr (apply_history_length t (gt_history_length params))))"

definition list_view :: "list_tasks_request \<Rightarrow> task \<Rightarrow> task" where
  "list_view params t =
     apply_history_length
       (if lr_include_artifacts params = Some True then t else t\<lparr>task_artifacts := []\<rparr>)
       (lr_history_length params)"

definition on_list_tasks ::
  "(list_tasks_request \<Rightarrow> call_context \<Rightarrow> 's \<Rightarrow> exn + list_tasks_response) \<Rightarrow> validation_detail list \<Rightarrow>
   list_tasks_request \<Rightarrow> call_context \<Rightarrow> 's \<Rightarrow> exn + list_tasks_response" where
  "on_list_tasks st_list missing params c s =
     validate_request_params missing
       (rbind (validate_history_length (lr_history_length params)) (\<lambda>_.
        rbind (case lr_page_size params of None \<Rightarrow> Inr () | Some n \<Rightarrow> validate_page_size n) (\<lambda>_.
        rbind (st_list params c s) (\<lambda>page.
          Inr (page\<lparr>lresp_tasks := map (list_view params) (lresp_tasks page)\<rparr>)))))"

subsection \<open>Push-notification configurations\<close>

definition not_supported :: exn where
  "not_supported = A2A (err PushNotificationNotSupportedError)"

definition push_validated :: "('s, 'p) handler \<Rightarrow> validation_detail list \<Rightarrow> exn + 'a \<Rightarrow> exn + 'a" where
  "push_validated h missing r =
     validate_request_params missing
       (validate (h_push_notifications h) PushNotificationNotSupportedError
          ''Push notifications are not supported by the agent'' r)"

text \<open>The common start of the four operations: the store is there and the caller sees the task.\<close>

definition with_push_store ::
  "('s, 'p) handler \<Rightarrow> string \<Rightarrow> call_context \<Rightarrow> 's \<Rightarrow> ('p push_ops \<Rightarrow> exn + 'a) \<Rightarrow> exn + 'a" where
  "with_push_store h tid c s f =
     (case h_push_ops h of
        None \<Rightarrow> Inl not_supported
      | Some ops \<Rightarrow>
          (case st_get (h_store_ops h) tid c s of
             None \<Rightarrow> Inl (A2A (err TaskNotFoundError))
           | Some t \<Rightarrow> f ops))"

definition reject_unsafe_push_url :: "('s, 'p) handler \<Rightarrow> string \<Rightarrow> exn + unit" where
  "reject_unsafe_push_url h url =
     (case h_url_validator h of
        None \<Rightarrow> Inr ()
      | Some v \<Rightarrow> if v url then Inr ()
                 else Inl (A2A (err_msg InvalidParamsError ''Invalid push notification URL'')))"

text \<open>
  \<^verbatim>\<open>set_info\<close> stores the request object itself and completes its id in place, so the returned
  configuration has the id that was stored.
\<close>

definition on_create_push_config ::
  "('s, 'p) handler \<Rightarrow> validation_detail list \<Rightarrow> push_config \<Rightarrow> call_context \<Rightarrow> 's \<Rightarrow> 'p \<Rightarrow> exn + 'p \<times> push_config" where
  "on_create_push_config h missing params c s p =
     push_validated h missing
       (with_push_store h (pc_task_id params) c s (\<lambda>ops.
          rbind (reject_unsafe_push_url h (pc_url params)) (\<lambda>_.
            Inr (ps_set_info ops (pc_task_id params) params c p, default_id (pc_task_id params) params))))"

definition on_get_push_config ::
  "('s, 'p) handler \<Rightarrow> validation_detail list \<Rightarrow> string \<Rightarrow> string \<Rightarrow> call_context \<Rightarrow> 's \<Rightarrow> 'p \<Rightarrow> exn + push_config" where
  "on_get_push_config h missing tid config_id c s p =
     push_validated h missing
       (with_push_store h tid c s (\<lambda>ops.
          case List.find (\<lambda>x. pc_id x = config_id) (ps_get_info ops tid c p) of
            Some cfg \<Rightarrow> Inr cfg
          | None \<Rightarrow> Inl (A2A (err TaskNotFoundError))))"

definition on_list_push_configs ::
  "('s, 'p) handler \<Rightarrow> validation_detail list \<Rightarrow> string \<Rightarrow> call_context \<Rightarrow> 's \<Rightarrow> 'p \<Rightarrow> exn + push_config list" where
  "on_list_push_configs h missing tid c s p =
     push_validated h missing (with_push_store h tid c s (\<lambda>ops. Inr (ps_get_info ops tid c p)))"

definition on_delete_push_config ::
  "('s, 'p) handler \<Rightarrow> validation_detail list \<Rightarrow> string \<Rightarrow> string \<Rightarrow> call_context \<Rightarrow> 's \<Rightarrow> 'p \<Rightarrow> exn + 'p" where
  "on_delete_push_config h missing tid config_id c s p =
     push_validated h missing
       (with_push_store h tid c s (\<lambda>ops. Inr (ps_delete_info ops tid c (Some config_id) p)))"

definition on_get_extended_agent_card ::
  "validation_detail list \<Rightarrow> bool \<Rightarrow> 'card option \<Rightarrow> ('card \<Rightarrow> call_context \<Rightarrow> exn + 'card) option \<Rightarrow>
   call_context \<Rightarrow> exn + 'card" where
  "on_get_extended_agent_card missing supported ext_card modifier c =
     validate_request_params missing
       (validate supported UnsupportedOperationError
          ''The agent does not support authenticated extended cards''
          (case ext_card of
             None \<Rightarrow> Inl (A2A (err ExtendedAgentCardNotConfiguredError))
           | Some x \<Rightarrow> (case modifier of None \<Rightarrow> Inr x | Some f \<Rightarrow> f x c)))"

subsection \<open>The registry of active tasks\<close>

record 's registry =
  rg_active_tasks :: "(string, 's active_task) dict"
  rg_closed :: bool
  rg_cleanups :: "string list"

definition rg_init :: "'s registry" where
  "rg_init = \<lparr>rg_active_tasks = [], rg_closed = False, rg_cleanups = []\<rparr>"

text \<open>A failed start schedules the removal of the task that was just registered.\<close>

definition rg_get_or_create ::
  "'s store_ops \<Rightarrow> bool \<Rightarrow> 's \<Rightarrow> string \<Rightarrow> call_context \<Rightarrow> string option \<Rightarrow> bool \<Rightarrow> message option \<Rightarrow>
   's registry \<Rightarrow> 's registry \<times> (exn + 's active_task)" where
  "rg_get_or_create ops has_push store tid c cid create_if_missing msg rg =
     (if rg_closed rg then (rg, Inl (RuntimeError ''ActiveTaskRegistry is closed''))
      else
        (case map_of (rg_active_tasks rg) tid of
           Some existing \<Rightarrow>
             if \<not> create_if_missing \<and> st_get ops tid c store = None
             then (rg, Inl (A2A (err TaskNotFoundError))) else (rg, Inr existing)
         | None \<Rightarrow>
             (case tm_init store c (Some tid) cid msg of
                Inl e \<Rightarrow> (rg, Inl e)
              | Inr tm \<Rightarrow>
                  let (a, r) = at_start ops c create_if_missing (at_init tid tm has_push);
                      rg' = rg\<lparr>rg_active_tasks := AList.update tid a (rg_active_tasks rg)\<rparr>
                  in (case r of
                        None \<Rightarrow> (rg', Inr a)
                      | Some e \<Rightarrow> (rg'\<lparr>rg_cleanups := rg_cleanups rg' @ [tid]\<rparr>, Inl e)))))"

definition rg_remove_task :: "string \<Rightarrow> 's registry \<Rightarrow> 's registry" where
  "rg_remove_task tid rg = rg\<lparr>rg_active_tasks := AList.delete tid (rg_active_tasks rg),
     rg_cleanups := remove1 tid (rg_cleanups rg)\<rparr>"

definition rg_get :: "string \<Rightarrow> 's registry \<Rightarrow> 's active_task option" where
  "rg_get tid rg = map_of (rg_active_tasks rg) tid"

definition rg_aclose :: "'s registry \<Rightarrow> 's registry" where
  "rg_aclose rg = \<lparr>rg_active_tasks = [], rg_closed = True, rg_cleanups = []\<rparr>"

text \<open>
  The owner guard: without \<^verbatim>\<open>create_task_if_missing\<close> an active task is handed out only to a
  caller whose store has the task.
\<close>

lemma rg_owner_guard:
  assumes "rg_get_or_create ops push store tid c cid False msg rg = (rg', Inr a)" "tid \<noteq> []"
  shows "st_get ops tid c store \<noteq> None"
proof (cases "map_of (rg_active_tasks rg) tid")
  case (Some x)
  with assms show ?thesis by (auto simp: rg_get_or_create_def split: if_splits)
next
  case None
  with assms show ?thesis
    by (auto simp: rg_get_or_create_def tm_init_def at_start_def at_init_def set_call_context_def
        ec_get_task_def tm_get_task_def Let_def split: if_splits option.splits prod.splits)
qed

text \<open>A started task is not terminal, and a task in a terminal state cannot be started.\<close>

lemma rg_terminal_not_started:
  assumes "st_get ops tid c store = Some t" "task_state_of t \<in> TERMINAL_TASK_STATES"
    and "map_of (rg_active_tasks rg) tid = None" "tid \<noteq> []" "\<not> rg_closed rg"
  shows "\<exists>rg'. rg_get_or_create ops push store tid c cid create msg rg =
    (rg', Inl (A2A (err InvalidParamsError))) \<and> rg_cleanups rg' = rg_cleanups rg @ [tid]"
  using assms
  by (simp add: rg_get_or_create_def tm_init_def at_start_def at_init_def set_call_context_def
      ec_get_task_def tm_get_task_def Let_def)

subsection \<open>Subscriptions\<close>

text \<open>How a subscription ends: its request completed, it raised, or its queue was shut down.\<close>

datatype sub_end = SubReturned | SubRaised exn | SubClosed

text \<open>
  The loop of \<^verbatim>\<open>ActiveTask.subscribe\<close>: the events it yields and how it ends. \<open>None\<close> as a
  yielded event is Python's \<open>None\<close>.
\<close>

fun subscribe_loop ::
  "bool \<Rightarrow> nat option \<Rightarrow> (agent_event \<times> task option) list \<Rightarrow> event option list \<times> sub_end" where
  "subscribe_loop replace rid [] = ([], SubClosed)"
| "subscribe_loop replace rid ((Failure e, upd) # q) = ([], SubRaised e)"
| "subscribe_loop replace rid ((RequestCompleted i, upd) # q) =
     (if rid = Some i then ([], SubReturned) else subscribe_loop replace rid q)"
| "subscribe_loop replace rid ((RequestStarted i m, upd) # q) = subscribe_loop replace rid q"
| "subscribe_loop replace rid ((AgentEv ev, upd) # q) =
     (let ev' = (case ev of
            TaskEv (StatusUpdate e) \<Rightarrow>
              if replace then map_option (\<lambda>t. TaskEv (TaskObj t)) upd else Some ev
          | _ \<Rightarrow> Some ev);
          (evs, r) = subscribe_loop replace rid q
      in (ev' # evs, r))"

subsection \<open>Sending a message\<close>

definition result_ready :: "bool \<Rightarrow> task \<Rightarrow> bool" where
  "result_ready return_immediately t \<longleftrightarrow>
     return_immediately \<or> task_state_of t \<in> TERMINAL_TASK_STATES \<union> INTERRUPTED_TASK_STATES"

text \<open>
  The loop of \<^verbatim>\<open>on_message_send\<close> over the yielded events, with the result so far. The generator
  is lazy, so leaving the loop early hides how the subscription would have ended.
\<close>

fun send_loop ::
  "bool \<Rightarrow> string \<Rightarrow> event option \<Rightarrow> event option list \<Rightarrow> sub_end \<Rightarrow> exn + event option" where
  "send_loop ri tid res [] r = (case r of SubRaised e \<Rightarrow> Inl e | _ \<Rightarrow> Inr res)"
| "send_loop ri tid res (ev # evs) r =
     (case ev of
        Some (TaskEv (TaskObj t)) \<Rightarrow>
          if result_ready ri t then
            (if task_id t \<noteq> tid
             then Inl (A2A (err_msg InternalError ''Task ID mismatch in agent response''))
             else if ri \<or> task_state_of t \<noteq> TASK_STATE_FAILED then Inr (Some (TaskEv (TaskObj t)))
             else send_loop ri tid (Some (TaskEv (TaskObj t))) evs r)
          else send_loop ri tid res evs r
      | Some (MessageEv m) \<Rightarrow> send_loop ri tid (Some (MessageEv m)) evs r
      | _ \<Rightarrow> send_loop ri tid res evs r)"

text \<open>
  \<^verbatim>\<open>_setup_active_task\<close>, up to the registry: the guard on a given task id, the request context
  and the registration of the push configuration.
\<close>

definition empty_send_config :: send_config where
  "empty_send_config = \<lparr>sc_accepted_output_modes = [], sc_push_config = None, sc_history_length = None,
     sc_return_immediately = False\<rparr>"

definition smr_config :: "send_message_request \<Rightarrow> send_config" where
  "smr_config p = (case smr_configuration p of None \<Rightarrow> empty_send_config | Some cfg \<Rightarrow> cfg)"

definition register_push_config ::
  "('s, 'p) handler \<Rightarrow> string \<Rightarrow> send_config \<Rightarrow> call_context \<Rightarrow> 'p \<Rightarrow> exn + 'p" where
  "register_push_config h tid cfg c p =
     (case (h_push_ops h, sc_push_config cfg) of
        (Some ops, Some pc) \<Rightarrow>
          rbind (reject_unsafe_push_url h (pc_url pc)) (\<lambda>_. Inr (ps_set_info ops tid pc c p))
      | _ \<Rightarrow> Inr p)"

definition setup_active_task ::
  "('s, 'p) handler \<Rightarrow> (string option \<Rightarrow> string) \<Rightarrow> (string option \<Rightarrow> string) \<Rightarrow> send_message_request \<Rightarrow>
   call_context \<Rightarrow> 's \<Rightarrow> 'p \<Rightarrow> 's registry \<Rightarrow>
   'p \<times> 's registry \<times> (exn + 's active_task \<times> request_context)" where
  "setup_active_task h gen_task gen_context params c s p rg =
     (let original_task_id = or_none (message_task_id (params_message params));
          original_context_id = or_none (message_context_id (params_message params));
          checked =
            rbind (validate_history_length (sc_history_length (smr_config params))) (\<lambda>_.
            rbind (if original_task_id \<noteq> None \<and>
                      st_get (h_store_ops h) (or_empty original_task_id) c s = None
                   then Inl (A2A (err TaskNotFoundError)) else Inr ()) (\<lambda>_.
            rbind (rcb_build (Some (h_store_ops h)) s False gen_task gen_context c (Some params)
                     original_task_id original_context_id None) (\<lambda>rc.
            rbind (register_push_config h (or_empty (rc_task_id rc)) (smr_config params) c p) (\<lambda>p'.
              Inr (p', rc)))))
      in (case checked of
            Inl e \<Rightarrow> (p, rg, Inl e)
          | Inr (p', rc) \<Rightarrow>
              (case rg_get_or_create (h_store_ops h) (h_has_push_sender h) s (or_empty (rc_task_id rc)) c
                      (rc_context_id rc) True (rc_message rc) rg of
                 (rg', Inl e) \<Rightarrow> (p', rg', Inl e)
               | (rg', Inr a) \<Rightarrow> (p', rg', Inr (a, rc)))))"

text \<open>
  The rest of \<^verbatim>\<open>on_message_send\<close>: \<open>delivered\<close> is what the subscription dequeues, \<open>a\<close> the
  active task when the loop has ended.
\<close>

definition send_result ::
  "'s store_ops \<Rightarrow> send_config \<Rightarrow> string \<Rightarrow> nat \<Rightarrow> (agent_event \<times> task option) list \<Rightarrow> 's active_task \<Rightarrow>
   exn + event" where
  "send_result ops cfg tid rid delivered a =
     (let (evs, r) = subscribe_loop True (Some rid) delivered
      in rbind (send_loop (sc_return_immediately cfg) tid None evs r) (\<lambda>res.
         rbind (case res of
                  Some x \<Rightarrow> Inr x
                | None \<Rightarrow> rbind (snd (at_get_task ops a)) (\<lambda>t. Inr (TaskEv (TaskObj t)))) (\<lambda>result.
           Inr (case result of
                  TaskEv (TaskObj t) \<Rightarrow> TaskEv (TaskObj (apply_history_length t (sc_history_length cfg)))
                | _ \<Rightarrow> result))))"

text \<open>\<^verbatim>\<open>on_message_send_stream\<close>: the events up to a mismatched task id.\<close>

fun stream_loop :: "string \<Rightarrow> int option \<Rightarrow> event option list \<Rightarrow> sub_end \<Rightarrow> event option list \<times> exn option" where
  "stream_loop tid hl [] r = ([], (case r of SubRaised e \<Rightarrow> Some e | _ \<Rightarrow> None))"
| "stream_loop tid hl (ev # evs) r =
     (case ev of
        Some (TaskEv (TaskObj t)) \<Rightarrow>
          if task_id t \<noteq> tid
          then ([], Some (A2A (err_msg InternalError ''Task ID mismatch in agent response'')))
          else (let (out, x) = stream_loop tid hl evs r
                in (Some (TaskEv (TaskObj (apply_history_length t hl))) # out, x))
      | _ \<Rightarrow> (let (out, x) = stream_loop tid hl evs r in (ev # out, x)))"

text \<open>
  \<^verbatim>\<open>on_cancel_task\<close>: \<open>settle\<close> is what the other coroutines do to the active task between the
  cancellation of its producer and the end of its consumer.
\<close>

definition on_cancel_task ::
  "('s, 'p) handler \<Rightarrow> ('s active_task \<Rightarrow> exn + 's active_task) \<Rightarrow> validation_detail list \<Rightarrow> string \<Rightarrow>
   call_context \<Rightarrow> 's \<Rightarrow> 's registry \<Rightarrow> 's registry \<times> (exn + task)" where
  "on_cancel_task h settle missing tid c s rg =
     (if missing \<noteq> [] then (rg, validate_request_params missing (Inr empty_task))
      else
        let (rg', r) = rg_get_or_create (h_store_ops h) (h_has_push_sender h) s tid c None False None rg;
            r' = rbind r (\<lambda>a. rbind (settle (set_call_context c a))
                   (\<lambda>a'. snd (at_close_out (h_store_ops h) a')))
        in (rg', (case r' of
                    Inl e \<Rightarrow> Inl (if is_a2a_kind InvalidParamsError e
                                  then A2A (err TaskNotCancelableError) else e)
                  | Inr t \<Rightarrow> Inr t)))"

end
