(* ===== verification/Handler_Laws.thy ===== *)
theory Handler_Laws
  imports Handlers
begin

text \<open>
  What the request handler guarantees: the outcome of reading a task on every branch, the
  operations on push configurations as a client sees them, and the result of a blocking
  \<^verbatim>\<open>on_message_send\<close> against what the consumer stored. The locale \<open>server\<close> joins the contracts of
  the two stores, which share the resolution of owners.
\<close>

lemma validate_request_params_Nil [simp]: "validate_request_params [] r = r"
  by (simp add: validate_request_params_def)

lemma validate_request_params_Inr [simp]:
  "validate_request_params missing r = Inr x \<longleftrightarrow> missing = [] \<and> r = Inr x"
  by (simp add: validate_request_params_def)

lemma validate_Inr [simp]: "validate ok k m r = Inr x \<longleftrightarrow> ok \<and> r = Inr x"
  by (simp add: validate_def)

lemma push_validated_Inr [simp]:
  "push_validated h missing r = Inr x \<longleftrightarrow> missing = [] \<and> h_push_notifications h \<and> r = Inr x"
  by (auto simp: push_validated_def)

lemma with_push_store_Inr:
  "with_push_store h tid c s f = Inr x \<longleftrightarrow>
     (\<exists>ops t. h_push_ops h = Some ops \<and> st_get (h_store_ops h) tid c s = Some t \<and> f ops = Inr x)"
  by (auto simp: with_push_store_def split: option.splits)

subsection \<open>Reading a task\<close>

lemma on_get_task_spec:
  "on_get_task h [] params c s =
     (if (\<exists>n. gt_history_length params = Some n \<and> n < 0)
      then Inl (A2A (err_msg InvalidParamsError ''history length must be non-negative''))
      else (case st_get (h_store_ops h) (gt_id params) c s of
              None \<Rightarrow> Inl (A2A (err TaskNotFoundError))
            | Some t \<Rightarrow>
                (case gt_history_length params of
                   None \<Rightarrow> Inr t
                 | Some n \<Rightarrow> Inr (t\<lparr>task_history :=
                     drop (length (task_history t) - nat n) (task_history t)\<rparr>))))"
proof (cases "gt_history_length params")
  case None
  then show ?thesis
    by (simp add: on_get_task_def validate_history_length_def apply_history_length_def split: option.split)
next
  case (Some n)
  then show ?thesis
    by (cases "n < 0")
       (simp_all add: on_get_task_def validate_history_length_def apply_history_length_eq split: option.split)
qed

lemma list_view_fields:
  "task_id (list_view params t) = task_id t" "task_status (list_view params t) = task_status t"
  "task_artifacts (list_view params t) =
     (if lr_include_artifacts params = Some True then task_artifacts t else [])"
  by (simp_all add: list_view_def)

text \<open>A listed page shows the tasks of the store's page, without artifacts unless asked for.\<close>

lemma on_list_tasks_spec:
  assumes "on_list_tasks st_list missing params c s = Inr page"
  shows "\<exists>p. st_list params c s = Inr p \<and>
    map task_id (lresp_tasks page) = map task_id (lresp_tasks p) \<and>
    map task_status (lresp_tasks page) = map task_status (lresp_tasks p) \<and>
    lresp_next_page_token page = lresp_next_page_token p \<and> lresp_total_size page = lresp_total_size p \<and>
    (lr_include_artifacts params \<noteq> Some True \<longrightarrow> (\<forall>t \<in> set (lresp_tasks page). task_artifacts t = [])) \<and>
    (\<forall>n. lr_history_length params = Some n \<longrightarrow>
       0 \<le> n \<and> (\<forall>t \<in> set (lresp_tasks page). int (length (task_history t)) \<le> n)) \<and>
    (\<forall>n. lr_page_size params = Some n \<longrightarrow> 1 \<le> n \<and> n \<le> 100)"
proof -
  from assms obtain p where p: "st_list params c s = Inr p"
    "page = p\<lparr>lresp_tasks := map (list_view params) (lresp_tasks p)\<rparr>"
    and hl: "\<forall>n. lr_history_length params = Some n \<longrightarrow> 0 \<le> n"
    and ps: "\<forall>n. lr_page_size params = Some n \<longrightarrow> 1 \<le> n \<and> n \<le> 100"
    by (auto simp: on_list_tasks_def validate_history_length_Inr validate_page_size_Inr split: option.splits)
  have "int (length (task_history (list_view params t))) \<le> n" if "lr_history_length params = Some n" for n t
    using that hl by (simp add: list_view_def apply_history_length_eq)
  with p hl ps show ?thesis by (auto simp: list_view_fields comp_def)
qed

subsection \<open>Push configurations through the handler\<close>

locale server =
  st: task_store sops owner sinv + ps: push_store pops owner pinv
  for sops :: "'s store_ops" and pops :: "'p push_ops" and owner sinv pinv
begin

definition serves :: "('s, 'p) handler \<Rightarrow> bool" where
  "serves h \<longleftrightarrow> h_store_ops h = sops \<and> h_push_ops h = Some pops"

text \<open>A created configuration is read back under the id the creation returned.\<close>

lemma create_then_get:
  assumes h: "serves h" and p: "pinv p"
    and created: "on_create_push_config h missing cfg c s p = Inr (p', cfg')"
  shows "on_get_push_config h [] (pc_task_id cfg) (pc_id cfg') c s p' = Inr cfg' \<and> pinv p' \<and>
    pc_url cfg' = pc_url cfg \<and> pc_id cfg' = (if pc_id cfg = [] then pc_task_id cfg else pc_id cfg)"
proof -
  from created h obtain t where t: "st_get sops (pc_task_id cfg) c s = Some t" "h_push_notifications h"
    and p': "p' = ps_set_info pops (pc_task_id cfg) cfg c p" "cfg' = default_id (pc_task_id cfg) cfg"
    by (auto simp: on_create_push_config_def with_push_store_Inr serves_def)
  have "ps_get_info pops (pc_task_id cfg) c p' = upsert_config cfg' (ps_get_info pops (pc_task_id cfg) c p)"
    using ps.get_set [OF p] p' by simp
  then have "List.find (\<lambda>x. pc_id x = pc_id cfg') (ps_get_info pops (pc_task_id cfg) c p') = Some cfg'"
    by (simp add: upsert_config_def find_append)
  with h t p' ps.inv_set [OF p] show ?thesis
    by (simp add: on_get_push_config_def with_push_store_def push_validated_def validate_def serves_def default_id_def)
qed

text \<open>A deleted configuration is gone, and no other configuration is touched.\<close>

lemma delete_then_list:
  assumes h: "serves h" and p: "pinv p"
    and deleted: "on_delete_push_config h missing tid i c s p = Inr p'"
  shows "on_list_push_configs h [] tid c s p' = Inr (filter (\<lambda>x. pc_id x \<noteq> i) (ps_get_info pops tid c p)) \<and>
    on_get_push_config h [] tid i c s p' = Inl (A2A (err TaskNotFoundError)) \<and>
    (\<forall>t c'. owner c' \<noteq> owner c \<or> t \<noteq> tid \<longrightarrow> ps_get_info pops t c' p' = ps_get_info pops t c' p)"
proof -
  from deleted h obtain t where t: "st_get sops tid c s = Some t" "h_push_notifications h"
    and p': "p' = ps_delete_info pops tid c (Some i) p"
    by (auto simp: on_delete_push_config_def with_push_store_Inr serves_def)
  note get = ps.get_delete [OF p, of _ _ tid c "Some i", folded p']
  with h t get show ?thesis
    by (auto simp: on_list_push_configs_def on_get_push_config_def with_push_store_def push_validated_def
        validate_def serves_def)
qed

text \<open>A caller who does not see the task can neither read nor change its configurations.\<close>

lemma hidden_task:
  assumes h: "serves h" and "h_push_notifications h" and "st_get sops tid c s = None"
  shows "on_get_push_config h [] tid i c s p = Inl (A2A (err TaskNotFoundError))"
    "on_list_push_configs h [] tid c s p = Inl (A2A (err TaskNotFoundError))"
    "on_delete_push_config h [] tid i c s p = Inl (A2A (err TaskNotFoundError))"
    "pc_task_id cfg = tid \<Longrightarrow> on_create_push_config h [] cfg c s p = Inl (A2A (err TaskNotFoundError))"
  using assms
  by (simp_all add: on_get_push_config_def on_list_push_configs_def on_delete_push_config_def
      on_create_push_config_def with_push_store_def push_validated_def validate_def serves_def)

end

interpretation a2a: server "ims_ops r" "pcs_ops r" r ims_ok pcs_ok for r
  by unfold_locales

subsection \<open>The result of a blocking send\<close>

lemma send_loop_last:
  assumes "us \<noteq> []" and "\<forall>u \<in> set (butlast us). \<not> result_ready False u"
    and "result_ready False (last us)" "task_id (last us) = tid"
  shows "send_loop False tid res (map (\<lambda>u. Some (TaskEv (TaskObj u))) us) SubReturned =
    Inr (Some (TaskEv (TaskObj (last us))))"
  using assms
proof (induction us arbitrary: res)
  case Nil
  then show ?case by simp
next
  case (Cons u us)
  then show ?case by (cases "us = []") auto
qed

text \<open>An exception that ends the subscription before a result is ready is the caller's.\<close>

lemma send_loop_raises:
  assumes "\<forall>u \<in> set us. \<not> result_ready False u \<or> task_id u = tid \<and> task_state_of u = TASK_STATE_FAILED"
  shows "send_loop False tid res (map (\<lambda>u. Some (TaskEv (TaskObj u))) us) (SubRaised e) = Inl e"
  using assms by (induction us arbitrary: res) auto

definition status_item :: "status_event \<Rightarrow> task \<Rightarrow> agent_event \<times> task option" where
  "status_item e u = (AgentEv (TaskEv (StatusUpdate e)), Some u)"

lemma subscribe_statuses:
  "length es = length us \<Longrightarrow>
   subscribe_loop True (Some i) (map2 status_item es us @ [(RequestCompleted i, x)]) =
     (map (\<lambda>u. Some (TaskEv (TaskObj u))) us, SubReturned)"
  by (induction es us rule: list_induct2) (simp_all add: status_item_def)

context task_store
begin

text \<open>One snapshot per status update, in the state of the update; the last is the stored task.\<close>

lemma process_statuses:
  assumes "at_ok ops sinv a" and "at_view ops a = Some t"
    and "ec_process_all ops (map (\<lambda>e. AgentEv (TaskEv (StatusUpdate e))) es) a = Some a'"
  shows "\<exists>us. length us = length es \<and> at_subscribers a' = at_subscribers a @ map2 status_item es us \<and>
    map task_state_of us = map (\<lambda>e. status_state (se_status_of e)) es \<and>
    (\<forall>u \<in> set us. task_id u = at_task_id a) \<and> at_ok ops sinv a' \<and> at_task_id a' = at_task_id a \<and>
    at_view ops a' = Some (last (t # us))"
  using assms
proof (induction es arbitrary: a t)
  case Nil
  then show ?case by simp
next
  case (Cons e es)
  let ?ev = "AgentEv (TaskEv (StatusUpdate e))"
  obtain a1 where p: "ec_process_event ops ?ev a = (a1, None)"
    and rest: "ec_process_all ops (map (\<lambda>e. AgentEv (TaskEv (StatusUpdate e))) es) a1 = Some a'"
    using Cons.prems(3) by (auto split: prod.splits option.splits)
  from process_event_ok [OF Cons.prems(1) p] obtain u where
    u: "at_ok ops sinv a1" "at_subscribers a1 = at_subscribers a @ [(?ev, Some u)]" "at_view ops a1 = Some u"
    by auto
  obtain a0 u0 where h: "ec_handle_task_event ops (StatusUpdate e) a = (a0, Inr u0)"
    and a1: "at_task_manager a1 = at_task_manager a0" "at_task_id a1 = at_task_id a0"
    using p by (auto simp: ec_process_event_def ec_enqueue_to_subscribers_def ec_update_task_state_def
        ec_handle_terminal_state_def Let_def split: prod.splits sum.splits)
  obtain b where b: "ec_handle_task_modification_event ops (StatusUpdate e) a = (b, None)"
    and g: "ec_get_task ops (b\<lparr>at_task_mode := Some True\<rparr>) = (a0, Some u0)"
    using h by (auto simp: ec_handle_task_event_def split: if_splits prod.splits option.splits)
  from modification_ok [OF Cons.prems(1) _ b] obtain t' where
    t': "at_view ops b = Some t'" "task_id t' = at_task_id a" "task_status t' = Some (se_status_of e)"
      "at_ok ops sinv b"
    by auto
  have "at_ok ops sinv (b\<lparr>at_task_mode := Some True\<rparr>)" using t'(4) by (simp add: at_ok_def)
  from at_ok_get_task [OF this g] t'(1) have "at_view ops a0 = Some t'" by (simp add: at_view_def)
  then have "u = t'" using u(3) a1(1) by (simp add: at_view_def)
  moreover have "at_task_id a1 = at_task_id a"
    using coherent_view [of "at_task_manager a1" u] u(1,3) t'(2) \<open>u = t'\<close> by (simp add: at_ok_def at_view_def)
  ultimately show ?case
  proof -
    from Cons.IH [OF u(1,3) rest] obtain us where
      us: "length us = length es" "at_subscribers a' = at_subscribers a1 @ map2 status_item es us"
        "map task_state_of us = map (\<lambda>e. status_state (se_status_of e)) es"
        "\<forall>v \<in> set us. task_id v = at_task_id a1" "at_ok ops sinv a'" "at_task_id a' = at_task_id a1"
        "at_view ops a' = Some (last (u # us))"
      by blast
    have "task_state_of u = status_state (se_status_of e)"
      using \<open>u = t'\<close> t'(3) by (simp add: task_state_of_def task_status_of_def)
    with us u(2) t' \<open>u = t'\<close> \<open>at_task_id a1 = at_task_id a\<close> show ?case
      by (intro exI [of _ "u # us"]) (simp add: status_item_def)
  qed
qed

text \<open>
  A blocking send whose agent reports states of which only the last is terminal or interrupted
  returns the task that is stored, with its history cut to the requested length.
\<close>

lemma blocking_send:
  assumes ok: "at_ok ops sinv a" and v: "at_view ops a = Some t" and es: "es \<noteq> []"
    and run: "ec_process_all ops (RequestStarted i m #
      map (\<lambda>e. AgentEv (TaskEv (StatusUpdate e))) es @ [RequestCompleted i]) a = Some a'"
    and cfg: "\<not> sc_return_immediately cfg"
    and mid: "\<forall>e \<in> set (butlast es).
      status_state (se_status_of e) \<notin> TERMINAL_TASK_STATES \<union> INTERRUPTED_TASK_STATES"
    and fin: "status_state (se_status_of (last es)) \<in> TERMINAL_TASK_STATES \<union> INTERRUPTED_TASK_STATES"
  shows "\<exists>u. st_get ops (at_task_id a') (tm_call_context (at_task_manager a')) (tm_store (at_task_manager a')) = Some u \<and>
    send_result ops cfg (at_task_id a) i (drop (length (at_subscribers a)) (at_subscribers a')) a' =
      Inr (TaskEv (TaskObj (apply_history_length u (sc_history_length cfg))))"
proof -
  let ?evs = "map (\<lambda>e. AgentEv (TaskEv (StatusUpdate e))) es"
  have pa: "ec_process_all ops (xs @ ys) x =
      (case ec_process_all ops xs x of None \<Rightarrow> None | Some y \<Rightarrow> ec_process_all ops ys y)" for xs ys x
    by (induction xs arbitrary: x) (auto split: option.splits prod.splits)
  define a1 where "a1 = ec_enqueue_to_subscribers (RequestStarted i m) None (a\<lparr>at_message_to_save := m\<rparr>)"
  have s1: "ec_process_event ops (RequestStarted i m) a = (a1, None)"
    by (simp add: ec_process_event_def a1_def)
  have a1: "at_ok ops sinv a1" "at_view ops a1 = Some t" "at_task_id a1 = at_task_id a"
    "at_subscribers a1 = at_subscribers a @ [(RequestStarted i m, None)]"
    using ok v by (simp_all add: a1_def ec_enqueue_to_subscribers_def at_ok_def at_view_def)
  obtain a2 where a2: "ec_process_all ops ?evs a1 = Some a2"
    and fin2: "ec_process_event ops (RequestCompleted i) a2 = (a', None)"
    using run s1 by (auto simp: pa split: option.splits prod.splits)
  from process_statuses [OF a1(1,2) a2] obtain us where
    us: "length us = length es" "at_subscribers a2 = at_subscribers a1 @ map2 status_item es us"
      "map task_state_of us = map (\<lambda>e. status_state (se_status_of e)) es"
      "\<forall>u \<in> set us. task_id u = at_task_id a" "at_ok ops sinv a2" "at_view ops a2 = Some (last (t # us))"
    using a1(3) by auto
  have ne: "us \<noteq> []" using us(1) es by auto
  have a': "at_subscribers a' = at_subscribers a2 @ [(RequestCompleted i, None)]"
    "at_task_manager a' = at_task_manager a2" "at_task_id a' = at_task_id a2"
    using fin2 by (auto simp: ec_process_event_def ec_enqueue_to_subscribers_def split: if_splits)
  have "map task_state_of (butlast us) = map (\<lambda>e. status_state (se_status_of e)) (butlast es)"
    using arg_cong [OF us(3), of butlast] by (simp add: map_butlast)
  then have "\<forall>u \<in> set (butlast us). task_state_of u \<in> (\<lambda>e. status_state (se_status_of e)) ` set (butlast es)"
    by (metis image_eqI image_set)
  then have mid': "\<forall>u \<in> set (butlast us). \<not> result_ready False u"
    using mid by (force simp: result_ready_def)
  have "task_state_of (last us) = status_state (se_status_of (last es))"
    using arg_cong [OF us(3), of last] ne es by (simp add: last_map)
  with fin have fin': "result_ready False (last us)" by (simp add: result_ready_def)
  have "drop (length (at_subscribers a)) (at_subscribers a') =
      (RequestStarted i m, None) # map2 status_item es us @ [(RequestCompleted i, None)]"
    using a'(1) us(2) a1(4) by simp
  then have "send_result ops cfg (at_task_id a) i (drop (length (at_subscribers a)) (at_subscribers a')) a' =
      Inr (TaskEv (TaskObj (apply_history_length (last us) (sc_history_length cfg))))"
    using subscribe_statuses [OF us(1) [symmetric], of i None]
      send_loop_last [OF ne mid' fin', of "at_task_id a" None] us(4) ne cfg
    by (simp add: send_result_def)
  moreover have "st_get ops (at_task_id a') (tm_call_context (at_task_manager a')) (tm_store (at_task_manager a')) =
      Some (last us)"
    using coherent_view [of "at_task_manager a2" "last us"] us(5,6) ne a'(2,3) by (simp add: at_ok_def at_view_def)
  ultimately show ?thesis by blast
qed

end

end
