(* ===== verification/Task_System.thy ===== *)
theory Task_System
  imports Active_Task
begin

text \<open>
  The producer, the consumer and their queues as one transition system
  (\<^verbatim>\<open>ActiveTask._run_producer\<close>, \<^verbatim>\<open>EventConsumer.run\<close>, \<^verbatim>\<open>ActiveTask._run_consumer\<close>). The
  producer takes a request, acquires the request lock, runs the agent and reports its end on
  the agent's queue; the consumer processes the queue and releases the lock when it sees that
  report. Clients enqueue requests, the agent emits events (also after it returned, from
  coroutines of its own), and a cancel may stop the producer, at any time.
\<close>

datatype producer =
    PIdle
  | PTaken request_context nat
  | PLocked request_context nat
  | PRunning request_context nat
  | PDone

record 's system =
  sy_task :: "'s active_task"
  sy_queue :: "agent_event list"
  sy_queue_open :: bool
  sy_requests :: "(request_context \<times> nat) list"
  sy_producer :: producer
  sy_consumer_running :: bool
  sy_next_id :: nat

definition sy_init :: "'s active_task \<Rightarrow> 's system" where
  "sy_init a = \<lparr>sy_task = a, sy_queue = [], sy_queue_open = True, sy_requests = [],
     sy_producer = PIdle, sy_consumer_running = True, sy_next_id = 0\<rparr>"

text \<open>Putting an event on a closed queue drops it.\<close>

definition sy_put :: "agent_event \<Rightarrow> 's system \<Rightarrow> 's system" where
  "sy_put ev s = (if sy_queue_open s then s\<lparr>sy_queue := sy_queue s @ [ev]\<rparr> else s)"

text \<open>The \<open>finally\<close> block of the producer: no request is taken any more, and the queue takes no
  event but keeps those it has.\<close>

definition sy_producer_done :: "'s system \<Rightarrow> 's system" where
  "sy_producer_done s =
     s\<lparr>sy_task := (sy_task s)\<lparr>at_request_queue_open := False\<rparr>, sy_requests := [],
       sy_queue_open := False, sy_producer := PDone\<rparr>"

text \<open>The \<open>finally\<close> block of the consumer.\<close>

definition sy_consumer_done :: "'s active_task \<Rightarrow> 's system \<Rightarrow> 's system" where
  "sy_consumer_done a s =
     s\<lparr>sy_task := a\<lparr>at_is_finished := True, at_request_queue_open := False\<rparr>, sy_requests := [],
       sy_queue := [], sy_queue_open := False, sy_consumer_running := False\<rparr>"

text \<open>\<^verbatim>\<open>request_lock.acquire\<close> with the two assignments after it.\<close>

definition sy_acquire :: "'s store_ops \<Rightarrow> request_context \<Rightarrow> nat \<Rightarrow> 's system \<Rightarrow> 's system" where
  "sy_acquire ops rc i s =
     (let a = set_call_context (rc_call_context rc) ((sy_task s)\<lparr>at_request_lock_held := True\<rparr>);
          (a', t) = ec_get_task ops a
      in s\<lparr>sy_task := a', sy_producer := PLocked (rc\<lparr>rc_current_task := t\<rparr>) i\<rparr>)"

inductive sys_step :: "'s store_ops \<Rightarrow> 's system \<Rightarrow> 's system \<Rightarrow> bool" for ops :: "'s store_ops" where
  request: "at_request_queue_open (sy_task s) \<Longrightarrow>
    sys_step ops s (s\<lparr>sy_requests := sy_requests s @ [(rc, sy_next_id s)], sy_next_id := Suc (sy_next_id s)\<rparr>)"
| take: "sy_producer s = PIdle \<Longrightarrow> sy_requests s = (rc, i) # rest \<Longrightarrow>
    sys_step ops s (s\<lparr>sy_requests := rest, sy_producer := PTaken rc i\<rparr>)"
| acquire: "sy_producer s = PTaken rc i \<Longrightarrow> \<not> at_request_lock_held (sy_task s) \<Longrightarrow>
    sys_step ops s (sy_acquire ops rc i s)"
| started: "sy_producer s = PLocked rc i \<Longrightarrow>
    sys_step ops s ((sy_put (RequestStarted i (rc_message rc)) s)\<lparr>sy_producer := PRunning rc i\<rparr>)"
| emitted: "sys_step ops s (sy_put (AgentEv ev) s)"
| completed: "sy_producer s = PRunning rc i \<Longrightarrow>
    sys_step ops s ((sy_put (RequestCompleted i) s)\<lparr>sy_producer := PIdle\<rparr>)"
| crashed: "sy_producer s = PRunning rc i \<Longrightarrow>
    at_persist_failure ops (or_empty (rc_context_id rc)) (sy_task s) = (a, None) \<Longrightarrow>
    sys_step ops s (sy_producer_done (sy_put (Failure e) (s\<lparr>sy_task := a\<rparr>)))"
| crashed_twice: "sy_producer s = PRunning rc i \<Longrightarrow>
    at_persist_failure ops (or_empty (rc_context_id rc)) (sy_task s) = (a, Some e) \<Longrightarrow>
    sys_step ops s (sy_producer_done (s\<lparr>sy_task := a\<rparr>))"
| stopped: "sy_producer s = PIdle \<Longrightarrow> \<not> at_request_queue_open (sy_task s) \<Longrightarrow>
    sys_step ops s (sy_producer_done s)"
| cancelled: "sys_step ops s (sy_producer_done s)"
| consumed: "sy_consumer_running s \<Longrightarrow> sy_queue s = ev # rest \<Longrightarrow>
    ec_process_event ops ev (sy_task s) = (a, None) \<Longrightarrow>
    sys_step ops s (s\<lparr>sy_task := a, sy_queue := rest,
      sy_requests := (if at_request_queue_open a then sy_requests s else [])\<rparr>)"
| consumer_failed: "sy_consumer_running s \<Longrightarrow> sy_queue s = ev # rest \<Longrightarrow>
    ec_process_event ops ev (sy_task s) = (a, Some e) \<Longrightarrow> ec_fail ops e a = (a', r) \<Longrightarrow>
    sys_step ops s (sy_consumer_done a' s)"
| consumer_ended: "sy_consumer_running s \<Longrightarrow> sy_queue s = [] \<Longrightarrow> \<not> sy_queue_open s \<Longrightarrow>
    sys_step ops s (sy_consumer_done (sy_task s) s)"

inductive_cases sys_stepE: "sys_step ops s s'"

inductive sys_reachable :: "'s store_ops \<Rightarrow> 's system \<Rightarrow> 's system \<Rightarrow> bool" for ops :: "'s store_ops" and s0 where
  start: "sys_reachable ops s0 s0"
| step: "sys_reachable ops s0 s \<Longrightarrow> sys_step ops s s' \<Longrightarrow> sys_reachable ops s0 s'"

subsection \<open>One request at a time\<close>

fun is_completed :: "agent_event \<Rightarrow> bool" where
  "is_completed (RequestCompleted i) = True"
| "is_completed _ = False"

fun is_started :: "agent_event \<Rightarrow> bool" where
  "is_started (RequestStarted i m) = True"
| "is_started _ = False"

fun executing :: "producer \<Rightarrow> bool" where
  "executing (PLocked rc i) = True"
| "executing (PRunning rc i) = True"
| "executing _ = False"

definition completions :: "agent_event list \<Rightarrow> nat" where
  "completions q = length (filter is_completed q)"

text \<open>After a report of completion in the queue no other request's start or end follows.\<close>

fun bracketed :: "agent_event list \<Rightarrow> bool" where
  "bracketed [] = True"
| "bracketed (ev # q) =
     ((is_completed ev \<longrightarrow> (\<forall>x \<in> set q. \<not> is_completed x \<and> \<not> is_started x)) \<and> bracketed q)"

text \<open>
  The invariant: the lock is held for a running execution or for a report of completion that
  is still in the queue, and never for two of these.
\<close>

definition sy_ok :: "'s system \<Rightarrow> bool" where
  "sy_ok s \<longleftrightarrow>
     completions (sy_queue s) + of_bool (executing (sy_producer s)) \<le>
       (of_bool (at_request_lock_held (sy_task s)) :: nat) \<and>
     bracketed (sy_queue s)"

lemma completions_simps [simp]:
  "completions [] = 0" "completions (ev # q) = (if is_completed ev then Suc (completions q) else completions q)"
  "completions (q @ q') = completions q + completions q'"
  by (simp_all add: completions_def)

lemma completions_0: "completions q = 0 \<longleftrightarrow> (\<forall>x \<in> set q. \<not> is_completed x)"
  by (auto simp: completions_def filter_empty_conv)

lemma bracketed_append_other:
  "\<not> is_completed ev \<Longrightarrow> \<not> is_started ev \<Longrightarrow> bracketed (q @ [ev]) = bracketed q"
  by (induction q) auto

lemma bracketed_append_any: "completions q = 0 \<Longrightarrow> bracketed (q @ [ev])"
  unfolding completions_0 by (induction q) auto

lemma bracketed_append: "bracketed q \<Longrightarrow> completions q = 0 \<or> \<not> is_completed ev \<and> \<not> is_started ev \<Longrightarrow> bracketed (q @ [ev])"
  using bracketed_append_any bracketed_append_other by blast

lemma lock_get_task [simp]: "at_request_lock_held (fst (ec_get_task ops a)) = at_request_lock_held a"
  by (simp add: ec_get_task_def split: prod.split)

lemma lock_persist_failure:
  "at_persist_failure ops cid a = (a', r) \<Longrightarrow> at_request_lock_held a' = at_request_lock_held a"
  by (auto simp: at_persist_failure_def Let_def split: prod.splits if_splits sum.splits)

lemma lock_get_task': "ec_get_task ops a = (a', r) \<Longrightarrow> at_request_lock_held a' = at_request_lock_held a"
  using lock_get_task [of ops a] by simp

lemma lock_save_pending:
  "ec_save_pending_message ops t a = (a', r) \<Longrightarrow> at_request_lock_held a' = at_request_lock_held a"
  by (auto simp: ec_save_pending_message_def Let_def split: option.splits if_splits prod.splits sum.splits)

lemma lock_initial_task:
  "ec_handle_initial_task ops t a = (a', r) \<Longrightarrow> at_request_lock_held a' = at_request_lock_held a"
  by (auto simp: ec_handle_initial_task_def dest!: lock_get_task' split: prod.splits option.splits sum.splits)

lemma lock_modification:
  assumes run: "ec_handle_task_modification_event ops te a = (a', r)"
  shows "at_request_lock_held a' = at_request_lock_held a"
proof -
  obtain a1 miss where st: "(if is_status_update te \<and> \<not> at_task_created a
       then (let (a', t) = ec_get_task ops a in (a', t = None)) else (a, False)) = (a1, miss)"
    by force
  have "at_request_lock_held a1 = at_request_lock_held a"
    using st by (auto dest!: lock_get_task' split: if_splits prod.splits)
  moreover have "at_request_lock_held a' = at_request_lock_held a1"
    using run unfolding ec_handle_task_modification_event_def st
    by (auto dest!: lock_save_pending split: prod.splits if_splits option.splits sum.splits)
  ultimately show ?thesis by simp
qed

lemma lock_handle_task_event:
  assumes run: "ec_handle_task_event ops te a = (a', r)"
  shows "at_request_lock_held a' = at_request_lock_held a"
proof -
  obtain a1 x where h: "(case te of TaskObj t \<Rightarrow> ec_handle_initial_task ops t a
      | _ \<Rightarrow> ec_handle_task_modification_event ops te a) = (a1, x)"
    by force
  then have "at_request_lock_held a1 = at_request_lock_held a"
    by (cases te) (auto dest: lock_initial_task lock_modification)
  with run show ?thesis
    unfolding ec_handle_task_event_def h
    by (auto dest!: lock_get_task' split: if_splits prod.splits option.splits)
qed

lemma lock_process_event:
  assumes "ec_process_event ops ev a = (a', r)"
  shows "at_request_lock_held a' = (if is_completed ev \<and> r = None then False else at_request_lock_held a)"
  using assms
  by (auto simp: ec_process_event_def ec_enqueue_to_subscribers_def ec_handle_message_event_def
      ec_update_task_state_def ec_handle_terminal_state_def Let_def dest!: lock_handle_task_event
      split: agent_event.splits event.splits if_splits prod.splits sum.splits option.splits)

lemma lock_fail:
  assumes "ec_fail ops e a = (a', r)"
  shows "at_request_lock_held a' = at_request_lock_held a"
proof -
  obtain a1 t where g: "ec_get_task ops a = (a1, t)" by force
  with assms show ?thesis
    unfolding ec_fail_def g
    by (auto simp: ec_enqueue_to_subscribers_def lock_get_task' [OF g] dest!: lock_handle_task_event
        split: if_splits prod.splits sum.splits)
qed

lemma sy_ok_init: "sy_ok (sy_init a)"
  by (simp add: sy_ok_def sy_init_def)

lemma sy_put_simps [simp]:
  "sy_task (sy_put ev s) = sy_task s" "sy_producer (sy_put ev s) = sy_producer s"
  "sy_queue (sy_put ev s) = (if sy_queue_open s then sy_queue s @ [ev] else sy_queue s)"
  by (simp_all add: sy_put_def)

lemma executing_not_completed:
  "sy_ok s \<Longrightarrow> executing (sy_producer s) \<Longrightarrow> completions (sy_queue s) = 0 \<and> at_request_lock_held (sy_task s)"
  by (cases "at_request_lock_held (sy_task s)") (auto simp: sy_ok_def)

lemma sys_step_ok:
  assumes "sys_step ops s s'" and ok: "sy_ok s"
  shows "sy_ok s'"
  using assms(1)
proof cases
  case (request rc)
  with ok show ?thesis by (simp add: sy_ok_def)
next
  case (take rc i rest)
  with ok show ?thesis by (simp add: sy_ok_def)
next
  case (acquire rc i)
  obtain a' t where g: "ec_get_task ops (set_call_context (rc_call_context rc)
      ((sy_task s)\<lparr>at_request_lock_held := True\<rparr>)) = (a', t)"
    by force
  have "at_request_lock_held a'"
    by (simp add: lock_get_task' [OF g]) (simp add: set_call_context_def)
  with acquire ok g show ?thesis by (simp add: sy_ok_def sy_acquire_def)
next
  case (started rc i)
  with executing_not_completed [OF ok] ok show ?thesis
    by (simp add: sy_ok_def bracketed_append)
next
  case (emitted ev)
  with ok show ?thesis by (simp add: sy_ok_def bracketed_append)
next
  case (completed rc i)
  with executing_not_completed [OF ok] ok show ?thesis
    by (simp add: sy_ok_def bracketed_append)
next
  case (crashed rc i a e)
  with executing_not_completed [OF ok] ok lock_persist_failure [OF crashed(3)] show ?thesis
    by (simp add: sy_ok_def sy_producer_done_def bracketed_append)
next
  case (crashed_twice rc i a e)
  with executing_not_completed [OF ok] ok lock_persist_failure [OF crashed_twice(3)] show ?thesis
    by (simp add: sy_ok_def sy_producer_done_def)
next
  case stopped
  with ok show ?thesis by (simp add: sy_ok_def sy_producer_done_def)
next
  case cancelled
  with ok show ?thesis by (simp add: sy_ok_def sy_producer_done_def)
next
  case (consumed ev rest a)
  show ?thesis
  proof (cases "is_completed ev")
    case True
    with ok consumed(3) have "completions rest = 0 \<and> \<not> executing (sy_producer s)"
      by (cases "at_request_lock_held (sy_task s)") (auto simp: sy_ok_def)
    with consumed ok True show ?thesis by (simp add: sy_ok_def)
  next
    case False
    with consumed ok lock_process_event [OF consumed(4)] show ?thesis
      by (simp add: sy_ok_def)
  qed
next
  case (consumer_failed ev rest a e a' r)
  then have "at_request_lock_held a' = at_request_lock_held (sy_task s)"
    using lock_process_event [OF consumer_failed(4)] lock_fail [OF consumer_failed(5)] by simp
  with consumer_failed(1) executing_not_completed [OF ok] show ?thesis
    by (cases "executing (sy_producer s)") (simp_all add: sy_ok_def sy_consumer_done_def)
next
  case consumer_ended
  with ok show ?thesis by (simp add: sy_ok_def sy_consumer_done_def)
qed

lemma reachable_ok: "sys_reachable ops (sy_init a) s \<Longrightarrow> sy_ok s"
  by (induction rule: sys_reachable.induct) (auto simp: sy_ok_init intro: sys_step_ok)

text \<open>A report of completion that is consumed always finds the lock held.\<close>

lemma reachable_release:
  assumes "sys_reachable ops (sy_init a) s" "sy_queue s = RequestCompleted i # rest"
  shows "at_request_lock_held (sy_task s) \<and> \<not> executing (sy_producer s) \<and>
    (\<forall>x \<in> set rest. \<not> is_completed x \<and> \<not> is_started x)"
  using reachable_ok [OF assms(1)] assms(2)
  by (cases "at_request_lock_held (sy_task s)") (auto simp: sy_ok_def)

end
