(* ===== verification/Copying_Store.thy ===== *)
theory Copying_Store
  imports Task_Store
begin

text \<open>
  \<^verbatim>\<open>CopyingTaskStoreAdapter\<close> (\<^verbatim>\<open>server/tasks/copying_task_store.py\<close>) over the in-memory
  store, with the objects of the process explicit. The wrapped store keeps references, so the
  model has a heap of tasks, and the store maps owner and id to an address. A caller creates
  objects, mutates the objects it holds, and calls the store; the adapter copies on the way in
  and on the way out. The lemmas show that the copies are what makes the store behave as the
  value store of \<^verbatim>\<open>Task_Store\<close>: a caller's mutation is invisible until it saves.
\<close>

record heap_store =
  hs_heap :: "nat \<Rightarrow> task"
  hs_next :: nat
  hs_refs :: "(string, (string, nat) dict) dict"

definition hs_init :: heap_store where
  "hs_init = \<lparr>hs_heap = (\<lambda>_. empty_task), hs_next = 0, hs_refs = []\<rparr>"

text \<open>\<open>x = Task(); x.CopyFrom(y)\<close>\<close>

definition new_object :: "task \<Rightarrow> heap_store \<Rightarrow> heap_store \<times> nat" where
  "new_object t s =
     (s\<lparr>hs_heap := (hs_heap s)(hs_next s := t), hs_next := Suc (hs_next s)\<rparr>, hs_next s)"

definition owner_refs :: "string \<Rightarrow> heap_store \<Rightarrow> (string, nat) dict" where
  "owner_refs ow s = (case map_of (hs_refs s) ow of None \<Rightarrow> [] | Some d \<Rightarrow> d)"

text \<open>The wrapped store: it stores and returns the reference it is given.\<close>

definition ref_save :: "(call_context \<Rightarrow> string) \<Rightarrow> nat \<Rightarrow> call_context \<Rightarrow> heap_store \<Rightarrow> heap_store" where
  "ref_save resolver a c s =
     (let ow = resolver c
      in s\<lparr>hs_refs := AList.update ow (AList.update (task_id (hs_heap s a)) a (owner_refs ow s)) (hs_refs s)\<rparr>)"

definition ref_get :: "(call_context \<Rightarrow> string) \<Rightarrow> string \<Rightarrow> call_context \<Rightarrow> heap_store \<Rightarrow> nat option" where
  "ref_get resolver i c s = map_of (owner_refs (resolver c) s) i"

definition ref_delete :: "(call_context \<Rightarrow> string) \<Rightarrow> string \<Rightarrow> call_context \<Rightarrow> heap_store \<Rightarrow> heap_store" where
  "ref_delete resolver i c s =
     (let ow = resolver c; refs = owner_refs ow s
      in if map_of refs i = None then s
         else let refs' = AList.delete i refs
              in if refs' = [] then s\<lparr>hs_refs := AList.delete ow (hs_refs s)\<rparr>
                 else s\<lparr>hs_refs := AList.update ow refs' (hs_refs s)\<rparr>)"

text \<open>The adapter.\<close>

definition copying_save ::
  "(call_context \<Rightarrow> string) \<Rightarrow> nat \<Rightarrow> call_context \<Rightarrow> heap_store \<Rightarrow> heap_store" where
  "copying_save resolver a c s =
     (let (s', task_copy) = new_object (hs_heap s a) s in ref_save resolver task_copy c s')"

definition copying_get ::
  "(call_context \<Rightarrow> string) \<Rightarrow> string \<Rightarrow> call_context \<Rightarrow> heap_store \<Rightarrow> heap_store \<times> nat option" where
  "copying_get resolver i c s =
     (case ref_get resolver i c s of
        None \<Rightarrow> (s, None)
      | Some a \<Rightarrow> let (s', task_copy) = new_object (hs_heap s a) s in (s', Some task_copy))"

definition copying_delete ::
  "(call_context \<Rightarrow> string) \<Rightarrow> string \<Rightarrow> call_context \<Rightarrow> heap_store \<Rightarrow> heap_store" where
  "copying_delete resolver i c s = ref_delete resolver i c s"

definition mutate :: "nat \<Rightarrow> task \<Rightarrow> heap_store \<Rightarrow> heap_store" where
  "mutate a t s = s\<lparr>hs_heap := (hs_heap s)(a := t)\<rparr>"

subsection \<open>The value store behind the references\<close>

definition map_vals :: "('a \<Rightarrow> 'b) \<Rightarrow> ('k, 'a) dict \<Rightarrow> ('k, 'b) dict" where
  "map_vals f d = map (\<lambda>(k, v). (k, f v)) d"

lemma map_vals_simps [simp]: "map_vals f [] = []" "map_vals f ((k, v) # d) = (k, f v) # map_vals f d"
  by (simp_all add: map_vals_def)

lemma map_of_map_vals [simp]: "map_of (map_vals f d) k = map_option f (map_of d k)"
  by (induction d) auto

lemma map_vals_update [simp]: "map_vals f (AList.update k v d) = AList.update k (f v) (map_vals f d)"
  by (induction d) auto

lemma map_vals_delete [simp]: "map_vals f (AList.delete k d) = AList.delete k (map_vals f d)"
  by (induction d) auto

lemma map_vals_eq_Nil [simp]: "map_vals f d = [] \<longleftrightarrow> d = []"
  by (simp add: map_vals_def)

lemma map_vals_cong: "(\<And>k v. (k, v) \<in> set d \<Longrightarrow> f v = g v) \<Longrightarrow> map_vals f d = map_vals g d"
  by (auto simp: map_vals_def)

definition hs_abs :: "heap_store \<Rightarrow> in_memory_store" where
  "hs_abs s = \<lparr>ims_tasks = map_vals (map_vals (hs_heap s)) (hs_refs s)\<rparr>"

text \<open>The addresses the store holds.\<close>

definition store_addrs :: "heap_store \<Rightarrow> nat set" where
  "store_addrs s = {a. \<exists>ow d i. (ow, d) \<in> set (hs_refs s) \<and> (i, a) \<in> set d}"

lemma owner_refs_abs: "get_owner_tasks ow (hs_abs s) = map_vals (hs_heap s) (owner_refs ow s)"
  by (simp add: get_owner_tasks_def hs_abs_def owner_refs_def split: option.split)

lemma hs_abs_heap:
  assumes "\<And>a. a \<in> store_addrs s \<Longrightarrow> h a = hs_heap s a"
  shows "hs_abs (s\<lparr>hs_heap := h\<rparr>) = hs_abs s"
  using assms by (fastforce simp: hs_abs_def store_addrs_def intro!: map_vals_cong)

lemma hs_abs_heap_next: "hs_abs (s\<lparr>hs_heap := h, hs_next := n\<rparr>) = hs_abs (s\<lparr>hs_heap := h\<rparr>)"
  by (simp add: hs_abs_def)

lemma hs_abs_new_object:
  assumes "\<And>a. a \<in> store_addrs s \<Longrightarrow> a < hs_next s" "new_object t s = (s', a)"
  shows "hs_abs s' = hs_abs s"
proof -
  have "s' = s\<lparr>hs_heap := (hs_heap s)(hs_next s := t), hs_next := Suc (hs_next s)\<rparr>"
    using assms(2) by (auto simp: new_object_def)
  moreover have "hs_abs (s\<lparr>hs_heap := (hs_heap s)(hs_next s := t)\<rparr>) = hs_abs s"
    using assms(1) by (intro hs_abs_heap) auto
  ultimately show ?thesis by (simp only: hs_abs_heap_next)
qed

lemma ref_save_abs: "hs_abs (ref_save r a c s) = ims_save r (hs_heap s a) c (hs_abs s)"
proof -
  have "ims_tasks (hs_abs (ref_save r a c s)) = ims_tasks (ims_save r (hs_heap s a) c (hs_abs s))"
    by (simp add: ims_save_def Let_def owner_refs_abs)
       (simp add: hs_abs_def ref_save_def Let_def)
  then show ?thesis by simp
qed

lemma set_update_subset: "set (AList.update k v d) \<subseteq> insert (k, v) (set d)"
  by (induction d) auto

lemma copying_delete_abs: "hs_abs (copying_delete r i c s) = ims_delete r i c (hs_abs s)"
proof -
  have emp: "AList.delete i (map_vals h d) = [] \<longleftrightarrow> AList.delete i d = []" for h :: "nat \<Rightarrow> task" and d
    by (simp flip: map_vals_delete)
  have "ims_tasks (hs_abs (copying_delete r i c s)) = ims_tasks (ims_delete r i c (hs_abs s))"
    unfolding ims_delete_def Let_def owner_refs_abs map_of_map_vals emp
    by (simp add: copying_delete_def ref_delete_def Let_def hs_abs_def)
  then show ?thesis by simp
qed

lemma store_addrs_delete: "store_addrs (copying_delete r i c s) \<subseteq> store_addrs s"
proof
  fix b assume "b \<in> store_addrs (copying_delete r i c s)"
  then obtain ow d j where "(ow, d) \<in> set (hs_refs (copying_delete r i c s))" and bd: "(j, b) \<in> set d"
    by (auto simp: store_addrs_def)
  then consider "(ow, d) \<in> set (hs_refs s)" | "d = AList.delete i (owner_refs (r c) s)"
    using set_update_subset [of "r c" "AList.delete i (owner_refs (r c) s)" "hs_refs s"]
    by (auto simp: copying_delete_def ref_delete_def Let_def AList.delete_eq split: if_splits)
  then show "b \<in> store_addrs s"
  proof cases
    case 1
    with bd show ?thesis by (auto simp: store_addrs_def)
  next
    case 2
    then have "(j, b) \<in> set (owner_refs (r c) s)" using bd by (simp add: AList.delete_eq)
    then show ?thesis
      by (cases "map_of (hs_refs s) (r c)")
         (auto simp: owner_refs_def store_addrs_def dest: map_of_SomeD)
  qed
qed

lemma store_addrs_ref_save: "store_addrs (ref_save r a c s) \<subseteq> insert a (store_addrs s)"
proof
  fix b assume "b \<in> store_addrs (ref_save r a c s)"
  then obtain ow d i where "(ow, d) \<in> set (hs_refs (ref_save r a c s))" and bd: "(i, b) \<in> set d"
    by (auto simp: store_addrs_def)
  then consider "(ow, d) \<in> set (hs_refs s)"
    | "d = AList.update (task_id (hs_heap s a)) a (owner_refs (r c) s)"
    using set_update_subset [of "r c" "AList.update (task_id (hs_heap s a)) a (owner_refs (r c) s)" "hs_refs s"]
    by (auto simp: ref_save_def Let_def)
  then show "b \<in> insert a (store_addrs s)"
  proof cases
    case 1
    with bd show ?thesis by (auto simp: store_addrs_def)
  next
    case 2
    then have "b = a \<or> (i, b) \<in> set (owner_refs (r c) s)"
      using bd set_update_subset [of "task_id (hs_heap s a)" a "owner_refs (r c) s"] by auto
    then show ?thesis
      by (cases "map_of (hs_refs s) (r c)")
         (auto simp: owner_refs_def store_addrs_def dest: map_of_SomeD)
  qed
qed

subsection \<open>Callers\<close>

text \<open>
  A system is a heap with the set of addresses the callers hold. A caller creates an object,
  saves an object it holds through the adapter, gets one (which it then holds), or mutates an
  object it holds.
\<close>

inductive client_step ::
  "(call_context \<Rightarrow> string) \<Rightarrow> heap_store \<times> nat set \<Rightarrow> heap_store \<times> nat set \<Rightarrow> bool"
  for r :: "call_context \<Rightarrow> string" where
  create: "new_object t s = (s', a) \<Longrightarrow> client_step r (s, held) (s', insert a held)"
| save: "a \<in> held \<Longrightarrow> client_step r (s, held) (copying_save r a c s, held)"
| got: "copying_get r i c s = (s', Some a) \<Longrightarrow> client_step r (s, held) (s', insert a held)"
| missed: "copying_get r i c s = (s', None) \<Longrightarrow> client_step r (s, held) (s', held)"
| deleted: "client_step r (s, held) (copying_delete r i c s, held)"
| mutated: "a \<in> held \<Longrightarrow> client_step r (s, held) (mutate a t s, held)"

inductive_cases client_stepE: "client_step r (s, held) (s', held')"

inductive client_reachable ::
  "(call_context \<Rightarrow> string) \<Rightarrow> heap_store \<times> nat set \<Rightarrow> bool"
  for r :: "call_context \<Rightarrow> string" where
  start: "client_reachable r (hs_init, {})"
| step: "client_reachable r x \<Longrightarrow> client_step r x y \<Longrightarrow> client_reachable r y"

text \<open>No address is shared between the store and a caller.\<close>

definition isolated :: "heap_store \<times> nat set \<Rightarrow> bool" where
  "isolated x \<longleftrightarrow>
     store_addrs (fst x) \<inter> snd x = {} \<and> (\<forall>a \<in> store_addrs (fst x) \<union> snd x. a < hs_next (fst x))"

lemma store_addrs_new [simp]:
  "store_addrs (s\<lparr>hs_heap := h, hs_next := n\<rparr>) = store_addrs s"
  "store_addrs (s\<lparr>hs_heap := h\<rparr>) = store_addrs s"
  by (simp_all add: store_addrs_def)

lemma isolated_new:
  assumes "isolated (s, held)" "new_object t s = (s', a)"
  shows "isolated (s', insert a held)"
proof -
  have s': "s' = s\<lparr>hs_heap := (hs_heap s)(hs_next s := t), hs_next := Suc (hs_next s)\<rparr>" "a = hs_next s"
    using assms(2) by (auto simp: new_object_def)
  show ?thesis
    using assms(1) unfolding isolated_def s' by (auto simp: less_Suc_eq)
qed

lemma isolated_save:
  assumes iso: "isolated (s, held)"
  shows "isolated (copying_save r a c s, held)"
proof -
  obtain s' b where n: "new_object (hs_heap s a) s = (s', b)" by force
  then have s': "s' = s\<lparr>hs_heap := (hs_heap s)(hs_next s := hs_heap s a), hs_next := Suc (hs_next s)\<rparr>"
    "b = hs_next s"
    by (auto simp: new_object_def)
  have "hs_next (ref_save r b c s') = Suc (hs_next s)"
    by (simp add: ref_save_def Let_def s')
  moreover have "store_addrs (ref_save r b c s') \<subseteq> insert (hs_next s) (store_addrs s)"
    using store_addrs_ref_save [of r b c s'] by (simp add: s')
  ultimately show ?thesis
    using iso n unfolding isolated_def copying_save_def
    by (fastforce simp: less_Suc_eq)
qed

lemma client_step_isolated: "client_step r x y \<Longrightarrow> isolated x \<Longrightarrow> isolated y"
proof (induction rule: client_step.induct)
  case (create t s s' a held)
  then show ?case by (auto intro: isolated_new)
next
  case (save a held s c)
  then show ?case by (auto intro: isolated_save)
next
  case (got i c s s' a held)
  then show ?case
    by (auto simp: copying_get_def Let_def split: option.splits prod.splits intro: isolated_new)
next
  case (missed i c s s' held)
  then show ?case by (auto simp: copying_get_def split: option.splits prod.splits)
next
  case (deleted s held i c)
  have "hs_next (copying_delete r i c s) = hs_next s"
    by (simp add: copying_delete_def ref_delete_def Let_def)
  with deleted store_addrs_delete [of r i c s] show ?case by (auto simp: isolated_def)
next
  case (mutated a held s t)
  then show ?case by (simp add: isolated_def mutate_def)
qed

lemma reachable_isolated: "client_reachable r x \<Longrightarrow> isolated x"
proof (induction rule: client_reachable.induct)
  case start
  then show ?case by (simp add: isolated_def hs_init_def store_addrs_def)
next
  case (step x y)
  then show ?case by (blast intro: client_step_isolated)
qed

text \<open>
  The simulation: a save is the value store's save of the object's present value, a get
  returns an object with the value store's value, and every other step, mutations included,
  leaves the value store as it is.
\<close>

lemma copying_save_abs:
  assumes "isolated (s, held)"
  shows "hs_abs (copying_save r a c s) = ims_save r (hs_heap s a) c (hs_abs s)"
proof -
  obtain s' b where n: "new_object (hs_heap s a) s = (s', b)" by force
  have "hs_abs s' = hs_abs s"
    using assms by (intro hs_abs_new_object [OF _ n]) (auto simp: isolated_def)
  moreover have "hs_heap s' b = hs_heap s a"
    using n by (auto simp: new_object_def)
  ultimately show ?thesis
    using n by (simp add: copying_save_def ref_save_abs)
qed

lemma copying_get_abs:
  assumes "isolated (s, held)" "copying_get r i c s = (s', res)"
  shows "hs_abs s' = hs_abs s \<and> map_option (hs_heap s') res = ims_get r i c (hs_abs s)"
proof (cases "ref_get r i c s")
  case None
  with assms show ?thesis
    by (simp add: copying_get_def ims_get_def owner_refs_abs ref_get_def)
next
  case (Some b)
  obtain s1 b1 where n: "new_object (hs_heap s b) s = (s1, b1)" by force
  with Some assms(2) have s': "s' = s1" "res = Some b1" by (auto simp: copying_get_def)
  have "hs_abs s1 = hs_abs s"
    using assms(1) by (intro hs_abs_new_object [OF _ n]) (auto simp: isolated_def)
  moreover have "hs_heap s1 b1 = hs_heap s b" using n by (auto simp: new_object_def)
  ultimately show ?thesis
    using Some by (simp add: s' ims_get_def owner_refs_abs ref_get_def)
qed

lemma mutate_abs:
  assumes "isolated (s, held)" "a \<in> held"
  shows "hs_abs (mutate a t s) = hs_abs s"
  using assms unfolding mutate_def by (intro hs_abs_heap) (auto simp: isolated_def)

text \<open>
  Without the adapter the caller keeps the reference that the store holds, and mutating the
  object changes what the store returns, although nothing was saved.
\<close>

lemma ref_store_leaks:
  assumes "new_object t hs_init = (s1, a)" and "s2 = ref_save r a c s1"
  shows "map_option (hs_heap (mutate a u s2)) (ref_get r (task_id t) c (mutate a u s2)) = Some u"
  using assms
  by (auto simp: new_object_def ref_save_def Let_def ref_get_def owner_refs_def mutate_def hs_init_def)

end
