(* ===== verification/Event_Queue.thy ===== *)
theory Event_Queue
  imports A2A_Errors
begin

text \<open>
  The event queue of an active task (\<^verbatim>\<open>server/events/event_queue_v2.py\<close>): one source, whose
  dispatcher copies each event to every registered sink.

  \<^item> \<open>aqueue\<close> is the queue of the standard library: items, the number of items not yet confirmed
    by \<^verbatim>\<open>task_done\<close>, and the shutdown flag. A call that would wait is \<open>None\<close>.
  \<^item> A sink is an index into \<open>sr_objects\<close>, all the sinks ever made; \<open>sr_sinks\<close> lists those
    registered with the source.
  \<^item> The code holds a lock only where nothing is awaited, so each stretch between two awaits is one
    action. \<open>sr_dispatcher\<close> says where the dispatcher waits: for an event, or for the deliveries
    of one event (those not finished, and the evictions not finished). \<open>sr_removing\<close> are the sinks
    shut but not yet removed, \<open>sr_joining\<close> the graceful closes that wait for the incoming queue, and
    \<open>sr_to_close\<close> the sinks that a close of the source has still to close.
\<close>

subsection \<open>The queue of the standard library\<close>

record 'e aqueue =
  q_items :: "'e list"
  q_maxsize :: nat
  q_unfinished :: nat
  q_shut :: bool

definition create_async_queue :: "nat \<Rightarrow> 'e aqueue" where
  "create_async_queue maxsize =
     \<lparr>q_items = [], q_maxsize = maxsize, q_unfinished = 0, q_shut = False\<rparr>"

definition q_full :: "'e aqueue \<Rightarrow> bool" where
  "q_full q \<longleftrightarrow> 0 < q_maxsize q \<and> q_maxsize q \<le> length (q_items q)"

definition q_put :: "'e \<Rightarrow> 'e aqueue \<Rightarrow> (exn + 'e aqueue) option" where
  "q_put e q =
     (if q_shut q then Some (Inl QueueShutDown)
      else if q_full q then None
      else Some (Inr (q\<lparr>q_items := q_items q @ [e], q_unfinished := Suc (q_unfinished q)\<rparr>)))"

definition q_get :: "'e aqueue \<Rightarrow> (exn + 'e aqueue \<times> 'e) option" where
  "q_get q =
     (case q_items q of
        [] \<Rightarrow> if q_shut q then Some (Inl QueueShutDown) else None
      | e # es \<Rightarrow> Some (Inr (q\<lparr>q_items := es\<rparr>, e)))"

definition q_task_done :: "'e aqueue \<Rightarrow> exn + 'e aqueue" where
  "q_task_done q =
     (if q_unfinished q = 0 then Inl (ValueError ''task_done() called too many times'')
      else Inr (q\<lparr>q_unfinished := q_unfinished q - 1\<rparr>))"

text \<open>An immediate shutdown drops the items and counts them as finished.\<close>

definition q_shutdown :: "bool \<Rightarrow> 'e aqueue \<Rightarrow> 'e aqueue" where
  "q_shutdown immediate q =
     (if immediate
      then q\<lparr>q_shut := True, q_items := [], q_unfinished := q_unfinished q - length (q_items q)\<rparr>
      else q\<lparr>q_shut := True\<rparr>)"

subsection \<open>Sinks\<close>

record 'e sink =
  sk_queue :: "'e aqueue"
  sk_evict_on_full :: bool
  sk_is_closed :: bool

definition sk_init :: "int \<Rightarrow> bool \<Rightarrow> exn + 'e sink" where
  "sk_init max_queue_size evict =
     (if max_queue_size \<le> 0 then Inl (ValueError ''max_queue_size must be greater than 0'')
      else Inr \<lparr>sk_queue = create_async_queue (nat max_queue_size), sk_evict_on_full = evict,
                 sk_is_closed = False\<rparr>)"

text \<open>\<^verbatim>\<open>_put_internal\<close> suppresses the exception of a queue that is shut down.\<close>

definition sk_put_internal :: "'e \<Rightarrow> 'e sink \<Rightarrow> 'e sink option" where
  "sk_put_internal e k =
     (case q_put e (sk_queue k) of
        None \<Rightarrow> None
      | Some (Inl x) \<Rightarrow> Some k
      | Some (Inr q) \<Rightarrow> Some (k\<lparr>sk_queue := q\<rparr>))"

definition sk_enqueue_event :: "'e \<Rightarrow> 'e sink \<Rightarrow> exn + 'e sink" where
  "sk_enqueue_event e k = Inl (RuntimeError ''Cannot enqueue to a sink-only queue'')"

definition sk_dequeue_event :: "'e sink \<Rightarrow> (exn + 'e sink \<times> 'e) option" where
  "sk_dequeue_event k =
     (case q_get (sk_queue k) of
        None \<Rightarrow> None
      | Some (Inl x) \<Rightarrow> Some (Inl x)
      | Some (Inr (q, e)) \<Rightarrow> Some (Inr (k\<lparr>sk_queue := q\<rparr>, e)))"

definition sk_task_done :: "'e sink \<Rightarrow> exn + 'e sink" where
  "sk_task_done k = rbind (q_task_done (sk_queue k)) (\<lambda>q. Inr (k\<lparr>sk_queue := q\<rparr>))"

text \<open>The first part of \<^verbatim>\<open>close\<close>, up to the call of \<^verbatim>\<open>remove_sink\<close>.\<close>

definition sk_shut :: "bool \<Rightarrow> 'e sink \<Rightarrow> 'e sink" where
  "sk_shut immediate k = k\<lparr>sk_is_closed := True, sk_queue := q_shutdown immediate (sk_queue k)\<rparr>"

text \<open>Its last part, which a graceful close waits for.\<close>

definition sk_joined :: "'e sink \<Rightarrow> bool" where
  "sk_joined k \<longleftrightarrow> q_unfinished (sk_queue k) = 0"

subsection \<open>The source\<close>

datatype 'e dispatcher = Waiting | Delivering 'e "nat list" "nat list" | Stopped

record 'e source =
  sr_incoming :: "'e aqueue"
  sr_sinks :: "nat list"
  sr_is_closed :: bool
  sr_default_sink :: "nat option"
  sr_dispatcher :: "'e dispatcher"
  sr_objects :: "'e sink list"
  sr_removing :: "nat list"
  sr_joining :: "nat list list"
  sr_to_close :: "(nat \<times> bool) list"

definition sr_init :: "int \<Rightarrow> bool \<Rightarrow> exn + 'e source" where
  "sr_init max_queue_size create_default_sink =
     (if max_queue_size \<le> 0 then Inl (ValueError ''max_queue_size must be greater than 0'')
      else
        let s = \<lparr>sr_incoming = create_async_queue (nat max_queue_size), sr_sinks = [],
                 sr_is_closed = False, sr_default_sink = None, sr_dispatcher = Waiting,
                 sr_objects = [], sr_removing = [], sr_joining = [], sr_to_close = []\<rparr>
        in if create_default_sink
           then rbind (sk_init max_queue_size False) (\<lambda>k.
                  Inr (s\<lparr>sr_objects := [k], sr_sinks := [0], sr_default_sink := Some 0\<rparr>))
           else Inr s)"

definition sr_tap :: "int \<Rightarrow> bool \<Rightarrow> 'e source \<Rightarrow> exn + 'e source \<times> nat" where
  "sr_tap max_queue_size evict s =
     (if sr_is_closed s then Inl QueueShutDown
      else rbind (sk_init max_queue_size evict) (\<lambda>k.
        let i = length (sr_objects s)
        in Inr (s\<lparr>sr_objects := sr_objects s @ [k], sr_sinks := sr_sinks s @ [i]\<rparr>, i)))"

text \<open>An event put into a queue that is shut down is dropped: the flag says if it was taken.\<close>

definition sr_enqueue_event :: "'e \<Rightarrow> 'e source \<Rightarrow> ('e source \<times> bool) option" where
  "sr_enqueue_event e s =
     (case q_put e (sr_incoming s) of
        None \<Rightarrow> None
      | Some (Inl x) \<Rightarrow> Some (s, False)
      | Some (Inr q) \<Rightarrow> Some (s\<lparr>sr_incoming := q\<rparr>, True))"

definition set_sink :: "nat \<Rightarrow> 'e sink \<Rightarrow> 'e source \<Rightarrow> 'e source" where
  "set_sink i k s = s\<lparr>sr_objects := (sr_objects s)[i := k]\<rparr>"

text \<open>The two parts of a sink's \<^verbatim>\<open>close\<close> that change state.\<close>

definition sr_shut_sink :: "nat \<Rightarrow> bool \<Rightarrow> 'e source \<Rightarrow> 'e source" where
  "sr_shut_sink i immediate s =
     (set_sink i (sk_shut immediate (sr_objects s ! i)) s)\<lparr>sr_removing := sr_removing s @ [i]\<rparr>"

definition sr_remove_sink :: "nat \<Rightarrow> 'e source \<Rightarrow> 'e source" where
  "sr_remove_sink i s = s\<lparr>sr_sinks := removeAll i (sr_sinks s), sr_removing := remove1 i (sr_removing s),
     sr_dispatcher := (case sr_dispatcher s of
        Delivering e pending evicting \<Rightarrow> Delivering e pending (removeAll i evicting)
      | d \<Rightarrow> d)\<rparr>"

subsection \<open>The dispatcher\<close>

definition sr_dispatch_get :: "'e source \<Rightarrow> 'e source option" where
  "sr_dispatch_get s =
     (case sr_dispatcher s of
        Waiting \<Rightarrow>
          (case q_get (sr_incoming s) of
             None \<Rightarrow> None
           | Some (Inl x) \<Rightarrow> Some (s\<lparr>sr_dispatcher := Stopped\<rparr>)
           | Some (Inr (q, e)) \<Rightarrow>
               Some (s\<lparr>sr_incoming := q, sr_dispatcher := Delivering e (sr_sinks s) []\<rparr>))
      | _ \<Rightarrow> None)"

text \<open>One delivery: skipped when the sink is closed, an eviction, or a put that may wait.\<close>

definition sr_deliver_to_sink :: "nat \<Rightarrow> 'e source \<Rightarrow> 'e source option" where
  "sr_deliver_to_sink i s =
     (case sr_dispatcher s of
        Delivering e pending evicting \<Rightarrow>
          if i \<notin> set pending then None
          else
            let k = sr_objects s ! i
            in if sk_is_closed k
               then Some (s\<lparr>sr_dispatcher := Delivering e (removeAll i pending) evicting\<rparr>)
               else if sk_evict_on_full k \<and> q_full (sk_queue k)
               then Some ((sr_shut_sink i True s)\<lparr>sr_dispatcher :=
                      Delivering e (removeAll i pending) (evicting @ [i])\<rparr>)
               else (case sk_put_internal e k of
                       None \<Rightarrow> None
                     | Some k' \<Rightarrow> Some ((set_sink i k' s)\<lparr>sr_dispatcher :=
                         Delivering e (removeAll i pending) evicting\<rparr>))
      | _ \<Rightarrow> None)"

definition sr_dispatch_done :: "'e source \<Rightarrow> 'e source option" where
  "sr_dispatch_done s =
     (case sr_dispatcher s of
        Delivering e [] [] \<Rightarrow>
          (case q_task_done (sr_incoming s) of
             Inl x \<Rightarrow> Some (s\<lparr>sr_dispatcher := Stopped\<rparr>)
           | Inr q \<Rightarrow> Some (s\<lparr>sr_incoming := q, sr_dispatcher := Waiting\<rparr>))
      | _ \<Rightarrow> None)"

text \<open>The dispatcher is cancelled by others than \<^verbatim>\<open>close\<close>.\<close>

definition sr_dispatcher_cancelled :: "'e source \<Rightarrow> 'e source option" where
  "sr_dispatcher_cancelled s =
     (if sr_dispatcher s = Stopped then None
      else Some (s\<lparr>sr_is_closed := True, sr_dispatcher := Stopped,
             sr_to_close := sr_to_close s @ map (\<lambda>i. (i, True)) (sr_sinks s),
             sr_incoming := q_shutdown True (sr_incoming s)\<rparr>))"

subsection \<open>Closing the source\<close>

definition sr_close :: "bool \<Rightarrow> 'e source \<Rightarrow> 'e source" where
  "sr_close immediate s =
     (let s1 = s\<lparr>sr_is_closed := True, sr_incoming := q_shutdown immediate (sr_incoming s)\<rparr>
      in if immediate
         then s1\<lparr>sr_dispatcher := Stopped, sr_to_close := sr_to_close s @ map (\<lambda>i. (i, True)) (sr_sinks s)\<rparr>
         else s1\<lparr>sr_joining := sr_joining s @ [sr_sinks s]\<rparr>)"

text \<open>A graceful close goes on when the incoming queue is finished or the dispatcher has stopped.\<close>

definition sr_incoming_joined :: "'e source \<Rightarrow> bool" where
  "sr_incoming_joined s \<longleftrightarrow> q_unfinished (sr_incoming s) = 0 \<or> sr_dispatcher s = Stopped"

definition sr_close_joined :: "'e source \<Rightarrow> 'e source option" where
  "sr_close_joined s =
     (case sr_joining s of
        [] \<Rightarrow> None
      | ids # rest \<Rightarrow>
          if sr_incoming_joined s
          then Some (s\<lparr>sr_joining := rest, sr_dispatcher := Stopped,
                       sr_to_close := sr_to_close s @ map (\<lambda>i. (i, False)) ids\<rparr>)
          else None)"

definition sr_close_next :: "'e source \<Rightarrow> 'e source option" where
  "sr_close_next s =
     (case sr_to_close s of
        [] \<Rightarrow> None
      | (i, immediate) # rest \<Rightarrow> Some (sr_shut_sink i immediate (s\<lparr>sr_to_close := rest\<rparr>)))"

subsection \<open>Actions and runs\<close>

datatype 'e qaction =
    Enqueue 'e bool
  | Tap int bool nat
  | DispatchGet
  | Deliver nat
  | DispatchDone
  | CancelDispatcher
  | Dequeue nat 'e
  | TaskDone nat
  | CloseSink nat bool
  | RemoveSink nat
  | CloseSource bool
  | CloseJoined
  | CloseNext

text \<open>The state after an action, with the results in the action; \<open>None\<close> when it cannot happen.\<close>

fun sr_do :: "'e qaction \<Rightarrow> 'e source \<Rightarrow> 'e source option" where
  "sr_do (Enqueue e taken) s =
     (case sr_enqueue_event e s of Some (s', b) \<Rightarrow> if b = taken then Some s' else None | None \<Rightarrow> None)"
| "sr_do (Tap n evict i) s =
     (case sr_tap n evict s of Inr (s', j) \<Rightarrow> if i = j then Some s' else None | Inl x \<Rightarrow> None)"
| "sr_do DispatchGet s = sr_dispatch_get s"
| "sr_do (Deliver i) s = sr_deliver_to_sink i s"
| "sr_do DispatchDone s = sr_dispatch_done s"
| "sr_do CancelDispatcher s = sr_dispatcher_cancelled s"
| "sr_do (Dequeue i e) s =
     (if i < length (sr_objects s)
      then (case sk_dequeue_event (sr_objects s ! i) of
              Some (Inr (k, x)) \<Rightarrow> if x = e then Some (set_sink i k s) else None
            | _ \<Rightarrow> None)
      else None)"
| "sr_do (TaskDone i) s =
     (if i < length (sr_objects s)
      then (case sk_task_done (sr_objects s ! i) of Inr k \<Rightarrow> Some (set_sink i k s) | Inl x \<Rightarrow> None)
      else None)"
| "sr_do (CloseSink i immediate) s =
     (if i < length (sr_objects s) then Some (sr_shut_sink i immediate s) else None)"
| "sr_do (RemoveSink i) s = (if i \<in> set (sr_removing s) then Some (sr_remove_sink i s) else None)"
| "sr_do (CloseSource immediate) s = Some (sr_close immediate s)"
| "sr_do CloseJoined s = sr_close_joined s"
| "sr_do CloseNext s = sr_close_next s"

fun sr_run :: "'e qaction list \<Rightarrow> 'e source \<Rightarrow> 'e source option" where
  "sr_run [] s = Some s"
| "sr_run (x # xs) s = (case sr_do x s of Some s' \<Rightarrow> sr_run xs s' | None \<Rightarrow> None)"

subsection \<open>Well-formed sources\<close>

definition sr_dispatch_ok :: "'e source \<Rightarrow> bool" where
  "sr_dispatch_ok s \<longleftrightarrow>
     (case sr_dispatcher s of
        Waiting \<Rightarrow> q_unfinished (sr_incoming s) = length (q_items (sr_incoming s))
      | Delivering e p v \<Rightarrow> q_unfinished (sr_incoming s) = Suc (length (q_items (sr_incoming s))) \<and>
          set p \<subseteq> {..<length (sr_objects s)} \<and> set v \<subseteq> set (sr_removing s)
      | Stopped \<Rightarrow> q_items (sr_incoming s) = [] \<and> q_shut (sr_incoming s))"

definition sr_sinks_ok :: "'e source \<Rightarrow> bool" where
  "sr_sinks_ok s \<longleftrightarrow>
     set (sr_sinks s) \<subseteq> {..<length (sr_objects s)} \<and>
     (\<forall>i \<in> set (sr_removing s). i < length (sr_objects s) \<and> sk_is_closed (sr_objects s ! i)) \<and>
     (\<forall>i < length (sr_objects s). \<not> sk_is_closed (sr_objects s ! i) \<longrightarrow>
        i \<in> set (sr_sinks s) \<and> \<not> q_shut (sk_queue (sr_objects s ! i)))"

definition sr_close_ok :: "'e source \<Rightarrow> bool" where
  "sr_close_ok s \<longleftrightarrow>
     (\<forall>i b. (i, b) \<in> set (sr_to_close s) \<longrightarrow> i < length (sr_objects s)) \<and>
     (\<forall>ids \<in> set (sr_joining s). set ids \<subseteq> {..<length (sr_objects s)}) \<and>
     (sr_joining s \<noteq> [] \<longrightarrow> q_shut (sr_incoming s))"

definition sr_ok :: "'e source \<Rightarrow> bool" where
  "sr_ok s \<longleftrightarrow> sr_dispatch_ok s \<and> sr_sinks_ok s \<and> sr_close_ok s"

lemmas q_defs = create_async_queue_def q_full_def q_put_def q_get_def q_task_done_def q_shutdown_def

lemmas sk_defs = sk_init_def sk_put_internal_def sk_dequeue_event_def sk_task_done_def sk_shut_def

lemmas sr_defs = sr_tap_def sr_enqueue_event_def set_sink_def sr_shut_sink_def sr_remove_sink_def
  sr_dispatch_get_def sr_deliver_to_sink_def sr_dispatch_done_def sr_dispatcher_cancelled_def
  sr_close_def sr_incoming_joined_def sr_close_joined_def sr_close_next_def

lemma sr_init_ok: "sr_init n d = Inr s \<Longrightarrow> sr_ok s"
  by (auto simp: sr_init_def sk_init_def create_async_queue_def sr_ok_def sr_dispatch_ok_def
      sr_sinks_ok_def sr_close_ok_def Let_def split: if_splits)

lemma sinks_ok_update [simp]:
  "sr_sinks_ok (s\<lparr>sr_incoming := q\<rparr>) = sr_sinks_ok s"
  "sr_sinks_ok (s\<lparr>sr_dispatcher := d\<rparr>) = sr_sinks_ok s"
  "sr_sinks_ok (s\<lparr>sr_joining := js\<rparr>) = sr_sinks_ok s"
  "sr_sinks_ok (s\<lparr>sr_to_close := cs\<rparr>) = sr_sinks_ok s"
  "sr_sinks_ok (s\<lparr>sr_is_closed := b\<rparr>) = sr_sinks_ok s"
  by (simp_all add: sr_sinks_ok_def)

lemma close_ok_update [simp]:
  "sr_close_ok (s\<lparr>sr_dispatcher := d\<rparr>) = sr_close_ok s"
  "sr_close_ok (s\<lparr>sr_removing := js\<rparr>) = sr_close_ok s"
  "sr_close_ok (s\<lparr>sr_sinks := cs\<rparr>) = sr_close_ok s"
  "sr_close_ok (s\<lparr>sr_is_closed := b\<rparr>) = sr_close_ok s"
  by (simp_all add: sr_close_ok_def)

lemma close_ok_incoming:
  "sr_close_ok s \<Longrightarrow> q_shut (sr_incoming s) \<longrightarrow> q_shut q \<Longrightarrow> sr_close_ok (s\<lparr>sr_incoming := q\<rparr>)"
  by (auto simp: sr_close_ok_def)

lemma close_ok_set_sink [simp]: "sr_close_ok (set_sink i k s) = sr_close_ok s"
  by (simp add: sr_close_ok_def set_sink_def)

lemma dispatch_ok_update [simp]:
  "sr_dispatch_ok (s\<lparr>sr_is_closed := b\<rparr>) = sr_dispatch_ok s"
  "sr_dispatch_ok (s\<lparr>sr_sinks := xs\<rparr>) = sr_dispatch_ok s"
  "sr_dispatch_ok (s\<lparr>sr_joining := js\<rparr>) = sr_dispatch_ok s"
  "sr_dispatch_ok (s\<lparr>sr_to_close := cs\<rparr>) = sr_dispatch_ok s"
  by (simp_all add: sr_dispatch_ok_def split: dispatcher.split)

lemma dispatch_ok_set_sink [simp]: "sr_dispatch_ok (set_sink i k s) = sr_dispatch_ok s"
  by (simp add: sr_dispatch_ok_def set_sink_def split: dispatcher.split)

lemma set_sink_fields [simp]:
  "sr_dispatcher (set_sink i k s) = sr_dispatcher s" "sr_incoming (set_sink i k s) = sr_incoming s"
  "length (sr_objects (set_sink i k s)) = length (sr_objects s)" "sr_sinks (set_sink i k s) = sr_sinks s"
  "sr_removing (set_sink i k s) = sr_removing s" "sr_joining (set_sink i k s) = sr_joining s"
  "sr_to_close (set_sink i k s) = sr_to_close s" "sr_is_closed (set_sink i k s) = sr_is_closed s"
  "sr_objects (set_sink i k s) = (sr_objects s)[i := k]"
  by (simp_all add: set_sink_def)

lemma sinks_ok_set_sink:
  assumes "sr_sinks_ok s" "sk_is_closed k = sk_is_closed (sr_objects s ! i)"
    and "q_shut (sk_queue k) = q_shut (sk_queue (sr_objects s ! i))"
  shows "sr_sinks_ok (set_sink i k s)"
proof (cases "i < length (sr_objects s)")
  case True
  with assms show ?thesis by (auto simp: sr_sinks_ok_def set_sink_def nth_list_update)
next
  case False
  then have "set_sink i k s = s" by (simp add: set_sink_def not_less list_update_beyond)
  with assms show ?thesis by simp
qed

lemma sr_shut_sink_parts:
  assumes "i < length (sr_objects s)"
  shows "sr_sinks_ok s \<Longrightarrow> sr_sinks_ok (sr_shut_sink i b s)"
    and "sr_close_ok (sr_shut_sink i b s) = sr_close_ok s"
    and "sr_dispatch_ok s \<Longrightarrow> sr_dispatch_ok (sr_shut_sink i b s)"
    and "sr_dispatcher (sr_shut_sink i b s) = sr_dispatcher s"
    and "sr_incoming (sr_shut_sink i b s) = sr_incoming s"
    and "length (sr_objects (sr_shut_sink i b s)) = length (sr_objects s)"
    and "sr_removing (sr_shut_sink i b s) = sr_removing s @ [i]"
  using assms
  by (auto simp: sr_sinks_ok_def sr_close_ok_def sr_dispatch_ok_def sr_shut_sink_def
      set_sink_def sk_shut_def nth_list_update split: dispatcher.splits)

lemma sr_shut_sink_ok: "sr_ok s \<Longrightarrow> i < length (sr_objects s) \<Longrightarrow> sr_ok (sr_shut_sink i b s)"
  by (simp add: sr_ok_def sr_shut_sink_parts)

lemma set_sink_ok:
  assumes "sr_ok s" "sk_is_closed k = sk_is_closed (sr_objects s ! i)"
    and "q_shut (sk_queue k) = q_shut (sk_queue (sr_objects s ! i))"
  shows "sr_ok (set_sink i k s)"
  using assms by (simp add: sr_ok_def sinks_ok_set_sink)

lemma enqueue_ok:
  assumes "sr_ok s" "sr_enqueue_event e s = Some (s', b)"
  shows "sr_ok s'"
proof (cases b)
  case False
  with assms show ?thesis by (auto simp: sr_enqueue_event_def q_put_def split: if_splits)
next
  case True
  with assms have sh: "\<not> q_shut (sr_incoming s)" and
    s': "s' = s\<lparr>sr_incoming := (sr_incoming s)\<lparr>q_items := q_items (sr_incoming s) @ [e],
      q_unfinished := Suc (q_unfinished (sr_incoming s))\<rparr>\<rparr>"
    by (auto simp: sr_enqueue_event_def q_put_def split: if_splits)
  have "sr_dispatch_ok s'"
    using assms(1) sh by (auto simp: sr_ok_def sr_dispatch_ok_def s' split: dispatcher.split)
  with assms(1) s' sh show ?thesis by (simp add: sr_ok_def close_ok_incoming)
qed

lemma tap_ok:
  assumes "sr_ok s" "sr_tap n ev s = Inr (s', i)"
  shows "sr_ok s'"
proof -
  from assms(2) have s': "s' = s\<lparr>sr_objects := sr_objects s @
      [\<lparr>sk_queue = create_async_queue (nat n), sk_evict_on_full = ev, sk_is_closed = False\<rparr>],
      sr_sinks := sr_sinks s @ [length (sr_objects s)]\<rparr>"
    by (auto simp: sr_tap_def sk_init_def Let_def split: if_splits)
  have "sr_dispatch_ok s'"
    using assms(1) by (fastforce simp: sr_ok_def sr_dispatch_ok_def s' split: dispatcher.split)
  moreover have "sr_close_ok s'"
    using assms(1) by (fastforce simp: sr_ok_def sr_close_ok_def s')
  moreover have "sr_sinks_ok s'"
    using assms(1)
    by (fastforce simp: sr_ok_def sr_sinks_ok_def s' nth_append less_Suc_eq create_async_queue_def)
  ultimately show ?thesis by (simp add: sr_ok_def)
qed

lemma dispatch_get_ok:
  assumes "sr_ok s" "sr_dispatch_get s = Some s'"
  shows "sr_ok s'"
proof -
  from assms(2) have W: "sr_dispatcher s = Waiting"
    by (auto simp: sr_dispatch_get_def split: dispatcher.splits)
  show ?thesis
  proof (cases "q_items (sr_incoming s)")
    case Nil
    with assms W show ?thesis
      by (auto simp: sr_ok_def sr_dispatch_ok_def sr_dispatch_get_def q_get_def split: if_splits)
  next
    case (Cons e es)
    with assms(2) W have s': "s' = s\<lparr>sr_incoming := (sr_incoming s)\<lparr>q_items := es\<rparr>,
        sr_dispatcher := Delivering e (sr_sinks s) []\<rparr>"
      by (auto simp: sr_dispatch_get_def q_get_def)
    with assms(1) W Cons show ?thesis
      by (auto simp: sr_ok_def sr_dispatch_ok_def sr_sinks_ok_def close_ok_incoming)
  qed
qed

lemma deliver_cases:
  assumes "sr_deliver_to_sink i s = Some s'"
  obtains e p v where "sr_dispatcher s = Delivering e p v" "i \<in> set p"
    "sk_is_closed (sr_objects s ! i)" "s' = s\<lparr>sr_dispatcher := Delivering e (removeAll i p) v\<rparr>"
  | e p v where "sr_dispatcher s = Delivering e p v" "i \<in> set p"
    "\<not> sk_is_closed (sr_objects s ! i)" "sk_evict_on_full (sr_objects s ! i)"
    "q_full (sk_queue (sr_objects s ! i))"
    "s' = (sr_shut_sink i True s)\<lparr>sr_dispatcher := Delivering e (removeAll i p) (v @ [i])\<rparr>"
  | e p v k where "sr_dispatcher s = Delivering e p v" "i \<in> set p"
    "\<not> sk_is_closed (sr_objects s ! i)" "sk_put_internal e (sr_objects s ! i) = Some k"
    "s' = (set_sink i k s)\<lparr>sr_dispatcher := Delivering e (removeAll i p) v\<rparr>"
  using assms
  by (auto simp: sr_deliver_to_sink_def Let_def split: dispatcher.splits if_splits option.splits)

lemma put_internal_fields:
  assumes "sk_put_internal e k = Some k'"
  shows "sk_is_closed k' = sk_is_closed k" "q_shut (sk_queue k') = q_shut (sk_queue k)"
    "sk_evict_on_full k' = sk_evict_on_full k"
    "q_items (sk_queue k') = q_items (sk_queue k) @ (if q_shut (sk_queue k) then [] else [e])"
  using assms by (auto simp: sk_put_internal_def q_put_def split: if_splits)

lemma deliver_ok:
  assumes "sr_ok s" "sr_deliver_to_sink i s = Some s'"
  shows "sr_ok s'"
  using assms(2)
proof (cases rule: deliver_cases)
  case (1 e p v)
  with assms(1) show ?thesis by (auto simp: sr_ok_def sr_dispatch_ok_def)
next
  case (2 e p v)
  then have i: "i < length (sr_objects s)" using assms(1) by (auto simp: sr_ok_def sr_dispatch_ok_def)
  from 2 assms(1) show ?thesis
    by (auto simp: sr_ok_def sr_shut_sink_parts [OF i] sr_dispatch_ok_def)
next
  case (3 e p v k)
  with assms(1) show ?thesis
    using put_internal_fields [OF 3(4)]
    by (auto simp: sr_ok_def sr_dispatch_ok_def sinks_ok_set_sink)
qed

lemma dispatch_done_ok:
  assumes "sr_ok s" "sr_dispatch_done s = Some s'"
  shows "sr_ok s'"
proof -
  from assms(2) obtain e where D: "sr_dispatcher s = Delivering e [] []"
    by (auto simp: sr_dispatch_done_def split: dispatcher.splits list.splits)
  with assms have "s' = s\<lparr>sr_incoming := (sr_incoming s)\<lparr>q_unfinished := length (q_items (sr_incoming s))\<rparr>,
      sr_dispatcher := Waiting\<rparr>"
    by (auto simp: sr_dispatch_done_def q_task_done_def sr_ok_def sr_dispatch_ok_def)
  with assms(1) D show ?thesis by (auto simp: sr_ok_def sr_dispatch_ok_def close_ok_incoming)
qed

lemma sinks_below: "sr_sinks_ok s \<Longrightarrow> i \<in> set (sr_sinks s) \<Longrightarrow> i < length (sr_objects s)"
  by (auto simp: sr_sinks_ok_def)

lemma close_ok_add:
  assumes "sr_ok s"
  shows "sr_close_ok (s\<lparr>sr_to_close := sr_to_close s @ map (\<lambda>i. (i, b)) (sr_sinks s)\<rparr>)"
    and "q_shut (sr_incoming s) \<Longrightarrow> sr_close_ok (s\<lparr>sr_joining := sr_joining s @ [sr_sinks s]\<rparr>)"
  using assms sinks_below by (auto simp: sr_ok_def sr_close_ok_def)

lemma q_shutdown_shut [simp]: "q_shut (q_shutdown b q)"
  by (simp add: q_shutdown_def)

lemma cancelled_ok:
  assumes "sr_ok s" "sr_dispatcher_cancelled s = Some s'"
  shows "sr_ok s'"
proof -
  from assms(2) have s': "s' = ((s\<lparr>sr_to_close := sr_to_close s @ map (\<lambda>i. (i, True)) (sr_sinks s)\<rparr>)
      \<lparr>sr_is_closed := True, sr_dispatcher := Stopped\<rparr>)\<lparr>sr_incoming := q_shutdown True (sr_incoming s)\<rparr>"
    by (auto simp: sr_dispatcher_cancelled_def split: if_splits)
  have "sr_close_ok s'"
    unfolding s' using assms(1) close_ok_add by (intro close_ok_incoming) auto
  moreover have "sr_sinks_ok s'" using assms(1) by (simp add: s' sr_ok_def)
  moreover have "sr_dispatch_ok s'" by (simp add: s' sr_dispatch_ok_def q_shutdown_def)
  ultimately show ?thesis by (simp add: sr_ok_def)
qed

lemma shutdown_incoming_ok:
  assumes "sr_ok s"
  shows "sr_ok (s\<lparr>sr_incoming := q_shutdown b (sr_incoming s)\<rparr>)"
proof -
  have "sr_dispatch_ok (s\<lparr>sr_incoming := q_shutdown b (sr_incoming s)\<rparr>)"
    using assms by (auto simp: sr_ok_def sr_dispatch_ok_def q_shutdown_def split: dispatcher.splits)
  with assms show ?thesis by (simp add: sr_ok_def close_ok_incoming)
qed

lemma close_ok: 
  assumes "sr_ok s"
  shows "sr_ok (sr_close b s)"
proof (cases b)
  case True
  let ?t = "(s\<lparr>sr_to_close := sr_to_close s @ map (\<lambda>i. (i, True)) (sr_sinks s)\<rparr>)
      \<lparr>sr_is_closed := True, sr_dispatcher := Stopped\<rparr>"
  have t: "sr_close True s = ?t\<lparr>sr_incoming := q_shutdown True (sr_incoming s)\<rparr>"
    by (simp add: sr_close_def)
  have "sr_close_ok (sr_close True s)"
    unfolding t using assms close_ok_add by (intro close_ok_incoming) auto
  with True assms show ?thesis
    by (simp add: sr_ok_def t) (simp add: sr_dispatch_ok_def q_shutdown_def)
next
  case False
  let ?t = "s\<lparr>sr_incoming := q_shutdown False (sr_incoming s)\<rparr>"
  have ok: "sr_ok ?t" using shutdown_incoming_ok [OF assms] .
  have t: "sr_close False s = (?t\<lparr>sr_joining := sr_joining ?t @ [sr_sinks ?t]\<rparr>)\<lparr>sr_is_closed := True\<rparr>"
    by (simp add: sr_close_def)
  have "sr_close_ok (?t\<lparr>sr_joining := sr_joining ?t @ [sr_sinks ?t]\<rparr>)"
    using close_ok_add(2) [OF ok] by simp
  with ok show ?thesis
    using False by (simp add: t sr_ok_def)
qed

text \<open>After a finished join nothing is left in the incoming queue.\<close>

lemma joined_empty:
  assumes "sr_ok s" "sr_incoming_joined s"
  shows "q_items (sr_incoming s) = []" "sr_dispatcher s \<noteq> Delivering e p v"
  using assms by (auto simp: sr_ok_def sr_dispatch_ok_def sr_incoming_joined_def split: dispatcher.splits)

lemma close_joined_cases:
  assumes "sr_close_joined s = Some s'"
  obtains ids rest where "sr_joining s = ids # rest" "sr_incoming_joined s"
    "s' = s\<lparr>sr_joining := rest, sr_dispatcher := Stopped,
       sr_to_close := sr_to_close s @ map (\<lambda>i. (i, False)) ids\<rparr>"
  using assms by (auto simp: sr_close_joined_def split: list.splits if_splits)

lemma close_joined_ok:
  assumes "sr_ok s" "sr_close_joined s = Some s'"
  shows "sr_ok s'"
  using assms(2)
proof (cases rule: close_joined_cases)
  case (1 ids rest)
  have "sr_close_ok s'" "sr_sinks_ok s'"
    using assms(1) 1 by (auto simp: sr_ok_def sr_close_ok_def)
  moreover have "sr_dispatch_ok s'"
    using assms(1) 1 joined_empty [OF assms(1) 1(2)]
    by (auto simp: sr_ok_def sr_dispatch_ok_def sr_close_ok_def)
  ultimately show ?thesis by (simp add: sr_ok_def)
qed

lemma remove_sink_ok:
  assumes "sr_ok s" "i \<in> set (sr_removing s)"
  shows "sr_ok (sr_remove_sink i s)"
proof -
  have "sr_sinks_ok (sr_remove_sink i s)"
    using assms by (auto simp: sr_ok_def sr_sinks_ok_def sr_remove_sink_def dest: notin_set_remove1)
  moreover have "sr_dispatch_ok (sr_remove_sink i s)"
    using assms
    by (auto simp: sr_ok_def sr_dispatch_ok_def sr_remove_sink_def split: dispatcher.splits)
      (metis in_set_remove1 subsetD)
  moreover have "sr_close_ok (sr_remove_sink i s)"
    using assms by (simp add: sr_ok_def sr_close_ok_def sr_remove_sink_def)
  ultimately show ?thesis by (simp add: sr_ok_def)
qed

lemma sr_do_ok:
  assumes "sr_ok s" "sr_do x s = Some s'"
  shows "sr_ok s'"
proof (cases x)
  case (Enqueue e b)
  with assms show ?thesis using enqueue_ok by (auto split: option.splits if_splits)
next
  case (Tap n ev i)
  with assms show ?thesis using tap_ok by (auto split: sum.splits if_splits)
next
  case (Dequeue i e)
  with assms show ?thesis
    by (auto simp: sk_dequeue_event_def q_get_def split: if_splits list.splits intro!: set_sink_ok)
next
  case (TaskDone i)
  with assms show ?thesis
    by (auto simp: sk_task_done_def q_task_done_def split: if_splits intro!: set_sink_ok)
next
  case (CloseSink i b)
  with assms show ?thesis by (auto split: if_splits intro!: sr_shut_sink_ok)
next
  case (CloseNext)
  have "sr_ok (s\<lparr>sr_to_close := rest\<rparr>)" if "sr_to_close s = c # rest" for c rest
    using assms(1) that by (auto simp: sr_ok_def sr_close_ok_def)
  moreover have "i < length (sr_objects s)" if "sr_to_close s = (i, b) # rest" for i b rest
    using assms(1) that by (auto simp: sr_ok_def sr_close_ok_def)
  ultimately show ?thesis
    using assms CloseNext by (auto simp: sr_close_next_def split: list.splits intro!: sr_shut_sink_ok)
next
  case (RemoveSink i)
  with assms show ?thesis by (auto intro: remove_sink_ok split: if_splits)
qed (use assms dispatch_get_ok deliver_ok dispatch_done_ok cancelled_ok close_ok close_joined_ok in auto)

lemma sr_run_ok: "sr_ok s \<Longrightarrow> sr_run xs s = Some s' \<Longrightarrow> sr_ok s'"
  by (induction xs arbitrary: s) (auto split: option.splits dest: sr_do_ok)

lemma sr_run_append: "sr_run (xs @ ys) s = Option.bind (sr_run xs s) (sr_run ys)"
  by (induction xs arbitrary: s) (auto split: option.split)

subsection \<open>What a sink delivers\<close>

text \<open>The events that an action puts into the source, and that it takes from sink \<open>i\<close>.\<close>

fun taken_event :: "'e qaction \<Rightarrow> 'e list" where
  "taken_event (Enqueue e taken) = (if taken then [e] else [])"
| "taken_event _ = []"

fun got_event :: "nat \<Rightarrow> 'e qaction \<Rightarrow> 'e list" where
  "got_event i (Dequeue j e) = (if i = j then [e] else [])"
| "got_event i _ = []"

fun immediate_stop :: "'e qaction \<Rightarrow> bool" where
  "immediate_stop CancelDispatcher = True"
| "immediate_stop (CloseSource immediate) = immediate"
| "immediate_stop _ = False"

definition taken_events :: "'e qaction list \<Rightarrow> 'e list" where
  "taken_events xs = concat (map taken_event xs)"

definition got_events :: "nat \<Rightarrow> 'e qaction list \<Rightarrow> 'e list" where
  "got_events i xs = concat (map (got_event i) xs)"

definition sr_open :: "nat \<Rightarrow> 'e source \<Rightarrow> bool" where
  "sr_open i s \<longleftrightarrow> \<not> sk_is_closed (sr_objects s ! i)"

definition sink_items :: "nat \<Rightarrow> 'e source \<Rightarrow> 'e list" where
  "sink_items i s = q_items (sk_queue (sr_objects s ! i))"

definition in_flight :: "nat \<Rightarrow> 'e source \<Rightarrow> 'e list" where
  "in_flight i s =
     (case sr_dispatcher s of Delivering e p v \<Rightarrow> if i \<in> set p then [e] else [] | _ \<Rightarrow> [])"

text \<open>What sink \<open>i\<close> has to deliver: its queue, the event under delivery, the incoming queue.\<close>

definition sr_stream :: "nat \<Rightarrow> 'e source \<Rightarrow> 'e list" where
  "sr_stream i s = sink_items i s @ in_flight i s @ q_items (sr_incoming s)"

lemmas stream_defs = sr_stream_def sink_items_def in_flight_def sr_open_def

lemma nth_upd: "j < length xs \<Longrightarrow> xs[i := k] ! j = (if i = j then k else xs ! j)"
  by auto

lemma objects_grow: "sr_do x s = Some s' \<Longrightarrow> length (sr_objects s) \<le> length (sr_objects s')"
  by (cases x)
    (auto simp: sr_defs Let_def sk_defs q_defs
      split: if_splits option.splits sum.splits list.splits dispatcher.splits)

text \<open>A closed sink stays closed, and a stopped dispatcher stays stopped.\<close>

lemma closed_stays:
  assumes "sr_do x s = Some s'" "i < length (sr_objects s)" "sr_open i s'"
  shows "sr_open i s"
  using assms
  by (cases x)
    (auto simp: sr_open_def sr_defs Let_def sk_defs q_defs nth_upd nth_append
      split: if_splits option.splits sum.splits list.splits dispatcher.splits)

lemma stopped_stays:
  assumes "sr_do x s = Some s'" "sr_dispatcher s = Stopped"
  shows "sr_dispatcher s' = Stopped"
  using assms
  by (cases x)
    (auto simp: sr_defs Let_def split: if_splits option.splits sum.splits list.splits)

text \<open>Unless it is stopped at once, the source hands an open sink what is put into it, in order.\<close>

lemma stream_step:
  assumes ok: "sr_ok s" and x: "sr_do x s = Some s'" and i: "i < length (sr_objects s)"
    and op: "sr_open i s'" and go: "\<not> immediate_stop x"
  shows "got_event i x @ sr_stream i s' = sr_stream i s @ taken_event x"
proof (cases x)
  case (Enqueue e b)
  with x show ?thesis
    by (auto simp: stream_defs sr_enqueue_event_def q_put_def split: if_splits option.splits)
next
  case (Tap n ev j)
  with x i show ?thesis
    by (auto simp: stream_defs sr_tap_def Let_def nth_append split: if_splits sum.splits dispatcher.splits)
next
  case DispatchGet
  have "i \<in> set (sr_sinks s)"
    using ok i op closed_stays [OF x i op] by (auto simp: sr_ok_def sr_sinks_ok_def sr_open_def)
  with x DispatchGet show ?thesis
    by (auto simp: stream_defs sr_dispatch_get_def q_get_def split: if_splits list.splits dispatcher.splits)
next
  case (Deliver j)
  with x have "sr_deliver_to_sink j s = Some s'" by simp
  then show ?thesis
  proof (cases rule: deliver_cases)
    case (1 e p v)
    with op show ?thesis by (auto simp: stream_defs Deliver)
  next
    case (2 e p v)
    with op i show ?thesis by (auto simp: stream_defs Deliver sr_shut_sink_def set_sink_def nth_upd sk_shut_def)
  next
    case (3 e p v k)
    from ok i closed_stays [OF x i op] have sh: "\<not> q_shut (sk_queue (sr_objects s ! i))"
      by (auto simp: sr_ok_def sr_sinks_ok_def sr_open_def)
    from 3 op i show ?thesis
      using put_internal_fields [OF 3(4)] sh by (auto simp: stream_defs Deliver nth_upd)
  qed
next
  case DispatchDone
  with x show ?thesis
    by (auto simp: stream_defs sr_dispatch_done_def q_task_done_def
        split: if_splits list.splits dispatcher.splits)
next
  case (Dequeue j e)
  with x i show ?thesis
    by (auto simp: stream_defs sk_dequeue_event_def q_get_def nth_upd split: if_splits list.splits)
next
  case (TaskDone j)
  with x i show ?thesis
    by (auto simp: stream_defs sk_task_done_def q_task_done_def nth_upd split: if_splits)
next
  case (CloseSink j b)
  with x i op show ?thesis
    by (auto simp: stream_defs sr_shut_sink_def set_sink_def sk_shut_def nth_upd split: if_splits)
next
  case (RemoveSink j)
  with x i show ?thesis
    by (auto simp: stream_defs sr_remove_sink_def split: if_splits dispatcher.splits)
next
  case (CloseSource b)
  with x go show ?thesis
    by (auto simp: stream_defs sr_close_def Let_def q_shutdown_def)
next
  case CloseJoined
  with x have "sr_close_joined s = Some s'" by simp
  then show ?thesis
  proof (cases rule: close_joined_cases)
    case (1 ids rest)
    with joined_empty [OF ok 1(2)] show ?thesis
      by (auto simp: stream_defs CloseJoined split: dispatcher.splits)
  qed
next
  case CloseNext
  with x i op show ?thesis
    by (auto simp: stream_defs sr_close_next_def sr_shut_sink_def set_sink_def sk_shut_def nth_upd
        split: if_splits list.splits)
qed (use go in auto)

text \<open>A sink that is closed, or whose dispatcher has stopped, gets no more events.\<close>

lemma items_step:
  assumes "sr_do x s = Some s'" "i < length (sr_objects s)"
    and "\<not> sr_open i s' \<or> sr_dispatcher s' = Stopped"
  shows "\<exists>r. got_event i x @ sink_items i s' @ r = sink_items i s"
proof (cases x)
  case (Deliver j)
  with assms(1) have "sr_deliver_to_sink j s = Some s'" by simp
  then show ?thesis
  proof (cases rule: deliver_cases)
    case (2 e p v)
    with assms(2) show ?thesis
      by (auto simp: sink_items_def Deliver sr_shut_sink_def set_sink_def nth_upd sk_shut_def q_shutdown_def)
  next
    case (3 e p v k)
    with assms(2,3) show ?thesis
      using put_internal_fields [OF 3(4)] by (auto simp: sink_items_def sr_open_def Deliver nth_upd)
  qed (auto simp: sink_items_def Deliver)
qed (use assms(1,2) in \<open>auto simp: sink_items_def sr_defs Let_def sk_defs q_defs nth_upd nth_append
      split: if_splits option.splits sum.splits list.splits dispatcher.splits\<close>)

lemma run_stream:
  assumes "sr_ok s" "sr_run xs s = Some s'" "i < length (sr_objects s)" "sr_open i s'"
    and "\<forall>x \<in> set xs. \<not> immediate_stop x"
  shows "got_events i xs @ sr_stream i s' = sr_stream i s @ taken_events xs \<and> sr_open i s"
  using assms
proof (induction xs arbitrary: s)
  case Nil
  then show ?case by (simp add: got_events_def taken_events_def)
next
  case (Cons x xs)
  then obtain s1 where x: "sr_do x s = Some s1" and xs: "sr_run xs s1 = Some s'"
    by (auto split: option.splits)
  have i: "i < length (sr_objects s1)" using objects_grow [OF x] Cons.prems(3) by simp
  have IH: "got_events i xs @ sr_stream i s' = sr_stream i s1 @ taken_events xs" "sr_open i s1"
    using Cons.IH [OF sr_do_ok [OF Cons.prems(1) x] xs i Cons.prems(4)] Cons.prems(5) by auto
  with stream_step [OF Cons.prems(1) x Cons.prems(3) IH(2)] Cons.prems(5)
  have "got_event i x @ sr_stream i s1 = sr_stream i s @ taken_event x" by simp
  with IH closed_stays [OF x Cons.prems(3) IH(2)] show ?case
    by (simp add: got_events_def taken_events_def)
qed

text \<open>Whatever happens, what a sink delivers is a prefix of what it was promised.\<close>

definition promised :: "nat \<Rightarrow> 'e list \<Rightarrow> 'e list \<Rightarrow> 'e source \<Rightarrow> bool" where
  "promised i got all s \<longleftrightarrow>
     (\<exists>rest. got @ sink_items i s @ rest = all \<and>
        (sr_open i s \<and> sr_dispatcher s \<noteq> Stopped \<longrightarrow> rest = in_flight i s @ q_items (sr_incoming s)))"

lemma promised_step:
  assumes ok: "sr_ok s" and x: "sr_do x s = Some s'" and i: "i < length (sr_objects s)"
    and K: "promised i got all s"
  shows "promised i (got @ got_event i x) (all @ taken_event x) s'"
proof (cases "sr_open i s' \<and> sr_dispatcher s' \<noteq> Stopped")
  case True
  then have go: "\<not> immediate_stop x"
    using x by (cases x) (auto simp: sr_dispatcher_cancelled_def sr_close_def Let_def split: if_splits)
  have "sr_open i s" "sr_dispatcher s \<noteq> Stopped"
    using True closed_stays [OF x i] stopped_stays [OF x] by auto
  with K have "all = got @ sr_stream i s" by (auto simp: promised_def sr_stream_def)
  with stream_step [OF ok x i _ go] True have "got @ got_event i x @ sr_stream i s' = all @ taken_event x"
    by simp
  then show ?thesis by (auto simp: promised_def sr_stream_def)
next
  case False
  with items_step [OF x i] obtain r where r: "got_event i x @ sink_items i s' @ r = sink_items i s" by auto
  from K obtain rest where "got @ sink_items i s @ rest = all" by (auto simp: promised_def)
  with r have "(got @ got_event i x) @ sink_items i s' @ (r @ rest @ taken_event x) = all @ taken_event x"
    by (metis append.assoc)
  with False show ?thesis by (auto simp: promised_def)
qed

lemma run_promised:
  assumes "sr_ok s" "sr_run xs s = Some s'" "i < length (sr_objects s)" "promised i got all s"
  shows "promised i (got @ got_events i xs) (all @ taken_events xs) s'"
  using assms
proof (induction xs arbitrary: s got all)
  case Nil
  then show ?case by (simp add: got_events_def taken_events_def)
next
  case (Cons x xs)
  then obtain s1 where x: "sr_do x s = Some s1" and xs: "sr_run xs s1 = Some s'"
    by (auto split: option.splits)
  have i: "i < length (sr_objects s1)" using objects_grow [OF x] Cons.prems(3) by simp
  from Cons.IH [OF sr_do_ok [OF Cons.prems(1) x] xs i promised_step [OF Cons.prems(1) x Cons.prems(3,4)]]
  show ?case by (simp add: got_events_def taken_events_def)
qed

text \<open>A new sink is promised what is still in the incoming queue.\<close>

lemma tap_stream:
  assumes "sr_ok s" "sr_tap n ev s = Inr (s', i)"
  shows "i < length (sr_objects s')" "sr_stream i s' = q_items (sr_incoming s)" "sr_open i s'"
    "promised i [] (q_items (sr_incoming s)) s'"
proof -
  have s': "i = length (sr_objects s)" "s' = s\<lparr>sr_objects := sr_objects s @
      [\<lparr>sk_queue = create_async_queue (nat n), sk_evict_on_full = ev, sk_is_closed = False\<rparr>],
      sr_sinks := sr_sinks s @ [i]\<rparr>"
    using assms(2) by (auto simp: sr_tap_def sk_init_def Let_def split: if_splits)
  have fl: "in_flight i s' = []"
    using assms(1) by (auto simp: s' in_flight_def sr_ok_def sr_dispatch_ok_def split: dispatcher.split)
  show "i < length (sr_objects s')" "sr_open i s'" by (simp_all add: s' sr_open_def)
  show "sr_stream i s' = q_items (sr_incoming s)"
    using fl by (simp add: sr_stream_def) (simp add: s' sink_items_def create_async_queue_def)
  then show "promised i [] (q_items (sr_incoming s)) s'"
    unfolding promised_def sr_stream_def
    by (intro exI [of _ "in_flight i s' @ q_items (sr_incoming s')"]) simp
qed

lemma promised_prefix: "promised i got all s \<Longrightarrow> \<exists>rest. got @ rest = all"
  by (auto simp: promised_def)

subsection \<open>The dispatcher does not wait for an observer\<close>

fun dispatcher_action :: "'e qaction \<Rightarrow> bool" where
  "dispatcher_action DispatchGet = True"
| "dispatcher_action (Deliver i) = True"
| "dispatcher_action DispatchDone = True"
| "dispatcher_action (RemoveSink i) = True"
| "dispatcher_action _ = False"

text \<open>A sink that cannot hold up a delivery.\<close>

definition unblocked :: "nat \<Rightarrow> 'e source \<Rightarrow> bool" where
  "unblocked i s \<longleftrightarrow> sk_is_closed (sr_objects s ! i) \<or> sk_evict_on_full (sr_objects s ! i) \<or>
     \<not> q_full (sk_queue (sr_objects s ! i))"

lemma deliver_waits:
  assumes "sr_dispatcher s = Delivering e p v" "i \<in> set p"
    and "\<not> q_shut (sk_queue (sr_objects s ! i)) \<or> sk_is_closed (sr_objects s ! i)"
  shows "sr_deliver_to_sink i s = None \<longleftrightarrow> \<not> unblocked i s"
  using assms
  by (auto simp: sr_deliver_to_sink_def unblocked_def Let_def sk_put_internal_def q_put_def)

lemma deliver_one:
  assumes ok: "sr_ok s" and D: "sr_dispatcher s = Delivering e p v" and i: "i \<in> set p"
    and un: "\<forall>j \<in> set p. unblocked j s"
  shows "\<exists>s' v'. sr_deliver_to_sink i s = Some s' \<and>
    sr_dispatcher s' = Delivering e (removeAll i p) v' \<and> sr_incoming s' = sr_incoming s \<and>
    (\<forall>j \<in> set (removeAll i p). unblocked j s')"
proof -
  have len: "i < length (sr_objects s)" using ok D i by (auto simp: sr_ok_def sr_dispatch_ok_def)
  then have "sr_deliver_to_sink i s \<noteq> None"
    using deliver_waits [OF D i] ok un i by (auto simp: sr_ok_def sr_sinks_ok_def)
  then obtain s' where s': "sr_deliver_to_sink i s = Some s'" by auto
  then show ?thesis
  proof (cases rule: deliver_cases)
    case (1 e' p' v')
    with D s' un show ?thesis by (auto simp: unblocked_def)
  next
    case (2 e' p' v')
    with D s' un show ?thesis by (auto simp: unblocked_def sr_shut_sink_def set_sink_def)
  next
    case (3 e' p' v' k)
    with D s' un show ?thesis by (auto simp: unblocked_def set_sink_def)
  qed
qed

lemma deliver_all:
  assumes "sr_ok s" "sr_dispatcher s = Delivering e p v" "\<forall>j \<in> set p. unblocked j s"
  shows "\<exists>xs s' v'. sr_run xs s = Some s' \<and> sr_dispatcher s' = Delivering e [] v' \<and>
    sr_incoming s' = sr_incoming s \<and> list_all dispatcher_action xs"
  using assms
proof (induction "length p" arbitrary: s p v rule: less_induct)
  case less
  show ?case
  proof (cases p)
    case Nil
    with less.prems show ?thesis by (intro exI [of _ "[]"]) auto
  next
    case (Cons i q)
    then have i: "i \<in> set p" by simp
    from deliver_one [OF less.prems(1,2) i less.prems(3)] obtain s1 v1
      where s1: "sr_deliver_to_sink i s = Some s1" "sr_dispatcher s1 = Delivering e (removeAll i p) v1"
        "sr_incoming s1 = sr_incoming s" "\<forall>j \<in> set (removeAll i p). unblocked j s1" by blast
    have "sr_ok s1" using sr_do_ok [of s "Deliver i" s1] less.prems(1) s1(1) by simp
    from less.hyps [OF length_removeAll_less [OF i] this s1(2,4)] obtain xs s' v'
      where "sr_run xs s1 = Some s'" "sr_dispatcher s' = Delivering e [] v'"
        "sr_incoming s' = sr_incoming s1" "list_all dispatcher_action xs" by blast
    with s1 show ?thesis by (intro exI [of _ "Deliver i # xs"]) auto
  qed
qed

lemma remove_evicted:
  assumes "sr_ok s" "sr_dispatcher s = Delivering e [] v"
  shows "\<exists>xs s'. sr_run xs s = Some s' \<and> sr_dispatcher s' = Delivering e [] [] \<and>
    sr_incoming s' = sr_incoming s \<and> list_all dispatcher_action xs"
  using assms
proof (induction "length v" arbitrary: s v rule: less_induct)
  case less
  show ?case
  proof (cases v)
    case Nil
    with less.prems show ?thesis by (intro exI [of _ "[]"]) auto
  next
    case (Cons i w)
    let ?s = "sr_remove_sink i s"
    have r: "sr_do (RemoveSink i) s = Some ?s"
      using less.prems Cons by (auto simp: sr_ok_def sr_dispatch_ok_def)
    have D: "sr_dispatcher ?s = Delivering e [] (removeAll i v)" "sr_incoming ?s = sr_incoming s"
      using less.prems by (simp_all add: sr_remove_sink_def)
    have "i \<in> set v" using Cons by simp
    from less.hyps [OF length_removeAll_less [OF this] sr_do_ok [OF less.prems(1) r] D(1)] obtain xs s'
      where "sr_run xs ?s = Some s'" "sr_dispatcher s' = Delivering e [] []"
        "sr_incoming s' = sr_incoming ?s" "list_all dispatcher_action xs" by blast
    with r D show ?thesis by (intro exI [of _ "RemoveSink i # xs"]) auto
  qed
qed

text \<open>The dispatcher comes back for the next event by its own actions.\<close>

lemma finish_deliveries:
  assumes ok: "sr_ok s" and D: "sr_dispatcher s = Delivering e p v" and un: "\<forall>j \<in> set p. unblocked j s"
  shows "\<exists>xs s' n. sr_run xs s = Some s' \<and> sr_dispatcher s' = Waiting \<and>
    sr_incoming s' = (sr_incoming s)\<lparr>q_unfinished := n\<rparr> \<and> list_all dispatcher_action xs"
proof -
  from deliver_all [OF assms] obtain xs s1 v1 where
    1: "sr_run xs s = Some s1" "sr_dispatcher s1 = Delivering e [] v1" "sr_incoming s1 = sr_incoming s"
    "list_all dispatcher_action xs" by blast
  from remove_evicted [OF sr_run_ok [OF ok 1(1)] 1(2)] obtain ys s2 where
    2: "sr_run ys s1 = Some s2" "sr_dispatcher s2 = Delivering e [] []" "sr_incoming s2 = sr_incoming s1"
    "list_all dispatcher_action ys" by blast
  have "sr_ok s2" using sr_run_ok [OF sr_run_ok [OF ok 1(1)] 2(1)] .
  with 2 have "sr_dispatch_done s2 = Some (s2\<lparr>sr_incoming :=
      (sr_incoming s2)\<lparr>q_unfinished := q_unfinished (sr_incoming s2) - 1\<rparr>, sr_dispatcher := Waiting\<rparr>)"
    by (simp add: sr_dispatch_done_def q_task_done_def sr_ok_def sr_dispatch_ok_def)
  with 1 2 show ?thesis
    by (intro exI [of _ "xs @ ys @ [DispatchDone]"]) (auto simp: sr_run_append)
qed

text \<open>No queue grows beyond its size.\<close>

definition q_bounded :: "'e aqueue \<Rightarrow> bool" where
  "q_bounded q \<longleftrightarrow> 0 < q_maxsize q \<and> length (q_items q) \<le> q_maxsize q"

definition sr_bounded :: "'e source \<Rightarrow> bool" where
  "sr_bounded s \<longleftrightarrow> q_bounded (sr_incoming s) \<and> list_all (\<lambda>k. q_bounded (sk_queue k)) (sr_objects s)"

lemma sr_init_bounded: "sr_init n d = Inr s \<Longrightarrow> sr_bounded s"
  by (auto simp: sr_init_def sk_init_def create_async_queue_def sr_bounded_def q_bounded_def Let_def
      split: if_splits)

lemma list_all_upd: "list_all P xs \<Longrightarrow> (i < length xs \<Longrightarrow> P k) \<Longrightarrow> list_all P (xs[i := k])"
  by (cases "i < length xs") (auto simp: list_all_length nth_list_update)

lemma list_all_nth: "list_all P xs \<Longrightarrow> i < length xs \<Longrightarrow> P (xs ! i)"
  by (simp add: list_all_length)

lemma set_sink_bounded:
  assumes "sr_bounded s" "i < length (sr_objects s) \<Longrightarrow> q_bounded (sk_queue (sr_objects s ! i)) \<Longrightarrow> q_bounded (sk_queue k)"
  shows "sr_bounded (set_sink i k s)"
  using assms by (auto simp: sr_bounded_def set_sink_def intro!: list_all_upd dest: list_all_nth)

lemma sr_shut_sink_bounded: "sr_bounded s \<Longrightarrow> sr_bounded (sr_shut_sink i b s)"
  using set_sink_bounded [of s i "sk_shut b (sr_objects s ! i)"]
  by (simp add: sr_bounded_def sr_shut_sink_def sk_shut_def q_shutdown_def q_bounded_def)

lemma sr_do_bounded:
  assumes "sr_bounded s" "sr_do x s = Some s'"
  shows "sr_bounded s'"
proof (cases x)
  case (Deliver j)
  with assms(2) have "sr_deliver_to_sink j s = Some s'" by simp
  then show ?thesis
  proof (cases rule: deliver_cases)
    case (2 e p v)
    have "sr_bounded (sr_shut_sink j True s)" using sr_shut_sink_bounded [OF assms(1)] .
    with 2 show ?thesis by (simp add: sr_bounded_def)
  next
    case (3 e p v k)
    have "sr_bounded (set_sink j k s)"
      using 3(4) by (intro set_sink_bounded [OF assms(1)])
        (auto simp: q_bounded_def sk_put_internal_def q_put_def q_full_def split: if_splits)
    with 3 show ?thesis by (simp add: sr_bounded_def)
  qed (use assms(1) in \<open>simp add: sr_bounded_def\<close>)
next
  case (Dequeue i e)
  with assms show ?thesis
    by (auto simp: sk_dequeue_event_def q_get_def q_bounded_def split: if_splits list.splits
        intro!: set_sink_bounded)
next
  case (TaskDone i)
  with assms show ?thesis
    by (auto simp: sk_task_done_def q_task_done_def q_bounded_def split: if_splits
        intro!: set_sink_bounded)
next
  case (CloseSink i b)
  with assms show ?thesis by (auto intro: sr_shut_sink_bounded split: if_splits)
next
  case CloseNext
  have "sr_bounded (s\<lparr>sr_to_close := rest\<rparr>)" for rest using assms(1) by (simp add: sr_bounded_def)
  with assms CloseNext show ?thesis
    by (auto simp: sr_close_next_def intro: sr_shut_sink_bounded split: list.splits)
qed (use assms in \<open>auto simp: sr_bounded_def q_bounded_def sr_enqueue_event_def sr_tap_def sk_init_def
      create_async_queue_def q_put_def q_full_def q_get_def q_task_done_def q_shutdown_def Let_def
      sr_dispatch_get_def sr_dispatch_done_def sr_dispatcher_cancelled_def sr_remove_sink_def
      sr_close_def sr_close_joined_def
      split: if_splits option.splits sum.splits list.splits dispatcher.splits\<close>)

lemma sr_run_bounded: "sr_bounded s \<Longrightarrow> sr_run xs s = Some s' \<Longrightarrow> sr_bounded s'"
  by (induction xs arbitrary: s) (auto split: option.splits dest: sr_do_bounded)

text \<open>
  A producer that waits for room gets it without any consumer taking an event, unless a delivery
  is to a full sink that is not evicted.
\<close>

lemma get_makes_room:
  assumes W: "sr_dispatcher s = Waiting" and full: "q_full (sr_incoming s)" "\<not> q_shut (sr_incoming s)"
    and L: "q_bounded (sr_incoming s)"
  shows "\<exists>s1 s2. sr_dispatch_get s = Some s1 \<and> sr_enqueue_event x s1 = Some (s2, True)"
  using assms
  by (cases "q_items (sr_incoming s)")
    (auto simp: sr_dispatch_get_def q_get_def q_full_def q_bounded_def sr_enqueue_event_def q_put_def)

lemma producer_recovers:
  assumes ok: "sr_ok s" and bd: "sr_bounded s" and block: "sr_enqueue_event x s = None"
    and un: "\<And>e p v j. sr_dispatcher s = Delivering e p v \<Longrightarrow> j \<in> set p \<Longrightarrow> unblocked j s"
  shows "\<exists>xs s' s''. sr_run xs s = Some s' \<and> list_all dispatcher_action xs \<and>
    sr_enqueue_event x s' = Some (s'', True)"
proof -
  from block have full: "q_full (sr_incoming s)" "\<not> q_shut (sr_incoming s)"
    by (auto simp: sr_enqueue_event_def q_put_def split: if_splits)
  have "\<exists>ys s1 n. sr_run ys s = Some s1 \<and> sr_dispatcher s1 = Waiting \<and>
    sr_incoming s1 = (sr_incoming s)\<lparr>q_unfinished := n\<rparr> \<and> list_all dispatcher_action ys"
  proof (cases "sr_dispatcher s")
    case Waiting
    then show ?thesis by (intro exI [of _ "[]"] exI [of _ s] exI [of _ "q_unfinished (sr_incoming s)"]) simp
  next
    case (Delivering e p v)
    then show ?thesis using finish_deliveries [OF ok Delivering] un by blast
  next
    case Stopped
    with ok full show ?thesis by (simp add: sr_ok_def sr_dispatch_ok_def)
  qed
  then obtain ys s1 n where 1: "sr_run ys s = Some s1" "sr_dispatcher s1 = Waiting"
    "sr_incoming s1 = (sr_incoming s)\<lparr>q_unfinished := n\<rparr>" "list_all dispatcher_action ys" by blast
  have "q_full (sr_incoming s1)" "\<not> q_shut (sr_incoming s1)" "q_bounded (sr_incoming s1)"
    using full bd by (simp_all add: 1(3) q_full_def q_bounded_def sr_bounded_def)
  from get_makes_room [OF 1(2) this] obtain s2 s3
    where "sr_dispatch_get s1 = Some s2" "sr_enqueue_event x s2 = Some (s3, True)" by blast
  with 1 show ?thesis
    by (intro exI [of _ "ys @ [DispatchGet]"]) (auto simp: sr_run_append)
qed

text \<open>After a graceful close nothing is left to dispatch.\<close>

lemma joined_stream:
  assumes "sr_ok s" "sr_dispatcher s = Stopped"
  shows "sr_stream i s = sink_items i s"
  using assms by (auto simp: sr_stream_def in_flight_def sr_ok_def sr_dispatch_ok_def)

text \<open>A closed source takes no event.\<close>

lemma shut_stays:
  assumes "q_shut (sr_incoming s)" "sr_do x s = Some s'"
  shows "q_shut (sr_incoming s') \<and> taken_event x = []"
  using assms
  by (cases x)
    (auto simp: sr_defs Let_def q_defs
      split: if_splits option.splits sum.splits list.splits dispatcher.splits)

lemma run_shut:
  "q_shut (sr_incoming s) \<Longrightarrow> sr_run xs s = Some s' \<Longrightarrow> taken_events xs = []"
proof (induction xs arbitrary: s)
  case Nil
  then show ?case by (simp add: taken_events_def)
next
  case (Cons x xs)
  then obtain s1 where x: "sr_do x s = Some s1" and xs: "sr_run xs s1 = Some s'"
    by (auto split: option.splits)
  from shut_stays [OF Cons.prems(1) x] Cons.IH [OF _ xs] show ?case by (simp add: taken_events_def)
qed

text \<open>A consumer can take what is in the queue of its sink.\<close>

lemma dequeue_all:
  assumes "i < length (sr_objects s)"
  shows "\<exists>s'. sr_run (map (Dequeue i) (sink_items i s)) s = Some s'"
  using assms
proof (induction "sink_items i s" arbitrary: s)
  case Nil
  then show ?case by (metis list.simps(8) sr_run.simps(1))
next
  case (Cons e es)
  let ?k = "(sr_objects s ! i)\<lparr>sk_queue := (sk_queue (sr_objects s ! i))\<lparr>q_items := es\<rparr>\<rparr>"
  have d: "sr_do (Dequeue i e) s = Some (set_sink i ?k s)"
    using Cons.hyps(2) Cons.prems
    by (auto simp: sink_items_def sk_dequeue_event_def q_get_def split: list.splits)
  have "es = sink_items i (set_sink i ?k s)"
    using Cons.prems by (simp add: sink_items_def)
  from Cons.hyps(1) [OF this] Cons.prems this d Cons.hyps(2) [symmetric] show ?case by simp
qed

lemma sr_init_maxsize: "sr_init n d = Inr s \<Longrightarrow> q_maxsize (sr_incoming s) = nat n \<and> 0 < n"
  by (auto simp: sr_init_def sk_init_def create_async_queue_def Let_def split: if_splits)

lemma sr_do_maxsize: "sr_do x s = Some s' \<Longrightarrow> q_maxsize (sr_incoming s') = q_maxsize (sr_incoming s)"
  by (cases x)
    (auto simp: sr_defs Let_def sk_defs q_defs
      split: if_splits option.splits sum.splits list.splits dispatcher.splits)

lemma sr_run_maxsize: "sr_run xs s = Some s' \<Longrightarrow> q_maxsize (sr_incoming s') = q_maxsize (sr_incoming s)"
  by (induction xs arbitrary: s) (auto split: option.splits dest: sr_do_maxsize)

lemma run_objects_grow: "sr_run xs s = Some s' \<Longrightarrow> length (sr_objects s) \<le> length (sr_objects s')"
proof (induction xs arbitrary: s)
  case (Cons x xs)
  then obtain s1 where "sr_do x s = Some s1" "sr_run xs s1 = Some s'" by (auto split: option.splits)
  with Cons.IH objects_grow show ?case by (meson le_trans)
qed simp

lemma delivery_waits:
  assumes "sr_ok s" "sr_dispatcher s = Delivering e p v" "j \<in> set p"
  shows "sr_deliver_to_sink j s = None \<longleftrightarrow> \<not> unblocked j s"
  using assms by (intro deliver_waits) (auto simp: sr_ok_def sr_dispatch_ok_def sr_sinks_ok_def)

lemma graceful_close_run:
  assumes "sr_run (ys @ CloseSource False # zs @ [CloseJoined]) s = Some s'"
  shows "sr_dispatcher s' = Stopped \<and> taken_events zs = []"
proof -
  from assms obtain s1 s2 where 1: "sr_run zs (sr_close False s1) = Some s2" "sr_close_joined s2 = Some s'"
    by (auto simp: sr_run_append bind_eq_Some_conv split: option.splits)
  have "q_shut (sr_incoming (sr_close False s1))" by (simp add: sr_close_def q_shutdown_def)
  from run_shut [OF this 1(1)] 1(2) show ?thesis by (auto elim: close_joined_cases)
qed

end
