(* ===== verification/Database_Store.thy ===== *)
theory Database_Store
  imports Task_List Push_Store
begin

text \<open>
  The stores on a SQL database (\<^verbatim>\<open>server/models.py\<close>, \<^verbatim>\<open>server/tasks/database_task_store.py\<close>,
  \<^verbatim>\<open>server/tasks/database_push_notification_config_store.py\<close>).

  A table is the list of its rows. The statements the code builds are written out: \<^verbatim>\<open>where\<close> is a
  filter, \<^verbatim>\<open>merge\<close> replaces the row with the same primary key or adds one, \<^verbatim>\<open>order_by\<close> sorts, and a
  comparison with NULL selects nothing. Texts are compared by code points. The conversions of
  protobuf between messages, JSON columns and datetimes are the fields of \<open>orm_codec\<close>; \<open>codec_ok\<close>
  states what their documentation says of them.
\<close>

subsection \<open>Rows\<close>

record 'j task_row =
  tr_id :: string
  tr_context_id :: string
  tr_kind :: string
  tr_owner :: string
  tr_last_updated :: "int option"
  tr_status :: 'j
  tr_artifacts :: "'j list option"
  tr_history :: "'j list option"
  tr_metadata :: "'j option"
  tr_protocol_version :: "string option"

text \<open>
  \<^verbatim>\<open>MessageToDict\<close> and \<^verbatim>\<open>ParseDict\<close> for each kind of column, the truth value of a column, the JSON
  path \<^verbatim>\<open>['state']\<close>, and \<^verbatim>\<open>Timestamp.ToDatetime\<close>, a number of microseconds.
\<close>

record 'j orm_codec =
  oc_status :: "task_status \<Rightarrow> 'j"
  oc_to_status :: "'j \<Rightarrow> task_status"
  oc_artifact :: "artifact \<Rightarrow> 'j"
  oc_to_artifact :: "'j \<Rightarrow> artifact"
  oc_message :: "message \<Rightarrow> 'j"
  oc_to_message :: "'j \<Rightarrow> message"
  oc_struct :: "struct \<Rightarrow> 'j"
  oc_to_struct :: "'j \<Rightarrow> struct"
  oc_truthy :: "'j \<Rightarrow> bool"
  oc_state :: "'j \<Rightarrow> string option"
  oc_to_datetime :: "timestamp \<Rightarrow> int"

fun task_state_name :: "task_state \<Rightarrow> string" where
  "task_state_name TASK_STATE_UNSPECIFIED = ''TASK_STATE_UNSPECIFIED''"
| "task_state_name TASK_STATE_SUBMITTED = ''TASK_STATE_SUBMITTED''"
| "task_state_name TASK_STATE_WORKING = ''TASK_STATE_WORKING''"
| "task_state_name TASK_STATE_COMPLETED = ''TASK_STATE_COMPLETED''"
| "task_state_name TASK_STATE_FAILED = ''TASK_STATE_FAILED''"
| "task_state_name TASK_STATE_CANCELED = ''TASK_STATE_CANCELED''"
| "task_state_name TASK_STATE_INPUT_REQUIRED = ''TASK_STATE_INPUT_REQUIRED''"
| "task_state_name TASK_STATE_REJECTED = ''TASK_STATE_REJECTED''"
| "task_state_name TASK_STATE_AUTH_REQUIRED = ''TASK_STATE_AUTH_REQUIRED''"

lemma task_state_name_inj [simp]: "task_state_name a = task_state_name b \<longleftrightarrow> a = b"
  by (cases a; cases b) simp_all

text \<open>
  Parsing inverts printing; a default field is left out, so that an empty message gives an empty,
  false column and the default state is absent; the other states are printed by name.
\<close>

definition codec_ok :: "'j orm_codec \<Rightarrow> bool" where
  "codec_ok k \<longleftrightarrow>
     (\<forall>x. oc_to_status k (oc_status k x) = x) \<and> (\<forall>x. oc_to_artifact k (oc_artifact k x) = x) \<and>
     (\<forall>x. oc_to_message k (oc_message k x) = x) \<and> (\<forall>x. oc_to_struct k (oc_struct k x) = x) \<and>
     (\<forall>x. oc_truthy k (oc_status k x) \<longleftrightarrow> x \<noteq> empty_status) \<and>
     (\<forall>x. oc_truthy k (oc_struct k x) \<longleftrightarrow> x \<noteq> []) \<and>
     (\<forall>x. oc_state k (oc_status k x) =
        (if status_state x = TASK_STATE_UNSPECIFIED then None else Some (task_state_name (status_state x))))"

subsection \<open>The task store\<close>

record 'j task_db =
  td_resolver :: "call_context \<Rightarrow> string"
  td_codec :: "'j orm_codec"
  td_core_to_model :: "(task \<Rightarrow> string \<Rightarrow> 'j task_row) option"
  td_model_to_core :: "('j task_row \<Rightarrow> task) option"
  td_legacy_to_core :: "'j task_row \<Rightarrow> task"

definition metadata_fields :: "struct option \<Rightarrow> struct" where
  "metadata_fields m = (case m of None \<Rightarrow> [] | Some s \<Rightarrow> s)"

definition task_to_orm :: "'j task_db \<Rightarrow> task \<Rightarrow> string \<Rightarrow> 'j task_row" where
  "task_to_orm db t ow =
     (case td_core_to_model db of
        Some f \<Rightarrow> f t ow
      | None \<Rightarrow>
          \<lparr>tr_id = task_id t, tr_context_id = task_context_id t, tr_kind = ''task'', tr_owner = ow,
           tr_last_updated = map_option (oc_to_datetime (td_codec db)) (status_timestamp (task_status_of t)),
           tr_status = oc_status (td_codec db) (task_status_of t),
           tr_artifacts = Some (map (oc_artifact (td_codec db)) (task_artifacts t)),
           tr_history = Some (map (oc_message (td_codec db)) (task_history t)),
           tr_metadata = (if metadata_fields (task_metadata t) \<noteq> []
              then Some (oc_struct (td_codec db) (metadata_fields (task_metadata t))) else None),
           tr_protocol_version = Some ''1.0''\<rparr>)"

definition task_from_orm :: "'j task_db \<Rightarrow> 'j task_row \<Rightarrow> task" where
  "task_from_orm db row =
     (case td_model_to_core db of
        Some f \<Rightarrow> f row
      | None \<Rightarrow>
          if tr_protocol_version row = Some ''1.0'' then
            \<lparr>task_id = tr_id row, task_context_id = tr_context_id row,
             task_status = (if oc_truthy (td_codec db) (tr_status row)
                then Some (oc_to_status (td_codec db) (tr_status row)) else None),
             task_artifacts = map (oc_to_artifact (td_codec db)) (list_or_nil (tr_artifacts row)),
             task_history = map (oc_to_message (td_codec db)) (list_or_nil (tr_history row)),
             task_metadata = (case tr_metadata row of
                None \<Rightarrow> None
              | Some m \<Rightarrow> if oc_truthy (td_codec db) m
                         then Some (struct_update (oc_to_struct (td_codec db) m) []) else None)\<rparr>
          else td_legacy_to_core db row)"

text \<open>\<^verbatim>\<open>session.merge\<close>; the only column of the primary key is the id.\<close>

definition task_merge :: "'j task_row \<Rightarrow> 'j task_row list \<Rightarrow> 'j task_row list" where
  "task_merge row rows =
     (if list_ex (\<lambda>x. tr_id x = tr_id row) rows
      then map (\<lambda>x. if tr_id x = tr_id row then row else x) rows
      else rows @ [row])"

fun scalar_one_or_none :: "'a list \<Rightarrow> exn + 'a option" where
  "scalar_one_or_none [] = Inr None"
| "scalar_one_or_none [x] = Inr (Some x)"
| "scalar_one_or_none _ = Inl (RuntimeError ''Multiple rows were found when one or none was required'')"

definition db_save :: "'j task_db \<Rightarrow> task \<Rightarrow> call_context \<Rightarrow> 'j task_row list \<Rightarrow> 'j task_row list" where
  "db_save db t c rows = task_merge (task_to_orm db t (td_resolver db c)) rows"

definition db_get :: "'j task_db \<Rightarrow> string \<Rightarrow> call_context \<Rightarrow> 'j task_row list \<Rightarrow> exn + task option" where
  "db_get db i c rows =
     rbind (scalar_one_or_none (filter (\<lambda>x. tr_id x = i \<and> tr_owner x = td_resolver db c) rows))
       (\<lambda>m. Inr (map_option (task_from_orm db) m))"

definition db_delete :: "'j task_db \<Rightarrow> string \<Rightarrow> call_context \<Rightarrow> 'j task_row list \<Rightarrow> 'j task_row list" where
  "db_delete db i c rows = filter (\<lambda>x. \<not> (tr_id x = i \<and> tr_owner x = td_resolver db c)) rows"

subsection \<open>Listing\<close>

definition db_filter :: "'j task_db \<Rightarrow> list_tasks_request \<Rightarrow> call_context \<Rightarrow> 'j task_row list \<Rightarrow> 'j task_row list" where
  "db_filter db req c rows =
     (let base = filter (\<lambda>x. tr_owner x = td_resolver db c) rows;
          ts1 = (if lr_context_id req \<noteq> []
                 then filter (\<lambda>x. tr_context_id x = lr_context_id req) base else base);
          ts2 = (if lr_status req \<noteq> TASK_STATE_UNSPECIFIED
                 then filter (\<lambda>x. oc_state (td_codec db) (tr_status x) = Some (task_state_name (lr_status req))) ts1
                 else ts1)
      in (case lr_status_timestamp_after req of
            None \<Rightarrow> ts2
          | Some a \<Rightarrow> filter (\<lambda>x. case tr_last_updated x of None \<Rightarrow> False
                                 | Some u \<Rightarrow> oc_to_datetime (td_codec db) a \<le> u) ts2))"

text \<open>
  The order of the listing: rows without a time last, then later times first, then greater ids
  first. Read from the end it is the ascending order of the key below.
\<close>

definition row_key :: "'j task_row \<Rightarrow> bool \<times> int \<times> string" where
  "row_key x = (tr_last_updated x \<noteq> None, (case tr_last_updated x of None \<Rightarrow> 0 | Some u \<Rightarrow> u), tr_id x)"

definition db_order :: "'j task_row list \<Rightarrow> 'j task_row list" where
  "db_order rows = rev (sort_key row_key rows)"

text \<open>The condition on the rows of a page that starts at a given row.\<close>

definition page_where :: "ustr \<Rightarrow> 'j task_row \<Rightarrow> 'j task_row \<Rightarrow> bool" where
  "page_where start_id start x =
     (case tr_last_updated start of
        Some u \<Rightarrow>
          (tr_last_updated x = Some u \<and> to_ustr (tr_id x) \<le> start_id) \<or>
          (case tr_last_updated x of None \<Rightarrow> False | Some v \<Rightarrow> v < u) \<or>
          tr_last_updated x = None
      | None \<Rightarrow> tr_last_updated x = None \<and> to_ustr (tr_id x) \<le> start_id)"

definition db_page_rows ::
  "'j task_db \<Rightarrow> list_tasks_request \<Rightarrow> call_context \<Rightarrow> 'j task_row list \<Rightarrow> exn + 'j task_row list" where
  "db_page_rows db req c rows =
     (if lr_page_token req = [] then Inr (db_order (db_filter db req c rows))
      else rbind (decode_page_token (lr_page_token req)) (\<lambda>start_id.
        rbind (scalar_one_or_none
            (filter (\<lambda>x. to_ustr (tr_id x) = start_id \<and> tr_owner x = td_resolver db c) rows)) (\<lambda>m.
          case m of
            None \<Rightarrow> Inl (A2A (err_msg InvalidParamsError (''Invalid page token: '' @ lr_page_token req)))
          | Some start \<Rightarrow> Inr (filter (page_where start_id start) (db_order (db_filter db req c rows))))))"

text \<open>\<^verbatim>\<open>limit\<close> is modelled for page sizes of at least -1, which the request handler ensures.\<close>

definition db_list ::
  "'j task_db \<Rightarrow> list_tasks_request \<Rightarrow> call_context \<Rightarrow> 'j task_row list \<Rightarrow> exn + list_tasks_response" where
  "db_list db req c rows =
     (let total_count = length (db_filter db req c rows)
      in rbind (db_page_rows db req c rows) (\<lambda>page_rows.
        let page_size = page_size_of req;
            tasks = map (task_from_orm db) (take (nat (page_size + 1)) page_rows)
        in rbind (if int (length tasks) = page_size + 1
                  then rbind (py_index tasks (-1)) (\<lambda>t. Inr (encode_page_token (task_id t)))
                  else Inr [])
             (\<lambda>next. Inr \<lparr>lresp_tasks = py_slice tasks 0 page_size, lresp_next_page_token = next,
                           lresp_page_size = page_size, lresp_total_size = int total_count\<rparr>)))"

subsection \<open>The task store and the in-memory store\<close>

text \<open>What a task is after it has gone through a row: a default status and empty metadata are unset.\<close>

definition orm_normal :: "task \<Rightarrow> task" where
  "orm_normal t = t\<lparr>task_status := (if task_status_of t = empty_status then None else Some (task_status_of t)),
     task_metadata := (if metadata_fields (task_metadata t) = [] then None
        else Some (struct_update (metadata_fields (task_metadata t)) []))\<rparr>"

definition db_plain :: "'j task_db \<Rightarrow> bool" where
  "db_plain db \<longleftrightarrow> td_core_to_model db = None \<and> td_model_to_core db = None \<and> codec_ok (td_codec db)"

lemma from_to_orm: "db_plain db \<Longrightarrow> task_from_orm db (task_to_orm db t ow) = orm_normal t"
  by (simp add: db_plain_def task_from_orm_def task_to_orm_def orm_normal_def codec_ok_def comp_def)

lemma orm_normal_id [simp]: "task_id (orm_normal t) = task_id t"
  by (simp add: orm_normal_def)

lemma to_orm_fields:
  assumes "db_plain db"
  shows "tr_id (task_to_orm db t ow) = task_id t" "tr_owner (task_to_orm db t ow) = ow"
    "tr_context_id (task_to_orm db t ow) = task_context_id t"
    "tr_status (task_to_orm db t ow) = oc_status (td_codec db) (task_status_of t)"
    "tr_last_updated (task_to_orm db t ow) =
       map_option (oc_to_datetime (td_codec db)) (status_timestamp (task_status_of t))"
  using assms by (simp_all add: db_plain_def task_to_orm_def)

text \<open>The table holds the rows of the tasks of an in-memory store, and no id belongs to two owners.\<close>

definition db_rel :: "'j task_db \<Rightarrow> 'j task_row list \<Rightarrow> in_memory_store \<Rightarrow> bool" where
  "db_rel db rows s \<longleftrightarrow> ims_ok s \<and> distinct (map tr_id rows) \<and>
     set rows = {task_to_orm db t ow | ow t i. map_of (get_owner_tasks ow s) i = Some t}"

lemma unique_row:
  "distinct (map f xs) \<Longrightarrow> x \<in> set xs \<Longrightarrow> P x \<Longrightarrow> filter (\<lambda>y. f y = f x \<and> P y) xs = [x]"
proof (induction xs)
  case (Cons a xs)
  show ?case
  proof (cases "a = x")
    case True
    with Cons.prems have "filter (\<lambda>y. f y = f x \<and> P y) xs = []"
      by (auto simp: filter_empty_conv image_iff)
    with True Cons.prems(3) show ?thesis by simp
  next
    case False
    with Cons.prems have "x \<in> set xs" by simp
    moreover from this Cons.prems(1) have "f a \<noteq> f x" by auto
    ultimately show ?thesis using Cons by simp
  qed
qed simp

lemma db_rel_empty: "db_rel db [] ims_empty"
  by (simp add: db_rel_def get_owner_tasks_def ims_empty_def ims_ok_def)

lemma row_iff:
  assumes "db_rel db rows s"
  shows "x \<in> set rows \<longleftrightarrow> (\<exists>ow t i. map_of (get_owner_tasks ow s) i = Some t \<and> x = task_to_orm db t ow)"
  using assms by (auto simp: db_rel_def)

lemma owner_row_iff:
  assumes "db_plain db" "db_rel db rows s"
  shows "x \<in> set rows \<and> tr_owner x = ow \<longleftrightarrow>
    (\<exists>t i. map_of (get_owner_tasks ow s) i = Some t \<and> x = task_to_orm db t ow)"
proof
  assume "x \<in> set rows \<and> tr_owner x = ow"
  moreover then obtain ow' t i where "map_of (get_owner_tasks ow' s) i = Some t" "x = task_to_orm db t ow'"
    using row_iff [OF assms(2)] by blast
  ultimately show "\<exists>t i. map_of (get_owner_tasks ow s) i = Some t \<and> x = task_to_orm db t ow"
    using to_orm_fields(2) [OF assms(1)] by auto
next
  assume "\<exists>t i. map_of (get_owner_tasks ow s) i = Some t \<and> x = task_to_orm db t ow"
  then obtain t i where t: "map_of (get_owner_tasks ow s) i = Some t" "x = task_to_orm db t ow" by blast
  then have "x \<in> set rows" using row_iff [OF assms(2)] by blast
  with t to_orm_fields(2) [OF assms(1)] show "x \<in> set rows \<and> tr_owner x = ow" by simp
qed

lemma db_relI:
  assumes "ims_ok s" "distinct (map tr_id rows)"
    and "\<And>x. x \<in> set rows \<longleftrightarrow>
      (\<exists>ow t i. map_of (get_owner_tasks ow s) i = Some t \<and> x = task_to_orm db t ow)"
  shows "db_rel db rows s"
proof -
  have "set rows = {task_to_orm db t ow | ow t i. map_of (get_owner_tasks ow s) i = Some t}"
    using assms(3) by blast
  with assms(1,2) show ?thesis by (simp add: db_rel_def)
qed

lemma db_get_rel:
  assumes db: "db_plain db" and rel: "db_rel db rows s"
  shows "db_get db i c rows = Inr (map_option orm_normal (ims_get (td_resolver db) i c s))"
proof (cases "ims_get (td_resolver db) i c s")
  case None
  have "filter (\<lambda>x. tr_id x = i \<and> tr_owner x = td_resolver db c) rows = []"
  proof (rule ccontr)
    assume "filter (\<lambda>x. tr_id x = i \<and> tr_owner x = td_resolver db c) rows \<noteq> []"
    then obtain x where x: "x \<in> set rows \<and> tr_owner x = td_resolver db c" "tr_id x = i"
      by (auto simp: filter_empty_conv)
    then obtain t j where t: "map_of (get_owner_tasks (td_resolver db c) s) j = Some t"
        "x = task_to_orm db t (td_resolver db c)"
      unfolding owner_row_iff [OF db rel] by blast
    with x(2) have "task_id t = i" using to_orm_fields(1) [OF db] by simp
    with None rel t(1) show False
      using owner_tasks_id by (auto simp: ims_get_def db_rel_def)
  qed
  with None show ?thesis by (simp add: db_get_def)
next
  case (Some t)
  let ?x = "task_to_orm db t (td_resolver db c)"
  have "?x \<in> set rows" "task_id t = i"
    using Some row_iff [OF rel, of ?x] rel owner_tasks_id by (auto simp: ims_get_def db_rel_def)
  then have "filter (\<lambda>x. tr_id x = i \<and> tr_owner x = td_resolver db c) rows = [?x]"
    using unique_row [of tr_id rows ?x "\<lambda>x. tr_owner x = td_resolver db c"] rel to_orm_fields [OF db]
    by (simp add: db_rel_def)
  with Some from_to_orm [OF db] show ?thesis by (simp add: db_get_def)
qed

lemma set_task_merge: "set (task_merge row rows) = insert row {x \<in> set rows. tr_id x \<noteq> tr_id row}"
  by (auto simp: task_merge_def list_ex_iff)

lemma task_merge_ids: "map tr_id (task_merge row rows) =
    (if tr_id row \<in> tr_id ` set rows then map tr_id rows else map tr_id rows @ [tr_id row])"
  by (auto simp: task_merge_def list_ex_iff) (metis image_eqI)

lemma distinct_task_merge: "distinct (map tr_id rows) \<Longrightarrow> distinct (map tr_id (task_merge row rows))"
  by (simp only: task_merge_ids) simp

lemma db_save_rel:
  assumes db: "db_plain db" and rel: "db_rel db rows s"
    and free: "\<And>ow. ow \<noteq> td_resolver db c \<Longrightarrow> map_of (get_owner_tasks ow s) (task_id t) = None"
  shows "db_rel db (db_save db t c rows) (ims_save (td_resolver db) t c s)"
proof -
  let ?r = "td_resolver db" and ?row = "task_to_orm db t (td_resolver db c)"
  have id: "map_of (get_owner_tasks ow s) i = Some u \<Longrightarrow> task_id u = i" for ow i u
    using rel owner_tasks_id by (auto simp: db_rel_def)
  have "x \<in> set (db_save db t c rows) \<longleftrightarrow>
      (\<exists>ow u i. map_of (get_owner_tasks ow (ims_save ?r t c s)) i = Some u \<and> x = task_to_orm db u ow)" for x
  proof
    assume "x \<in> set (db_save db t c rows)"
    then consider "x = ?row" | "x \<in> set rows" "tr_id x \<noteq> task_id t"
      using to_orm_fields [OF db] by (auto simp: db_save_def set_task_merge)
    then show "\<exists>ow u i. map_of (get_owner_tasks ow (ims_save ?r t c s)) i = Some u \<and> x = task_to_orm db u ow"
    proof cases
      case 1
      then show ?thesis by (intro exI [of _ "?r c"] exI [of _ t] exI [of _ "task_id t"])
          (simp add: get_owner_tasks_save)
    next
      case 2
      then obtain ow u i where "map_of (get_owner_tasks ow s) i = Some u" "x = task_to_orm db u ow"
        using row_iff [OF rel] by auto
      with 2(2) id to_orm_fields [OF db] show ?thesis
        by (intro exI [of _ ow] exI [of _ u] exI [of _ i]) (auto simp: get_owner_tasks_save)
    qed
  next
    assume "\<exists>ow u i. map_of (get_owner_tasks ow (ims_save ?r t c s)) i = Some u \<and> x = task_to_orm db u ow"
    then obtain ow u i where u: "map_of (get_owner_tasks ow (ims_save ?r t c s)) i = Some u"
      and x: "x = task_to_orm db u ow" by blast
    show "x \<in> set (db_save db t c rows)"
    proof (cases "ow = ?r c \<and> i = task_id t")
      case True
      with u x show ?thesis by (simp add: get_owner_tasks_save db_save_def set_task_merge)
    next
      case False
      with u have u': "map_of (get_owner_tasks ow s) i = Some u"
        by (auto simp: get_owner_tasks_save split: if_splits)
      then have "x \<in> set rows" using x row_iff [OF rel] by blast
      moreover have "task_id u \<noteq> task_id t" using False u' id [OF u'] free [of ow] by auto
      ultimately show ?thesis
        using x to_orm_fields [OF db] by (simp add: db_save_def set_task_merge)
    qed
  qed
  moreover have "distinct (map tr_id (db_save db t c rows))"
    using rel by (simp add: db_save_def distinct_task_merge db_rel_def)
  ultimately show ?thesis using rel by (intro db_relI) (simp_all add: db_rel_def ims_ok_save)
qed

lemma db_delete_rel:
  assumes db: "db_plain db" and rel: "db_rel db rows s"
  shows "db_rel db (db_delete db i c rows) (ims_delete (td_resolver db) i c s)"
proof -
  let ?r = "td_resolver db"
  have ok: "ims_ok s" using rel by (simp add: db_rel_def)
  have id: "map_of (get_owner_tasks ow s) j = Some u \<Longrightarrow> task_id u = j" for ow j u
    using owner_tasks_id [OF ok] .
  have "x \<in> set (db_delete db i c rows) \<longleftrightarrow>
      (\<exists>ow u j. map_of (get_owner_tasks ow (ims_delete ?r i c s)) j = Some u \<and> x = task_to_orm db u ow)" for x
  proof
    assume "x \<in> set (db_delete db i c rows)"
    then have "x \<in> set rows" "\<not> (tr_id x = i \<and> tr_owner x = ?r c)" by (auto simp: db_delete_def)
    then obtain ow u j where "map_of (get_owner_tasks ow s) j = Some u" "x = task_to_orm db u ow"
      "\<not> (task_id u = i \<and> ow = ?r c)"
      using row_iff [OF rel] to_orm_fields [OF db] by auto
    then show "\<exists>ow u j. map_of (get_owner_tasks ow (ims_delete ?r i c s)) j = Some u \<and> x = task_to_orm db u ow"
      using id by (intro exI [of _ ow] exI [of _ u] exI [of _ j]) (auto simp: get_owner_tasks_delete [OF ok])
  next
    assume "\<exists>ow u j. map_of (get_owner_tasks ow (ims_delete ?r i c s)) j = Some u \<and> x = task_to_orm db u ow"
    then obtain ow u j where u: "map_of (get_owner_tasks ow s) j = Some u" "\<not> (j = i \<and> ow = ?r c)"
      and x: "x = task_to_orm db u ow"
      by (auto simp: get_owner_tasks_delete [OF ok] split: if_splits)
    then show "x \<in> set (db_delete db i c rows)"
      using row_iff [OF rel, of x] id [OF u(1)] to_orm_fields [OF db] by (auto simp: db_delete_def)
  qed
  moreover have "distinct (map tr_id (db_delete db i c rows))"
    using rel by (simp add: db_delete_def distinct_map_filter db_rel_def)
  ultimately show ?thesis using ok by (intro db_relI) (simp_all add: ims_ok_delete)
qed

text \<open>Calls of a store that change it, and a run of them on either store.\<close>

datatype store_call = SaveCall task call_context | DeleteCall string call_context

fun db_call :: "'j task_db \<Rightarrow> store_call \<Rightarrow> 'j task_row list \<Rightarrow> 'j task_row list" where
  "db_call db (SaveCall t c) rows = db_save db t c rows"
| "db_call db (DeleteCall i c) rows = db_delete db i c rows"

fun ims_call :: "(call_context \<Rightarrow> string) \<Rightarrow> store_call \<Rightarrow> in_memory_store \<Rightarrow> in_memory_store" where
  "ims_call r (SaveCall t c) s = ims_save r t c s"
| "ims_call r (DeleteCall i c) s = ims_delete r i c s"

fun call_saves :: "(call_context \<Rightarrow> string) \<Rightarrow> store_call \<Rightarrow> (string \<times> string) list" where
  "call_saves r (SaveCall t c) = [(task_id t, r c)]"
| "call_saves r (DeleteCall i c) = []"

definition saved_ids :: "(call_context \<Rightarrow> string) \<Rightarrow> store_call list \<Rightarrow> (string \<times> string) list" where
  "saved_ids r calls = concat (map (call_saves r) calls)"

text \<open>No two owners save a task of the same id.\<close>

definition ids_private :: "(call_context \<Rightarrow> string) \<Rightarrow> store_call list \<Rightarrow> bool" where
  "ids_private r calls \<longleftrightarrow>
     (\<forall>p \<in> set (saved_ids r calls). \<forall>q \<in> set (saved_ids r calls). fst p = fst q \<longrightarrow> snd p = snd q)"

lemma saved_ids_snoc [simp]: "saved_ids r (calls @ [x]) = saved_ids r calls @ call_saves r x"
  by (simp add: saved_ids_def)

lemma ids_private_prefix: "ids_private r (calls @ [x]) \<Longrightarrow> ids_private r calls"
  by (simp add: ids_private_def)

lemma ids_privateD:
  "ids_private r calls \<Longrightarrow> (i, ow) \<in> set (saved_ids r calls) \<Longrightarrow> (i, ow') \<in> set (saved_ids r calls) \<Longrightarrow> ow = ow'"
  unfolding ids_private_def by fastforce

lemma store_runs_agree:
  assumes db: "db_plain db" and "ids_private (td_resolver db) calls"
  shows "db_rel db (fold (db_call db) calls []) (fold (ims_call (td_resolver db)) calls ims_empty) \<and>
    (\<forall>ow i t. map_of (get_owner_tasks ow (fold (ims_call (td_resolver db)) calls ims_empty)) i = Some t \<longrightarrow>
       (i, ow) \<in> set (saved_ids (td_resolver db) calls))"
  using assms(2)
proof (induction calls rule: rev_induct)
  case Nil
  show ?case using db_rel_empty by (simp add: get_owner_tasks_def ims_empty_def)
next
  case (snoc x calls)
  let ?r = "td_resolver db" and ?rows = "fold (db_call db) calls []"
    and ?s = "fold (ims_call (td_resolver db)) calls ims_empty"
  have IH: "db_rel db ?rows ?s"
    "\<And>ow i t. map_of (get_owner_tasks ow ?s) i = Some t \<Longrightarrow> (i, ow) \<in> set (saved_ids ?r calls)"
    using snoc.IH [OF ids_private_prefix [OF snoc.prems]] by auto
  have ok: "ims_ok ?s" using IH(1) by (simp add: db_rel_def)
  show ?case
  proof (cases x)
    case (SaveCall t c)
    have "map_of (get_owner_tasks ow ?s) (task_id t) = None" if "ow \<noteq> ?r c" for ow
    proof (rule ccontr)
      assume "map_of (get_owner_tasks ow ?s) (task_id t) \<noteq> None"
      then obtain u where "map_of (get_owner_tasks ow ?s) (task_id t) = Some u" by auto
      from IH(2) [OF this] ids_privateD [OF snoc.prems, of "task_id t" ow "?r c"] that show False
        by (simp add: SaveCall)
    qed
    from db_save_rel [OF db IH(1) this] IH(2) show ?thesis
      by (auto simp: SaveCall get_owner_tasks_save split: if_splits)
  next
    case (DeleteCall i c)
    from db_delete_rel [OF db IH(1)] IH(2) show ?thesis
      by (auto simp: DeleteCall get_owner_tasks_delete [OF ok] split: if_splits)
  qed
qed

text \<open>Another owner's row with the same id is replaced, and its owner has lost the task.\<close>

lemma db_save_takes:
  assumes db: "db_plain db" and "distinct (map tr_id rows)" "td_resolver db c' \<noteq> td_resolver db c"
  shows "db_get db (task_id t) c (db_save db t c rows) = Inr (Some (orm_normal t)) \<and>
    db_get db (task_id t) c' (db_save db t c rows) = Inr None"
proof -
  let ?row = "task_to_orm db t (td_resolver db c)" and ?rows = "db_save db t c rows"
  note f = to_orm_fields [OF db]
  have d: "distinct (map tr_id ?rows)" by (simp add: db_save_def distinct_task_merge assms(2))
  have m: "?row \<in> set ?rows" by (simp add: db_save_def set_task_merge)
  have only: "x = ?row" if "x \<in> set ?rows" "tr_id x = task_id t" for x
    using that f by (auto simp: db_save_def set_task_merge)
  have "filter (\<lambda>x. tr_id x = task_id t \<and> tr_owner x = td_resolver db c) ?rows = [?row]"
    using unique_row [OF d m, of "\<lambda>x. tr_owner x = td_resolver db c"] f by simp
  moreover have "filter (\<lambda>x. tr_id x = task_id t \<and> tr_owner x = td_resolver db c') ?rows = []"
    using only f(2) assms(3) by (simp add: filter_empty_conv) metis
  ultimately show ?thesis by (simp add: db_get_def from_to_orm [OF db])
qed

subsection \<open>The listings agree\<close>

text \<open>The texts and the datetimes of the times a listing compares are in the same order.\<close>

definition times_agree ::
  "'j task_db \<Rightarrow> (timestamp \<Rightarrow> string) \<Rightarrow> list_tasks_request \<Rightarrow> call_context \<Rightarrow> in_memory_store \<Rightarrow> bool" where
  "times_agree db tjs req c s \<longleftrightarrow>
     (let T = {x. \<exists>i t. ims_get (td_resolver db) i c s = Some t \<and> status_timestamp (task_status_of t) = Some x} \<union>
        {x. lr_status_timestamp_after req = Some x}
      in \<forall>a \<in> T. \<forall>b \<in> T. tjs a \<le> tjs b \<longleftrightarrow>
           oc_to_datetime (td_codec db) a \<le> oc_to_datetime (td_codec db) b)"

lemma has_timestamp_status: "has_timestamp t \<longleftrightarrow> status_timestamp (task_status_of t) \<noteq> None"
  by (simp add: has_timestamp_def task_status_of_def empty_status_def split: option.split)

lemma time_string_status:
  "status_timestamp (task_status_of t) = Some x \<Longrightarrow> time_string tjs t = tjs x"
  by (auto simp: time_string_def task_status_of_def empty_status_def split: option.splits)

lemma row_matches:
  assumes db: "db_plain db" and ag: "times_agree db tjs req c s"
    and t: "ims_get (td_resolver db) i c s = Some t" and mem: "task_to_orm db t (td_resolver db c) \<in> set rows"
  shows "task_to_orm db t (td_resolver db c) \<in> set (db_filter db req c rows) \<longleftrightarrow> list_matches tjs req t"
proof -
  note f = to_orm_fields [OF db]
  have st: "oc_state (td_codec db) (tr_status (task_to_orm db t (td_resolver db c))) =
      Some (task_state_name (lr_status req)) \<longleftrightarrow> task_state_of t = lr_status req"
    if "lr_status req \<noteq> TASK_STATE_UNSPECIFIED"
    using that db f(4) by (auto simp: db_plain_def codec_ok_def task_state_of_def)
  have tm: "oc_to_datetime (td_codec db) a \<le> oc_to_datetime (td_codec db) x \<longleftrightarrow> tjs a \<le> time_string tjs t"
    if "lr_status_timestamp_after req = Some a" "status_timestamp (task_status_of t) = Some x" for a x
    using ag t that time_string_status [OF that(2)] by (auto simp: times_agree_def Let_def)
  show ?thesis
    using mem st tm f
    by (auto simp: db_filter_def Let_def list_matches_def has_timestamp_status split: option.splits)
qed

lemma set_db_filter:
  assumes db: "db_plain db" and rel: "db_rel db rows s" and ag: "times_agree db tjs req c s"
  shows "set (db_filter db req c rows) =
    (\<lambda>t. task_to_orm db t (td_resolver db c)) ` set (ims_selected (td_resolver db) tjs req c s)"
    (is "?A = ?f ` ?B")
proof -
  have ok: "ims_ok s" using rel by (simp add: db_rel_def)
  have sub: "x \<in> set rows \<and> tr_owner x = td_resolver db c" if "x \<in> ?A" for x
    using that by (auto simp: db_filter_def Let_def split: option.splits if_splits)
  have mem: "?f t \<in> set rows" if "ims_get (td_resolver db) i c s = Some t" for t i
    using that row_iff [OF rel] by (auto simp: ims_get_def)
  show ?thesis
  proof (intro set_eqI iffI)
    fix x assume x: "x \<in> ?A"
    from sub [OF this] obtain t i where t: "ims_get (td_resolver db) i c s = Some t" "x = ?f t"
      unfolding owner_row_iff [OF db rel] by (auto simp: ims_get_def)
    with x row_matches [OF db ag t(1) mem [OF t(1)]] have "t \<in> ?B"
      by (auto simp: set_ims_selected [OF ok])
    with t(2) show "x \<in> ?f ` ?B" by blast
  next
    fix x assume "x \<in> ?f ` ?B"
    then obtain t i where "ims_get (td_resolver db) i c s = Some t" "list_matches tjs req t" "x = ?f t"
      by (auto simp: set_ims_selected [OF ok])
    with row_matches [OF db ag _ mem] show "x \<in> ?A" by blast
  qed
qed

lemma distinct_db_filter: "distinct (map tr_id rows) \<Longrightarrow> distinct (map tr_id (db_filter db req c rows))"
  by (auto simp: db_filter_def Let_def distinct_map_filter split: option.split)

lemma sorted_key_unique:
  fixes k :: "'a \<Rightarrow> 'b::linorder"
  assumes "sorted (map k xs)" "sorted (map k ys)" "distinct (map k xs)" "distinct (map k ys)"
    and "set xs = set ys"
  shows "xs = ys"
proof -
  have "map k xs = map k ys" using assms by (intro sorted_distinct_set_unique) auto
  moreover have "inj_on k (set xs \<union> set ys)" using assms by (simp add: distinct_map)
  ultimately show ?thesis by (simp add: inj_on_map_eq_map)
qed

lemma row_key_le:
  assumes db: "db_plain db" and ag: "times_agree db tjs req c s"
    and t: "ims_get (td_resolver db) i c s = Some t" and u: "ims_get (td_resolver db) j c s = Some u"
  shows "row_key (task_to_orm db t ow) \<le> row_key (task_to_orm db u ow) \<longleftrightarrow> list_key tjs t \<le> list_key tjs u"
proof -
  note f = to_orm_fields [OF db]
  have none: "time_string tjs x = []" if "status_timestamp (task_status_of x) = None" for x
    using that by (auto simp: time_string_def task_status_of_def split: option.splits)
  show ?thesis
  proof (cases "has_timestamp t \<and> has_timestamp u")
    case True
    then obtain a b where ab: "status_timestamp (task_status_of t) = Some a"
      "status_timestamp (task_status_of u) = Some b" by (auto simp: has_timestamp_status)
    let ?d = "oc_to_datetime (td_codec db)"
    have "tjs a \<le> tjs b \<longleftrightarrow> ?d a \<le> ?d b" "tjs b \<le> tjs a \<longleftrightarrow> ?d b \<le> ?d a"
      using ag t u ab by (auto simp: times_agree_def Let_def)
    then have "tjs a < tjs b \<longleftrightarrow> ?d a < ?d b" "tjs a = tjs b \<longleftrightarrow> ?d a = ?d b"
      by (auto simp: less_le_not_le order_eq_iff)
    with ab f show ?thesis
      by (auto simp: row_key_def list_key_def less_eq_list_key_def has_timestamp_status
          time_string_status less_eq_prod_def)
  next
    case False
    with f none show ?thesis
      by (cases "status_timestamp (task_status_of t)"; cases "status_timestamp (task_status_of u)")
        (auto simp: row_key_def list_key_def less_eq_list_key_def has_timestamp_status less_eq_prod_def)
  qed
qed

lemma db_order_selected:
  assumes db: "db_plain db" and rel: "db_rel db rows s" and ag: "times_agree db tjs req c s"
  shows "db_order (db_filter db req c rows) =
    map (\<lambda>t. task_to_orm db t (td_resolver db c)) (ims_selected (td_resolver db) tjs req c s)"
    (is "_ = map ?f ?L")
proof -
  have ok: "ims_ok s" and dist: "distinct (map tr_id rows)" using rel by (simp_all add: db_rel_def)
  have ids: "map tr_id (map ?f ?L) = map task_id ?L" using to_orm_fields [OF db] by simp
  have key: "distinct (map tr_id xs) \<Longrightarrow> distinct (map row_key xs)" for xs :: "'a task_row list"
    by (auto simp: distinct_map inj_on_def row_key_def)
  let ?rows = "sort_key row_key (db_filter db req c rows)"
  have "?rows = rev (map ?f ?L)"
  proof (rule sorted_key_unique)
    show "sorted (map row_key ?rows)" by simp
    have "sorted_wrt (\<lambda>t u. row_key (?f u) \<le> row_key (?f t)) ?L"
    proof (rule sorted_wrt_mono_rel)
      show "sorted_wrt (\<lambda>t u. list_key tjs u \<le> list_key tjs t) ?L"
        using ims_selected_sorted [of tjs "td_resolver db" req c s] by (simp add: sorted_wrt_map)
      show "row_key (?f u) \<le> row_key (?f t)"
        if "t \<in> set ?L" "u \<in> set ?L" "list_key tjs u \<le> list_key tjs t" for t u
        using that row_key_le [OF db ag] by (auto simp: set_ims_selected [OF ok])
    qed
    then show "sorted (map row_key (rev (map ?f ?L)))" by (simp add: sorted_wrt_rev rev_map [symmetric] sorted_wrt_map)
    have "mset (map tr_id ?rows) = mset (map tr_id (db_filter db req c rows))" by simp
    then have "distinct (map tr_id ?rows)"
      using distinct_db_filter [OF dist] mset_eq_imp_distinct_iff by blast
    then show "distinct (map row_key ?rows)" by (rule key)
    have "map tr_id (rev (map ?f ?L)) = rev (map task_id ?L)" by (simp only: rev_map [symmetric] ids)
    then have "distinct (map tr_id (rev (map ?f ?L)))"
      using ims_selected_distinct [OF ok, of "td_resolver db" tjs req c] by simp
    then show "distinct (map row_key (rev (map ?f ?L)))" by (rule key)
    show "set ?rows = set (rev (map ?f ?L))" using set_db_filter [OF db rel ag] by simp
  qed
  then show ?thesis by (simp add: db_order_def)
qed

text \<open>A page starts at the row of its token: the condition keeps what is not before it.\<close>

lemma of_char_le: "(of_char a :: nat) \<le> of_char b \<longleftrightarrow> a \<le> b"
  by (simp add: less_eq_char_def)

lemma to_ustr_le: "to_ustr a \<le> to_ustr b \<longleftrightarrow> a \<le> b"
proof (induction a arbitrary: b)
  case Nil
  then show ?case by (simp add: to_ustr_def)
next
  case (Cons x a)
  show ?case
  proof (cases b)
    case Nil
    then show ?thesis by (simp add: to_ustr_def)
  next
    case (Cons y b')
    have "(of_char x :: nat) < of_char y \<longleftrightarrow> x < y" by (simp add: less_char_def)
    with Cons Cons.IH [of b'] show ?thesis by (auto simp: to_ustr_def)
  qed
qed

lemma page_where_key:
  "page_where (to_ustr (tr_id start)) start = (\<lambda>x. row_key x \<le> row_key start)"
  by (rule ext) (auto simp: page_where_def row_key_def to_ustr_le less_eq_prod_def split: option.splits)

lemma filter_below_nth:
  fixes k :: "'a \<Rightarrow> 'b::linorder"
  assumes "sorted_wrt (\<lambda>x y. k y < k x) xs" "i < length xs"
  shows "filter (\<lambda>x. k x \<le> k (xs ! i)) xs = drop i xs"
proof -
  have "\<forall>x \<in> set (take i xs). \<not> k x \<le> k (xs ! i)"
    using assms by (auto simp: in_set_conv_nth sorted_wrt_iff_nth_less not_le)
  moreover have "\<forall>x \<in> set (drop i xs). k x \<le> k (xs ! i)"
  proof
    fix x assume "x \<in> set (drop i xs)"
    then obtain j where j: "j < length xs - i" "x = xs ! (i + j)" by (auto simp: in_set_conv_nth)
    then show "k x \<le> k (xs ! i)"
      using assms by (cases j) (auto simp: sorted_wrt_iff_nth_less less_imp_le)
  qed
  ultimately have "filter (\<lambda>x. k x \<le> k (xs ! i)) (take i xs @ drop i xs) = drop i xs"
    by (simp only: filter_append filter_True filter_False append_Nil)
  then show ?thesis by simp
qed

lemma db_order_strict:
  assumes "distinct (map tr_id rows)"
  shows "sorted_wrt (\<lambda>x y. row_key y < row_key x) (db_order rows)"
proof -
  have "mset (map tr_id (sort_key row_key rows)) = mset (map tr_id rows)" by simp
  then have "distinct (map tr_id (sort_key row_key rows))"
    using assms mset_eq_imp_distinct_iff by blast
  then have "distinct (map row_key (sort_key row_key rows))"
    by (auto simp: distinct_map inj_on_def row_key_def)
  then have "sorted_wrt (<) (map row_key (sort_key row_key rows))"
    by (simp add: strict_sorted_iff)
  then show ?thesis by (simp add: db_order_def sorted_wrt_rev sorted_wrt_map)
qed

lemma page_start_Inr:
  assumes "page_start req ts = Inr i"
  shows "lr_page_token req = [] \<and> i = 0 \<or>
    lr_page_token req \<noteq> [] \<and> i < length ts \<and> decode_page_token (lr_page_token req) = Inr (to_ustr (task_id (ts ! i)))"
proof (cases "lr_page_token req = []")
  case True
  with assms show ?thesis by (simp add: page_start_def)
next
  case False
  with assms obtain sid where sid: "decode_page_token (lr_page_token req) = Inr sid"
    "index_of sid (map (\<lambda>t. to_ustr (task_id t)) ts) = Some i"
    by (auto simp: page_start_def split: option.splits)
  with index_of_Some [OF sid(2)] False show ?thesis by auto
qed

lemma db_page_rows_at:
  assumes db: "db_plain db" and rel: "db_rel db rows s" and ag: "times_agree db tjs req c s"
    and st: "page_start req (ims_selected (td_resolver db) tjs req c s) = Inr i"
  shows "db_page_rows db req c rows = Inr (drop i
    (map (\<lambda>t. task_to_orm db t (td_resolver db c)) (ims_selected (td_resolver db) tjs req c s)))"
    (is "_ = Inr (drop i (map ?f ?L))")
  using page_start_Inr [OF st]
proof (elim disjE conjE)
  assume "lr_page_token req = []" "i = 0"
  then show ?thesis by (simp add: db_page_rows_def db_order_selected [OF db rel ag])
next
  assume tok: "lr_page_token req \<noteq> []" and i: "i < length ?L"
    and dec: "decode_page_token (lr_page_token req) = Inr (to_ustr (task_id (?L ! i)))"
  let ?x = "?f (?L ! i)"
  note f = to_orm_fields [OF db]
  have ok: "ims_ok s" and dist: "distinct (map tr_id rows)" using rel by (simp_all add: db_rel_def)
  have "?L ! i \<in> set ?L" using i by simp
  then have "?x \<in> set rows" using row_iff [OF rel] by (auto simp: set_ims_selected [OF ok] ims_get_def)
  then have "filter (\<lambda>x. tr_id x = tr_id ?x \<and> tr_owner x = td_resolver db c) rows = [?x]"
    using unique_row [OF dist, of ?x "\<lambda>x. tr_owner x = td_resolver db c"] f by simp
  then have sel: "filter (\<lambda>x. to_ustr (tr_id x) = to_ustr (task_id (?L ! i)) \<and> tr_owner x = td_resolver db c) rows = [?x]"
    using f(1) by simp
  have "filter (page_where (to_ustr (tr_id ?x)) ?x) (map ?f ?L) = drop i (map ?f ?L)"
    using filter_below_nth [OF db_order_strict [OF distinct_db_filter [OF dist, of db req c]], of i] i
    by (simp add: db_order_selected [OF db rel ag] page_where_key)
  with tok dec sel show ?thesis
    using f(1) by (simp add: db_page_rows_def db_order_selected [OF db rel ag])
qed

lemma db_list_agrees:
  assumes db: "db_plain db" and rel: "db_rel db rows s" and ag: "times_agree db tjs req c s"
    and n: "0 < page_size_of req" and run: "ims_list (td_resolver db) tjs req c s = Inr page"
  shows "db_list db req c rows = Inr (page\<lparr>lresp_tasks := map orm_normal (lresp_tasks page)\<rparr>)"
proof -
  let ?L = "ims_selected (td_resolver db) tjs req c s"
  obtain n where n: "page_size_of req = int n" "0 < n" using n by (metis nat_0_iff nat_eq_iff2 not_le zero_less_imp_eq_int)
  from run obtain i where i: "page_start req ?L = Inr i" by (auto simp: ims_list_def paginate_def)
  have total: "length (db_filter db req c rows) = length ?L"
    using arg_cong [OF db_order_selected [OF db rel ag], of length] by (simp add: db_order_def)
  have tasks: "map (task_from_orm db) (take (nat (int n + 1)) (drop i (map (\<lambda>t. task_to_orm db t (td_resolver db c)) ?L))) =
      map orm_normal (take (Suc n) (drop i ?L))"
    by (simp add: drop_map take_map nat_add_distrib from_to_orm [OF db])
  have slice: "py_slice xs 0 (int n) = take n xs" for xs :: "task list"
    using py_slice_nonneg [of xs 0 n] by simp
  have last: "py_index (map orm_normal (take (Suc n) (drop i ?L))) (-1) = Inr (orm_normal (?L ! (i + n)))"
    if "i + n < length ?L"
  proof -
    have "length (map orm_normal (take (Suc n) (drop i ?L))) = Suc n" using that by simp
    then have "py_index (map orm_normal (take (Suc n) (drop i ?L))) (-1) =
        Inr (map orm_normal (take (Suc n) (drop i ?L)) ! n)"
      by (simp add: py_index_def del: length_map length_take length_drop)
    with that show ?thesis by simp
  qed
  have len: "length (take (Suc n) (drop i ?L)) = Suc n \<longleftrightarrow> i + n < length ?L" by auto
  have idx: "i + n < length ?L \<Longrightarrow> py_index ?L (int i + int n) = Inr (?L ! (i + n))"
    using py_index_nonneg [of "i + n" ?L] by simp
  have page: "page = \<lparr>lresp_tasks = take n (drop i ?L),
      lresp_next_page_token = (if i + n < length ?L then encode_page_token (task_id (?L ! (i + n))) else []),
      lresp_page_size = int n, lresp_total_size = int (length ?L)\<rparr>"
    using run i n idx by (auto simp: ims_list_def paginate_def Let_def py_slice_nonneg split: if_splits)
  have rows: "db_page_rows db req c rows = Inr (drop i (map (\<lambda>t. task_to_orm db t (td_resolver db c)) ?L))"
    by (rule db_page_rows_at [OF db rel ag i])
  show ?thesis
  proof (cases "i + n < length ?L")
    case True
    with len have "length (take (Suc n) (drop i ?L)) = Suc n" by simp
    with True last [OF True] show ?thesis
      unfolding db_list_def rows rbind_simps Let_def n(1) tasks total slice page
      by (simp add: take_map min_absorb1 del: length_take length_drop)
  next
    case False
    with len have "int (length (take (Suc n) (drop i ?L))) \<noteq> int n + 1" by linarith
    with False show ?thesis
      unfolding db_list_def rows rbind_simps Let_def n(1) tasks total slice page
      by (simp add: take_map min_absorb1 del: length_take length_drop)
  qed
qed

subsection \<open>The push configuration store\<close>

record push_row =
  pr_task_id :: string
  pr_config_id :: string
  pr_config_data :: bytes
  pr_owner :: string
  pr_protocol_version :: "string option"

text \<open>
  \<^verbatim>\<open>MessageToJson\<close> and \<^verbatim>\<open>Parse\<close> with the encoding of their texts, the parser of the older format, and
  the pair of functions of a \<^verbatim>\<open>Fernet\<close> key, whose \<^verbatim>\<open>decrypt\<close> fails with \<^verbatim>\<open>InvalidToken\<close> (\<open>None\<close>).
\<close>

record push_db =
  pd_resolver :: "call_context \<Rightarrow> string"
  pd_fernet :: "((bytes \<Rightarrow> bytes) \<times> (bytes \<Rightarrow> bytes option)) option"
  pd_to_json :: "push_config \<Rightarrow> bytes"
  pd_parse :: "bytes \<Rightarrow> exn + push_config"
  pd_legacy_parse :: "bytes \<Rightarrow> string \<Rightarrow> exn + push_config"
  pd_core_to_model :: "(string \<Rightarrow> push_config \<Rightarrow> string \<Rightarrow> push_row) option"
  pd_model_to_core :: "(push_row \<Rightarrow> exn + push_config) option"

definition push_to_orm :: "push_db \<Rightarrow> string \<Rightarrow> push_config \<Rightarrow> string \<Rightarrow> push_row" where
  "push_to_orm db tid cfg ow =
     (case pd_core_to_model db of
        Some f \<Rightarrow> f tid cfg ow
      | None \<Rightarrow>
          let json_payload = pd_to_json db cfg
          in \<lparr>pr_task_id = tid, pr_config_id = pc_id cfg,
              pr_config_data = (case pd_fernet db of Some (encrypt, decrypt) \<Rightarrow> encrypt json_payload | None \<Rightarrow> json_payload),
              pr_owner = ow, pr_protocol_version = Some ''1.0''\<rparr>)"

definition parse_config :: "push_db \<Rightarrow> bytes \<Rightarrow> string \<Rightarrow> string option \<Rightarrow> exn + push_config" where
  "parse_config db payload tid version =
     (if version = Some ''1.0'' then pd_parse db payload else pd_legacy_parse db payload tid)"

definition push_from_orm :: "push_db \<Rightarrow> push_row \<Rightarrow> exn + push_config" where
  "push_from_orm db row =
     (case pd_model_to_core db of
        Some f \<Rightarrow> f row
      | None \<Rightarrow>
          let payload = pr_config_data row;
              parse = (\<lambda>p. parse_config db p (pr_task_id row) (pr_protocol_version row));
              plain = (case parse payload of
                 Inr c \<Rightarrow> Inr c
               | Inl e \<Rightarrow> Inl (ValueError ''Failed to parse push notification config data. Data is not valid JSON, or it is encrypted with the wrong key.''))
          in (case pd_fernet db of
                None \<Rightarrow> plain
              | Some (encrypt, decrypt) \<Rightarrow>
                  (case decrypt payload of
                     None \<Rightarrow> plain
                   | Some p \<Rightarrow>
                       (case parse p of
                          Inr c \<Rightarrow> Inr c
                        | Inl e \<Rightarrow> Inl (ValueError ''Failed to parse decrypted push notification config data'')))))"

text \<open>The primary key is the pair of the task's and the configuration's id.\<close>

definition push_key :: "push_row \<Rightarrow> string \<times> string" where
  "push_key row = (pr_task_id row, pr_config_id row)"

definition push_merge :: "push_row \<Rightarrow> push_row list \<Rightarrow> push_row list" where
  "push_merge row rows =
     (if list_ex (\<lambda>x. push_key x = push_key row) rows
      then map (\<lambda>x. if push_key x = push_key row then row else x) rows
      else rows @ [row])"

definition db_set_info :: "push_db \<Rightarrow> string \<Rightarrow> push_config \<Rightarrow> call_context \<Rightarrow> push_row list \<Rightarrow> push_row list" where
  "db_set_info db tid cfg c rows =
     (let config_to_save = (if pc_id cfg = [] then cfg\<lparr>pc_id := tid\<rparr> else cfg)
      in push_merge (push_to_orm db tid config_to_save (pd_resolver db c)) rows)"

text \<open>A row that cannot be decoded is left out.\<close>

fun decode_rows :: "push_db \<Rightarrow> push_row list \<Rightarrow> exn + push_config list" where
  "decode_rows db [] = Inr []"
| "decode_rows db (row # rows) =
     (case push_from_orm db row of
        Inr c \<Rightarrow> rbind (decode_rows db rows) (\<lambda>cs. Inr (c # cs))
      | Inl (ValueError m) \<Rightarrow> decode_rows db rows
      | Inl e \<Rightarrow> Inl e)"

definition select_configs :: "push_db \<Rightarrow> (push_row \<Rightarrow> bool) \<Rightarrow> push_row list \<Rightarrow> exn + push_config list" where
  "select_configs db P rows = decode_rows db (filter P rows)"

definition db_get_info :: "push_db \<Rightarrow> string \<Rightarrow> call_context \<Rightarrow> push_row list \<Rightarrow> exn + push_config list" where
  "db_get_info db tid c rows =
     select_configs db (\<lambda>x. pr_task_id x = tid \<and> pr_owner x = pd_resolver db c) rows"

definition db_get_info_for_dispatch :: "push_db \<Rightarrow> string \<Rightarrow> push_row list \<Rightarrow> exn + push_config list" where
  "db_get_info_for_dispatch db tid rows = select_configs db (\<lambda>x. pr_task_id x = tid) rows"

definition db_delete_info ::
  "push_db \<Rightarrow> string \<Rightarrow> call_context \<Rightarrow> string option \<Rightarrow> push_row list \<Rightarrow> push_row list" where
  "db_delete_info db tid c config_id rows =
     filter (\<lambda>x. \<not> (pr_task_id x = tid \<and> pr_owner x = pd_resolver db c \<and>
        (case config_id of None \<Rightarrow> True | Some i \<Rightarrow> pr_config_id x = i))) rows"

text \<open>What the documentation says of the conversions.\<close>

definition push_codec_ok :: "push_db \<Rightarrow> bool" where
  "push_codec_ok db \<longleftrightarrow> pd_core_to_model db = None \<and> pd_model_to_core db = None \<and>
     (\<forall>c. pd_parse db (pd_to_json db c) = Inr c) \<and>
     (case pd_fernet db of None \<Rightarrow> True | Some (encrypt, decrypt) \<Rightarrow> \<forall>b. decrypt (encrypt b) = Some b)"

lemma push_from_to_orm: "push_codec_ok db \<Longrightarrow> push_from_orm db (push_to_orm db tid cfg ow) = Inr cfg"
  by (auto simp: push_codec_ok_def push_from_orm_def push_to_orm_def parse_config_def Let_def
      split: option.splits prod.splits)

lemma push_to_orm_fields:
  assumes "push_codec_ok db"
  shows "pr_task_id (push_to_orm db tid cfg ow) = tid" "pr_config_id (push_to_orm db tid cfg ow) = pc_id cfg"
    "pr_owner (push_to_orm db tid cfg ow) = ow"
  using assms by (simp_all add: push_codec_ok_def push_to_orm_def Let_def)

lemma set_push_merge: "set (push_merge row rows) = insert row {x \<in> set rows. push_key x \<noteq> push_key row}"
  by (auto simp: push_merge_def list_ex_iff)

lemma decode_rows_error:
  assumes "pd_model_to_core db = None"
  shows "\<exists>cs. decode_rows db rows = Inr cs \<and> set cs = {c. \<exists>x \<in> set rows. push_from_orm db x = Inr c}"
proof (induction rows)
  case (Cons x rows)
  have "(\<exists>m. push_from_orm db x = Inl (ValueError m)) \<or> (\<exists>c. push_from_orm db x = Inr c)"
    using assms by (auto simp: push_from_orm_def Let_def split: option.split sum.split prod.split)
  with Cons show ?case by auto
qed simp

text \<open>A row of the same key is replaced, whoever its owner was.\<close>

lemma db_set_info_owner:
  assumes "pd_core_to_model db = None" "x \<in> set (db_set_info db tid cfg c rows)"
    and "push_key x = (tid, pc_id (default_id tid cfg))"
  shows "pr_owner x = pd_resolver db c"
  using assms
  by (auto simp: db_set_info_def set_push_merge default_id_def push_to_orm_def push_key_def Let_def
      split: if_splits)

text \<open>After a configuration is set its owner reads it, encrypted or not.\<close>

lemma db_get_after_set:
  assumes ok: "push_codec_ok db"
  shows "\<exists>cs. db_get_info db tid c (db_set_info db tid cfg c rows) = Inr cs \<and> default_id tid cfg \<in> set cs"
proof -
  let ?row = "push_to_orm db tid (default_id tid cfg) (pd_resolver db c)"
  have set: "set (db_set_info db tid cfg c rows) = insert ?row {x \<in> set rows. push_key x \<noteq> push_key ?row}"
    by (simp add: db_set_info_def set_push_merge default_id_def)
  have "?row \<in> set (filter (\<lambda>x. pr_task_id x = tid \<and> pr_owner x = pd_resolver db c) (db_set_info db tid cfg c rows))"
    using push_to_orm_fields [OF ok] by (simp add: set)
  moreover have "pd_model_to_core db = None" using ok by (simp add: push_codec_ok_def)
  ultimately show ?thesis
    using decode_rows_error [of db "filter (\<lambda>x. pr_task_id x = tid \<and> pr_owner x = pd_resolver db c)
        (db_set_info db tid cfg c rows)"] push_from_to_orm [OF ok]
    by (fastforce simp: db_get_info_def select_configs_def)
qed

end
