(* ===== verification/Examples.thy ===== *)
theory Examples
  imports Handler_Laws Task_System Copying_Store Event_Queue Database_Store
begin

text \<open>
  Concrete callers, tasks, stores, managers and active tasks, at which the properties are
  instantiated. The owner of a call is the user's name (\<^verbatim>\<open>resolve_user_scope\<close>).
\<close>

text \<open>How a computed outcome is read off.\<close>

lemma pair_None: "Option.is_none (snd p) \<Longrightarrow> \<exists>x. p = (x, None)"
  by (cases p) (simp add: Option.is_none_def)

lemma pair_Inr: "\<not> isl (snd p) \<Longrightarrow> \<exists>x y. p = (x, Inr y)"
  by (cases p; cases "snd p") auto

lemma not_none: "\<not> Option.is_none x \<Longrightarrow> \<exists>y. x = Some y"
  by (cases x) simp_all

lemma not_isl: "\<not> isl x \<Longrightarrow> \<exists>y. x = Inr y"
  by (cases x) simp_all

abbreviation rus :: "call_context \<Rightarrow> string" where
  "rus \<equiv> resolve_user_scope"

definition ex_ctx :: "string \<Rightarrow> call_context" where
  "ex_ctx u = \<lparr>cc_user_name = u, cc_tenant = [], cc_requested_extensions = [], cc_headers = []\<rparr>"

definition alice :: call_context where "alice = ex_ctx ''alice''"
definition bob :: call_context where "bob = ex_ctx ''bob''"

definition ex_message :: "string \<Rightarrow> string \<Rightarrow> message" where
  "ex_message i txt = empty_message\<lparr>message_id := i, message_role := ROLE_USER,
     message_parts := [new_text_part txt None]\<rparr>"

definition ex_task :: task where
  "ex_task = new_task ''t1'' ''c1'' TASK_STATE_WORKING None (Some [ex_message ''m1'' ''hello''])"

definition ex_store :: in_memory_store where
  "ex_store = ims_save rus ex_task alice ims_empty"

definition ex_tm :: "in_memory_store task_manager" where
  "ex_tm = \<lparr>tm_store = ex_store, tm_call_context = alice, tm_task_id = Some ''t1'',
     tm_context_id = Some ''c1'', tm_initial_message = None, tm_current_task = None\<rparr>"

definition ex_active :: "in_memory_store active_task" where
  "ex_active = at_init ''t1'' ex_tm True"

definition ex_status :: "task_state \<Rightarrow> message option \<Rightarrow> status_event" where
  "ex_status st m = \<lparr>se_task_id = ''t1'', se_context_id = ''c1'',
     se_status = Some \<lparr>status_state = st, status_message = m, status_timestamp = None\<rparr>,
     se_metadata = None\<rparr>"

definition ex_update :: "task_state \<Rightarrow> agent_event" where
  "ex_update st = AgentEv (TaskEv (StatusUpdate (ex_status st None)))"

lemma alice_bob [simp]: "rus alice = ''alice''" "rus bob = ''bob''"
  by (simp_all add: resolve_user_scope_def alice_def bob_def ex_ctx_def)

lemma ex_task_simps [simp]:
  "task_id ex_task = ''t1''" "task_context_id ex_task = ''c1''"
  "task_state_of ex_task = TASK_STATE_WORKING" "task_history ex_task = [ex_message ''m1'' ''hello'']"
  "task_artifacts ex_task = []"
  by (simp_all add: ex_task_def new_task_def empty_task_def empty_status_def task_state_of_def task_status_of_def)

lemma ex_store_ok [simp]: "ims_ok ex_store"
  by (simp add: ex_store_def ims_ok_save)

lemma ex_store_get [simp]:
  "ims_get rus i c ex_store = (if rus c = ''alice'' \<and> i = ''t1'' then Some ex_task else None)"
proof -
  have "ims_get rus i c ims_empty = None"
    by (simp add: ims_get_def get_owner_tasks_def ims_empty_def)
  with ims.get_save [of ims_empty rus i c ex_task alice] show ?thesis
    by (simp add: ex_store_def)
qed

lemma ex_tm_simps [simp]:
  "tm_store ex_tm = ex_store" "tm_call_context ex_tm = alice" "tm_task_id ex_tm = Some ''t1''"
  "tm_context_id ex_tm = Some ''c1''" "tm_current_task ex_tm = None"
  by (simp_all add: ex_tm_def)

lemma ex_tm_coherent [simp]: "tm_coherent (ims_ops rus) ims_ok ex_tm"
  by (simp add: tm_coherent_def)

lemma ex_tm_view [simp]: "tm_view (ims_ops rus) ex_tm = Some ex_task"
  by (simp add: tm_view_def)

lemma ex_active_simps [simp]:
  "at_task_manager ex_active = ex_tm" "at_task_id ex_active = ''t1''" "at_task_mode ex_active = None"
  "at_message_to_save ex_active = None" "at_subscribers ex_active = []"
  by (simp_all add: ex_active_def at_init_def)

lemma ex_active_ok [simp]: "at_ok (ims_ops rus) ims_ok ex_active"
  by (simp add: at_ok_def)

lemma ex_active_view [simp]: "at_view (ims_ops rus) ex_active = Some ex_task"
  by (simp add: at_view_def)

lemma ex_status_simps [simp]:
  "se_task_id (ex_status st m) = ''t1''" "se_context_id (ex_status st m) = ''c1''"
  "status_state (se_status_of (ex_status st m)) = st" "status_message (se_status_of (ex_status st m)) = m"
  by (simp_all add: ex_status_def se_status_of_def)

definition ex_list_request :: "nat \<Rightarrow> list_tasks_request" where
  "ex_list_request n = \<lparr>lr_tenant = [], lr_context_id = [], lr_status = TASK_STATE_UNSPECIFIED,
     lr_page_size = Some (int n), lr_page_token = [], lr_history_length = None,
     lr_status_timestamp_after = None, lr_include_artifacts = None\<rparr>"

definition ex_store2 :: in_memory_store where
  "ex_store2 = ims_save rus (ex_task\<lparr>task_id := ''t2''\<rparr>) alice ex_store"

definition ex_config :: "string \<Rightarrow> string \<Rightarrow> push_config" where
  "ex_config i u = \<lparr>pc_tenant = [], pc_id = i, pc_task_id = ''t1'', pc_url = u, pc_token = [],
     pc_authentication = None\<rparr>"

definition ex_handler :: "(in_memory_store, push_config_store) handler" where
  "ex_handler = \<lparr>h_store_ops = ims_ops rus, h_push_ops = Some (pcs_ops rus), h_streaming = True,
     h_push_notifications = True, h_url_validator = None, h_has_push_sender = True\<rparr>"

lemma ex_handler_serves [simp]: "a2a.serves rus ex_handler"
  by (simp add: a2a.serves_def ex_handler_def)

text \<open>A source with one event waiting, tapped by an observer of room for one event.\<close>

definition ex_source :: "nat source" where
  "ex_source = projr (sr_init 2 True)"

definition ex_source1 :: "nat source" where
  "ex_source1 = the (sr_run [Enqueue 1 True] ex_source)"

definition ex_source2 :: "nat source" where
  "ex_source2 = fst (projr (sr_tap 1 True ex_source1))"

definition ex_source3 :: "nat source" where
  "ex_source3 = the (sr_run [Enqueue 2 True, DispatchGet, Deliver 0, Deliver 1, DispatchDone] ex_source2)"

lemma ex_source_runs:
  "sr_init 2 True = Inr ex_source" "sr_run [Enqueue 1 True] ex_source = Some ex_source1"
  "sr_tap 1 True ex_source1 = Inr (ex_source2, 1)"
  "sr_run [Enqueue 2 True, DispatchGet, Deliver 0, Deliver 1, DispatchDone] ex_source2 = Some ex_source3"
  by code_simp+

text \<open>The incoming queue is full, and the observer under delivery is full.\<close>

definition ex_source4 :: "nat source" where
  "ex_source4 = the (sr_run [Tap 1 True 1, Enqueue 1 True, DispatchGet, Deliver 0, Deliver 1, DispatchDone,
     Enqueue 2 True, DispatchGet, Deliver 0, Enqueue 3 True, Enqueue 4 True] ex_source)"

lemma ex_source4_run:
  "sr_run [Tap 1 True 1, Enqueue 1 True, DispatchGet, Deliver 0, Deliver 1, DispatchDone,
     Enqueue 2 True, DispatchGet, Deliver 0, Enqueue 3 True, Enqueue 4 True] ex_source = Some ex_source4"
  by code_simp

text \<open>A source after a graceful close.\<close>

definition ex_source5 :: "nat source" where
  "ex_source5 = the (sr_run (CloseSource False # [DispatchGet, Deliver 1, Deliver 0, DispatchDone] @ [CloseJoined])
     ex_source2)"

lemma ex_source5_run:
  "sr_run (CloseSource False # [DispatchGet, Deliver 1, Deliver 0, DispatchDone] @ [CloseJoined]) ex_source2
     = Some ex_source5"
  by code_simp

text \<open>A database whose columns hold the messages themselves.\<close>

type_synonym ex_column = "(task_status + artifact) + (message + struct)"

definition ex_codec :: "ex_column orm_codec" where
  "ex_codec =
     \<lparr>oc_status = (\<lambda>x. Inl (Inl x)), oc_to_status = (\<lambda>j. projl (projl j)),
      oc_artifact = (\<lambda>x. Inl (Inr x)), oc_to_artifact = (\<lambda>j. projr (projl j)),
      oc_message = (\<lambda>x. Inr (Inl x)), oc_to_message = (\<lambda>j. projl (projr j)),
      oc_struct = (\<lambda>x. Inr (Inr x)), oc_to_struct = (\<lambda>j. projr (projr j)),
      oc_truthy = (\<lambda>j. j \<noteq> Inl (Inl empty_status) \<and> j \<noteq> Inr (Inr [])),
      oc_state = (\<lambda>j. let st = status_state (projl (projl j))
         in if st = TASK_STATE_UNSPECIFIED then None else Some (task_state_name st)),
      oc_to_datetime = (\<lambda>x. ts_seconds x * 1000000 + ts_nanos x div 1000)\<rparr>"

definition ex_db :: "ex_column task_db" where
  "ex_db = \<lparr>td_resolver = rus, td_codec = ex_codec, td_core_to_model = None, td_model_to_core = None,
     td_legacy_to_core = (\<lambda>_. empty_task)\<rparr>"

lemma ex_db_plain [simp]: "db_plain ex_db"
  by (simp add: db_plain_def ex_db_def codec_ok_def ex_codec_def Let_def)

lemma ex_db_resolver [simp]: "td_resolver ex_db = rus"
  by (simp add: ex_db_def)

definition ex_push_db :: push_db where
  "ex_push_db = \<lparr>pd_resolver = rus, pd_fernet = None, pd_to_json = (\<lambda>_. []), pd_parse = (\<lambda>_. Inl IndexError),
     pd_legacy_parse = (\<lambda>_ _. Inl IndexError), pd_core_to_model = None, pd_model_to_core = None\<rparr>"

end
