(* ===== verification/Compat_Types.thy ===== *)
theory Compat_Types
  imports A2A_Errors
begin

text \<open>
  The data of protocol 0.3 (\<^verbatim>\<open>compat/v0_3/types.py\<close>): one record per Pydantic model, with its fields
  in the order of the class. A field with \<^verbatim>\<open>| None\<close> is an option, a union of models a datatype. The
  fields \<^verbatim>\<open>kind\<close>, \<^verbatim>\<open>type\<close>, \<^verbatim>\<open>jsonrpc\<close> and \<^verbatim>\<open>method\<close>, whose type has one value, are left out: the
  constructor says it. A \<^verbatim>\<open>dict[str, Any]\<close> is a \<open>struct\<close> of JSON values.
\<close>

subsection \<open>Enumerations\<close>

datatype task_state03 = submitted | working | input_required | completed | canceled | failed
  | rejected | auth_required | unknown

datatype role03 = agent03 | user03

datatype in03 = in_cookie | in_header | in_query

text \<open>The values of the \<^verbatim>\<open>str\<close> enumerations, which JSON carries.\<close>

fun task_state03_value :: "task_state03 \<Rightarrow> string" where
  "task_state03_value submitted = ''submitted''"
| "task_state03_value working = ''working''"
| "task_state03_value input_required = ''input-required''"
| "task_state03_value completed = ''completed''"
| "task_state03_value canceled = ''canceled''"
| "task_state03_value failed = ''failed''"
| "task_state03_value rejected = ''rejected''"
| "task_state03_value auth_required = ''auth-required''"
| "task_state03_value unknown = ''unknown''"

fun in03_value :: "in03 \<Rightarrow> string" where
  "in03_value in_cookie = ''cookie''"
| "in03_value in_header = ''header''"
| "in03_value in_query = ''query''"

lemma task_state03_value_inj [simp]: "task_state03_value a = task_state03_value b \<longleftrightarrow> a = b"
  by (cases a; cases b) simp_all

subsection \<open>Parts, messages, artifacts, tasks\<close>

record file_with_bytes =
  fb_bytes :: string
  fb_mime_type :: "string option"
  fb_name :: "string option"

record file_with_uri =
  fu_mime_type :: "string option"
  fu_name :: "string option"
  fu_uri :: string

datatype file03 = FileWithBytes file_with_bytes | FileWithUri file_with_uri

record text_part =
  tp_metadata :: "struct option"
  tp_text :: string

record file_part =
  fp_file :: file03
  fp_metadata :: "struct option"

record data_part =
  dp_data :: struct
  dp_metadata :: "struct option"

datatype part03 = TextPart text_part | FilePart file_part | DataPart data_part

record message03 =
  m3_context_id :: "string option"
  m3_extensions :: "string list option"
  m3_message_id :: string
  m3_metadata :: "struct option"
  m3_parts :: "part03 list"
  m3_reference_task_ids :: "string list option"
  m3_role :: role03
  m3_task_id :: "string option"

record artifact03 =
  a3_artifact_id :: string
  a3_description :: "string option"
  a3_extensions :: "string list option"
  a3_metadata :: "struct option"
  a3_name :: "string option"
  a3_parts :: "part03 list"

record task_status03 =
  s3_message :: "message03 option"
  s3_state :: task_state03
  s3_timestamp :: "string option"

record task03 =
  t3_artifacts :: "artifact03 list option"
  t3_context_id :: string
  t3_history :: "message03 list option"
  t3_id :: string
  t3_metadata :: "struct option"
  t3_status :: task_status03

record artifact_event03 =
  ae3_append :: "bool option"
  ae3_artifact :: artifact03
  ae3_context_id :: string
  ae3_last_chunk :: "bool option"
  ae3_metadata :: "struct option"
  ae3_task_id :: string

record status_event03 =
  se3_context_id :: string
  se3_final :: bool
  se3_metadata :: "struct option"
  se3_status :: task_status03
  se3_task_id :: string

subsection \<open>Push notifications and sending\<close>

record auth_info03 =
  ai3_credentials :: "string option"
  ai3_schemes :: "string list"

record push_config03 =
  pc3_authentication :: "auth_info03 option"
  pc3_id :: "string option"
  pc3_token :: "string option"
  pc3_url :: string

record task_push_config03 =
  tpc3_push_notification_config :: push_config03
  tpc3_task_id :: string

record send_config03 =
  sc3_accepted_output_modes :: "string list option"
  sc3_blocking :: "bool option"
  sc3_history_length :: "int option"
  sc3_push_notification_config :: "push_config03 option"

record send_params03 =
  sp3_configuration :: "send_config03 option"
  sp3_message :: message03
  sp3_metadata :: "struct option"

subsection \<open>Requests and responses\<close>

text \<open>The id of a JSON-RPC request, \<^verbatim>\<open>str | int\<close>; a response may have none.\<close>

datatype rpc_id = IdStr string | IdInt int

record task_query_params =
  tq_history_length :: "int option"
  tq_id :: string
  tq_metadata :: "struct option"

record task_id_params =
  ti_id :: string
  ti_metadata :: "struct option"

record get_push_params =
  gp_id :: string
  gp_metadata :: "struct option"
  gp_push_notification_config_id :: "string option"

record delete_push_params =
  dl_id :: string
  dl_metadata :: "struct option"
  dl_push_notification_config_id :: string

record list_push_params =
  lp_id :: string
  lp_metadata :: "struct option"

datatype push_query = QueryTask task_id_params | QueryConfig get_push_params

text \<open>A request is its id and its parameters.\<close>

record 'p rpc_request =
  rq_id :: rpc_id
  rq_params :: 'p

type_synonym send_request03 = "send_params03 rpc_request"
type_synonym get_task_request03 = "task_query_params rpc_request"
type_synonym cancel_request03 = "task_id_params rpc_request"
type_synonym subscribe_request03 = "task_id_params rpc_request"
type_synonym get_push_request03 = "push_query rpc_request"
type_synonym set_push_request03 = "task_push_config03 rpc_request"
type_synonym delete_push_request03 = "delete_push_params rpc_request"
type_synonym list_push_request03 = "list_push_params rpc_request"

text \<open>The results of a response, and the error that may stand in its place.\<close>

datatype send_result03 = SendTask task03 | SendMessage message03

datatype stream_result03 =
    StreamTask task03 | StreamMessage message03
  | StreamStatus status_event03 | StreamArtifact artifact_event03

record rpc_error =
  re_code :: int
  re_data :: "json option"
  re_message :: "string option"

record 'r rpc_success =
  ok_id :: "rpc_id option"
  ok_result :: 'r

datatype 'r rpc_response = RpcError "rpc_id option" rpc_error | RpcSuccess "'r rpc_success"

subsection \<open>The agent card\<close>

record auth_code_flow =
  ac_authorization_url :: string
  ac_refresh_url :: "string option"
  ac_scopes :: "(string, string) dict"
  ac_token_url :: string

record client_cred_flow =
  cc3_refresh_url :: "string option"
  cc3_scopes :: "(string, string) dict"
  cc3_token_url :: string

record implicit_flow =
  im_authorization_url :: string
  im_refresh_url :: "string option"
  im_scopes :: "(string, string) dict"

record password_flow =
  pw_refresh_url :: "string option"
  pw_scopes :: "(string, string) dict"
  pw_token_url :: string

record oauth_flows03 =
  of_authorization_code :: "auth_code_flow option"
  of_client_credentials :: "client_cred_flow option"
  of_implicit :: "implicit_flow option"
  of_password :: "password_flow option"

record api_key_scheme03 =
  ak3_description :: "string option"
  ak3_in :: in03
  ak3_name :: string

record http_scheme03 =
  ht3_bearer_format :: "string option"
  ht3_description :: "string option"
  ht3_scheme :: string

record oauth2_scheme03 =
  oa3_description :: "string option"
  oa3_flows :: oauth_flows03
  oa3_metadata_url :: "string option"

record oidc_scheme03 =
  oi3_description :: "string option"
  oi3_url :: string

record mtls_scheme03 =
  mt3_description :: "string option"

datatype security_scheme03 =
    APIKeyScheme api_key_scheme03 | HTTPAuthScheme http_scheme03 | OAuth2Scheme oauth2_scheme03
  | OpenIdConnectScheme oidc_scheme03 | MutualTLSScheme mtls_scheme03

type_synonym security03 = "(string, string list) dict"

record interface03 =
  if3_transport :: string
  if3_url :: string

record provider03 =
  pv3_organization :: string
  pv3_url :: string

record extension03 =
  ex3_description :: "string option"
  ex3_params :: "struct option"
  ex3_required :: "bool option"
  ex3_uri :: string

record capabilities03 =
  cp3_extensions :: "extension03 list option"
  cp3_push_notifications :: "bool option"
  cp3_state_transition_history :: "bool option"
  cp3_streaming :: "bool option"

record skill03 =
  sk3_description :: string
  sk3_examples :: "string list option"
  sk3_id :: string
  sk3_input_modes :: "string list option"
  sk3_name :: string
  sk3_output_modes :: "string list option"
  sk3_security :: "security03 list option"
  sk3_tags :: "string list"

record signature03 =
  sg3_header :: "struct option"
  sg3_protected :: string
  sg3_signature :: string

record agent_card03 =
  ca3_additional_interfaces :: "interface03 list option"
  ca3_capabilities :: capabilities03
  ca3_default_input_modes :: "string list"
  ca3_default_output_modes :: "string list"
  ca3_description :: string
  ca3_documentation_url :: "string option"
  ca3_icon_url :: "string option"
  ca3_name :: string
  ca3_preferred_transport :: "string option"
  ca3_protocol_version :: "string option"
  ca3_provider :: "provider03 option"
  ca3_security :: "security03 list option"
  ca3_security_schemes :: "(string, security_scheme03) dict option"
  ca3_signatures :: "signature03 list option"
  ca3_skills :: "skill03 list"
  ca3_supports_authenticated_extended_card :: "bool option"
  ca3_url :: string
  ca3_version :: string

end
