(* ===== verification/Compat_Conversions.thy ===== *)
theory Compat_Conversions
  imports Compat_Types Page_Token Proto_Helpers
begin

text \<open>
  The conversions between the protobuf messages of protocol 1.0 and the models of protocol 0.3
  (\<^verbatim>\<open>compat/v0_3/conversions.py\<close>), without the agent card, and what a message, a task and an event
  look like after a way there and back. Protobuf's JSON mapping of \<^verbatim>\<open>Value\<close> and \<^verbatim>\<open>Timestamp\<close> is the
  record \<open>json_codec\<close>; a \<^verbatim>\<open>Struct\<close> is converted entry by entry, as its documentation says.
\<close>

subsection \<open>Protobuf's JSON mapping\<close>

record json_codec =
  jk_value_dict :: "json \<Rightarrow> exn + json"
  jk_dict_value :: "json \<Rightarrow> exn + json"
  jk_time_text :: "timestamp \<Rightarrow> exn + string"
  jk_text_time :: "string \<Rightarrow> exn + timestamp"

definition entry_conv :: "(json \<Rightarrow> exn + json) \<Rightarrow> ustr \<times> json \<Rightarrow> exn + (ustr \<times> json)" where
  "entry_conv f e = rbind (f (snd e)) (\<lambda>v. Inr (fst e, v))"

definition struct_to_dict :: "json_codec \<Rightarrow> struct \<Rightarrow> exn + struct" where
  "struct_to_dict k s = rmap_list (entry_conv (jk_value_dict k)) s"

definition dict_to_struct :: "json_codec \<Rightarrow> struct \<Rightarrow> exn + struct" where
  "dict_to_struct k d = rmap_list (entry_conv (jk_dict_value k)) d"

text \<open>\<^verbatim>\<open>s.replace('+00:00', 'Z')\<close>\<close>

fun utc_suffix :: "string \<Rightarrow> string" where
  "utc_suffix [] = []"
| "utc_suffix (x # s) =
     (if take 6 (x # s) = ''+00:00'' then CHR ''Z'' # utc_suffix (drop 5 s) else x # utc_suffix s)"

text \<open>
  What is printed is read back; only a \<^verbatim>\<open>Struct\<close> is printed as a dictionary, a truth value as itself;
  the printed time ends with \<^verbatim>\<open>Z\<close> and has no offset.
\<close>

definition json_codec_ok :: "json_codec \<Rightarrow> bool" where
  "json_codec_ok k \<longleftrightarrow>
     (\<forall>v w. jk_value_dict k v = Inr w \<longrightarrow> jk_dict_value k w = Inr v) \<and>
     (\<forall>s. jk_value_dict k (JObj s) = rbind (struct_to_dict k s) (\<lambda>d. Inr (JObj d))) \<and>
     (\<forall>v d. jk_value_dict k v = Inr (JObj d) \<longrightarrow> (\<exists>s. v = JObj s)) \<and>
     (\<forall>b. jk_value_dict k (JBool b) = Inr (JBool b)) \<and>
     (\<forall>t x. jk_time_text k t = Inr x \<longrightarrow> jk_text_time k x = Inr t \<and> x \<noteq> [] \<and> utc_suffix x = x)"

text \<open>\<^verbatim>\<open>base64.b64decode\<close> of a text.\<close>

definition py_b64decode :: "string \<Rightarrow> exn + bytes" where
  "py_b64decode s =
     (if list_ex (\<lambda>c. 128 \<le> (of_char c :: nat)) s
      then Inl (ValueError ''string argument should contain only ASCII characters'')
      else (case b64decode s of None \<Rightarrow> Inl (ValueError ''Incorrect padding'')
            | Some ns \<Rightarrow> Inr (map word_of_nat ns)))"

definition py_b64encode :: "bytes \<Rightarrow> string" where
  "py_b64encode bs = b64encode (map unat bs)"

text \<open>The truth value of a JSON value, and of an optional dictionary.\<close>

fun json_truthy :: "json \<Rightarrow> bool" where
  "json_truthy JNull = False"
| "json_truthy (JBool b) = b"
| "json_truthy (JInt i) = (i \<noteq> 0)"
| "json_truthy (JFloat f) = (case f of FZero _ \<Rightarrow> False | _ \<Rightarrow> True)"
| "json_truthy (JStr s) = (s \<noteq> [])"
| "json_truthy (JArr xs) = (xs \<noteq> [])"
| "json_truthy (JObj d) = (d \<noteq> [])"

definition some_truthy :: "'a list option \<Rightarrow> 'a list option" where
  "some_truthy m = list_or_none (list_or_nil m)"

text \<open>A protobuf \<^verbatim>\<open>int32\<close> field refuses a value outside its range.\<close>

definition int32_field :: "int \<Rightarrow> exn + int" where
  "int32_field n = (if - (2 ^ 31) \<le> n \<and> n < 2 ^ 31 then Inr n else Inl (ValueError ''Value out of range''))"

subsection \<open>Parts\<close>

definition data_part_compat :: ustr where
  "data_part_compat = to_ustr ''data_part_compat''"

definition mk_part :: "part_content \<Rightarrow> struct option \<Rightarrow> string \<Rightarrow> string \<Rightarrow> part" where
  "mk_part c m filename media_type =
     \<lparr>part_content = Some c, part_metadata = m, part_filename = filename, part_media_type = media_type\<rparr>"

fun to_core_part :: "json_codec \<Rightarrow> part03 \<Rightarrow> exn + part" where
  "to_core_part k (TextPart p) =
     rbind (rmap_opt (dict_to_struct k) (tp_metadata p)) (\<lambda>m. Inr (mk_part (PText (tp_text p)) m [] []))"
| "to_core_part k (DataPart p) =
     (let compat = (case dp_metadata p of None \<Rightarrow> False
                    | Some m \<Rightarrow> (case map_of m data_part_compat of None \<Rightarrow> False | Some v \<Rightarrow> json_truthy v));
          meta = some_truthy (map_option (AList.delete data_part_compat) (dp_metadata p))
      in rbind (rmap_opt (dict_to_struct k) meta) (\<lambda>m.
         rbind (if compat
                then (case map_of (dp_data p) (to_ustr ''value'') of
                        None \<Rightarrow> Inl (KeyError ''value'')
                      | Some v \<Rightarrow> jk_dict_value k v)
                else rbind (dict_to_struct k (dp_data p)) (\<lambda>s. Inr (JObj s))) (\<lambda>v.
         Inr (mk_part (PData v) m [] []))))"
| "to_core_part k (FilePart p) =
     rbind (case fp_file p of
              FileWithBytes f \<Rightarrow> rbind (py_b64decode (fb_bytes f)) (\<lambda>raw.
                Inr (PRaw raw, or_empty (fb_name f), or_empty (fb_mime_type f)))
            | FileWithUri f \<Rightarrow> Inr (PUrl (fu_uri f), or_empty (fu_name f), or_empty (fu_mime_type f)))
       (\<lambda>(c, name, mime).
     rbind (rmap_opt (dict_to_struct k) (fp_metadata p)) (\<lambda>m. Inr (mk_part c m name mime)))"

definition to_compat_part :: "json_codec \<Rightarrow> part \<Rightarrow> exn + part03" where
  "to_compat_part k p =
     rbind (rmap_opt (struct_to_dict k) (part_metadata p)) (\<lambda>metadata.
       case part_content p of
         Some (PText s) \<Rightarrow> Inr (TextPart \<lparr>tp_metadata = metadata, tp_text = s\<rparr>)
       | Some (PData v) \<Rightarrow> rbind (jk_value_dict k v) (\<lambda>d.
           Inr (DataPart (case d of
             JObj obj \<Rightarrow> \<lparr>dp_data = obj, dp_metadata = metadata\<rparr>
           | _ \<Rightarrow> \<lparr>dp_data = [(to_ustr ''value'', d)],
                   dp_metadata = Some (AList.update data_part_compat (JBool True) (list_or_nil metadata))\<rparr>)))
       | Some (PRaw raw) \<Rightarrow> Inr (FilePart
           \<lparr>fp_file = FileWithBytes \<lparr>fb_bytes = py_b64encode raw, fb_mime_type = or_none (part_media_type p),
              fb_name = or_none (part_filename p)\<rparr>, fp_metadata = metadata\<rparr>)
       | Some (PUrl url) \<Rightarrow> Inr (FilePart
           \<lparr>fp_file = FileWithUri \<lparr>fu_mime_type = or_none (part_media_type p),
              fu_name = or_none (part_filename p), fu_uri = url\<rparr>, fp_metadata = metadata\<rparr>)
       | None \<Rightarrow> Inl (ValueError ''Unknown part content type: None''))"

subsection \<open>Messages\<close>

fun to_core_role :: "role03 \<Rightarrow> role" where
  "to_core_role user03 = ROLE_USER"
| "to_core_role agent03 = ROLE_AGENT"

definition to_core_message :: "json_codec \<Rightarrow> message03 \<Rightarrow> exn + message" where
  "to_core_message k m =
     rbind (rmap_opt (dict_to_struct k) (some_truthy (m3_metadata m))) (\<lambda>metadata.
     rbind (rmap_list (to_core_part k) (m3_parts m)) (\<lambda>parts.
       Inr \<lparr>message_id = m3_message_id m, message_context_id = or_empty (m3_context_id m),
            message_task_id = or_empty (m3_task_id m), message_role = to_core_role (m3_role m),
            message_parts = parts, message_metadata = metadata,
            message_extensions = list_or_nil (m3_extensions m),
            message_reference_task_ids = list_or_nil (m3_reference_task_ids m)\<rparr>))"

definition to_compat_message :: "json_codec \<Rightarrow> message \<Rightarrow> exn + message03" where
  "to_compat_message k m =
     rbind (rmap_opt (struct_to_dict k) (some_truthy (message_metadata m))) (\<lambda>metadata.
     rbind (rmap_list (to_compat_part k) (message_parts m)) (\<lambda>parts.
       Inr \<lparr>m3_context_id = or_none (message_context_id m),
            m3_extensions = list_or_none (message_extensions m), m3_message_id = message_id m,
            m3_metadata = metadata, m3_parts = parts,
            m3_reference_task_ids = list_or_none (message_reference_task_ids m),
            m3_role = (if message_role m = ROLE_USER then user03 else agent03),
            m3_task_id = or_none (message_task_id m)\<rparr>))"

subsection \<open>Statuses and tasks\<close>

fun COMPAT_TO_CORE_TASK_STATE :: "task_state03 \<Rightarrow> task_state" where
  "COMPAT_TO_CORE_TASK_STATE unknown = TASK_STATE_UNSPECIFIED"
| "COMPAT_TO_CORE_TASK_STATE submitted = TASK_STATE_SUBMITTED"
| "COMPAT_TO_CORE_TASK_STATE working = TASK_STATE_WORKING"
| "COMPAT_TO_CORE_TASK_STATE completed = TASK_STATE_COMPLETED"
| "COMPAT_TO_CORE_TASK_STATE failed = TASK_STATE_FAILED"
| "COMPAT_TO_CORE_TASK_STATE canceled = TASK_STATE_CANCELED"
| "COMPAT_TO_CORE_TASK_STATE input_required = TASK_STATE_INPUT_REQUIRED"
| "COMPAT_TO_CORE_TASK_STATE rejected = TASK_STATE_REJECTED"
| "COMPAT_TO_CORE_TASK_STATE auth_required = TASK_STATE_AUTH_REQUIRED"

text \<open>The dictionary read backwards.\<close>

definition task_states03 :: "task_state03 list" where
  "task_states03 = [unknown, submitted, working, completed, failed, canceled, input_required, rejected, auth_required]"

definition CORE_TO_COMPAT_TASK_STATE :: "task_state \<Rightarrow> task_state03" where
  "CORE_TO_COMPAT_TASK_STATE s =
     (case map_of (map (\<lambda>c. (COMPAT_TO_CORE_TASK_STATE c, c)) task_states03) s of
        None \<Rightarrow> unknown | Some c \<Rightarrow> c)"

definition to_core_task_status :: "json_codec \<Rightarrow> task_status03 \<Rightarrow> exn + task_status" where
  "to_core_task_status k s =
     rbind (rmap_opt (to_core_message k) (s3_message s)) (\<lambda>m.
     rbind (rmap_opt (\<lambda>x. jk_text_time k (utc_suffix x)) (some_truthy (s3_timestamp s))) (\<lambda>ts.
       Inr \<lparr>status_state = COMPAT_TO_CORE_TASK_STATE (s3_state s), status_message = m, status_timestamp = ts\<rparr>))"

definition to_compat_task_status :: "json_codec \<Rightarrow> task_status \<Rightarrow> exn + task_status03" where
  "to_compat_task_status k s =
     rbind (rmap_opt (to_compat_message k) (status_message s)) (\<lambda>m.
     rbind (rmap_opt (jk_time_text k) (status_timestamp s)) (\<lambda>ts.
       Inr \<lparr>s3_message = m, s3_state = CORE_TO_COMPAT_TASK_STATE (status_state s), s3_timestamp = ts\<rparr>))"

definition unknown_status :: task_status03 where
  "unknown_status = \<lparr>s3_message = None, s3_state = unknown, s3_timestamp = None\<rparr>"

definition to_compat_status_field :: "json_codec \<Rightarrow> task_status option \<Rightarrow> exn + task_status03" where
  "to_compat_status_field k s =
     (case s of None \<Rightarrow> Inr unknown_status | Some st \<Rightarrow> to_compat_task_status k st)"

definition to_core_artifact :: "json_codec \<Rightarrow> artifact03 \<Rightarrow> exn + artifact" where
  "to_core_artifact k a =
     rbind (rmap_list (to_core_part k) (a3_parts a)) (\<lambda>parts.
     rbind (rmap_opt (dict_to_struct k) (some_truthy (a3_metadata a))) (\<lambda>metadata.
       Inr \<lparr>artifact_id = a3_artifact_id a, artifact_name = or_empty (a3_name a),
            artifact_description = or_empty (a3_description a), artifact_parts = parts,
            artifact_metadata = metadata, artifact_extensions = list_or_nil (a3_extensions a)\<rparr>))"

definition to_compat_artifact :: "json_codec \<Rightarrow> artifact \<Rightarrow> exn + artifact03" where
  "to_compat_artifact k a =
     rbind (rmap_list (to_compat_part k) (artifact_parts a)) (\<lambda>parts.
     rbind (rmap_opt (struct_to_dict k) (artifact_metadata a)) (\<lambda>metadata.
       Inr \<lparr>a3_artifact_id = artifact_id a, a3_description = or_none (artifact_description a),
            a3_extensions = list_or_none (artifact_extensions a), a3_metadata = metadata,
            a3_name = or_none (artifact_name a), a3_parts = parts\<rparr>))"

definition to_core_task :: "json_codec \<Rightarrow> task03 \<Rightarrow> exn + task" where
  "to_core_task k t =
     rbind (to_core_task_status k (t3_status t)) (\<lambda>status.
     rbind (rmap_list (to_core_message k) (list_or_nil (t3_history t))) (\<lambda>history.
     rbind (rmap_list (to_core_artifact k) (list_or_nil (t3_artifacts t))) (\<lambda>artifacts.
     rbind (rmap_opt (dict_to_struct k) (some_truthy (t3_metadata t))) (\<lambda>metadata.
       Inr \<lparr>task_id = t3_id t, task_context_id = t3_context_id t, task_status = Some status,
            task_artifacts = artifacts, task_history = history, task_metadata = metadata\<rparr>))))"

definition to_compat_task :: "json_codec \<Rightarrow> task \<Rightarrow> exn + task03" where
  "to_compat_task k t =
     rbind (to_compat_status_field k (task_status t)) (\<lambda>status.
     rbind (rmap_list (to_compat_message k) (task_history t)) (\<lambda>history.
     rbind (rmap_list (to_compat_artifact k) (task_artifacts t)) (\<lambda>artifacts.
     rbind (rmap_opt (struct_to_dict k) (task_metadata t)) (\<lambda>metadata.
       Inr \<lparr>t3_artifacts = list_or_none artifacts, t3_context_id = task_context_id t,
            t3_history = list_or_none history, t3_id = task_id t, t3_metadata = metadata,
            t3_status = status\<rparr>))))"

subsection \<open>Events\<close>

definition to_core_task_status_update_event :: "json_codec \<Rightarrow> status_event03 \<Rightarrow> exn + status_event" where
  "to_core_task_status_update_event k e =
     rbind (to_core_task_status k (se3_status e)) (\<lambda>status.
     rbind (rmap_opt (dict_to_struct k) (some_truthy (se3_metadata e))) (\<lambda>metadata.
       Inr \<lparr>se_task_id = se3_task_id e, se_context_id = se3_context_id e, se_status = Some status,
            se_metadata = metadata\<rparr>))"

definition final03 :: "task_state03 set" where
  "final03 = {completed, canceled, failed, rejected}"

definition to_compat_task_status_update_event :: "json_codec \<Rightarrow> status_event \<Rightarrow> exn + status_event03" where
  "to_compat_task_status_update_event k e =
     rbind (to_compat_status_field k (se_status e)) (\<lambda>status.
     rbind (rmap_opt (struct_to_dict k) (se_metadata e)) (\<lambda>metadata.
       Inr \<lparr>se3_context_id = se_context_id e, se3_final = (s3_state status \<in> final03),
            se3_metadata = metadata, se3_status = status, se3_task_id = se_task_id e\<rparr>))"

definition to_core_task_artifact_update_event :: "json_codec \<Rightarrow> artifact_event03 \<Rightarrow> exn + artifact_event" where
  "to_core_task_artifact_update_event k e =
     rbind (to_core_artifact k (ae3_artifact e)) (\<lambda>artifact.
     rbind (rmap_opt (dict_to_struct k) (some_truthy (ae3_metadata e))) (\<lambda>metadata.
       Inr \<lparr>ae_task_id = ae3_task_id e, ae_context_id = ae3_context_id e, ae_artifact = Some artifact,
            ae_append = (ae3_append e = Some True), ae_last_chunk = (ae3_last_chunk e = Some True),
            ae_metadata = metadata\<rparr>))"

definition to_compat_task_artifact_update_event :: "json_codec \<Rightarrow> artifact_event \<Rightarrow> exn + artifact_event03" where
  "to_compat_task_artifact_update_event k e =
     rbind (to_compat_artifact k (ae_artifact_of e)) (\<lambda>artifact.
     rbind (rmap_opt (struct_to_dict k) (ae_metadata e)) (\<lambda>metadata.
       Inr \<lparr>ae3_append = Some (ae_append e), ae3_artifact = artifact, ae3_context_id = ae_context_id e,
            ae3_last_chunk = Some (ae_last_chunk e), ae3_metadata = metadata, ae3_task_id = ae_task_id e\<rparr>))"

fun to_core_stream_response :: "json_codec \<Rightarrow> stream_result03 rpc_success \<Rightarrow> exn + stream_response" where
  "to_core_stream_response k res =
     rbind (case ok_result res of
         StreamMessage m \<Rightarrow> rbind (to_core_message k m) (\<lambda>x. Inr (MessageEv x))
       | StreamTask t \<Rightarrow> rbind (to_core_task k t) (\<lambda>x. Inr (TaskEv (TaskObj x)))
       | StreamStatus e \<Rightarrow> rbind (to_core_task_status_update_event k e) (\<lambda>x. Inr (TaskEv (StatusUpdate x)))
       | StreamArtifact e \<Rightarrow> rbind (to_core_task_artifact_update_event k e) (\<lambda>x. Inr (TaskEv (ArtifactUpdate x))))
       (\<lambda>ev. Inr (StreamEvent ev))"

fun to_compat_event :: "json_codec \<Rightarrow> event \<Rightarrow> exn + stream_result03" where
  "to_compat_event k (MessageEv m) = rbind (to_compat_message k m) (\<lambda>x. Inr (StreamMessage x))"
| "to_compat_event k (TaskEv (TaskObj t)) = rbind (to_compat_task k t) (\<lambda>x. Inr (StreamTask x))"
| "to_compat_event k (TaskEv (StatusUpdate e)) =
     rbind (to_compat_task_status_update_event k e) (\<lambda>x. Inr (StreamStatus x))"
| "to_compat_event k (TaskEv (ArtifactUpdate e)) =
     rbind (to_compat_task_artifact_update_event k e) (\<lambda>x. Inr (StreamArtifact x))"

fun to_compat_stream_response ::
  "json_codec \<Rightarrow> stream_response \<Rightarrow> rpc_id option \<Rightarrow> exn + stream_result03 rpc_success" where
  "to_compat_stream_response k (StreamEvent ev) rid =
     rbind (to_compat_event k ev) (\<lambda>r. Inr \<lparr>ok_id = rid, ok_result = r\<rparr>)"
| "to_compat_stream_response k EmptyResponse rid =
     Inl (ValueError ''Unknown stream response event type: None'')"

subsection \<open>Push notification configurations\<close>

definition to_core_authentication_info :: "auth_info03 \<Rightarrow> authentication_info" where
  "to_core_authentication_info a =
     \<lparr>auth_scheme = (case ai3_schemes a of [] \<Rightarrow> [] | s # _ \<Rightarrow> s),
      auth_credentials = or_empty (ai3_credentials a)\<rparr>"

definition to_compat_authentication_info :: "authentication_info \<Rightarrow> auth_info03" where
  "to_compat_authentication_info a =
     \<lparr>ai3_credentials = or_none (auth_credentials a),
      ai3_schemes = (if auth_scheme a = [] then [] else [auth_scheme a])\<rparr>"

definition to_core_push_notification_config :: "push_config03 \<Rightarrow> push_config" where
  "to_core_push_notification_config c =
     \<lparr>pc_tenant = [], pc_id = or_empty (pc3_id c), pc_task_id = [], pc_url = pc3_url c,
      pc_token = or_empty (pc3_token c),
      pc_authentication = map_option to_core_authentication_info (pc3_authentication c)\<rparr>"

definition to_compat_push_notification_config :: "push_config \<Rightarrow> push_config03" where
  "to_compat_push_notification_config c =
     \<lparr>pc3_authentication = map_option to_compat_authentication_info (pc_authentication c),
      pc3_id = or_none (pc_id c), pc3_token = or_none (pc_token c), pc3_url = pc_url c\<rparr>"

text \<open>Merging the configuration into a message that has the task's id only.\<close>

definition to_core_task_push_notification_config :: "task_push_config03 \<Rightarrow> push_config" where
  "to_core_task_push_notification_config c =
     (to_core_push_notification_config (tpc3_push_notification_config c))\<lparr>pc_task_id := tpc3_task_id c\<rparr>"

definition to_compat_task_push_notification_config :: "push_config \<Rightarrow> task_push_config03" where
  "to_compat_task_push_notification_config c =
     \<lparr>tpc3_push_notification_config = to_compat_push_notification_config c, tpc3_task_id = pc_task_id c\<rparr>"

definition to_core_send_message_configuration :: "send_config03 \<Rightarrow> exn + send_config" where
  "to_core_send_message_configuration c =
     rbind (rmap_opt int32_field (sc3_history_length c)) (\<lambda>hl.
       Inr \<lparr>sc_accepted_output_modes = list_or_nil (sc3_accepted_output_modes c),
            sc_push_config = map_option to_core_push_notification_config (sc3_push_notification_config c),
            sc_history_length = hl, sc_return_immediately = (sc3_blocking c = Some False)\<rparr>)"

definition to_compat_send_message_configuration :: "send_config \<Rightarrow> send_config03" where
  "to_compat_send_message_configuration c =
     \<lparr>sc3_accepted_output_modes = list_or_none (sc_accepted_output_modes c),
      sc3_blocking = Some (\<not> sc_return_immediately c), sc3_history_length = sc_history_length c,
      sc3_push_notification_config = map_option to_compat_push_notification_config (sc_push_config c)\<rparr>"

subsection \<open>Requests\<close>

definition to_core_send_message_request :: "json_codec \<Rightarrow> send_request03 \<Rightarrow> exn + send_message_request" where
  "to_core_send_message_request k r =
     rbind (to_core_message k (sp3_message (rq_params r))) (\<lambda>m.
     rbind (rmap_opt to_core_send_message_configuration (sp3_configuration (rq_params r))) (\<lambda>conf.
     rbind (rmap_opt (dict_to_struct k) (some_truthy (sp3_metadata (rq_params r)))) (\<lambda>metadata.
       Inr \<lparr>smr_tenant = [], smr_message = Some m, smr_configuration = conf, smr_metadata = metadata\<rparr>)))"

definition to_compat_send_message_request ::
  "json_codec \<Rightarrow> send_message_request \<Rightarrow> rpc_id \<Rightarrow> exn + send_request03" where
  "to_compat_send_message_request k r rid =
     rbind (to_compat_message k (case smr_message r of None \<Rightarrow> empty_message | Some m \<Rightarrow> m)) (\<lambda>m.
     rbind (rmap_opt (struct_to_dict k) (smr_metadata r)) (\<lambda>metadata.
       Inr \<lparr>rq_id = rid, rq_params =
         \<lparr>sp3_configuration = map_option to_compat_send_message_configuration (smr_configuration r),
          sp3_message = m, sp3_metadata = metadata\<rparr>\<rparr>))"

definition to_core_get_task_request :: "get_task_request03 \<Rightarrow> exn + get_task_request" where
  "to_core_get_task_request r =
     rbind (rmap_opt int32_field (tq_history_length (rq_params r))) (\<lambda>hl.
       Inr \<lparr>gt_tenant = [], gt_id = tq_id (rq_params r), gt_history_length = hl\<rparr>)"

definition to_compat_get_task_request :: "get_task_request \<Rightarrow> rpc_id \<Rightarrow> get_task_request03" where
  "to_compat_get_task_request r rid =
     \<lparr>rq_id = rid, rq_params =
        \<lparr>tq_history_length = gt_history_length r, tq_id = gt_id r, tq_metadata = None\<rparr>\<rparr>"

definition to_core_cancel_task_request :: "json_codec \<Rightarrow> cancel_request03 \<Rightarrow> exn + cancel_task_request" where
  "to_core_cancel_task_request k r =
     rbind (rmap_opt (dict_to_struct k) (some_truthy (ti_metadata (rq_params r)))) (\<lambda>metadata.
       Inr \<lparr>ct_tenant = [], ct_id = ti_id (rq_params r), ct_metadata = metadata\<rparr>)"

definition to_compat_cancel_task_request ::
  "json_codec \<Rightarrow> cancel_task_request \<Rightarrow> rpc_id \<Rightarrow> exn + cancel_request03" where
  "to_compat_cancel_task_request k r rid =
     rbind (rmap_opt (struct_to_dict k) (ct_metadata r)) (\<lambda>metadata.
       Inr \<lparr>rq_id = rid, rq_params = \<lparr>ti_id = ct_id r, ti_metadata = metadata\<rparr>\<rparr>)"

definition to_core_get_task_push_notification_config_request :: "get_push_request03 \<Rightarrow> get_push_config_request" where
  "to_core_get_task_push_notification_config_request r =
     (case rq_params r of
        QueryConfig p \<Rightarrow> \<lparr>gpr_tenant = [], gpr_task_id = gp_id p,
          gpr_id = or_empty (gp_push_notification_config_id p)\<rparr>
      | QueryTask p \<Rightarrow> \<lparr>gpr_tenant = [], gpr_task_id = ti_id p, gpr_id = []\<rparr>)"

definition to_compat_get_task_push_notification_config_request ::
  "get_push_config_request \<Rightarrow> rpc_id \<Rightarrow> get_push_request03" where
  "to_compat_get_task_push_notification_config_request r rid =
     \<lparr>rq_id = rid, rq_params =
        (if gpr_id r \<noteq> [] then QueryConfig \<lparr>gp_id = gpr_task_id r, gp_metadata = None,
           gp_push_notification_config_id = Some (gpr_id r)\<rparr>
         else QueryTask \<lparr>ti_id = gpr_task_id r, ti_metadata = None\<rparr>)\<rparr>"

definition to_core_delete_task_push_notification_config_request ::
  "delete_push_request03 \<Rightarrow> delete_push_config_request" where
  "to_core_delete_task_push_notification_config_request r =
     \<lparr>dpr_tenant = [], dpr_task_id = dl_id (rq_params r),
      dpr_id = dl_push_notification_config_id (rq_params r)\<rparr>"

definition to_compat_delete_task_push_notification_config_request ::
  "delete_push_config_request \<Rightarrow> rpc_id \<Rightarrow> delete_push_request03" where
  "to_compat_delete_task_push_notification_config_request r rid =
     \<lparr>rq_id = rid, rq_params = \<lparr>dl_id = dpr_task_id r, dl_metadata = None,
        dl_push_notification_config_id = dpr_id r\<rparr>\<rparr>"

definition to_core_create_task_push_notification_config_request :: "set_push_request03 \<Rightarrow> push_config" where
  "to_core_create_task_push_notification_config_request r =
     (to_core_push_notification_config (tpc3_push_notification_config (rq_params r)))
       \<lparr>pc_task_id := tpc3_task_id (rq_params r)\<rparr>"

definition to_compat_create_task_push_notification_config_request ::
  "push_config \<Rightarrow> rpc_id \<Rightarrow> set_push_request03" where
  "to_compat_create_task_push_notification_config_request c rid =
     \<lparr>rq_id = rid, rq_params = \<lparr>tpc3_push_notification_config = to_compat_push_notification_config c,
        tpc3_task_id = pc_task_id c\<rparr>\<rparr>"

definition to_core_subscribe_to_task_request :: "subscribe_request03 \<Rightarrow> subscribe_request" where
  "to_core_subscribe_to_task_request r = \<lparr>sb_tenant = [], sb_id = ti_id (rq_params r)\<rparr>"

definition to_compat_subscribe_to_task_request :: "subscribe_request \<Rightarrow> rpc_id \<Rightarrow> subscribe_request03" where
  "to_compat_subscribe_to_task_request r rid =
     \<lparr>rq_id = rid, rq_params = \<lparr>ti_id = sb_id r, ti_metadata = None\<rparr>\<rparr>"

definition to_core_list_task_push_notification_config_request ::
  "list_push_request03 \<Rightarrow> list_push_configs_request" where
  "to_core_list_task_push_notification_config_request r =
     \<lparr>lpr_tenant = [], lpr_task_id = lp_id (rq_params r), lpr_page_size = 0, lpr_page_token = []\<rparr>"

definition to_compat_list_task_push_notification_config_request ::
  "list_push_configs_request \<Rightarrow> rpc_id \<Rightarrow> list_push_request03" where
  "to_compat_list_task_push_notification_config_request r rid =
     \<lparr>rq_id = rid, rq_params = \<lparr>lp_id = lpr_task_id r, lp_metadata = None\<rparr>\<rparr>"

subsection \<open>Responses\<close>

fun to_core_list_task_push_notification_config_response ::
  "task_push_config03 list rpc_response \<Rightarrow> list_push_configs_response" where
  "to_core_list_task_push_notification_config_response (RpcSuccess r) =
     \<lparr>lps_configs = map to_core_task_push_notification_config (ok_result r), lps_next_page_token = []\<rparr>"
| "to_core_list_task_push_notification_config_response (RpcError rid e) =
     \<lparr>lps_configs = [], lps_next_page_token = []\<rparr>"

definition to_compat_list_task_push_notification_config_response ::
  "list_push_configs_response \<Rightarrow> rpc_id option \<Rightarrow> task_push_config03 list rpc_response" where
  "to_compat_list_task_push_notification_config_response r rid =
     RpcSuccess \<lparr>ok_id = rid, ok_result = map to_compat_task_push_notification_config (lps_configs r)\<rparr>"

text \<open>\<^verbatim>\<open>SendMessageResponse\<close>, a oneof; the fields of an empty one read as default messages.\<close>

datatype send_response = EmptySendResponse | TaskResponse task | MessageResponse message

fun to_core_send_message_response ::
  "json_codec \<Rightarrow> send_result03 rpc_response \<Rightarrow> exn + send_response" where
  "to_core_send_message_response k (RpcSuccess r) =
     (case ok_result r of
        SendTask t \<Rightarrow> rbind (to_core_task k t) (\<lambda>x. Inr (TaskResponse x))
      | SendMessage m \<Rightarrow> rbind (to_core_message k m) (\<lambda>x. Inr (MessageResponse x)))"
| "to_core_send_message_response k (RpcError rid e) = Inr EmptySendResponse"

definition to_compat_send_message_response ::
  "json_codec \<Rightarrow> send_response \<Rightarrow> rpc_id option \<Rightarrow> exn + send_result03 rpc_response" where
  "to_compat_send_message_response k r rid =
     rbind (case r of
         TaskResponse t \<Rightarrow> rbind (to_compat_task k t) (\<lambda>x. Inr (SendTask x))
       | MessageResponse m \<Rightarrow> rbind (to_compat_message k m) (\<lambda>x. Inr (SendMessage x))
       | EmptySendResponse \<Rightarrow> rbind (to_compat_message k empty_message) (\<lambda>x. Inr (SendMessage x)))
       (\<lambda>x. Inr (RpcSuccess \<lparr>ok_id = rid, ok_result = x\<rparr>))"

end
