(* ===== verification/Compat_Laws.thy ===== *)
theory Compat_Laws
  imports Compat_Conversions
begin

text \<open>
  What survives the conversion of a message, task or event of protocol 1.0 to protocol 0.3 and
  back: the normal forms \<open>part_normal\<close>, \<open>message_normal\<close>, \<dots> say what is lost, and the lemmas
  ending in \<open>_back\<close> that nothing else is. The only values that do not come back are data parts
  with a dictionary whose metadata has the reserved key (\<open>reserved_free\<close>).
\<close>

subsection \<open>The JSON mapping\<close>

lemma codec_value_back: "json_codec_ok k \<Longrightarrow> jk_value_dict k v = Inr w \<Longrightarrow> jk_dict_value k w = Inr v"
  by (simp add: json_codec_ok_def)

lemma codec_value_obj: "json_codec_ok k \<Longrightarrow> jk_value_dict k v = Inr (JObj d) \<Longrightarrow> \<exists>s. v = JObj s"
  unfolding json_codec_ok_def by blast

lemma codec_obj: "json_codec_ok k \<Longrightarrow> jk_value_dict k (JObj s) = rbind (struct_to_dict k s) (\<lambda>d. Inr (JObj d))"
  by (simp add: json_codec_ok_def)

lemma codec_time: "json_codec_ok k \<Longrightarrow> jk_time_text k t = Inr x \<Longrightarrow>
    jk_text_time k x = Inr t \<and> x \<noteq> [] \<and> utc_suffix x = x"
  by (simp add: json_codec_ok_def)

lemma struct_back: "json_codec_ok k \<Longrightarrow> struct_to_dict k s = Inr d \<Longrightarrow> dict_to_struct k d = Inr s"
  unfolding struct_to_dict_def dict_to_struct_def
  by (drule rmap_list_back [where g = "entry_conv (jk_dict_value k)" and n = "\<lambda>x. x"])
     (auto simp: entry_conv_def codec_value_back)

lemma struct_to_dict_simps [simp]:
  "struct_to_dict k [] = Inr []"
  "struct_to_dict k ((x, v) # s) =
     rbind (jk_value_dict k v) (\<lambda>w. rbind (struct_to_dict k s) (\<lambda>d. Inr ((x, w) # d)))"
  by (auto simp: struct_to_dict_def entry_conv_def rbind_def split: sum.splits)

lemma struct_to_dict_delete:
  "struct_to_dict k s = Inr d \<Longrightarrow> struct_to_dict k (AList.delete x s) = Inr (AList.delete x d)"
  by (induction s arbitrary: d) auto

lemma struct_to_dict_Nil: "struct_to_dict k s = Inr d \<Longrightarrow> d = [] \<longleftrightarrow> s = []"
  by (cases s) auto

lemma struct_to_dict_keys: "struct_to_dict k s = Inr d \<Longrightarrow> map_of d x = None \<longleftrightarrow> map_of s x = None"
  by (induction s arbitrary: d) auto

lemma some_truthy_simps [simp]:
  "some_truthy None = None" "some_truthy (Some []) = None" "some_truthy (Some (x # xs)) = Some (x # xs)"
  "some_truthy (list_or_none xs) = list_or_none xs"
  by (simp_all add: some_truthy_def)

lemma some_truthy_idem [simp]: "some_truthy (some_truthy m) = some_truthy m"
  by (simp add: some_truthy_def)

lemma some_truthy_eq: "some_truthy (Some xs) = (if xs = [] then None else Some xs)"
  by (simp add: some_truthy_def list_or_none_def)

lemma meta_back:
  assumes "json_codec_ok k" "rmap_opt (struct_to_dict k) m = Inr d"
  shows "rmap_opt (dict_to_struct k) d = Inr m"
    "rmap_opt (dict_to_struct k) (some_truthy d) = Inr (some_truthy m)"
  using assms by (cases m; auto simp: struct_back struct_to_dict_Nil some_truthy_eq split: sum.splits if_splits)+

lemma meta_truthy_back:
  assumes "json_codec_ok k" "rmap_opt (struct_to_dict k) (some_truthy m) = Inr d"
  shows "rmap_opt (dict_to_struct k) (some_truthy d) = Inr (some_truthy m)"
  using meta_back(2) [OF assms] by simp

subsection \<open>Base64 of bytes\<close>

lemma b64_char_ascii: "n < 64 \<Longrightarrow> (of_char (b64_char n) :: nat) < 128"
proof -
  have "list_all (\<lambda>c. (of_char c :: nat) < 128) b64_alphabet" by code_simp
  moreover assume "n < 64"
  ultimately show ?thesis by (simp add: b64_char_def list_all_length length_b64_alphabet)
qed

lemma b64encode_ascii:
  "(\<And>b. b \<in> set bs \<Longrightarrow> b < 256) \<Longrightarrow> list_all (\<lambda>c. (of_char c :: nat) < 128) (b64encode bs)"
proof (induction bs rule: b64encode.induct)
  case (4 a b c rest)
  have "a < 256" "b < 256" "c < 256" using "4.prems" by auto
  then have "a div 4 < 64" "a mod 4 * 16 + b div 16 < 64" "b mod 16 * 4 + c div 64 < 64" "c mod 64 < 64"
    by auto
  moreover have "list_all (\<lambda>c. (of_char c :: nat) < 128) (b64encode rest)"
    by (rule "4.IH") (use "4.prems" in auto)
  ultimately show ?case by (simp add: b64_char_ascii)
next
  case (3 a b)
  have "a < 256" "b < 256" using "3.prems" by auto
  then have "a div 4 < 64" "a mod 4 * 16 + b div 16 < 64" by auto
  then show ?case by (simp add: b64_char_ascii)
qed (auto simp: b64_char_ascii)

lemma b64_bytes_back [simp]: "py_b64decode (py_b64encode bs) = Inr bs"
proof -
  have small: "\<And>b. b \<in> set (map unat bs) \<Longrightarrow> b < 256"
  proof -
    fix b assume "b \<in> set (map unat bs)"
    then obtain w :: byte where "b = unat w" by auto
    moreover have "unat w < 2 ^ LENGTH(8)" by (rule unsigned_less)
    ultimately show "b < 256" by simp
  qed
  have "list_all (\<lambda>c. (of_char c :: nat) < 128) (b64encode (map unat bs))"
    by (rule b64encode_ascii) (rule small)
  then have "\<not> list_ex (\<lambda>c. 128 \<le> (of_char c :: nat)) (b64encode (map unat bs))"
    by (auto simp: list_all_iff list_ex_iff)
  moreover have "b64decode (b64encode (map unat bs)) = Some (map unat bs)"
    by (rule b64_roundtrip) (rule small)
  ultimately show ?thesis
    by (simp add: py_b64decode_def py_b64encode_def comp_def)
qed

subsection \<open>Parts\<close>

definition reserved_free :: "part \<Rightarrow> bool" where
  "reserved_free p =
     (case part_content p of
        Some (PData (JObj d)) \<Rightarrow> map_of (list_or_nil (part_metadata p)) data_part_compat = None
      | _ \<Rightarrow> True)"

definition part_normal :: "part \<Rightarrow> part" where
  "part_normal p =
     (case part_content p of
        Some (PText s) \<Rightarrow> p\<lparr>part_filename := [], part_media_type := []\<rparr>
      | Some (PData v) \<Rightarrow>
          p\<lparr>part_metadata := some_truthy (map_option (AList.delete data_part_compat) (part_metadata p)),
            part_filename := [], part_media_type := []\<rparr>
      | _ \<Rightarrow> p)"

lemma data_value_back:
  assumes k: "json_codec_ok k" and m: "rmap_opt (struct_to_dict k) (part_metadata p) = Inr d"
    and v: "jk_value_dict k v = Inr w" and w: "\<nexists>obj. w = JObj obj"
  shows "to_core_part k (DataPart \<lparr>dp_data = [(to_ustr ''value'', w)],
      dp_metadata = Some (AList.update data_part_compat (JBool True) (list_or_nil d))\<rparr>) =
    Inr (mk_part (PData v) (some_truthy (map_option (AList.delete data_part_compat) (part_metadata p))) [] [])"
proof -
  have "rmap_opt (struct_to_dict k) (map_option (AList.delete data_part_compat) (part_metadata p)) =
      Inr (map_option (AList.delete data_part_compat) d)"
    using m by (cases "part_metadata p") (auto simp: struct_to_dict_delete split: sum.splits)
  moreover have "some_truthy (Some (AList.delete data_part_compat (list_or_nil d))) =
      some_truthy (map_option (AList.delete data_part_compat) d)"
    by (cases d) simp_all
  ultimately show ?thesis
    using meta_back(2) [OF k, of "map_option (AList.delete data_part_compat) (part_metadata p)"]
      codec_value_back [OF k v]
    by (simp add: Let_def delete_update_same)
qed

lemma data_obj_back:
  assumes k: "json_codec_ok k" and m: "rmap_opt (struct_to_dict k) (part_metadata p) = Inr d"
    and v: "struct_to_dict k s = Inr obj"
    and r: "map_of (list_or_nil (part_metadata p)) data_part_compat = None"
  shows "to_core_part k (DataPart \<lparr>dp_data = obj, dp_metadata = d\<rparr>) =
    Inr (mk_part (PData (JObj s)) (some_truthy (map_option (AList.delete data_part_compat) (part_metadata p))) [] [])"
proof -
  have "rmap_opt (struct_to_dict k) (map_option (AList.delete data_part_compat) (part_metadata p)) =
      Inr (map_option (AList.delete data_part_compat) d)"
    using m by (cases "part_metadata p") (auto simp: struct_to_dict_delete split: sum.splits)
  moreover have "(case d of None \<Rightarrow> False
      | Some m \<Rightarrow> (case map_of m data_part_compat of None \<Rightarrow> False | Some v \<Rightarrow> json_truthy v)) = False"
  proof (cases "part_metadata p")
    case (Some x)
    with m obtain y where y: "struct_to_dict k x = Inr y" "d = Some y" by (auto split: sum.splits)
    with r Some struct_to_dict_keys [OF y(1), of data_part_compat] show ?thesis by simp
  qed (use m in simp)
  ultimately show ?thesis
    using meta_back(2) [OF k, of "map_option (AList.delete data_part_compat) (part_metadata p)"]
      struct_back [OF k v]
    by (simp add: Let_def)
qed

lemma part_back:
  assumes k: "json_codec_ok k" and r: "reserved_free p" and c: "to_compat_part k p = Inr q"
  shows "to_core_part k q = Inr (part_normal p)"
proof -
  obtain d where m: "rmap_opt (struct_to_dict k) (part_metadata p) = Inr d"
    using c by (auto simp: to_compat_part_def)
  note mb = meta_back(1) [OF k m]
  show ?thesis
  proof (cases "part_content p")
    case None
    with c m show ?thesis by (simp add: to_compat_part_def)
  next
    case (Some content)
    then show ?thesis
    proof (cases content)
      case (PData v)
      with Some c m obtain w where w: "jk_value_dict k v = Inr w"
        by (auto simp: to_compat_part_def)
      show ?thesis
      proof (cases "\<exists>obj. w = JObj obj")
        case True
        then obtain obj where obj: "w = JObj obj" by blast
        with codec_value_obj [OF k] w obtain s where s: "v = JObj s" by blast
        with w obj codec_obj [OF k] have sd: "struct_to_dict k s = Inr obj" by auto
        have "map_of (list_or_nil (part_metadata p)) data_part_compat = None"
          using r Some PData s by (simp add: reserved_free_def)
        note dob = data_obj_back [OF k m sd this]
        have "q = DataPart \<lparr>dp_data = obj, dp_metadata = d\<rparr>"
          using c m Some PData w obj by (simp add: to_compat_part_def)
        then show ?thesis
          using Some PData s by (simp only: dob) (simp add: part_normal_def mk_part_def)
      next
        case False
        then have "q = DataPart \<lparr>dp_data = [(to_ustr ''value'', w)],
            dp_metadata = Some (AList.update data_part_compat (JBool True) (list_or_nil d))\<rparr>"
          using c m Some PData w by (cases w) (auto simp: to_compat_part_def)
        with data_value_back [OF k m w False] show ?thesis
          using Some PData by (simp add: part_normal_def mk_part_def)
      qed
    qed (use c m Some mb in \<open>auto simp: to_compat_part_def part_normal_def mk_part_def\<close>)
  qed
qed

subsection \<open>Messages, statuses, artifacts\<close>

definition message_normal :: "message \<Rightarrow> message" where
  "message_normal m = m\<lparr>message_role := (if message_role m = ROLE_USER then ROLE_USER else ROLE_AGENT),
     message_parts := map part_normal (message_parts m),
     message_metadata := some_truthy (message_metadata m)\<rparr>"

definition message_free :: "message \<Rightarrow> bool" where
  "message_free m = list_all reserved_free (message_parts m)"

definition status_normal :: "task_status \<Rightarrow> task_status" where
  "status_normal s = s\<lparr>status_message := map_option message_normal (status_message s)\<rparr>"

definition status_free :: "task_status \<Rightarrow> bool" where
  "status_free s = pred_option message_free (status_message s)"

definition artifact_normal :: "artifact \<Rightarrow> artifact" where
  "artifact_normal a = a\<lparr>artifact_parts := map part_normal (artifact_parts a),
     artifact_metadata := some_truthy (artifact_metadata a)\<rparr>"

definition artifact_free :: "artifact \<Rightarrow> bool" where
  "artifact_free a = list_all reserved_free (artifact_parts a)"

definition status_field_normal :: "task_status option \<Rightarrow> task_status" where
  "status_field_normal s = (case s of None \<Rightarrow> empty_status | Some st \<Rightarrow> status_normal st)"

definition task_normal :: "task \<Rightarrow> task" where
  "task_normal t = t\<lparr>task_status := Some (status_field_normal (task_status t)),
     task_artifacts := map artifact_normal (task_artifacts t),
     task_history := map message_normal (task_history t),
     task_metadata := some_truthy (task_metadata t)\<rparr>"

definition task_free :: "task \<Rightarrow> bool" where
  "task_free t \<longleftrightarrow> pred_option status_free (task_status t) \<and>
     list_all artifact_free (task_artifacts t) \<and> list_all message_free (task_history t)"

lemma parts_back:
  assumes "json_codec_ok k" "list_all reserved_free ps" "rmap_list (to_compat_part k) ps = Inr qs"
  shows "rmap_list (to_core_part k) qs = Inr (map part_normal ps)"
  using assms(3) by (rule rmap_list_back) (use assms(1,2) in \<open>auto simp: list_all_iff intro: part_back\<close>)

lemma message_back:
  assumes k: "json_codec_ok k" and f: "message_free m" and c: "to_compat_message k m = Inr q"
  shows "to_core_message k q = Inr (message_normal m)"
proof -
  from c obtain d ps where d: "rmap_opt (struct_to_dict k) (some_truthy (message_metadata m)) = Inr d"
    and ps: "rmap_list (to_compat_part k) (message_parts m) = Inr ps"
    and q: "q = \<lparr>m3_context_id = or_none (message_context_id m),
            m3_extensions = list_or_none (message_extensions m), m3_message_id = message_id m,
            m3_metadata = d, m3_parts = ps,
            m3_reference_task_ids = list_or_none (message_reference_task_ids m),
            m3_role = (if message_role m = ROLE_USER then user03 else agent03),
            m3_task_id = or_none (message_task_id m)\<rparr>"
    by (auto simp: to_compat_message_def)
  have "rmap_list (to_core_part k) ps = Inr (map part_normal (message_parts m))"
    by (rule parts_back [OF k _ ps]) (use f in \<open>simp add: message_free_def\<close>)
  with meta_truthy_back [OF k d] show ?thesis
    by (simp add: to_core_message_def q message_normal_def)
qed

lemma state_back [simp]: "COMPAT_TO_CORE_TASK_STATE (CORE_TO_COMPAT_TASK_STATE s) = s"
  by (cases s) (simp_all add: CORE_TO_COMPAT_TASK_STATE_def task_states03_def)

lemma state03_back [simp]: "CORE_TO_COMPAT_TASK_STATE (COMPAT_TO_CORE_TASK_STATE s) = s"
  by (cases s) (simp_all add: CORE_TO_COMPAT_TASK_STATE_def task_states03_def)

lemma final03_iff: "CORE_TO_COMPAT_TASK_STATE s \<in> final03 \<longleftrightarrow> s \<in> TERMINAL_TASK_STATES"
  by (cases s) (simp_all add: CORE_TO_COMPAT_TASK_STATE_def task_states03_def final03_def TERMINAL_TASK_STATES_def)

lemma status_back:
  assumes k: "json_codec_ok k" and f: "status_free s" and c: "to_compat_task_status k s = Inr q"
  shows "to_core_task_status k q = Inr (status_normal s)"
proof -
  from c obtain m ts where m: "rmap_opt (to_compat_message k) (status_message s) = Inr m"
    and ts: "rmap_opt (jk_time_text k) (status_timestamp s) = Inr ts"
    and q: "q = \<lparr>s3_message = m, s3_state = CORE_TO_COMPAT_TASK_STATE (status_state s), s3_timestamp = ts\<rparr>"
    by (auto simp: to_compat_task_status_def)
  have "rmap_opt (to_core_message k) m = Inr (map_option message_normal (status_message s))"
    using m by (rule rmap_opt_back) (use f in \<open>auto simp: status_free_def intro: message_back [OF k]\<close>)
  moreover have "rmap_opt (\<lambda>x. jk_text_time k (utc_suffix x)) (some_truthy ts) = Inr (status_timestamp s)"
    using ts codec_time [OF k] by (cases "status_timestamp s") (auto simp: some_truthy_eq split: sum.splits)
  ultimately show ?thesis
    by (simp add: to_core_task_status_def q status_normal_def)
qed

lemma unknown_status_back: "to_core_task_status k unknown_status = Inr empty_status"
  by (simp add: unknown_status_def to_core_task_status_def empty_status_def)

lemma status_field_back:
  assumes "json_codec_ok k" "pred_option status_free s" "to_compat_status_field k s = Inr q"
  shows "to_core_task_status k q = Inr (status_field_normal s)"
  using assms by (cases s) (auto simp: to_compat_status_field_def status_field_normal_def
      unknown_status_back status_back)

lemma artifact_back:
  assumes k: "json_codec_ok k" and f: "artifact_free a" and c: "to_compat_artifact k a = Inr q"
  shows "to_core_artifact k q = Inr (artifact_normal a)"
proof -
  from c obtain d ps where d: "rmap_opt (struct_to_dict k) (artifact_metadata a) = Inr d"
    and ps: "rmap_list (to_compat_part k) (artifact_parts a) = Inr ps"
    and q: "q = \<lparr>a3_artifact_id = artifact_id a, a3_description = or_none (artifact_description a),
            a3_extensions = list_or_none (artifact_extensions a), a3_metadata = d,
            a3_name = or_none (artifact_name a), a3_parts = ps\<rparr>"
    by (auto simp: to_compat_artifact_def)
  have "rmap_list (to_core_part k) ps = Inr (map part_normal (artifact_parts a))"
    by (rule parts_back [OF k _ ps]) (use f in \<open>simp add: artifact_free_def\<close>)
  with meta_back(2) [OF k d] show ?thesis
    by (simp add: to_core_artifact_def q artifact_normal_def)
qed

lemma task_back:
  assumes k: "json_codec_ok k" and f: "task_free t" and c: "to_compat_task k t = Inr q"
  shows "to_core_task k q = Inr (task_normal t)"
proof -
  from c obtain st h a d where st: "to_compat_status_field k (task_status t) = Inr st"
    and h: "rmap_list (to_compat_message k) (task_history t) = Inr h"
    and a: "rmap_list (to_compat_artifact k) (task_artifacts t) = Inr a"
    and d: "rmap_opt (struct_to_dict k) (task_metadata t) = Inr d"
    and q: "q = \<lparr>t3_artifacts = list_or_none a, t3_context_id = task_context_id t,
            t3_history = list_or_none h, t3_id = task_id t, t3_metadata = d, t3_status = st\<rparr>"
    by (auto simp: to_compat_task_def)
  have "rmap_list (to_core_message k) h = Inr (map message_normal (task_history t))"
    using h by (rule rmap_list_back) (use f in \<open>auto simp: task_free_def list_all_iff intro: message_back [OF k]\<close>)
  moreover have "rmap_list (to_core_artifact k) a = Inr (map artifact_normal (task_artifacts t))"
    using a by (rule rmap_list_back) (use f in \<open>auto simp: task_free_def list_all_iff intro: artifact_back [OF k]\<close>)
  moreover have "to_core_task_status k st = Inr (status_field_normal (task_status t))"
    using status_field_back [OF k _ st] f by (simp add: task_free_def)
  ultimately show ?thesis
    using meta_back(2) [OF k d] by (simp add: to_core_task_def q task_normal_def)
qed

subsection \<open>Events\<close>

definition status_event_normal :: "status_event \<Rightarrow> status_event" where
  "status_event_normal e = e\<lparr>se_status := Some (status_field_normal (se_status e)),
     se_metadata := some_truthy (se_metadata e)\<rparr>"

definition artifact_event_normal :: "artifact_event \<Rightarrow> artifact_event" where
  "artifact_event_normal e = e\<lparr>ae_artifact := Some (artifact_normal (ae_artifact_of e)),
     ae_metadata := some_truthy (ae_metadata e)\<rparr>"

fun event_normal :: "event \<Rightarrow> event" where
  "event_normal (MessageEv m) = MessageEv (message_normal m)"
| "event_normal (TaskEv (TaskObj t)) = TaskEv (TaskObj (task_normal t))"
| "event_normal (TaskEv (StatusUpdate e)) = TaskEv (StatusUpdate (status_event_normal e))"
| "event_normal (TaskEv (ArtifactUpdate e)) = TaskEv (ArtifactUpdate (artifact_event_normal e))"

fun event_free :: "event \<Rightarrow> bool" where
  "event_free (MessageEv m) = message_free m"
| "event_free (TaskEv (TaskObj t)) = task_free t"
| "event_free (TaskEv (StatusUpdate e)) = pred_option status_free (se_status e)"
| "event_free (TaskEv (ArtifactUpdate e)) = artifact_free (ae_artifact_of e)"

lemma status_event_back:
  assumes k: "json_codec_ok k" and f: "pred_option status_free (se_status e)"
    and c: "to_compat_task_status_update_event k e = Inr q"
  shows "to_core_task_status_update_event k q = Inr (status_event_normal e)"
proof -
  from c obtain st d where st: "to_compat_status_field k (se_status e) = Inr st"
    and d: "rmap_opt (struct_to_dict k) (se_metadata e) = Inr d"
    and q: "q = \<lparr>se3_context_id = se_context_id e, se3_final = (s3_state st \<in> final03),
            se3_metadata = d, se3_status = st, se3_task_id = se_task_id e\<rparr>"
    by (auto simp: to_compat_task_status_update_event_def)
  from status_field_back [OF k f st] meta_back(2) [OF k d] show ?thesis
    by (simp add: to_core_task_status_update_event_def q status_event_normal_def)
qed

lemma artifact_event_back:
  assumes k: "json_codec_ok k" and f: "artifact_free (ae_artifact_of e)"
    and c: "to_compat_task_artifact_update_event k e = Inr q"
  shows "to_core_task_artifact_update_event k q = Inr (artifact_event_normal e)"
proof -
  from c obtain a d where a: "to_compat_artifact k (ae_artifact_of e) = Inr a"
    and d: "rmap_opt (struct_to_dict k) (ae_metadata e) = Inr d"
    and q: "q = \<lparr>ae3_append = Some (ae_append e), ae3_artifact = a, ae3_context_id = ae_context_id e,
            ae3_last_chunk = Some (ae_last_chunk e), ae3_metadata = d, ae3_task_id = ae_task_id e\<rparr>"
    by (auto simp: to_compat_task_artifact_update_event_def)
  from artifact_back [OF k f a] meta_back(2) [OF k d] show ?thesis
    by (simp add: to_core_task_artifact_update_event_def q artifact_event_normal_def)
qed

lemma stream_response_back:
  assumes k: "json_codec_ok k" and f: "event_free ev"
    and c: "to_compat_stream_response k (StreamEvent ev) rid = Inr q"
  shows "to_core_stream_response k q = Inr (StreamEvent (event_normal ev))" and "ok_id q = rid"
  using f c
  by (induction ev rule: event_normal.induct)
    (auto simp: message_back [OF k] task_back [OF k] status_event_back [OF k] artifact_event_back [OF k])

text \<open>The flag \<^verbatim>\<open>final\<close> of a status update of protocol 0.3.\<close>

lemma status_state_compat:
  "to_compat_status_field k s = Inr q \<Longrightarrow>
   s3_state q = CORE_TO_COMPAT_TASK_STATE (case s of None \<Rightarrow> TASK_STATE_UNSPECIFIED | Some st \<Rightarrow> status_state st)"
  by (cases s) (auto simp: to_compat_status_field_def unknown_status_def to_compat_task_status_def
      CORE_TO_COMPAT_TASK_STATE_def task_states03_def)

lemma final_flag:
  assumes "to_compat_task_status_update_event k e = Inr q"
  shows "se3_final q \<longleftrightarrow> status_state (se_status_of e) \<in> TERMINAL_TASK_STATES"
proof -
  from assms obtain st where st: "to_compat_status_field k (se_status e) = Inr st"
    and q: "se3_final q = (s3_state st \<in> final03)"
    by (auto simp: to_compat_task_status_update_event_def)
  from status_state_compat [OF st] show ?thesis
    by (cases "se_status e") (simp_all add: q final03_iff se_status_of_def empty_status_def)
qed

subsection \<open>When a conversion fails\<close>

text \<open>With a JSON mapping that prints every value, only a part without content is refused.\<close>

definition codec_prints :: "json_codec \<Rightarrow> bool" where
  "codec_prints k \<longleftrightarrow> (\<forall>v. \<not> isl (jk_value_dict k v)) \<and> (\<forall>t. \<not> isl (jk_time_text k t))"

lemma rbind_isl: "isl (rbind r f) \<longleftrightarrow> isl r \<or> isl (f (projr r))"
  by (cases r) simp_all

lemma rmap_list_isl: "isl (rmap_list f xs) \<longleftrightarrow> list_ex (\<lambda>x. isl (f x)) xs"
  by (induction xs) (auto split: sum.splits)

lemma isl_case_Some [simp]: "isl (case r of Inl e \<Rightarrow> Inl e | Inr y \<Rightarrow> Inr (Some y)) \<longleftrightarrow> isl r"
  by (cases r) simp_all

lemma struct_prints: "codec_prints k \<Longrightarrow> \<not> isl (struct_to_dict k s)"
  by (auto simp: struct_to_dict_def rmap_list_isl entry_conv_def rbind_isl codec_prints_def list_ex_iff)

lemma meta_prints: "codec_prints k \<Longrightarrow> \<not> isl (rmap_opt (struct_to_dict k) m)"
  by (cases m) (auto simp: struct_prints)

lemma part_isl: "codec_prints k \<Longrightarrow> isl (to_compat_part k p) \<longleftrightarrow> part_content p = None"
  using meta_prints [of k "part_metadata p"]
  by (auto simp: to_compat_part_def rbind_isl codec_prints_def split: option.splits part_content.splits)

definition parts_full :: "part list \<Rightarrow> bool" where
  "parts_full ps = list_all (\<lambda>p. part_content p \<noteq> None) ps"

lemma message_isl: "codec_prints k \<Longrightarrow> isl (to_compat_message k m) \<longleftrightarrow> \<not> parts_full (message_parts m)"
  by (auto simp: to_compat_message_def rbind_isl meta_prints rmap_list_isl part_isl parts_full_def
      list_ex_iff list_all_iff)

lemma artifact_isl: "codec_prints k \<Longrightarrow> isl (to_compat_artifact k a) \<longleftrightarrow> \<not> parts_full (artifact_parts a)"
  by (auto simp: to_compat_artifact_def rbind_isl meta_prints rmap_list_isl part_isl parts_full_def
      list_ex_iff list_all_iff)

definition task_parts :: "task \<Rightarrow> part list" where
  "task_parts t = concat (map message_parts (status_messages t)) @
     concat (map artifact_parts (task_artifacts t)) @ concat (map message_parts (task_history t))"

lemma time_prints: "codec_prints k \<Longrightarrow> \<not> isl (rmap_opt (jk_time_text k) ts)"
  by (cases ts) (auto simp: codec_prints_def)

lemma status_field_isl:
  assumes "codec_prints k"
  shows "isl (to_compat_status_field k (task_status t)) \<longleftrightarrow>
    \<not> parts_full (concat (map message_parts (status_messages t)))"
  using message_isl [OF assms] time_prints [OF assms]
  by (cases "task_status t"; cases "status_message (the (task_status t))")
    (auto simp: to_compat_status_field_def to_compat_task_status_def rbind_isl
      status_messages_def task_status_of_def empty_status_def parts_full_def)

lemma task_isl: "codec_prints k \<Longrightarrow> isl (to_compat_task k t) \<longleftrightarrow> \<not> parts_full (task_parts t)"
  by (auto simp: to_compat_task_def rbind_isl meta_prints rmap_list_isl message_isl artifact_isl
      status_field_isl task_parts_def parts_full_def list_ex_iff list_all_iff)

subsection \<open>Configurations and requests\<close>

lemma auth_back [simp]: "to_core_authentication_info (to_compat_authentication_info a) = a"
  by (simp add: to_core_authentication_info_def to_compat_authentication_info_def)

lemma push_config_back:
  "to_core_push_notification_config (to_compat_push_notification_config c) = c\<lparr>pc_tenant := [], pc_task_id := []\<rparr>"
  by (simp add: to_core_push_notification_config_def to_compat_push_notification_config_def
      option.map_comp comp_def option.map_ident)

lemma task_push_config_back:
  "to_core_task_push_notification_config (to_compat_task_push_notification_config c) = c\<lparr>pc_tenant := []\<rparr>"
  by (simp add: to_core_task_push_notification_config_def to_compat_task_push_notification_config_def
      push_config_back)

definition int32 :: "int \<Rightarrow> bool" where
  "int32 n \<longleftrightarrow> - (2 ^ 31) \<le> n \<and> n < 2 ^ 31"

definition send_config_normal :: "send_config \<Rightarrow> send_config" where
  "send_config_normal c = c\<lparr>sc_push_config :=
     map_option (\<lambda>p. p\<lparr>pc_tenant := [], pc_task_id := []\<rparr>) (sc_push_config c)\<rparr>"

lemma send_config_back:
  "pred_option int32 (sc_history_length c) \<Longrightarrow>
   to_core_send_message_configuration (to_compat_send_message_configuration c) = Inr (send_config_normal c)"
  by (cases "sc_history_length c")
    (simp_all add: to_core_send_message_configuration_def to_compat_send_message_configuration_def
      send_config_normal_def option.map_comp comp_def push_config_back int32_field_def int32_def)

definition send_request_normal :: "send_message_request \<Rightarrow> send_message_request" where
  "send_request_normal r =
     \<lparr>smr_tenant = [],
      smr_message = Some (message_normal (case smr_message r of None \<Rightarrow> empty_message | Some m \<Rightarrow> m)),
      smr_configuration = map_option send_config_normal (smr_configuration r),
      smr_metadata = some_truthy (smr_metadata r)\<rparr>"

definition send_request_free :: "send_message_request \<Rightarrow> bool" where
  "send_request_free r \<longleftrightarrow> pred_option message_free (smr_message r) \<and>
     pred_option (\<lambda>c. pred_option int32 (sc_history_length c)) (smr_configuration r)"

lemma send_request_back:
  assumes k: "json_codec_ok k" and f: "send_request_free r"
    and c: "to_compat_send_message_request k r rid = Inr q"
  shows "to_core_send_message_request k q = Inr (send_request_normal r)" and "rq_id q = rid"
proof -
  let ?m = "case smr_message r of None \<Rightarrow> empty_message | Some m \<Rightarrow> m"
  from c obtain m d where m: "to_compat_message k ?m = Inr m"
    and d: "rmap_opt (struct_to_dict k) (smr_metadata r) = Inr d"
    and q: "q = \<lparr>rq_id = rid, rq_params =
         \<lparr>sp3_configuration = map_option to_compat_send_message_configuration (smr_configuration r),
          sp3_message = m, sp3_metadata = d\<rparr>\<rparr>"
    by (auto simp: to_compat_send_message_request_def)
  have "message_free ?m"
    using f by (cases "smr_message r") (simp_all add: send_request_free_def message_free_def empty_message_def)
  moreover have "rmap_opt to_core_send_message_configuration
      (map_option to_compat_send_message_configuration (smr_configuration r)) =
    Inr (map_option send_config_normal (smr_configuration r))"
    using f by (cases "smr_configuration r") (simp_all add: send_request_free_def send_config_back)
  ultimately show "to_core_send_message_request k q = Inr (send_request_normal r)"
    using message_back [OF k _ m] meta_back(2) [OF k d]
    by (simp add: to_core_send_message_request_def q send_request_normal_def)
  show "rq_id q = rid" by (simp add: q)
qed

lemma get_task_request_back:
  "pred_option int32 (gt_history_length r) \<Longrightarrow>
   to_core_get_task_request (to_compat_get_task_request r rid) = Inr (r\<lparr>gt_tenant := []\<rparr>)"
  by (cases "gt_history_length r")
    (simp_all add: to_core_get_task_request_def to_compat_get_task_request_def int32_field_def int32_def)

lemma cancel_request_back:
  assumes k: "json_codec_ok k" and c: "to_compat_cancel_task_request k r rid = Inr q"
  shows "to_core_cancel_task_request k q = Inr (r\<lparr>ct_tenant := [], ct_metadata := some_truthy (ct_metadata r)\<rparr>)"
  using c meta_back(2) [OF k]
  by (auto simp: to_compat_cancel_task_request_def to_core_cancel_task_request_def)

lemma push_request_back:
  "to_core_get_task_push_notification_config_request
     (to_compat_get_task_push_notification_config_request g rid) = g\<lparr>gpr_tenant := []\<rparr>"
  "to_core_delete_task_push_notification_config_request
     (to_compat_delete_task_push_notification_config_request d rid) = d\<lparr>dpr_tenant := []\<rparr>"
  "to_core_create_task_push_notification_config_request
     (to_compat_create_task_push_notification_config_request c rid) = c\<lparr>pc_tenant := []\<rparr>"
  "to_core_subscribe_to_task_request (to_compat_subscribe_to_task_request s rid) = s\<lparr>sb_tenant := []\<rparr>"
  "to_core_list_task_push_notification_config_request
     (to_compat_list_task_push_notification_config_request l rid) =
     l\<lparr>lpr_tenant := [], lpr_page_size := 0, lpr_page_token := []\<rparr>"
  by (simp_all add: to_core_get_task_push_notification_config_request_def
      to_compat_get_task_push_notification_config_request_def
      to_core_delete_task_push_notification_config_request_def
      to_compat_delete_task_push_notification_config_request_def
      to_core_create_task_push_notification_config_request_def
      to_compat_create_task_push_notification_config_request_def push_config_back
      to_core_subscribe_to_task_request_def to_compat_subscribe_to_task_request_def
      to_core_list_task_push_notification_config_request_def
      to_compat_list_task_push_notification_config_request_def)

end
