(* ===== verification/Agent_Card.thy ===== *)
theory Agent_Card
  imports A2A_Types
begin

text \<open>
  The agent card of protocol 1.0 (\<^verbatim>\<open>types/a2a_pb2.pyi\<close>), in the conventions of \<^verbatim>\<open>A2A_Types\<close>: maps
  are dictionaries, oneofs optional datatypes.
\<close>

record agent_interface =
  ai_url :: string
  ai_protocol_binding :: string
  ai_tenant :: string
  ai_protocol_version :: string

record agent_provider =
  ap_url :: string
  ap_organization :: string

record agent_extension =
  ax_uri :: string
  ax_description :: string
  ax_required :: bool
  ax_params :: "struct option"

record agent_capabilities =
  cap_streaming :: "bool option"
  cap_push_notifications :: "bool option"
  cap_extensions :: "agent_extension list"
  cap_extended_agent_card :: "bool option"

type_synonym security_requirement = "(string, string list) dict"

record agent_skill =
  sk_id :: string
  sk_name :: string
  sk_description :: string
  sk_tags :: "string list"
  sk_examples :: "string list"
  sk_input_modes :: "string list"
  sk_output_modes :: "string list"
  sk_security_requirements :: "security_requirement list"

record agent_card_signature =
  sig_protected :: string
  sig_signature :: string
  sig_header :: "struct option"

record authorization_code_flow =
  acf_authorization_url :: string
  acf_token_url :: string
  acf_refresh_url :: string
  acf_scopes :: "(string, string) dict"
  acf_pkce_required :: bool

record client_credentials_flow =
  ccf_token_url :: string
  ccf_refresh_url :: string
  ccf_scopes :: "(string, string) dict"

record implicit_oauth_flow =
  iof_authorization_url :: string
  iof_refresh_url :: string
  iof_scopes :: "(string, string) dict"

record password_oauth_flow =
  pof_token_url :: string
  pof_refresh_url :: string
  pof_scopes :: "(string, string) dict"

record device_code_flow =
  dcf_device_authorization_url :: string
  dcf_token_url :: string
  dcf_refresh_url :: string
  dcf_scopes :: "(string, string) dict"

text \<open>\<^verbatim>\<open>OAuthFlows\<close> is a oneof: setting one flow unsets the others.\<close>

datatype oauth_flow =
    AuthorizationCode authorization_code_flow
  | ClientCredentials client_credentials_flow
  | Implicit implicit_oauth_flow
  | Password password_oauth_flow
  | DeviceCode device_code_flow

record api_key_security_scheme =
  aks_description :: string
  aks_location :: string
  aks_name :: string

record http_auth_security_scheme =
  has_description :: string
  has_scheme :: string
  has_bearer_format :: string

record oauth2_security_scheme =
  oas_description :: string
  oas_flows :: "oauth_flow option option"
  oas_oauth2_metadata_url :: string

record open_id_connect_security_scheme =
  ois_description :: string
  ois_open_id_connect_url :: string

record mtls_security_scheme =
  mts_description :: string

datatype security_scheme =
    ApiKeyS api_key_security_scheme
  | HttpAuthS http_auth_security_scheme
  | OAuth2S oauth2_security_scheme
  | OpenIdConnectS open_id_connect_security_scheme
  | MtlsS mtls_security_scheme

record agent_card =
  card_name :: string
  card_description :: string
  card_supported_interfaces :: "agent_interface list"
  card_provider :: "agent_provider option"
  card_version :: string
  card_documentation_url :: "string option"
  card_capabilities :: "agent_capabilities option"
  card_security_schemes :: "(string, security_scheme option) dict"
  card_security_requirements :: "security_requirement list"
  card_default_input_modes :: "string list"
  card_default_output_modes :: "string list"
  card_skills :: "agent_skill list"
  card_signatures :: "agent_card_signature list"
  card_icon_url :: "string option"

definition empty_capabilities :: agent_capabilities where
  "empty_capabilities = \<lparr>cap_streaming = None, cap_push_notifications = None, cap_extensions = [],
     cap_extended_agent_card = None\<rparr>"

definition card_capabilities_of :: "agent_card \<Rightarrow> agent_capabilities" where
  "card_capabilities_of c = (case card_capabilities c of None \<Rightarrow> empty_capabilities | Some k \<Rightarrow> k)"

end
