(* ===== verification/Versions.thy ===== *)
theory Versions
  imports A2A_Errors
begin

text \<open>
  Protocol versions: \<^verbatim>\<open>compat/v0_3/versions.py\<close> and the decorator of \<^verbatim>\<open>utils/version_validator.py\<close>.
  The class \<^verbatim>\<open>Version\<close> of the package \<^verbatim>\<open>packaging\<close> is a parameter: its parser, which fails with
  \<^verbatim>\<open>InvalidVersion\<close>, its order, and the attribute \<^verbatim>\<open>major\<close>.
\<close>

definition VERSION_HEADER :: string where
  "VERSION_HEADER = ''A2A-Version''"

definition PROTOCOL_VERSION_1_0 :: string where
  "PROTOCOL_VERSION_1_0 = ''1.0''"

definition PROTOCOL_VERSION_0_3 :: string where
  "PROTOCOL_VERSION_0_3 = ''0.3''"

definition PROTOCOL_VERSION_CURRENT :: string where
  "PROTOCOL_VERSION_CURRENT = PROTOCOL_VERSION_1_0"

record 'v version_lib =
  vl_parse :: "string \<Rightarrow> 'v option"
  vl_le :: "'v \<Rightarrow> 'v \<Rightarrow> bool"
  vl_major :: "'v \<Rightarrow> nat"

definition is_legacy_version :: "'v version_lib \<Rightarrow> string option \<Rightarrow> bool" where
  "is_legacy_version lib version =
     (if \<not> py_truthy version then False
      else (case (vl_parse lib (or_empty version), vl_parse lib PROTOCOL_VERSION_0_3,
                  vl_parse lib PROTOCOL_VERSION_1_0) of
              (Some v, Some lo, Some hi) \<Rightarrow> vl_le lib lo v \<and> vl_le lib v hi \<and> \<not> vl_le lib hi v
            | _ \<Rightarrow> False))"

subsection \<open>The version check of a handler\<close>

text \<open>\<^verbatim>\<open>str.lower\<close> on ASCII, which header names are.\<close>

definition lower_char :: "char \<Rightarrow> char" where
  "lower_char c =
     (if 65 \<le> (of_char c :: nat) \<and> (of_char c :: nat) \<le> 90 then char_of ((of_char c :: nat) + 32) else c)"

definition lower_string :: "string \<Rightarrow> string" where
  "lower_string s = map lower_char s"

text \<open>\<^verbatim>\<open>_get_actual_version\<close>: the context is missing when a handler is called without one.\<close>

definition get_actual_version :: "string \<Rightarrow> call_context option \<Rightarrow> string" where
  "get_actual_version expected ctx =
     (case ctx of
        None \<Rightarrow> expected
      | Some c \<Rightarrow>
          (let h = (\<lambda>k. case map_of (cc_headers c) k of None \<Rightarrow> [] | Some v \<Rightarrow> v);
               actual = (if h VERSION_HEADER \<noteq> [] then h VERSION_HEADER else h (lower_string VERSION_HEADER))
           in if actual = [] then PROTOCOL_VERSION_0_3 else actual))"

definition is_version_compatible :: "'v version_lib \<Rightarrow> string \<Rightarrow> string \<Rightarrow> bool" where
  "is_version_compatible lib expected actual =
     (if actual = expected then True
      else (case vl_parse lib expected of
              None \<Rightarrow> False
            | Some e \<Rightarrow> (case vl_parse lib actual of None \<Rightarrow> False | Some a \<Rightarrow> vl_major lib a = vl_major lib e)))"

definition version_mismatch :: "string \<Rightarrow> string \<Rightarrow> a2a_error" where
  "version_mismatch expected actual = err_msg VersionNotSupportedError
     (''A2A version '' @ [CHR 0x27] @ actual @ [CHR 0x27] @ '' is not supported by this handler. Expected version '' @
      [CHR 0x27] @ expected @ [CHR 0x27] @ ''.'')"

text \<open>The decorated method, which runs only when the version is compatible.\<close>

definition validate_version ::
  "'v version_lib \<Rightarrow> string \<Rightarrow> call_context option \<Rightarrow> (unit \<Rightarrow> exn + 'a) \<Rightarrow> exn + 'a" where
  "validate_version lib expected ctx body =
     (let actual = get_actual_version expected ctx
      in if is_version_compatible lib expected actual then body ()
         else Inl (A2A (version_mismatch expected actual)))"

subsection \<open>Laws\<close>

text \<open>What the documentation of \<^verbatim>\<open>packaging\<close> says of the two versions of the protocol.\<close>

definition version_lib_ok :: "'v version_lib \<Rightarrow> bool" where
  "version_lib_ok lib \<longleftrightarrow>
     (\<forall>x. vl_le lib x x) \<and> (\<forall>x y z. vl_le lib x y \<longrightarrow> vl_le lib y z \<longrightarrow> vl_le lib x z) \<and>
     (\<exists>lo hi. vl_parse lib ''0.3'' = Some lo \<and> vl_parse lib ''1.0'' = Some hi \<and>
        vl_le lib lo hi \<and> \<not> vl_le lib hi lo \<and> vl_major lib lo = 0 \<and> vl_major lib hi = 1)"

lemma legacy_0_3: "version_lib_ok lib \<Longrightarrow> is_legacy_version lib (Some ''0.3'')"
  by (auto simp: version_lib_ok_def is_legacy_version_def PROTOCOL_VERSION_0_3_def PROTOCOL_VERSION_1_0_def)

lemma not_legacy_1_0: "version_lib_ok lib \<Longrightarrow> \<not> is_legacy_version lib (Some ''1.0'')"
  by (auto simp: version_lib_ok_def is_legacy_version_def PROTOCOL_VERSION_0_3_def PROTOCOL_VERSION_1_0_def)

definition no_version_header :: "call_context \<Rightarrow> bool" where
  "no_version_header c \<longleftrightarrow> map_of (cc_headers c) ''A2A-Version'' \<in> {None, Some []} \<and>
     map_of (cc_headers c) ''a2a-version'' \<in> {None, Some []}"

lemma lower_version_header: "lower_string VERSION_HEADER = ''a2a-version''"
  by code_simp

lemma no_header_version: "no_version_header c \<Longrightarrow> get_actual_version e (Some c) = ''0.3''"
  unfolding get_actual_version_def lower_version_header
  by (auto simp: no_version_header_def VERSION_HEADER_def PROTOCOL_VERSION_0_3_def)

lemma validate_no_header:
  assumes "version_lib_ok lib" "no_version_header c"
  shows "validate_version lib PROTOCOL_VERSION_0_3 (Some c) body = body ()"
    "validate_version lib PROTOCOL_VERSION_1_0 (Some c) body = Inl (A2A (version_mismatch ''1.0'' ''0.3''))"
  using assms
  by (auto simp: validate_version_def no_header_version is_version_compatible_def version_lib_ok_def
      PROTOCOL_VERSION_0_3_def PROTOCOL_VERSION_1_0_def)

text \<open>A method runs for one major version: two that expect different ones never both run.\<close>

lemma validate_exclusive:
  assumes "vl_parse lib e1 = Some v1" "vl_parse lib e2 = Some v2" "vl_major lib v1 \<noteq> vl_major lib v2"
    and "is_version_compatible lib e1 actual"
  shows "\<not> is_version_compatible lib e2 actual"
  using assms by (auto simp: is_version_compatible_def split: if_splits option.splits)

end
