(* ===== verification/Compat_Cards.thy ===== *)
theory Compat_Cards
  imports Compat_Laws Agent_Card Versions
begin

text \<open>
  The conversions of the agent card and what it is made of (\<^verbatim>\<open>compat/v0_3/conversions.py\<close>), and what
  a card is after a way from protocol 1.0 to protocol 0.3 and back.
\<close>

subsection \<open>Security\<close>

text \<open>A dictionary built by one assignment after the other.\<close>

definition assign_all :: "('k \<times> 'v) list \<Rightarrow> ('k, 'v) dict" where
  "assign_all es = fold (\<lambda>(k, v). AList.update k v) es []"

definition to_core_security_requirement :: "security03 \<Rightarrow> security_requirement" where
  "to_core_security_requirement r = assign_all r"

definition to_compat_security_requirement :: "security_requirement \<Rightarrow> security03" where
  "to_compat_security_requirement r = r"

text \<open>Each \<^verbatim>\<open>CopyFrom\<close> into the oneof replaces the flow set before it.\<close>

definition set_flow :: "('a \<Rightarrow> oauth_flow) \<Rightarrow> 'a option \<Rightarrow> oauth_flow option \<Rightarrow> oauth_flow option" where
  "set_flow f x old = (case x of None \<Rightarrow> old | Some y \<Rightarrow> Some (f y))"

definition to_core_oauth_flows :: "oauth_flows03 \<Rightarrow> oauth_flow option" where
  "to_core_oauth_flows fl =
     set_flow (\<lambda>p. Password \<lparr>pof_token_url = pw_token_url p, pof_refresh_url = or_empty (pw_refresh_url p),
       pof_scopes = pw_scopes p\<rparr>) (of_password fl)
     (set_flow (\<lambda>i. Implicit \<lparr>iof_authorization_url = im_authorization_url i,
       iof_refresh_url = or_empty (im_refresh_url i), iof_scopes = im_scopes i\<rparr>) (of_implicit fl)
     (set_flow (\<lambda>c. ClientCredentials \<lparr>ccf_token_url = cc3_token_url c,
       ccf_refresh_url = or_empty (cc3_refresh_url c), ccf_scopes = cc3_scopes c\<rparr>) (of_client_credentials fl)
     (set_flow (\<lambda>a. AuthorizationCode \<lparr>acf_authorization_url = ac_authorization_url a,
       acf_token_url = ac_token_url a, acf_refresh_url = or_empty (ac_refresh_url a),
       acf_scopes = ac_scopes a, acf_pkce_required = False\<rparr>) (of_authorization_code fl) None)))"

definition no_flows :: oauth_flows03 where
  "no_flows = \<lparr>of_authorization_code = None, of_client_credentials = None, of_implicit = None,
     of_password = None\<rparr>"

fun to_compat_oauth_flows :: "oauth_flow option \<Rightarrow> oauth_flows03" where
  "to_compat_oauth_flows (Some (AuthorizationCode f)) = no_flows\<lparr>of_authorization_code := Some
     \<lparr>ac_authorization_url = acf_authorization_url f, ac_refresh_url = or_none (acf_refresh_url f),
      ac_scopes = acf_scopes f, ac_token_url = acf_token_url f\<rparr>\<rparr>"
| "to_compat_oauth_flows (Some (ClientCredentials f)) = no_flows\<lparr>of_client_credentials := Some
     \<lparr>cc3_refresh_url = or_none (ccf_refresh_url f), cc3_scopes = ccf_scopes f,
      cc3_token_url = ccf_token_url f\<rparr>\<rparr>"
| "to_compat_oauth_flows (Some (Implicit f)) = no_flows\<lparr>of_implicit := Some
     \<lparr>im_authorization_url = iof_authorization_url f, im_refresh_url = or_none (iof_refresh_url f),
      im_scopes = iof_scopes f\<rparr>\<rparr>"
| "to_compat_oauth_flows (Some (Password f)) = no_flows\<lparr>of_password := Some
     \<lparr>pw_refresh_url = or_none (pof_refresh_url f), pw_scopes = pof_scopes f,
      pw_token_url = pof_token_url f\<rparr>\<rparr>"
| "to_compat_oauth_flows (Some (DeviceCode f)) = no_flows"
| "to_compat_oauth_flows None = no_flows"

fun to_core_security_scheme :: "security_scheme03 \<Rightarrow> security_scheme" where
  "to_core_security_scheme (APIKeyScheme s) = ApiKeyS
     \<lparr>aks_description = or_empty (ak3_description s), aks_location = in03_value (ak3_in s),
      aks_name = ak3_name s\<rparr>"
| "to_core_security_scheme (HTTPAuthScheme s) = HttpAuthS
     \<lparr>has_description = or_empty (ht3_description s), has_scheme = ht3_scheme s,
      has_bearer_format = or_empty (ht3_bearer_format s)\<rparr>"
| "to_core_security_scheme (OAuth2Scheme s) = OAuth2S
     \<lparr>oas_description = or_empty (oa3_description s), oas_flows = Some (to_core_oauth_flows (oa3_flows s)),
      oas_oauth2_metadata_url = or_empty (oa3_metadata_url s)\<rparr>"
| "to_core_security_scheme (OpenIdConnectScheme s) = OpenIdConnectS
     \<lparr>ois_description = or_empty (oi3_description s), ois_open_id_connect_url = oi3_url s\<rparr>"
| "to_core_security_scheme (MutualTLSScheme s) = MtlsS \<lparr>mts_description = or_empty (mt3_description s)\<rparr>"

text \<open>\<^verbatim>\<open>types_v03.In(location)\<close>, a member of the enumeration by its value.\<close>

definition in03_of :: "string \<Rightarrow> exn + in03" where
  "in03_of s = (case map_of (map (\<lambda>i. (in03_value i, i)) [in_cookie, in_header, in_query]) s of
     None \<Rightarrow> Inl (ValueError (s @ '' is not a valid In'')) | Some i \<Rightarrow> Inr i)"

fun to_compat_security_scheme :: "security_scheme option \<Rightarrow> exn + security_scheme03" where
  "to_compat_security_scheme (Some (ApiKeyS s)) =
     rbind (in03_of (aks_location s)) (\<lambda>i. Inr (APIKeyScheme
       \<lparr>ak3_description = or_none (aks_description s), ak3_in = i, ak3_name = aks_name s\<rparr>))"
| "to_compat_security_scheme (Some (HttpAuthS s)) = Inr (HTTPAuthScheme
     \<lparr>ht3_bearer_format = or_none (has_bearer_format s), ht3_description = or_none (has_description s),
      ht3_scheme = has_scheme s\<rparr>)"
| "to_compat_security_scheme (Some (OAuth2S s)) = Inr (OAuth2Scheme
     \<lparr>oa3_description = or_none (oas_description s),
      oa3_flows = to_compat_oauth_flows (case oas_flows s of None \<Rightarrow> None | Some f \<Rightarrow> f),
      oa3_metadata_url = or_none (oas_oauth2_metadata_url s)\<rparr>)"
| "to_compat_security_scheme (Some (OpenIdConnectS s)) = Inr (OpenIdConnectScheme
     \<lparr>oi3_description = or_none (ois_description s), oi3_url = ois_open_id_connect_url s\<rparr>)"
| "to_compat_security_scheme (Some (MtlsS s)) = Inr (MutualTLSScheme
     \<lparr>mt3_description = or_none (mts_description s)\<rparr>)"
| "to_compat_security_scheme None = Inl (ValueError ''Unknown security scheme type: None'')"

subsection \<open>Interfaces, extensions, capabilities, skills, signatures\<close>

definition to_core_agent_interface :: "interface03 \<Rightarrow> agent_interface" where
  "to_core_agent_interface i = \<lparr>ai_url = if3_url i, ai_protocol_binding = if3_transport i, ai_tenant = [],
     ai_protocol_version = PROTOCOL_VERSION_0_3\<rparr>"

definition to_compat_agent_interface :: "agent_interface \<Rightarrow> interface03" where
  "to_compat_agent_interface i = \<lparr>if3_transport = ai_protocol_binding i, if3_url = ai_url i\<rparr>"

definition to_core_agent_provider :: "provider03 \<Rightarrow> agent_provider" where
  "to_core_agent_provider p = \<lparr>ap_url = pv3_url p, ap_organization = pv3_organization p\<rparr>"

definition to_compat_agent_provider :: "agent_provider \<Rightarrow> provider03" where
  "to_compat_agent_provider p = \<lparr>pv3_organization = ap_organization p, pv3_url = ap_url p\<rparr>"

definition to_core_agent_extension :: "json_codec \<Rightarrow> extension03 \<Rightarrow> exn + agent_extension" where
  "to_core_agent_extension k x =
     rbind (rmap_opt (dict_to_struct k) (some_truthy (ex3_params x))) (\<lambda>params.
       Inr \<lparr>ax_uri = ex3_uri x, ax_description = or_empty (ex3_description x),
            ax_required = (ex3_required x = Some True), ax_params = params\<rparr>)"

definition to_compat_agent_extension :: "json_codec \<Rightarrow> agent_extension \<Rightarrow> exn + extension03" where
  "to_compat_agent_extension k x =
     rbind (rmap_opt (struct_to_dict k) (ax_params x)) (\<lambda>params.
       Inr \<lparr>ex3_description = or_none (ax_description x), ex3_params = params,
            ex3_required = Some (ax_required x), ex3_uri = ax_uri x\<rparr>)"

definition to_core_agent_capabilities :: "json_codec \<Rightarrow> capabilities03 \<Rightarrow> exn + agent_capabilities" where
  "to_core_agent_capabilities k c =
     rbind (rmap_list (to_core_agent_extension k) (list_or_nil (cp3_extensions c))) (\<lambda>exts.
       Inr \<lparr>cap_streaming = cp3_streaming c, cap_push_notifications = cp3_push_notifications c,
            cap_extensions = exts, cap_extended_agent_card = None\<rparr>)"

definition to_compat_agent_capabilities :: "json_codec \<Rightarrow> agent_capabilities \<Rightarrow> exn + capabilities03" where
  "to_compat_agent_capabilities k c =
     rbind (rmap_list (to_compat_agent_extension k) (cap_extensions c)) (\<lambda>exts.
       Inr \<lparr>cp3_extensions = list_or_none exts, cp3_push_notifications = cap_push_notifications c,
            cp3_state_transition_history = None, cp3_streaming = cap_streaming c\<rparr>)"

definition to_core_agent_skill :: "skill03 \<Rightarrow> agent_skill" where
  "to_core_agent_skill s =
     \<lparr>sk_id = sk3_id s, sk_name = sk3_name s, sk_description = sk3_description s, sk_tags = sk3_tags s,
      sk_examples = list_or_nil (sk3_examples s), sk_input_modes = list_or_nil (sk3_input_modes s),
      sk_output_modes = list_or_nil (sk3_output_modes s),
      sk_security_requirements = map to_core_security_requirement (list_or_nil (sk3_security s))\<rparr>"

definition to_compat_agent_skill :: "agent_skill \<Rightarrow> skill03" where
  "to_compat_agent_skill s =
     \<lparr>sk3_description = sk_description s, sk3_examples = list_or_none (sk_examples s), sk3_id = sk_id s,
      sk3_input_modes = list_or_none (sk_input_modes s), sk3_name = sk_name s,
      sk3_output_modes = list_or_none (sk_output_modes s),
      sk3_security = list_or_none (map to_compat_security_requirement (sk_security_requirements s)),
      sk3_tags = sk_tags s\<rparr>"

definition to_core_agent_card_signature :: "json_codec \<Rightarrow> signature03 \<Rightarrow> exn + agent_card_signature" where
  "to_core_agent_card_signature k s =
     rbind (rmap_opt (dict_to_struct k) (some_truthy (sg3_header s))) (\<lambda>h.
       Inr \<lparr>sig_protected = sg3_protected s, sig_signature = sg3_signature s, sig_header = h\<rparr>)"

definition to_compat_agent_card_signature :: "json_codec \<Rightarrow> agent_card_signature \<Rightarrow> exn + signature03" where
  "to_compat_agent_card_signature k s =
     rbind (rmap_opt (struct_to_dict k) (sig_header s)) (\<lambda>h.
       Inr \<lparr>sg3_header = h, sg3_protected = sig_protected s, sg3_signature = sig_signature s\<rparr>)"

subsection \<open>The card\<close>

definition or_default :: "string \<Rightarrow> string option \<Rightarrow> string" where
  "or_default d s = (if py_truthy s then or_empty s else d)"

definition to_core_agent_card :: "json_codec \<Rightarrow> agent_card03 \<Rightarrow> exn + agent_card" where
  "to_core_agent_card k c =
     rbind (to_core_agent_capabilities k (ca3_capabilities c)) (\<lambda>cap.
     rbind (rmap_list (to_core_agent_card_signature k) (list_or_nil (ca3_signatures c))) (\<lambda>sigs.
       Inr \<lparr>card_name = ca3_name c, card_description = ca3_description c,
            card_supported_interfaces =
              \<lparr>ai_url = ca3_url c, ai_protocol_binding = or_default ''JSONRPC'' (ca3_preferred_transport c),
               ai_tenant = [], ai_protocol_version = or_default PROTOCOL_VERSION_0_3 (ca3_protocol_version c)\<rparr> #
              map to_core_agent_interface (list_or_nil (ca3_additional_interfaces c)),
            card_provider = map_option to_core_agent_provider (ca3_provider c),
            card_version = ca3_version c,
            card_documentation_url = some_truthy (ca3_documentation_url c),
            card_capabilities = Some (cap\<lparr>cap_extended_agent_card := ca3_supports_authenticated_extended_card c\<rparr>),
            card_security_schemes = assign_all (map (\<lambda>(name, s). (name, Some (to_core_security_scheme s)))
              (list_or_nil (ca3_security_schemes c))),
            card_security_requirements = map to_core_security_requirement (list_or_nil (ca3_security c)),
            card_default_input_modes = ca3_default_input_modes c,
            card_default_output_modes = ca3_default_output_modes c,
            card_skills = map to_core_agent_skill (ca3_skills c), card_signatures = sigs,
            card_icon_url = some_truthy (ca3_icon_url c)\<rparr>))"

definition compat_interfaces :: "'v version_lib \<Rightarrow> agent_card \<Rightarrow> agent_interface list" where
  "compat_interfaces lib c =
     filter (\<lambda>i. ai_protocol_version i = [] \<or> is_legacy_version lib (Some (ai_protocol_version i)))
       (card_supported_interfaces c)"

definition scheme_entry :: "string \<times> security_scheme option \<Rightarrow> exn + (string \<times> security_scheme03)" where
  "scheme_entry e = rbind (to_compat_security_scheme (snd e)) (\<lambda>s. Inr (fst e, s))"

definition to_compat_agent_card :: "'v version_lib \<Rightarrow> json_codec \<Rightarrow> agent_card \<Rightarrow> exn + agent_card03" where
  "to_compat_agent_card lib k c =
     (case compat_interfaces lib c of
        [] \<Rightarrow> Inl (A2A (err_msg VersionNotSupportedError
                ''AgentCard must have at least one interface with compatible protocol version.''))
      | primary # others \<Rightarrow>
          rbind (to_compat_agent_capabilities k (card_capabilities_of c)) (\<lambda>cap.
          rbind (rmap_list scheme_entry (card_security_schemes c)) (\<lambda>schemes.
          rbind (rmap_list (to_compat_agent_card_signature k) (card_signatures c)) (\<lambda>sigs.
            Inr \<lparr>ca3_additional_interfaces = list_or_none (map to_compat_agent_interface others),
                 ca3_capabilities = cap, ca3_default_input_modes = card_default_input_modes c,
                 ca3_default_output_modes = card_default_output_modes c,
                 ca3_description = card_description c,
                 ca3_documentation_url = card_documentation_url c, ca3_icon_url = card_icon_url c,
                 ca3_name = card_name c, ca3_preferred_transport = Some (ai_protocol_binding primary),
                 ca3_protocol_version = Some (or_default PROTOCOL_VERSION_0_3 (Some (ai_protocol_version primary))),
                 ca3_provider = map_option to_compat_agent_provider (card_provider c),
                 ca3_security = list_or_none (map to_compat_security_requirement (card_security_requirements c)),
                 ca3_security_schemes = list_or_none schemes, ca3_signatures = list_or_none sigs,
                 ca3_skills = map to_compat_agent_skill (card_skills c),
                 ca3_supports_authenticated_extended_card = cap_extended_agent_card (card_capabilities_of c),
                 ca3_url = ai_url primary, ca3_version = card_version c\<rparr>))))"

subsection \<open>There and back\<close>

lemma fold_update_fresh:
  "dict_ok (old @ es) \<Longrightarrow> fold (\<lambda>(k, v). AList.update k v) es old = old @ es"
proof (induction es arbitrary: old)
  case (Cons e es)
  obtain k v where e: "e = (k, v)" by (cases e)
  from Cons.prems have fresh: "k \<notin> fst ` set old" by (auto simp: dict_ok_def e)
  have "AList.update k v old = old @ [(k, v)]" using fresh by (induction old) auto
  moreover have "dict_ok ((old @ [(k, v)]) @ es)" using Cons.prems by (simp add: e)
  ultimately show ?case using Cons.IH [of "old @ [(k, v)]"] by (simp add: e)
qed simp

lemma assign_all_id: "dict_ok es \<Longrightarrow> assign_all es = es"
  using fold_update_fresh [of "[]" es] by (simp add: assign_all_def)

lemma assign_all_ok [simp]: "dict_ok (assign_all es)"
proof -
  have "dict_ok old \<Longrightarrow> dict_ok (fold (\<lambda>(k, v). AList.update k v) es old)" for old
    by (induction es arbitrary: old) auto
  then show ?thesis by (simp add: assign_all_def)
qed

fun flow_normal :: "oauth_flow option \<Rightarrow> oauth_flow option" where
  "flow_normal (Some (AuthorizationCode f)) = Some (AuthorizationCode (f\<lparr>acf_pkce_required := False\<rparr>))"
| "flow_normal (Some (DeviceCode f)) = None"
| "flow_normal f = f"

lemma flows_back: "to_core_oauth_flows (to_compat_oauth_flows f) = flow_normal f"
  by (cases f rule: flow_normal.cases) (simp_all add: to_core_oauth_flows_def no_flows_def set_flow_def)

fun scheme_normal :: "security_scheme \<Rightarrow> security_scheme" where
  "scheme_normal (OAuth2S s) =
     OAuth2S (s\<lparr>oas_flows := Some (flow_normal (case oas_flows s of None \<Rightarrow> None | Some f \<Rightarrow> f))\<rparr>)"
| "scheme_normal s = s"

lemma in03_back: "in03_of s = Inr i \<Longrightarrow> in03_value i = s"
  by (cases i) (auto simp: in03_of_def split: if_splits)

lemma scheme_back:
  "to_compat_security_scheme s = Inr q \<Longrightarrow> s = Some s' \<Longrightarrow> to_core_security_scheme q = scheme_normal s'"
  by (cases s rule: to_compat_security_scheme.cases) (auto simp: flows_back in03_back)

lemma scheme_some: "to_compat_security_scheme s = Inr q \<Longrightarrow> \<exists>s'. s = Some s'"
  by (cases s) auto

lemma schemes_back:
  "rmap_list scheme_entry es = Inr qs \<Longrightarrow>
   map (\<lambda>(name, s). (name, Some (to_core_security_scheme s))) qs = map (\<lambda>(n, s). (n, map_option scheme_normal s)) es"
proof (induction es arbitrary: qs)
  case (Cons e es)
  obtain n s where e: "e = (n, s)" by (cases e)
  have se: "scheme_entry (n, s) = rbind (to_compat_security_scheme s) (\<lambda>s. Inr (n, s))"
    by (simp add: scheme_entry_def)
  from Cons.prems obtain q qs' where q: "to_compat_security_scheme s = Inr q"
    and qs': "rmap_list scheme_entry es = Inr qs'" and qs: "qs = (n, q) # qs'"
    by (cases "to_compat_security_scheme s"; cases "rmap_list scheme_entry es") (auto simp: e se)
  from scheme_some [OF q] obtain s' where "s = Some s'" by blast
  with scheme_back [OF q] Cons.IH [OF qs'] show ?case by (simp add: qs e)
qed simp

definition extension_normal :: "agent_extension \<Rightarrow> agent_extension" where
  "extension_normal x = x\<lparr>ax_params := some_truthy (ax_params x)\<rparr>"

definition capabilities_normal :: "agent_capabilities \<Rightarrow> agent_capabilities" where
  "capabilities_normal c = c\<lparr>cap_extensions := map extension_normal (cap_extensions c)\<rparr>"

lemma extension_back:
  assumes "json_codec_ok k" "to_compat_agent_extension k x = Inr q"
  shows "to_core_agent_extension k q = Inr (extension_normal x)"
  using assms meta_back(2) [OF assms(1)]
  by (auto simp: to_compat_agent_extension_def to_core_agent_extension_def extension_normal_def)

lemma capabilities_back:
  assumes k: "json_codec_ok k" and c: "to_compat_agent_capabilities k cap = Inr q"
  shows "to_core_agent_capabilities k q = Inr (capabilities_normal (cap\<lparr>cap_extended_agent_card := None\<rparr>))"
proof -
  from c obtain es where es: "rmap_list (to_compat_agent_extension k) (cap_extensions cap) = Inr es"
    and q: "q = \<lparr>cp3_extensions = list_or_none es, cp3_push_notifications = cap_push_notifications cap,
            cp3_state_transition_history = None, cp3_streaming = cap_streaming cap\<rparr>"
    by (auto simp: to_compat_agent_capabilities_def)
  have "rmap_list (to_core_agent_extension k) es = Inr (map extension_normal (cap_extensions cap))"
    using es by (rule rmap_list_back) (rule extension_back [OF k])
  then show ?thesis
    by (simp add: to_core_agent_capabilities_def q capabilities_normal_def)
qed

definition signature_normal :: "agent_card_signature \<Rightarrow> agent_card_signature" where
  "signature_normal s = s\<lparr>sig_header := some_truthy (sig_header s)\<rparr>"

lemma signature_back:
  assumes "json_codec_ok k" "to_compat_agent_card_signature k s = Inr q"
  shows "to_core_agent_card_signature k q = Inr (signature_normal s)"
  using assms meta_back(2) [OF assms(1)]
  by (auto simp: to_compat_agent_card_signature_def to_core_agent_card_signature_def signature_normal_def)

lemma requirements_back:
  "list_all dict_ok rs \<Longrightarrow> map to_core_security_requirement (map to_compat_security_requirement rs) = rs"
  by (induction rs) (simp_all add: to_core_security_requirement_def to_compat_security_requirement_def assign_all_id)

lemma skill_back:
  "list_all dict_ok (sk_security_requirements s) \<Longrightarrow> to_core_agent_skill (to_compat_agent_skill s) = s"
  using requirements_back [of "sk_security_requirements s"]
  by (simp add: to_core_agent_skill_def to_compat_agent_skill_def)

lemma provider_back [simp]: "to_core_agent_provider (to_compat_agent_provider p) = p"
  by (simp add: to_core_agent_provider_def to_compat_agent_provider_def)

definition card_wf :: "agent_card \<Rightarrow> bool" where
  "card_wf c \<longleftrightarrow> dict_ok (card_security_schemes c) \<and> list_all dict_ok (card_security_requirements c) \<and>
     list_all (\<lambda>s. list_all dict_ok (sk_security_requirements s)) (card_skills c)"

text \<open>
  The interfaces that are kept: the first compatible one with its version, the others with
  version 0.3; a tenant is lost.
\<close>

fun interfaces_normal :: "agent_interface list \<Rightarrow> agent_interface list" where
  "interfaces_normal [] = []"
| "interfaces_normal (i # is) =
     i\<lparr>ai_protocol_binding := or_default ''JSONRPC'' (Some (ai_protocol_binding i)), ai_tenant := [],
       ai_protocol_version := or_default PROTOCOL_VERSION_0_3 (Some (ai_protocol_version i))\<rparr> #
     map (\<lambda>j. j\<lparr>ai_tenant := [], ai_protocol_version := PROTOCOL_VERSION_0_3\<rparr>) is"

definition card_normal :: "'v version_lib \<Rightarrow> agent_card \<Rightarrow> agent_card" where
  "card_normal lib c = c\<lparr>card_supported_interfaces := interfaces_normal (compat_interfaces lib c),
     card_documentation_url := some_truthy (card_documentation_url c),
     card_icon_url := some_truthy (card_icon_url c),
     card_capabilities := Some (capabilities_normal (card_capabilities_of c)),
     card_security_schemes := map (\<lambda>(n, s). (n, map_option scheme_normal s)) (card_security_schemes c),
     card_signatures := map signature_normal (card_signatures c)\<rparr>"

lemma or_default_idem [simp]: "d \<noteq> [] \<Longrightarrow> or_default d (Some (or_default d s)) = or_default d s"
  by (auto simp: or_default_def py_truthy_iff)

lemma version_0_3_nonempty [simp]: "PROTOCOL_VERSION_0_3 \<noteq> []"
  by (simp add: PROTOCOL_VERSION_0_3_def)

lemma dict_ok_map_snd: "dict_ok (map (\<lambda>(n, s). (n, f s)) d) \<longleftrightarrow> dict_ok d"
  by (simp add: dict_ok_def comp_def case_prod_beta)

lemma interface_back:
  "to_core_agent_interface (to_compat_agent_interface j) = j\<lparr>ai_tenant := [], ai_protocol_version := PROTOCOL_VERSION_0_3\<rparr>"
  by (simp add: to_core_agent_interface_def to_compat_agent_interface_def)

lemma card_back:
  assumes k: "json_codec_ok k" and wf: "card_wf c" and cc: "to_compat_agent_card lib k c = Inr q"
  shows "to_core_agent_card k q = Inr (card_normal lib c)"
proof -
  from cc obtain primary others where i: "compat_interfaces lib c = primary # others"
    by (auto simp: to_compat_agent_card_def split: list.splits)
  from cc obtain cap schemes sigs
    where cap: "to_compat_agent_capabilities k (card_capabilities_of c) = Inr cap"
      and schemes: "rmap_list scheme_entry (card_security_schemes c) = Inr schemes"
      and sigs: "rmap_list (to_compat_agent_card_signature k) (card_signatures c) = Inr sigs"
      and q: "q = \<lparr>ca3_additional_interfaces = list_or_none (map to_compat_agent_interface others),
                 ca3_capabilities = cap, ca3_default_input_modes = card_default_input_modes c,
                 ca3_default_output_modes = card_default_output_modes c,
                 ca3_description = card_description c,
                 ca3_documentation_url = card_documentation_url c, ca3_icon_url = card_icon_url c,
                 ca3_name = card_name c, ca3_preferred_transport = Some (ai_protocol_binding primary),
                 ca3_protocol_version = Some (or_default PROTOCOL_VERSION_0_3 (Some (ai_protocol_version primary))),
                 ca3_provider = map_option to_compat_agent_provider (card_provider c),
                 ca3_security = list_or_none (map to_compat_security_requirement (card_security_requirements c)),
                 ca3_security_schemes = list_or_none schemes, ca3_signatures = list_or_none sigs,
                 ca3_skills = map to_compat_agent_skill (card_skills c),
                 ca3_supports_authenticated_extended_card = cap_extended_agent_card (card_capabilities_of c),
                 ca3_url = ai_url primary, ca3_version = card_version c\<rparr>"
    by (auto simp: to_compat_agent_card_def i)
  have sg: "rmap_list (to_core_agent_card_signature k) sigs = Inr (map signature_normal (card_signatures c))"
    using sigs by (rule rmap_list_back) (rule signature_back [OF k])
  have sch: "assign_all (map (\<lambda>(name, s). (name, Some (to_core_security_scheme s))) schemes) =
      map (\<lambda>(n, s). (n, map_option scheme_normal s)) (card_security_schemes c)"
    unfolding schemes_back [OF schemes]
    using wf by (simp add: card_wf_def assign_all_id dict_ok_map_snd)
  have sk: "map to_core_agent_skill (map to_compat_agent_skill (card_skills c)) = card_skills c"
    using wf by (auto simp: card_wf_def list_all_iff comp_def skill_back intro: map_idI)
  have req: "map to_core_security_requirement (map to_compat_security_requirement (card_security_requirements c)) =
      card_security_requirements c"
    by (rule requirements_back) (use wf in \<open>simp add: card_wf_def\<close>)
  have inter: "map to_core_agent_interface (map to_compat_agent_interface others) =
      map (\<lambda>j. j\<lparr>ai_tenant := [], ai_protocol_version := PROTOCOL_VERSION_0_3\<rparr>) others"
    by (simp add: interface_back)
  have prov: "map_option to_core_agent_provider (map_option to_compat_agent_provider (card_provider c)) = card_provider c"
    by (cases "card_provider c") simp_all
  show ?thesis
    using capabilities_back [OF k cap] sg
    by (simp add: to_core_agent_card_def q sch sk req inter prov card_normal_def i capabilities_normal_def
        del: map_map)
qed

text \<open>A card is refused when no interface is compatible.\<close>

lemma card_refused:
  "compat_interfaces lib c = [] \<Longrightarrow>
   to_compat_agent_card lib k c = Inl (A2A (err_msg VersionNotSupportedError
     ''AgentCard must have at least one interface with compatible protocol version.''))"
  by (simp add: to_compat_agent_card_def)

text \<open>Of several flows of protocol 0.3, one is left: the last in the order below.\<close>

lemma flows_last:
  "to_core_oauth_flows fl = None \<longleftrightarrow> fl = no_flows"
  "of_password fl \<noteq> None \<Longrightarrow> \<exists>p. to_core_oauth_flows fl = Some (Password p)"
  by (cases fl; auto simp: to_core_oauth_flows_def set_flow_def no_flows_def split: option.splits)+

end
