(* ===== verification/Compat_Handler.thy ===== *)
theory Compat_Handler
  imports Compat_Cards
begin

text \<open>
  The abstract class \<^verbatim>\<open>RequestHandler\<close> (\<^verbatim>\<open>server/request_handlers/request_handler.py\<close>) as a record of
  its operations on a state of any type, and \<^verbatim>\<open>RequestHandler03\<close>
  (\<^verbatim>\<open>compat/v0_3/request_handler.py\<close>), which serves protocol 0.3 with such a handler. A stream is
  the list of what it yields and the exception that ends it, if one does. The client's side of the
  conversions is that of \<^verbatim>\<open>compat/v0_3/jsonrpc_transport.py\<close>.
\<close>

type_synonym ('a, 's) call = "'s \<Rightarrow> 's \<times> (exn + 'a)"
type_synonym ('a, 's) stream_call = "'s \<Rightarrow> 's \<times> 'a list \<times> exn option"

record 's request_handler =
  rh_get_task :: "get_task_request \<Rightarrow> call_context \<Rightarrow> (task option, 's) call"
  rh_list_tasks :: "list_tasks_request \<Rightarrow> call_context \<Rightarrow> (list_tasks_response, 's) call"
  rh_cancel_task :: "cancel_task_request \<Rightarrow> call_context \<Rightarrow> (task option, 's) call"
  rh_message_send :: "send_message_request \<Rightarrow> call_context \<Rightarrow> (send_response, 's) call"
  rh_message_send_stream :: "send_message_request \<Rightarrow> call_context \<Rightarrow> (event option, 's) stream_call"
  rh_create_push_config :: "push_config \<Rightarrow> call_context \<Rightarrow> (push_config, 's) call"
  rh_get_push_config :: "get_push_config_request \<Rightarrow> call_context \<Rightarrow> (push_config, 's) call"
  rh_subscribe :: "subscribe_request \<Rightarrow> call_context \<Rightarrow> (event option, 's) stream_call"
  rh_list_push_configs :: "list_push_configs_request \<Rightarrow> call_context \<Rightarrow> (list_push_configs_response, 's) call"
  rh_delete_push_config :: "delete_push_config_request \<Rightarrow> call_context \<Rightarrow> (unit, 's) call"
  rh_get_extended_agent_card :: "call_context \<Rightarrow> (agent_card, 's) call"

subsection \<open>Calls through a conversion\<close>

text \<open>The request is converted, the handler called, the result converted; an exception ends it.\<close>

definition call_through :: "exn + 'q \<Rightarrow> ('q \<Rightarrow> ('r, 's) call) \<Rightarrow> ('r \<Rightarrow> exn + 'x) \<Rightarrow> ('x, 's) call" where
  "call_through q f back s =
     (case q of
        Inl e \<Rightarrow> (s, Inl e)
      | Inr req \<Rightarrow> (case f req s of
                      (s', Inl e) \<Rightarrow> (s', Inl e)
                    | (s', Inr r) \<Rightarrow> (s', back r)))"

fun conv_stream :: "('a \<Rightarrow> exn + 'b) \<Rightarrow> 'a list \<Rightarrow> exn option \<Rightarrow> 'b list \<times> exn option" where
  "conv_stream f [] e = ([], e)"
| "conv_stream f (x # xs) e =
     (case f x of
        Inl x' \<Rightarrow> ([], Some x')
      | Inr y \<Rightarrow> (let (ys, e') = conv_stream f xs e in (y # ys, e')))"

definition stream_through ::
  "exn + 'q \<Rightarrow> ('q \<Rightarrow> ('a, 's) stream_call) \<Rightarrow> ('a \<Rightarrow> exn + 'b) \<Rightarrow> ('b, 's) stream_call" where
  "stream_through q f back s =
     (case q of
        Inl e \<Rightarrow> (s, [], Some e)
      | Inr req \<Rightarrow> (let (s', xs, e) = f req s in (s', conv_stream back xs e)))"

text \<open>\<^verbatim>\<open>if v10_task: ... else: raise TaskNotFoundError\<close>\<close>

definition task_or_not_found :: "(task \<Rightarrow> exn + 'x) \<Rightarrow> task option \<Rightarrow> exn + 'x" where
  "task_or_not_found f t = (case t of None \<Rightarrow> Inl (A2A (err TaskNotFoundError)) | Some x \<Rightarrow> f x)"

definition stream_response_of :: "event option \<Rightarrow> stream_response" where
  "stream_response_of ev = (case ev of None \<Rightarrow> EmptyResponse | Some x \<Rightarrow> to_stream_response x)"

subsection \<open>The handler of protocol 0.3\<close>

fun compat_send_result :: "json_codec \<Rightarrow> send_response \<Rightarrow> exn + send_result03" where
  "compat_send_result k (TaskResponse t) = rbind (to_compat_task k t) (\<lambda>x. Inr (SendTask x))"
| "compat_send_result k (MessageResponse m) = rbind (to_compat_message k m) (\<lambda>x. Inr (SendMessage x))"
| "compat_send_result k EmptySendResponse = rbind (to_compat_message k empty_message) (\<lambda>x. Inr (SendMessage x))"

definition h03_message_send ::
  "'s request_handler \<Rightarrow> json_codec \<Rightarrow> send_request03 \<Rightarrow> call_context \<Rightarrow> (send_result03, 's) call" where
  "h03_message_send h k r c =
     call_through (to_core_send_message_request k r) (\<lambda>q. rh_message_send h q c) (compat_send_result k)"

definition h03_message_send_stream ::
  "'s request_handler \<Rightarrow> json_codec \<Rightarrow> send_request03 \<Rightarrow> call_context \<Rightarrow> (stream_result03 rpc_success, 's) stream_call" where
  "h03_message_send_stream h k r c =
     stream_through (to_core_send_message_request k r) (\<lambda>q. rh_message_send_stream h q c)
       (\<lambda>ev. to_compat_stream_response k (stream_response_of ev) (Some (rq_id r)))"

definition h03_cancel_task ::
  "'s request_handler \<Rightarrow> json_codec \<Rightarrow> cancel_request03 \<Rightarrow> call_context \<Rightarrow> (task03, 's) call" where
  "h03_cancel_task h k r c =
     call_through (to_core_cancel_task_request k r) (\<lambda>q. rh_cancel_task h q c) (task_or_not_found (to_compat_task k))"

definition h03_subscribe_to_task ::
  "'s request_handler \<Rightarrow> json_codec \<Rightarrow> subscribe_request03 \<Rightarrow> call_context \<Rightarrow> (stream_result03 rpc_success, 's) stream_call" where
  "h03_subscribe_to_task h k r c =
     stream_through (Inr (to_core_subscribe_to_task_request r)) (\<lambda>q. rh_subscribe h q c)
       (\<lambda>ev. to_compat_stream_response k (stream_response_of ev) (Some (rq_id r)))"

definition h03_get_push_config ::
  "'s request_handler \<Rightarrow> get_push_request03 \<Rightarrow> call_context \<Rightarrow> (task_push_config03, 's) call" where
  "h03_get_push_config h r c =
     call_through (Inr (to_core_get_task_push_notification_config_request r)) (\<lambda>q. rh_get_push_config h q c)
       (\<lambda>p. Inr (to_compat_task_push_notification_config p))"

definition h03_create_push_config ::
  "'s request_handler \<Rightarrow> set_push_request03 \<Rightarrow> call_context \<Rightarrow> (task_push_config03, 's) call" where
  "h03_create_push_config h r c =
     call_through (Inr (to_core_create_task_push_notification_config_request r)) (\<lambda>q. rh_create_push_config h q c)
       (\<lambda>p. Inr (to_compat_task_push_notification_config p))"

definition h03_get_task ::
  "'s request_handler \<Rightarrow> json_codec \<Rightarrow> get_task_request03 \<Rightarrow> call_context \<Rightarrow> (task03, 's) call" where
  "h03_get_task h k r c =
     call_through (to_core_get_task_request r) (\<lambda>q. rh_get_task h q c) (task_or_not_found (to_compat_task k))"

definition h03_list_push_configs ::
  "'s request_handler \<Rightarrow> list_push_request03 \<Rightarrow> call_context \<Rightarrow> (task_push_config03 list, 's) call" where
  "h03_list_push_configs h r c =
     call_through (Inr (to_core_list_task_push_notification_config_request r)) (\<lambda>q. rh_list_push_configs h q c)
       (\<lambda>p. Inr (case to_compat_list_task_push_notification_config_response p (Some (rq_id r)) of
          RpcSuccess ok \<Rightarrow> ok_result ok | RpcError _ _ \<Rightarrow> []))"

definition h03_delete_push_config ::
  "'s request_handler \<Rightarrow> delete_push_request03 \<Rightarrow> call_context \<Rightarrow> (unit, 's) call" where
  "h03_delete_push_config h r c =
     call_through (Inr (to_core_delete_task_push_notification_config_request r)) (\<lambda>q. rh_delete_push_config h q c)
       (\<lambda>_. Inr ())"

definition h03_get_extended_agent_card ::
  "'v version_lib \<Rightarrow> 's request_handler \<Rightarrow> json_codec \<Rightarrow> call_context \<Rightarrow> (agent_card03, 's) call" where
  "h03_get_extended_agent_card lib h k c =
     call_through (Inr ()) (\<lambda>_. rh_get_extended_agent_card h c) (to_compat_agent_card lib k)"

subsection \<open>The client's calls\<close>

text \<open>
  A client of protocol 1.0 that talks to a server of protocol 0.3: its request is converted, the
  request id is its own, and the result converted back.
\<close>

definition c03_get_task ::
  "'s request_handler \<Rightarrow> json_codec \<Rightarrow> rpc_id \<Rightarrow> get_task_request \<Rightarrow> call_context \<Rightarrow> (task, 's) call" where
  "c03_get_task h k rid r c =
     call_through (Inr (to_compat_get_task_request r rid)) (\<lambda>q. h03_get_task h k q c) (to_core_task k)"

definition c03_cancel_task ::
  "'s request_handler \<Rightarrow> json_codec \<Rightarrow> rpc_id \<Rightarrow> cancel_task_request \<Rightarrow> call_context \<Rightarrow> (task, 's) call" where
  "c03_cancel_task h k rid r c =
     call_through (to_compat_cancel_task_request k r rid) (\<lambda>q. h03_cancel_task h k q c) (to_core_task k)"

fun core_send_result :: "json_codec \<Rightarrow> send_result03 \<Rightarrow> exn + send_response" where
  "core_send_result k (SendTask t) = rbind (to_core_task k t) (\<lambda>x. Inr (TaskResponse x))"
| "core_send_result k (SendMessage m) = rbind (to_core_message k m) (\<lambda>x. Inr (MessageResponse x))"

definition c03_send_message ::
  "'s request_handler \<Rightarrow> json_codec \<Rightarrow> rpc_id \<Rightarrow> send_message_request \<Rightarrow> call_context \<Rightarrow> (send_response, 's) call" where
  "c03_send_message h k rid r c =
     call_through (to_compat_send_message_request k r rid) (\<lambda>q. h03_message_send h k q c) (core_send_result k)"

definition c03_send_message_streaming ::
  "'s request_handler \<Rightarrow> json_codec \<Rightarrow> rpc_id \<Rightarrow> send_message_request \<Rightarrow> call_context \<Rightarrow> (stream_response, 's) stream_call" where
  "c03_send_message_streaming h k rid r c =
     stream_through (to_compat_send_message_request k r rid) (\<lambda>q. h03_message_send_stream h k q c)
       (to_core_stream_response k)"

subsection \<open>Laws\<close>

lemma call_through_Inr:
  "call_through q f back s = (s', Inr x) \<longleftrightarrow>
   (\<exists>req r. q = Inr req \<and> f req s = (s', Inr r) \<and> back r = Inr x)"
  by (cases q) (auto simp: call_through_def split: prod.splits sum.splits)

text \<open>The state changes exactly as the handler's call changes it.\<close>

lemma call_through_state: "fst (call_through q f back s) = (case q of Inl _ \<Rightarrow> s | Inr req \<Rightarrow> fst (f req s))"
  by (auto simp: call_through_def split: sum.splits prod.splits)

text \<open>Composition: two conversions in a row are one.\<close>

lemma call_through_twice:
  "call_through q (\<lambda>x. call_through (g x) f back1) back2 =
   call_through (rbind q g) f (\<lambda>r. rbind (back1 r) back2)"
  by (intro ext) (auto simp: call_through_def rbind_def split: sum.splits prod.splits)

fun send_response_normal :: "send_response \<Rightarrow> send_response" where
  "send_response_normal (TaskResponse t) = TaskResponse (task_normal t)"
| "send_response_normal (MessageResponse m) = MessageResponse (message_normal m)"
| "send_response_normal EmptySendResponse = MessageResponse (message_normal empty_message)"

fun send_response_free :: "send_response \<Rightarrow> bool" where
  "send_response_free (TaskResponse t) = task_free t"
| "send_response_free (MessageResponse m) = message_free m"
| "send_response_free EmptySendResponse = True"

lemma send_result_back:
  assumes k: "json_codec_ok k" and f: "send_response_free r" and c: "compat_send_result k r = Inr q"
  shows "core_send_result k q = Inr (send_response_normal r)"
proof -
  have "message_free empty_message" by (simp add: message_free_def empty_message_def)
  with f c show ?thesis
    by (cases r) (auto simp: task_back [OF k] message_back [OF k])
qed

lemma get_task_over_03:
  assumes k: "json_codec_ok k" and hl: "pred_option int32 (gt_history_length r)"
    and run: "c03_get_task h k rid r c s = (s', Inr t')"
    and free: "\<And>s1 t. rh_get_task h (r\<lparr>gt_tenant := []\<rparr>) c s = (s1, Inr (Some t)) \<Longrightarrow> task_free t"
  shows "\<exists>t. rh_get_task h (r\<lparr>gt_tenant := []\<rparr>) c s = (s', Inr (Some t)) \<and> t' = task_normal t"
proof -
  from run get_task_request_back [OF hl, of rid] obtain t q
    where t: "rh_get_task h (r\<lparr>gt_tenant := []\<rparr>) c s = (s', Inr (Some t))"
      and q: "to_compat_task k t = Inr q" and t': "to_core_task k q = Inr t'"
    by (auto simp: c03_get_task_def h03_get_task_def call_through_Inr task_or_not_found_def split: option.splits)
  from task_back [OF k free [OF t] q] t t' show ?thesis by auto
qed

lemma send_message_over_03:
  assumes k: "json_codec_ok k" and rf: "send_request_free r"
    and run: "c03_send_message h k rid r c s = (s', Inr x)"
    and free: "\<And>s1 y. rh_message_send h (send_request_normal r) c s = (s1, Inr y) \<Longrightarrow> send_response_free y"
  shows "\<exists>y. rh_message_send h (send_request_normal r) c s = (s', Inr y) \<and> x = send_response_normal y"
proof -
  from run obtain q q' y z where q: "to_compat_send_message_request k r rid = Inr q"
    and q': "to_core_send_message_request k q = Inr q'" and y: "rh_message_send h q' c s = (s', Inr y)"
    and z: "compat_send_result k y = Inr z" and x: "core_send_result k z = Inr x"
    by (auto simp: c03_send_message_def h03_message_send_def call_through_Inr)
  have q'n: "q' = send_request_normal r" using send_request_back(1) [OF k rf q] q' by simp
  from send_result_back [OF k free z] y q'n x show ?thesis by auto
qed

text \<open>
  A stream that is converted and converted back: a prefix of it, up to the normal forms; it is cut
  short only where a conversion fails.
\<close>

lemma conv_stream_back:
  "conv_stream f xs e = (ys, e') \<Longrightarrow>
   (\<And>x y. x \<in> set xs \<Longrightarrow> f x = Inr y \<Longrightarrow> g y = Inr (n x)) \<Longrightarrow>
   \<exists>i \<le> length xs. conv_stream g ys e' = (map n (take i xs), e') \<and>
     (if i = length xs then e' = e else isl (f (xs ! i)))"
proof (induction xs arbitrary: ys)
  case Nil
  then show ?case by auto
next
  case (Cons x xs)
  show ?case
  proof (cases "f x")
    case (Inl a)
    with Cons.prems show ?thesis by (intro exI [of _ 0]) auto
  next
    case (Inr y)
    with Cons.prems(1) obtain ys' where ys: "ys = y # ys'" and r: "conv_stream f xs e = (ys', e')"
      by (auto split: prod.splits)
    have "\<exists>i \<le> length xs. conv_stream g ys' e' = (map n (take i xs), e') \<and>
        (if i = length xs then e' = e else isl (f (xs ! i)))"
      by (rule Cons.IH [OF r]) (auto intro: Cons.prems(2))
    then obtain i where "i \<le> length xs" "conv_stream g ys' e' = (map n (take i xs), e')"
      "if i = length xs then e' = e else isl (f (xs ! i))" by blast
    moreover have "g y = Inr (n x)" by (rule Cons.prems(2)) (simp_all add: Inr)
    ultimately show ?thesis by (intro exI [of _ "Suc i"]) (simp add: ys)
  qed
qed

definition stream_event_free :: "event option \<Rightarrow> bool" where
  "stream_event_free ev = pred_option event_free ev"

lemma stream_over_03:
  assumes k: "json_codec_ok k" and rf: "send_request_free r"
    and req: "to_compat_send_message_request k r rid = Inr q"
    and core: "rh_message_send_stream h (send_request_normal r) c s = (s1, evs, e)"
    and free: "list_all stream_event_free evs"
    and run: "c03_send_message_streaming h k rid r c s = (s', out, e')"
  shows "s' = s1 \<and> (\<exists>i \<le> length evs.
    out = map (\<lambda>ev. StreamEvent (event_normal (the ev))) (take i evs) \<and>
    (if i = length evs then e' = e
     else isl (to_compat_stream_response k (stream_response_of (evs ! i)) (Some rid))))"
proof -
  let ?f = "\<lambda>ev. to_compat_stream_response k (stream_response_of ev) (Some rid)"
  obtain ys e1 where ys: "conv_stream ?f evs e = (ys, e1)" by (cases "conv_stream ?f evs e")
  have "rq_id q = rid" and q': "to_core_send_message_request k q = Inr (send_request_normal r)"
    using send_request_back [OF k rf req] by simp_all
  then have out: "(s', out, e') = (s1, conv_stream (to_core_stream_response k) ys e1)"
    using run core ys req
    by (simp add: c03_send_message_streaming_def h03_message_send_stream_def stream_through_def)
  have step: "to_core_stream_response k y = Inr (StreamEvent (event_normal (the ev)))"
    if "ev \<in> set evs" "?f ev = Inr y" for ev y
  proof (cases ev)
    case None
    with that(2) show ?thesis by (simp add: stream_response_of_def)
  next
    case (Some x)
    with that free have "event_free x" by (auto simp: list_all_iff stream_event_free_def)
    with stream_response_back(1) [OF k] that(2) Some show ?thesis
      by (simp add: stream_response_of_def to_stream_response_def del: to_compat_stream_response.simps to_core_stream_response.simps)
  qed
  have "\<exists>i \<le> length evs. conv_stream (to_core_stream_response k) ys e1 =
      (map (\<lambda>ev. StreamEvent (event_normal (the ev))) (take i evs), e1) \<and>
      (if i = length evs then e1 = e else isl (?f (evs ! i)))"
    using ys by (rule conv_stream_back) (rule step)
  then obtain i where i: "i \<le> length evs" "conv_stream (to_core_stream_response k) ys e1 =
      (map (\<lambda>ev. StreamEvent (event_normal (the ev))) (take i evs), e1)"
    "if i = length evs then e1 = e else isl (?f (evs ! i))" by blast
  with out have "s' = s1" "out = map (\<lambda>ev. StreamEvent (event_normal (the ev))) (take i evs)" "e' = e1"
    by simp_all
  with i(1,3) show ?thesis by blast
qed

end
