(* ===== verification/Jsonrpc.thy ===== *)
theory Jsonrpc
  imports Compat_Handler
begin

text \<open>
  The JSON-RPC endpoint: \<^verbatim>\<open>server/routes/jsonrpc_dispatcher.py\<close>, the error responses of
  \<^verbatim>\<open>server/request_handlers/response_helpers.py\<close>, the call context of \<^verbatim>\<open>server/routes/common.py\<close>, the
  adapter \<^verbatim>\<open>compat/v0_3/jsonrpc_adapter.py\<close>, and the errors as \<^verbatim>\<open>client/transports/jsonrpc.py\<close> reads
  them. What the libraries parse and print is the record \<open>rpc_codec\<close>; the details of an error are
  kept as values, which the JSON carries.
\<close>

subsection \<open>Requests as they arrive\<close>

text \<open>
  \<^verbatim>\<open>await request.json()\<close> gives a value or raises: \<^verbatim>\<open>JSONDecodeError\<close>, \<^verbatim>\<open>HTTPException\<close> with its
  status, or another exception. Header names are in lower case, as Starlette has them.
\<close>

datatype body = BodyJson json | BodyInvalid string | BodyHttpError int | BodyFails string

record http_server_request =
  hq_body :: body
  hq_headers :: "(string \<times> string) list"
  hq_user :: "string option"

fun split_comma :: "string \<Rightarrow> string list" where
  "split_comma [] = [[]]"
| "split_comma (c # s) =
     (if c = CHR '','' then [] # split_comma s
      else (case split_comma s of [] \<Rightarrow> [[c]] | x # xs \<Rightarrow> (c # x) # xs))"

text \<open>The ASCII white space that \<^verbatim>\<open>str.strip\<close> removes.\<close>

definition is_space :: "char \<Rightarrow> bool" where
  "is_space c \<longleftrightarrow> (of_char c :: nat) \<in> {9, 10, 11, 12, 13, 28, 29, 30, 31, 32}"

definition py_strip :: "string \<Rightarrow> string" where
  "py_strip s = rev (dropWhile is_space (rev (dropWhile is_space s)))"

text \<open>\<^verbatim>\<open>extensions/common.py\<close>; the set is a list without repetition.\<close>

definition get_requested_extensions :: "string list \<Rightarrow> string list" where
  "get_requested_extensions values =
     remdups (filter (\<lambda>x. x \<noteq> []) (map py_strip (concat (map split_comma values))))"

definition getlist :: "http_server_request \<Rightarrow> string \<Rightarrow> string list" where
  "getlist r name = map snd (filter (\<lambda>(k, _). k = lower_string name) (hq_headers r))"

definition HTTP_EXTENSION_HEADER :: string where
  "HTTP_EXTENSION_HEADER = ''A2A-Extensions''"

definition LEGACY_HTTP_EXTENSION_HEADER :: string where
  "LEGACY_HTTP_EXTENSION_HEADER = ''X-'' @ HTTP_EXTENSION_HEADER"

text \<open>\<^verbatim>\<open>dict(request.headers)\<close>: of a repeated header the first value.\<close>

definition header_dict :: "http_server_request \<Rightarrow> (string, string) dict" where
  "header_dict r = map (\<lambda>k. (k, case map_of (hq_headers r) k of None \<Rightarrow> [] | Some v \<Rightarrow> v))
     (remdups (map fst (hq_headers r)))"

definition default_build :: "http_server_request \<Rightarrow> call_context" where
  "default_build r =
     \<lparr>cc_user_name = or_empty (hq_user r), cc_tenant = [],
      cc_requested_extensions = get_requested_extensions (getlist r HTTP_EXTENSION_HEADER),
      cc_headers = header_dict r\<rparr>"

definition v03_build :: "(http_server_request \<Rightarrow> exn + call_context) \<Rightarrow> http_server_request \<Rightarrow> exn + call_context" where
  "v03_build inner r =
     rbind (inner r) (\<lambda>c. Inr (c\<lparr>cc_requested_extensions := remdups (cc_requested_extensions c @
       get_requested_extensions (getlist r LEGACY_HTTP_EXTENSION_HEADER))\<rparr>))"

subsection \<open>Errors\<close>

datatype rpc_error_data = NoData | TextData string | Details "error_detail list"

record jsonrpc_error =
  je_code :: int
  je_message :: string
  je_data :: rpc_error_data

definition JE_INVALID_REQUEST :: "string \<Rightarrow> rpc_error_data \<Rightarrow> jsonrpc_error" where
  "JE_INVALID_REQUEST m d = \<lparr>je_code = -32600, je_message = m, je_data = d\<rparr>"

definition JE_METHOD_NOT_FOUND :: jsonrpc_error where
  "JE_METHOD_NOT_FOUND = \<lparr>je_code = -32601, je_message = ''Method not found'', je_data = NoData\<rparr>"

definition JE_INVALID_PARAMS :: "rpc_error_data \<Rightarrow> jsonrpc_error" where
  "JE_INVALID_PARAMS d = \<lparr>je_code = -32602, je_message = ''Invalid params'', je_data = d\<rparr>"

definition JE_INTERNAL :: "string \<Rightarrow> jsonrpc_error" where
  "JE_INTERNAL m = \<lparr>je_code = -32603, je_message = m, je_data = NoData\<rparr>"

definition JE_PARSE :: "string \<Rightarrow> jsonrpc_error" where
  "JE_PARSE m = \<lparr>je_code = -32700, je_message = m, je_data = NoData\<rparr>"

text \<open>\<^verbatim>\<open>str(e)\<close> of an exception.\<close>

fun exn_text :: "exn \<Rightarrow> string" where
  "exn_text (A2A e) = err_message e"
| "exn_text (ValueError s) = s"
| "exn_text (RuntimeError s) = s"
| "exn_text (AgentException s) = s"
| "exn_text (KeyError s) = [CHR 0x27] @ s @ [CHR 0x27]"
| "exn_text IndexError = ''list index out of range''"
| "exn_text QueueShutDown = []"

text \<open>
  The class that \<^verbatim>\<open>EXCEPTION_MAP\<close> gives a kind of error; for one without an entry the internal error,
  whose code is the literal -32603, so that another code fails its validation.
\<close>

definition exception_mapped :: "a2a_kind \<Rightarrow> bool" where
  "exception_mapped k \<longleftrightarrow> k \<in> {TaskNotFoundError, TaskNotCancelableError, PushNotificationNotSupportedError,
     UnsupportedOperationError, ContentTypeNotSupportedError, InvalidAgentResponseError,
     ExtendedAgentCardNotConfiguredError, InvalidParamsError, InvalidRequestError, MethodNotFoundError,
     ExtensionSupportRequiredError, VersionNotSupportedError}"

definition jsonrpc_error_of :: "a2a_error \<Rightarrow> exn + jsonrpc_error" where
  "jsonrpc_error_of e =
     (let code = JSON_RPC_ERROR_CODE_MAP (err_kind e);
          r = \<lparr>je_code = code, je_message = err_message e, je_data = Details (build_error_details e)\<rparr>
      in if exception_mapped (err_kind e) \<or> code = -32603 then Inr r
         else Inl (ValueError ''Input should be -32603''))"

text \<open>A reply carries the id of its request.\<close>

datatype 'r reply = ErrorReply "json option" jsonrpc_error | ResultReply "json option" 'r

definition build_error_response :: "json option \<Rightarrow> a2a_error + jsonrpc_error \<Rightarrow> exn + 'r reply" where
  "build_error_response rid e =
     (case e of
        Inl a \<Rightarrow> rbind (jsonrpc_error_of a) (\<lambda>j. Inr (ErrorReply rid j))
      | Inr j \<Rightarrow> Inr (ErrorReply rid j))"

subsection \<open>The client's reading of an error\<close>

text \<open>\<^verbatim>\<open>_create_jsonrpc_error\<close>: an A2A error of a known code, or the client's own error.\<close>

datatype client_error = KnownError a2a_error | ClientError string

definition all_kinds :: "a2a_kind list" where
  "all_kinds = [TaskNotFoundError, TaskNotCancelableError, PushNotificationNotSupportedError,
     UnsupportedOperationError, ContentTypeNotSupportedError, InvalidAgentResponseError,
     ExtendedAgentCardNotConfiguredError, ExtensionSupportRequiredError, VersionNotSupportedError,
     InvalidParamsError, InvalidRequestError, MethodNotFoundError, InternalError, JSONParseError]"

definition JSON_RPC_ERROR_CODE_TO_A2A_ERROR :: "int \<Rightarrow> a2a_kind option" where
  "JSON_RPC_ERROR_CODE_TO_A2A_ERROR c = map_of (rev (map (\<lambda>k. (JSON_RPC_ERROR_CODE_MAP k, k)) all_kinds)) c"

fun first_error_info :: "error_detail list \<Rightarrow> error_data option" where
  "first_error_info [] = None"
| "first_error_info (ErrorInfo i # ds) =
     (if ei_metadata i = empty_data then None else Some (ei_metadata i))"
| "first_error_info (BadRequest vs # ds) = first_error_info ds"

definition create_jsonrpc_error :: "(jsonrpc_error \<Rightarrow> string) \<Rightarrow> jsonrpc_error \<Rightarrow> client_error" where
  "create_jsonrpc_error text j =
     (case JSON_RPC_ERROR_CODE_TO_A2A_ERROR (je_code j) of
        Some k \<Rightarrow> KnownError (mk_error k (Some (je_message j))
          (case je_data j of Details ds \<Rightarrow> first_error_info ds | _ \<Rightarrow> None))
      | None \<Rightarrow> ClientError (text j))"

subsection \<open>Parsing and printing by the libraries\<close>

datatype rpc_model = M_Send | M_Get | M_List | M_Cancel | M_CreatePush | M_GetPush | M_ListPush | M_DeletePush
  | M_Subscribe | M_Card

fun METHOD_TO_MODEL :: "string \<Rightarrow> rpc_model option" where
  "METHOD_TO_MODEL m =
     map_of [(''SendMessage'', M_Send), (''SendStreamingMessage'', M_Send), (''GetTask'', M_Get),
       (''ListTasks'', M_List), (''CancelTask'', M_Cancel),
       (''CreateTaskPushNotificationConfig'', M_CreatePush), (''GetTaskPushNotificationConfig'', M_GetPush),
       (''ListTaskPushNotificationConfigs'', M_ListPush),
       (''DeleteTaskPushNotificationConfig'', M_DeletePush), (''SubscribeToTask'', M_Subscribe),
       (''GetExtendedAgentCard'', M_Card)] m"

datatype rpc_request_msg =
    SendReq send_message_request | GetReq get_task_request | ListReq list_tasks_request
  | CancelReq cancel_task_request | CreatePushReq push_config | GetPushReq get_push_config_request
  | ListPushReq list_push_configs_request | DeletePushReq delete_push_config_request
  | SubscribeReq subscribe_request | CardReq string

fun request_tenant :: "rpc_request_msg \<Rightarrow> string" where
  "request_tenant (SendReq r) = smr_tenant r"
| "request_tenant (GetReq r) = gt_tenant r"
| "request_tenant (ListReq r) = lr_tenant r"
| "request_tenant (CancelReq r) = ct_tenant r"
| "request_tenant (CreatePushReq r) = pc_tenant r"
| "request_tenant (GetPushReq r) = gpr_tenant r"
| "request_tenant (ListPushReq r) = lpr_tenant r"
| "request_tenant (DeletePushReq r) = dpr_tenant r"
| "request_tenant (SubscribeReq r) = sb_tenant r"
| "request_tenant (CardReq t) = t"

datatype rpc_message =
    SendMsg send_response | TaskMsg task | ListMsg list_tasks_response | ConfigMsg push_config
  | ConfigsMsg list_push_configs_response | CardMsg agent_card | StreamMsg stream_response

record base_request =
  br_method :: "string option"
  br_id :: "json option"

text \<open>
  \<^verbatim>\<open>JSONRPC20Request.from_data\<close> (no request for a batch), \<^verbatim>\<open>ParseDict\<close> into the message of a method,
  \<^verbatim>\<open>MessageToDict\<close>.
\<close>

record rpc_codec =
  rk_from_data :: "json \<Rightarrow> exn + base_request option"
  rk_parse :: "rpc_model \<Rightarrow> json \<Rightarrow> exn + rpc_request_msg"
  rk_print :: "rpc_message \<Rightarrow> exn + json"

definition json_get :: "json \<Rightarrow> string \<Rightarrow> json option" where
  "json_get j k = (case j of JObj d \<Rightarrow> map_of d (to_ustr k) | _ \<Rightarrow> None)"

text \<open>The id of a body: a text, a number or a boolean, which is an \<^verbatim>\<open>int\<close>.\<close>

definition body_id :: "json \<Rightarrow> json option" where
  "body_id j = (case json_get j ''id'' of
     Some (JStr s) \<Rightarrow> Some (JStr s) | Some (JInt i) \<Rightarrow> Some (JInt i) | Some (JBool b) \<Rightarrow> Some (JBool b) | _ \<Rightarrow> None)"

text \<open>\<^verbatim>\<open>serialize_list_tasks_response\<close>: without \<^verbatim>\<open>include_artifacts\<close> no task has the key \<^verbatim>\<open>artifacts\<close>.\<close>

fun drop_artifacts :: "json \<Rightarrow> json" where
  "drop_artifacts (JObj d) = JObj (AList.delete (to_ustr ''artifacts'') d)"
| "drop_artifacts j = j"

fun in_tasks :: "(json \<Rightarrow> json) \<Rightarrow> ustr \<times> json \<Rightarrow> ustr \<times> json" where
  "in_tasks f (k, JArr ts) = (k, JArr (if k = to_ustr ''tasks'' then map f ts else ts))"
| "in_tasks f (k, v) = (k, v)"

definition serialize_list_tasks_response ::
  "rpc_codec \<Rightarrow> list_tasks_response \<Rightarrow> bool option \<Rightarrow> exn + json" where
  "serialize_list_tasks_response rk resp include =
     rbind (rk_print rk (ListMsg resp)) (\<lambda>j.
       Inr (if include = Some True then j
            else (case j of JObj d \<Rightarrow> JObj (map (in_tasks drop_artifacts) d) | _ \<Rightarrow> j)))"

subsection \<open>Requests that are answered at once\<close>

definition print_with :: "rpc_codec \<Rightarrow> ('a \<Rightarrow> rpc_message) \<Rightarrow> 'a \<Rightarrow> exn + json option" where
  "print_with rk f x = rbind (rk_print rk (f x)) (\<lambda>j. Inr (Some j))"

definition rpc_call :: "('a, 's) call \<Rightarrow> ('a \<Rightarrow> exn + 'x) \<Rightarrow> ('x, 's) call" where
  "rpc_call f back s = (case f s of (s', Inl e) \<Rightarrow> (s', Inl e) | (s', Inr x) \<Rightarrow> (s', back x))"

text \<open>
  \<^verbatim>\<open>_process_non_streaming_request\<close> inside its version check; the request is the one its method
  was parsed to.
\<close>

definition unhandled_method :: "string \<Rightarrow> exn" where
  "unhandled_method m = A2A (err_msg UnsupportedOperationError (''Method '' @ m @ '' is not supported.''))"

fun process_request ::
  "'s request_handler \<Rightarrow> rpc_codec \<Rightarrow> string \<Rightarrow> rpc_request_msg \<Rightarrow> call_context \<Rightarrow> (json option, 's) call" where
  "process_request h rk m (SendReq r) c = rpc_call (rh_message_send h r c) (print_with rk SendMsg)"
| "process_request h rk m (CancelReq r) c =
     rpc_call (rh_cancel_task h r c) (task_or_not_found (print_with rk TaskMsg))"
| "process_request h rk m (GetReq r) c =
     rpc_call (rh_get_task h r c) (task_or_not_found (print_with rk TaskMsg))"
| "process_request h rk m (ListReq r) c =
     rpc_call (rh_list_tasks h r c)
       (\<lambda>x. rbind (serialize_list_tasks_response rk x (lr_include_artifacts r)) (\<lambda>j. Inr (Some j)))"
| "process_request h rk m (CreatePushReq r) c = rpc_call (rh_create_push_config h r c) (print_with rk ConfigMsg)"
| "process_request h rk m (GetPushReq r) c = rpc_call (rh_get_push_config h r c) (print_with rk ConfigMsg)"
| "process_request h rk m (ListPushReq r) c = rpc_call (rh_list_push_configs h r c) (print_with rk ConfigsMsg)"
| "process_request h rk m (DeletePushReq r) c = rpc_call (rh_delete_push_config h r c) (\<lambda>_. Inr None)"
| "process_request h rk m (CardReq t) c = rpc_call (rh_get_extended_agent_card h c) (print_with rk CardMsg)"
| "process_request h rk m (SubscribeReq r) c = (\<lambda>s. (s, Inl (unhandled_method m)))"

definition check_version :: "'v version_lib \<Rightarrow> string \<Rightarrow> call_context \<Rightarrow> exn + unit" where
  "check_version lib expected c = validate_version lib expected (Some c) (\<lambda>_. Inr ())"

definition versioned :: "'v version_lib \<Rightarrow> string \<Rightarrow> call_context \<Rightarrow> ('a, 's) call \<Rightarrow> ('a, 's) call" where
  "versioned lib expected c f s =
     (case check_version lib expected c of Inl e \<Rightarrow> (s, Inl e) | Inr _ \<Rightarrow> f s)"

subsection \<open>Streams\<close>

text \<open>
  \<^verbatim>\<open>_map_event\<close>, \<^verbatim>\<open>_wrap_stream\<close> and \<^verbatim>\<open>event_generator\<close>: the replies of the events and, when the stream
  ends with an exception, one error. Each item says whether it is sent as an error event.
\<close>

definition map_event :: "rpc_codec \<Rightarrow> json option \<Rightarrow> event option \<Rightarrow> exn + json reply" where
  "map_event rk rid ev = rbind (rk_print rk (StreamMsg (stream_response_of ev))) (\<lambda>j. Inr (ResultReply rid j))"

definition stream_error :: "json option \<Rightarrow> exn \<Rightarrow> json reply" where
  "stream_error rid e =
     (case e of
        A2A a \<Rightarrow> (case build_error_response rid (Inl a) of
                   Inr r \<Rightarrow> r | Inl x \<Rightarrow> ErrorReply rid (JE_INTERNAL (exn_text x)))
      | _ \<Rightarrow> ErrorReply rid (JE_INTERNAL (exn_text e)))"

definition sse_items :: "rpc_codec \<Rightarrow> json option \<Rightarrow> event option list \<Rightarrow> exn option \<Rightarrow> (bool \<times> json reply) list" where
  "sse_items rk rid evs e =
     (let (rs, e') = conv_stream (map_event rk rid) evs e
      in map (\<lambda>r. (False, r)) rs @ (case e' of None \<Rightarrow> [] | Some x \<Rightarrow> [(True, stream_error rid x)]))"

text \<open>The first event is awaited before the response starts; a first \<^verbatim>\<open>None\<close> is not sent.\<close>

fun drop_first_none :: "event option list \<Rightarrow> event option list" where
  "drop_first_none (None # evs) = evs"
| "drop_first_none evs = evs"

subsection \<open>Protocol 0.3 on the same endpoint\<close>

datatype request03 =
    Send03 send_request03 | Stream03 send_request03 | Get03 get_task_request03 | Cancel03 cancel_request03
  | SetPush03 set_push_request03 | GetPush03 get_push_request03 | ListPush03 list_push_request03
  | DeletePush03 delete_push_request03 | Subscribe03 subscribe_request03 | Card03 rpc_id

datatype result03 =
    SendR send_result03 | TaskR task03 | PushR task_push_config03 | PushListR "task_push_config03 list"
  | NoneR | CardR agent_card03 | StreamR stream_result03

definition methods03 :: "string list" where
  "methods03 = [''message/send'', ''message/stream'', ''tasks/get'', ''tasks/cancel'',
     ''tasks/pushNotificationConfig/set'', ''tasks/pushNotificationConfig/get'',
     ''tasks/pushNotificationConfig/list'', ''tasks/pushNotificationConfig/delete'', ''tasks/resubscribe'',
     ''agent/getAuthenticatedExtendedCard'']"

text \<open>
  A response: one reply, a stream of replies, an HTTP exception that is raised again, or another
  exception that the endpoint does not catch.
\<close>

datatype 'r response =
  JsonResponse "'r reply" | EventStream "(bool \<times> 'r reply) list" | HttpRaised int | ServerRaised exn

fun process_request03 ::
  "'v version_lib \<Rightarrow> 's request_handler \<Rightarrow> json_codec \<Rightarrow> request03 \<Rightarrow> call_context \<Rightarrow> (result03, 's) call" where
  "process_request03 lib h k (Send03 r) c = rpc_call (h03_message_send h k r c) (\<lambda>x. Inr (SendR x))"
| "process_request03 lib h k (Get03 r) c = rpc_call (h03_get_task h k r c) (\<lambda>x. Inr (TaskR x))"
| "process_request03 lib h k (Cancel03 r) c = rpc_call (h03_cancel_task h k r c) (\<lambda>x. Inr (TaskR x))"
| "process_request03 lib h k (GetPush03 r) c = rpc_call (h03_get_push_config h r c) (\<lambda>x. Inr (PushR x))"
| "process_request03 lib h k (SetPush03 r) c = rpc_call (h03_create_push_config h r c) (\<lambda>x. Inr (PushR x))"
| "process_request03 lib h k (ListPush03 r) c = rpc_call (h03_list_push_configs h r c) (\<lambda>x. Inr (PushListR x))"
| "process_request03 lib h k (DeletePush03 r) c = rpc_call (h03_delete_push_config h r c) (\<lambda>x. Inr NoneR)"
| "process_request03 lib h k (Card03 i) c = rpc_call (h03_get_extended_agent_card lib h k c) (\<lambda>x. Inr (CardR x))"
| "process_request03 lib h k (Stream03 r) c = (\<lambda>s. (s, Inl (ValueError ''Unsupported method message/stream'')))"
| "process_request03 lib h k (Subscribe03 r) c = (\<lambda>s. (s, Inl (ValueError ''Unsupported method tasks/resubscribe'')))"

text \<open>The streams of 0.3 end with an internal error, whatever was raised.\<close>

definition sse_items03 ::
  "json option \<Rightarrow> stream_result03 rpc_success list \<Rightarrow> exn option \<Rightarrow> (bool \<times> result03 reply) list" where
  "sse_items03 rid rs e =
     map (\<lambda>r. (False, ResultReply rid (StreamR (ok_result r)))) rs @
     (case e of None \<Rightarrow> [] | Some x \<Rightarrow> [(False, ErrorReply rid (JE_INTERNAL (exn_text x)))])"

fun stream_request03 ::
  "'s request_handler \<Rightarrow> json_codec \<Rightarrow> request03 \<Rightarrow> call_context \<Rightarrow>
   (stream_result03 rpc_success, 's) stream_call option" where
  "stream_request03 h k (Stream03 r) c = Some (h03_message_send_stream h k r c)"
| "stream_request03 h k (Subscribe03 r) c = Some (h03_subscribe_to_task h k r c)"
| "stream_request03 h k _ c = None"

definition adapter03 ::
  "'v version_lib \<Rightarrow> 's request_handler \<Rightarrow> json_codec \<Rightarrow> (string \<Rightarrow> json \<Rightarrow> exn + request03) \<Rightarrow>
   (http_server_request \<Rightarrow> exn + call_context) \<Rightarrow> json option \<Rightarrow> string \<Rightarrow> json \<Rightarrow> http_server_request \<Rightarrow>
   's \<Rightarrow> 's \<times> result03 response" where
  "adapter03 lib h k validate_model build rid method bd req s =
     (case validate_model method bd of
        Inl e \<Rightarrow> (s, JsonResponse (ErrorReply rid (JE_INVALID_REQUEST ''Invalid Request'' (TextData (exn_text e)))))
      | Inr r \<Rightarrow>
          (case v03_build build req of
             Inl e \<Rightarrow> (s, JsonResponse (ErrorReply rid (JE_INTERNAL (exn_text e))))
           | Inr c0 \<Rightarrow>
               (let c = c0\<lparr>cc_tenant := []\<rparr>
                in (case stream_request03 h k r c of
                      Some f \<Rightarrow>
                        (case check_version lib PROTOCOL_VERSION_0_3 c of
                           Inl e \<Rightarrow> (s, JsonResponse (ErrorReply rid (JE_INTERNAL (exn_text e))))
                         | Inr _ \<Rightarrow> (let (s', rs, e) = f s in (s', EventStream (sse_items03 rid rs e))))
                    | None \<Rightarrow>
                        (case versioned lib PROTOCOL_VERSION_0_3 c (process_request03 lib h k r c) s of
                           (s', Inl e) \<Rightarrow> (s', JsonResponse (ErrorReply rid (JE_INTERNAL (exn_text e))))
                         | (s', Inr x) \<Rightarrow> (s', JsonResponse (ResultReply rid x)))))))"

subsection \<open>The dispatcher\<close>

text \<open>The handlers of the outer \<^verbatim>\<open>try\<close>: an error of the response itself escapes.\<close>

definition outer_error :: "json option \<Rightarrow> exn \<Rightarrow> json response" where
  "outer_error rid e =
     (case e of
        A2A a \<Rightarrow> (case build_error_response rid (Inl a) of Inr r \<Rightarrow> JsonResponse r | Inl x \<Rightarrow> ServerRaised x)
      | _ \<Rightarrow> JsonResponse (ErrorReply rid (JE_INTERNAL (exn_text e))))"

fun stream_request ::
  "'s request_handler \<Rightarrow> string \<Rightarrow> rpc_request_msg \<Rightarrow> call_context \<Rightarrow> (event option, 's) stream_call option" where
  "stream_request h m (SendReq r) c =
     (if m = ''SendStreamingMessage'' then Some (rh_message_send_stream h r c) else None)"
| "stream_request h m (SubscribeReq r) c = Some (rh_subscribe h r c)"
| "stream_request h m _ c = None"

definition answer_stream ::
  "rpc_codec \<Rightarrow> json option \<Rightarrow> event option list \<Rightarrow> exn option \<Rightarrow> json response" where
  "answer_stream rk rid evs e =
     (case (evs, e) of
        ([], Some x) \<Rightarrow> outer_error rid x
      | _ \<Rightarrow> EventStream (sse_items rk rid (drop_first_none evs) e))"

definition answer_call :: "json option \<Rightarrow> exn + json option \<Rightarrow> json response" where
  "answer_call rid r =
     (case r of
        Inr x \<Rightarrow> JsonResponse (ResultReply rid (case x of None \<Rightarrow> JNull | Some j \<Rightarrow> j))
      | Inl e \<Rightarrow> (case e of
            A2A a \<Rightarrow> JsonResponse (stream_error rid e)
          | _ \<Rightarrow> outer_error rid e))"

definition dispatch_v1 ::
  "'v version_lib \<Rightarrow> 's request_handler \<Rightarrow> rpc_codec \<Rightarrow> (http_server_request \<Rightarrow> exn + call_context) \<Rightarrow>
   json option \<Rightarrow> string \<Rightarrow> json \<Rightarrow> http_server_request \<Rightarrow> 's \<Rightarrow> 's \<times> json response" where
  "dispatch_v1 lib h rk build rid m bd req s =
     (case METHOD_TO_MODEL m of
        None \<Rightarrow> (s, JsonResponse (ErrorReply rid JE_METHOD_NOT_FOUND))
      | Some model \<Rightarrow>
          (case rk_parse rk model (case json_get bd ''params'' of None \<Rightarrow> JObj [] | Some p \<Rightarrow> p) of
             Inl e \<Rightarrow> (s, JsonResponse (ErrorReply rid (JE_INVALID_PARAMS (TextData (exn_text e)))))
           | Inr r \<Rightarrow>
               (case build req of
                  Inl e \<Rightarrow> (s, outer_error rid e)
                | Inr c0 \<Rightarrow>
                    (let c = c0\<lparr>cc_tenant := request_tenant r\<rparr>
                     in (case stream_request h m r c of
                           Some f \<Rightarrow>
                             (case check_version lib PROTOCOL_VERSION_1_0 c of
                                Inl e \<Rightarrow> (s, outer_error rid e)
                              | Inr _ \<Rightarrow> (let (s', evs, e) = f s in (s', answer_stream rk rid evs e)))
                         | None \<Rightarrow>
                             (let (s', x) = versioned lib PROTOCOL_VERSION_1_0 c (process_request h rk m r c) s
                              in (s', answer_call rid x)))))))"

text \<open>
  \<^verbatim>\<open>handle_requests\<close>: \<open>v03\<close> holds what the adapter of 0.3 needs when it is enabled. The answer
  is one of the two protocols'.
\<close>

type_synonym compat03 = "json_codec \<times> (string \<Rightarrow> json \<Rightarrow> exn + request03)"

definition handle_requests ::
  "'v version_lib \<Rightarrow> 's request_handler \<Rightarrow> rpc_codec \<Rightarrow> compat03 option \<Rightarrow>
   (http_server_request \<Rightarrow> exn + call_context) \<Rightarrow> http_server_request \<Rightarrow> 's \<Rightarrow>
   's \<times> (json response + result03 response)" where
  "handle_requests lib h rk v03 build req s =
     (case hq_body req of
        BodyInvalid m \<Rightarrow> (s, Inl (JsonResponse (ErrorReply None (JE_PARSE m))))
      | BodyHttpError st \<Rightarrow>
          (s, Inl (if st = 413 then JsonResponse (ErrorReply None (JE_INVALID_REQUEST ''Payload too large'' NoData))
                   else HttpRaised st))
      | BodyFails m \<Rightarrow> (s, Inl (JsonResponse (ErrorReply None (JE_INTERNAL m))))
      | BodyJson bd \<Rightarrow>
          (case rk_from_data rk bd of
             Inl e \<Rightarrow> (s, Inl (JsonResponse (ErrorReply (body_id bd)
                              (JE_INVALID_REQUEST ''Invalid Request'' (TextData (exn_text e))))))
           | Inr None \<Rightarrow> (s, Inl (JsonResponse (ErrorReply (body_id bd)
                              (JE_INVALID_REQUEST ''Batch requests are not supported'' NoData))))
           | Inr (Some base) \<Rightarrow>
               if json_get bd ''jsonrpc'' \<noteq> Some (JStr (to_ustr ''2.0''))
               then (s, Inl (JsonResponse (ErrorReply (body_id bd) (JE_INVALID_REQUEST
                 (''Invalid request: '' @ [CHR 0x27] @ ''jsonrpc'' @ [CHR 0x27] @ '' must be exactly '' @
                  [CHR 0x27] @ ''2.0'' @ [CHR 0x27]) NoData))))
               else if \<not> py_truthy (br_method base)
               then (s, Inl (JsonResponse (ErrorReply (br_id base) (JE_INVALID_REQUEST ''Method is required'' NoData))))
               else
                 (let m = or_empty (br_method base)
                  in (case v03 of
                        Some (k, validate_model) \<Rightarrow>
                          if m \<in> set methods03
                          then (let (s', x) = adapter03 lib h k validate_model build (br_id base) m bd req s
                                in (s', Inr x))
                          else (let (s', x) = dispatch_v1 lib h rk build (br_id base) m bd req s in (s', Inl x))
                      | None \<Rightarrow>
                          (let (s', x) = dispatch_v1 lib h rk build (br_id base) m bd req s in (s', Inl x))))))"

subsection \<open>Laws of the errors\<close>

lemma code_to_kind: "JSON_RPC_ERROR_CODE_TO_A2A_ERROR (JSON_RPC_ERROR_CODE_MAP k) = Some k"
  by (cases k) (simp_all add: JSON_RPC_ERROR_CODE_TO_A2A_ERROR_def all_kinds_def)

lemma first_error_info_details:
  "first_error_info (build_error_details e) =
     (case err_data e of None \<Rightarrow> None | Some d \<Rightarrow> if d = empty_data then None else Some d)"
  by (auto simp: build_error_details_def mk_error_info_def Let_def split: option.split list.split)

lemma jsonrpc_error_defined: "isl (jsonrpc_error_of e) \<longleftrightarrow> err_kind e = JSONParseError"
  by (cases "err_kind e") (simp_all add: jsonrpc_error_of_def Let_def exception_mapped_def)

lemma jsonrpc_error_fields:
  "jsonrpc_error_of e = Inr j \<Longrightarrow>
   je_code j = JSON_RPC_ERROR_CODE_MAP (err_kind e) \<and> je_message j = err_message e \<and>
   je_data j = Details (build_error_details e)"
  by (auto simp: jsonrpc_error_of_def Let_def split: if_splits)

text \<open>What a client makes of an A2A error: the same kind, message and data.\<close>

definition seen_by_client :: "a2a_error \<Rightarrow> a2a_error" where
  "seen_by_client e = mk_error (err_kind e) (Some (err_message e))
     (case err_data e of None \<Rightarrow> None | Some d \<Rightarrow> if d = empty_data then None else Some d)"

lemma error_round_trip:
  assumes "err_kind e \<noteq> JSONParseError"
  shows "\<exists>j. stream_error rid (A2A e) = ErrorReply rid j \<and> create_jsonrpc_error txt j = KnownError (seen_by_client e)"
proof -
  obtain j where j: "jsonrpc_error_of e = Inr j"
    using assms jsonrpc_error_defined [of e] by (cases "jsonrpc_error_of e") auto
  from jsonrpc_error_fields [OF j] show ?thesis
    by (simp add: stream_error_def build_error_response_def j create_jsonrpc_error_def code_to_kind
        first_error_info_details seen_by_client_def)
qed

lemma parse_error_escapes:
  assumes "err_kind e = JSONParseError"
  shows "isl (build_error_response rid (Inl e) :: exn + 'r reply)"
    and "\<exists>x. outer_error rid (A2A e) = ServerRaised x"
  using jsonrpc_error_defined [of e] assms
  by (cases "jsonrpc_error_of e"; simp add: build_error_response_def outer_error_def)+

subsection \<open>Laws of the dispatcher\<close>

text \<open>No method name belongs to both protocols.\<close>

lemma methods_disjoint: "m \<in> set methods03 \<Longrightarrow> METHOD_TO_MODEL m = None"
proof -
  have "list_all (\<lambda>m. METHOD_TO_MODEL m = None) methods03" by code_simp
  then show "m \<in> set methods03 \<Longrightarrow> METHOD_TO_MODEL m = None" by (simp only: list_all_iff)
qed

text \<open>Every reply of a response carries the id.\<close>

fun reply_id :: "'r reply \<Rightarrow> json option" where
  "reply_id (ErrorReply i e) = i"
| "reply_id (ResultReply i r) = i"

fun replies :: "'r response \<Rightarrow> 'r reply list" where
  "replies (JsonResponse r) = [r]"
| "replies (EventStream xs) = map snd xs"
| "replies (HttpRaised n) = []"
| "replies (ServerRaised e) = []"

definition all_ids :: "json option \<Rightarrow> 'r response \<Rightarrow> bool" where
  "all_ids rid x = list_all (\<lambda>r. reply_id r = rid) (replies x)"

lemma all_ids_simps [simp]:
  "all_ids rid (JsonResponse r) \<longleftrightarrow> reply_id r = rid"
  "all_ids rid (EventStream xs) \<longleftrightarrow> list_all (\<lambda>x. reply_id (snd x) = rid) xs"
  "all_ids rid (HttpRaised n)" "all_ids rid (ServerRaised e)"
  by (simp_all add: all_ids_def list_all_iff)

lemma build_error_response_id: "build_error_response rid e = Inr r \<Longrightarrow> reply_id r = rid"
  by (auto simp: build_error_response_def split: sum.splits)

lemma stream_error_id [simp]: "reply_id (stream_error rid e) = rid"
  by (cases e) (auto simp: stream_error_def dest: build_error_response_id split: sum.split)

lemma outer_error_id [simp]: "all_ids rid (outer_error rid e)"
  by (cases e) (auto simp: outer_error_def dest: build_error_response_id split: sum.split)

lemma conv_stream_all: "(\<And>x y. f x = Inr y \<Longrightarrow> P y) \<Longrightarrow> conv_stream f xs e = (ys, e') \<Longrightarrow> list_all P ys"
  by (induction xs arbitrary: ys) (auto split: sum.splits prod.splits)

lemma sse_items_id: "list_all (\<lambda>r. reply_id (snd r) = rid) (sse_items rk rid evs e)"
proof -
  obtain rs e' where r: "conv_stream (map_event rk rid) evs e = (rs, e')" by (cases "conv_stream (map_event rk rid) evs e")
  have "list_all (\<lambda>r. reply_id r = rid) rs"
    by (rule conv_stream_all [OF _ r]) (auto simp: map_event_def)
  then show ?thesis by (auto simp: sse_items_def r list_all_iff split: option.splits)
qed

lemma answer_stream_id [simp]: "all_ids rid (answer_stream rk rid evs e)"
  by (simp add: answer_stream_def sse_items_id split: list.split option.split)

lemma answer_call_id [simp]: "all_ids rid (answer_call rid x)"
proof (cases x)
  case (Inl e)
  then show ?thesis by (cases e) (simp_all add: answer_call_def)
qed (simp add: answer_call_def)

lemma dispatch_v1_id: "all_ids rid (snd (dispatch_v1 lib h rk build rid m bd req s))"
proof -
  have st: "all_ids rid (snd (let (s', evs, e) = f s in (s', answer_stream rk rid evs e)))" for f :: "(event option, 'a) stream_call"
    by (simp add: case_prod_beta)
  have ca: "all_ids rid (snd (let (s', x) = f s in (s', answer_call rid x)))" for f :: "(json option, 'a) call"
    by (simp add: case_prod_beta)
  show ?thesis
    unfolding dispatch_v1_def
    by (simp only: Let_def split: option.split sum.split) (auto simp: st [unfolded Let_def] ca [unfolded Let_def])
qed

lemma adapter03_id: "all_ids rid (snd (adapter03 lib h k vm build rid m bd req s))"
proof -
  have it: "list_all (\<lambda>x. reply_id (snd x) = rid) (sse_items03 rid rs e)" for rs e
    by (cases e) (auto simp: sse_items03_def list_all_iff)
  show ?thesis
    unfolding adapter03_def
    by (simp only: Let_def split: option.split sum.split) (auto simp: it split: prod.split sum.split)
qed

text \<open>
  What must hold for the handler to be called: the request is one object of JSON-RPC 2.0 with a
  known method whose parameters parse, the context can be built and the version fits.
\<close>

lemma version_guard: "\<not> isl (check_version lib e c) \<longleftrightarrow>
    is_version_compatible lib e (get_actual_version e (Some c))"
  by (simp add: check_version_def validate_version_def Let_def)

lemma dispatch_v1_guard:
  assumes "fst (dispatch_v1 lib h rk build rid m bd req s) \<noteq> s"
  shows "\<exists>model r c0. METHOD_TO_MODEL m = Some model \<and>
    rk_parse rk model (case json_get bd ''params'' of None \<Rightarrow> JObj [] | Some p \<Rightarrow> p) = Inr r \<and>
    build req = Inr c0 \<and>
    is_version_compatible lib PROTOCOL_VERSION_1_0
      (get_actual_version PROTOCOL_VERSION_1_0 (Some (c0\<lparr>cc_tenant := request_tenant r\<rparr>)))"
proof (cases "METHOD_TO_MODEL m")
  case None
  with assms show ?thesis by (simp add: dispatch_v1_def)
next
  case (Some model)
  let ?ps = "case json_get bd ''params'' of None \<Rightarrow> JObj [] | Some p \<Rightarrow> p"
  show ?thesis
  proof (cases "rk_parse rk model ?ps")
    case (Inl e)
    with assms Some show ?thesis by (simp add: dispatch_v1_def del: METHOD_TO_MODEL.simps)
  next
    case (Inr r)
    note parsed = this
    show ?thesis
    proof (cases "build req")
      case (Inl e)
      with assms Some parsed show ?thesis by (simp add: dispatch_v1_def del: METHOD_TO_MODEL.simps)
    next
      case (Inr c0)
      let ?c = "c0\<lparr>cc_tenant := request_tenant r\<rparr>"
      have "\<not> isl (check_version lib PROTOCOL_VERSION_1_0 ?c)"
      proof
        assume "isl (check_version lib PROTOCOL_VERSION_1_0 ?c)"
        then obtain e where "check_version lib PROTOCOL_VERSION_1_0 ?c = Inl e"
          by (auto simp: isl_def)
        then show False
          using assms Some parsed Inr
          by (simp add: dispatch_v1_def versioned_def Let_def del: METHOD_TO_MODEL.simps split: option.splits)
      qed
      then show ?thesis
        using Some parsed Inr version_guard [of lib PROTOCOL_VERSION_1_0 ?c] by blast
    qed
  qed
qed

text \<open>The answer of a call that is made.\<close>

lemma dispatch_v1_call:
  assumes "METHOD_TO_MODEL m = Some model"
    and "rk_parse rk model (case json_get bd ''params'' of None \<Rightarrow> JObj [] | Some p \<Rightarrow> p) = Inr r"
    and "build req = Inr c0" and "c = c0\<lparr>cc_tenant := request_tenant r\<rparr>"
    and "stream_request h m r c = None"
    and "is_version_compatible lib PROTOCOL_VERSION_1_0 (get_actual_version PROTOCOL_VERSION_1_0 (Some c))"
    and "process_request h rk m r c s = (s', x)"
  shows "dispatch_v1 lib h rk build rid m bd req s = (s', answer_call rid x)"
proof -
  have "\<not> isl (check_version lib PROTOCOL_VERSION_1_0 c)"
    using assms(6) by (simp only: version_guard)
  then have "check_version lib PROTOCOL_VERSION_1_0 c = Inr ()"
    by (cases "check_version lib PROTOCOL_VERSION_1_0 c") simp_all
  with assms show ?thesis
    by (simp add: dispatch_v1_def versioned_def Let_def del: METHOD_TO_MODEL.simps)
qed

lemma dispatch_v1_mismatch:
  assumes "METHOD_TO_MODEL m = Some model"
    and "rk_parse rk model (case json_get bd ''params'' of None \<Rightarrow> JObj [] | Some p \<Rightarrow> p) = Inr r"
    and "build req = Inr c0" and "c = c0\<lparr>cc_tenant := request_tenant r\<rparr>"
    and "\<not> is_version_compatible lib PROTOCOL_VERSION_1_0 (get_actual_version PROTOCOL_VERSION_1_0 (Some c))"
  shows "\<exists>j. dispatch_v1 lib h rk build rid m bd req s = (s, JsonResponse (ErrorReply rid j)) \<and> je_code j = -32009"
proof -
  let ?e = "A2A (version_mismatch PROTOCOL_VERSION_1_0 (get_actual_version PROTOCOL_VERSION_1_0 (Some c)))"
  have v: "check_version lib PROTOCOL_VERSION_1_0 c = Inl ?e"
    using assms(5) by (simp add: check_version_def validate_version_def Let_def)
  obtain j where j: "outer_error rid ?e = JsonResponse (ErrorReply rid j)" "je_code j = -32009"
    "stream_error rid ?e = ErrorReply rid j"
    by (simp add: outer_error_def stream_error_def build_error_response_def version_mismatch_def
        jsonrpc_error_of_def Let_def exception_mapped_def)
  show ?thesis
    using assms(1-4) v j
    by (auto simp: dispatch_v1_def versioned_def Let_def answer_call_def simp del: METHOD_TO_MODEL.simps
        split: option.split)
qed

text \<open>Streams: the printed events in order, then at most one error.\<close>

lemma conv_stream_total:
  "(\<And>x. x \<in> set xs \<Longrightarrow> f x = Inr (g x)) \<Longrightarrow> conv_stream f xs e = (map g xs, e)"
  by (induction xs) auto

lemma sse_items_spec:
  assumes "\<And>ev. ev \<in> set evs \<Longrightarrow> rk_print rk (StreamMsg (stream_response_of ev)) = Inr (p ev)"
  shows "sse_items rk rid evs e = map (\<lambda>ev. (False, ResultReply rid (p ev))) evs @
    (case e of None \<Rightarrow> [] | Some x \<Rightarrow> [(True, stream_error rid x)])"
  using conv_stream_total [of evs "map_event rk rid" "\<lambda>ev. ResultReply rid (p ev)" e] assms
  by (simp add: sse_items_def map_event_def comp_def)

lemma sse_errors_last:
  "\<exists>rs tl. sse_items rk rid evs e = map (\<lambda>r. (False, r)) rs @ tl \<and> length rs \<le> length evs \<and>
     (tl = [] \<or> (\<exists>r. tl = [(True, r)]))"
proof -
  have len: "conv_stream f xs e = (ys, e') \<Longrightarrow> length ys \<le> length xs"
    for f :: "event option \<Rightarrow> exn + json reply" and xs ys e e'
    by (induction xs arbitrary: ys) (auto split: sum.splits prod.splits)
  obtain rs e' where r: "conv_stream (map_event rk rid) evs e = (rs, e')" by (cases "conv_stream (map_event rk rid) evs e")
  from len [OF r] show ?thesis
    by (auto simp: sse_items_def r split: option.split)
qed

end
