(* ===== verification/Client.thy ===== *)
theory Client
  imports Jsonrpc Handlers
begin

text \<open>
  The client (\<^verbatim>\<open>client/base_client.py\<close>, \<^verbatim>\<open>client/interceptors.py\<close>, \<^verbatim>\<open>client/client_factory.py\<close>,
  \<^verbatim>\<open>client/transports/tenant_decorator.py\<close>): the hooks around a call, the choice between the
  streaming and the plain way of sending, and the choice of a transport from an agent card.
\<close>

subsection \<open>Interceptors\<close>

text \<open>
  What the hooks may change. A value of \<open>early_return\<close> is an object that Python counts as true.
\<close>

record ('i, 'r, 'c) before_args =
  ba_input :: 'i
  ba_method :: string
  ba_card :: agent_card
  ba_context :: 'c
  ba_early_return :: "'r option"

record ('r, 'c) after_args =
  aa_result :: 'r
  aa_method :: string
  aa_card :: agent_card
  aa_context :: 'c
  aa_early_return :: bool

record ('i, 'r, 'c) interceptor =
  ic_before :: "('i, 'r, 'c) before_args \<Rightarrow> exn + ('i, 'r, 'c) before_args"
  ic_after :: "('r, 'c) after_args \<Rightarrow> exn + ('r, 'c) after_args"

text \<open>\<^verbatim>\<open>_intercept_before\<close>: the hooks in order, until one sets an early return; then also the executed ones.\<close>

fun intercept_before ::
  "('i, 'r, 'c) interceptor list \<Rightarrow> ('i, 'r, 'c) interceptor list \<Rightarrow> ('i, 'r, 'c) before_args \<Rightarrow>
   exn + ('i, 'r, 'c) before_args \<times> ('r \<times> ('i, 'r, 'c) interceptor list) option" where
  "intercept_before [] executed a = Inr (a, None)"
| "intercept_before (h # hs) executed a =
     rbind (ic_before h a) (\<lambda>a'.
       case ba_early_return a' of
         Some r \<Rightarrow> Inr (a', Some (r, executed @ [h]))
       | None \<Rightarrow> intercept_before hs (executed @ [h]) a')"

fun after_loop :: "('i, 'r, 'c) interceptor list \<Rightarrow> ('r, 'c) after_args \<Rightarrow> exn + ('r, 'c) after_args" where
  "after_loop [] a = Inr a"
| "after_loop (h # hs) a =
     rbind (ic_after h a) (\<lambda>a'. if aa_early_return a' then Inr a' else after_loop hs a')"

definition intercept_after ::
  "('i, 'r, 'c) interceptor list \<Rightarrow> ('r, 'c) after_args \<Rightarrow> exn + ('r, 'c) after_args" where
  "intercept_after hs a = after_loop (rev hs) a"

definition before_of :: "'i \<Rightarrow> string \<Rightarrow> agent_card \<Rightarrow> 'c \<Rightarrow> ('i, 'r, 'c) before_args" where
  "before_of input m acard c =
     \<lparr>ba_input = input, ba_method = m, ba_card = acard, ba_context = c, ba_early_return = None\<rparr>"

definition after_of :: "'r \<Rightarrow> string \<Rightarrow> agent_card \<Rightarrow> 'c \<Rightarrow> ('r, 'c) after_args" where
  "after_of r m acard c =
     \<lparr>aa_result = r, aa_method = m, aa_card = acard, aa_context = c, aa_early_return = False\<rparr>"

definition execute_with_interceptors ::
  "('i, 'r, 'c) interceptor list \<Rightarrow> agent_card \<Rightarrow> 'i \<Rightarrow> string \<Rightarrow> 'c \<Rightarrow> ('i \<Rightarrow> 'c \<Rightarrow> ('r, 's) call) \<Rightarrow> ('r, 's) call" where
  "execute_with_interceptors hs acard input m c call s =
     (case intercept_before hs [] (before_of input m acard c) of
        Inl e \<Rightarrow> (s, Inl e)
      | Inr (b, Some (r, executed)) \<Rightarrow>
          (s, rbind (intercept_after executed (after_of r m acard (ba_context b))) (\<lambda>a. Inr (aa_result a)))
      | Inr (b, None) \<Rightarrow>
          rpc_call (call (ba_input b) (ba_context b))
            (\<lambda>r. rbind (intercept_after hs (after_of r m acard (ba_context b))) (\<lambda>a. Inr (aa_result a))) s)"

text \<open>\<^verbatim>\<open>_process_stream\<close>: a message ends the stream.\<close>

fun process_stream ::
  "('i, stream_response, 'c) interceptor list \<Rightarrow> (stream_response \<Rightarrow> (stream_response, 'c) after_args) \<Rightarrow>
   stream_response list \<Rightarrow> exn option \<Rightarrow> stream_response list \<times> exn option" where
  "process_stream hs mk [] e = ([], e)"
| "process_stream hs mk (x # xs) e =
     (case intercept_after hs (mk x) of
        Inl e' \<Rightarrow> ([], Some e')
      | Inr a \<Rightarrow>
          (case aa_result a of
             StreamEvent (MessageEv m) \<Rightarrow> ([aa_result a], None)
           | _ \<Rightarrow> (let (ys, e') = process_stream hs mk xs e in (aa_result a # ys, e'))))"

definition execute_stream_with_interceptors ::
  "('i, stream_response, 'c) interceptor list \<Rightarrow> agent_card \<Rightarrow> 'i \<Rightarrow> string \<Rightarrow> 'c \<Rightarrow>
   ('i \<Rightarrow> 'c \<Rightarrow> (stream_response, 's) stream_call) \<Rightarrow> (stream_response, 's) stream_call" where
  "execute_stream_with_interceptors hs acard input m c call s =
     (case intercept_before hs [] (before_of input m acard c) of
        Inl e \<Rightarrow> (s, [], Some e)
      | Inr (b, Some (r, executed)) \<Rightarrow>
          (case intercept_after executed (after_of r m acard (ba_context b)) of
             Inl e \<Rightarrow> (s, [], Some e)
           | Inr a \<Rightarrow> (s, [aa_result a], None))
      | Inr (b, None) \<Rightarrow>
          (let (s', xs, e) = call (ba_input b) (ba_context b) s
           in (s', process_stream hs (\<lambda>r. after_of r m acard (ba_context b)) xs e)))"

subsection \<open>Sending a message\<close>

record client_config =
  cl_streaming :: bool
  cl_polling :: bool
  cl_supported_protocol_bindings :: "string list"
  cl_use_client_preference :: bool
  cl_accepted_output_modes :: "string list"
  cl_push_notification_config :: "push_config option"

text \<open>Writing a field of \<^verbatim>\<open>request.configuration\<close> makes the configuration present.\<close>

definition apply_client_config :: "client_config \<Rightarrow> send_message_request \<Rightarrow> send_message_request" where
  "apply_client_config cfg r =
     (let c = smr_config r
      in r\<lparr>smr_configuration := Some (c\<lparr>
           sc_return_immediately := sc_return_immediately c \<or> cl_polling cfg,
           sc_push_config := (case sc_push_config c of None \<Rightarrow> cl_push_notification_config cfg | Some p \<Rightarrow> Some p),
           sc_accepted_output_modes := (if sc_accepted_output_modes c = [] then cl_accepted_output_modes cfg
             else sc_accepted_output_modes c)\<rparr>)\<rparr>)"

fun response_stream :: "send_response \<Rightarrow> exn + stream_response" where
  "response_stream (TaskResponse t) = Inr (StreamEvent (TaskEv (TaskObj t)))"
| "response_stream (MessageResponse m) = Inr (StreamEvent (MessageEv m))"
| "response_stream EmptySendResponse = Inl (ValueError ''Response has neither task nor message'')"

definition streams :: "client_config \<Rightarrow> agent_card \<Rightarrow> bool" where
  "streams cfg acard \<longleftrightarrow> cl_streaming cfg \<and> cap_streaming (card_capabilities_of acard) = Some True"

text \<open>The hooks of the two ways have different results, hence two lists of them.\<close>

definition client_send_message ::
  "(send_message_request, send_response, 'c) interceptor list \<Rightarrow>
   (send_message_request, stream_response, 'c) interceptor list \<Rightarrow> client_config \<Rightarrow> agent_card \<Rightarrow>
   (send_message_request \<Rightarrow> 'c \<Rightarrow> (send_response, 's) call) \<Rightarrow>
   (send_message_request \<Rightarrow> 'c \<Rightarrow> (stream_response, 's) stream_call) \<Rightarrow>
   send_message_request \<Rightarrow> 'c \<Rightarrow> (stream_response, 's) stream_call" where
  "client_send_message hs hs' cfg acard send stream r c s =
     (let r' = apply_client_config cfg r
      in if \<not> streams cfg acard
         then (case execute_with_interceptors hs acard r' ''send_message'' c send s of
                 (s', Inl e) \<Rightarrow> (s', [], Some e)
               | (s', Inr x) \<Rightarrow> (case response_stream x of
                     Inl e \<Rightarrow> (s', [], Some e) | Inr y \<Rightarrow> (s', [y], None)))
         else execute_stream_with_interceptors hs' acard r' ''send_message_streaming'' c stream s)"

definition client_subscribe ::
  "('i, stream_response, 'c) interceptor list \<Rightarrow> client_config \<Rightarrow> agent_card \<Rightarrow>
   ('i \<Rightarrow> 'c \<Rightarrow> (stream_response, 's) stream_call) \<Rightarrow> 'i \<Rightarrow> 'c \<Rightarrow> (stream_response, 's) stream_call" where
  "client_subscribe hs cfg acard stream r c s =
     (if \<not> streams cfg acard
      then (s, [], Some (RuntimeError ''client and/or server do not support resubscription.''))
      else execute_stream_with_interceptors hs acard r ''subscribe'' c stream s)"

subsection \<open>The choice of a transport\<close>

definition JSONRPC :: string where "JSONRPC = ''JSONRPC''"

fun find_first :: "('a \<Rightarrow> bool) \<Rightarrow> 'a list \<Rightarrow> 'a option" where
  "find_first p [] = None"
| "find_first p (x # xs) = (if p x then Some x else find_first p xs)"

definition or_else :: "'a option \<Rightarrow> 'a option \<Rightarrow> 'a option" where
  "or_else a b = (case a of None \<Rightarrow> b | Some x \<Rightarrow> Some x)"

text \<open>\<^verbatim>\<open>Version(a) > Version(b)\<close> and \<^verbatim>\<open>>=\<close>, false when a version is not one.\<close>

definition version_gt :: "'v version_lib \<Rightarrow> string \<Rightarrow> string \<Rightarrow> bool" where
  "version_gt lib a b = (case (vl_parse lib a, vl_parse lib b) of
     (Some x, Some y) \<Rightarrow> \<not> vl_le lib x y | _ \<Rightarrow> False)"

definition version_ge :: "'v version_lib \<Rightarrow> string \<Rightarrow> string \<Rightarrow> bool" where
  "version_ge lib a b = (case (vl_parse lib a, vl_parse lib b) of
     (Some x, Some y) \<Rightarrow> vl_le lib y x | _ \<Rightarrow> False)"

definition candidate :: "string list \<Rightarrow> string option \<Rightarrow> agent_interface \<Rightarrow> bool" where
  "candidate bindings url i \<longleftrightarrow> ai_protocol_binding i \<in> set bindings \<and> (case url of None \<Rightarrow> True | Some u \<Rightarrow> ai_url i = u)"

definition find_best_interface ::
  "'v version_lib \<Rightarrow> agent_interface list \<Rightarrow> string list \<Rightarrow> string option \<Rightarrow> agent_interface option" where
  "find_best_interface lib is bindings url =
     (let cs = filter (candidate bindings url) is;
          v = ai_protocol_version
      in or_else (find_first (\<lambda>i. v i = PROTOCOL_VERSION_1_0) cs)
         (or_else (find_first (\<lambda>i. v i \<noteq> [] \<and> version_gt lib (v i) PROTOCOL_VERSION_1_0) cs)
         (or_else (find_first (\<lambda>i. v i \<noteq> [] \<and> version_ge lib (v i) PROTOCOL_VERSION_0_3) cs)
         (find_first (\<lambda>i. v i = []) cs))))"

text \<open>A transport: its protocol binding, its URL, and whether it is the one for protocol 0.3.\<close>

datatype transport = Transport string string bool | TenantTransport transport string

definition default_producer :: "'v version_lib \<Rightarrow> string \<Rightarrow> agent_card \<Rightarrow> string \<Rightarrow> transport" where
  "default_producer lib binding acard url =
     (let version = (case find_best_interface lib (card_supported_interfaces acard) [binding] (Some url) of
            Some i \<Rightarrow> ai_protocol_version i | None \<Rightarrow> PROTOCOL_VERSION_CURRENT)
      in Transport binding url (is_legacy_version lib (Some version)))"

type_synonym producers = "(string, agent_card \<Rightarrow> string \<Rightarrow> transport) dict"

definition register_defaults :: "'v version_lib \<Rightarrow> string list \<Rightarrow> producers" where
  "register_defaults lib supported =
     map (\<lambda>b. (b, default_producer lib b))
       ((if JSONRPC \<in> set supported \<or> supported = [] then [JSONRPC] else []) @
        filter (\<lambda>b. b \<in> set supported) [''HTTP+JSON'', ''GRPC''])"

fun first_preferred ::
  "'v version_lib \<Rightarrow> agent_interface list \<Rightarrow> string list \<Rightarrow> (string \<times> agent_interface) option" where
  "first_preferred lib is [] = None"
| "first_preferred lib is (b # bs) =
     (case find_best_interface lib is [b] None of
        Some i \<Rightarrow> Some (b, i) | None \<Rightarrow> first_preferred lib is bs)"

text \<open>The two loops of \<^verbatim>\<open>create\<close>; the second stops at the first interface with a binding of the client.\<close>

definition select_interface ::
  "'v version_lib \<Rightarrow> client_config \<Rightarrow> agent_card \<Rightarrow> (string \<times> agent_interface) option" where
  "select_interface lib cfg acard =
     (let client_set = (if cl_supported_protocol_bindings cfg = [] then [JSONRPC]
                        else cl_supported_protocol_bindings cfg);
          is = card_supported_interfaces acard
      in if cl_use_client_preference cfg then first_preferred lib is client_set
         else (case find_first (\<lambda>i. ai_protocol_binding i \<in> set client_set) is of
                 None \<Rightarrow> None
               | Some i \<Rightarrow>
                   map_option (\<lambda>j. (ai_protocol_binding i, j))
                     (find_best_interface lib is [ai_protocol_binding i] None)))"

definition create_transport ::
  "'v version_lib \<Rightarrow> client_config \<Rightarrow> producers \<Rightarrow> agent_card \<Rightarrow> exn + transport" where
  "create_transport lib cfg registry acard =
     (case select_interface lib cfg acard of
        None \<Rightarrow> Inl (ValueError ''no compatible transports found.'')
      | Some (b, i) \<Rightarrow>
          if b = [] then Inl (ValueError ''no compatible transports found.'')
          else (case map_of registry b of
                  None \<Rightarrow> Inl (ValueError (''no client available for '' @ b))
                | Some f \<Rightarrow>
                    Inr (if ai_tenant i \<noteq> [] then TenantTransport (f acard (ai_url i)) (ai_tenant i)
                         else f acard (ai_url i))))"

text \<open>\<^verbatim>\<open>TenantTransportDecorator._resolve_tenant\<close>\<close>

definition resolve_tenant :: "string \<Rightarrow> string \<Rightarrow> string" where
  "resolve_tenant own tenant = (if tenant \<noteq> [] then tenant else own)"

subsection \<open>Laws of the hooks\<close>

text \<open>Hooks that only change the request on the way in and the result on the way out.\<close>

definition plain_hook :: "('i \<Rightarrow> 'i) \<Rightarrow> ('r \<Rightarrow> 'r) \<Rightarrow> ('i, 'r, 'c) interceptor" where
  "plain_hook f g = \<lparr>ic_before = (\<lambda>a. Inr (a\<lparr>ba_input := f (ba_input a)\<rparr>)),
     ic_after = (\<lambda>a. Inr (a\<lparr>aa_result := g (aa_result a)\<rparr>))\<rparr>"

lemma before_plain:
  "ba_early_return a = None \<Longrightarrow>
   intercept_before (map (\<lambda>(f, g). plain_hook f g) fgs) ex a =
     Inr (a\<lparr>ba_input := fold fst fgs (ba_input a)\<rparr>, None)"
proof (induction fgs arbitrary: ex a)
  case (Cons fg fgs)
  show ?case
    using Cons.IH [of "a\<lparr>ba_input := fst fg (ba_input a)\<rparr>" "ex @ [plain_hook (fst fg) (snd fg)]"] Cons.prems
    by (simp add: plain_hook_def case_prod_beta)
qed simp

lemma after_loop_plain:
  "\<not> aa_early_return a \<Longrightarrow>
   after_loop (map (\<lambda>(f, g). plain_hook f g) fgs) a = Inr (a\<lparr>aa_result := fold snd fgs (aa_result a)\<rparr>)"
  by (induction fgs arbitrary: a) (simp_all add: plain_hook_def case_prod_beta)

lemma after_plain:
  "\<not> aa_early_return a \<Longrightarrow>
   intercept_after (map (\<lambda>(f, g). plain_hook f g) fgs) a = Inr (a\<lparr>aa_result := foldr snd fgs (aa_result a)\<rparr>)"
  using after_loop_plain [of a "rev fgs"] by (simp add: intercept_after_def foldr_conv_fold rev_map)

lemma hooks_nest:
  "execute_with_interceptors (map (\<lambda>(f, g). plain_hook f g) fgs) acard input m c call s =
   rpc_call (call (fold fst fgs input) c) (\<lambda>r. Inr (foldr snd fgs r)) s"
  by (simp add: execute_with_interceptors_def before_plain after_plain before_of_def after_of_def)

text \<open>An early return: the call is not made, and the hooks after the one that returned do not run.\<close>

lemma before_early:
  assumes "ba_early_return a = None"
    and "\<And>a. ic_before h a = Inr (a\<lparr>ba_early_return := Some r\<rparr>)"
  shows "intercept_before (map (\<lambda>(f, g). plain_hook f g) fgs @ h # hs) ex a =
    Inr (a\<lparr>ba_input := fold fst fgs (ba_input a), ba_early_return := Some r\<rparr>,
      Some (r, ex @ map (\<lambda>(f, g). plain_hook f g) fgs @ [h]))"
  using assms(1)
proof (induction fgs arbitrary: ex a)
  case Nil
  then show ?case by (simp add: assms(2))
next
  case (Cons fg fgs)
  show ?case
    using Cons.IH [of "a\<lparr>ba_input := fst fg (ba_input a)\<rparr>" "ex @ [plain_hook (fst fg) (snd fg)]"] Cons.prems
    by (simp add: plain_hook_def case_prod_beta)
qed

lemma early_return_skips:
  assumes "\<And>a. ic_before h a = Inr (a\<lparr>ba_early_return := Some r\<rparr>)"
    and "\<And>a. ic_after h a = Inr a"
  shows "execute_with_interceptors (map (\<lambda>(f, g). plain_hook f g) fgs @ h # hs) acard input m c call s =
    (s, Inr (foldr snd fgs r))"
proof -
  have "intercept_after (map (\<lambda>(f, g). plain_hook f g) fgs @ [h]) (after_of r m acard c) =
      intercept_after (map (\<lambda>(f, g). plain_hook f g) fgs) (after_of r m acard c)"
    by (simp add: intercept_after_def assms(2) after_of_def)
  then show ?thesis
    using before_early [OF _ assms(1), where fgs = fgs and hs = hs and ex = "[]"]
    by (simp add: execute_with_interceptors_def before_of_def after_plain after_of_def)
qed

text \<open>A stream ends with its first message.\<close>

fun response_is_message :: "stream_response \<Rightarrow> bool" where
  "response_is_message (StreamEvent (MessageEv m)) = True"
| "response_is_message _ = False"

lemma process_stream_none:
  "hs = [] \<Longrightarrow> process_stream hs (\<lambda>r. after_of r m acard c) xs e =
     (let ys = takeWhile (\<lambda>x. \<not> response_is_message x) xs
      in if ys = xs then (xs, e) else (ys @ [xs ! length ys], None))"
proof (induction xs)
  case Nil
  then show ?case by simp
next
  case (Cons x xs)
  show ?case
  proof (cases "response_is_message x")
    case True
    then obtain msg where "x = StreamEvent (MessageEv msg)" by (cases x rule: response_is_message.cases) auto
    then show ?thesis using Cons.prems by (simp add: intercept_after_def after_of_def)
  next
    case False
    then have "process_stream hs (\<lambda>r. after_of r m acard c) (x # xs) e =
        (let (ys, e') = process_stream hs (\<lambda>r. after_of r m acard c) xs e in (x # ys, e'))"
      using Cons.prems by (cases x rule: response_is_message.cases) (simp_all add: intercept_after_def after_of_def)
    with Cons False show ?thesis by (simp add: Let_def)
  qed
qed

subsection \<open>Laws of the choice\<close>

lemma find_first_filter:
  "find_first p (filter q xs) = Some x \<Longrightarrow> (\<And>y. q' y \<Longrightarrow> q y) \<Longrightarrow> q' x \<Longrightarrow> find_first p (filter q' xs) = Some x"
  by (induction xs) (auto split: if_splits)

lemma find_first_None: "find_first p xs = None \<longleftrightarrow> (\<forall>x \<in> set xs. \<not> p x)"
  by (induction xs) auto

lemma find_first_Some: "find_first p xs = Some x \<Longrightarrow> x \<in> set xs \<and> p x"
  by (induction xs) (auto split: if_splits)

lemma or_else_Some: "or_else a b = Some x \<longleftrightarrow> a = Some x \<or> (a = None \<and> b = Some x)"
  by (cases a) (auto simp: or_else_def)

text \<open>
  Looking again among the interfaces with the URL of the best one finds it again, so the version
  that the transport is made for is the version of the selected interface.
\<close>

lemma find_best_stable:
  assumes "find_best_interface lib is bs None = Some i"
  shows "find_best_interface lib is bs (Some (ai_url i)) = Some i"
proof -
  let ?q = "candidate bs None" and ?q' = "candidate bs (Some (ai_url i))"
  have sub: "?q' y \<Longrightarrow> ?q y" for y by (simp add: candidate_def)
  have none: "find_first p (filter ?q' is) = None" if "find_first p (filter ?q is) = None" for p
    using that sub by (auto simp: find_first_None)
  have some: "find_first p (filter ?q' is) = Some i" if "find_first p (filter ?q is) = Some i" for p
  proof (rule find_first_filter [OF that sub])
    show "?q' i" using find_first_Some [OF that] by (simp add: candidate_def)
  qed
  show ?thesis
    using assms unfolding find_best_interface_def Let_def or_else_Some
    by (elim disjE conjE) (simp_all add: some none)
qed

lemma best_binding: "find_best_interface lib is bs url = Some i \<Longrightarrow> i \<in> set is \<and> ai_protocol_binding i \<in> set bs"
  by (auto simp: find_best_interface_def Let_def or_else_Some candidate_def dest!: find_first_Some)

lemma first_preferred_spec:
  "first_preferred lib is bs = Some (b, i) \<Longrightarrow> b \<in> set bs \<and> find_best_interface lib is [b] None = Some i"
  by (induction bs) (auto split: option.splits)

lemma select_interface_spec:
  "select_interface lib cfg acard = Some (b, i) \<Longrightarrow>
   find_best_interface lib (card_supported_interfaces acard) [b] None = Some i"
  by (auto simp: select_interface_def Let_def dest: first_preferred_spec split: if_splits option.splits)

text \<open>The URL, tenant and protocol version of the transport are those of one interface of the card.\<close>

fun transport_matches :: "'v version_lib \<Rightarrow> agent_interface \<Rightarrow> transport \<Rightarrow> bool" where
  "transport_matches lib i (Transport b url legacy) \<longleftrightarrow>
     b = ai_protocol_binding i \<and> url = ai_url i \<and> legacy = is_legacy_version lib (Some (ai_protocol_version i))"
| "transport_matches lib i (TenantTransport t tenant) \<longleftrightarrow> tenant = ai_tenant i \<and> transport_matches lib i t"

lemma register_defaults_lookup:
  "map_of (register_defaults lib supported) b = Some f \<Longrightarrow> f = default_producer lib b"
  by (auto simp: register_defaults_def dest!: map_of_SomeD)

lemma create_matches:
  assumes "create_transport lib cfg (register_defaults lib supported) acard = Inr t"
  shows "\<exists>i \<in> set (card_supported_interfaces acard). transport_matches lib i t \<and>
    (\<exists>b. find_best_interface lib (card_supported_interfaces acard) [b] None = Some i)"
proof -
  from assms obtain b i f where sel: "select_interface lib cfg acard = Some (b, i)"
    and f: "map_of (register_defaults lib supported) b = Some f"
    and t: "t = (if ai_tenant i \<noteq> [] then TenantTransport (f acard (ai_url i)) (ai_tenant i) else f acard (ai_url i))"
    by (auto simp: create_transport_def split: option.splits if_splits)
  from select_interface_spec [OF sel] have best: "find_best_interface lib (card_supported_interfaces acard) [b] None = Some i" .
  from register_defaults_lookup [OF f] have "f acard (ai_url i) = Transport b (ai_url i) (is_legacy_version lib (Some (ai_protocol_version i)))"
    by (simp add: default_producer_def Let_def find_best_stable [OF best])
  moreover have "i \<in> set (card_supported_interfaces acard)" "ai_protocol_binding i = b"
    using best_binding [OF best] by simp_all
  ultimately show ?thesis using best by (intro bexI [of _ i]) (auto simp: t)
qed

text \<open>With client preferences a transport is found whenever some binding has a usable interface.\<close>

lemma preferred_complete:
  "first_preferred lib is bs = None \<longleftrightarrow> (\<forall>b \<in> set bs. find_best_interface lib is [b] None = None)"
  by (induction bs) (auto split: option.splits)

end
