(* ===== verification/Client_Rpc.thy ===== *)
theory Client_Rpc
  imports Client
begin

text \<open>
  The client's side of JSON-RPC (\<^verbatim>\<open>client/transports/jsonrpc.py\<close>) with the parser of server-sent
  events of \<^verbatim>\<open>client/transports/http_helpers.py\<close>, and the two ends together: what a client sees of a
  handler behind the endpoint of \<^verbatim>\<open>Jsonrpc\<close>. The text of a reply and its parser are parameters; an
  event stream is written as the specification of server-sent events says.
\<close>

subsection \<open>Server-sent events\<close>

definition is_eol :: "char \<Rightarrow> bool" where
  "is_eol c \<longleftrightarrow> c = CHR 0x0A \<or> c = CHR 0x0D"

definition rstrip_eol :: "string \<Rightarrow> string" where
  "rstrip_eol s = rev (dropWhile is_eol (rev s))"

fun split_colon :: "string \<Rightarrow> string \<times> string" where
  "split_colon [] = ([], [])"
| "split_colon (c # s) = (if c = CHR '':'' then ([], s) else (let (a, b) = split_colon s in (c # a, b)))"

fun strip_space :: "string \<Rightarrow> string" where
  "strip_space (CHR '' '' # s) = s"
| "strip_space s = s"

fun join_lines :: "string list \<Rightarrow> string" where
  "join_lines [] = []"
| "join_lines [x] = x"
| "join_lines (x # xs) = x @ CHR 0x0A # join_lines xs"

text \<open>\<^verbatim>\<open>parse_sse_stream\<close> over the lines of a response: the name and data of each event.\<close>

fun parse_sse :: "string \<Rightarrow> string list \<Rightarrow> string list \<Rightarrow> (string \<times> string) list" where
  "parse_sse ev chunks [] = []"
| "parse_sse ev chunks (line # ls) =
     (let raw = rstrip_eol line
      in if raw = [] then
           (if chunks \<noteq> [] then [(ev, join_lines chunks)] else []) @ parse_sse ''message'' [] ls
         else if hd raw = CHR '':'' then parse_sse ev chunks ls
         else (let (key, v) = split_colon raw; val = strip_space v
               in if key = ''event'' then parse_sse val chunks ls
                  else if key = ''data'' then parse_sse ev (chunks @ [val]) ls
                  else parse_sse ev chunks ls))"

text \<open>An event as a server writes it: a name unless it is the default one, the lines of its data, a blank line.\<close>

definition sse_lines :: "string \<times> string list \<Rightarrow> string list" where
  "sse_lines e = (if fst e = ''message'' then [] else [''event: '' @ fst e]) @
     map (\<lambda>d. ''data: '' @ d) (snd e) @ [[]]"

definition no_eol :: "string \<Rightarrow> bool" where
  "no_eol s = list_all (\<lambda>c. \<not> is_eol c) s"

lemma rstrip_no_eol: "no_eol s \<Longrightarrow> rstrip_eol s = s"
proof -
  assume "no_eol s"
  then have "\<forall>x \<in> set (rev s). \<not> is_eol x" by (simp add: no_eol_def list_all_iff)
  then have "dropWhile is_eol (rev s) = rev s" by (cases "rev s") auto
  then show ?thesis by (simp add: rstrip_eol_def)
qed

lemma rstrip_data: "no_eol d \<Longrightarrow> rstrip_eol (''data: '' @ d) = ''data: '' @ d"
  by (rule rstrip_no_eol) (simp add: no_eol_def is_eol_def)

lemma rstrip_event: "no_eol d \<Longrightarrow> rstrip_eol (''event: '' @ d) = ''event: '' @ d"
  by (rule rstrip_no_eol) (simp add: no_eol_def is_eol_def)

lemma rstrip_Nil [simp]: "rstrip_eol [] = []"
  by (simp add: rstrip_eol_def)

lemma parse_data_line: "no_eol d \<Longrightarrow> parse_sse ev chunks ((''data: '' @ d) # ls) = parse_sse ev (chunks @ [d]) ls"
  by (simp only: parse_sse.simps rstrip_data) simp

lemma parse_event_line: "no_eol d \<Longrightarrow> parse_sse ev chunks ((''event: '' @ d) # ls) = parse_sse d chunks ls"
  by (simp only: parse_sse.simps rstrip_event) simp

lemma parse_data_lines:
  "list_all no_eol ds \<Longrightarrow> parse_sse ev chunks (map (\<lambda>d. ''data: '' @ d) ds @ ls) = parse_sse ev (chunks @ ds) ls"
proof (induction ds arbitrary: chunks)
  case (Cons d ds)
  have "parse_sse ev chunks ((''data: '' @ d) # map (\<lambda>d. ''data: '' @ d) ds @ ls) =
      parse_sse ev (chunks @ [d]) (map (\<lambda>d. ''data: '' @ d) ds @ ls)"
    using Cons.prems by (intro parse_data_line) simp
  then show ?case using Cons by simp
qed simp

lemma parse_blank: "chunks \<noteq> [] \<Longrightarrow> parse_sse ev chunks ([] # ls) = (ev, join_lines chunks) # parse_sse ''message'' [] ls"
  by simp

definition sse_event_ok :: "string \<times> string list \<Rightarrow> bool" where
  "sse_event_ok e \<longleftrightarrow> no_eol (fst e) \<and> snd e \<noteq> [] \<and> list_all no_eol (snd e)"

lemma parse_sse_event:
  assumes "sse_event_ok e"
  shows "parse_sse ''message'' [] (sse_lines e @ ls) = (fst e, join_lines (snd e)) # parse_sse ''message'' [] ls"
proof -
  have data: "parse_sse ev [] (map (\<lambda>d. ''data: '' @ d) (snd e) @ [] # ls) =
      (ev, join_lines (snd e)) # parse_sse ''message'' [] ls" for ev
    using assms parse_data_lines [of "snd e" ev "[]" "[] # ls"] parse_blank [of "snd e" ev ls]
    by (simp add: sse_event_ok_def del: parse_sse.simps)
  show ?thesis
  proof (cases "fst e = ''message''")
    case True
    with data [of "''message''"] show ?thesis by (simp add: sse_lines_def del: parse_sse.simps)
  next
    case False
    have "no_eol (fst e)" using assms by (simp add: sse_event_ok_def)
    from parse_event_line [OF this] data [of "fst e"] False show ?thesis
      by (simp add: sse_lines_def del: parse_sse.simps)
  qed
qed

text \<open>The parser reads back every event that is written.\<close>

lemma parse_sse_stream:
  "list_all sse_event_ok es \<Longrightarrow>
   parse_sse ''message'' [] (concat (map sse_lines es)) = map (\<lambda>e. (fst e, join_lines (snd e))) es"
  by (induction es) (simp_all add: parse_sse_event del: parse_sse.simps(2))

subsection \<open>The stream of a JSON-RPC call\<close>

text \<open>
  \<^verbatim>\<open>send_http_stream_request\<close> and \<^verbatim>\<open>_send_stream_request\<close>: the data of the events, an error event
  raising the error in it. \<open>reply_of\<close> is \<^verbatim>\<open>JSONRPC20Response.from_json\<close>, \<open>response_of\<close> \<^verbatim>\<open>ParseDict\<close>.
\<close>

record wire =
  wr_text :: "json reply \<Rightarrow> string"
  wr_reply :: "string \<Rightarrow> json reply option"
  wr_response :: "json \<Rightarrow> stream_response option"
  wr_error_text :: "jsonrpc_error \<Rightarrow> string"

fun read_stream :: "wire \<Rightarrow> (string \<times> string) list \<Rightarrow> stream_response list \<times> client_error option" where
  "read_stream w [] = ([], None)"
| "read_stream w ((ev, dat) # es) =
     (if dat = [] then read_stream w es
      else (case wr_reply w dat of
              None \<Rightarrow> ([], Some (ClientError ''JSON Decode Error''))
            | Some (ErrorReply i j) \<Rightarrow> ([], Some (create_jsonrpc_error (wr_error_text w) j))
            | Some (ResultReply i r) \<Rightarrow>
                if ev = ''error'' then ([], Some (ClientError (''SSE stream error: '' @ dat)))
                else (case wr_response w r of
                        None \<Rightarrow> ([], Some (ClientError ''parse error''))
                      | Some x \<Rightarrow> (let (xs, e) = read_stream w es in (x # xs, e)))))"

text \<open>The events of a response of the dispatcher, one line of data each.\<close>

definition response_events :: "wire \<Rightarrow> (bool \<times> json reply) list \<Rightarrow> (string \<times> string list) list" where
  "response_events w items =
     map (\<lambda>(err, r). (if err then ''error'' else ''message'', [wr_text w r])) items"

text \<open>JSON reads back the reply that it wrote, in one line.\<close>

definition wire_ok :: "wire \<Rightarrow> json reply \<Rightarrow> bool" where
  "wire_ok w r \<longleftrightarrow> wr_reply w (wr_text w r) = Some r \<and> wr_text w r \<noteq> [] \<and> no_eol (wr_text w r)"

lemma response_events_ok:
  "list_all (\<lambda>i. wire_ok w (snd i)) items \<Longrightarrow> list_all sse_event_ok (response_events w items)"
proof -
  assume w: "list_all (\<lambda>i. wire_ok w (snd i)) items"
  have "no_eol ''error''" "no_eol ''message''" by code_simp+
  with w show ?thesis
    by (induction items) (simp_all add: response_events_def sse_event_ok_def wire_ok_def case_prod_beta)
qed

text \<open>What the client makes of the exception that ends the handler's stream.\<close>

fun client_view :: "exn \<Rightarrow> client_error" where
  "client_view (A2A e) =
     (if err_kind e = JSONParseError then KnownError (mk_error InternalError (Some ''Input should be -32603'') None)
      else KnownError (seen_by_client e))"
| "client_view e = KnownError (mk_error InternalError (Some (exn_text e)) None)"

lemma internal_seen: "create_jsonrpc_error tx (JE_INTERNAL m) = KnownError (mk_error InternalError (Some m) None)"
  by (simp add: create_jsonrpc_error_def JE_INTERNAL_def JSON_RPC_ERROR_CODE_TO_A2A_ERROR_def all_kinds_def)

lemma stream_error_seen: "\<exists>j. stream_error rid e = ErrorReply rid j \<and> create_jsonrpc_error tx j = client_view e"
proof (cases e)
  case (A2A a)
  show ?thesis
  proof (cases "err_kind a = JSONParseError")
    case True
    then have "jsonrpc_error_of a = Inl (ValueError ''Input should be -32603'')"
      by (simp add: jsonrpc_error_of_def exception_mapped_def Let_def)
    with A2A True show ?thesis by (simp add: stream_error_def build_error_response_def internal_seen)
  next
    case False
    with error_round_trip [of a rid tx] A2A show ?thesis by auto
  qed
qed (simp_all add: stream_error_def internal_seen)

lemma read_stream_results:
  assumes "\<And>x. x \<in> set xs \<Longrightarrow> wire_ok w (ResultReply rid (f x)) \<and> wr_response w (f x) = Some (g x)"
  shows "read_stream w (map (\<lambda>x. (''message'', wr_text w (ResultReply rid (f x)))) xs @ es) =
    (let (ys, e) = read_stream w es in (map g xs @ ys, e))"
  using assms by (induction xs) (auto simp: wire_ok_def split: prod.split)

text \<open>
  The two ends of a stream: the client gets the handler's events in order and, when the handler
  raised, its error.
\<close>

lemma rpc_stream_end_to_end:
  assumes w: "list_all (\<lambda>i. wire_ok w (snd i)) (sse_items rk rid evs e)"
    and p: "\<And>ev. ev \<in> set evs \<Longrightarrow> rk_print rk (StreamMsg (stream_response_of ev)) = Inr (pj ev) \<and>
      wr_response w (pj ev) = Some (stream_response_of ev)"
  shows "read_stream w (parse_sse ''message'' [] (concat (map sse_lines
      (response_events w (sse_items rk rid evs e))))) =
    (map stream_response_of evs, map_option client_view e)"
proof -
  have items: "sse_items rk rid evs e = map (\<lambda>ev. (False, ResultReply rid (pj ev))) evs @
      (case e of None \<Rightarrow> [] | Some x \<Rightarrow> [(True, stream_error rid x)])"
    by (rule sse_items_spec) (simp add: p)
  have parsed: "parse_sse ''message'' [] (concat (map sse_lines (response_events w (sse_items rk rid evs e)))) =
      map (\<lambda>x. (''message'', wr_text w (ResultReply rid (pj x)))) evs @
      (case e of None \<Rightarrow> [] | Some x \<Rightarrow> [(''error'', wr_text w (stream_error rid x))])"
    unfolding parse_sse_stream [OF response_events_ok [OF w]]
    by (simp add: response_events_def items split: option.split)
  have last: "read_stream w (case e of None \<Rightarrow> [] | Some x \<Rightarrow> [(''error'', wr_text w (stream_error rid x))]) =
      ([], map_option client_view e)"
  proof (cases e)
    case (Some x)
    obtain j where "stream_error rid x = ErrorReply rid j" "create_jsonrpc_error (wr_error_text w) j = client_view x"
      using stream_error_seen by blast
    with Some w [unfolded items] show ?thesis by (simp add: wire_ok_def)
  qed simp
  have sent: "wire_ok w (ResultReply rid (pj ev)) \<and> wr_response w (pj ev) = Some (stream_response_of ev)"
    if "ev \<in> set evs" for ev
  proof -
    have "list_all (\<lambda>ev. wire_ok w (ResultReply rid (pj ev))) evs"
      using w by (simp add: items list.pred_map comp_def)
    with that p show ?thesis by (simp add: list_all_iff)
  qed
  show ?thesis
    unfolding parsed using read_stream_results [of evs w rid pj stream_response_of, OF sent] last by simp
qed

subsection \<open>A call that is answered at once\<close>

text \<open>
  The body of a call, the endpoint's answer, and what the client makes of it. An answer that is
  not a reply is an HTTP error or not JSON.
\<close>

definition request_body :: "string \<Rightarrow> json \<Rightarrow> json \<Rightarrow> json" where
  "request_body m params rid =
     JObj [(to_ustr ''jsonrpc'', JStr (to_ustr ''2.0'')), (to_ustr ''method'', JStr (to_ustr m)),
       (to_ustr ''params'', params), (to_ustr ''id'', rid)]"

definition send_request :: "string \<Rightarrow> json \<Rightarrow> json \<Rightarrow> (string \<times> string) list \<Rightarrow> string option \<Rightarrow> http_server_request" where
  "send_request m params rid headers user =
     \<lparr>hq_body = BodyJson (request_body m params rid), hq_headers = headers, hq_user = user\<rparr>"

definition read_reply ::
  "(jsonrpc_error \<Rightarrow> string) \<Rightarrow> (json \<Rightarrow> 'a option) \<Rightarrow> json response \<Rightarrow> client_error + 'a" where
  "read_reply tx parse resp =
     (case resp of
        JsonResponse (ResultReply i j) \<Rightarrow> (case parse j of None \<Rightarrow> Inl (ClientError ''parse error'') | Some x \<Rightarrow> Inr x)
      | JsonResponse (ErrorReply i e) \<Rightarrow> Inl (create_jsonrpc_error tx e)
      | EventStream xs \<Rightarrow> Inl (ClientError ''JSON Decode Error'')
      | HttpRaised n \<Rightarrow> Inl (ClientError ''HTTP Error'')
      | ServerRaised e \<Rightarrow> Inl (ClientError ''HTTP Error''))"

definition rpc_get_task ::
  "'v version_lib \<Rightarrow> 's request_handler \<Rightarrow> rpc_codec \<Rightarrow> compat03 option \<Rightarrow> (get_task_request \<Rightarrow> json) \<Rightarrow>
   (json \<Rightarrow> task option) \<Rightarrow> (jsonrpc_error \<Rightarrow> string) \<Rightarrow> string option \<Rightarrow> json \<Rightarrow> get_task_request \<Rightarrow>
   's \<Rightarrow> 's \<times> (client_error + task)" where
  "rpc_get_task lib h rk v03 print parse tx user rid r s =
     (case handle_requests lib h rk v03 (\<lambda>q. Inr (default_build q))
             (send_request ''GetTask'' (print r) rid [(''a2a-version'', ''1.0'')] user) s of
        (s', Inl resp) \<Rightarrow> (s', read_reply tx parse resp)
      | (s', Inr resp) \<Rightarrow> (s', Inl (ClientError ''parse error'')))"

lemma request_body_fields [simp]:
  "json_get (request_body m params rid) ''jsonrpc'' = Some (JStr (to_ustr ''2.0''))"
  "json_get (request_body m params rid) ''params'' = Some params"
  by (simp_all add: json_get_def request_body_def)

text \<open>The context that the endpoint builds for a client of version 1.0.\<close>

definition rpc_context :: "string option \<Rightarrow> string \<Rightarrow> call_context" where
  "rpc_context user tenant = \<lparr>cc_user_name = or_empty user, cc_tenant = tenant, cc_requested_extensions = [],
     cc_headers = [(''a2a-version'', ''1.0'')]\<rparr>"

lemma default_build_v1:
  "default_build (send_request m p rid [(''a2a-version'', ''1.0'')] user) = rpc_context user []"
proof -
  have "getlist (send_request m p rid [(''a2a-version'', ''1.0'')] user) HTTP_EXTENSION_HEADER = []"
  proof -
    have "lower_string HTTP_EXTENSION_HEADER \<noteq> ''a2a-version''" by code_simp
    then show ?thesis by (auto simp: getlist_def send_request_def)
  qed
  then show ?thesis
    by (simp add: default_build_def rpc_context_def send_request_def header_dict_def get_requested_extensions_def)
qed

lemma version_1_0_ok:
  "is_version_compatible lib PROTOCOL_VERSION_1_0
     (get_actual_version PROTOCOL_VERSION_1_0 (Some (rpc_context user tenant)))"
  unfolding get_actual_version_def lower_version_header
  by (simp add: rpc_context_def VERSION_HEADER_def is_version_compatible_def PROTOCOL_VERSION_1_0_def)

text \<open>
  The two ends of a call: the result that the handler returned, or the error that it raised.
\<close>

definition handler_outcome :: "exn + task option \<Rightarrow> client_error + task" where
  "handler_outcome x =
     (case x of
        Inr (Some t) \<Rightarrow> Inr t
      | Inr None \<Rightarrow> Inl (client_view (A2A (err TaskNotFoundError)))
      | Inl e \<Rightarrow> Inl (client_view e))"

lemma answer_error_seen:
  "(\<forall>a. e = A2A a \<longrightarrow> err_kind a \<noteq> JSONParseError) \<Longrightarrow>
   read_reply tx parse (answer_call rid (Inl e)) = Inl (client_view e)"
  using stream_error_seen [of rid e tx]
  by (cases e) (auto simp: answer_call_def read_reply_def outer_error_def internal_seen)

lemma rpc_get_task_end_to_end:
  assumes base: "rk_from_data rk (request_body ''GetTask'' (pr r) rid) =
      Inr (Some \<lparr>br_method = Some ''GetTask'', br_id = Some rid\<rparr>)"
    and req: "rk_parse rk M_Get (pr r) = Inr (GetReq r)"
    and pt: "\<And>t. x = Inr (Some t) \<Longrightarrow> \<exists>j. rk_print rk (TaskMsg t) = Inr j \<and> parse j = Some t"
    and run: "rh_get_task h r (rpc_context user (gt_tenant r)) s = (s', x)"
    and np: "\<forall>a. x = Inl (A2A a) \<longrightarrow> err_kind a \<noteq> JSONParseError"
  shows "rpc_get_task lib h rk v03 pr parse tx user rid r s = (s', handler_outcome x)"
proof -
  let ?c = "rpc_context user (gt_tenant r)"
  let ?q = "send_request ''GetTask'' (pr r) rid [(''a2a-version'', ''1.0'')] user"
  let ?y = "case x of Inl e \<Rightarrow> Inl e | Inr t \<Rightarrow> task_or_not_found (print_with rk TaskMsg) t"
  have m: "METHOD_TO_MODEL ''GetTask'' = Some M_Get" by simp
  have "process_request h rk ''GetTask'' (GetReq r) ?c s = (s', ?y)"
    using run by (simp add: rpc_call_def split: sum.split)
  then have d: "dispatch_v1 lib h rk (\<lambda>q. Inr (default_build q)) (Some rid) ''GetTask''
      (request_body ''GetTask'' (pr r) rid) ?q s = (s', answer_call (Some rid) ?y)"
    by (intro dispatch_v1_call [where r = "GetReq r", OF m _ _ _ _ version_1_0_ok [of lib user "gt_tenant r"]])
      (simp_all add: req default_build_v1, simp add: rpc_context_def)
  have nm: "''GetTask'' \<notin> set methods03" by (simp add: methods03_def)
  have hr: "handle_requests lib h rk v03 (\<lambda>q. Inr (default_build q)) ?q s = (s', Inl (answer_call (Some rid) ?y))"
    unfolding handle_requests_def
    by (simp add: send_request_def base nm d [unfolded send_request_def] Let_def split: option.split
        del: METHOD_TO_MODEL.simps)
  have "read_reply tx parse (answer_call (Some rid) ?y) = handler_outcome x"
  proof (cases x)
    case (Inl e)
    with answer_error_seen [of e tx parse "Some rid"] np show ?thesis
      by (auto simp: handler_outcome_def)
  next
    case (Inr t)
    show ?thesis
    proof (cases t)
      case None
      have "\<forall>a. A2A (err TaskNotFoundError) = A2A a \<longrightarrow> err_kind a \<noteq> JSONParseError" by auto
      from answer_error_seen [OF this, of tx parse "Some rid"] None Inr show ?thesis
        by (simp add: handler_outcome_def task_or_not_found_def)
    next
      case (Some t1)
      from pt [of t1] Inr Some obtain j where "rk_print rk (TaskMsg t1) = Inr j" "parse j = Some t1" by blast
      with Inr Some show ?thesis
        by (simp add: handler_outcome_def task_or_not_found_def print_with_def answer_call_def read_reply_def)
    qed
  qed
  with hr show ?thesis by (simp add: rpc_get_task_def)
qed

end
