(* ===== verification/Jcs.thy ===== *)
theory Jcs
  imports Page_Token
begin

text \<open>
  Canonical JSON (\<^verbatim>\<open>utils/_jcs.py\<close>, RFC 8785). A value is a \<open>json\<close>, so a key is always a text. A text
  is a list of code points; the result is one too, and \<open>Inl\<close> is a \<^verbatim>\<open>CanonicalizationError\<close>. A finite
  float is its shortest decimal, which Python's \<^verbatim>\<open>str\<close> writes as \<open>py_float_str\<close> says.
\<close>

definition MAX_DEPTH :: nat where
  "MAX_DEPTH = 128"

definition SAFE_INT_MAX :: int where
  "SAFE_INT_MAX = 2 ^ 53 - 1"

definition SAFE_INT_MIN :: int where
  "SAFE_INT_MIN = - (2 ^ 53) + 1"

subsection \<open>Decimal texts\<close>

definition digit_char :: "nat \<Rightarrow> char" where
  "digit_char d = char_of (48 + d)"

fun nat_str :: "nat \<Rightarrow> string" where
  "nat_str n = (if n < 10 then [digit_char n] else nat_str (n div 10) @ [digit_char (n mod 10)])"

declare nat_str.simps [simp del]

definition int_str :: "int \<Rightarrow> string" where
  "int_str i = (if i < 0 then CHR ''-'' # nat_str (nat (- i)) else nat_str (nat i))"

definition char_digit :: "char \<Rightarrow> nat" where
  "char_digit c = of_char c - 48"

definition digits_nat :: "string \<Rightarrow> nat" where
  "digits_nat s = fold (\<lambda>c n. 10 * n + char_digit c) s 0"

text \<open>\<^verbatim>\<open>int(s)\<close> of a signed decimal text.\<close>

fun str_int :: "string \<Rightarrow> int" where
  "str_int (CHR ''-'' # s) = - int (digits_nat s)"
| "str_int (CHR ''+'' # s) = int (digits_nat s)"
| "str_int s = int (digits_nat s)"

text \<open>
  \<^verbatim>\<open>str\<close> of a positive float \<open>0.d1 d2 \<dots> dk * 10^n\<close>: an exponent of at least two digits when the
  decimal point is far from the digits, else a fixed notation that always has a point.
\<close>

definition digits_str :: "nat list \<Rightarrow> string" where
  "digits_str ds = map digit_char ds"

definition zeros :: "nat \<Rightarrow> string" where
  "zeros n = replicate n (CHR ''0'')"

definition exp_str :: "int \<Rightarrow> string" where
  "exp_str e = CHR ''e'' # (if e < 0 then CHR ''-'' else CHR ''+'') #
     (if nat \<bar>e\<bar> < 10 then CHR ''0'' # nat_str (nat \<bar>e\<bar>) else nat_str (nat \<bar>e\<bar>))"

definition py_float_str :: "nat list \<Rightarrow> int \<Rightarrow> string" where
  "py_float_str ds n =
     (let s = digits_str ds
      in if n \<le> -4 \<or> 16 < n then
           (if length ds = 1 then s else take 1 s @ CHR ''.'' # drop 1 s) @ exp_str (n - 1)
         else if n \<le> 0 then ''0.'' @ zeros (nat (- n)) @ s
         else if int (length ds) \<le> n then s @ zeros (nat n - length ds) @ ''.0''
         else take (nat n) s @ CHR ''.'' # drop (nat n) s)"

subsection \<open>Numbers\<close>

fun index_char :: "char \<Rightarrow> string \<Rightarrow> nat option" where
  "index_char c [] = None"
| "index_char c (x # xs) = (if x = c then Some 0 else map_option Suc (index_char c xs))"

text \<open>The two parts of \<^verbatim>\<open>_format_number\<close>: the exponent is cut off, then the point.\<close>

definition cut_exponent :: "string \<Rightarrow> string \<times> string \<times> int" where
  "cut_exponent s =
     (case index_char (CHR ''e'') s of
        Some i \<Rightarrow>
          if 0 < i then
            (let es = drop i s;
                 es' = (if take 1 (drop 2 es) = ''0'' then take 2 es @ drop 3 es else es)
             in (take i s, es', str_int (drop 1 es')))
          else (s, [], 0)
      | None \<Rightarrow> (s, [], 0))"

definition cut_point :: "string \<Rightarrow> string \<times> string \<times> string" where
  "cut_point s =
     (case index_char (CHR ''.'') s of
        Some i \<Rightarrow> if 0 < i then (take i s, ''.'', drop (i + 1) s) else (s, [], [])
      | None \<Rightarrow> (s, [], []))"

definition format_positive :: "string \<Rightarrow> string" where
  "format_positive str =
     (let (mant, es, ev) = cut_exponent str;
          (first, dot, last) = cut_point mant;
          (dot, last) = (if last = ''0'' then ([], []) else (dot, last))
      in if 0 < ev \<and> ev < 21 then
           (first @ last) @ zeros (nat (ev - int (length (first @ last)) + 1))
         else if -7 < ev \<and> ev < 0 then
           ''0.'' @ zeros (nat (- ev - 1)) @ first @ last
         else first @ dot @ last @ es)"

fun format_number :: "pyfloat \<Rightarrow> string + string" where
  "format_number FNan = Inl ''nan is not a JSON number''"
| "format_number (FInf neg) = Inl ((if neg then ''-inf'' else ''inf'') @ '' is not a JSON number'')"
| "format_number (FZero neg) = Inr ''0''"
| "format_number (FFin neg ds n) =
     Inr ((if neg then ''-'' else []) @ format_positive (py_float_str ds n))"

subsection \<open>Strings\<close>

definition hex_char :: "nat \<Rightarrow> nat" where
  "hex_char d = (if d < 10 then 48 + d else 87 + d)"

definition escape_char :: "nat \<Rightarrow> ustr" where
  "escape_char c =
     (if c = 92 then [92, 92] else if c = 34 then [92, 34] else if c = 8 then [92, 98]
      else if c = 12 then [92, 102] else if c = 10 then [92, 110] else if c = 13 then [92, 114]
      else if c = 9 then [92, 116]
      else if c < 32 then [92, 117, 48, 48, hex_char (c div 16), hex_char (c mod 16)]
      else [c])"

definition quote :: "ustr \<Rightarrow> ustr" where
  "quote s = [34] @ concat (map escape_char s) @ [34]"

subsection \<open>Objects\<close>

definition utf16_char :: "nat \<Rightarrow> nat list" where
  "utf16_char c =
     (if c < 0x10000 then [c div 256, c mod 256]
      else (let d = c - 0x10000; hi = 0xD800 + d div 0x400; lo = 0xDC00 + d mod 0x400
            in [hi div 256, hi mod 256, lo div 256, lo mod 256]))"

text \<open>\<^verbatim>\<open>key.encode('utf-16-be')\<close>, which fails on a lone surrogate.\<close>

definition utf16_be :: "ustr \<Rightarrow> nat list option" where
  "utf16_be s = (if list_all is_scalar s then Some (concat (map utf16_char s)) else None)"

definition sorted_items :: "struct \<Rightarrow> string + struct" where
  "sorted_items d =
     (if list_all (\<lambda>e. utf16_be (fst e) \<noteq> None) d
      then Inr (sort_key (\<lambda>e. concat (map utf16_char (fst e))) d)
      else Inl ''object key contains text that is not valid Unicode'')"

subsection \<open>Values\<close>

fun join_comma :: "ustr list \<Rightarrow> ustr" where
  "join_comma [] = []"
| "join_comma [x] = x"
| "join_comma (x # xs) = x @ 44 # join_comma xs"

fun format_scalar :: "json \<Rightarrow> string + ustr" where
  "format_scalar JNull = Inr (to_ustr ''null'')"
| "format_scalar (JBool b) = Inr (to_ustr (if b then ''true'' else ''false''))"
| "format_scalar (JInt i) =
     (if i < SAFE_INT_MIN \<or> SAFE_INT_MAX < i
      then Inl (int_str i @ '' is outside the range of integers a JSON number can represent exactly'')
      else Inr (to_ustr (int_str i)))"
| "format_scalar (JFloat f) = rbind (format_number f) (\<lambda>s. Inr (to_ustr s))"
| "format_scalar (JStr s) = Inr (quote s)"
| "format_scalar v = Inl ''no JSON representation''"

definition too_deep :: string where
  "too_deep = ''nesting exceeds the maximum depth of 128''"

lemma rbind_cong [fundef_cong]: "r = r' \<Longrightarrow> (\<And>x. r' = Inr x \<Longrightarrow> f x = g x) \<Longrightarrow> rbind r f = rbind r' g"
  by (cases r') simp_all

lemma rmap_list_cong [fundef_cong]:
  "xs = ys \<Longrightarrow> (\<And>x. x \<in> set ys \<Longrightarrow> f x = g x) \<Longrightarrow> rmap_list f xs = rmap_list g ys"
proof (induction ys arbitrary: xs)
  case (Cons y ys)
  have "rmap_list f ys = rmap_list g ys" by (rule Cons.IH) (auto intro: Cons.prems(2))
  with Cons.prems show ?case by (auto split: sum.splits)
qed simp

lemma sorted_items_set: "sorted_items d = Inr items \<Longrightarrow> set items = set d"
  by (auto simp: sorted_items_def split: if_splits)

text \<open>\<^verbatim>\<open>_write\<close>: the recursion goes through the sorted items, which are those of the object.\<close>

function write_json :: "nat \<Rightarrow> json \<Rightarrow> string + ustr" where
  "write_json depth (JArr xs) =
     (if MAX_DEPTH < depth then Inl too_deep
      else rbind (rmap_list (write_json (depth + 1)) xs) (\<lambda>ss. Inr (91 # join_comma ss @ [93])))"
| "write_json depth (JObj d) =
     (if MAX_DEPTH < depth then Inl too_deep
      else rbind (sorted_items d) (\<lambda>items.
           rbind (rmap_list (\<lambda>e. rbind (write_json (depth + 1) (snd e)) (\<lambda>s. Inr (quote (fst e) @ 58 # s))) items)
             (\<lambda>ss. Inr (123 # join_comma ss @ [125]))))"
| "write_json depth JNull = (if MAX_DEPTH < depth then Inl too_deep else format_scalar JNull)"
| "write_json depth (JBool b) = (if MAX_DEPTH < depth then Inl too_deep else format_scalar (JBool b))"
| "write_json depth (JInt i) = (if MAX_DEPTH < depth then Inl too_deep else format_scalar (JInt i))"
| "write_json depth (JFloat f) = (if MAX_DEPTH < depth then Inl too_deep else format_scalar (JFloat f))"
| "write_json depth (JStr s) = (if MAX_DEPTH < depth then Inl too_deep else format_scalar (JStr s))"
  by pat_completeness auto

termination
proof (relation "measure (\<lambda>(n, v). size v)")
  fix depth :: nat and xs :: "json list" and x :: json
  assume "x \<in> set xs"
  then have "size x \<le> size_list size xs" by (rule size_list_estimation') simp
  then show "((depth + 1, x), depth, JArr xs) \<in> measure (\<lambda>(n, v). size v)" by simp
next
  fix depth :: nat and d items and e :: "ustr \<times> json"
  assume "sorted_items d = Inr items" "e \<in> set items"
  then have "e \<in> set d" by (simp add: sorted_items_set)
  then have "size (snd e) < size (JObj d)"
    by (induction d) auto
  then show "((depth + 1, snd e), depth, JObj d) \<in> measure (\<lambda>(n, v). size v)" by simp
qed simp

definition canonicalize :: "json \<Rightarrow> string + ustr" where
  "canonicalize v =
     rbind (write_json 0 v) (\<lambda>s.
       if utf8_encode s = None then Inl ''value contains text that is not valid Unicode'' else Inr s)"

end
