(* ===== verification/Jcs_Laws.thy ===== *)
theory Jcs_Laws
  imports Jcs
begin

text \<open>
  What canonical JSON promises: numbers are written as ECMAScript writes them (\<open>ecma_number\<close> is the
  standard's algorithm), and two values have the same canonical text exactly when they are the same
  value (\<open>same_json\<close>): equal up to the order of keys, numbers compared by their text.
\<close>

subsection \<open>Numbers\<close>

definition wf_float :: "nat list \<Rightarrow> int \<Rightarrow> bool" where
  "wf_float ds n \<longleftrightarrow> ds \<noteq> [] \<and> list_all (\<lambda>d. d < 10) ds \<and> hd ds \<noteq> 0 \<and> last ds \<noteq> 0 \<and> length ds \<le> 17"

text \<open>\<^verbatim>\<open>Number::toString\<close> of ECMA-262: \<open>k\<close> digits, the decimal point after the first \<open>n\<close>.\<close>

definition ecma_number :: "nat list \<Rightarrow> int \<Rightarrow> string" where
  "ecma_number ds n =
     (let s = digits_str ds; k = int (length ds);
          e = CHR ''e'' # (if n - 1 < 0 then CHR ''-'' else CHR ''+'') # nat_str (nat \<bar>n - 1\<bar>)
      in if k \<le> n \<and> n \<le> 21 then s @ zeros (nat (n - k))
         else if 0 < n \<and> n \<le> 21 then take (nat n) s @ CHR ''.'' # drop (nat n) s
         else if -6 < n \<and> n \<le> 0 then ''0.'' @ zeros (nat (- n)) @ s
         else if k = 1 then s @ e
         else take 1 s @ CHR ''.'' # drop 1 s @ e)"

lemma digit_char_inj: "d < 10 \<Longrightarrow> d' < 10 \<Longrightarrow> digit_char d = digit_char d' \<longleftrightarrow> d = d'"
proof -
  assume d: "d < 10" "d' < 10"
  have "list_all (\<lambda>x. list_all (\<lambda>y. (digit_char x = digit_char y) = (x = y)) [0..<10]) [0..<10]" by code_simp
  with d show ?thesis by (simp add: list_all_iff)
qed

lemma digit_char_class:
  assumes "d < 10"
  shows "digit_char d \<noteq> CHR ''e''" "digit_char d \<noteq> CHR ''.''" "digit_char d \<noteq> CHR ''-''"
    "digit_char d \<noteq> CHR ''+''" "char_digit (digit_char d) = d" "digit_char d = CHR ''0'' \<longleftrightarrow> d = 0"
proof -
  have "list_all (\<lambda>x. digit_char x \<noteq> CHR ''e'' \<and> digit_char x \<noteq> CHR ''.'' \<and> digit_char x \<noteq> CHR ''-'' \<and>
      digit_char x \<noteq> CHR ''+'' \<and> char_digit (digit_char x) = x \<and> (digit_char x = CHR ''0'') = (x = 0)) [0..<10]"
    by code_simp
  with assms show "digit_char d \<noteq> CHR ''e''" "digit_char d \<noteq> CHR ''.''" "digit_char d \<noteq> CHR ''-''"
    "digit_char d \<noteq> CHR ''+''" "char_digit (digit_char d) = d" "digit_char d = CHR ''0'' \<longleftrightarrow> d = 0"
    by (auto simp: list_all_iff)
qed

lemma digits_nat_snoc: "digits_nat (s @ [c]) = 10 * digits_nat s + char_digit c"
  by (simp add: digits_nat_def)

lemma digits_nat_str [simp]: "digits_nat (nat_str n) = n"
proof (induction n rule: nat_str.induct)
  case (1 n)
  show ?case
  proof (cases "n < 10")
    case True
    then show ?thesis by (simp add: nat_str.simps [of n] digits_nat_def digit_char_class)
  next
    case False
    then have "nat_str n = nat_str (n div 10) @ [digit_char (n mod 10)]" by (simp add: nat_str.simps [of n])
    with False 1 show ?thesis by (simp add: digits_nat_snoc digit_char_class)
  qed
qed

lemma nat_str_digits: "list_all (\<lambda>c. \<exists>d<10. c = digit_char d) (nat_str n)"
proof (induction n rule: nat_str.induct)
  case (1 n)
  show ?case
    by (cases "n < 10") (use 1 in \<open>auto simp: nat_str.simps [of n] intro: exI [of _ "n mod 10"]\<close>)
qed

lemma nat_str_not_Nil [simp]: "nat_str n \<noteq> []"
  by (simp add: nat_str.simps [of n])

lemma nat_str_hd: "10 \<le> n \<Longrightarrow> hd (nat_str n) \<noteq> CHR ''0''"
proof (induction n rule: nat_str.induct)
  case (1 n)
  then have s: "nat_str n = nat_str (n div 10) @ [digit_char (n mod 10)]" by (simp add: nat_str.simps [of n])
  show ?case
  proof (cases "10 \<le> n div 10")
    case True
    with 1 s show ?thesis by simp
  next
    case False
    then have "nat_str (n div 10) = [digit_char (n div 10)]" by (simp add: nat_str.simps [of "n div 10"])
    with s False "1.prems" show ?thesis by (simp add: digit_char_class)
  qed
qed

lemma nat_str_1: "n < 10 \<Longrightarrow> nat_str n = [digit_char n]"
  by (simp add: nat_str.simps [of n])

lemma index_char_None: "c \<notin> set s \<Longrightarrow> index_char c s = None"
  by (induction s) auto

lemma index_char_append: "c \<notin> set s \<Longrightarrow> index_char c (s @ c # t) = Some (length s)"
  by (induction s) auto

lemma digits_str_class:
  "list_all (\<lambda>d. d < 10) ds \<Longrightarrow> c \<in> {CHR ''e'', CHR ''.'', CHR ''-'', CHR ''+''} \<Longrightarrow> c \<notin> set (digits_str ds)"
  by (auto simp: digits_str_def list_all_iff dest: digit_char_class)

lemma zeros_class: "c \<noteq> CHR ''0'' \<Longrightarrow> c \<notin> set (zeros m)"
  by (simp add: zeros_def)

text \<open>The exponent is cut off and its padding removed.\<close>

lemma str_int_digit: "d < 10 \<Longrightarrow> str_int (digit_char d # s) = int (digits_nat (digit_char d # s))"
proof -
  assume d: "d < 10"
  have "str_int (c # s) = int (digits_nat (c # s))" if "c \<noteq> CHR ''-''" "c \<noteq> CHR ''+''" for c
    using that by (cases "c # s" rule: str_int.cases) auto
  with digit_char_class [OF d] show ?thesis by blast
qed

definition sign_char :: "int \<Rightarrow> char" where
  "sign_char e = (if e < 0 then CHR ''-'' else CHR ''+'')"

lemma sign_char_cases: "sign_char e = CHR ''-'' \<and> e < 0 \<or> sign_char e = CHR ''+'' \<and> 0 \<le> e"
  by (simp add: sign_char_def)

lemma exp_str_sign: "exp_str e = CHR ''e'' # sign_char e #
    (if nat \<bar>e\<bar> < 10 then CHR ''0'' # nat_str (nat \<bar>e\<bar>) else nat_str (nat \<bar>e\<bar>))"
  by (simp add: exp_str_def sign_char_def)

lemma str_int_sign: "str_int (sign_char e # nat_str (nat \<bar>e\<bar>)) = e"
  using sign_char_cases [of e] by auto

lemma exp_str_strip:
  "(if take 1 (drop 2 (exp_str e)) = ''0'' then take 2 (exp_str e) @ drop 3 (exp_str e) else exp_str e) =
     CHR ''e'' # sign_char e # nat_str (nat \<bar>e\<bar>)"
proof (cases "nat \<bar>e\<bar> < 10")
  case True
  then show ?thesis by (simp add: exp_str_sign)
next
  case False
  then have "hd (nat_str (nat \<bar>e\<bar>)) \<noteq> CHR ''0''" by (intro nat_str_hd) simp
  with False show ?thesis by (cases "nat_str (nat \<bar>e\<bar>)") (simp_all add: exp_str_sign)
qed

lemma cut_exponent_exp:
  assumes "CHR ''e'' \<notin> set m" "m \<noteq> []"
  shows "cut_exponent (m @ exp_str e) = (m, CHR ''e'' # sign_char e # nat_str (nat \<bar>e\<bar>), e)"
proof -
  have idx: "index_char (CHR ''e'') (m @ exp_str e) = Some (length m)"
    unfolding exp_str_def using assms(1) by (rule index_char_append)
  have es: "drop (length m) (m @ exp_str e) = exp_str e" "take (length m) (m @ exp_str e) = m" by simp_all
  show ?thesis
    unfolding cut_exponent_def idx option.case es exp_str_strip Let_def
    using assms(2) by (simp add: str_int_sign)
qed

lemma cut_exponent_none: "CHR ''e'' \<notin> set m \<Longrightarrow> cut_exponent m = (m, [], 0)"
  by (simp add: cut_exponent_def index_char_None)

lemma cut_point_some: "CHR ''.'' \<notin> set a \<Longrightarrow> a \<noteq> [] \<Longrightarrow> cut_point (a @ CHR ''.'' # b) = (a, ''.'', b)"
  by (simp add: cut_point_def index_char_append)

lemma cut_point_none: "CHR ''.'' \<notin> set a \<Longrightarrow> cut_point a = (a, [], [])"
  by (simp add: cut_point_def index_char_None)

lemma last_not_zero:
  assumes "wf_float ds n" "drop i (digits_str ds) \<noteq> []"
  shows "p @ drop i (digits_str ds) \<noteq> ''0''"
proof
  assume h: "p @ drop i (digits_str ds) = ''0''"
  have "last (p @ drop i (digits_str ds)) = digit_char (last ds)"
    using assms by (simp add: digits_str_def wf_float_def last_map drop_map last_drop)
  moreover have "last ds < 10" "last ds \<noteq> 0"
    using assms(1) by (auto simp: wf_float_def list_all_iff)
  ultimately show False using h digit_char_class(6) [of "last ds"] by simp
qed

theorem format_positive_ecma:
  assumes "wf_float ds n"
  shows "format_positive (py_float_str ds n) = ecma_number ds n"
proof -
  let ?s = "digits_str ds" and ?k = "length ds"
  have k: "ds \<noteq> []" "?k \<le> 17" and dig: "list_all (\<lambda>d. d < 10) ds" using assms by (auto simp: wf_float_def)
  have len [simp]: "length ?s = ?k" by (simp add: digits_str_def)
  have sne: "?s \<noteq> []" using k by (simp add: digits_str_def)
  note cls = digits_str_class [OF dig]
  have tcls: "c \<notin> set (take i ?s)" "c \<notin> set (drop i ?s)"
    if "c \<in> {CHR ''e'', CHR ''.'', CHR ''-'', CHR ''+''}" for c i
    using cls [OF that] by (auto dest: in_set_takeD in_set_dropD)
  consider (exp) "n \<le> -4 \<or> 16 < n" | (small) "-4 < n" "n \<le> 0" | (int) "0 < n" "n \<le> 16" "int ?k \<le> n"
    | (frac) "0 < n" "n \<le> 16" "n < int ?k" by linarith
  then show ?thesis
  proof cases
    case exp
    let ?e = "CHR ''e'' # sign_char (n - 1) # nat_str (nat \<bar>n - 1\<bar>)"
    obtain m f d where mfd: "py_float_str ds n = m @ exp_str (n - 1)" "CHR ''e'' \<notin> set m" "m \<noteq> []"
      "cut_point m = (f, d, drop 1 ?s)" "f = take 1 ?s" "m = f @ d @ drop 1 ?s"
    proof (cases "?k = 1")
      case True
      with exp cls sne show ?thesis
        by (intro that [of ?s ?s "[]"]) (simp_all add: py_float_str_def Let_def cut_point_none)
    next
      case False
      have "take 1 ?s \<noteq> []" using sne by simp
      with exp False tcls show ?thesis
        by (intro that [of "take 1 ?s @ CHR ''.'' # drop 1 ?s" "take 1 ?s" "''.''"])
          (simp_all add: py_float_str_def Let_def cut_point_some)
    qed
    have ce: "cut_exponent (py_float_str ds n) = (m, ?e, n - 1)"
      using cut_exponent_exp [OF mfd(2,3), of "n - 1"] mfd(1) by simp
    have nz: "drop 1 ?s \<noteq> ''0''"
      using last_not_zero [OF assms, of 1 "[]"] by (cases "drop 1 ?s = []") simp_all
    have join: "f @ drop 1 ?s = ?s" by (simp add: mfd(5))
    have fp: "format_positive (py_float_str ds n) =
        (if 0 < n - 1 \<and> n - 1 < 21 then ?s @ zeros (nat (n - 1 - int ?k + 1))
         else if -7 < n - 1 \<and> n - 1 < 0 then ''0.'' @ zeros (nat (- (n - 1) - 1)) @ ?s else f @ d @ drop 1 ?s @ ?e)"
      using nz join by (simp add: format_positive_def ce mfd(4) Let_def)
    have fd: "f @ d @ drop 1 ?s @ ?e = m @ ?e" by (simp add: mfd(6))
    have m: "m = (if ?k = 1 then ?s else take 1 ?s @ CHR ''.'' # drop 1 ?s)"
      using mfd(1) exp by (simp add: py_float_str_def Let_def split: if_splits)
    show ?thesis
      unfolding fp fd ecma_number_def Let_def m using exp k by (auto simp: sign_char_def)
  next
    case small
    have "?s \<noteq> ''0''" "zeros (nat (- n)) @ ?s \<noteq> ''0''"
      using last_not_zero [OF assms, of 0 "[]"] last_not_zero [OF assms, of 0 "zeros (nat (- n))"] sne by simp_all
    moreover have py: "py_float_str ds n = ''0.'' @ zeros (nat (- n)) @ ?s"
      using small by (simp add: py_float_str_def Let_def)
    moreover have "cut_exponent (py_float_str ds n) = (py_float_str ds n, [], 0)"
      by (rule cut_exponent_none) (use cls zeros_class in \<open>simp add: py\<close>)
    moreover have "cut_point (py_float_str ds n) = (''0'', ''.'', zeros (nat (- n)) @ ?s)"
      using cut_point_some [of "''0''" "zeros (nat (- n)) @ ?s"] by (simp add: py)
    moreover have "\<not> int ?k \<le> n" using small(2) k(1) by (cases ds) simp_all
    ultimately show ?thesis
      using small by (simp add: format_positive_def Let_def ecma_number_def)
  next
    case int
    have py: "py_float_str ds n = (?s @ zeros (nat n - ?k)) @ ''.0''"
      using int by (simp add: py_float_str_def Let_def)
    have "cut_exponent (py_float_str ds n) = (py_float_str ds n, [], 0)"
      by (rule cut_exponent_none) (use cls zeros_class in \<open>simp add: py\<close>)
    moreover have "cut_point (py_float_str ds n) = (?s @ zeros (nat n - ?k), ''.'', ''0'')"
      using cut_point_some [of "?s @ zeros (nat n - ?k)" "''0''"] cls zeros_class sne by (simp add: py)
    moreover have "nat n - ?k = nat (n - int ?k)" using int by linarith
    ultimately show ?thesis
      using int by (simp add: format_positive_def Let_def ecma_number_def)
  next
    case frac
    have py: "py_float_str ds n = take (nat n) ?s @ CHR ''.'' # drop (nat n) ?s"
      using frac by (simp add: py_float_str_def Let_def)
    have "cut_exponent (py_float_str ds n) = (py_float_str ds n, [], 0)"
      by (rule cut_exponent_none) (use tcls in \<open>simp add: py\<close>)
    moreover have "cut_point (py_float_str ds n) = (take (nat n) ?s, ''.'', drop (nat n) ?s)"
      using cut_point_some [of "take (nat n) ?s" "drop (nat n) ?s"] tcls sne frac by (simp add: py)
    moreover have "drop (nat n) ?s \<noteq> ''0''"
      using last_not_zero [OF assms, of "nat n" "[]"] frac by simp
    ultimately show ?thesis
      using frac by (simp add: format_positive_def Let_def ecma_number_def)
  qed
qed

end
