(* ===== verification/Wire_Examples.thy ===== *)
theory Wire_Examples
  imports Examples Client_Rpc Jcs_Laws
begin

text \<open>
  Concrete codecs, version libraries, cards and handlers for the properties of the protocol
  conversions, the endpoint and the client.
\<close>

subsection \<open>Parameters\<close>

definition ex_time :: timestamp where
  "ex_time = \<lparr>ts_seconds = 1714557600, ts_nanos = 0\<rparr>"

definition ex_json :: json_codec where
  "ex_json = \<lparr>jk_value_dict = Inr, jk_dict_value = Inr,
     jk_time_text = (\<lambda>t. if t = ex_time then Inr ''2024-05-01T10:00:00Z'' else Inl (ValueError ''year'')),
     jk_text_time = (\<lambda>s. if s = ''2024-05-01T10:00:00Z'' then Inr ex_time else Inl (ValueError s))\<rparr>"

lemma rmap_list_map_Inr: "rmap_list (\<lambda>x. Inr (f x)) xs = Inr (map f xs)"
  by (induction xs) simp_all

lemma ex_json_ok [simp]: "json_codec_ok ex_json"
proof -
  have "entry_conv Inr = (\<lambda>e. Inr e)" by (simp add: fun_eq_iff entry_conv_def)
  then have "struct_to_dict ex_json s = Inr s" for s
    using rmap_list_map_Inr [of "\<lambda>x. x" s] by (simp add: struct_to_dict_def ex_json_def)
  moreover have "jk_text_time ex_json x = Inr t \<and> x \<noteq> [] \<and> utc_suffix x = x"
    if "jk_time_text ex_json t = Inr x" for t x
  proof -
    have "t = ex_time" "x = ''2024-05-01T10:00:00Z''"
      using that by (auto simp: ex_json_def split: if_splits)
    moreover have "utc_suffix ''2024-05-01T10:00:00Z'' = ''2024-05-01T10:00:00Z''" by code_simp
    ultimately show ?thesis by (simp only:) (simp add: ex_json_def)
  qed
  ultimately show ?thesis
    unfolding json_codec_ok_def by (auto simp: ex_json_def)
qed

text \<open>Versions of one digit, a point and one digit.\<close>

definition ex_versions :: "(nat \<times> nat) version_lib" where
  "ex_versions = \<lparr>
     vl_parse = (\<lambda>s. if length s = 3 \<and> s ! 1 = CHR ''.'' then Some (char_digit (s ! 0), char_digit (s ! 2)) else None),
     vl_le = (\<lambda>(a, b) (c, d). a < c \<or> a = c \<and> b \<le> d),
     vl_major = fst\<rparr>"

lemma ex_versions_parse:
  "vl_parse ex_versions ''0.3'' = Some (0, 3)" "vl_parse ex_versions ''1.0'' = Some (1, 0)"
  by code_simp+

lemma ex_versions_ok [simp]: "version_lib_ok ex_versions"
  by (auto simp: version_lib_ok_def ex_versions_parse) (auto simp: ex_versions_def)

subsection \<open>Data\<close>

definition ex_note :: message where
  "ex_note = (ex_message ''m7'' ''working on it'')\<lparr>message_role := ROLE_AGENT,
     message_metadata := Some [(to_ustr ''lang'', JStr (to_ustr ''en''))]\<rparr>"

definition ex_event :: event where
  "ex_event = TaskEv (StatusUpdate \<lparr>se_task_id = ''t1'', se_context_id = ''c1'',
     se_status = Some \<lparr>status_state = TASK_STATE_WORKING, status_message = Some ex_note,
       status_timestamp = Some ex_time\<rparr>,
     se_metadata = None\<rparr>)"

definition ex_interface :: "string \<Rightarrow> string \<Rightarrow> agent_interface" where
  "ex_interface u v = \<lparr>ai_url = u, ai_protocol_binding = ''JSONRPC'', ai_tenant = [], ai_protocol_version = v\<rparr>"

definition ex_card :: agent_card where
  "ex_card = \<lparr>card_name = ''echo'', card_description = ''says it again'',
     card_supported_interfaces = [ex_interface ''http://old'' ''0.3'', ex_interface ''http://new'' ''1.0''],
     card_provider = None, card_version = ''7'', card_documentation_url = None,
     card_capabilities = Some \<lparr>cap_streaming = Some True, cap_push_notifications = None,
       cap_extensions = [], cap_extended_agent_card = None\<rparr>,
     card_security_schemes = [], card_security_requirements = [],
     card_default_input_modes = [''text/plain''], card_default_output_modes = [''text/plain''],
     card_skills = [], card_signatures = [], card_icon_url = None\<rparr>"

definition ex_send :: send_message_request where
  "ex_send = \<lparr>smr_tenant = [], smr_message = Some (ex_message ''m1'' ''hello''), smr_configuration = None,
     smr_metadata = None\<rparr>"

subsection \<open>A handler whose agent answers every message with two events\<close>

definition refused :: "('a, nat) call" where
  "refused s = (s, Inl (A2A (err UnsupportedOperationError)))"

definition ex_rh :: "nat request_handler" where
  "ex_rh = \<lparr>
     rh_get_task = (\<lambda>r c n. (n, Inr (if gt_id r = ''t1'' then Some ex_task else None))),
     rh_list_tasks = (\<lambda>r c. refused), rh_cancel_task = (\<lambda>r c. refused),
     rh_message_send = (\<lambda>r c n. (n + 1, Inr (MessageResponse ex_note))),
     rh_message_send_stream = (\<lambda>r c n. (n + 1, [Some ex_event, Some (MessageEv ex_note)], None)),
     rh_create_push_config = (\<lambda>r c. refused), rh_get_push_config = (\<lambda>r c. refused),
     rh_subscribe = (\<lambda>r c n. (n, [], Some (A2A (err TaskNotFoundError)))),
     rh_list_push_configs = (\<lambda>r c. refused), rh_delete_push_config = (\<lambda>r c. refused),
     rh_get_extended_agent_card = (\<lambda>c n. (n, Inr ex_card))\<rparr>"

subsection \<open>JSON of the messages used in the examples\<close>

definition ex_rpc :: rpc_codec where
  "ex_rpc = \<lparr>
     rk_from_data = (\<lambda>j. Inr (Some \<lparr>br_method = (case json_get j ''method'' of Some (JStr m) \<Rightarrow> Some (map char_of m) | _ \<Rightarrow> None),
       br_id = json_get j ''id''\<rparr>)),
     rk_parse = (\<lambda>m j. case j of JStr i \<Rightarrow>
         Inr (GetReq \<lparr>gt_tenant = [], gt_id = map char_of i, gt_history_length = None\<rparr>)
       | _ \<Rightarrow> Inl (ValueError ''ParseError'')),
     rk_print = (\<lambda>m. Inr (case m of StreamMsg (StreamEvent (MessageEv x)) \<Rightarrow> JInt 2 | TaskMsg t \<Rightarrow> JInt 3 | _ \<Rightarrow> JInt 1))\<rparr>"

definition ex_wire :: wire where
  "ex_wire = \<lparr>
     wr_text = (\<lambda>r. case r of ResultReply i (JInt n) \<Rightarrow> ''r'' @ int_str n | _ \<Rightarrow> ''e''),
     wr_reply = (\<lambda>s. if hd s = CHR ''r'' then Some (ResultReply (Some (JInt 9)) (JInt (str_int (tl s)))) else
       Some (ErrorReply (Some (JInt 9)) (JE_INTERNAL ''boom''))),
     wr_response = (\<lambda>j. if j = JInt 2 then Some (StreamEvent (MessageEv ex_note)) else Some (StreamEvent ex_event)),
     wr_error_text = (\<lambda>j. je_message j)\<rparr>"

subsection \<open>A client without preferences\<close>

definition ex_client :: client_config where
  "ex_client = \<lparr>cl_streaming = True, cl_polling = False, cl_supported_protocol_bindings = [],
     cl_use_client_preference = False, cl_accepted_output_modes = [], cl_push_notification_config = None\<rparr>"

end
