(* ===== verification/Legacy_Queue.thy ===== *)
theory Legacy_Queue
  imports Event_Queue A2A_Prelude
begin

text \<open>
  The queues of the older handler: \<^verbatim>\<open>EventQueueLegacy\<close> (\<^verbatim>\<open>server/events/event_queue.py\<close>) and
  \<^verbatim>\<open>InMemoryQueueManager\<close> (\<^verbatim>\<open>server/events/in_memory_queue_manager.py\<close>). A queue with its taps, and
  theirs, is a tree: \<^verbatim>\<open>tap\<close> adds a child, none is ever removed. A queue object is the number of
  its root and the path from there. The locks guard stretches without an await.
\<close>

subsection \<open>A queue and its taps\<close>

datatype 'e lqueue = LQueue (lq_queue: "'e aqueue") (lq_children: "'e lqueue list") (lq_is_closed: bool)

definition DEFAULT_MAX_QUEUE_SIZE :: nat where
  "DEFAULT_MAX_QUEUE_SIZE = 1024"

definition lq_init :: "int \<Rightarrow> exn + 'e lqueue" where
  "lq_init max_queue_size =
     (if max_queue_size \<le> 0 then Inl (ValueError ''max_queue_size must be greater than 0'')
      else Inr (LQueue (create_async_queue (nat max_queue_size)) [] False))"

definition lq_new :: "'e lqueue" where
  "lq_new = LQueue (create_async_queue DEFAULT_MAX_QUEUE_SIZE) [] False"

text \<open>\<^verbatim>\<open>enqueue_event\<close>, and whether it waits for room: what it did before stays done.\<close>

fun lq_enqueue_event :: "'e \<Rightarrow> 'e lqueue \<Rightarrow> 'e lqueue \<times> bool"
and lq_enqueue_children :: "'e \<Rightarrow> 'e lqueue list \<Rightarrow> 'e lqueue list \<times> bool" where
  "lq_enqueue_event e (LQueue q cs closed) =
     (if closed then (LQueue q cs closed, False)
      else (case q_put e q of
              None \<Rightarrow> (LQueue q cs closed, True)
            | Some (Inl x) \<Rightarrow> (LQueue q cs closed, False)
            | Some (Inr q') \<Rightarrow> (let (cs', waits) = lq_enqueue_children e cs in (LQueue q' cs' closed, waits))))"
| "lq_enqueue_children e [] = ([], False)"
| "lq_enqueue_children e (c # cs) =
     (let (c', waits) = lq_enqueue_event e c
      in if waits then (c' # cs, True)
         else (let (cs', waits') = lq_enqueue_children e cs in (c' # cs', waits')))"

definition lq_dequeue_event :: "'e lqueue \<Rightarrow> (exn + 'e lqueue \<times> 'e) option" where
  "lq_dequeue_event l =
     (if lq_is_closed l \<and> q_items (lq_queue l) = [] then Some (Inl QueueShutDown)
      else (case q_get (lq_queue l) of
              None \<Rightarrow> None
            | Some (Inl x) \<Rightarrow> Some (Inl x)
            | Some (Inr (q, e)) \<Rightarrow> Some (Inr (LQueue q (lq_children l) (lq_is_closed l), e))))"

definition lq_task_done :: "'e lqueue \<Rightarrow> exn + 'e lqueue" where
  "lq_task_done l =
     rbind (q_task_done (lq_queue l)) (\<lambda>q. Inr (LQueue q (lq_children l) (lq_is_closed l)))"

text \<open>\<^verbatim>\<open>tap\<close>: the new queue is the last child.\<close>

definition lq_tap :: "'e lqueue \<Rightarrow> 'e lqueue \<times> nat" where
  "lq_tap l = (LQueue (lq_queue l) (lq_children l @ [lq_new]) (lq_is_closed l), length (lq_children l))"

text \<open>\<^verbatim>\<open>close\<close>, up to the wait of a graceful close (\<open>lq_joined\<close>).\<close>

primrec lq_close :: "bool \<Rightarrow> 'e lqueue \<Rightarrow> 'e lqueue" where
  "lq_close immediate (LQueue q cs closed) =
     (if closed \<and> \<not> immediate then LQueue q cs closed
      else LQueue (q_shutdown immediate q) (map (lq_close immediate) cs) True)"

definition lq_joined :: "'e lqueue \<Rightarrow> bool" where
  "lq_joined l \<longleftrightarrow> q_unfinished (lq_queue l) = 0"

subsection \<open>Objects\<close>

type_synonym queue_ref = "nat \<times> nat list"

fun lq_at :: "nat list \<Rightarrow> 'e lqueue \<Rightarrow> 'e lqueue option" where
  "lq_at [] l = Some l"
| "lq_at (i # p) l = (if i < length (lq_children l) then lq_at p (lq_children l ! i) else None)"

fun lq_update :: "nat list \<Rightarrow> ('e lqueue \<Rightarrow> 'e lqueue) \<Rightarrow> 'e lqueue \<Rightarrow> 'e lqueue" where
  "lq_update [] f l = f l"
| "lq_update (i # p) f l =
     (if i < length (lq_children l)
      then LQueue (lq_queue l) ((lq_children l)[i := lq_update p f (lq_children l ! i)]) (lq_is_closed l) else l)"

subsection \<open>The manager\<close>

text \<open>\<open>NoTaskQueue\<close> and \<open>TaskQueueExists\<close> are the manager's exceptions.\<close>

datatype queue_exn = NoTaskQueue | TaskQueueExists

record 'e queue_manager =
  qm_roots :: "'e lqueue list"
  qm_task_queue :: "(string, queue_ref) dict"

definition qm_init :: "'e queue_manager" where
  "qm_init = \<lparr>qm_roots = [], qm_task_queue = []\<rparr>"

definition qm_object :: "queue_ref \<Rightarrow> 'e queue_manager \<Rightarrow> 'e lqueue option" where
  "qm_object r m = (if fst r < length (qm_roots m) then lq_at (snd r) (qm_roots m ! fst r) else None)"

definition qm_on :: "queue_ref \<Rightarrow> ('e lqueue \<Rightarrow> 'e lqueue) \<Rightarrow> 'e queue_manager \<Rightarrow> 'e queue_manager" where
  "qm_on r f m = m\<lparr>qm_roots := (qm_roots m)[fst r := lq_update (snd r) f (qm_roots m ! fst r)]\<rparr>"

definition qm_add :: "string \<Rightarrow> queue_ref \<Rightarrow> 'e queue_manager \<Rightarrow> queue_exn + 'e queue_manager" where
  "qm_add tid r m =
     (if map_of (qm_task_queue m) tid \<noteq> None then Inl TaskQueueExists
      else Inr (m\<lparr>qm_task_queue := AList.update tid r (qm_task_queue m)\<rparr>))"

definition qm_get :: "string \<Rightarrow> 'e queue_manager \<Rightarrow> queue_ref option" where
  "qm_get tid m = map_of (qm_task_queue m) tid"

definition qm_tap_object :: "queue_ref \<Rightarrow> 'e queue_manager \<Rightarrow> 'e queue_manager \<times> queue_ref" where
  "qm_tap_object r m =
     (case qm_object r m of
        None \<Rightarrow> (m, r)
      | Some l \<Rightarrow> (qm_on r (\<lambda>l. fst (lq_tap l)) m, (fst r, snd r @ [snd (lq_tap l)])))"

definition qm_tap :: "string \<Rightarrow> 'e queue_manager \<Rightarrow> 'e queue_manager \<times> queue_ref option" where
  "qm_tap tid m =
     (case qm_get tid m of
        None \<Rightarrow> (m, None)
      | Some r \<Rightarrow> (let (m', r') = qm_tap_object r m in (m', Some r')))"

definition qm_close :: "string \<Rightarrow> 'e queue_manager \<Rightarrow> 'e queue_manager \<times> queue_exn option" where
  "qm_close tid m =
     (case qm_get tid m of
        None \<Rightarrow> (m, Some NoTaskQueue)
      | Some r \<Rightarrow> (qm_on r (lq_close False) (m\<lparr>qm_task_queue := AList.delete tid (qm_task_queue m)\<rparr>), None))"

definition qm_create_or_tap :: "string \<Rightarrow> 'e queue_manager \<Rightarrow> 'e queue_manager \<times> queue_ref" where
  "qm_create_or_tap tid m =
     (case qm_get tid m of
        None \<Rightarrow>
          (let r = (length (qm_roots m), [])
           in (m\<lparr>qm_roots := qm_roots m @ [lq_new], qm_task_queue := AList.update tid r (qm_task_queue m)\<rparr>, r))
      | Some r \<Rightarrow> qm_tap_object r m)"

definition qm_enqueue :: "queue_ref \<Rightarrow> 'e \<Rightarrow> 'e queue_manager \<Rightarrow> 'e queue_manager \<times> bool" where
  "qm_enqueue r e m =
     (case qm_object r m of
        None \<Rightarrow> (m, False)
      | Some l \<Rightarrow> (qm_on r (\<lambda>l. fst (lq_enqueue_event e l)) m, snd (lq_enqueue_event e l)))"

subsection \<open>Laws of the queues\<close>

text \<open>The objects on a path are open, the last one included.\<close>

fun lq_open :: "nat list \<Rightarrow> 'e lqueue \<Rightarrow> bool" where
  "lq_open [] l \<longleftrightarrow> \<not> lq_is_closed l \<and> \<not> q_shut (lq_queue l)"
| "lq_open (i # p) l \<longleftrightarrow> \<not> lq_is_closed l \<and> \<not> q_shut (lq_queue l) \<and> lq_open p (lq_children l ! i)"

lemma lq_open_root: "lq_open p l \<Longrightarrow> \<not> lq_is_closed l \<and> \<not> q_shut (lq_queue l)"
  by (cases p) simp_all

lemma lq_enqueue_length [simp]: "length (fst (lq_enqueue_children e cs)) = length cs"
  by (induction cs) (auto split: prod.splits)

lemma lq_enqueue_nth:
  "\<not> snd (lq_enqueue_children e cs) \<Longrightarrow> i < length cs \<Longrightarrow>
   fst (lq_enqueue_children e cs) ! i = fst (lq_enqueue_event e (cs ! i)) \<and> \<not> snd (lq_enqueue_event e (cs ! i))"
  by (induction cs arbitrary: i) (auto simp: nth_Cons split: prod.splits if_splits nat.splits)

text \<open>When nothing waits, every object that is reached through open ones gets the event.\<close>

lemma enqueue_delivers:
  assumes "\<not> snd (lq_enqueue_event e l)" "lq_at p l = Some x" "lq_open p l"
  shows "\<exists>x'. lq_at p (fst (lq_enqueue_event e l)) = Some x' \<and>
    q_items (lq_queue x') = q_items (lq_queue x) @ [e] \<and> lq_is_closed x' = lq_is_closed x"
  using assms
proof (induction p arbitrary: l)
  case Nil
  then show ?case
    by (cases l) (auto simp: q_put_def q_full_def split: if_splits prod.splits)
next
  case (Cons i p)
  obtain q cs closed where l: "l = LQueue q cs closed" by (cases l)
  with Cons.prems have i: "i < length cs" and at: "lq_at p (cs ! i) = Some x" and op: "lq_open p (cs ! i)"
    and ok: "\<not> closed" "\<not> q_shut q"
    by (auto split: if_splits)
  from Cons.prems(1) l ok obtain q' where q': "q_put e q = Some (Inr q')" "\<not> snd (lq_enqueue_children e cs)"
    by (auto simp: q_put_def split: if_splits prod.splits)
  from lq_enqueue_nth [OF q'(2) i] have child: "\<not> snd (lq_enqueue_event e (cs ! i))"
    "fst (lq_enqueue_children e cs) ! i = fst (lq_enqueue_event e (cs ! i))" by simp_all
  from Cons.IH [OF child(1) at op] i child(2) l q' ok show ?case
    by (auto split: prod.splits) (metis fst_conv lq_enqueue_length)+
qed

text \<open>An immediate close reaches every tap and drops what waits there.\<close>

lemma lq_close_at: "lq_at p (lq_close True l) = map_option (lq_close True) (lq_at p l)"
proof (induction p arbitrary: l)
  case (Cons i p)
  then show ?case by (cases l) simp
qed simp

lemma lq_close_now: "q_items (lq_queue (lq_close True l)) = []" "lq_is_closed (lq_close True l)"
    "lq_dequeue_event (lq_close True l) = Some (Inl QueueShutDown)"
  by (cases l; simp add: q_shutdown_def lq_dequeue_event_def)+

text \<open>
  The consumer that takes a final event closes its queue at once. A tap that has the event still
  waiting never delivers it.
\<close>

lemma tap_loses_pending:
  assumes "lq_at p l = Some x"
  shows "\<exists>x'. lq_at p (lq_close True l) = Some x' \<and> lq_dequeue_event x' = Some (Inl QueueShutDown)"
  using assms lq_close_now(3) by (auto simp: lq_close_at)

text \<open>A graceful close keeps what waits, and nothing is added any more.\<close>

lemma lq_close_graceful:
  "q_items (lq_queue (lq_close False l)) = q_items (lq_queue l)" "lq_is_closed (lq_close False l)"
  by (cases l; simp add: q_shutdown_def)+

lemma lq_closed_refuses: "lq_is_closed l \<Longrightarrow> lq_enqueue_event e l = (l, False)"
  by (cases l) simp

subsection \<open>The interface of a queue manager\<close>

locale queue_manager =
  fixes get_queue :: "string \<Rightarrow> 's \<Rightarrow> 'q option"
    and create_or_tap :: "string \<Rightarrow> 's \<Rightarrow> 's \<times> 'q"
    and close_queue :: "string \<Rightarrow> 's \<Rightarrow> 's \<times> queue_exn option"
  assumes get_create: "get_queue t (fst (create_or_tap t s)) \<noteq> None"
    and get_create_known: "get_queue t s = Some q \<Longrightarrow> get_queue t (fst (create_or_tap t s)) = Some q"
    and get_create_other: "u \<noteq> t \<Longrightarrow> get_queue u (fst (create_or_tap t s)) = get_queue u s"
    and close_known: "get_queue t s \<noteq> None \<Longrightarrow> snd (close_queue t s) = None"
    and close_unknown: "get_queue t s = None \<Longrightarrow> close_queue t s = (s, Some NoTaskQueue)"
    and get_close: "get_queue t (fst (close_queue t s)) = None"
    and get_close_other: "u \<noteq> t \<Longrightarrow> get_queue u (fst (close_queue t s)) = get_queue u s"
begin

text \<open>Of two users of one queue, the second to close it fails.\<close>

lemma second_close_fails:
  assumes "create_or_tap t s = (s1, q1)" "create_or_tap t s1 = (s2, q2)" "close_queue t s2 = (s3, x)"
  shows "x = None \<and> close_queue t s3 = (s3, Some NoTaskQueue)"
proof -
  have "get_queue t s2 \<noteq> None" using get_create [of t s1] assms(2) by simp
  with close_known [of t s2] get_close [of t s2] close_unknown [of t s3] assms(3) show ?thesis by simp
qed

lemma close_leaves_others:
  assumes "create_or_tap t s = (s1, q)" "close_queue t s1 = (s2, x)" "u \<noteq> t"
  shows "get_queue u s2 = get_queue u s"
  using get_create_other [OF assms(3), of s] get_close_other [OF assms(3), of s1] assms by simp

end

lemma qm_on_task_queue [simp]: "qm_task_queue (qm_on r f m) = qm_task_queue m"
  by (simp add: qm_on_def)

lemma qm_tap_object_task_queue [simp]: "qm_task_queue (fst (qm_tap_object r m)) = qm_task_queue m"
  by (simp add: qm_tap_object_def split: option.split)

interpretation imq: queue_manager qm_get qm_create_or_tap qm_close
  by unfold_locales
    (auto simp: qm_get_def qm_create_or_tap_def qm_close_def Let_def split: option.splits)

end
