(* ===== verification/Legacy_Handler.thy ===== *)
theory Legacy_Handler
  imports Handlers Legacy_Queue
begin

text \<open>
  The older request handler, \<^verbatim>\<open>LegacyRequestHandler\<close>
  (\<^verbatim>\<open>server/request_handlers/default_request_handler.py\<close>), with its \<^verbatim>\<open>EventConsumer\<close>
  (\<^verbatim>\<open>server/events/event_consumer.py\<close>) and \<^verbatim>\<open>ResultAggregator\<close> (\<^verbatim>\<open>server/tasks/result_aggregator.py\<close>).

  \<^item> What an iteration of the consumer's loop meets is an \<open>observation\<close>; the list of them is the
    argument of the consumer. A stream is the events it yields and how it ends.
  \<^item> \<open>producer_end\<close> is the exception of the coroutine that runs the agent, if it raised one.
  \<^item> \<open>Waits\<close> says that the operation has not returned yet.
\<close>

subsection \<open>The consumer\<close>

datatype observation = Got event | AgentFailed exn | ShutDown | TimedOut

datatype stream_end = Ended | StreamRaised exn | Polling

definition FINAL_EVENT_STATES :: "task_state set" where
  "FINAL_EVENT_STATES = {TASK_STATE_COMPLETED, TASK_STATE_CANCELED, TASK_STATE_FAILED, TASK_STATE_REJECTED,
     TASK_STATE_UNSPECIFIED, TASK_STATE_INPUT_REQUIRED}"

fun is_final_event :: "event \<Rightarrow> bool" where
  "is_final_event (MessageEv m) = True"
| "is_final_event (TaskEv (TaskObj t)) = (task_state_of t \<in> FINAL_EVENT_STATES)"
| "is_final_event (TaskEv (StatusUpdate e)) = (status_state (se_status_of e) \<in> FINAL_EVENT_STATES)"
| "is_final_event (TaskEv (ArtifactUpdate e)) = False"

fun consume_all :: "observation list \<Rightarrow> event list \<times> stream_end" where
  "consume_all [] = ([], Polling)"
| "consume_all (TimedOut # os) = consume_all os"
| "consume_all (AgentFailed e # os) = ([], StreamRaised e)"
| "consume_all (ShutDown # os) = ([], Ended)"
| "consume_all (Got ev # os) =
     (if is_final_event ev then ([ev], Ended)
      else (let (evs, r) = consume_all os in (ev # evs, r)))"

subsection \<open>The aggregator\<close>

datatype 'r outcome = Returned 'r | Raised exn | Waits

definition task_result :: "'s store_ops \<Rightarrow> 's task_manager \<Rightarrow> 's task_manager \<times> event option" where
  "task_result ops tm = (let (tm', t) = tm_get_task ops tm in (tm', map_option (\<lambda>t. TaskEv (TaskObj t)) t))"

definition end_outcome :: "stream_end \<Rightarrow> 'r \<Rightarrow> 'r outcome" where
  "end_outcome r x = (case r of Ended \<Rightarrow> Returned x | StreamRaised e \<Rightarrow> Raised e | Polling \<Rightarrow> Waits)"

fun ra_consume_all ::
  "'s store_ops \<Rightarrow> event list \<Rightarrow> stream_end \<Rightarrow> 's task_manager \<Rightarrow> 's task_manager \<times> event option outcome" where
  "ra_consume_all ops [] r tm = (let (tm', x) = task_result ops tm in
     (if r = Ended then tm' else tm, end_outcome r x))"
| "ra_consume_all ops (MessageEv m # evs) r tm = (tm, Returned (Some (MessageEv m)))"
| "ra_consume_all ops (TaskEv te # evs) r tm =
     (case tm_process ops (TaskEv te) tm of
        (tm', Inl e) \<Rightarrow> (tm', Raised e)
      | (tm', Inr _) \<Rightarrow> ra_consume_all ops evs r tm')"

text \<open>\<^verbatim>\<open>consume_and_emit\<close>: the events emitted, up to an exception.\<close>

fun ra_consume_and_emit ::
  "'s store_ops \<Rightarrow> event list \<Rightarrow> stream_end \<Rightarrow> 's task_manager \<Rightarrow> 's task_manager \<times> event list \<times> unit outcome" where
  "ra_consume_and_emit ops [] r tm = (tm, [], end_outcome r ())"
| "ra_consume_and_emit ops (ev # evs) r tm =
     (case tm_process ops ev tm of
        (tm', Inl e) \<Rightarrow> (tm', [], Raised e)
      | (tm', Inr _) \<Rightarrow> (let (tm'', out, x) = ra_consume_and_emit ops evs r tm' in (tm'', ev # out, x)))"

text \<open>
  \<^verbatim>\<open>consume_and_break_on_interrupt\<close>: the result, the events given to the callback, and, when it was
  interrupted, the rest of the stream that a background task goes on with.
\<close>

fun is_auth_required :: "event \<Rightarrow> bool" where
  "is_auth_required (TaskEv (TaskObj t)) = (task_state_of t = TASK_STATE_AUTH_REQUIRED)"
| "is_auth_required (TaskEv (StatusUpdate e)) = (status_state (se_status_of e) = TASK_STATE_AUTH_REQUIRED)"
| "is_auth_required _ = False"

fun ra_consume_and_break ::
  "'s store_ops \<Rightarrow> bool \<Rightarrow> event list \<Rightarrow> stream_end \<Rightarrow> 's task_manager \<Rightarrow>
   's task_manager \<times> event list \<times> (event option \<times> event list option) outcome" where
  "ra_consume_and_break ops blocking [] r tm =
     (let (tm', x) = task_result ops tm in (if r = Ended then tm' else tm, [], end_outcome r (x, None)))"
| "ra_consume_and_break ops blocking (MessageEv m # evs) r tm = (tm, [], Returned (Some (MessageEv m), None))"
| "ra_consume_and_break ops blocking (TaskEv te # evs) r tm =
     (case tm_process ops (TaskEv te) tm of
        (tm', Inl e) \<Rightarrow> (tm', [], Raised e)
      | (tm', Inr _) \<Rightarrow>
          if is_auth_required (TaskEv te) \<or> \<not> blocking
          then (let (tm'', x) = task_result ops tm' in (tm'', [TaskEv te], Returned (x, Some evs)))
          else (let (tm'', sent, x) = ra_consume_and_break ops blocking evs r tm' in (tm'', TaskEv te # sent, x)))"

fun ra_continue_consuming ::
  "'s store_ops \<Rightarrow> event list \<Rightarrow> stream_end \<Rightarrow> 's task_manager \<Rightarrow> 's task_manager \<times> event list \<times> unit outcome" where
  "ra_continue_consuming ops [] r tm = (tm, [], end_outcome r ())"
| "ra_continue_consuming ops (ev # evs) r tm =
     (case tm_process ops ev tm of
        (tm', Inl e) \<Rightarrow> (tm', [], Raised e)
      | (tm', Inr _) \<Rightarrow> (let (tm'', sent, x) = ra_continue_consuming ops evs r tm' in (tm'', ev # sent, x)))"

subsection \<open>The handler\<close>

text \<open>The number that an f-string shows for a state.\<close>

fun state_number :: "task_state \<Rightarrow> string" where
  "state_number TASK_STATE_UNSPECIFIED = ''0''"
| "state_number TASK_STATE_SUBMITTED = ''1''"
| "state_number TASK_STATE_WORKING = ''2''"
| "state_number TASK_STATE_COMPLETED = ''3''"
| "state_number TASK_STATE_FAILED = ''4''"
| "state_number TASK_STATE_CANCELED = ''5''"
| "state_number TASK_STATE_INPUT_REQUIRED = ''6''"
| "state_number TASK_STATE_REJECTED = ''7''"
| "state_number TASK_STATE_AUTH_REQUIRED = ''8''"

definition terminal_text :: "task \<Rightarrow> string" where
  "terminal_text t = ''Task '' @ task_id t @ '' is in terminal state: '' @ state_number (task_state_of t)"

definition not_cancelable :: "task_state \<Rightarrow> exn" where
  "not_cancelable st = A2A (err_msg TaskNotCancelableError
     (''Task cannot be canceled - current state: '' @ state_number st))"

text \<open>The queue manager and the running agents; a producer is the number of its start.\<close>

record legacy_state =
  lg_queues :: "event queue_manager"
  lg_running_agents :: "(string, nat) dict"
  lg_producers :: nat

definition lg_init :: legacy_state where
  "lg_init = \<lparr>lg_queues = qm_init, lg_running_agents = [], lg_producers = 0\<rparr>"

definition register_producer :: "string \<Rightarrow> legacy_state \<Rightarrow> legacy_state" where
  "register_producer tid lg = lg\<lparr>lg_running_agents := AList.update tid (lg_producers lg) (lg_running_agents lg),
     lg_producers := lg_producers lg + 1\<rparr>"

definition setup_message_execution ::
  "('s, 'p) handler \<Rightarrow> (string option \<Rightarrow> string) \<Rightarrow> (string option \<Rightarrow> string) \<Rightarrow> send_message_request \<Rightarrow>
   call_context \<Rightarrow> 's \<Rightarrow> 'p \<Rightarrow> legacy_state \<Rightarrow>
   exn + 'p \<times> legacy_state \<times> 's task_manager \<times> string \<times> queue_ref \<times> request_context" where
  "setup_message_execution h gen_task gen_context params c s p lg =
     (let m = params_message params in
      rbind (tm_init s c (or_none (message_task_id m)) (or_none (message_context_id m)) (Some m)) (\<lambda>tm0.
      (let (tm1, found) = tm_get_task (h_store_ops h) tm0 in
      rbind (case found of
               Some t \<Rightarrow>
                 if task_state_of t \<in> TERMINAL_TASK_STATES then Inl (A2A (err_msg InvalidParamsError (terminal_text t)))
                 else (let (tm2, t') = tm_update_with_message m t tm1 in Inr (tm2, Some t'))
             | None \<Rightarrow>
                 if message_task_id m \<noteq> [] 
                 then Inl (A2A (err_msg TaskNotFoundError
                   (''Task '' @ message_task_id m @ '' was specified but does not exist''))) else Inr (tm1, None)) (\<lambda>(tm, t).
      rbind (rcb_build (Some (h_store_ops h)) s False gen_task gen_context c (Some params)
               (map_option task_id t) (Some (message_context_id m)) t) (\<lambda>rc.
      (let tid = or_empty (rc_task_id rc) in
      rbind (register_push_config h tid (smr_config params) c p) (\<lambda>p'.
      (let (qm, q) = qm_create_or_tap tid (lg_queues lg)
       in Inr (p', register_producer tid (lg\<lparr>lg_queues := qm\<rparr>), tm, tid, q, rc)))))))))"

text \<open>\<^verbatim>\<open>_cleanup_producer\<close>: what waiting for the producer raises ends it before the queue is closed.\<close>

datatype legacy_exn = LegacyExn exn | QueueExn queue_exn

definition cleanup_producer :: "exn option \<Rightarrow> string \<Rightarrow> legacy_state \<Rightarrow> legacy_state \<times> legacy_exn option" where
  "cleanup_producer producer_end tid lg =
     (case producer_end of
        Some e \<Rightarrow> (lg, Some (LegacyExn e))
      | None \<Rightarrow>
          (case qm_close tid (lg_queues lg) of
             (qm, Some x) \<Rightarrow> (lg\<lparr>lg_queues := qm\<rparr>, Some (QueueExn x))
           | (qm, None) \<Rightarrow> (lg\<lparr>lg_queues := qm, lg_running_agents := AList.delete tid (lg_running_agents lg)\<rparr>, None)))"

definition task_id_mismatch :: exn where
  "task_id_mismatch = A2A (err_msg InternalError ''Task ID mismatch in agent response'')"

text \<open>The end of \<^verbatim>\<open>on_message_send\<close>: the check of the result.\<close>

definition legacy_result :: "send_config \<Rightarrow> string \<Rightarrow> event option \<Rightarrow> exn + event" where
  "legacy_result cfg tid result =
     (case result of
        None \<Rightarrow> Inl (A2A (err InternalError))
      | Some (TaskEv (TaskObj t)) \<Rightarrow>
          if task_id t \<noteq> tid then Inl task_id_mismatch
          else Inr (TaskEv (TaskObj (apply_history_length t (sc_history_length cfg))))
      | Some ev \<Rightarrow> Inr ev)"

text \<open>
  \<^verbatim>\<open>on_message_send\<close> after the set-up: the manager at the end, the events pushed, the rest of the
  stream for the background, and what the caller gets.
\<close>

definition legacy_message_send ::
  "'s store_ops \<Rightarrow> send_config \<Rightarrow> string \<Rightarrow> observation list \<Rightarrow> exn option \<Rightarrow> 's task_manager \<Rightarrow> legacy_state \<Rightarrow>
   's task_manager \<times> event list \<times> legacy_state \<times> event list option \<times> (legacy_exn + event) option" where
  "legacy_message_send ops cfg tid os producer_end tm lg =
     (let (evs, r) = consume_all os;
          (tm', sent, x) = ra_consume_and_break ops (\<not> sc_return_immediately cfg) evs r tm
      in (case x of
            Waits \<Rightarrow> (tm', sent, lg, None, None)
          | Raised e \<Rightarrow>
              (let (lg', y) = cleanup_producer producer_end tid lg
               in (tm', sent, lg', None, Some (Inl (case y of None \<Rightarrow> LegacyExn e | Some e' \<Rightarrow> e'))))
          | Returned (result, Some rest) \<Rightarrow>
              (tm', sent, lg, Some rest, Some (map_sum LegacyExn id (legacy_result cfg tid result)))
          | Returned (result, None) \<Rightarrow>
              (let (lg', y) = cleanup_producer producer_end tid lg
               in (tm', sent, lg', None,
                   Some (case y of Some e' \<Rightarrow> Inl e' | None \<Rightarrow> map_sum LegacyExn id (legacy_result cfg tid result))))))"

definition legacy_on_message_send ::
  "('s, 'p) handler \<Rightarrow> (string option \<Rightarrow> string) \<Rightarrow> (string option \<Rightarrow> string) \<Rightarrow> validation_detail list \<Rightarrow>
   send_message_request \<Rightarrow> call_context \<Rightarrow> 's \<Rightarrow> 'p \<Rightarrow> legacy_state \<Rightarrow> observation list \<Rightarrow> exn option \<Rightarrow>
   'p \<times> 's \<times> legacy_state \<times> (legacy_exn + event) option" where
  "legacy_on_message_send h gen_task gen_context missing params c s p lg os producer_end =
     (case validate_request_params missing
             (rbind (validate_history_length (sc_history_length (smr_config params))) (\<lambda>_.
               setup_message_execution h gen_task gen_context params c s p lg)) of
        Inl e \<Rightarrow> (p, s, lg, Some (Inl (LegacyExn e)))
      | Inr (p', lg', tm, tid, q, rc) \<Rightarrow>
          (let (tm', sent, lg'', rest, x) =
                 legacy_message_send (h_store_ops h) (smr_config params) tid os producer_end tm lg'
           in (p', tm_store tm', lg'', x)))"

text \<open>\<^verbatim>\<open>on_message_send_stream\<close>: the events yielded; a task of another id is stored, but ends the stream.\<close>

fun is_other_task :: "string \<Rightarrow> event \<Rightarrow> bool" where
  "is_other_task tid (TaskEv (TaskObj t)) = (task_id t \<noteq> tid)"
| "is_other_task tid _ = False"

fun legacy_message_stream ::
  "'s store_ops \<Rightarrow> string \<Rightarrow> event list \<Rightarrow> stream_end \<Rightarrow> 's task_manager \<Rightarrow> 's task_manager \<times> event list \<times> unit outcome" where
  "legacy_message_stream ops tid [] r tm = (tm, [], end_outcome r ())"
| "legacy_message_stream ops tid (ev # evs) r tm =
     (case tm_process ops ev tm of
        (tm', Inl e) \<Rightarrow> (tm', [], Raised e)
      | (tm', Inr _) \<Rightarrow>
          if is_other_task tid ev then (tm', [], Raised task_id_mismatch)
          else (let (tm'', out, x) = legacy_message_stream ops tid evs r tm' in (tm'', ev # out, x)))"

definition streaming_validated :: "('s, 'p) handler \<Rightarrow> validation_detail list \<Rightarrow> exn + 'a \<Rightarrow> exn + 'a" where
  "streaming_validated h missing r =
     validate_request_params missing
       (validate (h_streaming h) UnsupportedOperationError ''Streaming is not supported by the agent'' r)"

definition legacy_on_message_send_stream ::
  "('s, 'p) handler \<Rightarrow> (string option \<Rightarrow> string) \<Rightarrow> (string option \<Rightarrow> string) \<Rightarrow> validation_detail list \<Rightarrow>
   send_message_request \<Rightarrow> call_context \<Rightarrow> 's \<Rightarrow> 'p \<Rightarrow> legacy_state \<Rightarrow> observation list \<Rightarrow>
   'p \<times> 's \<times> legacy_state \<times> event list \<times> unit outcome" where
  "legacy_on_message_send_stream h gen_task gen_context missing params c s p lg os =
     (case streaming_validated h missing (setup_message_execution h gen_task gen_context params c s p lg) of
        Inl e \<Rightarrow> (p, s, lg, [], Raised e)
      | Inr (p', lg', tm, tid, q, rc) \<Rightarrow>
          (let (evs, r) = consume_all os;
               (tm', out, x) = legacy_message_stream (h_store_ops h) tid evs r tm
           in (p', tm_store tm', lg', out, x)))"

text \<open>\<^verbatim>\<open>on_subscribe_to_task\<close>: the task first, then the events of the tap, saved a second time.\<close>

definition legacy_subscribe ::
  "('s, 'p) handler \<Rightarrow> validation_detail list \<Rightarrow> string \<Rightarrow> call_context \<Rightarrow> 's \<Rightarrow> legacy_state \<Rightarrow>
   legacy_state \<times> (exn + task \<times> (exn + 's task_manager \<times> queue_ref))" where
  "legacy_subscribe h missing tid c s lg =
     (case streaming_validated h missing
             (case st_get (h_store_ops h) tid c s of
                None \<Rightarrow> Inl (A2A (err TaskNotFoundError))
              | Some t \<Rightarrow>
                  if task_state_of t \<in> TERMINAL_TASK_STATES 
                  then Inl (A2A (err_msg UnsupportedOperationError (terminal_text t))) else Inr t) of
        Inl e \<Rightarrow> (lg, Inl e)
      | Inr t \<Rightarrow>
          (case tm_init s c (Some (task_id t)) (Some (task_context_id t)) None of
             Inl e \<Rightarrow> (lg, Inr (t, Inl e))
           | Inr tm \<Rightarrow>
               (case qm_tap (task_id t) (lg_queues lg) of
                  (qm, None) \<Rightarrow> (lg\<lparr>lg_queues := qm\<rparr>, Inr (t, Inl (A2A (err TaskNotFoundError))))
                | (qm, Some q) \<Rightarrow> (lg\<lparr>lg_queues := qm\<rparr>, Inr (t, Inr (tm, q))))))"

definition legacy_subscribe_events ::
  "'s store_ops \<Rightarrow> observation list \<Rightarrow> 's task_manager \<Rightarrow> 's task_manager \<times> event list \<times> unit outcome" where
  "legacy_subscribe_events ops os tm = (let (evs, r) = consume_all os in ra_consume_and_emit ops evs r tm)"

text \<open>\<^verbatim>\<open>on_cancel_task\<close>: \<open>os\<close> is what the consumer meets after the agent's \<^verbatim>\<open>cancel\<close>.\<close>

definition legacy_cancel_start ::
  "('s, 'p) handler \<Rightarrow> validation_detail list \<Rightarrow> string \<Rightarrow> call_context \<Rightarrow> 's \<Rightarrow> legacy_state \<Rightarrow>
   legacy_state \<times> (exn + 's task_manager \<times> queue_ref option \<times> nat option)" where
  "legacy_cancel_start h missing tid c s lg =
     (case validate_request_params missing
             (case st_get (h_store_ops h) tid c s of
                None \<Rightarrow> Inl (A2A (err TaskNotFoundError))
              | Some t \<Rightarrow>
                  if task_state_of t \<in> TERMINAL_TASK_STATES then Inl (not_cancelable (task_state_of t))
                  else rbind (tm_init s c (Some (task_id t)) (Some (task_context_id t)) None) (\<lambda>tm. Inr (t, tm))) of
        Inl e \<Rightarrow> (lg, Inl e)
      | Inr (t, tm) \<Rightarrow>
          (let (qm, q) = qm_tap (task_id t) (lg_queues lg)
           in (lg\<lparr>lg_queues := qm\<rparr>, Inr (tm, q, map_of (lg_running_agents lg) (task_id t)))))"

definition legacy_cancel_end ::
  "'s store_ops \<Rightarrow> observation list \<Rightarrow> 's task_manager \<Rightarrow> 's task_manager \<times> task outcome" where
  "legacy_cancel_end ops os tm =
     (let (evs, r) = consume_all os; (tm', x) = ra_consume_all ops evs r tm
      in (tm', (case x of
            Returned (Some (TaskEv (TaskObj t))) \<Rightarrow>
              if task_state_of t \<noteq> TASK_STATE_CANCELED then Raised (not_cancelable (task_state_of t)) else Returned t
          | Returned _ \<Rightarrow> Raised (A2A (err_msg InternalError ''Agent did not return valid response for cancel''))
          | Raised e \<Rightarrow> Raised e
          | Waits \<Rightarrow> Waits)))"

subsection \<open>The other operations\<close>

text \<open>These have the text of the newer handler's.\<close>

definition legacy_on_get_task ::
  "('s, 'p) handler \<Rightarrow> validation_detail list \<Rightarrow> get_task_request \<Rightarrow> call_context \<Rightarrow> 's \<Rightarrow> exn + task" where
  "legacy_on_get_task = on_get_task"

definition legacy_on_list_tasks ::
  "(list_tasks_request \<Rightarrow> call_context \<Rightarrow> 's \<Rightarrow> exn + list_tasks_response) \<Rightarrow> validation_detail list \<Rightarrow>
   list_tasks_request \<Rightarrow> call_context \<Rightarrow> 's \<Rightarrow> exn + list_tasks_response" where
  "legacy_on_list_tasks = on_list_tasks"

definition legacy_on_create_push_config ::
  "('s, 'p) handler \<Rightarrow> validation_detail list \<Rightarrow> push_config \<Rightarrow> call_context \<Rightarrow> 's \<Rightarrow> 'p \<Rightarrow> exn + 'p \<times> push_config" where
  "legacy_on_create_push_config = on_create_push_config"

definition legacy_on_get_push_config ::
  "('s, 'p) handler \<Rightarrow> validation_detail list \<Rightarrow> string \<Rightarrow> string \<Rightarrow> call_context \<Rightarrow> 's \<Rightarrow> 'p \<Rightarrow> exn + push_config" where
  "legacy_on_get_push_config = on_get_push_config"

definition legacy_on_list_push_configs ::
  "('s, 'p) handler \<Rightarrow> validation_detail list \<Rightarrow> string \<Rightarrow> call_context \<Rightarrow> 's \<Rightarrow> 'p \<Rightarrow> exn + push_config list" where
  "legacy_on_list_push_configs = on_list_push_configs"

definition legacy_on_delete_push_config ::
  "('s, 'p) handler \<Rightarrow> validation_detail list \<Rightarrow> string \<Rightarrow> string \<Rightarrow> call_context \<Rightarrow> 's \<Rightarrow> 'p \<Rightarrow> exn + 'p" where
  "legacy_on_delete_push_config = on_delete_push_config"

definition legacy_on_get_extended_agent_card ::
  "validation_detail list \<Rightarrow> bool \<Rightarrow> 'card option \<Rightarrow> ('card \<Rightarrow> call_context \<Rightarrow> exn + 'card) option \<Rightarrow>
   call_context \<Rightarrow> exn + 'card" where
  "legacy_on_get_extended_agent_card = on_get_extended_agent_card"

subsection \<open>Laws of the aggregator\<close>

lemma consume_all_final:
  "consume_all os = (evs, Ended) \<Longrightarrow> list_all (\<lambda>ev. \<not> is_final_event ev) (butlast evs)"
proof (induction os arbitrary: evs rule: consume_all.induct)
  case (5 ev os)
  then show ?case by (cases "consume_all os") (auto split: if_splits)
qed simp_all

text \<open>Interrupting and going on in the background stores what processing the whole stream stores.\<close>

lemma task_result_cached:
  "tm_current_task tm = Some t \<Longrightarrow> py_truthy (tm_task_id tm) \<Longrightarrow> task_result ops tm = (tm, Some (TaskEv (TaskObj t)))"
  by (simp add: task_result_def tm_get_task_def)

lemma ensure_bound:
  "tm_ensure_task_id ops tid cid tm = (tm', t) \<Longrightarrow> py_truthy (tm_task_id tm) \<Longrightarrow> tm_task_id tm' = tm_task_id tm"
  unfolding tm_ensure_task_id_eq by (cases "tm_view ops tm") auto

lemma processed_current:
  assumes run: "tm_process ops (TaskEv te) tm = (tm', Inr ev)" and ne: "event_task_id te \<noteq> []"
  shows "\<exists>t. tm_current_task tm' = Some t \<and> py_truthy (tm_task_id tm')"
proof -
  obtain tm1 x where chk: "tm_ids_check te tm = (tm1, x)" by force
  obtain t where save: "tm_save_task_event ops te tm = (tm', Inr t)"
    using run unfolding tm_process_def by (auto split: prod.splits sum.splits)
  then have x: "x = None" using chk by (cases x) (auto simp: tm_save_task_event_def)
  have id1: "tm_task_id tm1 = Some (event_task_id te)"
    using tm_ids_check_None(1) chk ne x by blast
  then have b1: "py_truthy (tm_task_id tm1)" using ne by (simp add: py_truthy_iff)
  have "\<exists>tm2. tm' = tm_save_task ops t tm2 \<and> py_truthy (tm_task_id tm2)"
  proof (cases te)
    case (TaskObj u)
    with save chk x b1 show ?thesis by (auto simp: tm_save_task_event_def)
  next
    case (StatusUpdate e)
    obtain tm2 u where ens: "tm_ensure_task_id ops (se_task_id e) (se_context_id e) tm1 = (tm2, u)" by force
    with save chk x b1 StatusUpdate ensure_bound [OF ens b1] show ?thesis
      by (auto simp: tm_save_task_event_def Let_def)
  next
    case (ArtifactUpdate e)
    obtain tm2 u where ens: "tm_ensure_task_id ops (ae_task_id e) (ae_context_id e) tm1 = (tm2, u)" by force
    with save chk x b1 ArtifactUpdate ensure_bound [OF ens b1] show ?thesis
      by (auto simp: tm_save_task_event_def Let_def split: sum.splits)
  qed
  then show ?thesis by auto
qed

lemma continue_all:
  "ra_continue_consuming ops evs r tm = (tm', sent, y) \<Longrightarrow>
   tm_process_all ops evs tm = (tm', None) \<and> sent = evs \<and> y = end_outcome r () \<or>
   (\<exists>z. tm_process_all ops evs tm = (tm', Some z) \<and> y = Raised z)"
proof (induction evs arbitrary: tm sent)
  case (Cons ev evs)
  show ?case
  proof (cases "tm_process ops ev tm")
    case p: (Pair tm1 z)
    show ?thesis
    proof (cases z)
      case (Inr ev')
      with p Cons.prems obtain sent1 where "ra_continue_consuming ops evs r tm1 = (tm', sent1, y)" "sent = ev # sent1"
        by (auto split: prod.splits)
      from Cons.IH [OF this(1)] this(2) p Inr show ?thesis by auto
    qed (use p Cons.prems in auto)
  qed
qed simp

lemma break_and_continue:
  assumes "ra_consume_and_break ops blocking evs r tm = (tm1, sent1, Returned (x, Some rest))"
    and "ra_continue_consuming ops rest r tm1 = (tm2, sent2, y)"
    and "list_all (\<lambda>ev. case ev of MessageEv m \<Rightarrow> False | TaskEv te \<Rightarrow> event_task_id te \<noteq> []) evs"
  shows "tm_process_all ops evs tm = (tm2, None) \<and> sent1 @ sent2 = evs \<and> y = end_outcome r () \<or>
    (\<exists>z. tm_process_all ops evs tm = (tm2, Some z) \<and> y = Raised z)"
  using assms
proof (induction evs arbitrary: tm sent1)
  case Nil
  then show ?case by (auto simp: task_result_def end_outcome_def split: prod.splits stream_end.splits)
next
  case (Cons ev evs)
  then obtain te where te: "ev = TaskEv te" "event_task_id te \<noteq> []" by (cases ev) auto
  show ?case
  proof (cases "tm_process ops (TaskEv te) tm")
    case p: (Pair tm' z)
    show ?thesis
    proof (cases z)
      case (Inl e)
      with Cons.prems(1) p te show ?thesis by simp
    next
      case z: (Inr ev')
      show ?thesis
      proof (cases "is_auth_required (TaskEv te) \<or> \<not> blocking")
        case True
        obtain t where "task_result ops tm' = (tm', Some (TaskEv (TaskObj t)))"
          using processed_current [of ops te tm tm' ev'] task_result_cached p z te(2) by blast
        with Cons.prems(1) p z te True have "tm1 = tm'" "rest = evs" "sent1 = [ev]" by auto
        with continue_all [OF Cons.prems(2)] p z te show ?thesis by auto
      next
        case False
        then obtain sent where s: "ra_consume_and_break ops blocking evs r tm' = (tm1, sent, Returned (x, Some rest))"
          "sent1 = ev # sent"
          using Cons.prems(1) p z te by (auto split: prod.splits)
        have "list_all (\<lambda>ev. case ev of MessageEv m \<Rightarrow> False | TaskEv te \<Rightarrow> event_task_id te \<noteq> []) evs"
          using Cons.prems(3) by simp
        from Cons.IH [OF s(1) Cons.prems(2) this] p z te s(2) show ?thesis by auto
      qed
    qed
  qed
qed

end
