(* ===== verification/Legacy_Laws.thy ===== *)
theory Legacy_Laws
  imports Legacy_Handler
begin

text \<open>
  Laws of the older request handler over any task store: what a blocking call returns is what the
  store holds, a cancellation that returns has stored the canceled task, an uninterrupted call is
  the plain one, and what concurrent calls on one task do to each other.
\<close>

subsection \<open>The manager that a call sets up\<close>

text \<open>
  A follow-up message is added to the cached task only, so the manager starts out of step with
  the store: \<open>tm_bound\<close> is what is left of \<open>tm_coherent\<close>.
\<close>

definition tm_bound :: "('s \<Rightarrow> bool) \<Rightarrow> 's task_manager \<Rightarrow> bool" where
  "tm_bound sinv tm \<longleftrightarrow> sinv (tm_store tm) \<and>
     (\<forall>t. tm_current_task tm = Some t \<longrightarrow> task_id t \<noteq> [] \<and> tm_task_id tm = Some (task_id t))"

lemma coherent_bound: "tm_coherent ops sinv tm \<Longrightarrow> tm_bound sinv tm"
  by (simp add: tm_coherent_def tm_bound_def)

lemma add_message_id [simp]: "task_id (add_message m t) = task_id t"
  by (simp add: add_message_def Let_def)

lemma update_with_message_bound:
  assumes "tm_bound sinv tm" "task_id t \<noteq> []" "tm_task_id tm = Some (task_id t)"
  shows "tm_bound sinv (fst (tm_update_with_message m t tm))"
  using assms by (simp add: tm_bound_def tm_update_with_message_def Let_def)

definition named_events :: "event list \<Rightarrow> bool" where
  "named_events = list_all (\<lambda>ev. case ev of MessageEv m \<Rightarrow> True | TaskEv te \<Rightarrow> event_task_id te \<noteq> [])"

lemma named_events_simps [simp]:
  "named_events []"
  "named_events (MessageEv m # evs) = named_events evs"
  "named_events (TaskEv te # evs) \<longleftrightarrow> event_task_id te \<noteq> [] \<and> named_events evs"
  by (simp_all add: named_events_def)

lemma setup_parts:
  assumes run: "setup_message_execution h gt gc params c s p lg = Inr (p', lg', tm, tid, q, rc)"
  obtains tm0 tm1 found qm where
    "tm_init s c (or_none (message_task_id (params_message params))) (or_none (message_context_id (params_message params)))
       (Some (params_message params)) = Inr tm0"
    "tm_get_task (h_store_ops h) tm0 = (tm1, found)"
    "found = None \<and> tm = tm1 \<or>
     (\<exists>t. found = Some t \<and> tm = fst (tm_update_with_message (params_message params) t tm1))"
    "qm_create_or_tap tid (lg_queues lg) = (qm, q)" "lg' = register_producer tid (lg\<lparr>lg_queues := qm\<rparr>)"
proof -
  let ?m = "params_message params"
  obtain tm0 where tm0: "tm_init s c (or_none (message_task_id ?m)) (or_none (message_context_id ?m)) (Some ?m) = Inr tm0"
    using run by (auto simp: setup_message_execution_def Let_def)
  obtain tm1 found where g: "tm_get_task (h_store_ops h) tm0 = (tm1, found)" by force
  obtain qm q' where c: "qm_create_or_tap tid (lg_queues lg) = (qm, q')"
    by (cases "qm_create_or_tap tid (lg_queues lg)")
  have "q = q' \<and> lg' = register_producer tid (lg\<lparr>lg_queues := qm\<rparr>) \<and>
      (found = None \<and> tm = tm1 \<or> (\<exists>t. found = Some t \<and> tm = fst (tm_update_with_message ?m t tm1)))"
  proof (cases found)
    case None
    with run tm0 g c show ?thesis
      by (auto simp: setup_message_execution_def Let_def case_prod_beta split: if_splits)
  next
    case (Some t)
    with run tm0 g c show ?thesis
      by (auto simp: setup_message_execution_def Let_def case_prod_beta split: if_splits)
  qed
  with that [OF tm0 g _ _ _] c show ?thesis by blast
qed

context task_store
begin

lemma bound_ensure:
  assumes "tm_bound sinv tm" "tm_task_id tm = Some tid" "tid \<noteq> []"
    and run: "tm_ensure_task_id ops tid cid tm = (tm', t)"
  shows "sinv (tm_store tm') \<and> task_id t = tid \<and> tm_task_id tm' = Some tid \<and>
    tm_call_context tm' = tm_call_context tm"
proof (cases "tm_view ops tm")
  case None
  with run assms show ?thesis by (auto simp: tm_ensure_task_id_eq tm_bound_def inv_save)
next
  case (Some u)
  then have "task_id u = tid"
    using assms(1-3) get_id by (auto simp: tm_view_def tm_bound_def split: option.splits)
  with run Some assms show ?thesis by (auto simp: tm_ensure_task_id_eq tm_bound_def)
qed

lemma bound_ids_check:
  assumes b: "tm_bound sinv tm" and chk: "tm_ids_check ev tm = (tm1, None)" "event_task_id ev \<noteq> []"
  shows "tm_bound sinv tm1"
proof -
  have "tm_current_task tm = Some t \<Longrightarrow> task_id t = event_task_id ev" for t
    using b tm_ids_check_None(2) [OF chk] by (auto simp: tm_bound_def py_truthy_iff)
  with b show ?thesis
    using tm_ids_check_frame [OF chk(1)] tm_ids_check_None(1) [OF chk] by (auto simp: tm_bound_def)
qed

text \<open>One event that succeeds brings manager and store together.\<close>

lemma bound_process:
  assumes b: "tm_bound sinv tm" and ne: "event_task_id te \<noteq> []"
    and run: "tm_process ops (TaskEv te) tm = (tm', Inr ev)"
  shows "tm_coherent ops sinv tm' \<and> tm_current_task tm' \<noteq> None \<and> tm_call_context tm' = tm_call_context tm"
proof -
  obtain tm1 x where chk: "tm_ids_check te tm = (tm1, x)" by force
  obtain t where save: "tm_save_task_event ops te tm = (tm', Inr t)"
    using run unfolding tm_process_def by (auto split: prod.splits sum.splits)
  then have x: "x = None" using chk by (cases x) (auto simp: tm_save_task_event_def)
  note chk = chk [unfolded x]
  note b1 = bound_ids_check [OF b chk ne] and id1 = tm_ids_check_None(1) [OF chk ne]
  note c1 = tm_ids_check_frame(3) [OF chk]
  have "\<exists>tm2. tm' = tm_save_task ops t tm2 \<and> sinv (tm_store tm2) \<and> task_id t = event_task_id te \<and>
      tm_task_id tm2 = Some (event_task_id te) \<and> tm_call_context tm2 = tm_call_context tm"
  proof (cases te)
    case (TaskObj u)
    with save chk b1 id1 c1 show ?thesis by (auto simp: tm_save_task_event_def tm_bound_def)
  next
    case (StatusUpdate e)
    obtain tm2 u where ens: "tm_ensure_task_id ops (event_task_id te) (se_context_id e) tm1 = (tm2, u)" by force
    from bound_ensure [OF b1 id1 ne ens] save chk StatusUpdate ens c1 show ?thesis
      by (auto simp: tm_save_task_event_def Let_def)
  next
    case (ArtifactUpdate e)
    obtain tm2 u where ens: "tm_ensure_task_id ops (event_task_id te) (ae_context_id e) tm1 = (tm2, u)" by force
    from bound_ensure [OF b1 id1 ne ens] save chk ArtifactUpdate ens c1 append_artifact_frame(1) [of u e t] show ?thesis
      by (auto simp: tm_save_task_event_def Let_def split: sum.splits)
  qed
  then show ?thesis using coherent_save ne by auto
qed

lemma cached_task_result:
  assumes "tm_coherent ops sinv tm" "tm_current_task tm = Some t"
  shows "task_result ops tm = (tm, Some (TaskEv (TaskObj t)))"
  using assms by (intro task_result_cached) (auto simp: tm_coherent_def py_truthy_iff)

lemma break_returns_current:
  assumes "tm_coherent ops sinv tm" "tm_current_task tm \<noteq> None" "named_events evs"
    and "ra_consume_and_break ops blocking evs r tm = (tm', sent, Returned (Some (TaskEv (TaskObj u)), rest))"
  shows "tm_coherent ops sinv tm' \<and> tm_current_task tm' = Some u \<and> tm_call_context tm' = tm_call_context tm"
  using assms
proof (induction evs arbitrary: tm sent)
  case Nil
  then show ?case
    using cached_task_result by (auto simp: end_outcome_def split: stream_end.splits if_splits)
next
  case (Cons ev evs)
  show ?case
  proof (cases ev)
    case (MessageEv m)
    with Cons.prems show ?thesis by simp
  next
    case te: (TaskEv te)
    obtain tm1 z where p: "tm_process ops (TaskEv te) tm = (tm1, z)" by force
    with Cons.prems(4) te obtain ev' where z: "z = Inr ev'" by (cases z) auto
    note st = bound_process [OF coherent_bound [OF Cons.prems(1)] _ p [unfolded z]]
    show ?thesis
    proof (cases "is_auth_required (TaskEv te) \<or> \<not> blocking")
      case True
      from st Cons.prems(3) te obtain t where t: "tm_current_task tm1 = Some t" by auto
      with cached_task_result st Cons.prems(3) te have "task_result ops tm1 = (tm1, Some (TaskEv (TaskObj t)))" by auto
      with Cons.prems(4) True te p z t st Cons.prems(3) show ?thesis by auto
    next
      case False
      then obtain s1 where "ra_consume_and_break ops blocking evs r tm1 =
          (tm', s1, Returned (Some (TaskEv (TaskObj u)), rest))"
        using Cons.prems(4) p z te by (auto split: prod.splits)
      from Cons.IH [OF _ _ _ this] st Cons.prems(3) te show ?thesis by auto
    qed
  qed
qed

lemma break_returns_stored:
  assumes b: "tm_bound sinv tm" and n: "named_events (ev # evs)"
    and run: "ra_consume_and_break ops blocking (ev # evs) r tm = (tm', sent, Returned (Some (TaskEv (TaskObj u)), rest))"
  shows "tm_coherent ops sinv tm' \<and> tm_current_task tm' = Some u \<and> tm_call_context tm' = tm_call_context tm"
proof (cases ev)
  case (MessageEv m)
  with run show ?thesis by simp
next
  case te: (TaskEv te)
  obtain tm1 z where p: "tm_process ops (TaskEv te) tm = (tm1, z)" by force
  with run te obtain ev' where z: "z = Inr ev'" by (cases z) auto
  from n te bound_process [OF b _ p [unfolded z]] have st: "tm_coherent ops sinv tm1" "tm_current_task tm1 \<noteq> None"
    "tm_call_context tm1 = tm_call_context tm" by simp_all
  show ?thesis
  proof (cases "is_auth_required (TaskEv te) \<or> \<not> blocking")
    case True
    from st obtain t where t: "tm_current_task tm1 = Some t" by auto
    with run True te p z st cached_task_result [OF st(1) t] show ?thesis by auto
  next
    case False
    then obtain s1 where "ra_consume_and_break ops blocking evs r tm1 =
        (tm', s1, Returned (Some (TaskEv (TaskObj u)), rest))"
      using run p z te by (auto split: prod.splits)
    from break_returns_current [OF st(1,2) _ this] st(3) n te show ?thesis by simp
  qed
qed

subsection \<open>Whole calls\<close>

lemma setup_manager:
  assumes "sinv s" "h_store_ops h = ops"
    and run: "setup_message_execution h gt gc params c s p lg = Inr (p', lg', tm, tid, q, rc)"
  shows "tm_bound sinv tm \<and> tm_store tm = s \<and> tm_call_context tm = c"
proof -
  obtain tm0 tm1 found qm where
    tm0: "tm_init s c (or_none (message_task_id (params_message params))) (or_none (message_context_id (params_message params)))
       (Some (params_message params)) = Inr tm0"
    and g: "tm_get_task (h_store_ops h) tm0 = (tm1, found)"
    and f: "found = None \<and> tm = tm1 \<or>
       (\<exists>t. found = Some t \<and> tm = fst (tm_update_with_message (params_message params) t tm1))"
    by (rule setup_parts [OF run])
  have co0: "tm_coherent ops sinv tm0" and s0: "tm_store tm0 = s" "tm_call_context tm0 = c"
    using assms(1) tm0 by (auto simp: tm_init_def tm_coherent_def split: if_splits)
  from coherent_get_task [OF co0 g [unfolded assms(2)]] have co1: "tm_coherent ops sinv tm1" and v: "found = tm_view ops tm0"
    and s1: "tm_store tm1 = s" "tm_call_context tm1 = c" using s0 by simp_all
  have id1: "tm_task_id tm1 = tm_task_id tm0"
    using g by (auto simp: tm_get_task_def Let_def split: if_splits option.splits)
  from f show ?thesis
  proof (elim disjE exE conjE)
    assume "tm = tm1"
    with co1 s1 show ?thesis by (auto intro: coherent_bound)
  next
    fix t assume t: "found = Some t" and tm: "tm = fst (tm_update_with_message (params_message params) t tm1)"
    from coherent_view [OF co0, of t] v t have "tm_task_id tm1 = Some (task_id t)" "task_id t \<noteq> []" using id1 by simp_all
    with update_with_message_bound [OF coherent_bound [OF co1]] tm s1 show ?thesis
      by (simp add: tm_update_with_message_def Let_def)
  qed
qed

lemma send_returns_stored:
  assumes b: "tm_bound sinv tm" and n: "named_events (fst (consume_all os))" "fst (consume_all os) \<noteq> []"
    and run: "legacy_message_send ops cfg tid os pe tm lg = (tm', sent, lg', rest, Some (Inr (TaskEv (TaskObj u))))"
  shows "\<exists>t. st_get ops tid (tm_call_context tm) (tm_store tm') = Some t \<and> task_id t = tid \<and>
    u = apply_history_length t (sc_history_length cfg)"
proof -
  obtain evs r where ev: "consume_all os = (evs, r)" by force
  obtain tm1 s1 x where br: "ra_consume_and_break ops (\<not> sc_return_immediately cfg) evs r tm = (tm1, s1, x)"
    using prod_cases3 by blast
  have "\<exists>result rest'. x = Returned (result, rest') \<and> tm' = tm1 \<and>
      legacy_result cfg tid result = Inr (TaskEv (TaskObj u))"
    using run ev br unfolding legacy_message_send_def
    by (cases x) (auto split: prod.splits option.splits sum.splits simp: map_sum_def)
  then obtain result rest' where x: "x = Returned (result, rest')" "tm' = tm1"
    and lr: "legacy_result cfg tid result = Inr (TaskEv (TaskObj u))" by blast
  from lr obtain t where t: "result = Some (TaskEv (TaskObj t))" "task_id t = tid"
    "u = apply_history_length t (sc_history_length cfg)"
    by (auto simp: legacy_result_def split: option.splits event.splits task_event.splits if_splits)
  from n ev obtain e es where evs: "evs = e # es" by (cases evs) auto
  have nm: "named_events (e # es)" using n(1) ev evs by simp
  have "tm_coherent ops sinv tm1 \<and> tm_current_task tm1 = Some t \<and> tm_call_context tm1 = tm_call_context tm"
    by (rule break_returns_stored [OF b nm br [unfolded x t evs]])
  with t x show ?thesis by (auto simp: tm_coherent_def)
qed

lemma on_message_send_stored:
  assumes "sinv s" "h_store_ops h = ops" "named_events (fst (consume_all os))" "fst (consume_all os) \<noteq> []"
    and run: "legacy_on_message_send h gt gc missing params c s p lg os pe = (p', s', lg', Some (Inr (TaskEv (TaskObj u))))"
  shows "\<exists>t. st_get ops (task_id t) c s' = Some t \<and> u = apply_history_length t (sc_history_length (smr_config params))"
proof -
  obtain p1 lg1 tm tid q rc where su: "setup_message_execution h gt gc params c s p lg = Inr (p1, lg1, tm, tid, q, rc)"
    and v: "validate_request_params missing (rbind (validate_history_length (sc_history_length (smr_config params)))
      (\<lambda>_. setup_message_execution h gt gc params c s p lg)) = Inr (p1, lg1, tm, tid, q, rc)"
    using run unfolding legacy_on_message_send_def
    by (auto simp: validate_request_params_def split: sum.splits if_splits)
  obtain tm' sent lg2 rest where ls: "legacy_message_send ops (smr_config params) tid os pe tm lg1 =
      (tm', sent, lg2, rest, Some (Inr (TaskEv (TaskObj u))))" and s': "tm_store tm' = s'"
    using run v assms(2) unfolding legacy_on_message_send_def by (auto split: prod.splits)
  from setup_manager [OF assms(1,2) su] have b: "tm_bound sinv tm" "tm_call_context tm = c" by simp_all
  from send_returns_stored [OF b(1) assms(3,4) ls] b(2) s' show ?thesis by auto
qed

text \<open>A cancellation that returns has stored the canceled task.\<close>

lemma cached_consume_all:
  assumes "tm_coherent ops sinv tm" "named_events evs"
    and "ra_consume_all ops evs r tm = (tm', Returned (Some (TaskEv (TaskObj u))))"
  shows "st_get ops (task_id u) (tm_call_context tm) (tm_store tm') = Some u"
  using assms
proof (induction evs arbitrary: tm)
  case Nil
  obtain tm1 x where g: "tm_get_task ops tm = (tm1, x)" by force
  from coherent_get_task [OF Nil(1) g] have st: "tm_coherent ops sinv tm1" "x = tm_view ops tm" "tm_store tm1 = tm_store tm"
    by simp_all
  from Nil(3) g have "tm_view ops tm = Some u" "tm_store tm' = tm_store tm" using st
    by (auto simp: task_result_def end_outcome_def split: stream_end.splits if_splits)
  with coherent_view [OF Nil(1)] show ?case by simp
next
  case (Cons ev evs)
  show ?case
  proof (cases ev)
    case (MessageEv m)
    with Cons.prems show ?thesis by simp
  next
    case te: (TaskEv te)
    obtain tm1 z where p: "tm_process ops (TaskEv te) tm = (tm1, z)" by force
    with Cons.prems(3) te obtain ev' where z: "z = Inr ev'" by (cases z) auto
    from bound_process [OF coherent_bound [OF Cons.prems(1)] _ p [unfolded z]] Cons.prems(2) te
    have "tm_coherent ops sinv tm1" "tm_call_context tm1 = tm_call_context tm" by simp_all
    with Cons.IH [of tm1] Cons.prems(2,3) te p z show ?thesis by simp
  qed
qed

lemma cancel_end_stored:
  assumes "tm_coherent ops sinv tm" "named_events (fst (consume_all os))"
    and run: "legacy_cancel_end ops os tm = (tm', Returned t)"
  shows "task_state_of t = TASK_STATE_CANCELED \<and>
    st_get ops (task_id t) (tm_call_context tm) (tm_store tm') = Some t"
proof -
  obtain evs r where ev: "consume_all os = (evs, r)" by force
  obtain tm1 x where ca: "ra_consume_all ops evs r tm = (tm1, x)" by force
  from run ev ca have "tm' = tm1" "x = Returned (Some (TaskEv (TaskObj t)))" "task_state_of t = TASK_STATE_CANCELED"
    by (auto simp: legacy_cancel_end_def split: outcome.splits option.splits event.splits task_event.splits if_splits)
  with cached_consume_all [OF assms(1)] assms(2) ev ca show ?thesis by simp
qed

text \<open>
  A subscriber saves the events of its tap with a manager of its own: an update that appends to an
  artifact is applied to the stored task a second time.
\<close>

lemma subscriber_appends_twice:
  assumes co: "tm_coherent ops sinv tm" "tm_view ops tm = Some t"
    and ev: "ae_append e" "ae_task_id e \<noteq> []" "find_artifact (artifact_id (ae_artifact_of e)) t = Some old"
    and run: "tm_process ops (TaskEv (ArtifactUpdate e)) tm = (tm1, Inr x)"
    and sub: "tm_init (tm_store tm1) (tm_call_context tm) (Some (task_id t)) (Some (task_context_id t)) None = Inr sm"
    and run': "tm_process ops (TaskEv (ArtifactUpdate e)) sm = (sm1, Inr y)"
  shows "\<exists>u a. st_get ops (task_id t) (tm_call_context tm) (tm_store sm1) = Some u \<and>
    find_artifact (artifact_id (ae_artifact_of e)) u = Some a \<and>
    artifact_parts a = artifact_parts old @ artifact_parts (ae_artifact_of e) @ artifact_parts (ae_artifact_of e)"
proof -
  let ?ev = "ArtifactUpdate e" and ?i = "artifact_id (ae_artifact_of e)"
  obtain t1 where s1: "tm_save_task_event ops ?ev tm = (tm1, Inr t1)"
    using run by (auto simp: tm_process_def split: prod.splits sum.splits)
  have ne: "event_task_id ?ev \<noteq> []" using ev(2) by simp
  from save_task_event_spec [OF co(1) ne s1] have c1: "tm_coherent ops sinv tm1" "tm_call_context tm1 = tm_call_context tm"
    "tm_current_task tm1 = Some t1"
    by (auto simp: tm_frame_def)
  have "append_artifact_to_task t e = Inr t1" using save_task_event_result [OF co s1] by simp
  with append_artifact_extend [OF ev(1,3), of ?i] append_artifact_frame(1,2) [of t e t1]
  obtain a1 where a1: "find_artifact ?i t1 = Some a1"
      "artifact_parts a1 = artifact_parts old @ artifact_parts (ae_artifact_of e)"
    and t1: "task_id t1 = task_id t" by auto
  from c1 t1 have got: "st_get ops (task_id t) (tm_call_context tm) (tm_store tm1) = Some t1" and sv: "sinv (tm_store tm1)"
    and idt: "task_id t \<noteq> []"
    by (auto simp: tm_coherent_def)
  have sm: "tm_store sm = tm_store tm1" "tm_call_context sm = tm_call_context tm" "tm_task_id sm = Some (task_id t)"
    "tm_current_task sm = None"
    using sub by (auto simp: tm_init_def split: if_splits)
  have co2: "tm_coherent ops sinv sm" using sm sv by (simp add: tm_coherent_def)
  have v2: "tm_view ops sm = Some t1" using sm got idt by (simp add: tm_view_def py_truthy_iff)
  obtain t2 where s2: "tm_save_task_event ops ?ev sm = (sm1, Inr t2)"
    using run' by (auto simp: tm_process_def split: prod.splits sum.splits)
  from save_task_event_spec [OF co2 ne s2] have c2: "tm_coherent ops sinv sm1" "tm_call_context sm1 = tm_call_context sm"
    "tm_current_task sm1 = Some t2"
    by (auto simp: tm_frame_def)
  have "append_artifact_to_task t1 e = Inr t2" using save_task_event_result [OF co2 v2 s2] by simp
  with append_artifact_extend [OF ev(1) a1(1), of ?i] append_artifact_frame(1) [of t1 e t2] a1(2)
  obtain a2 where a2: "find_artifact ?i t2 = Some a2"
      "artifact_parts a2 = artifact_parts old @ artifact_parts (ae_artifact_of e) @ artifact_parts (ae_artifact_of e)"
    and t2: "task_id t2 = task_id t" using t1 by auto
  from c2 t2 sm have "st_get ops (task_id t) (tm_call_context tm) (tm_store sm1) = Some t2"
    by (auto simp: tm_coherent_def)
  with a2 show ?thesis by blast
qed

end

subsection \<open>Interrupting\<close>

text \<open>Without an interruption the call is the plain consumption of the whole stream.\<close>

lemma uninterrupted_is_consume_all:
  assumes "list_all (\<lambda>ev. \<not> is_auth_required ev) evs"
  shows "fst (ra_consume_and_break ops True evs r tm) = fst (ra_consume_all ops evs r tm) \<and>
    snd (snd (ra_consume_and_break ops True evs r tm)) =
      (case snd (ra_consume_all ops evs r tm) of
         Returned x \<Rightarrow> Returned (x, None) | Raised e \<Rightarrow> Raised e | Waits \<Rightarrow> Waits)"
  using assms
proof (induction evs arbitrary: tm)
  case Nil
  then show ?case by (auto simp: end_outcome_def split: prod.splits stream_end.splits)
next
  case (Cons ev evs)
  show ?case
  proof (cases ev)
    case (TaskEv te)
    obtain tm1 z where p: "tm_process ops (TaskEv te) tm = (tm1, z)" by force
    with Cons TaskEv show ?thesis by (cases z) (auto simp: case_prod_beta Let_def)
  qed simp
qed

text \<open>The events that a streaming call yields are those stored, in order.\<close>

lemma emit_all:
  "ra_consume_and_emit ops evs r tm = (tm', out, y) \<Longrightarrow>
   tm_process_all ops evs tm = (tm', None) \<and> out = evs \<and> y = end_outcome r () \<or>
   (\<exists>z rest ev. tm_process_all ops evs tm = (tm', Some z) \<and> evs = out @ ev # rest \<and> y = Raised z)"
proof (induction evs arbitrary: tm out)
  case (Cons ev evs)
  obtain tm1 z where p: "tm_process ops ev tm = (tm1, z)" by force
  show ?case
  proof (cases z)
    case (Inr ev')
    with p Cons.prems obtain out1 where "ra_consume_and_emit ops evs r tm1 = (tm', out1, y)" "out = ev # out1"
      by (auto split: prod.splits)
    from Cons.IH [OF this(1)] this(2) p Inr show ?thesis by auto
  qed (use p Cons.prems in auto)
qed simp

subsection \<open>Cleaning up\<close>

text \<open>Of two calls on one task, the second clean-up raises, and it raises to its caller.\<close>

lemma second_cleanup_raises:
  assumes "qm_create_or_tap tid (lg_queues lg) = (qm1, q1)" "qm_create_or_tap tid qm1 = (qm2, q2)"
    and "cleanup_producer None tid (lg\<lparr>lg_queues := qm2\<rparr>) = (lg', x)"
  shows "x = None \<and> snd (cleanup_producer None tid lg') = Some (QueueExn NoTaskQueue)"
proof -
  obtain qm3 y where c: "qm_close tid qm2 = (qm3, y)" by force
  from imq.second_close_fails [OF assms(1,2) c] have "y = None" "qm_close tid qm3 = (qm3, Some NoTaskQueue)" by simp_all
  with assms(3) c show ?thesis by (auto simp: cleanup_producer_def)
qed

text \<open>After an agent that failed the clean-up stops early: the queue and the running agent stay registered.\<close>

lemma failed_agent_stays:
  assumes "setup_message_execution h gt gc params c s p lg = Inr (p', lg', tm, tid, q, rc)"
    and "cleanup_producer (Some e) tid lg' = (lg'', x)"
  shows "qm_get tid (lg_queues lg'') \<noteq> None \<and> map_of (lg_running_agents lg'') tid \<noteq> None \<and> x = Some (LegacyExn e)"
proof -
  have "lg'' = lg'" "x = Some (LegacyExn e)" using assms(2) by (simp_all add: cleanup_producer_def)
  moreover obtain qm1 where "qm_create_or_tap tid (lg_queues lg) = (qm1, q)"
    "lg' = register_producer tid (lg\<lparr>lg_queues := qm1\<rparr>)"
    by (rule setup_parts [OF assms(1)])
  ultimately show ?thesis
    using imq.get_create [of tid "lg_queues lg"] by (simp add: register_producer_def update_conv)
qed

end
