(* ===== verification/Jcs_Canon.thy ===== *)
theory Jcs_Canon
  imports Jcs_Laws
begin

text \<open>
  Which values have a canonical text (\<open>canonicalize_iff\<close>), and what it determines. The text of a value is that of its tree (\<open>write_canon\<close>), the
  text of a tree says where it ends (\<open>render_prefix\<close>), so two values have the same canonical text
  exactly when their trees are equal (\<open>canonical_text_iff\<close>): arrays member by member, objects key by
  key whatever the order (\<open>canon_obj\<close>), numbers by their text.
\<close>

subsection \<open>Which values have a canonical text\<close>

lemma member_size: "e \<in> set d \<Longrightarrow> size (snd e) < size (JObj d)" for e :: "ustr \<times> json"
  by (induction d) auto

lemma element_size: "x \<in> set xs \<Longrightarrow> size x < size (JArr xs)"
  by (induction xs) auto

function nest :: "json \<Rightarrow> nat" where
  "nest (JArr xs) = fold max (map (\<lambda>x. nest x + 1) xs) 0"
| "nest (JObj d) = fold max (map (\<lambda>e. nest (snd e) + 1) d) 0"
| "nest JNull = 0" | "nest (JBool b) = 0" | "nest (JInt i) = 0" | "nest (JFloat f) = 0" | "nest (JStr s) = 0"
  by pat_completeness auto

termination
  by (relation "measure size") (auto dest: member_size element_size)

inductive representable :: "json \<Rightarrow> bool" where
  "representable JNull"
| "representable (JBool b)"
| "SAFE_INT_MIN \<le> i \<Longrightarrow> i \<le> SAFE_INT_MAX \<Longrightarrow> representable (JInt i)"
| "f \<noteq> FNan \<Longrightarrow> (\<And>neg. f \<noteq> FInf neg) \<Longrightarrow> representable (JFloat f)"
| "list_all is_scalar s \<Longrightarrow> representable (JStr s)"
| "list_all representable xs \<Longrightarrow> representable (JArr xs)"
| "list_all (\<lambda>e. list_all is_scalar (fst e) \<and> representable (snd e)) d \<Longrightarrow> representable (JObj d)"

inductive_simps representable_simps [simp]:
  "representable JNull" "representable (JBool b)" "representable (JInt i)" "representable (JFloat f)"
  "representable (JStr s)" "representable (JArr xs)" "representable (JObj d)"

lemma fold_max_le: "fold max xs (a :: nat) \<le> m \<longleftrightarrow> a \<le> m \<and> (\<forall>x \<in> set xs. x \<le> m)"
  by (induction xs arbitrary: a) auto

lemma utf8_encode_scalar: "utf8_encode s = None \<longleftrightarrow> \<not> list_all is_scalar s"
  by (induction s) (auto split: if_splits)

lemma of_char_is_scalar [simp]: "list_all is_scalar (to_ustr s)"
  by (simp add: to_ustr_def list_all_iff of_char_scalar)

lemma scalar_escape [simp]: "list_all is_scalar (escape_char c) \<longleftrightarrow> is_scalar c"
  by (auto simp: escape_char_def hex_char_def is_scalar_def is_surrogate_def)

lemma scalar_quote [simp]: "list_all is_scalar (quote s) \<longleftrightarrow> list_all is_scalar s"
proof -
  have "list_all is_scalar (concat (map escape_char s)) \<longleftrightarrow> list_all is_scalar s"
    by (induction s) simp_all
  then show ?thesis by (simp add: quote_def is_scalar_def is_surrogate_def)
qed

lemma scalar_join [simp]: "list_all is_scalar (join_comma ss) \<longleftrightarrow> list_all (list_all is_scalar) ss"
  by (induction ss rule: join_comma.induct) (auto simp: is_scalar_def is_surrogate_def)

definition scalar_result :: "string + ustr \<Rightarrow> bool" where
  "scalar_result r = (case r of Inl e \<Rightarrow> False | Inr s \<Rightarrow> list_all is_scalar s)"

lemma scalar_result_simps [simp]:
  "\<not> scalar_result (Inl e)" "scalar_result (Inr s) \<longleftrightarrow> list_all is_scalar s"
  by (simp_all add: scalar_result_def)

lemma scalar_result_list:
  "(case rmap_list f xs of Inl e \<Rightarrow> False | Inr ss \<Rightarrow> list_all (list_all is_scalar) ss) \<longleftrightarrow>
   (\<forall>x \<in> set xs. scalar_result (f x))"
  by (induction xs) (auto simp: scalar_result_def split: sum.splits)

lemma scalar_result_rbind:
  "(\<And>s. list_all is_scalar (g s) \<longleftrightarrow> list_all (list_all is_scalar) s) \<Longrightarrow>
   scalar_result (rbind r (\<lambda>s. Inr (g s))) \<longleftrightarrow> (case r of Inl e \<Rightarrow> False | Inr ss \<Rightarrow> list_all (list_all is_scalar) ss)"
  by (cases r) simp_all

lemma sorted_items_Inl: "sorted_items d = Inl m \<Longrightarrow> \<not> list_all (\<lambda>e. list_all is_scalar (fst e)) d"
  by (auto simp: sorted_items_def utf16_be_def list_all_iff split: if_splits)

lemma scalars_structure [simp]: "is_scalar 91" "is_scalar 93" "is_scalar 123" "is_scalar 125" "is_scalar 58"
  by (simp_all add: is_scalar_def is_surrogate_def)

lemma written_iff: "scalar_result (write_json n v) \<longleftrightarrow> n + nest v \<le> MAX_DEPTH \<and> representable v"
proof (induction n v rule: write_json.induct)
  case (1 n xs)
  show ?case
  proof (cases "MAX_DEPTH < n")
    case False
    have "scalar_result (write_json n (JArr xs)) \<longleftrightarrow> (\<forall>x \<in> set xs. scalar_result (write_json (n + 1) x))"
      using False scalar_result_list [of "write_json (n + 1)" xs] by (simp add: scalar_result_rbind)
    also have "\<dots> \<longleftrightarrow> (\<forall>x \<in> set xs. n + 1 + nest x \<le> MAX_DEPTH \<and> representable x)"
      using "1.IH" [OF False] by simp
    also have "\<dots> \<longleftrightarrow> n + nest (JArr xs) \<le> MAX_DEPTH \<and> representable (JArr xs)"
      using False fold_max_le [of "map (\<lambda>x. nest x + 1) xs" 0 "MAX_DEPTH - n"] by (auto simp: list_all_iff le_diff_conv2)
    finally show ?thesis .
  qed simp
next
  case (2 n d)
  show ?case
  proof (cases "MAX_DEPTH < n")
    case False
    let ?f = "\<lambda>e. rbind (write_json (n + 1) (snd e)) (\<lambda>s. Inr (quote (fst e) @ 58 # s))"
    have member: "scalar_result (?f e) \<longleftrightarrow> list_all is_scalar (fst e) \<and> scalar_result (write_json (n + 1) (snd e))"
      for e :: "ustr \<times> json"
      by (cases "write_json (n + 1) (snd e)") simp_all
    show ?thesis
    proof (cases "sorted_items d")
      case (Inl m)
      then have "\<not> list_all (\<lambda>e. list_all is_scalar (fst e)) d"
        by (rule sorted_items_Inl)
      with Inl False show ?thesis by (auto simp: list_all_iff)
    next
      case (Inr items)
      then have set: "set items = set d" by (rule sorted_items_set)
      have "scalar_result (write_json n (JObj d)) \<longleftrightarrow> (\<forall>e \<in> set items. scalar_result (?f e))"
        using False Inr scalar_result_list [of ?f items] by (simp add: scalar_result_rbind)
      also have "\<dots> \<longleftrightarrow> (\<forall>e \<in> set d. list_all is_scalar (fst e) \<and> n + 1 + nest (snd e) \<le> MAX_DEPTH \<and> representable (snd e))"
        using "2.IH" [OF False Inr] member set by simp
      also have "\<dots> \<longleftrightarrow> n + nest (JObj d) \<le> MAX_DEPTH \<and> representable (JObj d)"
        using False fold_max_le [of "map (\<lambda>e. nest (snd e) + 1) d" 0 "MAX_DEPTH - n"]
        by (auto simp: list_all_iff le_diff_conv2)
      finally show ?thesis .
    qed
  qed simp
next
  case (6 n f)
  then show ?case by (cases f) auto
qed auto

theorem canonicalize_iff: "\<not> isl (canonicalize v) \<longleftrightarrow> nest v \<le> MAX_DEPTH \<and> representable v"
  using written_iff [of 0 v] by (cases "write_json 0 v") (auto simp: canonicalize_def utf8_encode_scalar)

subsection \<open>Texts are read back\<close>

definition unhex :: "nat \<Rightarrow> nat" where
  "unhex h = (if h < 58 then h - 48 else h - 87)"

text \<open>The first character of an escaped text, and the rest.\<close>

fun unescape :: "ustr \<Rightarrow> nat \<times> ustr" where
  "unescape (c # r) =
     (if c \<noteq> 92 then (c, r)
      else (case r of
              d # r' \<Rightarrow>
                if d = 117 then (16 * unhex (r' ! 2) + unhex (r' ! 3), drop 4 r')
                else (if d = 98 then 8 else if d = 102 then 12 else if d = 110 then 10
                      else if d = 114 then 13 else if d = 116 then 9 else d, r')
            | [] \<Rightarrow> (c, r)))"
| "unescape [] = (0, [])"

lemma unhex_hex_char: "d < 16 \<Longrightarrow> unhex (hex_char d) = d"
  by (simp add: unhex_def hex_char_def)

lemma unescape_char: "unescape (escape_char c @ r) = (c, r)"
proof -
  consider "c \<in> {92, 34, 8, 12, 10, 13, 9}" | "c < 32" "c \<notin> {92, 34, 8, 12, 10, 13, 9}" | "32 \<le> c" "c \<notin> {92, 34}"
    by fastforce
  then show ?thesis
  proof cases
    case 1
    then show ?thesis by (auto simp: escape_char_def)
  next
    case 2
    then have "escape_char c = [92, 117, 48, 48, hex_char (c div 16), hex_char (c mod 16)]"
      by (simp add: escape_char_def)
    moreover have "unhex (hex_char (c div 16)) = c div 16" "unhex (hex_char (c mod 16)) = c mod 16"
      using 2 by (simp_all add: unhex_hex_char)
    ultimately show ?thesis by simp
  next
    case 3
    then show ?thesis by (simp add: escape_char_def)
  qed
qed

lemma escape_char_prefix: "escape_char c @ r = escape_char d @ r' \<Longrightarrow> c = d \<and> r = r'"
  by (metis unescape_char prod.inject)

lemma escape_char_hd: "escape_char c \<noteq> []" "hd (escape_char c @ r) \<noteq> 34"
  by (simp_all add: escape_char_def)

lemma escaped_prefix:
  "concat (map escape_char s) @ 34 # x = concat (map escape_char t) @ 34 # y \<Longrightarrow> s = t \<and> x = y"
proof (induction s arbitrary: t)
  case Nil
  then show ?case using escape_char_hd(2) by (cases t) (auto, metis list.sel(1))
next
  case (Cons c s)
  show ?case
  proof (cases t)
    case Nil
    with Cons.prems escape_char_hd(2) [of c "concat (map escape_char s) @ 34 # x"] show ?thesis by simp
  next
    case t: (Cons d t')
    with Cons.prems have "escape_char c @ concat (map escape_char s) @ 34 # x =
        escape_char d @ concat (map escape_char t') @ 34 # y" by simp
    from escape_char_prefix [OF this] Cons.IH [of t'] t show ?thesis by simp
  qed
qed

lemma quote_prefix: "quote s @ x = quote t @ y \<Longrightarrow> s = t \<and> x = y"
  using escaped_prefix [of s x t y] by (simp add: quote_def)

subsection \<open>Canonical trees\<close>

text \<open>
  A value as its canonical text sees it: literals and numbers are their texts, objects are in
  order. Two values are the same for JSON when their trees are equal.
\<close>

datatype canon = CLit ustr | CStr ustr | CArr "canon list" | CObj "(ustr \<times> canon) list"

definition key_units :: "ustr \<Rightarrow> nat list" where
  "key_units k = concat (map utf16_char k)"

definition scalar_text :: "json \<Rightarrow> ustr" where
  "scalar_text v = (case format_scalar v of Inr s \<Rightarrow> s | Inl e \<Rightarrow> [])"

function canon_of :: "json \<Rightarrow> canon" where
  "canon_of (JArr xs) = CArr (map canon_of xs)"
| "canon_of (JObj d) = CObj (sort_key (\<lambda>e. key_units (fst e)) (map (\<lambda>e. (fst e, canon_of (snd e))) d))"
| "canon_of (JStr s) = CStr s"
| "canon_of JNull = CLit (scalar_text JNull)"
| "canon_of (JBool b) = CLit (scalar_text (JBool b))"
| "canon_of (JInt i) = CLit (scalar_text (JInt i))"
| "canon_of (JFloat f) = CLit (scalar_text (JFloat f))"
  by pat_completeness auto

termination
proof (relation "measure size")
  fix xs :: "json list" and x
  assume "x \<in> set xs"
  then have "size x \<le> size_list size xs" by (rule size_list_estimation') simp
  then show "(x, JArr xs) \<in> measure size" by simp
next
  fix d and e :: "ustr \<times> json"
  assume "e \<in> set d"
  then have "size (snd e) < size (JObj d)" by (induction d) auto
  then show "(snd e, JObj d) \<in> measure size" by simp
qed simp

function render :: "canon \<Rightarrow> ustr" where
  "render (CLit s) = s"
| "render (CStr s) = quote s"
| "render (CArr cs) = 91 # join_comma (map render cs) @ [93]"
| "render (CObj es) = 123 # join_comma (map (\<lambda>e. quote (fst e) @ 58 # render (snd e)) es) @ [125]"
  by pat_completeness auto

termination
proof (relation "measure size")
  fix cs :: "canon list" and c
  assume "c \<in> set cs"
  then have "size c \<le> size_list size cs" by (rule size_list_estimation') simp
  then show "(c, CArr cs) \<in> measure size" by simp
next
  fix es and e :: "ustr \<times> canon"
  assume "e \<in> set es"
  then have "size (snd e) < size (CObj es)" by (induction es) auto
  then show "(snd e, CObj es) \<in> measure size" by simp
qed simp

text \<open>A text of a literal or number is not empty and has no character of the structure.\<close>

definition lit_char :: "nat \<Rightarrow> bool" where
  "lit_char c \<longleftrightarrow> c \<notin> {34, 44, 58, 91, 93, 123, 125}"

inductive canon_ok :: "canon \<Rightarrow> bool" where
  "s \<noteq> [] \<Longrightarrow> list_all lit_char s \<Longrightarrow> canon_ok (CLit s)"
| "canon_ok (CStr s)"
| "list_all canon_ok cs \<Longrightarrow> canon_ok (CArr cs)"
| "list_all (\<lambda>e. canon_ok (snd e)) es \<Longrightarrow> canon_ok (CObj es)"

inductive_simps canon_ok_simps [simp]:
  "canon_ok (CLit s)" "canon_ok (CStr s)" "canon_ok (CArr cs)" "canon_ok (CObj es)"

definition ends :: "ustr \<Rightarrow> bool" where
  "ends x \<longleftrightarrow> x = [] \<or> hd x \<in> {44, 93, 125}"

lemma join_comma_Cons: "join_comma (x # xs) = x @ (if xs = [] then [] else 44 # join_comma xs)"
  by (cases xs) simp_all

lemma join_prefix:
  assumes "\<And>a b x y. a \<in> set as \<Longrightarrow> b \<in> set bs \<Longrightarrow> f a @ x = f b @ y \<Longrightarrow> ends x \<Longrightarrow> ends y \<Longrightarrow> a = b \<and> x = y"
    and "\<And>c. c \<in> set as \<union> set bs \<Longrightarrow> f c \<noteq> [] \<and> hd (f c) \<notin> {44, z}"
    and z: "z \<in> {93, 125}"
    and eq: "join_comma (map f as) @ z # x = join_comma (map f bs) @ z # y"
  shows "as = bs \<and> x = y"
  using assms(1,2) eq
proof (induction as arbitrary: bs)
  case Nil
  show ?case
  proof (cases bs)
    case (Cons b bs')
    with Nil.prems(2) [of b] Nil.prems(3) show ?thesis
      by (cases "f b") (auto simp: join_comma_Cons split: if_splits)
  qed (use Nil in simp)
next
  case (Cons a as)
  show ?case
  proof (cases bs)
    case Nil
    with Cons.prems(2) [of a] Cons.prems(3) show ?thesis
      by (cases "f a") (auto simp: join_comma_Cons split: if_splits)
  next
    case bs: (Cons b bs')
    let ?r = "\<lambda>cs w. (if cs = [] then [] else 44 # join_comma (map f cs)) @ z # w"
    have e: "f a @ ?r as x = f b @ ?r bs' y" using Cons.prems(3) by (simp add: bs join_comma_Cons)
    have en: "ends (?r cs w)" for cs w using z by (auto simp: ends_def)
    have ab: "a = b" and r: "?r as x = ?r bs' y"
      using Cons.prems(1) [of a b, OF _ _ e en en] by (auto simp: bs)
    have ne: "z \<noteq> 44" using z by auto
    show ?thesis
    proof (cases "as = [] \<or> bs' = []")
      case True
      with r ne bs ab show ?thesis by (auto split: if_splits)
    next
      case False
      with r have "join_comma (map f as) @ z # x = join_comma (map f bs') @ z # y" by simp
      from Cons.IH [OF _ _ this] Cons.prems(1,2) ab bs show ?thesis by auto
    qed
  qed
qed

lemma canon_ok_hd: "canon_ok c \<Longrightarrow> render c \<noteq> [] \<and> hd (render c) \<notin> {44, 93, 125}"
  by (cases c; cases "render c") (auto simp: quote_def lit_char_def)

lemma takeWhile_lit: "list_all lit_char s \<Longrightarrow> ends x \<Longrightarrow> takeWhile lit_char (s @ x) = s"
  by (induction s) (auto simp: ends_def lit_char_def takeWhile_eq_Nil_iff)

lemma lit_prefix:
  assumes "list_all lit_char s" "list_all lit_char t" "ends x" "ends y" "s @ x = t @ y"
  shows "s = t \<and> x = y"
  using takeWhile_lit [OF assms(1,3)] takeWhile_lit [OF assms(2,4)] assms(5) by (metis same_append_eq)

lemma lit_hd: "s \<noteq> [] \<Longrightarrow> list_all lit_char s \<Longrightarrow> hd (s @ x) \<notin> {34, 91, 123}"
  by (cases s) (auto simp: lit_char_def)

lemma render_hd: "hd (render (CStr s) @ x) = 34" "hd (render (CArr cs) @ x) = 91" "hd (render (CObj es) @ x) = 123"
  by (simp_all add: quote_def)

text \<open>The text of a tree says where it ends.\<close>

lemma render_prefix:
  "canon_ok c \<Longrightarrow> canon_ok d \<Longrightarrow> ends x \<Longrightarrow> ends y \<Longrightarrow> render c @ x = render d @ y \<Longrightarrow> c = d \<and> x = y"
proof (induction c arbitrary: d x y rule: canon_ok.induct)
  case (1 s)
  from 1 obtain t where "d = CLit t"
    using lit_hd [of s x] render_hd by (cases d) (metis render.simps(1) insertI1 insertI2)+
  with 1 lit_prefix [of s t x y] show ?case by simp
next
  case (2 s)
  from 2 obtain t where "d = CStr t"
    using lit_hd render_hd
    by (cases d) (metis canon_ok_simps(1) render.simps(1) insertI1 insertI2, simp, auto simp: quote_def)
  with 2 quote_prefix [of s x t y] show ?case by simp
next
  case (3 cs)
  have "hd (render d @ y) = 91" using 3 by (metis render_hd(2))
  then obtain ds where d: "d = CArr ds"
    using "3.prems"(1) lit_hd [of _ y] by (cases d) (auto simp: quote_def)
  have "cs = ds \<and> x = y"
  proof (rule join_prefix [where f = render and z = 93])
    show "join_comma (map render cs) @ 93 # x = join_comma (map render ds) @ 93 # y"
      using "3.prems" d by simp
    show "render c \<noteq> [] \<and> hd (render c) \<notin> {44, 93}" if "c \<in> set cs \<union> set ds" for c
      using that 3 d canon_ok_hd [of c] by (auto simp: list_all_iff)
  qed (use 3 d in \<open>auto simp: list_all_iff\<close>)
  with d show ?case by simp
next
  case (4 es)
  have "hd (render d @ y) = 123" using 4 by (metis render_hd(3))
  then obtain ds where d: "d = CObj ds"
    using "4.prems"(1) lit_hd [of _ y] by (cases d) (auto simp: quote_def)
  let ?f = "\<lambda>e. quote (fst e) @ 58 # render (snd e)"
  have "es = ds \<and> x = y"
  proof (rule join_prefix [where f = ?f and z = 125])
    show "join_comma (map ?f es) @ 125 # x = join_comma (map ?f ds) @ 125 # y"
      using "4.prems" d by simp
    fix a b x' y'
    assume ab: "a \<in> set es" "b \<in> set ds" "ends x'" "ends y'" and e: "?f a @ x' = ?f b @ y'"
    have "fst a = fst b \<and> 58 # render (snd a) @ x' = 58 # render (snd b) @ y'"
      using quote_prefix [of "fst a" "58 # render (snd a) @ x'" "fst b" "58 # render (snd b) @ y'"] e by simp
    with ab 4 d show "a = b \<and> x' = y'"
      by (auto simp: list_all_iff prod_eq_iff)
  qed (auto simp: quote_def)
  with d show ?case by simp
qed

corollary render_inj: "canon_ok c \<Longrightarrow> canon_ok d \<Longrightarrow> render c = render d \<Longrightarrow> c = d"
  using render_prefix [of c d "[]" "[]"] by (simp add: ends_def)

subsection \<open>The written text is that of the tree\<close>

lemma rmap_list_map:
  "rmap_list f xs = Inr ys \<Longrightarrow> (\<And>x y. x \<in> set xs \<Longrightarrow> f x = Inr y \<Longrightarrow> y = g x) \<Longrightarrow> ys = map g xs"
  by (induction xs arbitrary: ys) (auto split: sum.splits)

lemma insort_key_map: "insort_key g (f x) (map f xs) = map f (insort_key (\<lambda>y. g (f y)) x xs)"
  by (induction xs) simp_all

lemma sort_key_map: "sort_key g (map f xs) = map f (sort_key (\<lambda>y. g (f y)) xs)"
  by (induction xs) (simp_all add: insort_key_map)

lemma write_canon: "write_json n v = Inr s \<Longrightarrow> s = render (canon_of v)"
proof (induction n v arbitrary: s rule: write_json.induct)
  case (1 n xs)
  then obtain ss where ss: "rmap_list (write_json (n + 1)) xs = Inr ss" and s: "s = 91 # join_comma ss @ [93]"
    and n: "\<not> MAX_DEPTH < n"
    by (auto split: if_splits)
  have "ss = map (\<lambda>x. render (canon_of x)) xs"
    using ss by (rule rmap_list_map) (use "1.IH" [OF n] in auto)
  with s show ?case by (simp add: comp_def)
next
  case (2 n d)
  then obtain items ss where items: "sorted_items d = Inr items" and s: "s = 123 # join_comma ss @ [125]"
    and ss: "rmap_list (\<lambda>e. rbind (write_json (n + 1) (snd e)) (\<lambda>s. Inr (quote (fst e) @ 58 # s))) items = Inr ss"
    and n: "\<not> MAX_DEPTH < n"
    by (auto split: if_splits)
  have "ss = map (\<lambda>e. quote (fst e) @ 58 # render (canon_of (snd e))) items"
    using ss by (rule rmap_list_map) (use "2.IH" [OF n items] in auto)
  moreover have "items = sort_key (\<lambda>e. key_units (fst e)) d"
    using items by (simp add: sorted_items_def key_units_def split: if_splits)
  ultimately show ?case by (simp add: s sort_key_map comp_def)
qed (auto simp: scalar_text_def split: if_splits sum.splits)

text \<open>A JSON value of Python: the keys of an object are distinct and a float is a float.\<close>

inductive json_ok :: "json \<Rightarrow> bool" where
  "json_ok JNull" | "json_ok (JBool b)" | "json_ok (JInt i)" | "json_ok (JStr s)"
| "(\<And>neg ds n. f = FFin neg ds n \<Longrightarrow> wf_float ds n) \<Longrightarrow> json_ok (JFloat f)"
| "list_all json_ok xs \<Longrightarrow> json_ok (JArr xs)"
| "list_all (\<lambda>e. json_ok (snd e)) d \<Longrightarrow> dict_ok d \<Longrightarrow> json_ok (JObj d)"

inductive_simps json_ok_simps [simp]:
  "json_ok (JFloat f)" "json_ok (JArr xs)" "json_ok (JObj d)"


subsection \<open>The trees of the texts are well formed\<close>

definition lit_string :: "string \<Rightarrow> bool" where
  "lit_string s \<longleftrightarrow> list_all (\<lambda>c. lit_char (of_char c)) s"

lemma lit_string_simps [simp]:
  "lit_string []" "lit_string (c # s) \<longleftrightarrow> lit_char (of_char c) \<and> lit_string s"
  "lit_string (s @ t) \<longleftrightarrow> lit_string s \<and> lit_string t"
  by (simp_all add: lit_string_def)

lemma lit_consts [simp]: "lit_char 45" "lit_char 43" "lit_char 46" "lit_char 101" "lit_char 48"
  by (simp_all add: lit_char_def)

lemma lit_digit: "d < 10 \<Longrightarrow> lit_char (of_char (digit_char d))"
proof -
  assume "d < 10"
  moreover have "list_all (\<lambda>d. lit_char (of_char (digit_char d))) [0..<10]" by code_simp
  ultimately show ?thesis by (simp add: list_all_iff)
qed

lemma lit_digits: "list_all (\<lambda>d. d < 10) ds \<Longrightarrow> lit_string (digits_str ds)"
  by (induction ds) (simp_all add: digits_str_def lit_digit)

lemma lit_zeros [simp]: "lit_string (zeros n)"
  by (simp add: zeros_def lit_string_def list_all_iff)

lemma lit_nat_str [simp]: "lit_string (nat_str n)"
  using nat_str_digits [of n] by (auto simp: lit_string_def list_all_iff lit_digit)

lemma lit_int_str [simp]: "lit_string (int_str i)" "int_str i \<noteq> []"
  by (simp_all add: int_str_def)

lemma lit_take_drop: "lit_string s \<Longrightarrow> lit_string (take i s)" "lit_string s \<Longrightarrow> lit_string (drop i s)"
  by (auto simp: lit_string_def list_all_iff dest: in_set_takeD in_set_dropD)

lemma lit_ecma: "wf_float ds n \<Longrightarrow> lit_string (ecma_number ds n) \<and> ecma_number ds n \<noteq> []"
proof -
  assume wf: "wf_float ds n"
  then have "lit_string (digits_str ds)" "digits_str ds \<noteq> []"
    by (simp_all add: wf_float_def lit_digits, simp add: digits_str_def)
  then show ?thesis
    by (simp add: ecma_number_def Let_def lit_take_drop)
qed

lemma canon_ok_text: "lit_string s \<Longrightarrow> s \<noteq> [] \<Longrightarrow> canon_ok (CLit (to_ustr s))"
  by (simp add: lit_string_def to_ustr_def list.pred_map comp_def)

lemma canon_ok_float:
  assumes "json_ok (JFloat f)" "format_number f = Inr s"
  shows "canon_ok (CLit (to_ustr s))"
proof (rule canon_ok_text)
  show "lit_string s" "s \<noteq> []"
    using assms lit_ecma by (cases f; auto simp: format_positive_ecma)+
qed

lemma write_canon_ok: "write_json n v = Inr s \<Longrightarrow> json_ok v \<Longrightarrow> canon_ok (canon_of v)"
proof (induction n v arbitrary: s rule: write_json.induct)
  case (1 n xs)
  then obtain ss where ss: "rmap_list (write_json (n + 1)) xs = Inr ss" and n: "\<not> MAX_DEPTH < n"
    by (auto split: if_splits)
  have "\<exists>t. write_json (n + 1) x = Inr t" if "x \<in> set xs" for x
    using ss that by (induction xs arbitrary: ss) (auto split: sum.splits)
  then have "canon_ok (canon_of x)" if "x \<in> set xs" for x
    using "1.IH" [OF n that] "1.prems"(2) that by (auto simp: list_all_iff)
  then show ?case by (simp add: list_all_iff)
next
  case (2 n d)
  then obtain items ss where items: "sorted_items d = Inr items" 
    and ss: "rmap_list (\<lambda>e. rbind (write_json (n + 1) (snd e)) (\<lambda>s. Inr (quote (fst e) @ 58 # s))) items = Inr ss"
    and n: "\<not> MAX_DEPTH < n"
    by (auto split: if_splits)
  have written: "\<exists>t. write_json (n + 1) (snd e) = Inr t" if "e \<in> set items" for e
    using ss that by (induction items arbitrary: ss) (auto split: sum.splits)
  have "canon_ok (canon_of (snd e))" if "e \<in> set items" for e
  proof -
    from written [OF that] obtain t where "write_json (n + 1) (snd e) = Inr t" by blast
    then show ?thesis
      using "2.IH" [OF n items that] "2.prems"(2) that sorted_items_set [OF items] by (simp add: list_all_iff)
  qed
  then show ?case using sorted_items_set [OF items] by (simp add: list_all_iff)
next
  case (3 n)
  have "lit_string ''null''" by code_simp
  from canon_ok_text [OF this] show ?case by (simp add: scalar_text_def del: canon_ok_simps)
next
  case (4 n b)
  have "lit_string ''true''" "lit_string ''false''" by code_simp+
  from this [THEN canon_ok_text] show ?case by (simp add: scalar_text_def del: canon_ok_simps)
next
  case (5 n i)
  then show ?case by (auto simp: scalar_text_def canon_ok_text simp del: canon_ok_simps split: if_splits)
next
  case (6 n f)
  then obtain t where "format_number f = Inr t" by (auto split: if_splits)
  with canon_ok_float [OF "6.prems"(2) this] show ?case by (simp add: scalar_text_def del: canon_ok_simps)
qed simp

text \<open>Two values have the same canonical text exactly when they have the same tree.\<close>

theorem canonical_text_iff:
  assumes "json_ok v" "json_ok w" "canonicalize v = Inr s" "canonicalize w = Inr t"
  shows "s = t \<longleftrightarrow> canon_of v = canon_of w"
proof -
  have v: "write_json 0 v = Inr s" and w: "write_json 0 w = Inr t"
    using assms(3,4) by (auto simp: canonicalize_def split: if_splits)
  show ?thesis
    using render_inj [OF write_canon_ok [OF v assms(1)] write_canon_ok [OF w assms(2)]]
      write_canon [OF v] write_canon [OF w] by auto
qed

subsection \<open>What the trees tell apart\<close>

lemma div_mod_eq: "c div n = d div n \<Longrightarrow> c mod n = d mod (n :: nat) \<Longrightarrow> c = d"
  by (metis div_mult_mod_eq)

lemma utf16_small: "c < 0x10000 \<Longrightarrow> utf16_char c = [c div 256, c mod 256]"
  by (simp add: utf16_char_def)

lemma utf16_big:
  assumes "0x10000 \<le> c" "is_scalar c"
  obtains hi lo where "utf16_char c = [hi div 256, hi mod 256, lo div 256, lo mod 256]"
    "hi div 256 \<in> {0xD8..<0xDC}" "c = 0x10000 + (hi - 0xD800) * 0x400 + (lo - 0xDC00)"
proof
  let ?hi = "0xD800 + (c - 0x10000) div 0x400" and ?lo = "0xDC00 + (c - 0x10000) mod 0x400"
  show "utf16_char c = [?hi div 256, ?hi mod 256, ?lo div 256, ?lo mod 256]"
    using assms(1) by (simp add: utf16_char_def Let_def)
  have "c - 0x10000 < 0x400 * 0x400" using assms by (simp add: is_scalar_def less_diff_conv2)
  then have "(c - 0x10000) div 0x400 < 0x400" by (rule less_mult_imp_div_less)
  then have "0xD8 * 256 \<le> ?hi" "?hi < 0xDC * 256" by simp_all
  then show "?hi div 256 \<in> {0xD8..<0xDC}" by (simp add: less_mult_imp_div_less)
  show "c = 0x10000 + (?hi - 0xD800) * 0x400 + (?lo - 0xDC00)"
    using assms(1) by simp
qed

lemma utf16_small_hd: "c < 0x10000 \<Longrightarrow> is_scalar c \<Longrightarrow> c div 256 \<notin> {0xD8..<0xDC}"
  by (auto simp: is_scalar_def is_surrogate_def)

lemma utf16_char_prefix:
  assumes c: "is_scalar c" and d: "is_scalar d" and eq: "utf16_char c @ x = utf16_char d @ y"
  shows "c = d \<and> x = y"
proof (cases "c < 0x10000"; cases "d < 0x10000")
  assume "c < 0x10000" "d < 0x10000"
  with eq show ?thesis by (simp add: utf16_small) (blast intro: div_mod_eq)
next
  assume "c < 0x10000" "\<not> d < 0x10000"
  moreover from this utf16_big [OF _ d] obtain hi r where "utf16_char d = hi div 256 # r" "hi div 256 \<in> {0xD8..<0xDC}"
    by (metis not_less)
  ultimately show ?thesis using eq utf16_small_hd [OF _ c] by (simp add: utf16_small)
next
  assume "\<not> c < 0x10000" "d < 0x10000"
  moreover from this utf16_big [OF _ c] obtain hi r where "utf16_char c = hi div 256 # r" "hi div 256 \<in> {0xD8..<0xDC}"
    by (metis not_less)
  ultimately show ?thesis using eq utf16_small_hd [OF _ d] by (simp add: utf16_small)
next
  assume "\<not> c < 0x10000" "\<not> d < 0x10000"
  then have ge: "0x10000 \<le> c" "0x10000 \<le> d" by simp_all
  obtain h1 l1 where 1: "utf16_char c = [h1 div 256, h1 mod 256, l1 div 256, l1 mod 256]"
    "c = 0x10000 + (h1 - 0xD800) * 0x400 + (l1 - 0xDC00)" by (rule utf16_big [OF ge(1) c])
  obtain h2 l2 where 2: "utf16_char d = [h2 div 256, h2 mod 256, l2 div 256, l2 mod 256]"
    "d = 0x10000 + (h2 - 0xD800) * 0x400 + (l2 - 0xDC00)" by (rule utf16_big [OF ge(2) d])
  have "h1 = h2" "l1 = l2" "x = y" using eq 1(1) 2(1) by (auto intro: div_mod_eq)
  with 1(2) 2(2) show ?thesis by simp
qed

lemma key_units_inj:
  "list_all is_scalar s \<Longrightarrow> list_all is_scalar t \<Longrightarrow> key_units s = key_units t \<Longrightarrow> s = t"
proof (induction s arbitrary: t)
  case Nil
  then show ?case by (cases t) (auto simp: key_units_def utf16_char_def Let_def split: if_splits)
next
  case (Cons c s)
  show ?case
  proof (cases t)
    case Nil
    with Cons.prems show ?thesis by (auto simp: key_units_def utf16_char_def Let_def split: if_splits)
  next
    case t: (Cons d t')
    with Cons.prems utf16_char_prefix [of c d "key_units s" "key_units t'"]
    have "c = d" "key_units s = key_units t'" by (simp_all add: key_units_def)
    with Cons.IH [of t'] Cons.prems t show ?thesis by simp
  qed
qed

lemma canon_arr: "canon_of (JArr xs) = canon_of (JArr ys) \<longleftrightarrow> list_all2 (\<lambda>v w. canon_of v = canon_of w) xs ys"
proof -
  have "map canon_of xs = map canon_of ys \<longleftrightarrow> list_all2 (\<lambda>v w. canon_of v = canon_of w) xs ys"
    by (induction xs arbitrary: ys) (auto simp: list_all2_Cons1 map_eq_Cons_conv)
  then show ?thesis by simp
qed

definition keys_valid :: "struct \<Rightarrow> bool" where
  "keys_valid d \<longleftrightarrow> dict_ok d \<and> list_all (\<lambda>e. list_all is_scalar (fst e)) d"

lemma sort_members_eq:
  assumes "keys_valid d" "keys_valid e"
  defines "m \<equiv> \<lambda>d. map (\<lambda>e. (fst e, canon_of (snd e))) (d :: struct)"
  shows "sort_key (\<lambda>e. key_units (fst e)) (m d) = sort_key (\<lambda>e. key_units (fst e)) (m e) \<longleftrightarrow> set (m d) = set (m e)"
proof
  let ?k = "\<lambda>e :: ustr \<times> canon. key_units (fst e)"
  assume "sort_key ?k (m d) = sort_key ?k (m e)"
  then show "set (m d) = set (m e)" by (metis set_sort)
next
  let ?k = "\<lambda>e :: ustr \<times> canon. key_units (fst e)"
  have dist: "distinct (map ?k (sort_key ?k (m c)))" if "keys_valid c" for c
  proof -
    have "inj_on key_units (fst ` set (m c))"
    proof (rule inj_onI)
      fix a b assume "a \<in> fst ` set (m c)" "b \<in> fst ` set (m c)" and eq: "key_units a = key_units b"
      then have "list_all is_scalar a" "list_all is_scalar b"
        using that by (auto simp: keys_valid_def m_def list_all_iff)
      then show "a = b" using eq by (rule key_units_inj)
    qed
    moreover have "distinct (map fst (m c))" using that by (simp add: keys_valid_def dict_ok_def m_def comp_def)
    ultimately have "distinct (map ?k (m c))"
      using comp_inj_on [of fst "set (m c)" key_units] by (simp add: distinct_map comp_def)
    then show ?thesis by (simp only: distinct_map distinct_sort set_sort)
  qed
  assume eq: "set (m d) = set (m e)"
  have inj: "inj_on ?k (set (m d) \<union> set (m e))"
  proof (rule inj_onI)
    fix a b assume "a \<in> set (m d) \<union> set (m e)" "b \<in> set (m d) \<union> set (m e)" "?k a = ?k b"
    then have ab: "a \<in> set (m d)" "b \<in> set (m d)" "?k a = ?k b" using eq by simp_all
    with dist [OF assms(1)] show "a = b" by (simp add: distinct_map inj_on_def)
  qed
  show "sort_key ?k (m d) = sort_key ?k (m e)"
    by (rule map_sorted_distinct_set_unique [where f = ?k]) (use inj eq dist assms(1,2) in simp_all)
qed

lemma dict_set_eq:
  fixes a b :: "('a, 'b) dict"
  assumes "dict_ok a" "dict_ok b"
  shows "set a = set b \<longleftrightarrow> (\<forall>k. map_of a k = map_of b k)"
proof
  assume eq: "set a = set b"
  show "\<forall>k. map_of a k = map_of b k"
  proof
    fix k
    have iff: "map_of a k = Some v \<longleftrightarrow> map_of b k = Some v" for v
      unfolding dict_ok_map_of [OF assms(1), symmetric] dict_ok_map_of [OF assms(2), symmetric] eq ..
    show "map_of a k = map_of b k"
    proof (cases "map_of b k")
      case None
      with iff [of "the (map_of a k)"] show ?thesis by (cases "map_of a k") simp_all
    next
      case (Some v)
      with iff [of v] show ?thesis by simp
    qed
  qed
next
  assume eq: "\<forall>k. map_of a k = map_of b k"
  show "set a = set b"
  proof (rule set_eqI)
    fix e :: "'a \<times> 'b"
    obtain k v where e: "e = (k, v)" by (cases e) auto
    show "e \<in> set a \<longleftrightarrow> e \<in> set b"
      unfolding e dict_ok_map_of [OF assms(1)] dict_ok_map_of [OF assms(2)] eq [rule_format, of k] ..
  qed
qed

lemma canon_obj:
  assumes "keys_valid d" "keys_valid e"
  shows "canon_of (JObj d) = canon_of (JObj e) \<longleftrightarrow>
    (\<forall>k. map_option canon_of (map_of d k) = map_option canon_of (map_of e k))"
proof -
  let ?m = "\<lambda>d. map (\<lambda>e. (fst e, canon_of (snd e))) (d :: struct)"
  have m: "map_of (?m c) k = map_option canon_of (map_of c k)" for c k
    by (induction c) simp_all
  have "dict_ok (?m d)" "dict_ok (?m e)" using assms by (simp_all add: keys_valid_def dict_ok_def comp_def)
  from dict_set_eq [OF this] sort_members_eq [OF assms] show ?thesis by (simp add: m)
qed

end
