(* ===== verification/Proto_Utils.thy ===== *)
theory Proto_Utils
  imports Jcs_Canon Jsonrpc
begin

text \<open>
  \<^verbatim>\<open>utils/proto_utils.py\<close>: the treatment of integers that do not fit a JSON number, the query
  parameters of a REST call, and the validation of required fields.

  \<^item> A Python value is a \<open>py\<close>; an object of another class is known by its \<^verbatim>\<open>str\<close>. The keys of
    dictionaries are any values.
  \<^item> Texts are lists of code points. What Unicode says of digits is the record \<open>unicode\<close>.
  \<^item> A message is the list of its descriptor's fields with what is set; a query is the list of its
    pairs.
\<close>

subsection \<open>Python values\<close>

datatype 'k py =
    PyNone
  | PyBool bool
  | PyInt int
  | PyFloat pyfloat
  | PyStr ustr
  | PyList "'k py list"
  | PyTuple "'k py list"
  | PyDict "('k \<times> 'k py) list"
  | PyObject ustr

text \<open>CPython refuses to convert between texts and integers of more than 4300 digits.\<close>

definition INT_MAX_STR_DIGITS :: nat where
  "INT_MAX_STR_DIGITS = 4300"

definition py_int_str :: "int \<Rightarrow> exn + ustr" where
  "py_int_str i =
     (if INT_MAX_STR_DIGITS < length (nat_str (nat \<bar>i\<bar>))
      then Inl (ValueError ''Exceeds the limit (4300 digits) for integer string conversion'')
      else Inr (to_ustr (int_str i)))"

text \<open>\<^verbatim>\<open>str.isdigit\<close> of a character, and its decimal value where \<^verbatim>\<open>int\<close> knows one.\<close>

record unicode =
  un_isdigit :: "nat \<Rightarrow> bool"
  un_decimal :: "nat \<Rightarrow> nat option"

definition unicode_ok :: "unicode \<Rightarrow> bool" where
  "unicode_ok u \<longleftrightarrow> list_all (\<lambda>d. un_isdigit u (48 + d) \<and> un_decimal u (48 + d) = Some d) [0..<10] \<and>
     \<not> un_isdigit u 45"

definition py_isdigit :: "unicode \<Rightarrow> ustr \<Rightarrow> bool" where
  "py_isdigit u s \<longleftrightarrow> s \<noteq> [] \<and> list_all (un_isdigit u) s"

text \<open>\<^verbatim>\<open>int(s)\<close> of a text of hyphens and digits.\<close>

definition py_str_int :: "unicode \<Rightarrow> ustr \<Rightarrow> exn + int" where
  "py_str_int u s =
     (let neg = (s \<noteq> [] \<and> hd s = 45); ds = (if neg then tl s else s)
      in if ds = [] \<or> \<not> list_all (\<lambda>c. un_decimal u c \<noteq> None) ds
         then Inl (ValueError ''invalid literal for int() with base 10'')
         else if INT_MAX_STR_DIGITS < length ds
         then Inl (ValueError ''Exceeds the limit (4300 digits) for integer string conversion'')
         else let n = int (fold (\<lambda>c n. 10 * n + the (un_decimal u c)) ds 0) in Inr (if neg then - n else n))"

fun make_dict_serializable :: "'k py \<Rightarrow> 'k py" where
  "make_dict_serializable (PyDict d) = PyDict (map (\<lambda>(k, v). (k, make_dict_serializable v)) d)"
| "make_dict_serializable (PyList xs) = PyList (map make_dict_serializable xs)"
| "make_dict_serializable (PyTuple xs) = PyList (map make_dict_serializable xs)"
| "make_dict_serializable (PyObject s) = PyStr s"
| "make_dict_serializable v = v"

definition max_safe_int :: "nat \<Rightarrow> int" where
  "max_safe_int d = 10 ^ d - 1"

definition bool_int :: "bool \<Rightarrow> int" where
  "bool_int b = (if b then 1 else 0)"

lemma py_list_size: "x \<in> set xs \<Longrightarrow> size x < Suc (size_list size xs)"
  by (induction xs) auto

lemma py_dict_size: "e \<in> set m \<Longrightarrow> size (snd e) < Suc (size_list (size_prod (\<lambda>x. 0) size) m)"
  by (induction m) (auto simp: less_Suc_eq_le)

text \<open>A bool is an int, too.\<close>

function normalize_large_integers_to_strings :: "nat \<Rightarrow> 'k py \<Rightarrow> exn + 'k py" where
  "normalize_large_integers_to_strings d (PyInt i) =
     (if max_safe_int d < \<bar>i\<bar> then rbind (py_int_str i) (\<lambda>s. Inr (PyStr s)) else Inr (PyInt i))"
| "normalize_large_integers_to_strings d (PyBool b) =
     Inr (if max_safe_int d < \<bar>bool_int b\<bar> then PyStr (to_ustr (if b then ''True'' else ''False'')) else PyBool b)"
| "normalize_large_integers_to_strings d (PyDict m) =
     rbind (rmap_list (\<lambda>e. rbind (normalize_large_integers_to_strings d (snd e)) (\<lambda>w. Inr (fst e, w))) m) (\<lambda>m'. Inr (PyDict m'))"
| "normalize_large_integers_to_strings d (PyList xs) =
     rbind (rmap_list (normalize_large_integers_to_strings d) xs) (\<lambda>ys. Inr (PyList ys))"
| "normalize_large_integers_to_strings d (PyTuple xs) =
     rbind (rmap_list (normalize_large_integers_to_strings d) xs) (\<lambda>ys. Inr (PyList ys))"
| "normalize_large_integers_to_strings d PyNone = Inr PyNone"
| "normalize_large_integers_to_strings d (PyFloat f) = Inr (PyFloat f)"
| "normalize_large_integers_to_strings d (PyStr s) = Inr (PyStr s)"
| "normalize_large_integers_to_strings d (PyObject s) = Inr (PyObject s)"
  by pat_completeness auto

termination normalize_large_integers_to_strings
  by (relation "measure (\<lambda>(d, v). size v)") (auto intro: py_list_size py_dict_size)

definition big_digits :: "unicode \<Rightarrow> nat \<Rightarrow> ustr \<Rightarrow> bool" where
  "big_digits u d s \<longleftrightarrow> (let r = dropWhile (\<lambda>c. c = 45) s in py_isdigit u r \<and> d < length r)"

function parse_string_integers_in_dict :: "unicode \<Rightarrow> nat \<Rightarrow> 'k py \<Rightarrow> exn + 'k py" where
  "parse_string_integers_in_dict u d (PyDict m) =
     rbind (rmap_list (\<lambda>e. rbind (parse_string_integers_in_dict u d (snd e)) (\<lambda>w. Inr (fst e, w))) m) (\<lambda>m'. Inr (PyDict m'))"
| "parse_string_integers_in_dict u d (PyList xs) =
     rbind (rmap_list (parse_string_integers_in_dict u d) xs) (\<lambda>ys. Inr (PyList ys))"
| "parse_string_integers_in_dict u d (PyTuple xs) =
     rbind (rmap_list (parse_string_integers_in_dict u d) xs) (\<lambda>ys. Inr (PyList ys))"
| "parse_string_integers_in_dict u d (PyStr s) =
     (if big_digits u d s then rbind (py_str_int u s) (\<lambda>i. Inr (PyInt i)) else Inr (PyStr s))"
| "parse_string_integers_in_dict u d PyNone = Inr PyNone"
| "parse_string_integers_in_dict u d (PyBool b) = Inr (PyBool b)"
| "parse_string_integers_in_dict u d (PyInt i) = Inr (PyInt i)"
| "parse_string_integers_in_dict u d (PyFloat f) = Inr (PyFloat f)"
| "parse_string_integers_in_dict u d (PyObject s) = Inr (PyObject s)"
  by pat_completeness auto

termination parse_string_integers_in_dict
  by (relation "measure (\<lambda>(u, d, v). size v)") (auto intro: py_list_size py_dict_size)

subsection \<open>Texts of integers\<close>

lemma nat_str_length: "0 < d \<Longrightarrow> length (nat_str n) \<le> d \<longleftrightarrow> n < 10 ^ d"
proof (induction n arbitrary: d rule: nat_str.induct)
  case (1 n)
  show ?case
  proof (cases "n < 10")
    case True
    moreover have "10 ^ 1 \<le> (10 :: nat) ^ d" using 1(2) by (intro power_increasing) simp_all
    ultimately show ?thesis using 1(2) by (simp add: nat_str.simps [of n])
  next
    case False
    show ?thesis
    proof (cases "d = 1")
      case True
      with False show ?thesis by (simp add: nat_str.simps [of n])
    next
      case d: False
      then obtain e where e: "d = Suc e" "0 < e" using 1(2) by (cases d) auto
      have "length (nat_str n) \<le> d \<longleftrightarrow> n div 10 < 10 ^ e"
        using 1(1) [OF False e(2)] False e(1) by (simp add: nat_str.simps [of n])
      also have "\<dots> \<longleftrightarrow> n < 10 ^ d" unfolding e(1) power_Suc by (simp add: div_less_iff_less_mult mult.commute)
      finally show ?thesis .
    qed
  qed
qed

lemma too_big_iff: "0 < d \<Longrightarrow> max_safe_int d < \<bar>i\<bar> \<longleftrightarrow> d < length (nat_str (nat \<bar>i\<bar>))"
proof -
  assume "0 < d"
  have "max_safe_int d < \<bar>i\<bar> \<longleftrightarrow> \<not> nat \<bar>i\<bar> < 10 ^ d"
    by (simp add: max_safe_int_def nat_less_iff not_less) linarith
  with nat_str_length [OF \<open>0 < d\<close>, of "nat \<bar>i\<bar>"] show ?thesis by auto
qed

lemma digit_code: "d < 10 \<Longrightarrow> (of_char (digit_char d) :: nat) = 48 + d"
  by (simp add: digit_char_def)

lemma unicode_digit:
  assumes "unicode_ok u" "d < 10"
  shows "un_isdigit u (48 + d)" "un_decimal u (48 + d) = Some d"
  using assms by (auto simp: unicode_ok_def list_all_iff)

lemma digits_text:
  assumes u: "unicode_ok u" and s: "list_all (\<lambda>c. \<exists>d<10. c = digit_char d) s"
  shows "list_all (un_isdigit u) (to_ustr s)" "list_all (\<lambda>c. un_decimal u c \<noteq> None) (to_ustr s)"
    "45 \<notin> set (to_ustr s)"
    "fold (\<lambda>c n. 10 * n + the (un_decimal u c)) (to_ustr s) k = fold (\<lambda>c n. 10 * n + char_digit c) s k"
  using s
proof (induction s arbitrary: k)
  case (Cons c s)
  {
    case 1 then show ?case using Cons unicode_digit [OF u] by (auto simp: to_ustr_def digit_code)
  next
    case 2 then show ?case using Cons unicode_digit [OF u] by (auto simp: to_ustr_def digit_code)
  next
    case 3 then show ?case using Cons by (auto simp: to_ustr_def digit_code)
  next
    case 4 then show ?case using Cons unicode_digit [OF u] by (auto simp: to_ustr_def digit_code digit_char_class)
  }
qed (simp_all add: to_ustr_def)

lemma hyphens_dropped: "45 \<notin> set s \<Longrightarrow> dropWhile (\<lambda>c. c = (45 :: nat)) s = s"
  by (cases s) auto

lemma int_str_ustr:
  "to_ustr (int_str i) = (if i < 0 then [45] else []) @ to_ustr (nat_str (nat \<bar>i\<bar>))"
  by (simp add: int_str_def to_ustr_def)

lemma int_str_parts:
  assumes u: "unicode_ok u"
  shows "dropWhile (\<lambda>c. c = 45) (to_ustr (int_str i)) = to_ustr (nat_str (nat \<bar>i\<bar>))"
    and "big_digits u d (to_ustr (int_str i)) \<longleftrightarrow> d < length (nat_str (nat \<bar>i\<bar>))"
    and "length (nat_str (nat \<bar>i\<bar>)) \<le> INT_MAX_STR_DIGITS \<Longrightarrow> py_str_int u (to_ustr (int_str i)) = Inr i"
proof -
  let ?s = "nat_str (nat \<bar>i\<bar>)"
  note t = digits_text [OF u nat_str_digits [of "nat \<bar>i\<bar>"]]
  have ne: "to_ustr ?s \<noteq> []" by (simp add: to_ustr_def)
  show d: "dropWhile (\<lambda>c. c = 45) (to_ustr (int_str i)) = to_ustr ?s"
    using hyphens_dropped [OF t(3)] by (cases "i < 0") (simp_all add: int_str_ustr)
  show "big_digits u d (to_ustr (int_str i)) \<longleftrightarrow> d < length ?s"
    unfolding big_digits_def Let_def d py_isdigit_def using t(1) ne by (simp add: to_ustr_def)
  show "py_str_int u (to_ustr (int_str i)) = Inr i" if le: "length ?s \<le> INT_MAX_STR_DIGITS"
  proof (cases "i < 0")
    case True
    then have s: "to_ustr (int_str i) = 45 # to_ustr ?s" by (simp add: int_str_ustr)
    show ?thesis
      unfolding s py_str_int_def Let_def using True le t(2) ne t(4) [of 0] digits_nat_str [of "nat \<bar>i\<bar>"]
      by (simp add: digits_nat_def) (simp add: to_ustr_def)
  next
    case False
    then have s: "to_ustr (int_str i) = to_ustr ?s" by (simp add: int_str_ustr)
    have "hd (to_ustr ?s) \<noteq> 45" using t(3) ne hd_in_set [OF ne] by metis
    then show ?thesis
      unfolding s py_str_int_def Let_def using False le t(2) ne t(4) [of 0] digits_nat_str [of "nat \<bar>i\<bar>"]
      by (simp add: digits_nat_def) (simp add: to_ustr_def)
  qed
qed

subsection \<open>Round trip\<close>

text \<open>A value with lists for tuples; one whose texts the parser leaves alone; one of which every integer has a text.\<close>

fun listed :: "'k py \<Rightarrow> 'k py" where
  "listed (PyDict m) = PyDict (map (\<lambda>(k, v). (k, listed v)) m)"
| "listed (PyList xs) = PyList (map listed xs)"
| "listed (PyTuple xs) = PyList (map listed xs)"
| "listed v = v"

fun py_all :: "('k py \<Rightarrow> bool) \<Rightarrow> 'k py \<Rightarrow> bool" where
  "py_all P (PyDict m) \<longleftrightarrow> P (PyDict m) \<and> list_all (\<lambda>(k, v). py_all P v) m"
| "py_all P (PyList xs) \<longleftrightarrow> P (PyList xs) \<and> list_all (py_all P) xs"
| "py_all P (PyTuple xs) \<longleftrightarrow> P (PyTuple xs) \<and> list_all (py_all P) xs"
| "py_all P v \<longleftrightarrow> P v"

fun text_ok :: "unicode \<Rightarrow> nat \<Rightarrow> 'k py \<Rightarrow> bool" where
  "text_ok u d (PyStr s) \<longleftrightarrow> \<not> big_digits u d s"
| "text_ok u d v \<longleftrightarrow> True"

fun int_ok :: "'k py \<Rightarrow> bool" where
  "int_ok (PyInt i) \<longleftrightarrow> length (nat_str (nat \<bar>i\<bar>)) \<le> INT_MAX_STR_DIGITS"
| "int_ok v \<longleftrightarrow> True"

fun int_small :: "nat \<Rightarrow> 'k py \<Rightarrow> bool" where
  "int_small d (PyInt i) \<longleftrightarrow> \<bar>i\<bar> \<le> max_safe_int d"
| "int_small d v \<longleftrightarrow> True"

text \<open>Of no limit beyond the text limit, the conversion succeeds when every integer has a text.\<close>

lemma bool_safe: "0 < d \<Longrightarrow> \<bar>bool_int b\<bar> \<le> max_safe_int d"
proof -
  assume "0 < d"
  then have "10 ^ 1 \<le> (10 :: int) ^ d" by (intro power_increasing) simp_all
  then show ?thesis by (simp add: bool_int_def max_safe_int_def)
qed

lemma normalize_succeeds:
  "0 < d \<Longrightarrow> py_all int_ok v \<Longrightarrow> \<not> isl (normalize_large_integers_to_strings d v)"
proof (induction d v rule: normalize_large_integers_to_strings.induct)
  case (3 d m)
  then have "\<not> isl (rmap_list (\<lambda>e. rbind (normalize_large_integers_to_strings d (snd e)) (\<lambda>w. Inr (fst e, w))) m)"
    by (intro rmap_list_not_Inl) (fastforce simp: list_all_iff isl_def rbind_def split: sum.splits)
  then show ?case by (auto simp: isl_def rbind_def split: sum.splits)
next
  case (4 d xs)
  then have "\<not> isl (rmap_list (normalize_large_integers_to_strings d) xs)"
    by (intro rmap_list_not_Inl) (auto simp: list_all_iff)
  then show ?case by (auto simp: isl_def rbind_def split: sum.splits)
next
  case (5 d xs)
  then have "\<not> isl (rmap_list (normalize_large_integers_to_strings d) xs)"
    by (intro rmap_list_not_Inl) (auto simp: list_all_iff)
  then show ?case by (auto simp: isl_def rbind_def split: sum.splits)
qed (auto simp: py_int_str_def)

text \<open>What is left of the integers is small.\<close>

lemma normalize_list_all:
  assumes "rmap_list f xs = Inr ys" "\<And>x y. x \<in> set xs \<Longrightarrow> f x = Inr y \<Longrightarrow> P y"
  shows "list_all P ys"
  using assms
proof (induction xs arbitrary: ys)
  case (Cons x xs)
  then obtain y zs where y: "f x = Inr y" "rmap_list f xs = Inr zs" "ys = y # zs"
    by (auto split: sum.splits)
  have "list_all P zs" by (rule Cons.IH [OF y(2)]) (auto intro: Cons.prems(2))
  moreover have "P y" by (rule Cons.prems(2) [OF _ y(1)]) simp
  ultimately show ?case by (simp add: y)
qed simp

lemma normalize_small:
  "normalize_large_integers_to_strings d v = Inr w \<Longrightarrow> py_all (int_small d) w"
proof (induction d v arbitrary: w rule: normalize_large_integers_to_strings.induct)
  case (3 d m)
  then obtain m' where m': "rmap_list (\<lambda>e. rbind (normalize_large_integers_to_strings d (snd e)) (\<lambda>w. Inr (fst e, w))) m = Inr m'"
    "w = PyDict m'" by auto
  have "list_all (\<lambda>(k, v). py_all (int_small d) v) m'"
    by (rule normalize_list_all [OF m'(1)]) (use 3 in auto)
  with m'(2) show ?case by simp
next
  case (4 d xs)
  then obtain ys where ys: "rmap_list (normalize_large_integers_to_strings d) xs = Inr ys" "w = PyList ys" by auto
  have "list_all (py_all (int_small d)) ys" by (rule normalize_list_all [OF ys(1)]) (use 4 in auto)
  with ys(2) show ?case by simp
next
  case (5 d xs)
  then obtain ys where ys: "rmap_list (normalize_large_integers_to_strings d) xs = Inr ys" "w = PyList ys" by auto
  have "list_all (py_all (int_small d)) ys" by (rule normalize_list_all [OF ys(1)]) (use 5 in auto)
  with ys(2) show ?case by simp
qed (auto split: if_splits)

text \<open>Parsing a normalised value gives it back, with lists for tuples.\<close>

lemma parse_normalize:
  assumes u: "unicode_ok u" and d: "0 < d"
  shows "normalize_large_integers_to_strings d v = Inr w \<Longrightarrow> py_all (text_ok u d) v \<Longrightarrow>
    parse_string_integers_in_dict u d w = Inr (listed v)"
  using d
proof (induction d v arbitrary: w rule: normalize_large_integers_to_strings.induct)
  case (1 d i)
  show ?case
  proof (cases "max_safe_int d < \<bar>i\<bar>")
    case True
    with 1 have w: "w = PyStr (to_ustr (int_str i))" "length (nat_str (nat \<bar>i\<bar>)) \<le> INT_MAX_STR_DIGITS"
      by (auto simp: py_int_str_def split: if_splits)
    from True too_big_iff 1(3) have "d < length (nat_str (nat \<bar>i\<bar>))" by blast
    with w int_str_parts(2) [OF u, of d i] int_str_parts(3) [OF u, of i] show ?thesis by simp
  qed (use 1 in auto)
next
  case (2 d b)
  with bool_safe [of d b] show ?case by auto
next
  case (3 d m)
  then obtain m' where m': "rmap_list (\<lambda>e. rbind (normalize_large_integers_to_strings d (snd e)) (\<lambda>w. Inr (fst e, w))) m = Inr m'"
    "w = PyDict m'" by auto
  have "rmap_list (\<lambda>e. rbind (parse_string_integers_in_dict u d (snd e)) (\<lambda>w. Inr (fst e, w))) m' =
      Inr (map (\<lambda>(k, v). (k, listed v)) m)"
    by (rule rmap_list_back [OF m'(1)]) (use 3 in \<open>fastforce simp: list_all_iff\<close>)
  with m'(2) show ?case by simp
next
  case (4 d xs)
  then obtain ys where ys: "rmap_list (normalize_large_integers_to_strings d) xs = Inr ys" "w = PyList ys" by auto
  have "rmap_list (parse_string_integers_in_dict u d) ys = Inr (map listed xs)"
    by (rule rmap_list_back [OF ys(1)]) (use 4 in \<open>auto simp: list_all_iff\<close>)
  with ys(2) show ?case by simp
next
  case (5 d xs)
  then obtain ys where ys: "rmap_list (normalize_large_integers_to_strings d) xs = Inr ys" "w = PyList ys" by auto
  have "rmap_list (parse_string_integers_in_dict u d) ys = Inr (map listed xs)"
    by (rule rmap_list_back [OF ys(1)]) (use 5 in \<open>auto simp: list_all_iff\<close>)
  with ys(2) show ?case by simp
qed auto

text \<open>A text of two hyphens and many digits is taken for an integer, and \<^verbatim>\<open>int\<close> raises.\<close>

lemma two_hyphens_raise:
  assumes "unicode_ok u" "un_decimal u 45 = None" "list_all (un_isdigit u) s" "s \<noteq> []" "d < length s" "45 \<notin> set s"
  shows "isl (parse_string_integers_in_dict u d (PyStr (45 # 45 # s)))"
  using assms hyphens_dropped [OF assms(6)] by (simp add: big_digits_def py_isdigit_def py_str_int_def Let_def)

subsection \<open>Query parameters\<close>

text \<open>A field of a message's descriptor, and the values that are handed to \<^verbatim>\<open>ParseDict\<close>.\<close>

record query_field =
  qf_camelcase_name :: string
  qf_repeated :: bool
  qf_bool :: bool

datatype param = ManyValues "string list" | OneValue string | BoolValue bool

definition parse_param :: "query_field \<Rightarrow> string list \<Rightarrow> param" where
  "parse_param f vs =
     (if qf_repeated f then ManyValues (concat (map (\<lambda>v. filter (\<lambda>x. x \<noteq> []) (split_comma v)) (filter (\<lambda>v. v \<noteq> []) vs)))
      else if qf_bool f then BoolValue (lower_string (last vs) = ''true'')
      else OneValue (last vs))"

text \<open>The keys in the order of their first pair; of two fields with one name the later one counts.\<close>

definition query_keys :: "(string \<times> string) list \<Rightarrow> string list" where
  "query_keys q = rev (remdups (rev (map fst q)))"

definition query_getlist :: "(string \<times> string) list \<Rightarrow> string \<Rightarrow> string list" where
  "query_getlist q k = map snd (filter (\<lambda>(k', v). k' = k) q)"

definition field_named :: "query_field list \<Rightarrow> string \<Rightarrow> query_field option" where
  "field_named fs k = map_of (rev (map (\<lambda>f. (qf_camelcase_name f, f)) fs)) k"

definition parse_params :: "query_field list \<Rightarrow> (string \<times> string) list \<Rightarrow> (string \<times> param) list" where
  "parse_params fs q =
     concat (map (\<lambda>k. case field_named fs k of None \<Rightarrow> [] | Some f \<Rightarrow> [(k, parse_param f (query_getlist q k))]) (query_keys q))"

lemma query_keys_set [simp]: "set (query_keys q) = fst ` set q"
  by (simp add: query_keys_def)

lemma parse_params_lookup:
  "map_of (parse_params fs q) k =
     (if k \<in> fst ` set q then map_option (\<lambda>f. parse_param f (query_getlist q k)) (field_named fs k) else None)"
proof -
  have "map_of (concat (map (\<lambda>k. case field_named fs k of None \<Rightarrow> [] | Some f \<Rightarrow> [(k, g k f)]) ks)) k =
      (if k \<in> set ks then map_option (g k) (field_named fs k) else None)" for ks and g :: "string \<Rightarrow> query_field \<Rightarrow> param"
    by (induction ks) (auto simp: map_add_def split: option.splits)
  from this [of "\<lambda>k f. parse_param f (query_getlist q k)" "query_keys q"] show ?thesis
    by (simp add: parse_params_def)
qed

lemma split_comma_ne: "split_comma s \<noteq> []"
  by (cases s) (auto split: list.split)

lemma split_comma_join:
  "split_comma (a @ CHR '','' # b) = split_comma a @ split_comma b"
proof (induction a)
  case (Cons c a)
  then show ?case using split_comma_ne [of a] by (auto split: list.splits)
qed simp

text \<open>Values with commas say the same as repeated keys.\<close>

lemma commas_are_repetition:
  assumes "field_named fs k = Some f" "qf_repeated f"
  shows "map_of (parse_params fs (q1 @ (k, a @ CHR '','' # b) # q2)) = map_of (parse_params fs (q1 @ (k, a) # (k, b) # q2))"
proof
  fix k'
  have [simp]: "filter (\<lambda>x. x \<noteq> []) (split_comma []) = []" by simp
  show "map_of (parse_params fs (q1 @ (k, a @ CHR '','' # b) # q2)) k' = map_of (parse_params fs (q1 @ (k, a) # (k, b) # q2)) k'"
    using assms
    by (cases "k' = k") (auto simp: parse_params_lookup query_getlist_def parse_param_def split_comma_join)
qed

subsection \<open>Required fields\<close>

text \<open>
  What a field holds: a scalar without presence, at its default or not; a scalar with presence; a
  message; a list; a map, of messages or of others.
\<close>

datatype proto_message = ProtoMessage "(string \<times> bool \<times> field_value) list"
  and field_value =
    Scalar bool
  | Optional bool
  | SubMessage "proto_message option"
  | Repeated nat
  | RepeatedMessages "proto_message list"
  | MapField "(string \<times> proto_message option) list"

definition no_element :: string where
  "no_element = ''Field must contain at least one element.''"

definition field_required :: string where
  "field_required = ''Field is required.''"

fun check_required_field_violation :: "string \<Rightarrow> field_value \<Rightarrow> validation_detail list" where
  "check_required_field_violation n (Repeated k) = (if k = 0 then [\<lparr>vd_field = n, vd_message = no_element\<rparr>] else [])"
| "check_required_field_violation n (RepeatedMessages ms) = (if ms = [] then [\<lparr>vd_field = n, vd_message = no_element\<rparr>] else [])"
| "check_required_field_violation n (MapField ms) = (if ms = [] then [\<lparr>vd_field = n, vd_message = no_element\<rparr>] else [])"
| "check_required_field_violation n (Optional present) = (if present then [] else [\<lparr>vd_field = n, vd_message = field_required\<rparr>])"
| "check_required_field_violation n (SubMessage m) = (if m = None then [\<lparr>vd_field = n, vd_message = field_required\<rparr>] else [])"
| "check_required_field_violation n (Scalar def) = (if def then [\<lparr>vd_field = n, vd_message = field_required\<rparr>] else [])"

definition nested_errors :: "string \<Rightarrow> validation_detail list \<Rightarrow> validation_detail list" where
  "nested_errors prefix errs =
     map (\<lambda>e. e\<lparr>vd_field := if vd_field e \<noteq> [] then prefix @ ''.'' @ vd_field e else prefix\<rparr>) errs"

definition bracket :: "string \<Rightarrow> string \<Rightarrow> string" where
  "bracket n k = n @ ''['' @ k @ '']''"

fun validate_internal :: "proto_message \<Rightarrow> validation_detail list"
  and validate_fields :: "(string \<times> bool \<times> field_value) list \<Rightarrow> validation_detail list"
  and recurse_validation :: "string \<Rightarrow> field_value \<Rightarrow> validation_detail list"
  and validate_items :: "string \<Rightarrow> nat \<Rightarrow> proto_message list \<Rightarrow> validation_detail list"
  and validate_entries :: "string \<Rightarrow> (string \<times> proto_message option) list \<Rightarrow> validation_detail list" where
  "validate_internal (ProtoMessage fs) = validate_fields fs"
| "validate_fields [] = []"
| "validate_fields ((n, required, v) # fs) =
     (if required then check_required_field_violation n v else []) @ recurse_validation n v @ validate_fields fs"
| "recurse_validation n (Scalar d) = []"
| "recurse_validation n (Optional s) = []"
| "recurse_validation n (Repeated k) = []"
| "recurse_validation n (SubMessage None) = []"
| "recurse_validation n (SubMessage (Some m)) = nested_errors n (validate_internal m)"
| "recurse_validation n (MapField es) = validate_entries n es"
| "recurse_validation n (RepeatedMessages ms) = validate_items n 0 ms"
| "validate_items n i [] = []"
| "validate_items n i (m # ms) = nested_errors (bracket n (nat_str i)) (validate_internal m) @ validate_items n (Suc i) ms"
| "validate_entries n [] = []"
| "validate_entries n ((k, None) # es) = validate_entries n es"
| "validate_entries n ((k, Some m) # es) = nested_errors (bracket n k) (validate_internal m) @ validate_entries n es"

definition validate_proto_required_fields :: "proto_message \<Rightarrow> exn + unit" where
  "validate_proto_required_fields m =
     (let errors = validate_internal m
      in if errors \<noteq> []
         then Inl (A2A (mk_error InvalidParamsError (Some ''Validation failed'') (Some \<lparr>ed_errors = Some errors, ed_other = []\<rparr>)))
         else Inr ())"

text \<open>The reference: every required field is filled, at every depth.\<close>

fun filled :: "field_value \<Rightarrow> bool" where
  "filled (Scalar def) = (\<not> def)"
| "filled (Optional present) = present"
| "filled (SubMessage m) = (m \<noteq> None)"
| "filled (Repeated k) = (0 < k)"
| "filled (RepeatedMessages ms) = (ms \<noteq> [])"
| "filled (MapField es) = (es \<noteq> [])"

inductive part_of :: "proto_message \<Rightarrow> proto_message \<Rightarrow> bool" where
  part_self: "part_of m m"
| part_sub: "part_of p m' \<Longrightarrow> (n, r, SubMessage (Some m')) \<in> set fs \<Longrightarrow> part_of p (ProtoMessage fs)"
| part_item: "part_of p m' \<Longrightarrow> (n, r, RepeatedMessages ms) \<in> set fs \<Longrightarrow> m' \<in> set ms \<Longrightarrow> part_of p (ProtoMessage fs)"
| part_entry: "part_of p m' \<Longrightarrow> (n, r, MapField es) \<in> set fs \<Longrightarrow> (k, Some m') \<in> set es \<Longrightarrow> part_of p (ProtoMessage fs)"

definition complete_message :: "proto_message \<Rightarrow> bool" where
  "complete_message m \<longleftrightarrow> (\<forall>fs n v. part_of (ProtoMessage fs) m \<longrightarrow> (n, True, v) \<in> set fs \<longrightarrow> filled v)"

lemma violation_iff: "check_required_field_violation n v = [] \<longleftrightarrow> filled v"
  by (cases v) auto

lemma nested_errors_Nil [simp]: "nested_errors p errs = [] \<longleftrightarrow> errs = []"
  by (simp add: nested_errors_def)

inductive_cases part_ofE: "part_of p (ProtoMessage fs)"

fun sub_messages :: "field_value \<Rightarrow> proto_message list" where
  "sub_messages (SubMessage (Some m)) = [m]"
| "sub_messages (RepeatedMessages ms) = ms"
| "sub_messages (MapField es) = concat (map (\<lambda>(k, m). case m of None \<Rightarrow> [] | Some x \<Rightarrow> [x]) es)"
| "sub_messages _ = []"

lemma part_of_iff:
  "part_of p (ProtoMessage fs) \<longleftrightarrow> p = ProtoMessage fs \<or> (\<exists>n r v m. (n, r, v) \<in> set fs \<and> m \<in> set (sub_messages v) \<and> part_of p m)"
proof
  assume "part_of p (ProtoMessage fs)"
  then show "p = ProtoMessage fs \<or> (\<exists>n r v m. (n, r, v) \<in> set fs \<and> m \<in> set (sub_messages v) \<and> part_of p m)"
    by (elim part_ofE; fastforce)
next
  assume "p = ProtoMessage fs \<or> (\<exists>n r v m. (n, r, v) \<in> set fs \<and> m \<in> set (sub_messages v) \<and> part_of p m)"
  then show "part_of p (ProtoMessage fs)"
  proof (elim disjE exE conjE)
    fix n r v m assume v: "(n, r, v) \<in> set fs" "m \<in> set (sub_messages v)" "part_of p m"
    then show ?thesis by (cases v rule: sub_messages.cases) (auto intro: part_of.intros split: option.splits)
  qed (auto intro: part_self)
qed

lemma complete_iff:
  "complete_message (ProtoMessage fs) \<longleftrightarrow>
     (\<forall>(n, r, v) \<in> set fs. (r \<longrightarrow> filled v) \<and> list_all complete_message (sub_messages v))"
  (is "?l \<longleftrightarrow> ?r")
proof
  assume l: ?l
  have "filled v" if "(n, True, v) \<in> set fs" for n v
    using l that part_self unfolding complete_message_def by blast
  moreover have "complete_message m" if "(n, r, v) \<in> set fs" "m \<in> set (sub_messages v)" for n r v m
    using l that unfolding complete_message_def part_of_iff [of _ fs] by blast
  ultimately show ?r by (auto simp: list_all_iff)
next
  assume r: ?r
  show ?l
    unfolding complete_message_def part_of_iff [of _ fs]
  proof (intro allI impI, elim disjE exE conjE)
    fix gs n v n' r' v' m
    assume "(n, True, v) \<in> set gs" "(n', r', v') \<in> set fs" "m \<in> set (sub_messages v')" "part_of (ProtoMessage gs) m"
    moreover from this(2,3) r have "complete_message m" by (auto simp: list_all_iff)
    ultimately show "filled v" unfolding complete_message_def by blast
  qed (use r in auto)
qed

lemma validate_iff:
  "validate_internal m = [] \<longleftrightarrow> complete_message m"
  "validate_fields fs = [] \<longleftrightarrow> (\<forall>(n, r, v) \<in> set fs. (r \<longrightarrow> filled v) \<and> list_all complete_message (sub_messages v))"
  "recurse_validation n v = [] \<longleftrightarrow> list_all complete_message (sub_messages v)"
  "validate_items n i ms = [] \<longleftrightarrow> list_all complete_message ms"
  "validate_entries n es = [] \<longleftrightarrow> list_all complete_message (sub_messages (MapField es))"
  by (induction m and fs and n v and n i ms and n es
      rule: validate_internal_validate_fields_recurse_validation_validate_items_validate_entries.induct)
    (auto simp: complete_iff violation_iff)

text \<open>\<^verbatim>\<open>BadRequest\<close> and back.\<close>

record field_violation =
  fv_field :: string
  fv_description :: string

definition validation_errors_to_bad_request :: "validation_detail list \<Rightarrow> field_violation list" where
  "validation_errors_to_bad_request = map (\<lambda>e. \<lparr>fv_field = vd_field e, fv_description = vd_message e\<rparr>)"

definition bad_request_to_validation_errors :: "field_violation list \<Rightarrow> validation_detail list" where
  "bad_request_to_validation_errors = map (\<lambda>v. \<lparr>vd_field = fv_field v, vd_message = fv_description v\<rparr>)"

lemma bad_request_round_trip: "bad_request_to_validation_errors (validation_errors_to_bad_request es) = es"
proof -
  have "(\<lambda>v. \<lparr>vd_field = fv_field v, vd_message = fv_description v\<rparr>) \<circ> (\<lambda>e. \<lparr>fv_field = vd_field e, fv_description = vd_message e\<rparr>) = id"
    by (simp add: fun_eq_iff)
  then show ?thesis
    by (simp add: bad_request_to_validation_errors_def validation_errors_to_bad_request_def)
qed

end
