(* ===== verification/Signing.thy ===== *)
theory Signing
  imports Jcs_Canon Agent_Card
begin

text \<open>
  Signatures of agent cards (\<^verbatim>\<open>utils/signing.py\<close>). The JWS library is the record \<open>jws_lib\<close>: the compact
  serialization, base64url, and the check of a token, whose exceptions are those of \<^verbatim>\<open>jwt\<close> or others.
  \<open>to_dict\<close> is \<^verbatim>\<open>MessageToDict\<close> of a card.
\<close>

datatype sign_exn =
    PyJWTError string | CanonicalizationError string | NoSignatureError | InvalidSignaturesError string
  | AttributeError string | OtherError exn

record 'k jws_lib =
  jw_encode :: "nat list \<Rightarrow> 'k \<Rightarrow> json \<Rightarrow> struct \<Rightarrow> sign_exn + string"
  jw_decode :: "string \<Rightarrow> 'k \<Rightarrow> string list \<Rightarrow> sign_exn + unit"
  jw_base64url_encode :: "nat list \<Rightarrow> string"
  jw_base64url_decode :: "string \<Rightarrow> sign_exn + nat list"
  jw_json_loads :: "ustr \<Rightarrow> sign_exn + json"

subsection \<open>The signed text\<close>

text \<open>\<^verbatim>\<open>_clean_empty\<close>: \<^verbatim>\<open>None\<close> is \<open>JNull\<close>, which is dropped like an empty value.\<close>

fun drop_nulls :: "json list \<Rightarrow> json list" where
  "drop_nulls [] = []"
| "drop_nulls (v # vs) = (if v = JNull then drop_nulls vs else v # drop_nulls vs)"

definition drop_null_members :: "struct \<Rightarrow> struct" where
  "drop_null_members d = filter (\<lambda>e. snd e \<noteq> JNull) d"

function clean_empty :: "nat \<Rightarrow> json \<Rightarrow> string + json" where
  "clean_empty depth (JObj d) =
     (if MAX_DEPTH < depth then Inl too_deep
      else rbind (rmap_list (\<lambda>e. rbind (clean_empty (depth + 1) (snd e)) (\<lambda>v. Inr (fst e, v))) d) (\<lambda>d'.
           Inr (if drop_null_members d' = [] then JNull else JObj (drop_null_members d'))))"
| "clean_empty depth (JArr xs) =
     (if MAX_DEPTH < depth then Inl too_deep
      else rbind (rmap_list (clean_empty (depth + 1)) xs) (\<lambda>ys.
           Inr (if drop_nulls ys = [] then JNull else JArr (drop_nulls ys))))"
| "clean_empty depth (JStr s) =
     (if MAX_DEPTH < depth then Inl too_deep else Inr (if s = [] then JNull else JStr s))"
| "clean_empty depth JNull = (if MAX_DEPTH < depth then Inl too_deep else Inr JNull)"
| "clean_empty depth (JBool b) = (if MAX_DEPTH < depth then Inl too_deep else Inr (JBool b))"
| "clean_empty depth (JInt i) = (if MAX_DEPTH < depth then Inl too_deep else Inr (JInt i))"
| "clean_empty depth (JFloat f) = (if MAX_DEPTH < depth then Inl too_deep else Inr (JFloat f))"
  by pat_completeness auto

termination
  by (relation "measure (\<lambda>(n, v). size v)") (auto dest: member_size element_size)

definition canonicalize_agent_card :: "(agent_card \<Rightarrow> struct) \<Rightarrow> agent_card \<Rightarrow> string + ustr" where
  "canonicalize_agent_card to_dict c =
     rbind (clean_empty 0 (JObj (AList.delete (to_ustr ''signatures'') (to_dict c)))) canonicalize"

subsection \<open>Signing\<close>

fun split_dots :: "string \<Rightarrow> string list" where
  "split_dots [] = [[]]"
| "split_dots (c # s) =
     (if c = CHR ''.'' then [] # split_dots s
      else (case split_dots s of [] \<Rightarrow> [[c]] | x # xs \<Rightarrow> (c # x) # xs))"

text \<open>\<^verbatim>\<open>protected_header.get('alg', 'HS256')\<close>\<close>

definition header_alg :: "struct \<Rightarrow> json" where
  "header_alg h = (case map_of h (to_ustr ''alg'') of Some v \<Rightarrow> v | None \<Rightarrow> JStr (to_ustr ''HS256''))"

text \<open>\<^verbatim>\<open>s.encode('utf-8')\<close> of a canonical text, which has an encoding.\<close>

definition payload_bytes :: "ustr \<Rightarrow> nat list" where
  "payload_bytes s = (case utf8_encode s of Some bs \<Rightarrow> bs | None \<Rightarrow> [])"

definition agent_card_signer ::
  "'k jws_lib \<Rightarrow> (agent_card \<Rightarrow> struct) \<Rightarrow> 'k \<Rightarrow> struct \<Rightarrow> struct option \<Rightarrow> agent_card \<Rightarrow> sign_exn + agent_card" where
  "agent_card_signer lib to_dict key protected header c =
     (case canonicalize_agent_card to_dict c of
        Inl e \<Rightarrow> Inl (CanonicalizationError e)
      | Inr payload \<Rightarrow>
          rbind (jw_encode lib (payload_bytes payload) key (header_alg protected) protected) (\<lambda>jws.
          (case split_dots jws of
             [p, _, sg] \<Rightarrow> Inr (c\<lparr>card_signatures := card_signatures c @
                [\<lparr>sig_protected = p, sig_signature = sg, sig_header = header\<rparr>]\<rparr>)
           | _ \<Rightarrow> Inl (OtherError (ValueError ''not enough values to unpack'')))))"

text \<open>Whether a check of a signature succeeded or failed in a way that lets the loop go on.\<close>

fun loop_goes_on :: "sign_exn + unit \<Rightarrow> bool" where
  "loop_goes_on (Inr u) = True"
| "loop_goes_on (Inl (PyJWTError m)) = True"
| "loop_goes_on _ = False"

subsection \<open>Verification\<close>

text \<open>The key id and the key set of a protected header.\<close>

definition header_get :: "json \<Rightarrow> string \<Rightarrow> sign_exn + json option" where
  "header_get h k = (case h of JObj d \<Rightarrow> Inr (map_of d (to_ustr k))
     | _ \<Rightarrow> Inl (AttributeError ''get''))"

definition read_protected :: "'k jws_lib \<Rightarrow> string \<Rightarrow> sign_exn + json" where
  "read_protected lib p =
     rbind (jw_base64url_decode lib p) (\<lambda>bs.
     case utf8_decode bs of
       None \<Rightarrow> Inl (OtherError (ValueError ''invalid utf-8''))
     | Some s \<Rightarrow> jw_json_loads lib s)"

definition check_signature ::
  "'k jws_lib \<Rightarrow> (json option \<Rightarrow> json option \<Rightarrow> sign_exn + 'k) \<Rightarrow> string list \<Rightarrow> string \<Rightarrow> agent_card_signature \<Rightarrow>
   sign_exn + unit" where
  "check_signature lib key_provider algorithms payload sg =
     rbind (read_protected lib (sig_protected sg)) (\<lambda>h.
     rbind (header_get h ''kid'') (\<lambda>kid.
     rbind (header_get h ''jku'') (\<lambda>jku.
     rbind (key_provider kid jku) (\<lambda>key.
       jw_decode lib (sig_protected sg @ ''.'' @ payload @ ''.'' @ sig_signature sg) key algorithms))))"

fun try_signatures :: "('a \<Rightarrow> sign_exn + unit) \<Rightarrow> 'a list \<Rightarrow> sign_exn + unit" where
  "try_signatures check [] = Inl (InvalidSignaturesError ''No valid signature found'')"
| "try_signatures check (x # xs) =
     (case check x of
        Inr u \<Rightarrow> Inr ()
      | Inl (PyJWTError m) \<Rightarrow> try_signatures check xs
      | Inl e \<Rightarrow> Inl e)"

definition signature_verifier ::
  "'k jws_lib \<Rightarrow> (agent_card \<Rightarrow> struct) \<Rightarrow> (json option \<Rightarrow> json option \<Rightarrow> sign_exn + 'k) \<Rightarrow> string list \<Rightarrow>
   agent_card \<Rightarrow> sign_exn + unit" where
  "signature_verifier lib to_dict key_provider algorithms c =
     (if card_signatures c = [] then Inl NoSignatureError
      else (case canonicalize_agent_card to_dict c of
              Inl e \<Rightarrow> Inl (InvalidSignaturesError ''AgentCard cannot be canonicalized for verification'')
            | Inr payload \<Rightarrow>
                try_signatures
                  (check_signature lib key_provider algorithms (jw_base64url_encode lib (payload_bytes payload)))
                  (card_signatures c)))"

subsection \<open>Laws of the signed text\<close>

text \<open>A cleaned value has no empty text, list or object and no null inside.\<close>

inductive no_empty :: "json \<Rightarrow> bool" where
  "s \<noteq> [] \<Longrightarrow> no_empty (JStr s)"
| "no_empty (JBool b)" | "no_empty (JInt i)" | "no_empty (JFloat f)"
| "xs \<noteq> [] \<Longrightarrow> list_all no_empty xs \<Longrightarrow> no_empty (JArr xs)"
| "d \<noteq> [] \<Longrightarrow> list_all (\<lambda>e. no_empty (snd e)) d \<Longrightarrow> no_empty (JObj d)"

inductive_simps no_empty_simps [simp]:
  "no_empty JNull" "no_empty (JStr s)" "no_empty (JBool b)" "no_empty (JInt i)" "no_empty (JFloat f)"
  "no_empty (JArr xs)" "no_empty (JObj d)"

lemma set_drop_nulls: "set (drop_nulls vs) = set vs - {JNull}"
  by (induction vs) auto

lemma rmap_list_set:
  "rmap_list f xs = Inr ys \<Longrightarrow> y \<in> set ys \<Longrightarrow> \<exists>x \<in> set xs. f x = Inr y"
  by (induction xs arbitrary: ys) (auto split: sum.splits)

lemma clean_no_empty: "clean_empty n v = Inr w \<Longrightarrow> w = JNull \<or> no_empty w"
proof (induction n v arbitrary: w rule: clean_empty.induct)
  case (1 n d)
  then obtain d' where d': "rmap_list (\<lambda>e. rbind (clean_empty (n + 1) (snd e)) (\<lambda>v. Inr (fst e, v))) d = Inr d'"
    and w: "w = (if drop_null_members d' = [] then JNull else JObj (drop_null_members d'))"
    and n: "\<not> MAX_DEPTH < n"
    by (auto split: if_splits)
  have members: "snd e = JNull \<or> no_empty (snd e)" if "e \<in> set d'" for e
  proof -
    from rmap_list_set [OF d' that] obtain x where "x \<in> set d" "clean_empty (n + 1) (snd x) = Inr (snd e)"
      by auto
    with "1.IH" [OF n] show ?thesis by blast
  qed
  have "no_empty (snd e)" if "e \<in> set (drop_null_members d')" for e
    using that members [of e] by (simp add: drop_null_members_def)
  then show ?case by (simp add: w list_all_iff)
next
  case (2 n xs)
  then obtain ys where ys: "rmap_list (clean_empty (n + 1)) xs = Inr ys"
    and w: "w = (if drop_nulls ys = [] then JNull else JArr (drop_nulls ys))"
    and n: "\<not> MAX_DEPTH < n"
    by (auto split: if_splits)
  have "y = JNull \<or> no_empty y" if "y \<in> set ys" for y
    using rmap_list_set [OF ys that] "2.IH" [OF n] by blast
  then show ?case by (auto simp: w set_drop_nulls list_all_iff)
qed (auto split: if_splits)

text \<open>The JSON value of a card that is signed: without signatures and cleaned.\<close>

definition signed_content :: "(agent_card \<Rightarrow> struct) \<Rightarrow> agent_card \<Rightarrow> string + json" where
  "signed_content to_dict c = clean_empty 0 (JObj (AList.delete (to_ustr ''signatures'') (to_dict c)))"

lemma canonicalize_agent_card_content:
  "canonicalize_agent_card to_dict c = Inr s \<longleftrightarrow> (\<exists>v. signed_content to_dict c = Inr v \<and> canonicalize v = Inr s)"
  by (simp add: canonicalize_agent_card_def signed_content_def)

text \<open>Two cards with the same signed text have the same content.\<close>

lemma signed_text_determines:
  assumes "canonicalize_agent_card to_dict c = Inr s" "canonicalize_agent_card to_dict c' = Inr s"
    and "\<And>v. signed_content to_dict c = Inr v \<Longrightarrow> json_ok v"
    and "\<And>v. signed_content to_dict c' = Inr v \<Longrightarrow> json_ok v"
  shows "\<exists>v v'. signed_content to_dict c = Inr v \<and> signed_content to_dict c' = Inr v' \<and> canon_of v = canon_of v'"
proof -
  from assms(1,2) obtain v v' where v: "signed_content to_dict c = Inr v" "canonicalize v = Inr s"
    and v': "signed_content to_dict c' = Inr v'" "canonicalize v' = Inr s"
    by (auto simp: canonicalize_agent_card_content)
  from canonical_text_iff [OF assms(3) [OF v(1)] assms(4) [OF v'(1)] v(2) v'(2)] v(1) v'(1) show ?thesis by simp
qed

subsection \<open>Laws of signing\<close>

text \<open>What the documentation of \<^verbatim>\<open>MessageToDict\<close> says: signatures are under their own key only.\<close>

definition to_dict_ok :: "(agent_card \<Rightarrow> struct) \<Rightarrow> bool" where
  "to_dict_ok to_dict \<longleftrightarrow> (\<forall>c ss. AList.delete (to_ustr ''signatures'') (to_dict (c\<lparr>card_signatures := ss\<rparr>)) =
     AList.delete (to_ustr ''signatures'') (to_dict c))"

lemma canonical_without_signatures:
  "to_dict_ok to_dict \<Longrightarrow>
   canonicalize_agent_card to_dict (c\<lparr>card_signatures := ss\<rparr>) = canonicalize_agent_card to_dict c"
  by (simp add: canonicalize_agent_card_def to_dict_ok_def)

text \<open>
  What the library promises for a key that signs, the key that the provider gives for the header,
  and the algorithms: a token that was made is accepted, and its parts are the header, the payload
  in base64url, and the signature.
\<close>

definition signs_for ::
  "'k jws_lib \<Rightarrow> (json option \<Rightarrow> json option \<Rightarrow> sign_exn + 'k) \<Rightarrow> string list \<Rightarrow> 'k \<Rightarrow> struct \<Rightarrow> nat list \<Rightarrow> bool" where
  "signs_for lib key_provider algorithms key protected bytes \<longleftrightarrow>
     (\<forall>jws. jw_encode lib bytes key (header_alg protected) protected = Inr jws \<longrightarrow>
        (\<exists>p sg key'. split_dots jws = [p, jw_base64url_encode lib bytes, sg] \<and>
           read_protected lib p = Inr (JObj protected) \<and>
           key_provider (map_of protected (to_ustr ''kid'')) (map_of protected (to_ustr ''jku'')) = Inr key' \<and>
           jw_decode lib (p @ ''.'' @ jw_base64url_encode lib bytes @ ''.'' @ sg) key' algorithms = Inr ()))"

lemma try_signatures_skip:
  "list_all (\<lambda>x. loop_goes_on (check x)) xs \<Longrightarrow> check y = Inr () \<Longrightarrow> try_signatures check (xs @ y # ys) = Inr ()"
proof (induction xs)
  case (Cons x xs)
  then show ?case by (cases "check x" rule: loop_goes_on.cases) auto
qed simp

lemma sign_then_verify:
  assumes d: "to_dict_ok to_dict"
    and s: "agent_card_signer lib to_dict key protected header c = Inr c'"
    and p: "canonicalize_agent_card to_dict c = Inr payload"
    and k: "signs_for lib key_provider algorithms key protected (payload_bytes payload)"
    and old: "list_all (\<lambda>sg. loop_goes_on (check_signature lib key_provider algorithms
      (jw_base64url_encode lib (payload_bytes payload)) sg)) (card_signatures c)"
  shows "signature_verifier lib to_dict key_provider algorithms c' = Inr ()"
proof -
  from s p obtain jws where jws: "jw_encode lib (payload_bytes payload) key (header_alg protected) protected = Inr jws"
    by (auto simp: agent_card_signer_def)
  with k obtain p' sg key' where sp: "split_dots jws = [p', jw_base64url_encode lib (payload_bytes payload), sg]"
    and rd: "read_protected lib p' = Inr (JObj protected)"
    and key: "key_provider (map_of protected (to_ustr ''kid'')) (map_of protected (to_ustr ''jku'')) = Inr key'"
    and dec: "jw_decode lib (p' @ ''.'' @ jw_base64url_encode lib (payload_bytes payload) @ ''.'' @ sg) key' algorithms = Inr ()"
    unfolding signs_for_def by blast
  let ?new = "\<lparr>sig_protected = p', sig_signature = sg, sig_header = header\<rparr>"
  have c': "c' = c\<lparr>card_signatures := card_signatures c @ [?new]\<rparr>"
    using s p jws sp by (simp add: agent_card_signer_def)
  have "check_signature lib key_provider algorithms (jw_base64url_encode lib (payload_bytes payload)) ?new = Inr ()"
    using rd key dec by (simp add: check_signature_def header_get_def)
  then have "try_signatures (check_signature lib key_provider algorithms
      (jw_base64url_encode lib (payload_bytes payload))) (card_signatures c @ [?new]) = Inr ()"
    by (intro try_signatures_skip) (rule old)
  then show ?thesis
    by (simp add: signature_verifier_def c' canonical_without_signatures [OF d] p)
qed

text \<open>What a successful verification says.\<close>

lemma try_signatures_Inr: "try_signatures check xs = Inr () \<Longrightarrow> \<exists>x \<in> set xs. check x = Inr ()"
  by (induction xs) (auto split: sum.splits sign_exn.splits)

lemma verified_payload:
  assumes "signature_verifier lib to_dict key_provider algorithms c = Inr ()"
  shows "\<exists>payload sg kid jku key. canonicalize_agent_card to_dict c = Inr payload \<and> sg \<in> set (card_signatures c) \<and>
    key_provider kid jku = Inr key \<and>
    jw_decode lib (sig_protected sg @ ''.'' @ jw_base64url_encode lib (payload_bytes payload) @ ''.'' @ sig_signature sg)
      key algorithms = Inr ()"
  using assms
  by (auto simp: signature_verifier_def check_signature_def split: if_splits sum.splits dest!: try_signatures_Inr)
    blast

text \<open>A signature whose header cannot be read ends the verification, whatever signatures follow.\<close>

lemma unreadable_header_raises:
  assumes "canonicalize_agent_card to_dict c = Inr payload" "card_signatures c = sg # rest"
    and "read_protected lib (sig_protected sg) = Inl (OtherError e)"
  shows "signature_verifier lib to_dict key_provider algorithms c = Inl (OtherError e)"
  using assms by (simp add: signature_verifier_def check_signature_def)

subsection \<open>Tampering\<close>

text \<open>
  What a signature covers: the token up to its last point. \<open>signs_only\<close> says that the accepted
  tokens cover a header and the payload of one of the listed cards, which is what a signature scheme
  promises when the accepted keys have signed no more than those.
\<close>

definition signing_input :: "string \<Rightarrow> string" where
  "signing_input t = rev (tl (dropWhile (\<lambda>c. c \<noteq> CHR ''.'') (rev t)))"

definition signs_only ::
  "'k jws_lib \<Rightarrow> (agent_card \<Rightarrow> struct) \<Rightarrow> string list \<Rightarrow> agent_card list \<Rightarrow> bool" where
  "signs_only lib to_dict algorithms cs \<longleftrightarrow>
     (\<forall>t key. jw_decode lib t key algorithms = Inr () \<longrightarrow>
        (\<exists>c \<in> set cs. \<exists>payload h. canonicalize_agent_card to_dict c = Inr payload \<and> CHR ''.'' \<notin> set h \<and>
           signing_input t = h @ ''.'' @ jw_base64url_encode lib (payload_bytes payload)))"

definition base64url_ok :: "'k jws_lib \<Rightarrow> bool" where
  "base64url_ok lib \<longleftrightarrow>
     (\<forall>bs. (\<forall>b \<in> set bs. b < 256) \<longrightarrow> CHR ''.'' \<notin> set (jw_base64url_encode lib bs)) \<and>
     inj_on (jw_base64url_encode lib) {bs. \<forall>b \<in> set bs. b < 256}"

lemma signing_input_append:
  "CHR ''.'' \<notin> set s \<Longrightarrow> signing_input (a @ CHR ''.'' # s) = a"
proof -
  assume "CHR ''.'' \<notin> set s"
  then have "dropWhile (\<lambda>c. c \<noteq> CHR ''.'') (rev s @ CHR ''.'' # rev a) = CHR ''.'' # rev a"
    by (subst dropWhile_append2) auto
  then show ?thesis by (simp add: signing_input_def)
qed

lemma last_point:
  assumes "a @ CHR ''.'' # b = c @ CHR ''.'' # d" "CHR ''.'' \<notin> set b" "CHR ''.'' \<notin> set d"
  shows "a = c \<and> b = d"
  using signing_input_append [OF assms(2), of a] signing_input_append [OF assms(3), of c] assms(1) by simp

lemma split_last_point: "CHR ''.'' \<in> set s \<Longrightarrow> \<exists>a b. s = a @ CHR ''.'' # b \<and> CHR ''.'' \<notin> set b"
  by (metis split_list_last)

text \<open>The part that a token of three parts covers.\<close>

lemma covered_payload:
  assumes eq: "signing_input (p @ ''.'' @ m @ ''.'' @ s) = h @ ''.'' @ m'"
    and dots: "CHR ''.'' \<notin> set m" "CHR ''.'' \<notin> set m'" "CHR ''.'' \<notin> set h"
  shows "m = m'"
proof (cases "CHR ''.'' \<in> set s")
  case False
  then have "signing_input ((p @ CHR ''.'' # m) @ CHR ''.'' # s) = p @ CHR ''.'' # m" by (rule signing_input_append)
  with eq last_point [OF _ dots(1,2), of p h] show ?thesis by simp
next
  case True
  then obtain a b where s: "s = a @ CHR ''.'' # b" "CHR ''.'' \<notin> set b" using split_last_point by blast
  then have "signing_input ((p @ CHR ''.'' # m @ CHR ''.'' # a) @ CHR ''.'' # b) = p @ CHR ''.'' # m @ CHR ''.'' # a"
    by (intro signing_input_append)
  with eq s have e: "p @ CHR ''.'' # m @ CHR ''.'' # a = h @ CHR ''.'' # m'" by simp
  have "length (filter ((=) (CHR ''.'')) (h @ CHR ''.'' # m')) = 1"
    using dots by (simp add: filter_empty_conv) (metis filter_empty_conv length_0_conv)
  moreover have "2 \<le> length (filter ((=) (CHR ''.'')) (p @ CHR ''.'' # m @ CHR ''.'' # a))" by simp
  ultimately show ?thesis unfolding e by simp
qed

lemma payload_bytes_range: "b \<in> set (payload_bytes s) \<Longrightarrow> b < 256"
  using utf8_encode_range [of s _ b] by (cases "utf8_encode s") (simp_all add: payload_bytes_def)

lemma payload_bytes_inj:
  assumes "canonicalize v = Inr s" "canonicalize w = Inr t" "payload_bytes s = payload_bytes t"
  shows "s = t"
proof -
  have "\<exists>bs. utf8_encode x = Some bs" if "canonicalize u = Inr x" for u x
    using that by (cases "utf8_encode x") (auto simp: canonicalize_def split: if_splits)
  with assms(1,2) obtain bs cs where "utf8_encode s = Some bs" "utf8_encode t = Some cs" by meson
  with assms(3) utf8_roundtrip [of s bs] utf8_roundtrip [of t cs] show ?thesis by (simp add: payload_bytes_def)
qed

definition content_ok :: "(agent_card \<Rightarrow> struct) \<Rightarrow> agent_card \<Rightarrow> bool" where
  "content_ok to_dict c \<longleftrightarrow> (case signed_content to_dict c of Inl e \<Rightarrow> True | Inr v \<Rightarrow> json_ok v)"

lemma verified_is_signed:
  assumes "signature_verifier lib to_dict key_provider algorithms c = Inr ()"
    and only: "signs_only lib to_dict algorithms cs" and b: "base64url_ok lib"
    and ok: "list_all (content_ok to_dict) (c # cs)"
  shows "\<exists>c' v v'. c' \<in> set cs \<and> signed_content to_dict c = Inr v \<and> signed_content to_dict c' = Inr v' \<and>
    canon_of v = canon_of v'"
proof -
  from verified_payload [OF assms(1)] obtain payload and sg :: agent_card_signature and key where
    p: "canonicalize_agent_card to_dict c = Inr payload"
    and dec: "jw_decode lib (sig_protected sg @ ''.'' @ jw_base64url_encode lib (payload_bytes payload) @ ''.'' @
      sig_signature sg) key algorithms = Inr ()"
    by (elim exE conjE)
  from only dec obtain c' payload' h where c': "c' \<in> set cs" and p': "canonicalize_agent_card to_dict c' = Inr payload'"
    and h: "CHR ''.'' \<notin> set h"
    and eq: "signing_input (sig_protected sg @ ''.'' @ jw_base64url_encode lib (payload_bytes payload) @ ''.'' @
      sig_signature sg) = h @ ''.'' @ jw_base64url_encode lib (payload_bytes payload')"
    unfolding signs_only_def by blast
  have "jw_base64url_encode lib (payload_bytes payload) = jw_base64url_encode lib (payload_bytes payload')"
    using covered_payload [OF eq _ _ h] b payload_bytes_range by (simp add: base64url_ok_def)
  then have "payload_bytes payload = payload_bytes payload'"
    using b payload_bytes_range by (auto simp: base64url_ok_def inj_on_def)
  with p p' payload_bytes_inj have "payload = payload'" by (auto simp: canonicalize_agent_card_content)
  with p' have p'': "canonicalize_agent_card to_dict c' = Inr payload" by simp
  have "\<exists>v v'. signed_content to_dict c = Inr v \<and> signed_content to_dict c' = Inr v' \<and> canon_of v = canon_of v'"
    by (rule signed_text_determines [OF p p'']) (use ok c' in \<open>auto simp: content_ok_def list_all_iff dest: bspec\<close>)
  with c' show ?thesis by blast
qed

end
