(* ===== verification/Push_Url.thy ===== *)
theory Push_Url
  imports A2A_Prelude
begin

text \<open>
  \<^verbatim>\<open>utils/push_url_validator.py\<close>: which URLs of a client may be posted to. The parser of URLs, the
  addresses of a host, and what \<^verbatim>\<open>ipaddress\<close> says of an address are parameters.
\<close>

record parsed_url =
  pu_scheme :: string
  pu_hostname :: "string option"
  pu_port :: "nat option"

record ip_flags =
  ip_private :: bool
  ip_loopback :: bool
  ip_link_local :: bool
  ip_multicast :: bool
  ip_reserved :: bool
  ip_unspecified :: bool

text \<open>
  \<open>None\<close> is a \<^verbatim>\<open>ValueError\<close> of the parsers, and an \<^verbatim>\<open>OSError\<close> of the resolver, which gives the
  addresses of a host and a port.
\<close>

record net_lib =
  nl_urlparse :: "string \<Rightarrow> parsed_url option"
  nl_ip_address :: "string \<Rightarrow> ip_flags option"
  nl_getaddrinfo :: "string \<Rightarrow> nat \<Rightarrow> string list option"

definition ip_is_blocked :: "net_lib \<Rightarrow> string \<Rightarrow> bool" where
  "ip_is_blocked lib ip =
     (case nl_ip_address lib (takeWhile (\<lambda>c. c \<noteq> CHR ''%'') ip) of
        None \<Rightarrow> True
      | Some a \<Rightarrow> ip_private a \<or> ip_loopback a \<or> ip_link_local a \<or> ip_multicast a \<or> ip_reserved a \<or> ip_unspecified a)"

definition url_port :: "parsed_url \<Rightarrow> nat" where
  "url_port u = (case pu_port u of
     Some (Suc n) \<Rightarrow> Suc n
   | _ \<Rightarrow> if pu_scheme u = ''https'' then 443 else 80)"

definition validate_push_notification_url :: "net_lib \<Rightarrow> string \<Rightarrow> bool" where
  "validate_push_notification_url lib url =
     (case nl_urlparse lib url of
        None \<Rightarrow> False
      | Some u \<Rightarrow>
          if pu_scheme u \<notin> {''http'', ''https''} then False
          else if \<not> py_truthy (pu_hostname u) then False
          else (case nl_getaddrinfo lib (or_empty (pu_hostname u)) (url_port u) of
                  None \<Rightarrow> False
                | Some infos \<Rightarrow> list_all (\<lambda>ip. \<not> ip_is_blocked lib ip) infos))"

text \<open>What a URL that passes is.\<close>

lemma accepted_url:
  "validate_push_notification_url lib url \<longleftrightarrow>
     (\<exists>u host infos. nl_urlparse lib url = Some u \<and> pu_scheme u \<in> {''http'', ''https''} \<and>
        pu_hostname u = Some host \<and> host \<noteq> [] \<and> nl_getaddrinfo lib host (url_port u) = Some infos \<and>
        list_all (\<lambda>ip. \<exists>a. nl_ip_address lib (takeWhile (\<lambda>c. c \<noteq> CHR ''%'') ip) = Some a \<and>
          \<not> ip_private a \<and> \<not> ip_loopback a \<and> \<not> ip_link_local a \<and> \<not> ip_multicast a \<and>
          \<not> ip_reserved a \<and> \<not> ip_unspecified a) infos)"
proof -
  have blocked: "\<not> ip_is_blocked lib ip \<longleftrightarrow>
      (\<exists>a. nl_ip_address lib (takeWhile (\<lambda>c. c \<noteq> CHR ''%'') ip) = Some a \<and>
        \<not> ip_private a \<and> \<not> ip_loopback a \<and> \<not> ip_link_local a \<and> \<not> ip_multicast a \<and>
        \<not> ip_reserved a \<and> \<not> ip_unspecified a)" for ip
    by (auto simp: ip_is_blocked_def split: option.split)
  show ?thesis
    unfolding validate_push_notification_url_def blocked
    by (auto simp: py_truthy_iff split: option.splits if_splits)
qed

end
