(* ===== verification/Rest.thy ===== *)
theory Rest
  imports Proto_Utils Client_Rpc
begin

text \<open>
  The REST endpoint (\<^verbatim>\<open>server/routes/rest_dispatcher.py\<close>, \<^verbatim>\<open>server/routes/rest_routes.py\<close>) and the
  client's REST transport (\<^verbatim>\<open>client/transports/rest.py\<close>). What protobuf parses is the record
  \<open>rest_codec\<close>; the path parameters are those that the router hands over.
\<close>

subsection \<open>Requests\<close>

record rest_request =
  rq_http :: http_server_request
  rq_body :: "exn + string"
  rq_query :: "(string \<times> string) list"
  rq_path :: "(string, string) dict"

text \<open>\<^verbatim>\<open>Parse\<close> of a body and \<^verbatim>\<open>ParseDict\<close> of query parameters, each into an empty message.\<close>

record rest_codec =
  sc_send :: "string \<Rightarrow> rest_exn + send_message_request"
  sc_config :: "string \<Rightarrow> rest_exn + push_config"
  sc_get :: "(string \<times> param) list \<Rightarrow> rest_exn + get_task_request"
  sc_list :: "(string \<times> param) list \<Rightarrow> rest_exn + list_tasks_request"
  sc_list_push :: "(string \<times> param) list \<Rightarrow> rest_exn + list_push_configs_request"

text \<open>The fields of the messages that are read from a query.\<close>

definition scalar_field :: "string \<Rightarrow> query_field" where
  "scalar_field n = \<lparr>qf_camelcase_name = n, qf_repeated = False, qf_bool = False\<rparr>"

definition get_task_fields :: "query_field list" where
  "get_task_fields = map scalar_field [''tenant'', ''id'', ''historyLength'']"

definition list_tasks_fields :: "query_field list" where
  "list_tasks_fields = map scalar_field [''tenant'', ''contextId'', ''status'', ''pageSize'', ''pageToken'',
     ''historyLength'', ''statusTimestampAfter''] @ [(scalar_field ''includeArtifacts'')\<lparr>qf_bool := True\<rparr>]"

definition list_push_fields :: "query_field list" where
  "list_push_fields = map scalar_field [''tenant'', ''taskId'', ''pageSize'', ''pageToken'']"

subsection \<open>The dispatcher\<close>

fun rest_exn_of :: "exn \<Rightarrow> rest_exn" where
  "rest_exn_of (A2A e) = RestA2A e"
| "rest_exn_of e = RestOther"

definition at_rest :: "exn + 'a \<Rightarrow> rest_exn + 'a" where
  "at_rest r = (case r of Inl e \<Rightarrow> Inl (rest_exn_of e) | Inr x \<Rightarrow> Inr x)"

definition rest_call_context ::
  "(http_server_request \<Rightarrow> exn + call_context) \<Rightarrow> rest_request \<Rightarrow> exn + call_context" where
  "rest_call_context build req =
     rbind (build (rq_http req)) (\<lambda>c.
       Inr (case map_of (rq_path req) ''tenant'' of None \<Rightarrow> c | Some t \<Rightarrow> c\<lparr>cc_tenant := t\<rparr>))"

datatype rest_item = RestEvent json | RestErrorEvent error_payload

datatype rest_response = RestJson json | RestError int error_payload | RestStream "rest_item list"

definition rest_failure :: "rest_exn \<Rightarrow> rest_response" where
  "rest_failure e = (let (code, p) = create_error_response e in RestError code p)"

text \<open>\<^verbatim>\<open>_handle_non_streaming\<close> of a handler behind the version check, and \<^verbatim>\<open>rest_error_handler\<close>.\<close>

definition rest_unary ::
  "'v version_lib \<Rightarrow> (http_server_request \<Rightarrow> exn + call_context) \<Rightarrow> rest_request \<Rightarrow>
   (call_context \<Rightarrow> 's \<Rightarrow> 's \<times> (rest_exn + json)) \<Rightarrow> 's \<Rightarrow> 's \<times> rest_response" where
  "rest_unary lib build req f s =
     (case rest_call_context build req of
        Inl e \<Rightarrow> (s, rest_failure (rest_exn_of e))
      | Inr c \<Rightarrow>
          (case check_version lib PROTOCOL_VERSION_1_0 c of
             Inl e \<Rightarrow> (s, rest_failure (rest_exn_of e))
           | Inr _ \<Rightarrow> (case f c s of (s', Inl e) \<Rightarrow> (s', rest_failure e) | (s', Inr j) \<Rightarrow> (s', RestJson j))))"

text \<open>The request is parsed, the handler called, its result printed.\<close>

definition rest_then ::
  "rest_exn + 'q \<Rightarrow> ('q \<Rightarrow> ('a, 's) call) \<Rightarrow> ('q \<Rightarrow> 'a \<Rightarrow> exn + json) \<Rightarrow> 's \<Rightarrow> 's \<times> (rest_exn + json)" where
  "rest_then q f back s =
     (case q of
        Inl e \<Rightarrow> (s, Inl e)
      | Inr r \<Rightarrow> (case f r s of
                    (s', Inl e) \<Rightarrow> (s', Inl (rest_exn_of e))
                  | (s', Inr x) \<Rightarrow> (s', at_rest (back r x))))"

definition path_param :: "rest_request \<Rightarrow> string \<Rightarrow> rest_exn + string" where
  "path_param req k = (case map_of (rq_path req) k of None \<Rightarrow> Inl RestOther | Some v \<Rightarrow> Inr v)"

definition rest_on_message_send where
  "rest_on_message_send lib build h rk sc req =
     rest_unary lib build req (\<lambda>c. rest_then (rbind (at_rest (rq_body req)) (sc_send sc))
       (\<lambda>r. rh_message_send h r c) (\<lambda>r x. rk_print rk (SendMsg x)))"

definition rest_on_cancel_task where
  "rest_on_cancel_task lib build h rk req =
     rest_unary lib build req (\<lambda>c. rest_then
       (rbind (path_param req ''id'') (\<lambda>i. Inr \<lparr>ct_tenant = [], ct_id = i, ct_metadata = None\<rparr>))
       (\<lambda>r. rh_cancel_task h r c) (\<lambda>r. task_or_not_found (\<lambda>t. rk_print rk (TaskMsg t))))"

definition rest_on_get_task where
  "rest_on_get_task lib build h rk sc req =
     rest_unary lib build req (\<lambda>c. rest_then
       (rbind (sc_get sc (parse_params get_task_fields (rq_query req))) (\<lambda>r.
        rbind (path_param req ''id'') (\<lambda>i. Inr (r\<lparr>gt_id := i\<rparr>))))
       (\<lambda>r. rh_get_task h r c) (\<lambda>r. task_or_not_found (\<lambda>t. rk_print rk (TaskMsg t))))"

definition rest_get_push_notification where
  "rest_get_push_notification lib build h rk req =
     rest_unary lib build req (\<lambda>c. rest_then
       (rbind (path_param req ''id'') (\<lambda>i. rbind (path_param req ''push_id'') (\<lambda>p.
         Inr \<lparr>gpr_tenant = [], gpr_task_id = i, gpr_id = p\<rparr>)))
       (\<lambda>r. rh_get_push_config h r c) (\<lambda>r x. rk_print rk (ConfigMsg x)))"

definition rest_delete_push_notification where
  "rest_delete_push_notification lib build h req =
     rest_unary lib build req (\<lambda>c. rest_then
       (rbind (path_param req ''id'') (\<lambda>i. rbind (path_param req ''push_id'') (\<lambda>p.
         Inr \<lparr>dpr_tenant = [], dpr_task_id = i, dpr_id = p\<rparr>)))
       (\<lambda>r. rh_delete_push_config h r c) (\<lambda>r x. Inr (JObj [])))"

definition rest_set_push_notification where
  "rest_set_push_notification lib build h rk sc req =
     rest_unary lib build req (\<lambda>c. rest_then
       (rbind (rbind (at_rest (rq_body req)) (sc_config sc)) (\<lambda>r.
        rbind (path_param req ''id'') (\<lambda>i. Inr (r\<lparr>pc_task_id := i\<rparr>))))
       (\<lambda>r. rh_create_push_config h r c) (\<lambda>r x. rk_print rk (ConfigMsg x)))"

definition rest_list_push_notifications where
  "rest_list_push_notifications lib build h rk sc req =
     rest_unary lib build req (\<lambda>c. rest_then
       (rbind (sc_list_push sc (parse_params list_push_fields (rq_query req))) (\<lambda>r.
        rbind (path_param req ''id'') (\<lambda>i. Inr (r\<lparr>lpr_task_id := i\<rparr>))))
       (\<lambda>r. rh_list_push_configs h r c) (\<lambda>r x. rk_print rk (ConfigsMsg x)))"

definition rest_list_tasks where
  "rest_list_tasks lib build h rk sc req =
     rest_unary lib build req (\<lambda>c. rest_then (sc_list sc (parse_params list_tasks_fields (rq_query req)))
       (\<lambda>r. rh_list_tasks h r c) (\<lambda>r x. serialize_list_tasks_response rk x (lr_include_artifacts r)))"

definition rest_authenticated_agent_card where
  "rest_authenticated_agent_card lib build h rk req =
     rest_unary lib build req (\<lambda>c. rest_then (Inr ()) (\<lambda>_. rh_get_extended_agent_card h c)
       (\<lambda>_ x. rk_print rk (CardMsg x)))"

text \<open>
  \<^verbatim>\<open>_handle_streaming\<close> and \<^verbatim>\<open>rest_stream_error_handler\<close>: the body is read before; an exception before the
  first item becomes an error response, a later one an error event.
\<close>

fun body_failure :: "exn \<Rightarrow> rest_exn" where
  "body_failure (ValueError m) = RestA2A (err_msg InvalidRequestError (''Failed to pre-consume request body: '' @ m))"
| "body_failure (RuntimeError m) = RestA2A (err_msg InvalidRequestError (''Failed to pre-consume request body: '' @ m))"
| "body_failure e = rest_exn_of e"

definition rest_answer_stream :: "json list \<Rightarrow> rest_exn option \<Rightarrow> rest_response" where
  "rest_answer_stream js e =
     (case (js, e) of
        ([], Some x) \<Rightarrow> rest_failure x
      | _ \<Rightarrow> RestStream (map RestEvent js @
          (case e of None \<Rightarrow> [] | Some x \<Rightarrow> [RestErrorEvent (build_rest_error_payload x)])))"

definition rest_streaming ::
  "'v version_lib \<Rightarrow> (http_server_request \<Rightarrow> exn + call_context) \<Rightarrow> rest_request \<Rightarrow>
   (call_context \<Rightarrow> 's \<Rightarrow> 's \<times> json list \<times> rest_exn option) \<Rightarrow> 's \<Rightarrow> 's \<times> rest_response" where
  "rest_streaming lib build req g s =
     (case rq_body req of
        Inl e \<Rightarrow> (s, rest_failure (body_failure e))
      | Inr _ \<Rightarrow>
          (case rest_call_context build req of
             Inl e \<Rightarrow> (s, rest_failure (rest_exn_of e))
           | Inr c \<Rightarrow>
               (case check_version lib PROTOCOL_VERSION_1_0 c of
                  Inl e \<Rightarrow> (s, rest_failure (rest_exn_of e))
                | Inr _ \<Rightarrow> (let (s', js, e) = g c s in (s', rest_answer_stream js e)))))"

definition rest_stream_then ::
  "rpc_codec \<Rightarrow> rest_exn + 'q \<Rightarrow> ('q \<Rightarrow> (event option, 's) stream_call) \<Rightarrow> 's \<Rightarrow> 's \<times> json list \<times> rest_exn option" where
  "rest_stream_then rk q f s =
     (case q of
        Inl e \<Rightarrow> (s, [], Some e)
      | Inr r \<Rightarrow>
          (let (s', evs, e) = f r s; (js, e') = conv_stream (\<lambda>ev. rk_print rk (StreamMsg (stream_response_of ev))) evs e
           in (s', js, map_option rest_exn_of e')))"

definition rest_on_message_send_stream where
  "rest_on_message_send_stream lib build h rk sc req =
     rest_streaming lib build req (\<lambda>c. rest_stream_then rk (rbind (at_rest (rq_body req)) (sc_send sc))
       (\<lambda>r. rh_message_send_stream h r c))"

definition rest_on_subscribe_to_task where
  "rest_on_subscribe_to_task lib build h rk req s =
     (case path_param req ''id'' of
        Inl e \<Rightarrow> (s, rest_failure e)
      | Inr i \<Rightarrow>
          rest_streaming lib build req (\<lambda>c. rest_stream_then rk (Inr \<lparr>sb_tenant = [], sb_id = i\<rparr>)
            (\<lambda>r. rh_subscribe h r c)) s)"

subsection \<open>Routes\<close>

datatype rest_op = OpSend | OpStream | OpCancel | OpSubscribe | OpGet | OpGetPush | OpDeletePush | OpSetPush
  | OpListPush | OpList | OpCard

definition base_routes :: "((string \<times> string) \<times> rest_op) list" where
  "base_routes =
     [((''/message:send'', ''POST''), OpSend), ((''/message:stream'', ''POST''), OpStream),
      ((''/tasks/{id}:cancel'', ''POST''), OpCancel), ((''/tasks/{id}:subscribe'', ''GET''), OpSubscribe),
      ((''/tasks/{id}:subscribe'', ''POST''), OpSubscribe), ((''/tasks/{id}'', ''GET''), OpGet),
      ((''/tasks/{id}/pushNotificationConfigs/{push_id}'', ''GET''), OpGetPush),
      ((''/tasks/{id}/pushNotificationConfigs/{push_id}'', ''DELETE''), OpDeletePush),
      ((''/tasks/{id}/pushNotificationConfigs'', ''POST''), OpSetPush),
      ((''/tasks/{id}/pushNotificationConfigs'', ''GET''), OpListPush),
      ((''/tasks'', ''GET''), OpList), ((''/extendedAgentCard'', ''GET''), OpCard)]"

text \<open>The routes of a tenant are those below its name.\<close>

definition tenant_mount :: string where
  "tenant_mount = ''/{tenant}''"

text \<open>The path of a template for given parameters.\<close>

fun fill_path :: "(string \<Rightarrow> string) \<Rightarrow> bool \<Rightarrow> string \<Rightarrow> string \<Rightarrow> string" where
  "fill_path env inside name [] = []"
| "fill_path env False name (c # s) =
     (if c = CHR ''{'' then fill_path env True [] s else c # fill_path env False name s)"
| "fill_path env True name (c # s) =
     (if c = CHR ''}'' then env (rev name) @ fill_path env False [] s else fill_path env True (c # name) s)"

definition get_path :: "string \<Rightarrow> string \<Rightarrow> string" where
  "get_path base tenant = (if tenant \<noteq> [] then ''/'' @ tenant @ base else base)"

text \<open>What the transport requests; \<open>d\<close> is \<^verbatim>\<open>MessageToDict\<close>.\<close>

record rest_outgoing =
  og_method :: string
  og_path :: string
  og_json :: "struct option"
  og_params :: "struct option"

definition execute_request ::
  "string \<Rightarrow> string \<Rightarrow> string \<Rightarrow> struct option \<Rightarrow> struct option \<Rightarrow> rest_outgoing" where
  "execute_request meth target tenant js ps =
     \<lparr>og_method = meth, og_path = get_path target tenant, og_json = js, og_params = ps\<rparr>"

definition without :: "string list \<Rightarrow> struct \<Rightarrow> struct" where
  "without ks d = fold (\<lambda>k d. AList.delete (to_ustr k) d) ks d"

definition rt_send_message :: "(rpc_request_msg \<Rightarrow> struct) \<Rightarrow> send_message_request \<Rightarrow> rest_outgoing" where
  "rt_send_message d r = execute_request ''POST'' ''/message:send'' (smr_tenant r) (Some (d (SendReq r))) None"

definition rt_send_message_streaming :: "(rpc_request_msg \<Rightarrow> struct) \<Rightarrow> send_message_request \<Rightarrow> rest_outgoing" where
  "rt_send_message_streaming d r =
     execute_request ''POST'' ''/message:stream'' (smr_tenant r) (Some (d (SendReq r))) None"

definition rt_get_task :: "(rpc_request_msg \<Rightarrow> struct) \<Rightarrow> get_task_request \<Rightarrow> rest_outgoing" where
  "rt_get_task d r = execute_request ''GET'' (''/tasks/'' @ gt_id r) (gt_tenant r) None
     (Some (without [''id'', ''tenant''] (d (GetReq r))))"

definition rt_list_tasks :: "(rpc_request_msg \<Rightarrow> struct) \<Rightarrow> list_tasks_request \<Rightarrow> rest_outgoing" where
  "rt_list_tasks d r = execute_request ''GET'' ''/tasks'' (lr_tenant r) None
     (Some (without [''tenant''] (d (ListReq r))))"

definition rt_cancel_task :: "(rpc_request_msg \<Rightarrow> struct) \<Rightarrow> cancel_task_request \<Rightarrow> rest_outgoing" where
  "rt_cancel_task d r =
     execute_request ''POST'' (''/tasks/'' @ ct_id r @ '':cancel'') (ct_tenant r) (Some (d (CancelReq r))) None"

definition rt_create_push_config :: "(rpc_request_msg \<Rightarrow> struct) \<Rightarrow> push_config \<Rightarrow> rest_outgoing" where
  "rt_create_push_config d r = execute_request ''POST'' (''/tasks/'' @ pc_task_id r @ ''/pushNotificationConfigs'')
     (pc_tenant r) (Some (d (CreatePushReq r))) None"

definition rt_get_push_config :: "(rpc_request_msg \<Rightarrow> struct) \<Rightarrow> get_push_config_request \<Rightarrow> rest_outgoing" where
  "rt_get_push_config d r = execute_request ''GET''
     (''/tasks/'' @ gpr_task_id r @ ''/pushNotificationConfigs/'' @ gpr_id r) (gpr_tenant r) None
     (Some (without [''id'', ''taskId'', ''tenant''] (d (GetPushReq r))))"

definition rt_list_push_configs :: "(rpc_request_msg \<Rightarrow> struct) \<Rightarrow> list_push_configs_request \<Rightarrow> rest_outgoing" where
  "rt_list_push_configs d r = execute_request ''GET'' (''/tasks/'' @ lpr_task_id r @ ''/pushNotificationConfigs'')
     (lpr_tenant r) None (Some (without [''taskId'', ''tenant''] (d (ListPushReq r))))"

definition rt_delete_push_config :: "(rpc_request_msg \<Rightarrow> struct) \<Rightarrow> delete_push_config_request \<Rightarrow> rest_outgoing" where
  "rt_delete_push_config d r = execute_request ''DELETE''
     (''/tasks/'' @ dpr_task_id r @ ''/pushNotificationConfigs/'' @ dpr_id r) (dpr_tenant r) None
     (Some (without [''id'', ''taskId'', ''tenant''] (d (DeletePushReq r))))"

definition rt_subscribe :: "subscribe_request \<Rightarrow> rest_outgoing" where
  "rt_subscribe r = execute_request ''POST'' (''/tasks/'' @ sb_id r @ '':subscribe'') (sb_tenant r) None None"

text \<open>A card without an extended one is returned as it is, without a request.\<close>

definition rt_get_extended_agent_card :: "agent_card \<Rightarrow> string \<Rightarrow> agent_card + rest_outgoing" where
  "rt_get_extended_agent_card c tenant =
     (if cap_extended_agent_card (card_capabilities_of c) = Some True
      then Inr (execute_request ''GET'' ''/extendedAgentCard'' tenant None None) else Inl c)"

subsection \<open>The client's reading\<close>

fun first_info :: "error_detail list \<Rightarrow> error_info option" where
  "first_info [] = None"
| "first_info (ErrorInfo i # ds) = Some i"
| "first_info (BadRequest vs # ds) = first_info ds"

definition parse_rest_error :: "error_payload \<Rightarrow> a2a_error option" where
  "parse_rest_error p =
     (case first_info (list_or_nil (ep_details p)) of
        None \<Rightarrow> None
      | Some i \<Rightarrow>
          (case A2A_REASON_TO_ERROR (ei_reason i) of
             None \<Rightarrow> None
           | Some k \<Rightarrow> Some (mk_error k (Some (ep_message p))
               (if ei_metadata i = empty_data then None else Some (ei_metadata i)))))"

text \<open>\<open>txt\<close> is the text of the HTTP error, \<open>url\<close> that of the request.\<close>

definition handle_http_error :: "string \<Rightarrow> string \<Rightarrow> int \<Rightarrow> error_payload \<Rightarrow> client_error" where
  "handle_http_error text url code p =
     (case parse_rest_error p of
        Some e \<Rightarrow> KnownError e
      | None \<Rightarrow>
          if code = 404 then KnownError (mk_error MethodNotFoundError (Some (''Resource not found: '' @ url)) None)
          else ClientError text)"

text \<open>\<^verbatim>\<open>raise_for_status\<close> raises for every status that is not a success.\<close>

definition read_rest :: "string \<Rightarrow> string \<Rightarrow> (json \<Rightarrow> 'a option) \<Rightarrow> rest_response \<Rightarrow> client_error + 'a" where
  "read_rest text url parse resp =
     (case resp of
        RestJson j \<Rightarrow> (case parse j of None \<Rightarrow> Inl (ClientError ''parse error'') | Some x \<Rightarrow> Inr x)
      | RestError code p \<Rightarrow>
          Inl (if 200 \<le> code \<and> code < 300 then ClientError ''parse error'' else handle_http_error text url code p)
      | RestStream items \<Rightarrow> Inl (ClientError ''JSON Decode Error''))"

record rest_wire =
  rw_text :: "rest_item \<Rightarrow> string"
  rw_event :: "string \<Rightarrow> stream_response option"
  rw_payload :: "string \<Rightarrow> error_payload option"

definition sse_error :: "rest_wire \<Rightarrow> string \<Rightarrow> client_error" where
  "sse_error w dat =
     (case rw_payload w dat of
        None \<Rightarrow> ClientError ''JSON Decode Error''
      | Some p \<Rightarrow> (case parse_rest_error p of Some e \<Rightarrow> KnownError e | None \<Rightarrow> ClientError dat))"

fun read_rest_stream :: "rest_wire \<Rightarrow> (string \<times> string) list \<Rightarrow> stream_response list \<times> client_error option" where
  "read_rest_stream w [] = ([], None)"
| "read_rest_stream w ((ev, dat) # es) =
     (if dat = [] then read_rest_stream w es
      else if ev = ''error'' then ([], Some (sse_error w dat))
      else (case rw_event w dat of
              None \<Rightarrow> ([], Some (ClientError ''parse error''))
            | Some x \<Rightarrow> (let (xs, e) = read_rest_stream w es in (x # xs, e))))"

definition rest_events :: "rest_wire \<Rightarrow> rest_item list \<Rightarrow> (string \<times> string list) list" where
  "rest_events w items =
     map (\<lambda>i. (case i of RestEvent j \<Rightarrow> ''message'' | RestErrorEvent p \<Rightarrow> ''error'', [rw_text w i])) items"

text \<open>\<^verbatim>\<open>get_task\<close>: the id is in the path, the tenant too, the history length in the query.\<close>

definition rest_get_task_request :: "(string \<times> string) list \<Rightarrow> string option \<Rightarrow> get_task_request \<Rightarrow> rest_request" where
  "rest_get_task_request headers user r =
     \<lparr>rq_http = \<lparr>hq_body = BodyInvalid [], hq_headers = headers, hq_user = user\<rparr>, rq_body = Inr [],
      rq_query = (case gt_history_length r of None \<Rightarrow> [] | Some n \<Rightarrow> [(''historyLength'', int_str n)]),
      rq_path = (''id'', gt_id r) # (if gt_tenant r \<noteq> [] then [(''tenant'', gt_tenant r)] else [])\<rparr>"

definition rest_get_task ::
  "'v version_lib \<Rightarrow> 's request_handler \<Rightarrow> rpc_codec \<Rightarrow> rest_codec \<Rightarrow> (json \<Rightarrow> task option) \<Rightarrow> string \<Rightarrow> string \<Rightarrow>
   string option \<Rightarrow> get_task_request \<Rightarrow> 's \<Rightarrow> 's \<times> (client_error + task)" where
  "rest_get_task lib h rk sc parse text url user r s =
     (let (s', resp) = rest_on_get_task lib (\<lambda>q. Inr (default_build q)) h rk sc
            (rest_get_task_request [(''a2a-version'', ''1.0'')] user r) s
      in (s', read_rest text url parse resp))"

end
