(* ===== verification/Rest_Laws.thy ===== *)
theory Rest_Laws
  imports Rest
begin

text \<open>
  Laws of the REST endpoint and its client: what the client makes of an exception of the handler,
  a call and a stream through both ends, and that each request of the client has a route.
\<close>

subsection \<open>Laws of the errors\<close>

lemma rest_codes: "400 \<le> ep_code (build_rest_error_payload e)"
proof (cases e)
  case (RestA2A a)
  then show ?thesis by (cases "err_kind a") (simp_all add: Let_def build_error_payload_def mapping_def)
qed (simp_all add: build_error_payload_def)

lemma first_info_details:
  "first_info (build_error_details e) = Some \<lparr>ei_reason = (case A2A_ERROR_REASONS (err_kind e) of None \<Rightarrow> ''UNKNOWN_ERROR'' | Some r \<Rightarrow> r),
     ei_metadata = (case err_data e of None \<Rightarrow> empty_data | Some d \<Rightarrow> d)\<rparr>"
  by (auto simp: build_error_details_def mk_error_info_def Let_def split: option.split list.split)

lemma payload_details: "list_or_nil (ep_details (build_error_payload c st m ds)) = ds"
  by (simp add: build_error_payload_def)

lemma parse_rest_payload:
  "parse_rest_error (build_rest_error_payload (RestA2A e)) =
     (if err_kind e = JSONParseError then None else Some (seen_by_client e))"
proof -
  have r: "A2A_REASON_TO_ERROR (case A2A_ERROR_REASONS (err_kind e) of None \<Rightarrow> ''UNKNOWN_ERROR'' | Some r \<Rightarrow> r) =
      (if err_kind e = JSONParseError then None else Some (err_kind e))"
  proof -
    obtain i ds where i: "ep_details (build_rest_error_payload (RestA2A e)) = Some (ErrorInfo i # ds)"
      "A2A_REASON_TO_ERROR (ei_reason i) = (if err_kind e = JSONParseError then None else Some (err_kind e))"
      using payload_reason [of e] by blast
    have "list_or_nil (ep_details (build_rest_error_payload (RestA2A e))) = build_error_details e"
      by (simp add: Let_def payload_details)
    then have "build_error_details e = ErrorInfo i # ds" unfolding i(1) by simp
    then have "first_info (build_error_details e) = Some i" by simp
    with first_info_details [of e] i(2) show ?thesis by auto
  qed
  have m: "ep_message (build_rest_error_payload (RestA2A e)) = err_message e"
    by (simp add: Let_def build_error_payload_def)
  have d: "list_or_nil (ep_details (build_rest_error_payload (RestA2A e))) = build_error_details e"
    by (simp add: Let_def payload_details)
  show ?thesis
    unfolding parse_rest_error_def m d first_info_details
    by (simp add: r seen_by_client_def split: option.split)
qed

text \<open>What the client makes of the exception of a handler; \<open>txt\<close> is the text of the HTTP error.\<close>

fun rest_view :: "string \<Rightarrow> exn \<Rightarrow> client_error" where
  "rest_view text (A2A e) =
     (if err_kind e = JSONParseError then ClientError text else KnownError (seen_by_client e))"
| "rest_view text e = ClientError text"

lemma other_payload: "parse_rest_error (build_rest_error_payload RestOther) = None"
  by (simp add: parse_rest_error_def build_error_payload_def)

lemma parse_rest_exn:
  "parse_rest_error (build_rest_error_payload (rest_exn_of e)) =
     (case rest_view text e of KnownError a \<Rightarrow> Some a | ClientError m \<Rightarrow> None)"
proof (cases e)
  case (A2A a)
  then show ?thesis by (cases "err_kind a = JSONParseError") (simp_all add: parse_rest_payload del: build_rest_error_payload.simps)
qed (simp_all add: other_payload del: build_rest_error_payload.simps)

lemma unparsed_code:
  "parse_rest_error (build_rest_error_payload (rest_exn_of e)) = None \<Longrightarrow> ep_code (build_rest_error_payload (rest_exn_of e)) = 500"
proof (cases e)
  case (A2A a)
  assume "parse_rest_error (build_rest_error_payload (rest_exn_of e)) = None"
  with A2A parse_rest_payload [of a] have "err_kind a = JSONParseError" by (simp split: if_splits)
  with A2A show ?thesis by (simp add: build_error_payload_def)
qed (simp_all add: build_error_payload_def)

lemma rest_failure_seen: "read_rest text url parse (rest_failure (rest_exn_of e)) = Inl (rest_view text e)"
proof -
  let ?p = "build_rest_error_payload (rest_exn_of e)"
  have c: "\<not> (200 \<le> ep_code ?p \<and> ep_code ?p < 300)" using rest_codes [of "rest_exn_of e"] by simp
  show ?thesis
  proof (cases "rest_view text e")
    case (KnownError a)
    with parse_rest_exn [of e "text"] c show ?thesis
      by (simp add: rest_failure_def create_error_response_def Let_def read_rest_def handle_http_error_def)
  next
    case (ClientError m)
    then have "m = text" by (cases e) (auto split: if_splits)
    moreover have n: "parse_rest_error ?p = None" using parse_rest_exn [of e "text"] ClientError by simp
    ultimately show ?thesis using unparsed_code [OF n] c ClientError
      by (simp add: rest_failure_def create_error_response_def Let_def read_rest_def handle_http_error_def)
  qed
qed

subsection \<open>A call through both ends\<close>

definition rest_outcome :: "string \<Rightarrow> exn + task option \<Rightarrow> client_error + task" where
  "rest_outcome text x =
     (case x of
        Inr (Some t) \<Rightarrow> Inr t
      | Inr None \<Rightarrow> Inl (rest_view text (A2A (err TaskNotFoundError)))
      | Inl e \<Rightarrow> Inl (rest_view text e))"

text \<open>Protobuf reads the history length that the client wrote.\<close>

definition get_query_ok :: "rest_codec \<Rightarrow> int option \<Rightarrow> bool" where
  "get_query_ok sc n \<longleftrightarrow>
     sc_get sc (case n of None \<Rightarrow> [] | Some k \<Rightarrow> [(''historyLength'', OneValue (int_str k))]) =
       Inr \<lparr>gt_tenant = [], gt_id = [], gt_history_length = n\<rparr>"

lemma get_task_query:
  "parse_params get_task_fields (rq_query (rest_get_task_request hs user r)) =
     (case gt_history_length r of None \<Rightarrow> [] | Some k \<Rightarrow> [(''historyLength'', OneValue (int_str k))])"
  by (auto simp: rest_get_task_request_def parse_params_def query_keys_def query_getlist_def field_named_def
      get_task_fields_def scalar_field_def parse_param_def split: option.split)

lemma rest_context_v1:
  "rest_call_context (\<lambda>q. Inr (default_build q)) (rest_get_task_request [(''a2a-version'', ''1.0'')] user r) =
     Inr (rpc_context user (gt_tenant r))"
proof -
  have "getlist \<lparr>hq_body = BodyInvalid [], hq_headers = [(''a2a-version'', ''1.0'')], hq_user = user\<rparr> HTTP_EXTENSION_HEADER = []"
  proof -
    have "lower_string HTTP_EXTENSION_HEADER \<noteq> ''a2a-version''" by code_simp
    then show ?thesis by (auto simp: getlist_def)
  qed
  then show ?thesis
    by (simp add: rest_call_context_def rest_get_task_request_def default_build_def rpc_context_def header_dict_def
        get_requested_extensions_def)
qed

lemma rest_get_task_end_to_end:
  assumes q: "get_query_ok sc (gt_history_length r)"
    and pt: "\<And>t. x = Inr (Some t) \<Longrightarrow> \<exists>j. rk_print rk (TaskMsg t) = Inr j \<and> parse j = Some t"
    and run: "rh_get_task h (r\<lparr>gt_tenant := []\<rparr>) (rpc_context user (gt_tenant r)) s = (s', x)"
  shows "rest_get_task lib h rk sc parse text url user r s = (s', rest_outcome text x)"
proof -
  let ?req = "rest_get_task_request [(''a2a-version'', ''1.0'')] user r"
  have v: "check_version lib PROTOCOL_VERSION_1_0 (rpc_context user (gt_tenant r)) = Inr ()"
    using version_1_0_ok [of lib user "gt_tenant r"] by (simp add: check_version_def validate_version_def Let_def)
  have i: "path_param ?req ''id'' = Inr (gt_id r)"
    by (simp add: path_param_def rest_get_task_request_def)
  have m: "rbind (sc_get sc (parse_params get_task_fields (rq_query ?req)))
      (\<lambda>r. rbind (path_param ?req ''id'') (\<lambda>i. Inr (r\<lparr>gt_id := i\<rparr>))) = Inr (r\<lparr>gt_tenant := []\<rparr>)"
    using q unfolding get_task_query get_query_ok_def by (simp add: i)
  let ?y = "at_rest (case x of Inl e \<Rightarrow> Inl e | Inr t \<Rightarrow> task_or_not_found (\<lambda>t. rk_print rk (TaskMsg t)) t)"
  have "rest_on_get_task lib (\<lambda>q. Inr (default_build q)) h rk sc ?req s =
      (s', case ?y of Inl e \<Rightarrow> rest_failure e | Inr j \<Rightarrow> RestJson j)"
    unfolding rest_on_get_task_def rest_unary_def rest_context_v1 m
    using run by (cases x) (simp_all add: v rest_then_def at_rest_def split: sum.split)
  moreover have "read_rest text url parse (case ?y of Inl e \<Rightarrow> rest_failure e | Inr j \<Rightarrow> RestJson j) = rest_outcome text x"
  proof (cases x)
    case (Inl e)
    then show ?thesis by (simp add: at_rest_def rest_outcome_def rest_failure_seen)
  next
    case (Inr t)
    show ?thesis
    proof (cases t)
      case None
      with Inr show ?thesis
        using rest_failure_seen [of "text" url parse "A2A (err TaskNotFoundError)"]
        by (simp add: at_rest_def rest_outcome_def task_or_not_found_def)
    next
      case (Some t1)
      from pt [of t1] Inr Some obtain j where "rk_print rk (TaskMsg t1) = Inr j" "parse j = Some t1" by blast
      with Inr Some show ?thesis by (simp add: at_rest_def rest_outcome_def task_or_not_found_def read_rest_def)
    qed
  qed
  ultimately show ?thesis by (simp add: rest_get_task_def)
qed

text \<open>The two transports show the client the same.\<close>

definition known_error :: "exn + 'a \<Rightarrow> bool" where
  "known_error x = (case x of Inr t \<Rightarrow> True | Inl (A2A e) \<Rightarrow> err_kind e \<noteq> JSONParseError | Inl e \<Rightarrow> False)"

lemma outcomes_agree: "known_error x \<Longrightarrow> rest_outcome text x = handler_outcome x"
  by (auto simp: known_error_def rest_outcome_def handler_outcome_def split: sum.splits option.splits exn.splits)

subsection \<open>A stream through both ends\<close>

definition rest_wire_ok :: "rest_wire \<Rightarrow> rest_item \<Rightarrow> bool" where
  "rest_wire_ok w i \<longleftrightarrow> rw_text w i \<noteq> [] \<and> no_eol (rw_text w i) \<and>
     (case i of RestEvent j \<Rightarrow> True | RestErrorEvent p \<Rightarrow> rw_payload w (rw_text w i) = Some p)"

lemma rest_events_ok: "list_all (rest_wire_ok w) items \<Longrightarrow> list_all sse_event_ok (rest_events w items)"
proof -
  assume w: "list_all (rest_wire_ok w) items"
  have "no_eol ''error''" "no_eol ''message''" by code_simp+
  with w show ?thesis
    by (induction items) (auto simp: rest_events_def sse_event_ok_def rest_wire_ok_def split: rest_item.split)
qed

lemma read_rest_results:
  assumes "\<And>x. x \<in> set xs \<Longrightarrow> rw_text w (RestEvent (f x)) \<noteq> [] \<and> rw_event w (rw_text w (RestEvent (f x))) = Some (g x)"
  shows "read_rest_stream w (map (\<lambda>x. (''message'', rw_text w (RestEvent (f x)))) xs @ es) =
    (let (ys, e) = read_rest_stream w es in (map g xs @ ys, e))"
  using assms by (induction xs) (auto split: prod.split)

definition rest_stream_view :: "rest_wire \<Rightarrow> exn \<Rightarrow> client_error" where
  "rest_stream_view w e = rest_view (rw_text w (RestErrorEvent (build_rest_error_payload (rest_exn_of e)))) e"

lemma rest_stream_end_to_end:
  assumes p: "\<And>ev. ev \<in> set evs \<Longrightarrow> rk_print rk (StreamMsg (stream_response_of ev)) = Inr (pj ev) \<and>
      rw_event w (rw_text w (RestEvent (pj ev))) = Some (stream_response_of ev)"
    and ne: "evs \<noteq> [] \<or> e = None"
    and run: "f r s = (s', evs, e)"
    and ans: "rest_stream_then rk (Inr r) f s = (s', js, e')"
    and w: "rest_answer_stream js e' = RestStream items" "list_all (rest_wire_ok w) items"
  shows "read_rest_stream w (parse_sse ''message'' [] (concat (map sse_lines (rest_events w items)))) =
    (map stream_response_of evs, map_option (rest_stream_view w) e)"
proof -
  have js: "js = map pj evs" "e' = map_option rest_exn_of e"
    using ans run conv_stream_total [of evs "\<lambda>ev. rk_print rk (StreamMsg (stream_response_of ev))" pj e] p
    by (auto simp: rest_stream_then_def)
  have items: "items = map (\<lambda>ev. RestEvent (pj ev)) evs @
      (case e of None \<Rightarrow> [] | Some x \<Rightarrow> [RestErrorEvent (build_rest_error_payload (rest_exn_of x))])"
    using w(1) ne unfolding js rest_answer_stream_def
    by (auto split: list.splits option.splits)
  have parsed: "parse_sse ''message'' [] (concat (map sse_lines (rest_events w items))) =
      map (\<lambda>ev. (''message'', rw_text w (RestEvent (pj ev)))) evs @
      (case e of None \<Rightarrow> [] | Some x \<Rightarrow> [(''error'', rw_text w (RestErrorEvent (build_rest_error_payload (rest_exn_of x))))])"
    unfolding parse_sse_stream [OF rest_events_ok [OF w(2)]]
    by (simp add: rest_events_def items split: option.split)
  have sent: "rw_text w (RestEvent (pj ev)) \<noteq> [] \<and> rw_event w (rw_text w (RestEvent (pj ev))) = Some (stream_response_of ev)"
    if "ev \<in> set evs" for ev
  proof -
    have "list_all (\<lambda>ev. rest_wire_ok w (RestEvent (pj ev))) evs"
      using w(2) by (simp add: items list.pred_map comp_def)
    with that p show ?thesis by (auto simp: list_all_iff rest_wire_ok_def)
  qed
  have last: "read_rest_stream w (case e of None \<Rightarrow> [] | Some x \<Rightarrow>
      [(''error'', rw_text w (RestErrorEvent (build_rest_error_payload (rest_exn_of x))))]) = ([], map_option (rest_stream_view w) e)"
  proof (cases e)
    case (Some x)
    let ?d = "rw_text w (RestErrorEvent (build_rest_error_payload (rest_exn_of x)))"
    from Some w(2) items have ok: "rest_wire_ok w (RestErrorEvent (build_rest_error_payload (rest_exn_of x)))" by simp
    have "sse_error w ?d = rest_view ?d x"
    proof (cases "rest_view ?d x")
      case (KnownError a)
      with ok parse_rest_exn [of x ?d] show ?thesis by (simp add: sse_error_def rest_wire_ok_def)
    next
      case (ClientError m)
      then have "m = ?d" by (cases x) (auto split: if_splits)
      with ClientError ok parse_rest_exn [of x ?d] show ?thesis by (simp add: sse_error_def rest_wire_ok_def)
    qed
    with Some ok show ?thesis by (simp add: rest_stream_view_def rest_wire_ok_def)
  qed simp
  show ?thesis
    unfolding parsed using read_rest_results [of evs w pj stream_response_of, OF sent] last by simp
qed

subsection \<open>Routes\<close>

text \<open>Every request of the transport has the path and the method of a route of the same operation.\<close>

lemma fill_id:
  "fill_path env False [] ''/tasks/{id}'' = ''/tasks/'' @ env ''id''"
  "fill_path env False [] ''/tasks/{id}:cancel'' = ''/tasks/'' @ env ''id'' @ '':cancel''"
  by simp_all

definition has_route :: "(string \<Rightarrow> string) \<Rightarrow> rest_op \<Rightarrow> rest_outgoing \<Rightarrow> bool" where
  "has_route env rop q \<longleftrightarrow>
     (\<exists>tm. ((tm, og_method q), rop) \<in> set base_routes \<and>
        og_path q = (if env ''tenant'' = [] then [] else fill_path env False [] tenant_mount) @ fill_path env False [] tm)"

lemma routed:
  assumes "((tm, meth), rop) \<in> set base_routes" "fill_path env False [] tm = target" "env ''tenant'' = tenant"
  shows "has_route env rop (execute_request meth target tenant js ps)"
  using assms by (auto simp: has_route_def execute_request_def get_path_def tenant_mount_def)

definition path_env :: "string \<Rightarrow> string \<Rightarrow> string \<Rightarrow> string \<Rightarrow> string" where
  "path_env tenant i p n =
     (if n = ''tenant'' then tenant else if n = ''id'' then i else if n = ''push_id'' then p else [])"

lemma client_requests_route:
  "has_route (path_env (smr_tenant m) i p) OpSend (rt_send_message d m)"
  "has_route (path_env (smr_tenant m) i p) OpStream (rt_send_message_streaming d m)"
  "has_route (path_env (gt_tenant g) (gt_id g) p) OpGet (rt_get_task d g)"
  "has_route (path_env (lr_tenant l) i p) OpList (rt_list_tasks d l)"
  "has_route (path_env (ct_tenant c) (ct_id c) p) OpCancel (rt_cancel_task d c)"
  "has_route (path_env (pc_tenant f) (pc_task_id f) p) OpSetPush (rt_create_push_config d f)"
  "has_route (path_env (gpr_tenant gp) (gpr_task_id gp) (gpr_id gp)) OpGetPush (rt_get_push_config d gp)"
  "has_route (path_env (lpr_tenant lp) (lpr_task_id lp) p) OpListPush (rt_list_push_configs d lp)"
  "has_route (path_env (dpr_tenant dp) (dpr_task_id dp) (dpr_id dp)) OpDeletePush (rt_delete_push_config d dp)"
  "has_route (path_env (sb_tenant b) (sb_id b) p) OpSubscribe (rt_subscribe b)"
  "rt_get_extended_agent_card acard t = Inr q \<Longrightarrow> has_route (path_env t i p) OpCard q"
  unfolding rt_send_message_def rt_send_message_streaming_def rt_get_task_def rt_list_tasks_def rt_cancel_task_def
    rt_create_push_config_def rt_get_push_config_def rt_list_push_configs_def rt_delete_push_config_def
    rt_subscribe_def rt_get_extended_agent_card_def
  by (auto intro!: routed simp: base_routes_def path_env_def split: if_splits)

text \<open>What is in the path is not in the query again.\<close>

lemma map_of_without: "map_of (without ks d) k = (if k \<in> to_ustr ` set ks then None else map_of d k)"
proof -
  have "map_of (fold (\<lambda>k d. AList.delete (to_ustr k) d) ks d) k = (if k \<in> to_ustr ` set ks then None else map_of d k)"
    by (induction ks arbitrary: d) (auto simp: delete_conv')
  then show ?thesis by (simp add: without_def)
qed

end
