(* ===== verification/Grpc.thy ===== *)
theory Grpc
  imports Rest_Laws
begin

text \<open>
  gRPC: the servicer (\<^verbatim>\<open>server/request_handlers/grpc_handler.py\<close>, \<^verbatim>\<open>utils/grpc_status.py\<close>) and the client's
  transport (\<^verbatim>\<open>client/transports/grpc.py\<close>). A message arrives as it was sent; a
  \<^verbatim>\<open>google.rpc.Status\<close> in the trailing metadata is kept as a value, as protobuf reads what it wrote.
\<close>

subsection \<open>Status codes\<close>

datatype grpc_code = G_OK | G_CANCELLED | G_UNKNOWN | G_INVALID_ARGUMENT | G_DEADLINE_EXCEEDED | G_NOT_FOUND
  | G_ALREADY_EXISTS | G_PERMISSION_DENIED | G_RESOURCE_EXHAUSTED | G_FAILED_PRECONDITION | G_ABORTED
  | G_OUT_OF_RANGE | G_UNIMPLEMENTED | G_INTERNAL | G_UNAVAILABLE | G_DATA_LOSS | G_UNAUTHENTICATED

definition grpc_codes :: "(grpc_code \<times> string) list" where
  "grpc_codes = [(G_OK, ''OK''), (G_CANCELLED, ''CANCELLED''), (G_UNKNOWN, ''UNKNOWN''),
     (G_INVALID_ARGUMENT, ''INVALID_ARGUMENT''), (G_DEADLINE_EXCEEDED, ''DEADLINE_EXCEEDED''),
     (G_NOT_FOUND, ''NOT_FOUND''), (G_ALREADY_EXISTS, ''ALREADY_EXISTS''),
     (G_PERMISSION_DENIED, ''PERMISSION_DENIED''), (G_RESOURCE_EXHAUSTED, ''RESOURCE_EXHAUSTED''),
     (G_FAILED_PRECONDITION, ''FAILED_PRECONDITION''), (G_ABORTED, ''ABORTED''), (G_OUT_OF_RANGE, ''OUT_OF_RANGE''),
     (G_UNIMPLEMENTED, ''UNIMPLEMENTED''), (G_INTERNAL, ''INTERNAL''), (G_UNAVAILABLE, ''UNAVAILABLE''),
     (G_DATA_LOSS, ''DATA_LOSS''), (G_UNAUTHENTICATED, ''UNAUTHENTICATED'')]"

text \<open>The number of a code is its position, \<^verbatim>\<open>value[0]\<close>; its name is \<^verbatim>\<open>name\<close>.\<close>

definition code_value :: "grpc_code \<Rightarrow> nat" where
  "code_value c = (case index_of c (map fst grpc_codes) of None \<Rightarrow> 0 | Some i \<Rightarrow> i)"

definition code_name :: "grpc_code \<Rightarrow> string" where
  "code_name c = or_empty (map_of grpc_codes c)"

text \<open>The dictionary \<^verbatim>\<open>_ERROR_CODE_MAP\<close>; \<^verbatim>\<open>JSONParseError\<close> is not in it.\<close>

fun GRPC_ERROR_CODE_MAP :: "a2a_kind \<Rightarrow> grpc_code option" where
  "GRPC_ERROR_CODE_MAP InvalidRequestError = Some G_INVALID_ARGUMENT"
| "GRPC_ERROR_CODE_MAP MethodNotFoundError = Some G_NOT_FOUND"
| "GRPC_ERROR_CODE_MAP InvalidParamsError = Some G_INVALID_ARGUMENT"
| "GRPC_ERROR_CODE_MAP InternalError = Some G_INTERNAL"
| "GRPC_ERROR_CODE_MAP TaskNotFoundError = Some G_NOT_FOUND"
| "GRPC_ERROR_CODE_MAP TaskNotCancelableError = Some G_FAILED_PRECONDITION"
| "GRPC_ERROR_CODE_MAP PushNotificationNotSupportedError = Some G_FAILED_PRECONDITION"
| "GRPC_ERROR_CODE_MAP UnsupportedOperationError = Some G_FAILED_PRECONDITION"
| "GRPC_ERROR_CODE_MAP ContentTypeNotSupportedError = Some G_INVALID_ARGUMENT"
| "GRPC_ERROR_CODE_MAP InvalidAgentResponseError = Some G_INTERNAL"
| "GRPC_ERROR_CODE_MAP ExtendedAgentCardNotConfiguredError = Some G_FAILED_PRECONDITION"
| "GRPC_ERROR_CODE_MAP ExtensionSupportRequiredError = Some G_FAILED_PRECONDITION"
| "GRPC_ERROR_CODE_MAP VersionNotSupportedError = Some G_FAILED_PRECONDITION"
| "GRPC_ERROR_CODE_MAP JSONParseError = None"

subsection \<open>Statuses and their transport\<close>

datatype grpc_detail = GErrorInfo string string | GBadRequest "field_violation list" | GOther

record grpc_status =
  gs_code :: nat
  gs_message :: string
  gs_details :: "grpc_detail list"

datatype md_value = MdText string | MdStatus grpc_status

type_synonym metadata = "(string \<times> md_value) list"

record grpc_abort =
  ab_code :: grpc_code
  ab_details :: string
  ab_trailing :: metadata

definition GRPC_STATUS_DETAILS_BIN_KEY :: string where
  "GRPC_STATUS_DETAILS_BIN_KEY = ''grpc-status-details-bin''"

definition status_to_grpc :: "grpc_status \<Rightarrow> exn + grpc_abort" where
  "status_to_grpc st =
     (if gs_code st < length grpc_codes
      then Inr \<lparr>ab_code = fst (grpc_codes ! gs_code st), ab_details = gs_message st,
             ab_trailing = [(GRPC_STATUS_DETAILS_BIN_KEY, MdStatus st)]\<rparr>
      else Inl (ValueError ''Invalid status code''))"

text \<open>The first entry of the key counts; other bytes than those of a status are not modelled.\<close>

fun status_from_trailing :: "grpc_abort \<Rightarrow> metadata \<Rightarrow> exn + grpc_status option" where
  "status_from_trailing e [] = Inr None"
| "status_from_trailing e ((k, v) # md) =
     (case v of
        MdStatus st \<Rightarrow>
          if k = GRPC_STATUS_DETAILS_BIN_KEY
          then (if code_value (ab_code e) \<noteq> gs_code st then Inl (ValueError ''Mismatched status code'')
                else if ab_details e \<noteq> gs_message st then Inl (ValueError ''Mismatched status message'')
                else Inr (Some st))
          else status_from_trailing e md
      | MdText s \<Rightarrow> status_from_trailing e md)"

definition status_from_call :: "grpc_abort \<Rightarrow> exn + grpc_status option" where
  "status_from_call e = status_from_trailing e (ab_trailing e)"

subsection \<open>The context of a call\<close>

definition get_metadata_value :: "(string \<times> string) list \<Rightarrow> string \<Rightarrow> string list" where
  "get_metadata_value md key = map snd (filter (\<lambda>(k, v). lower_string k = lower_string key) md)"

definition default_grpc_build :: "(string \<times> string) list \<Rightarrow> call_context" where
  "default_grpc_build md = \<lparr>cc_user_name = [], cc_tenant = [],
     cc_requested_extensions = get_requested_extensions (get_metadata_value md HTTP_EXTENSION_HEADER),
     cc_headers = []\<rparr>"

definition grpc_call_context ::
  "((string \<times> string) list \<Rightarrow> exn + call_context) \<Rightarrow> (string \<times> string) list \<Rightarrow> string \<Rightarrow> exn + call_context" where
  "grpc_call_context build md tenant = rbind (build md) (\<lambda>c. Inr (c\<lparr>cc_tenant := tenant\<rparr>))"

subsection \<open>Errors and calls\<close>

definition abort_context :: "metadata \<Rightarrow> a2a_error \<Rightarrow> exn + grpc_abort" where
  "abort_context trailing e =
     (case GRPC_ERROR_CODE_MAP (err_kind e) of
        None \<Rightarrow> Inr \<lparr>ab_code = G_UNKNOWN, ab_details = ''Unknown error type: '' @ err_message e, ab_trailing = trailing\<rparr>
      | Some c \<Rightarrow>
          (let reason = (case A2A_ERROR_REASONS (err_kind e) of None \<Rightarrow> ''UNKNOWN_ERROR'' | Some r \<Rightarrow> r);
               vs = (case err_data e of None \<Rightarrow> [] | Some d \<Rightarrow> list_or_nil (ed_errors d));
               bad = (if err_kind e = InvalidParamsError \<and> vs \<noteq> []
                      then [GBadRequest (validation_errors_to_bad_request vs)] else [])
           in rbind (status_to_grpc \<lparr>gs_code = code_value c, gs_message = err_message e,
                gs_details = GErrorInfo reason ''a2a-protocol.org'' # bad\<rparr>) (\<lambda>a.
              Inr (a\<lparr>ab_trailing := trailing @ ab_trailing a\<rparr>))))"

text \<open>What a call ends with; an exception that is no A2A error goes to gRPC.\<close>

datatype 'a grpc_reply = GrpcOk 'a | GrpcAborted grpc_abort | GrpcRaised exn

fun grpc_failure :: "exn \<Rightarrow> 'a grpc_reply" where
  "grpc_failure (A2A e) = (case abort_context [] e of Inl x \<Rightarrow> GrpcRaised x | Inr a \<Rightarrow> GrpcAborted a)"
| "grpc_failure e = GrpcRaised e"

type_synonym 's grpc_env = "((string \<times> string) list \<Rightarrow> exn + call_context) \<times> 's request_handler"

definition grpc_unary ::
  "((string \<times> string) list \<Rightarrow> exn + call_context) \<Rightarrow> (string \<times> string) list \<Rightarrow> string \<Rightarrow>
   (call_context \<Rightarrow> ('a, 's) call) \<Rightarrow> 's \<Rightarrow> 's \<times> 'a grpc_reply" where
  "grpc_unary build md tenant f s =
     (case grpc_call_context build md tenant of
        Inl e \<Rightarrow> (s, grpc_failure e)
      | Inr c \<Rightarrow> (case f c s of (s', Inl e) \<Rightarrow> (s', grpc_failure e) | (s', Inr x) \<Rightarrow> (s', GrpcOk x)))"

text \<open>A stream: its items and, when it does not end by itself, its end.\<close>

definition grpc_stream ::
  "((string \<times> string) list \<Rightarrow> exn + call_context) \<Rightarrow> (string \<times> string) list \<Rightarrow> string \<Rightarrow>
   (call_context \<Rightarrow> (event option, 's) stream_call) \<Rightarrow> 's \<Rightarrow> 's \<times> stream_response list \<times> unit grpc_reply" where
  "grpc_stream build md tenant f s =
     (case grpc_call_context build md tenant of
        Inl e \<Rightarrow> (s, [], grpc_failure e)
      | Inr c \<Rightarrow> (let (s', evs, e) = f c s
                  in (s', map stream_response_of evs, case e of None \<Rightarrow> GrpcOk () | Some x \<Rightarrow> grpc_failure x)))"

definition or_not_found :: "(task option, 's) call \<Rightarrow> (task, 's) call" where
  "or_not_found f s = (case f s of (s', Inl e) \<Rightarrow> (s', Inl e) | (s', Inr t) \<Rightarrow> (s', task_or_not_found Inr t))"

subsection \<open>The servicer\<close>

definition grpc_SendMessage where
  "grpc_SendMessage build h r md = grpc_unary build md (smr_tenant r) (\<lambda>c. rh_message_send h r c)"

definition grpc_SendStreamingMessage where
  "grpc_SendStreamingMessage build h r md = grpc_stream build md (smr_tenant r) (\<lambda>c. rh_message_send_stream h r c)"

definition grpc_CancelTask where
  "grpc_CancelTask build h r md = grpc_unary build md (ct_tenant r) (\<lambda>c. or_not_found (rh_cancel_task h r c))"

definition grpc_SubscribeToTask where
  "grpc_SubscribeToTask build h r md = grpc_stream build md (sb_tenant r) (\<lambda>c. rh_subscribe h r c)"

definition grpc_GetTaskPushNotificationConfig where
  "grpc_GetTaskPushNotificationConfig build h r md = grpc_unary build md (gpr_tenant r) (\<lambda>c. rh_get_push_config h r c)"

definition grpc_CreateTaskPushNotificationConfig where
  "grpc_CreateTaskPushNotificationConfig build h r md = grpc_unary build md (pc_tenant r) (\<lambda>c. rh_create_push_config h r c)"

definition grpc_ListTaskPushNotificationConfigs where
  "grpc_ListTaskPushNotificationConfigs build h r md = grpc_unary build md (lpr_tenant r) (\<lambda>c. rh_list_push_configs h r c)"

definition grpc_DeleteTaskPushNotificationConfig where
  "grpc_DeleteTaskPushNotificationConfig build h r md = grpc_unary build md (dpr_tenant r) (\<lambda>c. rh_delete_push_config h r c)"

definition grpc_GetTask where
  "grpc_GetTask build h r md = grpc_unary build md (gt_tenant r) (\<lambda>c. or_not_found (rh_get_task h r c))"

definition grpc_ListTasks where
  "grpc_ListTasks build h r md = grpc_unary build md (lr_tenant r) (\<lambda>c. rh_list_tasks h r c)"

definition grpc_GetExtendedAgentCard where
  "grpc_GetExtendedAgentCard build h tenant md = grpc_unary build md tenant (\<lambda>c. rh_get_extended_agent_card h c)"

subsection \<open>The client\<close>

text \<open>The class and the data that the details name: the last of each counts.\<close>

fun read_details :: "grpc_detail list \<Rightarrow> a2a_kind option \<Rightarrow> error_data option \<Rightarrow> a2a_kind option \<times> error_data option" where
  "read_details [] k d = (k, d)"
| "read_details (GErrorInfo reason domain # ds) k d =
     read_details ds (if domain = ''a2a-protocol.org'' then A2A_REASON_TO_ERROR reason else k) d"
| "read_details (GBadRequest vs # ds) k d =
     read_details ds k (Some \<lparr>ed_errors = Some (bad_request_to_validation_errors vs), ed_other = []\<rparr>)"
| "read_details (GOther # ds) k d = read_details ds k d"

definition grpc_error_text :: "grpc_abort \<Rightarrow> client_error" where
  "grpc_error_text e = ClientError (''gRPC Error '' @ code_name (ab_code e) @ '': '' @ ab_details e)"

definition map_grpc_error :: "grpc_abort \<Rightarrow> exn + client_error" where
  "map_grpc_error e =
     (if ab_code e = G_DEADLINE_EXCEEDED then Inr (ClientError ''Client Request timed out'')
      else rbind (status_from_call e) (\<lambda>st.
        Inr (case st of
               None \<Rightarrow> grpc_error_text e
             | Some x \<Rightarrow>
                 (case read_details (gs_details x) None None of
                    (Some k, d) \<Rightarrow> KnownError (mk_error k (Some (gs_message x)) d)
                  | (None, d) \<Rightarrow> grpc_error_text e))))"

definition grpc_metadata :: "string \<Rightarrow> (string \<times> string) list \<Rightarrow> (string \<times> string) list" where
  "grpc_metadata version params = (''a2a-version'', version) # map (\<lambda>(k, v). (lower_string k, v)) params"

text \<open>An exception of the server that is no A2A error arrives with the code \<^verbatim>\<open>UNKNOWN\<close>.\<close>

fun read_grpc :: "(exn \<Rightarrow> string) \<Rightarrow> (grpc_abort \<Rightarrow> exn + client_error) \<Rightarrow> 'a grpc_reply \<Rightarrow> client_error + 'a" where
  "read_grpc unexpected map_error (GrpcOk x) = Inr x"
| "read_grpc unexpected map_error (GrpcAborted a) =
     Inl (case map_error a of Inl x \<Rightarrow> ClientError (exn_text x) | Inr y \<Rightarrow> y)"
| "read_grpc unexpected map_error (GrpcRaised x) =
     Inl (case map_error \<lparr>ab_code = G_UNKNOWN, ab_details = unexpected x, ab_trailing = []\<rparr> of
            Inl x \<Rightarrow> ClientError (exn_text x) | Inr y \<Rightarrow> y)"

text \<open>A call with \<^verbatim>\<open>_call_grpc\<close>: the stub's method is the servicer's, with the metadata of the call. Time
  limits are not modelled.\<close>

type_synonym 's grpc_client = "(exn \<Rightarrow> string) \<times> ((string \<times> string) list \<Rightarrow> exn + call_context) \<times> 's request_handler"

definition call_grpc ::
  "(exn \<Rightarrow> string) \<Rightarrow> ((string \<times> string) list \<Rightarrow> 's \<Rightarrow> 's \<times> 'a grpc_reply) \<Rightarrow> (string \<times> string) list \<Rightarrow> 's \<Rightarrow>
   's \<times> (client_error + 'a)" where
  "call_grpc unexpected stub params s =
     (let (s', y) = stub (grpc_metadata PROTOCOL_VERSION_1_0 params) s in (s', read_grpc unexpected map_grpc_error y))"

definition call_grpc_stream ::
  "(exn \<Rightarrow> string) \<Rightarrow> ((string \<times> string) list \<Rightarrow> 's \<Rightarrow> 's \<times> 'a list \<times> unit grpc_reply) \<Rightarrow>
   (string \<times> string) list \<Rightarrow> 's \<Rightarrow> 's \<times> 'a list \<times> client_error option" where
  "call_grpc_stream unexpected stub params s =
     (let (s', xs, y) = stub (grpc_metadata PROTOCOL_VERSION_1_0 params) s
      in (s', xs, case read_grpc unexpected map_grpc_error y of Inl e \<Rightarrow> Some e | Inr _ \<Rightarrow> None))"

definition gt_send_message :: "'s grpc_client \<Rightarrow> send_message_request \<Rightarrow> (string \<times> string) list \<Rightarrow> 's \<Rightarrow> 's \<times> (client_error + send_response)" where
  "gt_send_message g r = (case g of (u, build, h) \<Rightarrow> call_grpc u (grpc_SendMessage build h r))"

definition gt_send_message_streaming where
  "gt_send_message_streaming g r = (case g of (u, build, h) \<Rightarrow> call_grpc_stream u (grpc_SendStreamingMessage build h r))"

definition gt_subscribe where
  "gt_subscribe g r = (case g of (u, build, h) \<Rightarrow> call_grpc_stream u (grpc_SubscribeToTask build h r))"

definition gt_get_task :: "'s grpc_client \<Rightarrow> get_task_request \<Rightarrow> (string \<times> string) list \<Rightarrow> 's \<Rightarrow> 's \<times> (client_error + task)" where
  "gt_get_task g r = (case g of (u, build, h) \<Rightarrow> call_grpc u (grpc_GetTask build h r))"

definition gt_list_tasks where
  "gt_list_tasks g r = (case g of (u, build, h) \<Rightarrow> call_grpc u (grpc_ListTasks build h r))"

definition gt_cancel_task where
  "gt_cancel_task g r = (case g of (u, build, h) \<Rightarrow> call_grpc u (grpc_CancelTask build h r))"

definition gt_create_push_config where
  "gt_create_push_config g r = (case g of (u, build, h) \<Rightarrow> call_grpc u (grpc_CreateTaskPushNotificationConfig build h r))"

definition gt_get_push_config where
  "gt_get_push_config g r = (case g of (u, build, h) \<Rightarrow> call_grpc u (grpc_GetTaskPushNotificationConfig build h r))"

definition gt_list_push_configs where
  "gt_list_push_configs g r = (case g of (u, build, h) \<Rightarrow> call_grpc u (grpc_ListTaskPushNotificationConfigs build h r))"

definition gt_delete_push_config where
  "gt_delete_push_config g r = (case g of (u, build, h) \<Rightarrow> call_grpc u (grpc_DeleteTaskPushNotificationConfig build h r))"

text \<open>The card at hand is the answer unless it announces an extended one.\<close>

definition gt_get_extended_agent_card ::
  "'s grpc_client \<Rightarrow> agent_card option \<Rightarrow> string \<Rightarrow> (string \<times> string) list \<Rightarrow> 's \<Rightarrow> 's \<times> (client_error + agent_card)" where
  "gt_get_extended_agent_card g own tenant params s =
     (case (own, g) of
        (Some c, _) \<Rightarrow> if cap_extended_agent_card (card_capabilities_of c) \<noteq> Some True then (s, Inr c)
                       else (case g of (u, build, h) \<Rightarrow> call_grpc u (grpc_GetExtendedAgentCard build h tenant) params s)
      | (None, u, build, h) \<Rightarrow> call_grpc u (grpc_GetExtendedAgentCard build h tenant) params s)"

subsection \<open>Laws\<close>

lemma code_value_inj: "code_value c < length grpc_codes \<and> fst (grpc_codes ! code_value c) = c"
  by (cases c) (simp_all add: code_value_def grpc_codes_def)

text \<open>The client sees the kind and the message of an error, and of its data the violations of fields.\<close>

definition seen_over_grpc :: "a2a_error \<Rightarrow> a2a_error" where
  "seen_over_grpc e = mk_error (err_kind e) (Some (err_message e))
     (case err_data e of
        None \<Rightarrow> None
      | Some d \<Rightarrow> if err_kind e = InvalidParamsError \<and> list_or_nil (ed_errors d) \<noteq> []
                  then Some \<lparr>ed_errors = ed_errors d, ed_other = []\<rparr> else None)"

lemma abort_defined: "\<exists>a. abort_context tr e = Inr a"
  using code_value_inj by (auto simp: abort_context_def Let_def status_to_grpc_def split: option.split)

lemma grpc_code_defined: "GRPC_ERROR_CODE_MAP k = None \<longleftrightarrow> k = JSONParseError"
  "GRPC_ERROR_CODE_MAP k \<noteq> Some G_DEADLINE_EXCEEDED"
  by (cases k; simp)+

lemma grpc_reason_known:
  "GRPC_ERROR_CODE_MAP k = Some c \<Longrightarrow> \<exists>r. A2A_ERROR_REASONS k = Some r \<and> A2A_REASON_TO_ERROR r = Some k"
  by (cases k) (auto simp: reason_to_error A2A_ERROR_REASONS_def mapping_def)

text \<open>What the servicer aborts with is what the client reads back.\<close>

definition sent_violations :: "a2a_error \<Rightarrow> validation_detail list" where
  "sent_violations e = (if err_kind e = InvalidParamsError
     then (case err_data e of None \<Rightarrow> [] | Some d \<Rightarrow> list_or_nil (ed_errors d)) else [])"

lemma abort_context_eq:
  assumes "GRPC_ERROR_CODE_MAP (err_kind e) = Some c" and "A2A_ERROR_REASONS (err_kind e) = Some r"
  shows "abort_context tr e = Inr \<lparr>ab_code = c, ab_details = err_message e,
     ab_trailing = tr @ [(GRPC_STATUS_DETAILS_BIN_KEY, MdStatus \<lparr>gs_code = code_value c, gs_message = err_message e,
       gs_details = GErrorInfo r ''a2a-protocol.org'' # (if sent_violations e = [] then []
         else [GBadRequest (validation_errors_to_bad_request (sent_violations e))])\<rparr>)]\<rparr>"
  using assms code_value_inj [of c]
  by (auto simp: abort_context_def Let_def status_to_grpc_def sent_violations_def)

lemma status_read:
  "status_from_call \<lparr>ab_code = c, ab_details = m,
     ab_trailing = [(GRPC_STATUS_DETAILS_BIN_KEY, MdStatus \<lparr>gs_code = code_value c, gs_message = m, gs_details = ds\<rparr>)]\<rparr> =
   Inr (Some \<lparr>gs_code = code_value c, gs_message = m, gs_details = ds\<rparr>)"
  by (simp add: status_from_call_def)

lemma seen_violations:
  "seen_over_grpc e = mk_error (err_kind e) (Some (err_message e))
     (if sent_violations e = [] then None else Some \<lparr>ed_errors = Some (sent_violations e), ed_other = []\<rparr>)"
  by (auto simp: seen_over_grpc_def sent_violations_def list_or_nil_def split: option.splits)

lemma abort_seen:
  assumes "err_kind e \<noteq> JSONParseError" and "abort_context [] e = Inr a"
  shows "map_grpc_error a = Inr (KnownError (seen_over_grpc e))"
proof -
  obtain c where c: "GRPC_ERROR_CODE_MAP (err_kind e) = Some c"
    using assms(1) grpc_code_defined(1) by (cases "GRPC_ERROR_CODE_MAP (err_kind e)") auto
  obtain r where r: "A2A_ERROR_REASONS (err_kind e) = Some r" "A2A_REASON_TO_ERROR r = Some (err_kind e)"
    using grpc_reason_known [OF c] by auto
  have "c \<noteq> G_DEADLINE_EXCEEDED" using c grpc_code_defined(2) by auto
  then show ?thesis
    using assms(2) unfolding abort_context_eq [OF c r(1)] append_Nil sum.inject
    by (auto simp: map_grpc_error_def status_read r(2) seen_violations bad_request_round_trip)
qed

definition grpc_client_view :: "(exn \<Rightarrow> string) \<Rightarrow> exn \<Rightarrow> client_error" where
  "grpc_client_view unexpected e =
     (case e of
        A2A a \<Rightarrow> if err_kind a = JSONParseError
                 then ClientError (''gRPC Error UNKNOWN: Unknown error type: '' @ err_message a)
                 else KnownError (seen_over_grpc a)
      | x \<Rightarrow> ClientError (''gRPC Error UNKNOWN: '' @ unexpected x))"

lemma failure_seen: "read_grpc unexpected map_grpc_error (grpc_failure e) = Inl (grpc_client_view unexpected e)"
proof (cases e)
  case (A2A a)
  obtain ab where ab: "abort_context [] a = Inr ab" using abort_defined by auto
  show ?thesis
  proof (cases "err_kind a = JSONParseError")
    case True
    then have "ab = \<lparr>ab_code = G_UNKNOWN, ab_details = ''Unknown error type: '' @ err_message a, ab_trailing = []\<rparr>"
      using ab by (simp add: abort_context_def)
    then show ?thesis
      by (simp add: A2A ab True grpc_client_view_def map_grpc_error_def status_from_call_def grpc_error_text_def
          code_name_def grpc_codes_def)
  qed (simp add: A2A ab abort_seen grpc_client_view_def)
qed (simp_all add: grpc_client_view_def map_grpc_error_def status_from_call_def grpc_error_text_def
    code_name_def grpc_codes_def)

text \<open>A unary call: the handler runs once, and its result or error is what the client has.\<close>

lemma call_unary_end_to_end:
  assumes "build (grpc_metadata PROTOCOL_VERSION_1_0 params) = Inr c" and "f (c\<lparr>cc_tenant := tenant\<rparr>) s = (s', x)"
  shows "call_grpc unexpected (\<lambda>md. grpc_unary build md tenant f) params s =
    (s', case x of Inr y \<Rightarrow> Inr y | Inl e \<Rightarrow> Inl (grpc_client_view unexpected e))"
  using assms by (cases x) (simp_all add: call_grpc_def grpc_unary_def grpc_call_context_def failure_seen)

lemma call_stream_end_to_end:
  assumes "build (grpc_metadata PROTOCOL_VERSION_1_0 params) = Inr c" and "f (c\<lparr>cc_tenant := tenant\<rparr>) s = (s', evs, x)"
  shows "call_grpc_stream unexpected (\<lambda>md. grpc_stream build md tenant f) params s =
    (s', map stream_response_of evs, map_option (grpc_client_view unexpected) x)"
  using assms by (cases x) (simp_all add: call_grpc_stream_def grpc_stream_def grpc_call_context_def failure_seen)

definition grpc_context :: "(string \<times> string) list \<Rightarrow> string \<Rightarrow> call_context" where
  "grpc_context params tenant = (default_grpc_build (grpc_metadata PROTOCOL_VERSION_1_0 params))\<lparr>cc_tenant := tenant\<rparr>"

lemma grpc_get_task_end_to_end:
  assumes "rh_get_task h r (grpc_context params (gt_tenant r)) s = (s', x)"
  shows "gt_get_task (unexpected, \<lambda>md. Inr (default_grpc_build md), h) r params s =
    (s', case x of
           Inr (Some t) \<Rightarrow> Inr t
         | Inr None \<Rightarrow> Inl (KnownError (err TaskNotFoundError))
         | Inl e \<Rightarrow> Inl (grpc_client_view unexpected e))"
proof -
  have "or_not_found (rh_get_task h r (grpc_context params (gt_tenant r))) s =
      (s', case x of Inl e \<Rightarrow> Inl e | Inr t \<Rightarrow> task_or_not_found Inr t)"
    using assms by (cases x) (simp_all add: or_not_found_def)
  then have "call_grpc unexpected (\<lambda>md. grpc_unary (\<lambda>md. Inr (default_grpc_build md)) md (gt_tenant r)
        (\<lambda>c. or_not_found (rh_get_task h r c))) params s =
      (s', case case x of Inl e \<Rightarrow> Inl e | Inr t \<Rightarrow> task_or_not_found Inr t of
             Inr y \<Rightarrow> Inr y | Inl e \<Rightarrow> Inl (grpc_client_view unexpected e))"
    by (intro call_unary_end_to_end) (simp_all add: grpc_context_def)
  moreover have "grpc_GetTask b h r = (\<lambda>md. grpc_unary b md (gt_tenant r) (\<lambda>c. or_not_found (rh_get_task h r c)))" for b
    by (simp add: fun_eq_iff grpc_GetTask_def)
  ultimately show ?thesis
    by (auto simp: gt_get_task_def task_or_not_found_def grpc_client_view_def seen_over_grpc_def err_def mk_error_def
        split: sum.split option.split)
qed

text \<open>Without data the error is the one that the other transports show.\<close>

lemma plain_error_seen:
  assumes "known_error x" and "\<And>e. x = Inl (A2A e) \<Longrightarrow> err_data e = None"
  shows "(case x of Inr (Some t) \<Rightarrow> Inr t | Inr None \<Rightarrow> Inl (KnownError (err TaskNotFoundError))
         | Inl e \<Rightarrow> Inl (grpc_client_view unexpected e)) = handler_outcome x"
  using assms
  by (auto simp: handler_outcome_def grpc_client_view_def seen_over_grpc_def seen_by_client_def
      known_error_def err_def mk_error_def split: sum.splits option.splits exn.splits)

end
