(* ===== verification/Compat_Proto.thy ===== *)
theory Compat_Proto
  imports Compat_Laws
begin

text \<open>
  The protobuf messages of protocol 0.3 (\<^verbatim>\<open>compat/v0_3/a2a_v0_3.proto\<close>) and the conversions between
  them and the models of protocol 0.3 (\<^verbatim>\<open>compat/v0_3/proto_utils.py\<close>), without those of the agent
  card. Fields are as in \<^verbatim>\<open>A2A_Types\<close>: an option has presence, a oneof is an optional datatype; an
  argument \<^verbatim>\<open>None\<close> of a message's constructor leaves the field unset.
\<close>

subsection \<open>Messages\<close>

datatype p3_task_state = P3_UNSPECIFIED | P3_SUBMITTED | P3_WORKING | P3_COMPLETED | P3_FAILED
  | P3_CANCELLED | P3_INPUT_REQUIRED | P3_REJECTED | P3_AUTH_REQUIRED

datatype p3_role = P3_ROLE_UNSPECIFIED | P3_ROLE_USER | P3_ROLE_AGENT

datatype p3_file_content = P3Uri string | P3Bytes bytes

record p3_file =
  f3_file :: "p3_file_content option"
  f3_mime_type :: string
  f3_name :: string

datatype p3_content = P3Text string | P3File p3_file | P3Data "struct option"

record p3_part =
  pt3_part :: "p3_content option"
  pt3_metadata :: "struct option"

record p3_message =
  mg3_message_id :: string
  mg3_context_id :: string
  mg3_task_id :: string
  mg3_role :: p3_role
  mg3_content :: "p3_part list"
  mg3_metadata :: "struct option"
  mg3_extensions :: "string list"

definition p3_empty_message :: p3_message where
  "p3_empty_message = \<lparr>mg3_message_id = [], mg3_context_id = [], mg3_task_id = [],
     mg3_role = P3_ROLE_UNSPECIFIED, mg3_content = [], mg3_metadata = None, mg3_extensions = []\<rparr>"

record p3_artifact =
  at3_artifact_id :: string
  at3_name :: string
  at3_description :: string
  at3_parts :: "p3_part list"
  at3_metadata :: "struct option"
  at3_extensions :: "string list"

definition p3_empty_artifact :: p3_artifact where
  "p3_empty_artifact = \<lparr>at3_artifact_id = [], at3_name = [], at3_description = [], at3_parts = [],
     at3_metadata = None, at3_extensions = []\<rparr>"

record p3_status =
  st3_state :: p3_task_state
  st3_update :: "p3_message option"
  st3_timestamp :: "timestamp option"

definition p3_empty_status :: p3_status where
  "p3_empty_status = \<lparr>st3_state = P3_UNSPECIFIED, st3_update = None, st3_timestamp = None\<rparr>"

record p3_task =
  tk3_id :: string
  tk3_context_id :: string
  tk3_status :: "p3_status option"
  tk3_artifacts :: "p3_artifact list"
  tk3_history :: "p3_message list"
  tk3_metadata :: "struct option"

definition p3_empty_task :: p3_task where
  "p3_empty_task = \<lparr>tk3_id = [], tk3_context_id = [], tk3_status = None, tk3_artifacts = [],
     tk3_history = [], tk3_metadata = None\<rparr>"

record p3_status_event =
  su3_task_id :: string
  su3_context_id :: string
  su3_status :: "p3_status option"
  su3_final :: bool
  su3_metadata :: "struct option"

record p3_artifact_event =
  au3_task_id :: string
  au3_context_id :: string
  au3_artifact :: "p3_artifact option"
  au3_append :: bool
  au3_last_chunk :: bool
  au3_metadata :: "struct option"

datatype p3_payload = P3Task p3_task | P3Msg p3_message | P3Status p3_status_event | P3Artifact p3_artifact_event

record p3_auth_info =
  an3_schemes :: "string list"
  an3_credentials :: string

record p3_push_config =
  ph3_id :: string
  ph3_url :: string
  ph3_token :: string
  ph3_authentication :: "p3_auth_info option"

definition p3_empty_push_config :: p3_push_config where
  "p3_empty_push_config = \<lparr>ph3_id = [], ph3_url = [], ph3_token = [], ph3_authentication = None\<rparr>"

record p3_task_push_config =
  tc3_name :: string
  tc3_push_notification_config :: "p3_push_config option"

definition p3_empty_task_push_config :: p3_task_push_config where
  "p3_empty_task_push_config = \<lparr>tc3_name = [], tc3_push_notification_config = None\<rparr>"

record p3_create_push_request =
  cr3_parent :: string
  cr3_config_id :: string
  cr3_config :: "p3_task_push_config option"

record p3_send_config =
  sf3_accepted_output_modes :: "string list"
  sf3_push_notification :: "p3_push_config option"
  sf3_history_length :: int
  sf3_blocking :: bool

definition p3_empty_send_config :: p3_send_config where
  "p3_empty_send_config = \<lparr>sf3_accepted_output_modes = [], sf3_push_notification = None,
     sf3_history_length = 0, sf3_blocking = False\<rparr>"

record p3_send_request =
  sr3_request :: "p3_message option"
  sr3_configuration :: "p3_send_config option"
  sr3_metadata :: "struct option"

record p3_get_task_request =
  gr3_name :: string
  gr3_history_length :: int

text \<open>The requests that have a name only.\<close>

datatype p3_named = P3Cancel string | P3Subscription string | P3GetPush string

text \<open>\<open>None\<close> reads as the default instance.\<close>

definition read_field :: "'a \<Rightarrow> 'a option \<Rightarrow> 'a" where
  "read_field d x = (case x of None \<Rightarrow> d | Some y \<Rightarrow> y)"

lemma read_field_simps [simp]: "read_field d None = d" "read_field d (Some x) = x"
  by (simp_all add: read_field_def)

subsection \<open>Dictionaries\<close>

text \<open>A nested dictionary is converted by itself; any other value is what protobuf makes of it.\<close>

fun dict_to_struct03 :: "json_codec \<Rightarrow> struct \<Rightarrow> exn + struct"
  and struct_item03 :: "json_codec \<Rightarrow> json \<Rightarrow> exn + json" where
  "dict_to_struct03 k [] = Inr []"
| "dict_to_struct03 k ((x, v) # d) =
     rbind (struct_item03 k v) (\<lambda>w. rbind (dict_to_struct03 k d) (\<lambda>s. Inr ((x, w) # s)))"
| "struct_item03 k (JObj d) = rbind (dict_to_struct03 k d) (\<lambda>s. Inr (JObj s))"
| "struct_item03 k v = jk_dict_value k v"

subsection \<open>To protobuf\<close>

definition to_proto_metadata :: "json_codec \<Rightarrow> struct option \<Rightarrow> exn + struct option" where
  "to_proto_metadata k m = rmap_opt (dict_to_struct03 k) m"

definition utf8_bytes :: "string \<Rightarrow> bytes" where
  "utf8_bytes s = (case utf8_encode (to_ustr s) of None \<Rightarrow> [] | Some bs \<Rightarrow> map word_of_nat bs)"

fun to_proto_file :: "file03 \<Rightarrow> p3_file" where
  "to_proto_file (FileWithUri f) =
     \<lparr>f3_file = Some (P3Uri (fu_uri f)), f3_mime_type = or_empty (fu_mime_type f), f3_name = or_empty (fu_name f)\<rparr>"
| "to_proto_file (FileWithBytes f) =
     \<lparr>f3_file = Some (P3Bytes (utf8_bytes (fb_bytes f))), f3_mime_type = or_empty (fb_mime_type f),
      f3_name = or_empty (fb_name f)\<rparr>"

fun to_proto_part :: "json_codec \<Rightarrow> part03 \<Rightarrow> exn + p3_part" where
  "to_proto_part k (TextPart p) = rbind (to_proto_metadata k (tp_metadata p)) (\<lambda>m.
     Inr \<lparr>pt3_part = Some (P3Text (tp_text p)), pt3_metadata = m\<rparr>)"
| "to_proto_part k (FilePart p) = rbind (to_proto_metadata k (fp_metadata p)) (\<lambda>m.
     Inr \<lparr>pt3_part = Some (P3File (to_proto_file (fp_file p))), pt3_metadata = m\<rparr>)"
| "to_proto_part k (DataPart p) = rbind (dict_to_struct03 k (dp_data p)) (\<lambda>d.
     rbind (to_proto_metadata k (dp_metadata p)) (\<lambda>m.
     Inr \<lparr>pt3_part = Some (P3Data (Some d)), pt3_metadata = m\<rparr>))"

fun to_proto_role :: "role03 \<Rightarrow> p3_role" where
  "to_proto_role user03 = P3_ROLE_USER"
| "to_proto_role agent03 = P3_ROLE_AGENT"

definition to_proto_message :: "json_codec \<Rightarrow> message03 \<Rightarrow> exn + p3_message" where
  "to_proto_message k m =
     rbind (rmap_list (to_proto_part k) (m3_parts m)) (\<lambda>parts.
     rbind (to_proto_metadata k (m3_metadata m)) (\<lambda>metadata.
       Inr \<lparr>mg3_message_id = m3_message_id m, mg3_context_id = or_empty (m3_context_id m),
            mg3_task_id = or_empty (m3_task_id m), mg3_role = to_proto_role (m3_role m), mg3_content = parts,
            mg3_metadata = metadata, mg3_extensions = list_or_nil (m3_extensions m)\<rparr>))"

fun to_proto_task_state :: "task_state03 \<Rightarrow> p3_task_state" where
  "to_proto_task_state submitted = P3_SUBMITTED"
| "to_proto_task_state working = P3_WORKING"
| "to_proto_task_state completed = P3_COMPLETED"
| "to_proto_task_state canceled = P3_CANCELLED"
| "to_proto_task_state failed = P3_FAILED"
| "to_proto_task_state input_required = P3_INPUT_REQUIRED"
| "to_proto_task_state auth_required = P3_AUTH_REQUIRED"
| "to_proto_task_state rejected = P3_REJECTED"
| "to_proto_task_state unknown = P3_UNSPECIFIED"

definition to_proto_task_status :: "json_codec \<Rightarrow> task_status03 \<Rightarrow> exn + p3_status" where
  "to_proto_task_status k s =
     rbind (rmap_opt (to_proto_message k) (s3_message s)) (\<lambda>m.
       Inr \<lparr>st3_state = to_proto_task_state (s3_state s), st3_update = m, st3_timestamp = None\<rparr>)"

definition to_proto_artifact :: "json_codec \<Rightarrow> artifact03 \<Rightarrow> exn + p3_artifact" where
  "to_proto_artifact k a =
     rbind (to_proto_metadata k (a3_metadata a)) (\<lambda>metadata.
     rbind (rmap_list (to_proto_part k) (a3_parts a)) (\<lambda>parts.
       Inr \<lparr>at3_artifact_id = a3_artifact_id a, at3_name = or_empty (a3_name a),
            at3_description = or_empty (a3_description a), at3_parts = parts, at3_metadata = metadata,
            at3_extensions = list_or_nil (a3_extensions a)\<rparr>))"

definition to_proto_task :: "json_codec \<Rightarrow> task03 \<Rightarrow> exn + p3_task" where
  "to_proto_task k t =
     rbind (to_proto_task_status k (t3_status t)) (\<lambda>status.
     rbind (rmap_list (to_proto_artifact k) (list_or_nil (t3_artifacts t))) (\<lambda>artifacts.
     rbind (rmap_list (to_proto_message k) (list_or_nil (t3_history t))) (\<lambda>history.
     rbind (to_proto_metadata k (t3_metadata t)) (\<lambda>metadata.
       Inr \<lparr>tk3_id = t3_id t, tk3_context_id = t3_context_id t, tk3_status = Some status,
            tk3_artifacts = artifacts, tk3_history = history, tk3_metadata = metadata\<rparr>))))"

definition to_proto_authentication_info :: "auth_info03 \<Rightarrow> p3_auth_info" where
  "to_proto_authentication_info a =
     \<lparr>an3_schemes = ai3_schemes a, an3_credentials = or_empty (ai3_credentials a)\<rparr>"

definition to_proto_push_notification_config :: "push_config03 \<Rightarrow> p3_push_config" where
  "to_proto_push_notification_config c =
     \<lparr>ph3_id = or_empty (pc3_id c), ph3_url = pc3_url c, ph3_token = or_empty (pc3_token c),
      ph3_authentication = map_option to_proto_authentication_info (pc3_authentication c)\<rparr>"

definition to_proto_task_artifact_update_event :: "json_codec \<Rightarrow> artifact_event03 \<Rightarrow> exn + p3_artifact_event" where
  "to_proto_task_artifact_update_event k e =
     rbind (to_proto_artifact k (ae3_artifact e)) (\<lambda>artifact.
     rbind (to_proto_metadata k (ae3_metadata e)) (\<lambda>metadata.
       Inr \<lparr>au3_task_id = ae3_task_id e, au3_context_id = ae3_context_id e, au3_artifact = Some artifact,
            au3_append = (ae3_append e = Some True), au3_last_chunk = (ae3_last_chunk e = Some True),
            au3_metadata = metadata\<rparr>))"

definition to_proto_task_status_update_event :: "json_codec \<Rightarrow> status_event03 \<Rightarrow> exn + p3_status_event" where
  "to_proto_task_status_update_event k e =
     rbind (to_proto_task_status k (se3_status e)) (\<lambda>status.
     rbind (to_proto_metadata k (se3_metadata e)) (\<lambda>metadata.
       Inr \<lparr>su3_task_id = se3_task_id e, su3_context_id = se3_context_id e, su3_status = Some status,
            su3_final = se3_final e, su3_metadata = metadata\<rparr>))"

definition to_proto_message_send_configuration :: "send_config03 option \<Rightarrow> exn + p3_send_config" where
  "to_proto_message_send_configuration c =
     (case c of
        None \<Rightarrow> Inr p3_empty_send_config
      | Some conf \<Rightarrow>
          rbind (rmap_opt int32_field (sc3_history_length conf)) (\<lambda>hl.
            Inr \<lparr>sf3_accepted_output_modes = list_or_nil (sc3_accepted_output_modes conf),
                 sf3_push_notification = map_option to_proto_push_notification_config (sc3_push_notification_config conf),
                 sf3_history_length = read_field 0 hl, sf3_blocking = (sc3_blocking conf = Some True)\<rparr>))"

fun to_proto_task_or_message :: "json_codec \<Rightarrow> send_result03 \<Rightarrow> exn + p3_payload" where
  "to_proto_task_or_message k (SendMessage m) = rbind (to_proto_message k m) (\<lambda>x. Inr (P3Msg x))"
| "to_proto_task_or_message k (SendTask t) = rbind (to_proto_task k t) (\<lambda>x. Inr (P3Task x))"

fun to_proto_stream_response :: "json_codec \<Rightarrow> stream_result03 \<Rightarrow> exn + p3_payload" where
  "to_proto_stream_response k (StreamMessage m) = rbind (to_proto_message k m) (\<lambda>x. Inr (P3Msg x))"
| "to_proto_stream_response k (StreamTask t) = rbind (to_proto_task k t) (\<lambda>x. Inr (P3Task x))"
| "to_proto_stream_response k (StreamStatus e) =
     rbind (to_proto_task_status_update_event k e) (\<lambda>x. Inr (P3Status x))"
| "to_proto_stream_response k (StreamArtifact e) =
     rbind (to_proto_task_artifact_update_event k e) (\<lambda>x. Inr (P3Artifact x))"

text \<open>The name, an f-string: a missing id is printed as \<^verbatim>\<open>None\<close>.\<close>

definition push_config_name :: "string \<Rightarrow> string option \<Rightarrow> string" where
  "push_config_name t i =
     ''tasks/'' @ t @ ''/pushNotificationConfigs/'' @ (case i of None \<Rightarrow> ''None'' | Some x \<Rightarrow> x)"

definition to_proto_task_push_notification_config :: "task_push_config03 \<Rightarrow> p3_task_push_config" where
  "to_proto_task_push_notification_config c =
     \<lparr>tc3_name = push_config_name (tpc3_task_id c) (pc3_id (tpc3_push_notification_config c)),
      tc3_push_notification_config =
        Some (to_proto_push_notification_config (tpc3_push_notification_config c))\<rparr>"

subsection \<open>Names\<close>

text \<open>\<^verbatim>\<open>re.match\<close> of the two patterns: a group is the longest text without a slash.\<close>

definition segment :: "string \<Rightarrow> string" where
  "segment s = takeWhile (\<lambda>c. c \<noteq> CHR ''/'') s"

definition after_prefix :: "string \<Rightarrow> string \<Rightarrow> string option" where
  "after_prefix p s = (if take (length p) s = p then Some (drop (length p) s) else None)"

definition TASK_NAME_MATCH :: "string \<Rightarrow> string option" where
  "TASK_NAME_MATCH s =
     (case after_prefix ''tasks/'' s of
        None \<Rightarrow> None
      | Some r \<Rightarrow> or_none (segment r))"

definition TASK_PUSH_CONFIG_NAME_MATCH :: "string \<Rightarrow> (string \<times> string) option" where
  "TASK_PUSH_CONFIG_NAME_MATCH s =
     (case after_prefix ''tasks/'' s of
        None \<Rightarrow> None
      | Some r \<Rightarrow>
          if segment r = [] then None
          else (case after_prefix ''/pushNotificationConfigs/'' (drop (length (segment r)) r) of
                  None \<Rightarrow> None
                | Some q \<Rightarrow> if segment q = [] then None else Some (segment r, segment q)))"

definition no_task :: "string \<Rightarrow> exn" where
  "no_task name = A2A (err_msg InvalidParamsError (''No task for '' @ name))"

subsection \<open>From protobuf\<close>

definition from_proto_metadata :: "json_codec \<Rightarrow> struct option \<Rightarrow> exn + struct" where
  "from_proto_metadata k m = (if list_or_nil m = [] then Inr [] else struct_to_dict k (list_or_nil m))"

text \<open>The metadata of a part: an empty \<^verbatim>\<open>Struct\<close> is false.\<close>

definition from_part_metadata :: "json_codec \<Rightarrow> struct option \<Rightarrow> exn + struct option" where
  "from_part_metadata k m =
     (if list_or_nil m = [] then Inr None else rbind (from_proto_metadata k m) (\<lambda>d. Inr (Some d)))"

text \<open>A text of the model has characters below 256 only; other texts are not read.\<close>

definition utf8_text :: "bytes \<Rightarrow> exn + string" where
  "utf8_text bs =
     (case utf8_decode (map unat bs) of
        None \<Rightarrow> Inl (ValueError ''invalid start byte'')
      | Some u \<Rightarrow> if list_all (\<lambda>n. n < 256) u then Inr (map char_of u) else Inl (ValueError ''invalid start byte''))"

definition from_proto_file :: "p3_file \<Rightarrow> exn + file03" where
  "from_proto_file f =
     (case f3_file f of
        Some (P3Uri uri) \<Rightarrow> Inr (FileWithUri
          \<lparr>fu_mime_type = or_none (f3_mime_type f), fu_name = or_none (f3_name f), fu_uri = uri\<rparr>)
      | c \<Rightarrow> rbind (utf8_text (case c of Some (P3Bytes bs) \<Rightarrow> bs | _ \<Rightarrow> [])) (\<lambda>s.
          Inr (FileWithBytes
            \<lparr>fb_bytes = s, fb_mime_type = or_none (f3_mime_type f), fb_name = or_none (f3_name f)\<rparr>)))"

text \<open>The JSON text of the data that is printed is read at once.\<close>

definition from_proto_data :: "json_codec \<Rightarrow> struct option \<Rightarrow> exn + struct" where
  "from_proto_data k d = struct_to_dict k (list_or_nil d)"

definition from_proto_part :: "json_codec \<Rightarrow> p3_part \<Rightarrow> exn + part03" where
  "from_proto_part k p =
     (case pt3_part p of
        Some (P3Text s) \<Rightarrow> rbind (from_part_metadata k (pt3_metadata p)) (\<lambda>m.
          Inr (TextPart \<lparr>tp_metadata = m, tp_text = s\<rparr>))
      | Some (P3File f) \<Rightarrow> rbind (from_proto_file f) (\<lambda>file.
          rbind (from_part_metadata k (pt3_metadata p)) (\<lambda>m. Inr (FilePart \<lparr>fp_file = file, fp_metadata = m\<rparr>)))
      | Some (P3Data d) \<Rightarrow> rbind (from_proto_data k d) (\<lambda>dat.
          rbind (from_part_metadata k (pt3_metadata p)) (\<lambda>m. Inr (DataPart \<lparr>dp_data = dat, dp_metadata = m\<rparr>)))
      | None \<Rightarrow> Inl (ValueError ''Unsupported part type''))"

fun from_proto_role :: "p3_role \<Rightarrow> role03" where
  "from_proto_role P3_ROLE_USER = user03"
| "from_proto_role P3_ROLE_AGENT = agent03"
| "from_proto_role P3_ROLE_UNSPECIFIED = agent03"

definition from_proto_message :: "json_codec \<Rightarrow> p3_message \<Rightarrow> exn + message03" where
  "from_proto_message k m =
     rbind (rmap_list (from_proto_part k) (mg3_content m)) (\<lambda>parts.
     rbind (from_proto_metadata k (mg3_metadata m)) (\<lambda>metadata.
       Inr \<lparr>m3_context_id = or_none (mg3_context_id m), m3_extensions = list_or_none (mg3_extensions m),
            m3_message_id = mg3_message_id m, m3_metadata = Some metadata, m3_parts = parts,
            m3_reference_task_ids = None, m3_role = from_proto_role (mg3_role m),
            m3_task_id = or_none (mg3_task_id m)\<rparr>))"

fun from_proto_task_state :: "p3_task_state \<Rightarrow> task_state03" where
  "from_proto_task_state P3_SUBMITTED = submitted"
| "from_proto_task_state P3_WORKING = working"
| "from_proto_task_state P3_COMPLETED = completed"
| "from_proto_task_state P3_CANCELLED = canceled"
| "from_proto_task_state P3_FAILED = failed"
| "from_proto_task_state P3_INPUT_REQUIRED = input_required"
| "from_proto_task_state P3_AUTH_REQUIRED = auth_required"
| "from_proto_task_state P3_REJECTED = rejected"
| "from_proto_task_state P3_UNSPECIFIED = unknown"

definition from_proto_task_status :: "json_codec \<Rightarrow> p3_status \<Rightarrow> exn + task_status03" where
  "from_proto_task_status k s =
     rbind (from_proto_message k (read_field p3_empty_message (st3_update s))) (\<lambda>m.
       Inr \<lparr>s3_message = Some m, s3_state = from_proto_task_state (st3_state s), s3_timestamp = None\<rparr>)"

definition from_proto_artifact :: "json_codec \<Rightarrow> p3_artifact \<Rightarrow> exn + artifact03" where
  "from_proto_artifact k a =
     rbind (from_proto_metadata k (at3_metadata a)) (\<lambda>metadata.
     rbind (rmap_list (from_proto_part k) (at3_parts a)) (\<lambda>parts.
       Inr \<lparr>a3_artifact_id = at3_artifact_id a, a3_description = Some (at3_description a),
            a3_extensions = list_or_none (at3_extensions a), a3_metadata = Some metadata,
            a3_name = Some (at3_name a), a3_parts = parts\<rparr>))"

definition from_proto_task :: "json_codec \<Rightarrow> p3_task \<Rightarrow> exn + task03" where
  "from_proto_task k t =
     rbind (from_proto_task_status k (read_field p3_empty_status (tk3_status t))) (\<lambda>status.
     rbind (rmap_list (from_proto_artifact k) (tk3_artifacts t)) (\<lambda>artifacts.
     rbind (rmap_list (from_proto_message k) (tk3_history t)) (\<lambda>history.
     rbind (from_proto_metadata k (tk3_metadata t)) (\<lambda>metadata.
       Inr \<lparr>t3_artifacts = Some artifacts, t3_context_id = tk3_context_id t, t3_history = Some history,
            t3_id = tk3_id t, t3_metadata = Some metadata, t3_status = status\<rparr>))))"

text \<open>A \<^verbatim>\<open>SendMessageResponse\<close> has no other payload than these two.\<close>

definition from_proto_task_or_message :: "json_codec \<Rightarrow> p3_payload option \<Rightarrow> exn + send_result03" where
  "from_proto_task_or_message k p =
     (case p of
        Some (P3Msg m) \<Rightarrow> rbind (from_proto_message k m) (\<lambda>x. Inr (SendMessage x))
      | Some (P3Task t) \<Rightarrow> rbind (from_proto_task k t) (\<lambda>x. Inr (SendTask x))
      | _ \<Rightarrow> rbind (from_proto_task k p3_empty_task) (\<lambda>x. Inr (SendTask x)))"

definition from_proto_task_artifact_update_event :: "json_codec \<Rightarrow> p3_artifact_event \<Rightarrow> exn + artifact_event03" where
  "from_proto_task_artifact_update_event k e =
     rbind (from_proto_artifact k (read_field p3_empty_artifact (au3_artifact e))) (\<lambda>artifact.
     rbind (from_proto_metadata k (au3_metadata e)) (\<lambda>metadata.
       Inr \<lparr>ae3_append = Some (au3_append e), ae3_artifact = artifact, ae3_context_id = au3_context_id e,
            ae3_last_chunk = Some (au3_last_chunk e), ae3_metadata = Some metadata, ae3_task_id = au3_task_id e\<rparr>))"

definition from_proto_task_status_update_event :: "json_codec \<Rightarrow> p3_status_event \<Rightarrow> exn + status_event03" where
  "from_proto_task_status_update_event k e =
     rbind (from_proto_task_status k (read_field p3_empty_status (su3_status e))) (\<lambda>status.
     rbind (from_proto_metadata k (su3_metadata e)) (\<lambda>metadata.
       Inr \<lparr>se3_context_id = su3_context_id e, se3_final = su3_final e, se3_metadata = Some metadata,
            se3_status = status, se3_task_id = su3_task_id e\<rparr>))"

definition from_proto_stream_response :: "json_codec \<Rightarrow> p3_payload option \<Rightarrow> exn + stream_result03" where
  "from_proto_stream_response k p =
     (case p of
        Some (P3Msg m) \<Rightarrow> rbind (from_proto_message k m) (\<lambda>x. Inr (StreamMessage x))
      | Some (P3Task t) \<Rightarrow> rbind (from_proto_task k t) (\<lambda>x. Inr (StreamTask x))
      | Some (P3Status e) \<Rightarrow> rbind (from_proto_task_status_update_event k e) (\<lambda>x. Inr (StreamStatus x))
      | Some (P3Artifact e) \<Rightarrow> rbind (from_proto_task_artifact_update_event k e) (\<lambda>x. Inr (StreamArtifact x))
      | None \<Rightarrow> Inl (ValueError ''Unsupported StreamResponse type''))"

definition from_proto_authentication_info :: "p3_auth_info \<Rightarrow> auth_info03" where
  "from_proto_authentication_info a =
     \<lparr>ai3_credentials = Some (an3_credentials a), ai3_schemes = an3_schemes a\<rparr>"

definition from_proto_push_notification_config :: "p3_push_config \<Rightarrow> push_config03" where
  "from_proto_push_notification_config c =
     \<lparr>pc3_authentication = map_option from_proto_authentication_info (ph3_authentication c),
      pc3_id = Some (ph3_id c), pc3_token = Some (ph3_token c), pc3_url = ph3_url c\<rparr>"

definition from_proto_message_send_configuration :: "p3_send_config \<Rightarrow> send_config03" where
  "from_proto_message_send_configuration c =
     \<lparr>sc3_accepted_output_modes = Some (sf3_accepted_output_modes c), sc3_blocking = Some (sf3_blocking c),
      sc3_history_length = Some (sf3_history_length c),
      sc3_push_notification_config = map_option from_proto_push_notification_config (sf3_push_notification c)\<rparr>"

definition from_proto_message_send_params :: "json_codec \<Rightarrow> p3_send_request \<Rightarrow> exn + send_params03" where
  "from_proto_message_send_params k r =
     rbind (from_proto_message k (read_field p3_empty_message (sr3_request r))) (\<lambda>m.
     rbind (from_proto_metadata k (sr3_metadata r)) (\<lambda>metadata.
       Inr \<lparr>sp3_configuration = Some (from_proto_message_send_configuration
              (read_field p3_empty_send_config (sr3_configuration r))),
            sp3_message = m, sp3_metadata = Some metadata\<rparr>))"

fun from_proto_task_id_params :: "p3_named \<Rightarrow> exn + task_id_params" where
  "from_proto_task_id_params (P3GetPush name) =
     (case TASK_PUSH_CONFIG_NAME_MATCH name of
        None \<Rightarrow> Inl (no_task name) | Some (t, i) \<Rightarrow> Inr \<lparr>ti_id = t, ti_metadata = None\<rparr>)"
| "from_proto_task_id_params (P3Cancel name) =
     (case TASK_NAME_MATCH name of None \<Rightarrow> Inl (no_task name) | Some t \<Rightarrow> Inr \<lparr>ti_id = t, ti_metadata = None\<rparr>)"
| "from_proto_task_id_params (P3Subscription name) =
     (case TASK_NAME_MATCH name of None \<Rightarrow> Inl (no_task name) | Some t \<Rightarrow> Inr \<lparr>ti_id = t, ti_metadata = None\<rparr>)"

definition from_proto_task_push_notification_config_request :: "p3_create_push_request \<Rightarrow> exn + task_push_config03" where
  "from_proto_task_push_notification_config_request r =
     (case TASK_NAME_MATCH (cr3_parent r) of
        None \<Rightarrow> Inl (no_task (cr3_parent r))
      | Some t \<Rightarrow> Inr \<lparr>tpc3_push_notification_config = from_proto_push_notification_config
            (read_field p3_empty_push_config
              (tc3_push_notification_config (read_field p3_empty_task_push_config (cr3_config r)))),
          tpc3_task_id = t\<rparr>)"

definition from_proto_task_push_notification_config :: "p3_task_push_config \<Rightarrow> exn + task_push_config03" where
  "from_proto_task_push_notification_config c =
     (case TASK_PUSH_CONFIG_NAME_MATCH (tc3_name c) of
        None \<Rightarrow> Inl (A2A (err_msg InvalidParamsError
          (''Bad TaskPushNotificationConfig resource name '' @ tc3_name c)))
      | Some (t, i) \<Rightarrow> Inr \<lparr>tpc3_push_notification_config = from_proto_push_notification_config
            (read_field p3_empty_push_config (tc3_push_notification_config c)), tpc3_task_id = t\<rparr>)"

definition from_proto_task_query_params :: "p3_get_task_request \<Rightarrow> exn + task_query_params" where
  "from_proto_task_query_params r =
     (case TASK_NAME_MATCH (gr3_name r) of
        None \<Rightarrow> Inl (no_task (gr3_name r))
      | Some t \<Rightarrow> Inr \<lparr>tq_history_length = (if gr3_history_length r \<noteq> 0 then Some (gr3_history_length r) else None),
                      tq_id = t, tq_metadata = None\<rparr>)"

definition from_proto_list_push_response ::
  "p3_task_push_config list \<Rightarrow> exn + task_push_config03 list rpc_response" where
  "from_proto_list_push_response cs =
     rbind (rmap_list from_proto_task_push_notification_config cs) (\<lambda>xs.
       Inr (RpcSuccess \<lparr>ok_id = None, ok_result = xs\<rparr>))"

end
