(* ===== verification/Compat_Proto_Laws.thy ===== *)
theory Compat_Proto_Laws
  imports Compat_Proto
begin

text \<open>
  What survives the way of a 0.3 model through protobuf and back: the normal forms of
  \<^verbatim>\<open>Compat_Proto\<close>'s conversions. Dictionaries are those that protobuf prints (\<open>printed\<close>). The
  last part puts both conversions of protocol 0.3 together: what a task of protocol 1.0 is after
  the way from the server to a client that speaks protocol 0.3 in protobuf.
\<close>

subsection \<open>There and back\<close>

definition passes :: "('a \<Rightarrow> 'e + 'b) \<Rightarrow> ('b \<Rightarrow> 'e + 'c) \<Rightarrow> 'a \<Rightarrow> 'c \<Rightarrow> bool" where
  "passes f g x z \<longleftrightarrow> (\<exists>y. f x = Inr y \<and> g y = Inr z)"

lemma passesI: "f x = Inr y \<Longrightarrow> g y = Inr z \<Longrightarrow> passes f g x z"
  by (auto simp: passes_def)

lemma passesE:
  assumes "passes f g x z" obtains y where "f x = Inr y" "g y = Inr z"
  using assms by (auto simp: passes_def)

lemma passes_list:
  "(\<And>x. x \<in> set xs \<Longrightarrow> passes f g x (n x)) \<Longrightarrow> passes (rmap_list f) (rmap_list g) xs (map n xs)"
proof (induction xs)
  case (Cons x xs)
  from Cons.prems [of x] obtain y where y: "f x = Inr y" "g y = Inr (n x)" by (auto elim: passesE)
  from Cons.IH Cons.prems obtain ys where "rmap_list f xs = Inr ys" "rmap_list g ys = Inr (map n xs)"
    by (auto elim: passesE)
  with y show ?case by (intro passesI [of _ _ "y # ys"]) simp_all
qed (auto intro: passesI)

subsection \<open>Dictionaries\<close>

lemma codec_bool: "json_codec_ok k \<Longrightarrow> jk_value_dict k (JBool b) = Inr (JBool b)"
  by (simp add: json_codec_ok_def)

lemma dict03_back:
  "json_codec_ok k \<Longrightarrow> struct_to_dict k s = Inr d \<Longrightarrow> dict_to_struct03 k d = Inr s"
  "json_codec_ok k \<Longrightarrow> jk_value_dict k v = Inr w \<Longrightarrow> struct_item03 k w = Inr v"
proof (induction k d and k w arbitrary: s and v rule: dict_to_struct03_struct_item03.induct)
  case (1 k)
  then show ?case by (cases s) auto
next
  case (2 k x v d)
  then show ?case by (cases s) auto
next
  case (3 k d)
  then obtain s where v: "v = JObj s" using codec_value_obj by blast
  with 3 codec_obj [of k s] have "struct_to_dict k s = Inr d" by auto
  with 3 v show ?case by simp
qed (auto simp: codec_value_back)

definition printed :: "json_codec \<Rightarrow> struct \<Rightarrow> bool" where
  "printed k d \<longleftrightarrow> (\<exists>s. struct_to_dict k s = Inr d)"

lemma printed_Nil [simp]: "printed k []"
  unfolding printed_def by (rule exI [of _ "[]"]) simp

lemma passes_dict: "json_codec_ok k \<Longrightarrow> printed k d \<Longrightarrow> passes (dict_to_struct03 k) (struct_to_dict k) d d"
  by (auto simp: printed_def passes_def dest: dict03_back(1))

lemma dict03_Nil: "dict_to_struct03 k d = Inr s \<Longrightarrow> s = [] \<longleftrightarrow> d = []"
  by (cases d) auto

lemma passes_metadata:
  assumes "json_codec_ok k" "pred_option (printed k) m"
  shows "passes (to_proto_metadata k) (from_proto_metadata k) m (list_or_nil m)"
    and "passes (to_proto_metadata k) (from_part_metadata k) m (some_truthy m)"
proof -
  show "passes (to_proto_metadata k) (from_proto_metadata k) m (list_or_nil m)"
  proof (cases m)
    case None
    then show ?thesis by (auto simp: passes_def to_proto_metadata_def from_proto_metadata_def)
  next
    case (Some d)
    with assms passes_dict [of k d] show ?thesis
      by (auto simp: passes_def to_proto_metadata_def from_proto_metadata_def dest: dict03_Nil)
  qed
  show "passes (to_proto_metadata k) (from_part_metadata k) m (some_truthy m)"
  proof (cases m)
    case None
    then show ?thesis by (auto simp: passes_def to_proto_metadata_def from_part_metadata_def)
  next
    case (Some d)
    with assms passes_dict [of k d] obtain s where s: "dict_to_struct03 k d = Inr s" "struct_to_dict k s = Inr d"
      by (auto elim: passesE)
    then show ?thesis
      by (intro passesI [of _ _ "Some s"])
        (auto simp: Some to_proto_metadata_def from_part_metadata_def from_proto_metadata_def some_truthy_eq
          dest: dict03_Nil)
  qed
qed

subsection \<open>Texts\<close>

lemma utf8_text_back [simp]: "utf8_text (utf8_bytes s) = Inr s"
proof -
  obtain bs where bs: "utf8_encode (to_ustr s) = Some bs" using utf8_encode_string by blast
  have "map (unat \<circ> (word_of_nat :: nat \<Rightarrow> byte)) bs = bs"
  proof (rule map_idI)
    fix b assume "b \<in> set bs"
    then have "b < 256" by (rule utf8_encode_range [OF bs])
    then show "(unat \<circ> (word_of_nat :: nat \<Rightarrow> byte)) b = b" by (simp add: unat_of_nat)
  qed
  moreover have "list_all (\<lambda>n. n < 256) (to_ustr s)" by (auto simp: to_ustr_def list_all_iff)
  moreover have "map char_of (to_ustr s) = s" by (simp add: to_ustr_def comp_def)
  ultimately show ?thesis
    using utf8_roundtrip [OF bs] by (simp add: utf8_text_def utf8_bytes_def bs comp_def)
qed

subsection \<open>Parts and messages\<close>

fun file03_normal :: "file03 \<Rightarrow> file03" where
  "file03_normal (FileWithUri f) =
     FileWithUri (f\<lparr>fu_mime_type := some_truthy (fu_mime_type f), fu_name := some_truthy (fu_name f)\<rparr>)"
| "file03_normal (FileWithBytes f) =
     FileWithBytes (f\<lparr>fb_mime_type := some_truthy (fb_mime_type f), fb_name := some_truthy (fb_name f)\<rparr>)"

lemma or_none_or_empty_some [simp]: "or_none (or_empty x) = some_truthy x"
  by (cases x) (auto simp: or_none_def some_truthy_def list_or_none_def)

lemma file_passes: "from_proto_file (to_proto_file f) = Inr (file03_normal f)"
  by (cases f rule: file03_normal.cases) (simp_all add: from_proto_file_def)

fun part03_normal :: "part03 \<Rightarrow> part03" where
  "part03_normal (TextPart p) = TextPart (p\<lparr>tp_metadata := some_truthy (tp_metadata p)\<rparr>)"
| "part03_normal (FilePart p) =
     FilePart \<lparr>fp_file = file03_normal (fp_file p), fp_metadata = some_truthy (fp_metadata p)\<rparr>"
| "part03_normal (DataPart p) = DataPart (p\<lparr>dp_metadata := some_truthy (dp_metadata p)\<rparr>)"

fun part03_printed :: "json_codec \<Rightarrow> part03 \<Rightarrow> bool" where
  "part03_printed k (TextPart p) \<longleftrightarrow> pred_option (printed k) (tp_metadata p)"
| "part03_printed k (FilePart p) \<longleftrightarrow> pred_option (printed k) (fp_metadata p)"
| "part03_printed k (DataPart p) \<longleftrightarrow> printed k (dp_data p) \<and> pred_option (printed k) (dp_metadata p)"

lemma part_passes:
  assumes k: "json_codec_ok k" and p: "part03_printed k p"
  shows "passes (to_proto_part k) (from_proto_part k) p (part03_normal p)"
proof (cases p)
  case (TextPart t)
  from passes_metadata(2) [OF k, of "tp_metadata t"] p TextPart show ?thesis
    by (auto simp: passes_def from_proto_part_def)
next
  case (FilePart f)
  from passes_metadata(2) [OF k, of "fp_metadata f"] p FilePart show ?thesis
    by (auto simp: passes_def from_proto_part_def file_passes)
next
  case (DataPart d)
  from passes_metadata(2) [OF k, of "dp_metadata d"] passes_dict [OF k, of "dp_data d"] p DataPart show ?thesis
    by (auto simp: passes_def from_proto_part_def from_proto_data_def)
qed

definition message03_normal :: "message03 \<Rightarrow> message03" where
  "message03_normal m = m\<lparr>m3_context_id := some_truthy (m3_context_id m),
     m3_extensions := some_truthy (m3_extensions m), m3_metadata := Some (list_or_nil (m3_metadata m)),
     m3_parts := map part03_normal (m3_parts m), m3_reference_task_ids := None,
     m3_task_id := some_truthy (m3_task_id m)\<rparr>"

definition message03_printed :: "json_codec \<Rightarrow> message03 \<Rightarrow> bool" where
  "message03_printed k m \<longleftrightarrow> pred_option (printed k) (m3_metadata m) \<and> list_all (part03_printed k) (m3_parts m)"

lemma parts_pass:
  "json_codec_ok k \<Longrightarrow> list_all (part03_printed k) ps \<Longrightarrow>
   passes (rmap_list (to_proto_part k)) (rmap_list (from_proto_part k)) ps (map part03_normal ps)"
  by (rule passes_list) (auto simp: list_all_iff intro: part_passes)

lemma role_passes [simp]: "from_proto_role (to_proto_role r) = r"
  by (cases r) simp_all

lemma message_passes:
  assumes k: "json_codec_ok k" and p: "message03_printed k m"
  shows "passes (to_proto_message k) (from_proto_message k) m (message03_normal m)"
proof -
  from p have "pred_option (printed k) (m3_metadata m)" "list_all (part03_printed k) (m3_parts m)"
    by (simp_all add: message03_printed_def)
  with passes_metadata(1) [OF k] parts_pass [OF k] show ?thesis
    by (fastforce simp: passes_def to_proto_message_def from_proto_message_def message03_normal_def some_truthy_def)
qed

text \<open>A message that was not set comes back as an empty message of the agent.\<close>

definition empty_message03 :: message03 where
  "empty_message03 = \<lparr>m3_context_id = None, m3_extensions = None, m3_message_id = [], m3_metadata = Some [],
     m3_parts = [], m3_reference_task_ids = None, m3_role = agent03, m3_task_id = None\<rparr>"

lemma empty_message_read: "from_proto_message k p3_empty_message = Inr empty_message03"
  by (simp add: from_proto_message_def p3_empty_message_def empty_message03_def from_proto_metadata_def)

subsection \<open>Statuses, artifacts, tasks\<close>

definition status03_normal :: "task_status03 \<Rightarrow> task_status03" where
  "status03_normal s = s\<lparr>s3_message := Some (case s3_message s of None \<Rightarrow> empty_message03 | Some m \<Rightarrow> message03_normal m),
     s3_timestamp := None\<rparr>"

definition artifact03_normal :: "artifact03 \<Rightarrow> artifact03" where
  "artifact03_normal a = a\<lparr>a3_description := Some (or_empty (a3_description a)),
     a3_extensions := some_truthy (a3_extensions a), a3_metadata := Some (list_or_nil (a3_metadata a)),
     a3_name := Some (or_empty (a3_name a)), a3_parts := map part03_normal (a3_parts a)\<rparr>"

definition task03_normal :: "task03 \<Rightarrow> task03" where
  "task03_normal t = t\<lparr>t3_artifacts := Some (map artifact03_normal (list_or_nil (t3_artifacts t))),
     t3_history := Some (map message03_normal (list_or_nil (t3_history t))),
     t3_metadata := Some (list_or_nil (t3_metadata t)), t3_status := status03_normal (t3_status t)\<rparr>"

definition status03_printed :: "json_codec \<Rightarrow> task_status03 \<Rightarrow> bool" where
  "status03_printed k s \<longleftrightarrow> pred_option (message03_printed k) (s3_message s)"

definition artifact03_printed :: "json_codec \<Rightarrow> artifact03 \<Rightarrow> bool" where
  "artifact03_printed k a \<longleftrightarrow> pred_option (printed k) (a3_metadata a) \<and> list_all (part03_printed k) (a3_parts a)"

definition task03_printed :: "json_codec \<Rightarrow> task03 \<Rightarrow> bool" where
  "task03_printed k t \<longleftrightarrow> status03_printed k (t3_status t) \<and>
     list_all (artifact03_printed k) (list_or_nil (t3_artifacts t)) \<and>
     list_all (message03_printed k) (list_or_nil (t3_history t)) \<and> pred_option (printed k) (t3_metadata t)"

lemma task_state_passes [simp]: "from_proto_task_state (to_proto_task_state s) = s"
  by (cases s) simp_all

lemma status_passes:
  assumes k: "json_codec_ok k" and p: "status03_printed k s"
  shows "passes (to_proto_task_status k) (from_proto_task_status k) s (status03_normal s)"
proof (cases "s3_message s")
  case None
  then show ?thesis
    by (simp add: passes_def to_proto_task_status_def from_proto_task_status_def empty_message_read status03_normal_def)
next
  case (Some m)
  with message_passes [OF k, of m] p show ?thesis
    by (auto simp: passes_def to_proto_task_status_def from_proto_task_status_def status03_printed_def status03_normal_def)
qed

lemma artifact_passes:
  assumes k: "json_codec_ok k" and p: "artifact03_printed k a"
  shows "passes (to_proto_artifact k) (from_proto_artifact k) a (artifact03_normal a)"
proof -
  from p have "pred_option (printed k) (a3_metadata a)" "list_all (part03_printed k) (a3_parts a)"
    by (simp_all add: artifact03_printed_def)
  with passes_metadata(1) [OF k] parts_pass [OF k] show ?thesis
    by (fastforce simp: passes_def to_proto_artifact_def from_proto_artifact_def artifact03_normal_def some_truthy_def)
qed

lemma task_passes:
  assumes k: "json_codec_ok k" and p: "task03_printed k t"
  shows "passes (to_proto_task k) (from_proto_task k) t (task03_normal t)"
proof -
  have "passes (to_proto_task_status k) (from_proto_task_status k) (t3_status t) (status03_normal (t3_status t))"
    using p by (intro status_passes [OF k]) (simp add: task03_printed_def)
  moreover have "passes (rmap_list (to_proto_artifact k)) (rmap_list (from_proto_artifact k))
      (list_or_nil (t3_artifacts t)) (map artifact03_normal (list_or_nil (t3_artifacts t)))"
    by (rule passes_list, rule artifact_passes [OF k]) (use p in \<open>simp add: task03_printed_def list_all_iff\<close>)
  moreover have "passes (rmap_list (to_proto_message k)) (rmap_list (from_proto_message k))
      (list_or_nil (t3_history t)) (map message03_normal (list_or_nil (t3_history t)))"
    by (rule passes_list, rule message_passes [OF k]) (use p in \<open>simp add: task03_printed_def list_all_iff\<close>)
  moreover have "passes (to_proto_metadata k) (from_proto_metadata k) (t3_metadata t) (list_or_nil (t3_metadata t))"
    using p by (intro passes_metadata(1) [OF k]) (simp add: task03_printed_def)
  ultimately show ?thesis
    by (auto simp: passes_def to_proto_task_def from_proto_task_def task03_normal_def)
qed

subsection \<open>Events\<close>

definition status_event03_normal :: "status_event03 \<Rightarrow> status_event03" where
  "status_event03_normal e = e\<lparr>se3_metadata := Some (list_or_nil (se3_metadata e)),
     se3_status := status03_normal (se3_status e)\<rparr>"

definition artifact_event03_normal :: "artifact_event03 \<Rightarrow> artifact_event03" where
  "artifact_event03_normal e = e\<lparr>ae3_append := Some (ae3_append e = Some True),
     ae3_artifact := artifact03_normal (ae3_artifact e), ae3_last_chunk := Some (ae3_last_chunk e = Some True),
     ae3_metadata := Some (list_or_nil (ae3_metadata e))\<rparr>"

fun stream03_normal :: "stream_result03 \<Rightarrow> stream_result03" where
  "stream03_normal (StreamMessage m) = StreamMessage (message03_normal m)"
| "stream03_normal (StreamTask t) = StreamTask (task03_normal t)"
| "stream03_normal (StreamStatus e) = StreamStatus (status_event03_normal e)"
| "stream03_normal (StreamArtifact e) = StreamArtifact (artifact_event03_normal e)"

fun stream03_printed :: "json_codec \<Rightarrow> stream_result03 \<Rightarrow> bool" where
  "stream03_printed k (StreamMessage m) \<longleftrightarrow> message03_printed k m"
| "stream03_printed k (StreamTask t) \<longleftrightarrow> task03_printed k t"
| "stream03_printed k (StreamStatus e) \<longleftrightarrow> status03_printed k (se3_status e) \<and> pred_option (printed k) (se3_metadata e)"
| "stream03_printed k (StreamArtifact e) \<longleftrightarrow>
     artifact03_printed k (ae3_artifact e) \<and> pred_option (printed k) (ae3_metadata e)"

lemma stream_passes:
  assumes k: "json_codec_ok k" and p: "stream03_printed k e"
  shows "passes (to_proto_stream_response k) (\<lambda>x. from_proto_stream_response k (Some x)) e (stream03_normal e)"
proof (cases e)
  case (StreamTask t)
  with task_passes [OF k, of t] p show ?thesis by (auto simp: passes_def from_proto_stream_response_def)
next
  case (StreamMessage m)
  with message_passes [OF k, of m] p show ?thesis by (auto simp: passes_def from_proto_stream_response_def)
next
  case (StreamStatus u)
  with status_passes [OF k, of "se3_status u"] passes_metadata(1) [OF k, of "se3_metadata u"] p show ?thesis
    by (auto simp: passes_def from_proto_stream_response_def to_proto_task_status_update_event_def
        from_proto_task_status_update_event_def status_event03_normal_def)
next
  case (StreamArtifact u)
  with artifact_passes [OF k, of "ae3_artifact u"] passes_metadata(1) [OF k, of "ae3_metadata u"] p show ?thesis
    by (auto simp: passes_def from_proto_stream_response_def to_proto_task_artifact_update_event_def
        from_proto_task_artifact_update_event_def artifact_event03_normal_def)
qed

subsection \<open>Names and configurations\<close>

lemma segment_app: "CHR ''/'' \<notin> set i \<Longrightarrow> segment (i @ CHR ''/'' # r) = i"
  unfolding segment_def by (induction i) auto

lemma segment_all: "CHR ''/'' \<notin> set i \<Longrightarrow> segment i = i"
  unfolding segment_def by (induction i) auto

lemma after_prefix_app [simp]: "after_prefix p (p @ s) = Some s"
  by (simp add: after_prefix_def)

lemma task_name_match: "CHR ''/'' \<notin> set i \<Longrightarrow> i \<noteq> [] \<Longrightarrow> TASK_NAME_MATCH (''tasks/'' @ i) = Some i"
  unfolding TASK_NAME_MATCH_def after_prefix_app by (simp add: segment_all)

text \<open>An id with a slash is cut at the slash, without an error.\<close>

lemma slash_cuts_id:
  assumes "CHR ''/'' \<notin> set i" "i \<noteq> []"
  shows "TASK_NAME_MATCH (''tasks/'' @ i @ CHR ''/'' # r) = Some i"
  unfolding TASK_NAME_MATCH_def after_prefix_app using assms by (simp add: segment_app)

lemma push_name_match:
  assumes "CHR ''/'' \<notin> set t" "t \<noteq> []" "CHR ''/'' \<notin> set i" "i \<noteq> []"
  shows "TASK_PUSH_CONFIG_NAME_MATCH (''tasks/'' @ t @ ''/pushNotificationConfigs/'' @ i) = Some (t, i)"
proof -
  have "segment (t @ ''/pushNotificationConfigs/'' @ i) = t" using segment_app [OF assms(1)] by simp
  moreover have "drop (length t) (t @ ''/pushNotificationConfigs/'' @ i) = ''/pushNotificationConfigs/'' @ i" by simp
  ultimately show ?thesis
    unfolding TASK_PUSH_CONFIG_NAME_MATCH_def after_prefix_app
    using assms by (simp only: option.case) (simp add: segment_all after_prefix_def)
qed

definition auth03_normal :: "auth_info03 \<Rightarrow> auth_info03" where
  "auth03_normal a = a\<lparr>ai3_credentials := Some (or_empty (ai3_credentials a))\<rparr>"

definition push_config03_normal :: "push_config03 \<Rightarrow> push_config03" where
  "push_config03_normal c = c\<lparr>pc3_authentication := map_option auth03_normal (pc3_authentication c),
     pc3_id := Some (or_empty (pc3_id c)), pc3_token := Some (or_empty (pc3_token c))\<rparr>"

lemma auth_info_passes [simp]: "from_proto_authentication_info (to_proto_authentication_info a) = auth03_normal a"
  by (simp add: from_proto_authentication_info_def to_proto_authentication_info_def auth03_normal_def)

lemma push_config_passes:
  "from_proto_push_notification_config (to_proto_push_notification_config c) = push_config03_normal c"
  by (cases c) (simp add: from_proto_push_notification_config_def to_proto_push_notification_config_def
      push_config03_normal_def option.map_comp comp_def)

lemma task_push_config_passes:
  assumes "CHR ''/'' \<notin> set (tpc3_task_id c)" "tpc3_task_id c \<noteq> []"
    and "pred_option (\<lambda>i. CHR ''/'' \<notin> set i \<and> i \<noteq> []) (pc3_id (tpc3_push_notification_config c))"
  shows "from_proto_task_push_notification_config (to_proto_task_push_notification_config c) =
    Inr (c\<lparr>tpc3_push_notification_config := push_config03_normal (tpc3_push_notification_config c)\<rparr>)"
proof -
  let ?i = "case pc3_id (tpc3_push_notification_config c) of None \<Rightarrow> ''None'' | Some x \<Rightarrow> x"
  have "CHR ''/'' \<notin> set ?i \<and> ?i \<noteq> []" using assms(3) by (cases "pc3_id (tpc3_push_notification_config c)") auto
  with push_name_match [OF assms(1,2)] have "TASK_PUSH_CONFIG_NAME_MATCH
      (push_config_name (tpc3_task_id c) (pc3_id (tpc3_push_notification_config c))) = Some (tpc3_task_id c, ?i)"
    unfolding push_config_name_def by blast
  then show ?thesis
    by (simp add: from_proto_task_push_notification_config_def to_proto_task_push_notification_config_def push_config_passes)
qed

text \<open>A history length that was not set comes back as zero.\<close>

lemma send_config_passes:
  assumes "pred_option int32 (sc3_history_length c)"
  shows "rbind (to_proto_message_send_configuration (Some c)) (\<lambda>p. Inr (from_proto_message_send_configuration p)) =
    (Inr \<lparr>sc3_accepted_output_modes = Some (list_or_nil (sc3_accepted_output_modes c)),
         sc3_blocking = Some (sc3_blocking c = Some True),
         sc3_history_length = Some (read_field 0 (sc3_history_length c)),
         sc3_push_notification_config = map_option push_config03_normal (sc3_push_notification_config c)\<rparr> :: exn + _)"
  using assms by (cases "sc3_history_length c")
    (simp_all add: to_proto_message_send_configuration_def from_proto_message_send_configuration_def int32_field_def
      int32_def option.map_comp comp_def push_config_passes)

subsection \<open>Both conversions\<close>

definition part_over_proto :: "part \<Rightarrow> part" where
  "part_over_proto p = p\<lparr>part_metadata := some_truthy (part_metadata p)\<rparr>"

definition message_over_proto :: "message \<Rightarrow> message" where
  "message_over_proto m = m\<lparr>message_parts := map part_over_proto (message_parts m), message_reference_task_ids := []\<rparr>"

definition phantom_message :: message where
  "phantom_message = empty_message\<lparr>message_role := ROLE_AGENT\<rparr>"

definition status_over_proto :: "task_status \<Rightarrow> task_status" where
  "status_over_proto s = s\<lparr>status_message :=
     Some (case status_message s of None \<Rightarrow> phantom_message | Some m \<Rightarrow> message_over_proto m),
     status_timestamp := None\<rparr>"

definition artifact_over_proto :: "artifact \<Rightarrow> artifact" where
  "artifact_over_proto a = a\<lparr>artifact_parts := map part_over_proto (artifact_parts a)\<rparr>"

definition task_over_proto :: "task \<Rightarrow> task" where
  "task_over_proto t = t\<lparr>task_status := Some (status_over_proto (task_status_of t)),
     task_artifacts := map artifact_over_proto (task_artifacts t),
     task_history := map message_over_proto (task_history t)\<rparr>"

lemma dict_to_struct_simps [simp]:
  "dict_to_struct k [] = Inr []"
  "dict_to_struct k ((x, v) # s) =
     rbind (jk_dict_value k v) (\<lambda>w. rbind (dict_to_struct k s) (\<lambda>d. Inr ((x, w) # d)))"
  by (auto simp: dict_to_struct_def entry_conv_def rbind_def split: sum.splits)

lemma dict_meta_truthy:
  "rmap_opt (dict_to_struct k) m = Inr d \<Longrightarrow> rmap_opt (dict_to_struct k) (some_truthy m) = Inr (some_truthy d)"
  by (cases m; cases "the m") (auto split: sum.splits prod.splits)

lemma or_empty_truthy [simp]: "or_empty (some_truthy x) = or_empty x"
  by (cases x) (auto simp: some_truthy_eq)

lemma list_or_nil_truthy [simp]: "list_or_nil (some_truthy x) = list_or_nil x"
  by (cases x) (auto simp: some_truthy_eq)

lemma truthy_list_or_nil [simp]: "some_truthy (Some (list_or_nil x)) = some_truthy x"
  by (simp add: some_truthy_def)

lemma core_part_normal:
  assumes c: "to_core_part k p = Inr q"
  shows "to_core_part k (part03_normal p) = Inr (part_over_proto q)"
proof (cases p)
  case (TextPart t)
  with c dict_meta_truthy [of k "tp_metadata t"] show ?thesis
    by (auto simp: part_over_proto_def mk_part_def)
next
  case (FilePart f)
  with c dict_meta_truthy [of k "fp_metadata f"] show ?thesis
    by (cases "fp_file f") (auto simp: part_over_proto_def mk_part_def)
next
  case (DataPart d)
  let ?meta = "\<lambda>m. some_truthy (map_option (AList.delete data_part_compat) m)"
  have m: "?meta (some_truthy (dp_metadata d)) = ?meta (dp_metadata d)"
    by (cases "dp_metadata d"; cases "the (dp_metadata d)") auto
  have cmp: "(case some_truthy (dp_metadata d) of None \<Rightarrow> False
      | Some m \<Rightarrow> (case map_of m data_part_compat of None \<Rightarrow> False | Some v \<Rightarrow> json_truthy v)) =
    (case dp_metadata d of None \<Rightarrow> False
      | Some m \<Rightarrow> (case map_of m data_part_compat of None \<Rightarrow> False | Some v \<Rightarrow> json_truthy v))"
    by (cases "dp_metadata d"; cases "the (dp_metadata d)") auto
  from c DataPart obtain x where x: "rmap_opt (dict_to_struct k) (?meta (dp_metadata d)) = Inr x"
    by (auto simp: Let_def)
  then have "some_truthy x = x" using dict_meta_truthy [OF x] by simp
  with c DataPart x show ?thesis
    by (auto simp: Let_def m cmp part_over_proto_def mk_part_def split: option.splits if_splits)
qed

lemma rmap_list_along:
  "rmap_list f xs = Inr ys \<Longrightarrow> (\<And>x y. x \<in> set xs \<Longrightarrow> f x = Inr y \<Longrightarrow> g (h x) = Inr (n y)) \<Longrightarrow>
   rmap_list g (map h xs) = Inr (map n ys)"
  by (induction xs arbitrary: ys) (auto split: sum.splits)

lemma core_parts_normal:
  "rmap_list (to_core_part k) ps = Inr qs \<Longrightarrow>
   rmap_list (to_core_part k) (map part03_normal ps) = Inr (map part_over_proto qs)"
  by (erule rmap_list_along) (rule core_part_normal)

lemma core_message_normal:
  assumes "to_core_message k m = Inr q"
  shows "to_core_message k (message03_normal m) = Inr (message_over_proto q)"
proof -
  from assms obtain parts where "rmap_list (to_core_part k) (m3_parts m) = Inr parts" "message_parts q = parts"
    by (auto simp: to_core_message_def)
  with core_parts_normal [of k "m3_parts m" parts] assms show ?thesis
    by (cases q) (auto simp: to_core_message_def message03_normal_def message_over_proto_def)
qed

lemma core_phantom: "to_core_message k empty_message03 = Inr phantom_message"
  by (simp add: to_core_message_def empty_message03_def phantom_message_def empty_message_def)

lemma core_status_normal:
  assumes "to_core_task_status k s = Inr q"
  shows "to_core_task_status k (status03_normal s) = Inr (status_over_proto q)"
proof (cases "s3_message s")
  case None
  with assms show ?thesis
    by (auto simp: to_core_task_status_def status03_normal_def status_over_proto_def core_phantom)
next
  case (Some m)
  with assms core_message_normal [of k m] show ?thesis
    by (auto simp: to_core_task_status_def status03_normal_def status_over_proto_def split: sum.splits)
qed

lemma core_artifact_normal:
  assumes "to_core_artifact k a = Inr q"
  shows "to_core_artifact k (artifact03_normal a) = Inr (artifact_over_proto q)"
proof -
  from assms obtain parts where "rmap_list (to_core_part k) (a3_parts a) = Inr parts" "artifact_parts q = parts"
    by (auto simp: to_core_artifact_def)
  with core_parts_normal [of k "a3_parts a" parts] assms show ?thesis
    by (cases q) (auto simp: to_core_artifact_def artifact03_normal_def artifact_over_proto_def)
qed

lemma core_task_normal:
  assumes "to_core_task k t = Inr q"
  shows "to_core_task k (task03_normal t) = Inr (task_over_proto q)"
proof -
  from assms obtain st h a where st: "to_core_task_status k (t3_status t) = Inr st"
    and h: "rmap_list (to_core_message k) (list_or_nil (t3_history t)) = Inr h"
    and a: "rmap_list (to_core_artifact k) (list_or_nil (t3_artifacts t)) = Inr a"
    and q: "task_status q = Some st" "task_history q = h" "task_artifacts q = a"
    by (auto simp: to_core_task_def)
  have "rmap_list (to_core_message k) (map message03_normal (list_or_nil (t3_history t))) = Inr (map message_over_proto h)"
    using h by (rule rmap_list_along) (rule core_message_normal)
  moreover have "rmap_list (to_core_artifact k) (map artifact03_normal (list_or_nil (t3_artifacts t))) =
      Inr (map artifact_over_proto a)"
    using a by (rule rmap_list_along) (rule core_artifact_normal)
  moreover have "to_core_task_status k (status03_normal (t3_status t)) = Inr (status_over_proto st)"
    using st by (rule core_status_normal)
  ultimately show ?thesis using assms st h a q
    by (cases q) (auto simp: to_core_task_def task03_normal_def task_over_proto_def task_status_of_def)
qed

text \<open>What the server's conversion makes is printed.\<close>

lemma struct_to_dict_update:
  "struct_to_dict k s = Inr d \<Longrightarrow> jk_value_dict k v = Inr w \<Longrightarrow>
   struct_to_dict k (AList.update x v s) = Inr (AList.update x w d)"
  by (induction s arbitrary: d) auto

lemma printed_meta: "rmap_opt (struct_to_dict k) m = Inr d \<Longrightarrow> pred_option (printed k) d"
  by (cases m) (auto simp: printed_def split: sum.splits)

lemma compat_part_printed:
  assumes k: "json_codec_ok k" and c: "to_compat_part k p = Inr q"
  shows "part03_printed k q"
proof -
  from c obtain d where d: "rmap_opt (struct_to_dict k) (part_metadata p) = Inr d" by (auto simp: to_compat_part_def)
  note pm = printed_meta [OF d]
  show ?thesis
  proof (cases "part_content p")
    case None
    with c d show ?thesis by (simp add: to_compat_part_def)
  next
    case (Some x)
    show ?thesis
    proof (cases x)
      case (PData v)
      with c d Some obtain w where w: "jk_value_dict k v = Inr w" by (auto simp: to_compat_part_def)
      show ?thesis
      proof (cases "\<exists>ob. w = JObj ob")
        case True
        then obtain ob where ob: "w = JObj ob" by blast
        with codec_value_obj [OF k] w obtain s where "v = JObj s" by blast
        with w ob codec_obj [OF k, of s] have "struct_to_dict k s = Inr ob" by auto
        then have "printed k ob" by (auto simp: printed_def)
        with c d w ob Some PData pm show ?thesis by (auto simp: to_compat_part_def)
      next
        case False
        obtain s where s: "struct_to_dict k s = Inr (list_or_nil d)"
        proof (cases d)
          case None
          with that [of "[]"] show ?thesis by simp
        next
          case (Some e)
          with pm that show ?thesis by (auto simp: printed_def)
        qed
        have "printed k [(to_ustr ''value'', w)]"
          using w by (auto simp: printed_def intro!: exI [of _ "[(to_ustr ''value'', v)]"])
        moreover have "printed k (AList.update data_part_compat (JBool True) (list_or_nil d))"
          unfolding printed_def using struct_to_dict_update [OF s codec_bool [OF k]] by blast
        moreover have "q = DataPart \<lparr>dp_data = [(to_ustr ''value'', w)],
            dp_metadata = Some (AList.update data_part_compat (JBool True) (list_or_nil d))\<rparr>"
          using False c d w Some PData by (cases w) (auto simp: to_compat_part_def)
        ultimately show ?thesis by simp
      qed
    qed (use c d Some pm in \<open>auto simp: to_compat_part_def\<close>)
  qed
qed

lemma rmap_list_all: "rmap_list f xs = Inr ys \<Longrightarrow> (\<And>x y. f x = Inr y \<Longrightarrow> P y) \<Longrightarrow> list_all P ys"
  by (induction xs arbitrary: ys) (auto split: sum.splits)

lemma compat_message_printed:
  assumes k: "json_codec_ok k" and c: "to_compat_message k m = Inr q"
  shows "message03_printed k q"
proof -
  from c obtain d ps where d: "rmap_opt (struct_to_dict k) (some_truthy (message_metadata m)) = Inr d" "m3_metadata q = d"
    and ps: "rmap_list (to_compat_part k) (message_parts m) = Inr ps" "m3_parts q = ps"
    by (auto simp: to_compat_message_def)
  have "list_all (part03_printed k) ps" using ps(1) by (rule rmap_list_all) (rule compat_part_printed [OF k])
  with d ps printed_meta [OF d(1)] show ?thesis by (simp add: message03_printed_def)
qed

lemma compat_status_printed:
  assumes k: "json_codec_ok k" and c: "to_compat_status_field k s = Inr q"
  shows "status03_printed k q"
proof (cases s)
  case None
  with c show ?thesis by (auto simp: to_compat_status_field_def unknown_status_def status03_printed_def)
next
  case (Some st)
  with c compat_message_printed [OF k] show ?thesis
    by (cases "status_message st")
      (auto simp: to_compat_status_field_def to_compat_task_status_def status03_printed_def split: sum.splits)
qed

lemma compat_artifact_printed:
  assumes k: "json_codec_ok k" and c: "to_compat_artifact k a = Inr q"
  shows "artifact03_printed k q"
proof -
  from c obtain d ps where d: "rmap_opt (struct_to_dict k) (artifact_metadata a) = Inr d" "a3_metadata q = d"
    and ps: "rmap_list (to_compat_part k) (artifact_parts a) = Inr ps" "a3_parts q = ps"
    by (auto simp: to_compat_artifact_def)
  have "list_all (part03_printed k) ps" using ps(1) by (rule rmap_list_all) (rule compat_part_printed [OF k])
  with d ps printed_meta [OF d(1)] show ?thesis by (simp add: artifact03_printed_def)
qed

lemma compat_task_printed:
  assumes k: "json_codec_ok k" and c: "to_compat_task k t = Inr q"
  shows "task03_printed k q"
proof -
  from c obtain st h a d where st: "to_compat_status_field k (task_status t) = Inr st" "t3_status q = st"
    and h: "rmap_list (to_compat_message k) (task_history t) = Inr h" "t3_history q = list_or_none h"
    and a: "rmap_list (to_compat_artifact k) (task_artifacts t) = Inr a" "t3_artifacts q = list_or_none a"
    and d: "rmap_opt (struct_to_dict k) (task_metadata t) = Inr d" "t3_metadata q = d"
    by (auto simp: to_compat_task_def)
  have "list_all (message03_printed k) h" using h(1) by (rule rmap_list_all) (rule compat_message_printed [OF k])
  moreover have "list_all (artifact03_printed k) a" using a(1) by (rule rmap_list_all) (rule compat_artifact_printed [OF k])
  ultimately show ?thesis
    using st(2) h(2) a(2) d(2) compat_status_printed [OF k st(1)] printed_meta [OF d(1)] by (simp add: task03_printed_def)
qed

text \<open>A task of protocol 1.0 on the way to a client that speaks protocol 0.3 in protobuf.\<close>

lemma task_over_proto_back:
  assumes k: "json_codec_ok k" and f: "task_free t" and c: "to_compat_task k t = Inr q"
  shows "\<exists>p q'. to_proto_task k q = Inr p \<and> from_proto_task k p = Inr q' \<and>
    to_core_task k q' = Inr (task_over_proto (task_normal t))"
proof -
  from task_passes [OF k compat_task_printed [OF k c]] obtain p where
    "to_proto_task k q = Inr p" "from_proto_task k p = Inr (task03_normal q)" by (auto elim: passesE)
  with core_task_normal [OF task_back [OF k f c]] show ?thesis by blast
qed

end
