(* ===== verification/Compat_Proto_Cards.thy ===== *)
theory Compat_Proto_Cards
  imports Compat_Cards Compat_Proto_Laws
begin

text \<open>
  The messages of the 0.3 agent card (\<^verbatim>\<open>compat/v0_3/a2a_v0_3.proto\<close>), their conversions
  (\<^verbatim>\<open>compat/v0_3/proto_utils.py\<close>) and what a card is after the way through protobuf: its icon, the
  security of its skills and all flows but one of a scheme are lost.
\<close>

subsection \<open>Messages\<close>

record p3_auth_code_flow =
  fa3_authorization_url :: string
  fa3_token_url :: string
  fa3_refresh_url :: string
  fa3_scopes :: "(string, string) dict"

record p3_client_cred_flow =
  fc3_token_url :: string
  fc3_refresh_url :: string
  fc3_scopes :: "(string, string) dict"

record p3_implicit_flow =
  fi3_authorization_url :: string
  fi3_refresh_url :: string
  fi3_scopes :: "(string, string) dict"

record p3_password_flow =
  fw3_token_url :: string
  fw3_refresh_url :: string
  fw3_scopes :: "(string, string) dict"

datatype p3_flow = P3AuthCode p3_auth_code_flow | P3ClientCred p3_client_cred_flow
  | P3Implicit p3_implicit_flow | P3Password p3_password_flow

record p3_api_key =
  ka3_description :: string
  ka3_location :: string
  ka3_name :: string

record p3_http_auth =
  kh3_description :: string
  kh3_scheme :: string
  kh3_bearer_format :: string

record p3_oauth2 =
  ko3_description :: string
  ko3_flows :: "p3_flow option option"
  ko3_oauth2_metadata_url :: string

record p3_oidc =
  ki3_description :: string
  ki3_open_id_connect_url :: string

record p3_mtls =
  km3_description :: string

datatype p3_scheme = P3ApiKey p3_api_key | P3HttpAuth p3_http_auth | P3OAuth2 p3_oauth2
  | P3OpenIdConnect p3_oidc | P3Mtls p3_mtls

type_synonym p3_security = "(string, string list) dict"

record p3_interface =
  in3_url :: string
  in3_transport :: string

record p3_provider =
  pr3_url :: string
  pr3_organization :: string

record p3_extension =
  xt3_uri :: string
  xt3_description :: string
  xt3_required :: bool
  xt3_params :: "struct option"

record p3_capabilities =
  cb3_streaming :: bool
  cb3_push_notifications :: bool
  cb3_extensions :: "p3_extension list"

definition p3_empty_capabilities :: p3_capabilities where
  "p3_empty_capabilities = \<lparr>cb3_streaming = False, cb3_push_notifications = False, cb3_extensions = []\<rparr>"

record p3_skill =
  sl3_id :: string
  sl3_name :: string
  sl3_description :: string
  sl3_tags :: "string list"
  sl3_examples :: "string list"
  sl3_input_modes :: "string list"
  sl3_output_modes :: "string list"
  sl3_security :: "p3_security list"

record p3_signature =
  gn3_protected :: string
  gn3_signature :: string
  gn3_header :: "struct option"

text \<open>A scheme of the map may have no variant set.\<close>

record p3_card =
  cd3_protocol_version :: string
  cd3_name :: string
  cd3_description :: string
  cd3_url :: string
  cd3_preferred_transport :: string
  cd3_additional_interfaces :: "p3_interface list"
  cd3_provider :: "p3_provider option"
  cd3_version :: string
  cd3_documentation_url :: string
  cd3_capabilities :: "p3_capabilities option"
  cd3_security_schemes :: "(string, p3_scheme option) dict"
  cd3_security :: "p3_security list"
  cd3_default_input_modes :: "string list"
  cd3_default_output_modes :: "string list"
  cd3_skills :: "p3_skill list"
  cd3_supports_authenticated_extended_card :: bool
  cd3_signatures :: "p3_signature list"
  cd3_icon_url :: string

subsection \<open>To protobuf\<close>

definition to_proto_oauth2_flows :: "oauth_flows03 \<Rightarrow> exn + p3_flow" where
  "to_proto_oauth2_flows fl =
     (case of_authorization_code fl of
        Some f \<Rightarrow> Inr (P3AuthCode \<lparr>fa3_authorization_url = ac_authorization_url f, fa3_token_url = ac_token_url f,
            fa3_refresh_url = or_empty (ac_refresh_url f), fa3_scopes = ac_scopes f\<rparr>)
      | None \<Rightarrow> (case of_client_credentials fl of
        Some f \<Rightarrow> Inr (P3ClientCred \<lparr>fc3_token_url = cc3_token_url f, fc3_refresh_url = or_empty (cc3_refresh_url f),
            fc3_scopes = cc3_scopes f\<rparr>)
      | None \<Rightarrow> (case of_implicit fl of
        Some f \<Rightarrow> Inr (P3Implicit \<lparr>fi3_authorization_url = im_authorization_url f,
            fi3_refresh_url = or_empty (im_refresh_url f), fi3_scopes = im_scopes f\<rparr>)
      | None \<Rightarrow> (case of_password fl of
        Some f \<Rightarrow> Inr (P3Password \<lparr>fw3_token_url = pw_token_url f, fw3_refresh_url = or_empty (pw_refresh_url f),
            fw3_scopes = pw_scopes f\<rparr>)
      | None \<Rightarrow> Inl (ValueError ''Unknown oauth flow definition'')))))"

fun to_proto_security_scheme :: "security_scheme03 \<Rightarrow> exn + p3_scheme" where
  "to_proto_security_scheme (APIKeyScheme s) = Inr (P3ApiKey
     \<lparr>ka3_description = or_empty (ak3_description s), ka3_location = in03_value (ak3_in s), ka3_name = ak3_name s\<rparr>)"
| "to_proto_security_scheme (HTTPAuthScheme s) = Inr (P3HttpAuth
     \<lparr>kh3_description = or_empty (ht3_description s), kh3_scheme = ht3_scheme s,
      kh3_bearer_format = or_empty (ht3_bearer_format s)\<rparr>)"
| "to_proto_security_scheme (OAuth2Scheme s) = rbind (to_proto_oauth2_flows (oa3_flows s)) (\<lambda>f. Inr (P3OAuth2
     \<lparr>ko3_description = or_empty (oa3_description s), ko3_flows = Some (Some f), ko3_oauth2_metadata_url = []\<rparr>))"
| "to_proto_security_scheme (MutualTLSScheme s) = Inr (P3Mtls \<lparr>km3_description = or_empty (mt3_description s)\<rparr>)"
| "to_proto_security_scheme (OpenIdConnectScheme s) = Inr (P3OpenIdConnect
     \<lparr>ki3_description = or_empty (oi3_description s), ki3_open_id_connect_url = oi3_url s\<rparr>)"

definition to_proto_security_schemes ::
  "(string, security_scheme03) dict option \<Rightarrow> exn + (string, p3_scheme option) dict" where
  "to_proto_security_schemes ss =
     rmap_list (\<lambda>e. rbind (to_proto_security_scheme (snd e)) (\<lambda>s. Inr (fst e, Some s))) (list_or_nil ss)"

definition to_proto_security :: "security03 list option \<Rightarrow> p3_security list" where
  "to_proto_security s = list_or_nil s"

definition to_proto_provider :: "provider03 option \<Rightarrow> p3_provider option" where
  "to_proto_provider p =
     map_option (\<lambda>x. \<lparr>pr3_url = pv3_url x, pr3_organization = pv3_organization x\<rparr>) p"

definition to_proto_extension :: "json_codec \<Rightarrow> extension03 \<Rightarrow> exn + p3_extension" where
  "to_proto_extension k x =
     rbind (rmap_opt (dict_to_struct03 k) (some_truthy (ex3_params x))) (\<lambda>params.
       Inr \<lparr>xt3_uri = ex3_uri x, xt3_description = or_empty (ex3_description x),
            xt3_required = (ex3_required x = Some True), xt3_params = params\<rparr>)"

definition to_proto_capabilities :: "json_codec \<Rightarrow> capabilities03 \<Rightarrow> exn + p3_capabilities" where
  "to_proto_capabilities k c =
     rbind (rmap_list (to_proto_extension k) (list_or_nil (cp3_extensions c))) (\<lambda>xs.
       Inr \<lparr>cb3_streaming = (cp3_streaming c = Some True),
            cb3_push_notifications = (cp3_push_notifications c = Some True), cb3_extensions = xs\<rparr>)"

definition to_proto_interface :: "interface03 \<Rightarrow> p3_interface" where
  "to_proto_interface i = \<lparr>in3_url = if3_url i, in3_transport = if3_transport i\<rparr>"

definition to_proto_signature :: "json_codec \<Rightarrow> signature03 \<Rightarrow> exn + p3_signature" where
  "to_proto_signature k s =
     rbind (rmap_opt (dict_to_struct03 k) (sg3_header s)) (\<lambda>h.
       Inr \<lparr>gn3_protected = sg3_protected s, gn3_signature = sg3_signature s, gn3_header = h\<rparr>)"

definition to_proto_skill :: "skill03 \<Rightarrow> p3_skill" where
  "to_proto_skill s =
     \<lparr>sl3_id = sk3_id s, sl3_name = sk3_name s, sl3_description = sk3_description s, sl3_tags = sk3_tags s,
      sl3_examples = list_or_nil (sk3_examples s), sl3_input_modes = list_or_nil (sk3_input_modes s),
      sl3_output_modes = list_or_nil (sk3_output_modes s), sl3_security = []\<rparr>"

definition to_proto_agent_card :: "json_codec \<Rightarrow> agent_card03 \<Rightarrow> exn + p3_card" where
  "to_proto_agent_card k c =
     rbind (to_proto_capabilities k (ca3_capabilities c)) (\<lambda>cap.
     rbind (to_proto_security_schemes (ca3_security_schemes c)) (\<lambda>schemes.
     rbind (rmap_list (to_proto_signature k) (list_or_nil (ca3_signatures c))) (\<lambda>sigs.
       Inr \<lparr>cd3_protocol_version = or_empty (ca3_protocol_version c), cd3_name = ca3_name c,
            cd3_description = ca3_description c, cd3_url = ca3_url c,
            cd3_preferred_transport = or_empty (ca3_preferred_transport c),
            cd3_additional_interfaces = map to_proto_interface (list_or_nil (ca3_additional_interfaces c)),
            cd3_provider = to_proto_provider (ca3_provider c), cd3_version = ca3_version c,
            cd3_documentation_url = or_empty (ca3_documentation_url c), cd3_capabilities = Some cap,
            cd3_security_schemes = schemes, cd3_security = to_proto_security (ca3_security c),
            cd3_default_input_modes = ca3_default_input_modes c,
            cd3_default_output_modes = ca3_default_output_modes c, cd3_skills = map to_proto_skill (ca3_skills c),
            cd3_supports_authenticated_extended_card = (ca3_supports_authenticated_extended_card c = Some True),
            cd3_signatures = sigs, cd3_icon_url = []\<rparr>)))"

subsection \<open>From protobuf\<close>

text \<open>Without any flow the password flow is read, empty.\<close>

definition from_proto_oauth2_flows :: "p3_flow option \<Rightarrow> oauth_flows03" where
  "from_proto_oauth2_flows fl =
     (case fl of
        Some (P3AuthCode f) \<Rightarrow> no_flows\<lparr>of_authorization_code := Some \<lparr>ac_authorization_url = fa3_authorization_url f,
          ac_refresh_url = Some (fa3_refresh_url f), ac_scopes = fa3_scopes f, ac_token_url = fa3_token_url f\<rparr>\<rparr>
      | Some (P3ClientCred f) \<Rightarrow> no_flows\<lparr>of_client_credentials := Some \<lparr>cc3_refresh_url = Some (fc3_refresh_url f),
          cc3_scopes = fc3_scopes f, cc3_token_url = fc3_token_url f\<rparr>\<rparr>
      | Some (P3Implicit f) \<Rightarrow> no_flows\<lparr>of_implicit := Some \<lparr>im_authorization_url = fi3_authorization_url f,
          im_refresh_url = Some (fi3_refresh_url f), im_scopes = fi3_scopes f\<rparr>\<rparr>
      | Some (P3Password f) \<Rightarrow> no_flows\<lparr>of_password := Some \<lparr>pw_refresh_url = Some (fw3_refresh_url f),
          pw_scopes = fw3_scopes f, pw_token_url = fw3_token_url f\<rparr>\<rparr>
      | None \<Rightarrow> no_flows\<lparr>of_password := Some \<lparr>pw_refresh_url = Some [], pw_scopes = [], pw_token_url = []\<rparr>\<rparr>)"

definition from_proto_security_scheme :: "p3_scheme option \<Rightarrow> exn + security_scheme03" where
  "from_proto_security_scheme s =
     (case s of
        Some (P3ApiKey x) \<Rightarrow> rbind (in03_of (ka3_location x)) (\<lambda>i. Inr (APIKeyScheme
          \<lparr>ak3_description = Some (ka3_description x), ak3_in = i, ak3_name = ka3_name x\<rparr>))
      | Some (P3HttpAuth x) \<Rightarrow> Inr (HTTPAuthScheme
          \<lparr>ht3_bearer_format = Some (kh3_bearer_format x), ht3_description = Some (kh3_description x),
           ht3_scheme = kh3_scheme x\<rparr>)
      | Some (P3OAuth2 x) \<Rightarrow> Inr (OAuth2Scheme
          \<lparr>oa3_description = Some (ko3_description x),
           oa3_flows = from_proto_oauth2_flows (read_field None (ko3_flows x)), oa3_metadata_url = None\<rparr>)
      | Some (P3Mtls x) \<Rightarrow> Inr (MutualTLSScheme \<lparr>mt3_description = Some (km3_description x)\<rparr>)
      | Some (P3OpenIdConnect x) \<Rightarrow> Inr (OpenIdConnectScheme
          \<lparr>oi3_description = Some (ki3_description x), oi3_url = ki3_open_id_connect_url x\<rparr>)
      | None \<Rightarrow> Inr (OpenIdConnectScheme \<lparr>oi3_description = Some [], oi3_url = []\<rparr>))"

definition from_proto_security_schemes ::
  "(string, p3_scheme option) dict \<Rightarrow> exn + (string, security_scheme03) dict" where
  "from_proto_security_schemes ss =
     rmap_list (\<lambda>e. rbind (from_proto_security_scheme (snd e)) (\<lambda>s. Inr (fst e, s))) ss"

definition from_proto_security :: "p3_security list \<Rightarrow> security03 list option" where
  "from_proto_security s = list_or_none s"

text \<open>A message is true, also when it was not set.\<close>

definition from_proto_provider :: "p3_provider option \<Rightarrow> provider03 option" where
  "from_proto_provider p =
     (let x = read_field \<lparr>pr3_url = [], pr3_organization = []\<rparr> p
      in Some \<lparr>pv3_organization = pr3_organization x, pv3_url = pr3_url x\<rparr>)"

definition from_proto_extension :: "json_codec \<Rightarrow> p3_extension \<Rightarrow> exn + extension03" where
  "from_proto_extension k x =
     rbind (struct_to_dict k (list_or_nil (xt3_params x))) (\<lambda>params.
       Inr \<lparr>ex3_description = Some (xt3_description x), ex3_params = Some params,
            ex3_required = Some (xt3_required x), ex3_uri = xt3_uri x\<rparr>)"

definition from_proto_capabilities :: "json_codec \<Rightarrow> p3_capabilities \<Rightarrow> exn + capabilities03" where
  "from_proto_capabilities k c =
     rbind (rmap_list (from_proto_extension k) (cb3_extensions c)) (\<lambda>xs.
       Inr \<lparr>cp3_extensions = Some xs, cp3_push_notifications = Some (cb3_push_notifications c),
            cp3_state_transition_history = None, cp3_streaming = Some (cb3_streaming c)\<rparr>)"

definition from_proto_interface :: "p3_interface \<Rightarrow> interface03" where
  "from_proto_interface i = \<lparr>if3_transport = in3_transport i, if3_url = in3_url i\<rparr>"

definition from_proto_signature :: "json_codec \<Rightarrow> p3_signature \<Rightarrow> exn + signature03" where
  "from_proto_signature k s =
     rbind (struct_to_dict k (list_or_nil (gn3_header s))) (\<lambda>h.
       Inr \<lparr>sg3_header = Some h, sg3_protected = gn3_protected s, sg3_signature = gn3_signature s\<rparr>)"

definition from_proto_skill :: "p3_skill \<Rightarrow> skill03" where
  "from_proto_skill s =
     \<lparr>sk3_description = sl3_description s, sk3_examples = Some (sl3_examples s), sk3_id = sl3_id s,
      sk3_input_modes = Some (sl3_input_modes s), sk3_name = sl3_name s,
      sk3_output_modes = Some (sl3_output_modes s), sk3_security = None, sk3_tags = sl3_tags s\<rparr>"

definition from_proto_agent_card :: "json_codec \<Rightarrow> p3_card \<Rightarrow> exn + agent_card03" where
  "from_proto_agent_card k c =
     rbind (from_proto_capabilities k (read_field p3_empty_capabilities (cd3_capabilities c))) (\<lambda>cap.
     rbind (from_proto_security_schemes (cd3_security_schemes c)) (\<lambda>schemes.
     rbind (rmap_list (from_proto_signature k) (cd3_signatures c)) (\<lambda>sigs.
       Inr \<lparr>ca3_additional_interfaces = list_or_none (map from_proto_interface (cd3_additional_interfaces c)),
            ca3_capabilities = cap, ca3_default_input_modes = cd3_default_input_modes c,
            ca3_default_output_modes = cd3_default_output_modes c, ca3_description = cd3_description c,
            ca3_documentation_url = Some (cd3_documentation_url c), ca3_icon_url = None, ca3_name = cd3_name c,
            ca3_preferred_transport = Some (cd3_preferred_transport c),
            ca3_protocol_version = Some (cd3_protocol_version c),
            ca3_provider = from_proto_provider (cd3_provider c),
            ca3_security = from_proto_security (cd3_security c), ca3_security_schemes = Some schemes,
            ca3_signatures = list_or_none sigs, ca3_skills = map from_proto_skill (cd3_skills c),
            ca3_supports_authenticated_extended_card = Some (cd3_supports_authenticated_extended_card c),
            ca3_url = cd3_url c, ca3_version = cd3_version c\<rparr>)))"

subsection \<open>There and back\<close>

text \<open>The flow that is kept: the first in the order of the code.\<close>

definition first_flow :: "oauth_flows03 \<Rightarrow> oauth_flows03" where
  "first_flow fl =
     (case of_authorization_code fl of
        Some f \<Rightarrow> no_flows\<lparr>of_authorization_code := Some (f\<lparr>ac_refresh_url := Some (or_empty (ac_refresh_url f))\<rparr>)\<rparr>
      | None \<Rightarrow> (case of_client_credentials fl of
        Some f \<Rightarrow> no_flows\<lparr>of_client_credentials := Some (f\<lparr>cc3_refresh_url := Some (or_empty (cc3_refresh_url f))\<rparr>)\<rparr>
      | None \<Rightarrow> (case of_implicit fl of
        Some f \<Rightarrow> no_flows\<lparr>of_implicit := Some (f\<lparr>im_refresh_url := Some (or_empty (im_refresh_url f))\<rparr>)\<rparr>
      | None \<Rightarrow> no_flows\<lparr>of_password := map_option (\<lambda>f. f\<lparr>pw_refresh_url := Some (or_empty (pw_refresh_url f))\<rparr>)
          (of_password fl)\<rparr>)))"

definition has_flow :: "oauth_flows03 \<Rightarrow> bool" where
  "has_flow fl \<longleftrightarrow> fl \<noteq> no_flows"

lemma flows_pass:
  "has_flow fl \<Longrightarrow> passes to_proto_oauth2_flows (\<lambda>f. Inr (from_proto_oauth2_flows (Some f)) :: exn + _) fl (first_flow fl)"
  by (cases fl) (auto simp: passes_def to_proto_oauth2_flows_def from_proto_oauth2_flows_def first_flow_def has_flow_def
      no_flows_def split: option.splits)

fun scheme03_normal :: "security_scheme03 \<Rightarrow> security_scheme03" where
  "scheme03_normal (APIKeyScheme s) = APIKeyScheme (s\<lparr>ak3_description := Some (or_empty (ak3_description s))\<rparr>)"
| "scheme03_normal (HTTPAuthScheme s) = HTTPAuthScheme (s\<lparr>ht3_description := Some (or_empty (ht3_description s)),
     ht3_bearer_format := Some (or_empty (ht3_bearer_format s))\<rparr>)"
| "scheme03_normal (OAuth2Scheme s) = OAuth2Scheme (s\<lparr>oa3_description := Some (or_empty (oa3_description s)),
     oa3_flows := first_flow (oa3_flows s), oa3_metadata_url := None\<rparr>)"
| "scheme03_normal (MutualTLSScheme s) = MutualTLSScheme (s\<lparr>mt3_description := Some (or_empty (mt3_description s))\<rparr>)"
| "scheme03_normal (OpenIdConnectScheme s) =
     OpenIdConnectScheme (s\<lparr>oi3_description := Some (or_empty (oi3_description s))\<rparr>)"

fun scheme03_ok :: "security_scheme03 \<Rightarrow> bool" where
  "scheme03_ok (OAuth2Scheme s) \<longleftrightarrow> has_flow (oa3_flows s)"
| "scheme03_ok _ \<longleftrightarrow> True"

lemma in03_value_back [simp]: "in03_of (in03_value i) = Inr i"
  by (cases i) (simp_all add: in03_of_def)

lemma scheme_passes:
  "scheme03_ok s \<Longrightarrow> passes to_proto_security_scheme (\<lambda>x. from_proto_security_scheme (Some x)) s (scheme03_normal s)"
proof (cases s)
  case (OAuth2Scheme x)
  assume "scheme03_ok s"
  with OAuth2Scheme flows_pass [of "oa3_flows x"] show ?thesis
    by (auto simp: passes_def from_proto_security_scheme_def)
qed (auto simp: passes_def from_proto_security_scheme_def)

definition extension03_normal :: "extension03 \<Rightarrow> extension03" where
  "extension03_normal x = x\<lparr>ex3_description := Some (or_empty (ex3_description x)),
     ex3_params := Some (list_or_nil (ex3_params x)), ex3_required := Some (ex3_required x = Some True)\<rparr>"

definition capabilities03_normal :: "capabilities03 \<Rightarrow> capabilities03" where
  "capabilities03_normal c =
     \<lparr>cp3_extensions = Some (map extension03_normal (list_or_nil (cp3_extensions c))),
      cp3_push_notifications = Some (cp3_push_notifications c = Some True),
      cp3_state_transition_history = None, cp3_streaming = Some (cp3_streaming c = Some True)\<rparr>"

definition signature03_normal :: "signature03 \<Rightarrow> signature03" where
  "signature03_normal s = s\<lparr>sg3_header := Some (list_or_nil (sg3_header s))\<rparr>"

definition skill03_normal :: "skill03 \<Rightarrow> skill03" where
  "skill03_normal s = s\<lparr>sk3_examples := Some (list_or_nil (sk3_examples s)),
     sk3_input_modes := Some (list_or_nil (sk3_input_modes s)),
     sk3_output_modes := Some (list_or_nil (sk3_output_modes s)), sk3_security := None\<rparr>"

definition provider03_normal :: "provider03 option \<Rightarrow> provider03 option" where
  "provider03_normal p = Some (read_field \<lparr>pv3_organization = [], pv3_url = []\<rparr> p)"

definition card03_normal :: "agent_card03 \<Rightarrow> agent_card03" where
  "card03_normal c = c\<lparr>ca3_additional_interfaces := some_truthy (ca3_additional_interfaces c),
     ca3_capabilities := capabilities03_normal (ca3_capabilities c),
     ca3_documentation_url := Some (or_empty (ca3_documentation_url c)), ca3_icon_url := None,
     ca3_preferred_transport := Some (or_empty (ca3_preferred_transport c)),
     ca3_protocol_version := Some (or_empty (ca3_protocol_version c)),
     ca3_provider := provider03_normal (ca3_provider c), ca3_security := some_truthy (ca3_security c),
     ca3_security_schemes := Some (map (\<lambda>e. (fst e, scheme03_normal (snd e))) (list_or_nil (ca3_security_schemes c))),
     ca3_signatures := some_truthy (map_option (map signature03_normal) (ca3_signatures c)),
     ca3_skills := map skill03_normal (ca3_skills c),
     ca3_supports_authenticated_extended_card := Some (ca3_supports_authenticated_extended_card c = Some True)\<rparr>"

definition card03_printed :: "json_codec \<Rightarrow> agent_card03 \<Rightarrow> bool" where
  "card03_printed k c \<longleftrightarrow>
     list_all (\<lambda>x. pred_option (printed k) (ex3_params x)) (list_or_nil (cp3_extensions (ca3_capabilities c))) \<and>
     list_all (\<lambda>e. scheme03_ok (snd e)) (list_or_nil (ca3_security_schemes c)) \<and>
     list_all (\<lambda>s. pred_option (printed k) (sg3_header s)) (list_or_nil (ca3_signatures c))"

lemma struct_field_passes:
  assumes "json_codec_ok k" "pred_option (printed k) m"
  shows "passes (rmap_opt (dict_to_struct03 k)) (\<lambda>s. struct_to_dict k (list_or_nil s)) m (list_or_nil m)"
    and "passes (rmap_opt (dict_to_struct03 k)) (\<lambda>s. struct_to_dict k (list_or_nil s)) (some_truthy m) (list_or_nil m)"
  using assms passes_dict [of k "list_or_nil m"]
  by (cases m; auto simp: passes_def some_truthy_eq split: sum.splits)+

lemma extension_passes:
  "json_codec_ok k \<Longrightarrow> pred_option (printed k) (ex3_params x) \<Longrightarrow>
   passes (to_proto_extension k) (from_proto_extension k) x (extension03_normal x)"
  using struct_field_passes(2) [of k "ex3_params x"]
  by (auto simp: passes_def to_proto_extension_def from_proto_extension_def extension03_normal_def)

lemma signature_passes:
  "json_codec_ok k \<Longrightarrow> pred_option (printed k) (sg3_header s) \<Longrightarrow>
   passes (to_proto_signature k) (from_proto_signature k) s (signature03_normal s)"
  using struct_field_passes(1) [of k "sg3_header s"]
  by (auto simp: passes_def to_proto_signature_def from_proto_signature_def signature03_normal_def)

lemma capabilities_pass:
  assumes k: "json_codec_ok k" and p: "list_all (\<lambda>x. pred_option (printed k) (ex3_params x)) (list_or_nil (cp3_extensions c))"
  shows "passes (to_proto_capabilities k) (from_proto_capabilities k) c (capabilities03_normal c)"
proof -
  have "passes (rmap_list (to_proto_extension k)) (rmap_list (from_proto_extension k))
      (list_or_nil (cp3_extensions c)) (map extension03_normal (list_or_nil (cp3_extensions c)))"
    by (rule passes_list, rule extension_passes [OF k]) (use p in \<open>simp add: list_all_iff\<close>)
  then show ?thesis
    by (auto simp: passes_def to_proto_capabilities_def from_proto_capabilities_def capabilities03_normal_def)
qed

lemma schemes_pass:
  assumes "list_all (\<lambda>e. scheme03_ok (snd e)) (list_or_nil ss)"
  shows "passes to_proto_security_schemes from_proto_security_schemes ss
    (map (\<lambda>e. (fst e, scheme03_normal (snd e))) (list_or_nil ss))"
proof -
  let ?f = "\<lambda>e. rbind (to_proto_security_scheme (snd e)) (\<lambda>s. Inr (fst e, Some s))"
  let ?g = "\<lambda>e. rbind (from_proto_security_scheme (snd e)) (\<lambda>s. Inr (fst e, s))"
  have "passes (rmap_list ?f) (rmap_list ?g) (list_or_nil ss) (map (\<lambda>e. (fst e, scheme03_normal (snd e))) (list_or_nil ss))"
  proof (rule passes_list)
    fix e :: "string \<times> security_scheme03" assume "e \<in> set (list_or_nil ss)"
    with assms have "scheme03_ok (snd e)" by (simp add: list_all_iff)
    from scheme_passes [OF this] show "passes ?f ?g e (fst e, scheme03_normal (snd e))" by (auto simp: passes_def)
  qed
  then show ?thesis by (simp add: passes_def to_proto_security_schemes_def from_proto_security_schemes_def)
qed

lemma interface_passes [simp]: "from_proto_interface (to_proto_interface i) = i"
  by (simp add: from_proto_interface_def to_proto_interface_def)

lemma provider_passes [simp]: "from_proto_provider (to_proto_provider p) = provider03_normal p"
  by (cases p) (simp_all add: from_proto_provider_def to_proto_provider_def provider03_normal_def)

lemma skill_passes [simp]: "from_proto_skill (to_proto_skill s) = skill03_normal s"
  by (simp add: from_proto_skill_def to_proto_skill_def skill03_normal_def)

lemma card_passes:
  assumes k: "json_codec_ok k" and p: "card03_printed k c"
  shows "passes (to_proto_agent_card k) (from_proto_agent_card k) c (card03_normal c)"
proof -
  have "passes (rmap_list (to_proto_signature k)) (rmap_list (from_proto_signature k))
      (list_or_nil (ca3_signatures c)) (map signature03_normal (list_or_nil (ca3_signatures c)))"
    by (rule passes_list, rule signature_passes [OF k]) (use p in \<open>simp add: card03_printed_def list_all_iff\<close>)
  then obtain sigs where sigs: "rmap_list (to_proto_signature k) (list_or_nil (ca3_signatures c)) = Inr sigs"
    "rmap_list (from_proto_signature k) sigs = Inr (map signature03_normal (list_or_nil (ca3_signatures c)))"
    by (rule passesE)
  have "passes (to_proto_capabilities k) (from_proto_capabilities k) (ca3_capabilities c)
      (capabilities03_normal (ca3_capabilities c))"
    using p by (intro capabilities_pass [OF k]) (simp add: card03_printed_def)
  then obtain cap where cap: "to_proto_capabilities k (ca3_capabilities c) = Inr cap"
    "from_proto_capabilities k cap = Inr (capabilities03_normal (ca3_capabilities c))" by (rule passesE)
  have "passes to_proto_security_schemes from_proto_security_schemes (ca3_security_schemes c)
      (map (\<lambda>e. (fst e, scheme03_normal (snd e))) (list_or_nil (ca3_security_schemes c)))"
    using p by (intro schemes_pass) (simp add: card03_printed_def)
  then obtain ss where ss: "to_proto_security_schemes (ca3_security_schemes c) = Inr ss"
    "from_proto_security_schemes ss = Inr (map (\<lambda>e. (fst e, scheme03_normal (snd e))) (list_or_nil (ca3_security_schemes c)))"
    by (rule passesE)
  have t: "list_or_none (map signature03_normal (list_or_nil (ca3_signatures c))) =
      some_truthy (map_option (map signature03_normal) (ca3_signatures c))"
    by (cases "ca3_signatures c") (simp_all add: some_truthy_def)
  show ?thesis
    by (rule passesI, simp add: to_proto_agent_card_def cap(1) ss(1) sigs(1))
       (cases c, use cap(2) ss(2) sigs(2) t in \<open>simp add: from_proto_agent_card_def card03_normal_def comp_def some_truthy_def
          from_proto_security_def to_proto_security_def\<close>)
qed

end
