(* ===== verification/Compat_Rest.thy ===== *)
theory Compat_Rest
  imports Rest_Laws Compat_Proto_Cards
begin

text \<open>
  REST in protocol 0.3: the handler and its adapter (\<^verbatim>\<open>compat/v0_3/rest_handler.py\<close>,
  \<^verbatim>\<open>compat/v0_3/rest_adapter.py\<close>) and the client's transport (\<^verbatim>\<open>compat/v0_3/rest_transport.py\<close>), which
  speak the protobuf messages of \<^verbatim>\<open>Compat_Proto\<close> as JSON. What protobuf and Pydantic print and parse
  is the record \<open>rest03_codec\<close> on the server and \<open>rest03_reader\<close> at the client.
\<close>

subsection \<open>Integers of a query\<close>

text \<open>\<^verbatim>\<open>int(s)\<close> of a text: white space, a sign, digits with single underscores between them.\<close>

definition is_digit :: "char \<Rightarrow> bool" where
  "is_digit c \<longleftrightarrow> 48 \<le> (of_char c :: nat) \<and> (of_char c :: nat) < 58"

fun int_digits :: "nat \<Rightarrow> bool \<Rightarrow> string \<Rightarrow> nat option" where
  "int_digits n after_digit [] = (if after_digit then Some n else None)"
| "int_digits n after_digit (c # s) =
     (if is_digit c then int_digits (10 * n + char_digit c) True s
      else if c = CHR ''_'' \<and> after_digit then int_digits n False s else None)"

definition py_int :: "string \<Rightarrow> exn + int" where
  "py_int s =
     (let t = py_strip s;
          neg = (t \<noteq> [] \<and> hd t = CHR ''-'');
          ds = (if t \<noteq> [] \<and> hd t \<in> {CHR ''-'', CHR ''+''} then tl t else t)
      in if INT_MAX_STR_DIGITS < length (filter is_digit ds)
         then Inl (ValueError ''Exceeds the limit (4300 digits) for integer string conversion'')
         else (case int_digits 0 False ds of
                 None \<Rightarrow> Inl (ValueError (''invalid literal for int() with base 10: '' @ s))
               | Some n \<Rightarrow> Inr (if neg then - int n else int n)))"

text \<open>\<^verbatim>\<open>query_params.get\<close>, the last value of the key.\<close>

definition query_get :: "(string \<times> string) list \<Rightarrow> string \<Rightarrow> string option" where
  "query_get q k = map_of (rev q) k"

subsection \<open>The handler\<close>

datatype p3_out = OutSend p3_payload | OutStream p3_payload | OutTask p3_task
  | OutConfig p3_task_push_config | OutConfigs "p3_task_push_config list"

record rest03_codec =
  r3_parse_send :: "string \<Rightarrow> rest_exn + p3_send_request"
  r3_parse_push :: "string \<Rightarrow> rest_exn + p3_create_push_request"
  r3_print :: "p3_out \<Rightarrow> exn + json"
  r3_dump_card :: "agent_card03 \<Rightarrow> exn + json"

type_synonym 's rest03_call = "rest_request \<Rightarrow> call_context \<Rightarrow> 's \<Rightarrow> 's \<times> (rest_exn + json)"

definition rest03_send_request :: "json_codec \<Rightarrow> rest03_codec \<Rightarrow> rest_request \<Rightarrow> rest_exn + send_request03" where
  "rest03_send_request k rc req =
     rbind (at_rest (rq_body req)) (\<lambda>b. rbind (r3_parse_send rc b) (\<lambda>p.
       at_rest (rbind (from_proto_message_send_params k p) (\<lambda>x. Inr \<lparr>rq_id = IdStr [], rq_params = x\<rparr>))))"

definition rest03_on_message_send :: "'s request_handler \<Rightarrow> json_codec \<Rightarrow> rest03_codec \<Rightarrow> 's rest03_call" where
  "rest03_on_message_send h k rc req c =
     rest_then (rest03_send_request k rc req) (\<lambda>r. h03_message_send h k r c)
       (\<lambda>r x. rbind (to_proto_task_or_message k x) (\<lambda>p. r3_print rc (OutSend p)))"

definition rest03_id_request :: "rest_request \<Rightarrow> rest_exn + task_id_params rpc_request" where
  "rest03_id_request req = rbind (path_param req ''id'') (\<lambda>i.
     Inr \<lparr>rq_id = IdStr [], rq_params = \<lparr>ti_id = i, ti_metadata = None\<rparr>\<rparr>)"

definition rest03_on_cancel_task :: "'s request_handler \<Rightarrow> json_codec \<Rightarrow> rest03_codec \<Rightarrow> 's rest03_call" where
  "rest03_on_cancel_task h k rc req c =
     rest_then (rest03_id_request req) (\<lambda>r. h03_cancel_task h k r c)
       (\<lambda>r x. rbind (to_proto_task k x) (\<lambda>p. r3_print rc (OutTask p)))"

definition print_config03 :: "rest03_codec \<Rightarrow> task_push_config03 \<Rightarrow> exn + json" where
  "print_config03 rc x = r3_print rc (OutConfig (to_proto_task_push_notification_config x))"

definition rest03_get_push_notification :: "'s request_handler \<Rightarrow> rest03_codec \<Rightarrow> 's rest03_call" where
  "rest03_get_push_notification h rc req c =
     rest_then (rbind (path_param req ''id'') (\<lambda>i. rbind (path_param req ''push_id'') (\<lambda>p.
         Inr \<lparr>rq_id = IdStr [], rq_params = QueryConfig \<lparr>gp_id = i, gp_metadata = None,
           gp_push_notification_config_id = Some p\<rparr>\<rparr>)))
       (\<lambda>r. h03_get_push_config h r c) (\<lambda>r x. print_config03 rc x)"

definition rest03_set_push_notification :: "'s request_handler \<Rightarrow> rest03_codec \<Rightarrow> 's rest03_call" where
  "rest03_set_push_notification h rc req c =
     rest_then (rbind (path_param req ''id'') (\<lambda>i.
         rbind (at_rest (rq_body req)) (\<lambda>b. rbind (r3_parse_push rc b) (\<lambda>p.
         at_rest (rbind (from_proto_task_push_notification_config_request p) (\<lambda>x.
           Inr \<lparr>rq_id = IdStr [], rq_params = x\<lparr>tpc3_task_id := i\<rparr>\<rparr>))))))
       (\<lambda>r. h03_create_push_config h r c) (\<lambda>r x. print_config03 rc x)"

definition rest03_on_get_task :: "'s request_handler \<Rightarrow> json_codec \<Rightarrow> rest03_codec \<Rightarrow> 's rest03_call" where
  "rest03_on_get_task h k rc req c =
     rest_then (rbind (path_param req ''id'') (\<lambda>i.
         rbind (if py_truthy (query_get (rq_query req) ''historyLength'')
                then at_rest (rbind (py_int (or_empty (query_get (rq_query req) ''historyLength''))) (\<lambda>n. Inr (Some n)))
                else Inr None) (\<lambda>n.
         Inr \<lparr>rq_id = IdStr [], rq_params = \<lparr>tq_history_length = n, tq_id = i, tq_metadata = None\<rparr>\<rparr>)))
       (\<lambda>r. h03_get_task h k r c) (\<lambda>r x. rbind (to_proto_task k x) (\<lambda>p. r3_print rc (OutTask p)))"

definition rest03_list_push_notifications :: "'s request_handler \<Rightarrow> rest03_codec \<Rightarrow> 's rest03_call" where
  "rest03_list_push_notifications h rc req c =
     rest_then (rbind (path_param req ''id'') (\<lambda>i.
         Inr \<lparr>rq_id = IdStr [], rq_params = \<lparr>lp_id = i, lp_metadata = None\<rparr>\<rparr>))
       (\<lambda>r. h03_list_push_configs h r c)
       (\<lambda>r xs. r3_print rc (OutConfigs (map to_proto_task_push_notification_config xs)))"

definition rest03_on_get_extended_agent_card ::
  "'v version_lib \<Rightarrow> 's request_handler \<Rightarrow> json_codec \<Rightarrow> rest03_codec \<Rightarrow> 's rest03_call" where
  "rest03_on_get_extended_agent_card lib h k rc req c =
     rest_then (Inr ()) (\<lambda>_. h03_get_extended_agent_card lib h k c) (\<lambda>_ x. r3_dump_card rc x)"

text \<open>Streams: what is yielded, and the exception that ends it.\<close>

type_synonym 's rest03_stream = "rest_request \<Rightarrow> call_context \<Rightarrow> 's \<Rightarrow> 's \<times> json list \<times> rest_exn option"

definition rest03_stream ::
  "json_codec \<Rightarrow> rest03_codec \<Rightarrow> rest_exn + 'q \<Rightarrow> ('q \<Rightarrow> (stream_result03 rpc_success, 's) stream_call) \<Rightarrow>
   's \<Rightarrow> 's \<times> json list \<times> rest_exn option" where
  "rest03_stream k rc q f s =
     (case q of
        Inl e \<Rightarrow> (s, [], Some e)
      | Inr r \<Rightarrow>
          (let (s', evs, e) = f r s;
               (js, e') = conv_stream (\<lambda>ev. rbind (to_proto_stream_response k (ok_result ev)) (\<lambda>p. r3_print rc (OutStream p))) evs e
           in (s', js, map_option rest_exn_of e')))"

definition rest03_on_message_send_stream :: "'s request_handler \<Rightarrow> json_codec \<Rightarrow> rest03_codec \<Rightarrow> 's rest03_stream" where
  "rest03_on_message_send_stream h k rc req c =
     rest03_stream k rc (rest03_send_request k rc req) (\<lambda>r. h03_message_send_stream h k r c)"

definition rest03_on_subscribe_to_task :: "'s request_handler \<Rightarrow> json_codec \<Rightarrow> rest03_codec \<Rightarrow> 's rest03_stream" where
  "rest03_on_subscribe_to_task h k rc req c =
     rest03_stream k rc (rest03_id_request req) (\<lambda>r. h03_subscribe_to_task h k r c)"

subsection \<open>The adapter\<close>

text \<open>\<^verbatim>\<open>_handle_request\<close>; each method checks the version first.\<close>

definition rest03_handle_request ::
  "'v version_lib \<Rightarrow> (http_server_request \<Rightarrow> exn + call_context) \<Rightarrow> 's rest03_call \<Rightarrow> rest_request \<Rightarrow>
   's \<Rightarrow> 's \<times> rest_response" where
  "rest03_handle_request lib build f req s =
     (case v03_build build (rq_http req) of
        Inl e \<Rightarrow> (s, rest_failure (rest_exn_of e))
      | Inr c \<Rightarrow>
          (case check_version lib PROTOCOL_VERSION_0_3 c of
             Inl e \<Rightarrow> (s, rest_failure (rest_exn_of e))
           | Inr _ \<Rightarrow> (case f req c s of (s', Inl e) \<Rightarrow> (s', rest_failure e) | (s', Inr j) \<Rightarrow> (s', RestJson j))))"

text \<open>
  \<^verbatim>\<open>_handle_streaming_request\<close>. The response starts before the first item is asked for: an
  exception of the stream, that of the version check too, breaks the response off.
\<close>

datatype rest03_response = Refused03 rest_response | Streamed03 "json list" "rest_exn option"

definition rest03_handle_streaming_request ::
  "'v version_lib \<Rightarrow> (http_server_request \<Rightarrow> exn + call_context) \<Rightarrow> 's rest03_stream \<Rightarrow> rest_request \<Rightarrow>
   's \<Rightarrow> 's \<times> rest03_response" where
  "rest03_handle_streaming_request lib build g req s =
     (case rq_body req of
        Inl e \<Rightarrow> (s, Refused03 (rest_failure (body_failure e)))
      | Inr _ \<Rightarrow>
          (case v03_build build (rq_http req) of
             Inl e \<Rightarrow> (s, Refused03 (rest_failure (rest_exn_of e)))
           | Inr c \<Rightarrow>
               (case check_version lib PROTOCOL_VERSION_0_3 c of
                  Inl e \<Rightarrow> (s, Streamed03 [] (Some (rest_exn_of e)))
                | Inr _ \<Rightarrow> (let (s', js, e) = g req c s in (s', Streamed03 js e)))))"

definition routes03 :: "((string \<times> string) \<times> rest_op) list" where
  "routes03 =
     [((''/v1/message:send'', ''POST''), OpSend), ((''/v1/message:stream'', ''POST''), OpStream),
      ((''/v1/tasks/{id}:cancel'', ''POST''), OpCancel), ((''/v1/tasks/{id}:subscribe'', ''GET''), OpSubscribe),
      ((''/v1/tasks/{id}:subscribe'', ''POST''), OpSubscribe), ((''/v1/tasks/{id}'', ''GET''), OpGet),
      ((''/v1/tasks/{id}/pushNotificationConfigs/{push_id}'', ''GET''), OpGetPush),
      ((''/v1/tasks/{id}/pushNotificationConfigs'', ''POST''), OpSetPush),
      ((''/v1/tasks/{id}/pushNotificationConfigs'', ''GET''), OpListPush),
      ((''/v1/card'', ''GET''), OpCard)]"

subsection \<open>The client's errors\<close>

text \<open>The name of the class of an error.\<close>

fun kind_name :: "a2a_kind \<Rightarrow> string" where
  "kind_name TaskNotFoundError = ''TaskNotFoundError''"
| "kind_name TaskNotCancelableError = ''TaskNotCancelableError''"
| "kind_name PushNotificationNotSupportedError = ''PushNotificationNotSupportedError''"
| "kind_name UnsupportedOperationError = ''UnsupportedOperationError''"
| "kind_name ContentTypeNotSupportedError = ''ContentTypeNotSupportedError''"
| "kind_name InternalError = ''InternalError''"
| "kind_name InvalidAgentResponseError = ''InvalidAgentResponseError''"
| "kind_name ExtendedAgentCardNotConfiguredError = ''ExtendedAgentCardNotConfiguredError''"
| "kind_name InvalidParamsError = ''InvalidParamsError''"
| "kind_name InvalidRequestError = ''InvalidRequestError''"
| "kind_name MethodNotFoundError = ''MethodNotFoundError''"
| "kind_name JSONParseError = ''JSONParseError''"
| "kind_name ExtensionSupportRequiredError = ''ExtensionSupportRequiredError''"
| "kind_name VersionNotSupportedError = ''VersionNotSupportedError''"

definition A2A_ERROR_NAME_TO_CLS :: "ustr \<Rightarrow> a2a_kind option" where
  "A2A_ERROR_NAME_TO_CLS n = map_of (map (\<lambda>k. (to_ustr (kind_name k), k)) all_kinds) n"

text \<open>
  \<open>text\<close> is the text of the HTTP error, \<open>None\<close> a body that is not JSON. A body that is no object
  raises \<^verbatim>\<open>AttributeError\<close>. A message that is not a text is not modelled.
\<close>

definition error_of_fields03 :: "string \<Rightarrow> string \<Rightarrow> int \<Rightarrow> struct \<Rightarrow> client_error" where
  "error_of_fields03 text url code d =
     (let by_status = (if code = 404 then KnownError (mk_error MethodNotFoundError (Some (''Resource not found: '' @ url)) None)
                       else ClientError (''HTTP Error '' @ int_str code @ '': '' @ text))
      in case map_of d (to_ustr ''type'') of
           Some (JStr n) \<Rightarrow>
             (case A2A_ERROR_NAME_TO_CLS n of
                None \<Rightarrow> by_status
              | Some kd \<Rightarrow> KnownError (mk_error kd (Some (case map_of d (to_ustr ''message'') of
                    Some (JStr m) \<Rightarrow> map char_of m | _ \<Rightarrow> text)) None))
         | _ \<Rightarrow> by_status)"

definition handle_http_error03 :: "string \<Rightarrow> string \<Rightarrow> int \<Rightarrow> json option \<Rightarrow> client_error" where
  "handle_http_error03 text url code body =
     (case body of
        None \<Rightarrow> error_of_fields03 text url code []
      | Some (JObj d) \<Rightarrow> error_of_fields03 text url code d
      | Some _ \<Rightarrow> ClientError ''AttributeError'')"

text \<open>The body of an error of the server: an object with the payload as its only entry.\<close>

definition error_body :: "(error_payload \<Rightarrow> json) \<Rightarrow> error_payload \<Rightarrow> json" where
  "error_body pp p = JObj [(to_ustr ''error'', pp p)]"

definition read_rest03 ::
  "(error_payload \<Rightarrow> json) \<Rightarrow> string \<Rightarrow> string \<Rightarrow> (json \<Rightarrow> exn + 'a) \<Rightarrow> rest_response \<Rightarrow> client_error + 'a" where
  "read_rest03 pp text url parse resp =
     (case resp of
        RestJson j \<Rightarrow> (case parse j of Inl e \<Rightarrow> Inl (ClientError (exn_text e)) | Inr x \<Rightarrow> Inr x)
      | RestError code p \<Rightarrow>
          Inl (if 200 \<le> code \<and> code < 300 then ClientError ''parse error''
               else handle_http_error03 text url code (Some (error_body pp p)))
      | RestStream items \<Rightarrow> Inl (ClientError ''JSON Decode Error''))"

subsection \<open>The client's requests\<close>

datatype p3_body = BodySend p3_send_request | BodyCreatePush p3_create_push_request

record rest_outgoing03 =
  og3_method :: string
  og3_path :: string
  og3_body :: "p3_body option"
  og3_params :: "(string \<times> string) list"

definition outgoing03 :: "string \<Rightarrow> string \<Rightarrow> p3_body option \<Rightarrow> (string \<times> string) list \<Rightarrow> rest_outgoing03" where
  "outgoing03 meth path b ps = \<lparr>og3_method = meth, og3_path = path, og3_body = b, og3_params = ps\<rparr>"

definition send_request_proto :: "json_codec \<Rightarrow> send_message_request \<Rightarrow> exn + p3_send_request" where
  "send_request_proto k r =
     rbind (to_compat_send_message_request k r (IdInt 0)) (\<lambda>q.
     rbind (to_proto_message k (sp3_message (rq_params q))) (\<lambda>m.
     rbind (to_proto_message_send_configuration (sp3_configuration (rq_params q))) (\<lambda>conf.
     rbind (to_proto_metadata k (sp3_metadata (rq_params q))) (\<lambda>metadata.
       Inr \<lparr>sr3_request = Some m, sr3_configuration = Some conf, sr3_metadata = metadata\<rparr>))))"

definition crt_send_message :: "json_codec \<Rightarrow> send_message_request \<Rightarrow> exn + rest_outgoing03" where
  "crt_send_message k r = rbind (send_request_proto k r) (\<lambda>p. Inr (outgoing03 ''POST'' ''/v1/message:send'' (Some (BodySend p)) []))"

definition crt_send_message_streaming :: "json_codec \<Rightarrow> send_message_request \<Rightarrow> exn + rest_outgoing03" where
  "crt_send_message_streaming k r =
     rbind (send_request_proto k r) (\<lambda>p. Inr (outgoing03 ''POST'' ''/v1/message:stream'' (Some (BodySend p)) []))"

definition history_params :: "int option \<Rightarrow> (string \<times> string) list" where
  "history_params n = (case n of None \<Rightarrow> [] | Some i \<Rightarrow> [(''historyLength'', int_str i)])"

definition crt_get_task :: "get_task_request \<Rightarrow> rest_outgoing03" where
  "crt_get_task r = outgoing03 ''GET'' (''/v1/tasks/'' @ gt_id r) None (history_params (gt_history_length r))"

definition crt_cancel_task :: "cancel_task_request \<Rightarrow> rest_outgoing03" where
  "crt_cancel_task r = outgoing03 ''POST'' (''/v1/tasks/'' @ ct_id r @ '':cancel'') None []"

definition crt_create_push_config :: "push_config \<Rightarrow> rest_outgoing03" where
  "crt_create_push_config r =
     (let q = rq_params (to_compat_create_task_push_notification_config_request r (IdInt 0))
      in outgoing03 ''POST'' (''/v1/tasks/'' @ pc_task_id r @ ''/pushNotificationConfigs'')
           (Some (BodyCreatePush \<lparr>cr3_parent = ''tasks/'' @ pc_task_id r,
              cr3_config_id = or_empty (pc3_id (tpc3_push_notification_config q)),
              cr3_config = Some (to_proto_task_push_notification_config q)\<rparr>)) [])"

definition crt_get_push_config :: "get_push_config_request \<Rightarrow> rest_outgoing03" where
  "crt_get_push_config r =
     outgoing03 ''GET'' (''/v1/tasks/'' @ gpr_task_id r @ ''/pushNotificationConfigs/'' @ gpr_id r) None []"

definition crt_get_extended_agent_card :: "agent_card option \<Rightarrow> agent_card + rest_outgoing03" where
  "crt_get_extended_agent_card c =
     (case c of
        Some acard \<Rightarrow> if cap_extended_agent_card (card_capabilities_of acard) = Some True
                      then Inr (outgoing03 ''GET'' ''/v1/card'' None []) else Inl acard
      | None \<Rightarrow> Inr (outgoing03 ''GET'' ''/v1/card'' None []))"

text \<open>How the answers are read.\<close>

record rest03_reader =
  rd3_task :: "json \<Rightarrow> exn + p3_task"
  rd3_send :: "json \<Rightarrow> exn + p3_payload option"
  rd3_config :: "json \<Rightarrow> exn + p3_task_push_config"
  rd3_card :: "json \<Rightarrow> exn + p3_card"

definition read_task03 :: "json_codec \<Rightarrow> rest03_reader \<Rightarrow> json \<Rightarrow> exn + task" where
  "read_task03 k rd j = rbind (rd3_task rd j) (\<lambda>p. rbind (from_proto_task k p) (to_core_task k))"

definition core_send_payload :: "json_codec \<Rightarrow> p3_payload option \<Rightarrow> exn + send_response" where
  "core_send_payload k p =
     (case p of
        Some (P3Task t) \<Rightarrow> rbind (from_proto_task k t) (\<lambda>x. rbind (to_core_task k x) (\<lambda>y. Inr (TaskResponse y)))
      | Some (P3Msg m) \<Rightarrow> rbind (from_proto_message k m) (\<lambda>x. rbind (to_core_message k x) (\<lambda>y. Inr (MessageResponse y)))
      | _ \<Rightarrow> Inr EmptySendResponse)"

definition read_send03 :: "json_codec \<Rightarrow> rest03_reader \<Rightarrow> json \<Rightarrow> exn + send_response" where
  "read_send03 k rd j = rbind (rd3_send rd j) (core_send_payload k)"

definition read_config03 :: "rest03_reader \<Rightarrow> json \<Rightarrow> exn + push_config" where
  "read_config03 rd j = rbind (rd3_config rd j) (\<lambda>p.
     rbind (from_proto_task_push_notification_config p) (\<lambda>c. Inr (to_core_task_push_notification_config c)))"

definition read_card03 :: "json_codec \<Rightarrow> rest03_reader \<Rightarrow> json \<Rightarrow> exn + agent_card" where
  "read_card03 k rd j = rbind (rd3_card rd j) (\<lambda>p. rbind (from_proto_agent_card k p) (to_core_agent_card k))"

definition read_event03 :: "json_codec \<Rightarrow> exn + p3_payload option \<Rightarrow> exn + stream_response" where
  "read_event03 k p = rbind p (\<lambda>x. rbind (from_proto_stream_response k x) (\<lambda>r.
     to_core_stream_response k \<lparr>ok_id = None, ok_result = r\<rparr>))"

subsection \<open>A call through both ends\<close>

definition rest03_get_task_request :: "(string \<times> string) list \<Rightarrow> string option \<Rightarrow> get_task_request \<Rightarrow> rest_request" where
  "rest03_get_task_request headers user r =
     \<lparr>rq_http = \<lparr>hq_body = BodyInvalid [], hq_headers = headers, hq_user = user\<rparr>, rq_body = Inr [],
      rq_query = og3_params (crt_get_task r), rq_path = [(''id'', gt_id r)]\<rparr>"

definition crt_get_task_call ::
  "'v version_lib \<Rightarrow> 's request_handler \<Rightarrow> json_codec \<Rightarrow> rest03_codec \<Rightarrow> rest03_reader \<Rightarrow> (error_payload \<Rightarrow> json) \<Rightarrow>
   string \<Rightarrow> string \<Rightarrow> string option \<Rightarrow> get_task_request \<Rightarrow> 's \<Rightarrow> 's \<times> (client_error + task)" where
  "crt_get_task_call lib h k rc rd pp text url user r s =
     (let (s', resp) = rest03_handle_request lib (\<lambda>q. Inr (default_build q)) (rest03_on_get_task h k rc)
            (rest03_get_task_request [(''a2a-version'', ''0.3'')] user r) s
      in (s', read_rest03 pp text url (read_task03 k rd) resp))"

subsection \<open>Subscribing\<close>

text \<open>
  The method of the subscription and whether it was found out. \<open>send\<close> is one request with a method:
  the events, and the error that ends it with \<open>True\<close> when it is status 405.
\<close>

record subscribe_state =
  ss_override :: "string option"
  ss_auto :: bool

definition subscribe_init :: "string option \<Rightarrow> subscribe_state" where
  "subscribe_init m = \<lparr>ss_override = m, ss_auto = (m = None)\<rparr>"

function crt_subscribe ::
  "(string \<Rightarrow> 's \<Rightarrow> 's \<times> 'e list \<times> (bool \<times> client_error) option) \<Rightarrow> subscribe_state \<Rightarrow> 's \<Rightarrow>
   's \<times> subscribe_state \<times> 'e list \<times> client_error option" where
  "crt_subscribe send st s =
     (let (s1, evs, e) = send (if py_truthy (ss_override st) then or_empty (ss_override st) else ''POST'') s
      in case e of
           None \<Rightarrow> (s1, st, evs, None)
         | Some (False, x) \<Rightarrow> (s1, st, evs, Some x)
         | Some (True, x) \<Rightarrow>
             if py_truthy (ss_override st)
             then (s1, if ss_auto st then \<lparr>ss_override = Some ''POST'', ss_auto = False\<rparr> else st, evs, Some x)
             else (let (s2, st2, evs2, e2) = crt_subscribe send (st\<lparr>ss_override := Some ''GET''\<rparr>) s1
                   in (s2, st2, evs @ evs2, e2)))"
  by pat_completeness auto

termination crt_subscribe
  by (relation "measure (\<lambda>(send, st, s). if py_truthy (ss_override st) then 0 else 1)") auto

declare crt_subscribe.simps [simp del]

end
