(* ===== verification/Compat_Rest_Laws.thy ===== *)
theory Compat_Rest_Laws
  imports Compat_Rest
begin

text \<open>
  Laws of REST in protocol 0.3: what a client gets of a task and of an error, what the server gets
  of a request, and the method with which the client subscribes.
\<close>

subsection \<open>Integers of a query\<close>

lemma digit_char_is_digit: "d < 10 \<Longrightarrow> is_digit (digit_char d) \<and> \<not> is_space (digit_char d)"
proof -
  assume "d < 10"
  moreover have "list_all (\<lambda>d. is_digit (digit_char d) \<and> \<not> is_space (digit_char d)) [0..<10]" by code_simp
  ultimately show ?thesis by (simp add: list_all_iff)
qed

lemma nat_str_chars: "c \<in> set (nat_str n) \<Longrightarrow> is_digit c \<and> \<not> is_space c"
  using nat_str_digits [of n] digit_char_is_digit by (auto simp: list_all_iff)

lemma int_digits_all: "list_all is_digit ds \<Longrightarrow> ds \<noteq> [] \<or> b \<Longrightarrow>
    int_digits n b ds = Some (fold (\<lambda>c n. 10 * n + char_digit c) ds n)"
  by (induction ds arbitrary: n b) auto

lemma strip_id: "t \<noteq> [] \<Longrightarrow> \<not> is_space (hd t) \<Longrightarrow> \<not> is_space (last t) \<Longrightarrow> py_strip t = t"
proof -
  assume "t \<noteq> []" "\<not> is_space (hd t)" "\<not> is_space (last t)"
  then have "dropWhile is_space t = t" "dropWhile is_space (rev t) = rev t"
    by (cases t; simp) (cases t rule: rev_cases; use \<open>\<not> is_space (last t)\<close> in simp)
  then show ?thesis by (simp add: py_strip_def)
qed

lemma py_int_str_back:
  assumes "length (nat_str (nat \<bar>i\<bar>)) \<le> INT_MAX_STR_DIGITS"
  shows "py_int (int_str i) = Inr i"
proof -
  let ?s = "nat_str (nat \<bar>i\<bar>)"
  have digits: "list_all is_digit ?s" by (simp add: list_all_iff nat_str_chars)
  then have f: "filter is_digit ?s = ?s" by (simp add: list_all_iff)
  have d: "int_digits 0 False ?s = Some (nat \<bar>i\<bar>)"
    using int_digits_all [OF digits, of False 0] digits_nat_str [of "nat \<bar>i\<bar>"] by (simp add: digits_nat_def)
  have hd: "\<not> is_space (hd ?s)" "is_digit (hd ?s)" using nat_str_chars hd_in_set [OF nat_str_not_Nil] by blast+
  have last: "\<not> is_space (last ?s)" using nat_str_chars last_in_set [OF nat_str_not_Nil] by blast
  have sign: "\<not> is_space (CHR ''-'')" "\<not> is_digit (CHR ''-'')" "\<not> is_digit (CHR ''+'')" by code_simp+
  show ?thesis
  proof (cases "i < 0")
    case True
    then have s: "int_str i = CHR ''-'' # ?s" by (simp add: int_str_def)
    have "py_strip (int_str i) = int_str i" unfolding s by (rule strip_id) (use sign last in auto)
    then show ?thesis unfolding py_int_def s using assms f d True sign by (simp add: Let_def)
  next
    case False
    then have s: "int_str i = ?s" by (simp add: int_str_def)
    have "py_strip ?s = ?s" by (rule strip_id) (use hd last in auto)
    moreover have "hd ?s \<noteq> CHR ''-''" "hd ?s \<noteq> CHR ''+''" using hd sign by metis+
    ultimately show ?thesis unfolding py_int_def s using assms f d False by (simp add: Let_def)
  qed
qed

subsection \<open>Errors\<close>

text \<open>
  The client looks for a type that the server does not send: it sees the status only.
\<close>

lemma errors_by_status03:
  "read_rest03 pp text url parse (rest_failure e) =
     (let code = ep_code (build_rest_error_payload e)
      in Inl (if code = 404 then KnownError (mk_error MethodNotFoundError (Some (''Resource not found: '' @ url)) None)
              else ClientError (''HTTP Error '' @ int_str code @ '': '' @ text)))"
proof -
  have "\<not> (200 \<le> ep_code (build_rest_error_payload e) \<and> ep_code (build_rest_error_payload e) < 300)"
    using rest_codes [of e] by simp
  then show ?thesis
    by (simp add: rest_failure_def create_error_response_def Let_def read_rest03_def handle_http_error03_def
        error_body_def error_of_fields03_def)
qed

text \<open>A task that the server does not find is a method that the client does not find.\<close>

lemma not_found_seen03:
  "read_rest03 pp text url parse (rest_failure (rest_exn_of (A2A (err TaskNotFoundError)))) =
     Inl (KnownError (mk_error MethodNotFoundError (Some (''Resource not found: '' @ url)) None))"
proof -
  have "ep_code (build_rest_error_payload (rest_exn_of (A2A (err TaskNotFoundError)))) = 404" by code_simp
  then show ?thesis by (simp add: errors_by_status03)
qed

subsection \<open>Getting a task\<close>

definition rest03_context :: "string option \<Rightarrow> call_context" where
  "rest03_context user = \<lparr>cc_user_name = or_empty user, cc_tenant = [], cc_requested_extensions = [],
     cc_headers = [(''a2a-version'', ''0.3'')]\<rparr>"

lemma rest03_context_built:
  "v03_build (\<lambda>q. Inr (default_build q)) (rq_http (rest03_get_task_request [(''a2a-version'', ''0.3'')] user r)) =
     Inr (rest03_context user)"
proof -
  have "lower_string HTTP_EXTENSION_HEADER \<noteq> ''a2a-version''" "lower_string LEGACY_HTTP_EXTENSION_HEADER \<noteq> ''a2a-version''"
    by code_simp+
  then show ?thesis
    by (simp add: v03_build_def rest03_get_task_request_def default_build_def rest03_context_def header_dict_def
        get_requested_extensions_def getlist_def)
qed

lemma version_0_3_ok: "check_version lib PROTOCOL_VERSION_0_3 (rest03_context user) = Inr ()"
proof -
  have "get_actual_version PROTOCOL_VERSION_0_3 (Some (rest03_context user)) = PROTOCOL_VERSION_0_3"
    unfolding get_actual_version_def lower_version_header
    by (simp add: rest03_context_def VERSION_HEADER_def PROTOCOL_VERSION_0_3_def)
  then show ?thesis by (simp add: check_version_def validate_version_def is_version_compatible_def)
qed

definition print_read_ok :: "rest03_codec \<Rightarrow> rest03_reader \<Rightarrow> bool" where
  "print_read_ok rc rd \<longleftrightarrow> (\<forall>p. \<exists>j. r3_print rc (OutTask p) = Inr j \<and> rd3_task rd j = Inr p)"

lemma history_query:
  assumes "pred_option int32 n"
  shows "(if py_truthy (query_get (history_params n) ''historyLength'')
      then at_rest (rbind (py_int (or_empty (query_get (history_params n) ''historyLength''))) (\<lambda>n. Inr (Some n)))
      else Inr None) = Inr n"
proof (cases n)
  case None
  then show ?thesis by (simp add: history_params_def query_get_def)
next
  case (Some i)
  with assms have "nat \<bar>i\<bar> < 10 ^ 10" by (simp add: int32_def) arith
  then have "length (nat_str (nat \<bar>i\<bar>)) \<le> 10" by (simp add: nat_str_length)
  then have "length (nat_str (nat \<bar>i\<bar>)) \<le> INT_MAX_STR_DIGITS" by (simp add: INT_MAX_STR_DIGITS_def)
  from py_int_str_back [OF this] Some show ?thesis
    by (simp add: history_params_def query_get_def at_rest_def int_str_def)
qed

lemma get_task_over_rest03:
  assumes k: "json_codec_ok k" and pr: "print_read_ok rc rd" and n: "pred_option int32 (gt_history_length r)"
    and run: "rh_get_task h (r\<lparr>gt_tenant := []\<rparr>) (rest03_context user) s = (s', Inr (Some t))"
    and f: "task_free t" and q: "to_compat_task k t = Inr q"
  shows "crt_get_task_call lib h k rc rd pp text url user r s = (s', Inr (task_over_proto (task_normal t)))"
proof -
  let ?req = "rest03_get_task_request [(''a2a-version'', ''0.3'')] user r"
  obtain p q' where p: "to_proto_task k q = Inr p" "from_proto_task k p = Inr q'"
    "to_core_task k q' = Inr (task_over_proto (task_normal t))"
    using task_over_proto_back [OF k f q] by blast
  obtain j where j: "r3_print rc (OutTask p) = Inr j" "rd3_task rd j = Inr p" using pr by (auto simp: print_read_ok_def)
  have i: "path_param ?req ''id'' = Inr (gt_id r)" by (simp add: path_param_def rest03_get_task_request_def)
  have qq: "rq_query ?req = history_params (gt_history_length r)"
    by (simp add: rest03_get_task_request_def crt_get_task_def outgoing03_def)
  have core: "to_core_get_task_request \<lparr>rq_id = IdStr [], rq_params = \<lparr>tq_history_length = gt_history_length r,
      tq_id = gt_id r, tq_metadata = None\<rparr>\<rparr> = Inr (r\<lparr>gt_tenant := []\<rparr>)"
    using n by (cases "gt_history_length r") (simp_all add: to_core_get_task_request_def int32_field_def int32_def)
  have "h03_get_task h k \<lparr>rq_id = IdStr [], rq_params = \<lparr>tq_history_length = gt_history_length r, tq_id = gt_id r,
      tq_metadata = None\<rparr>\<rparr> (rest03_context user) s = (s', Inr q)"
    by (simp add: h03_get_task_def call_through_def core run task_or_not_found_def q)
  then have "rest03_on_get_task h k rc ?req (rest03_context user) s = (s', Inr j)"
    unfolding rest03_on_get_task_def i qq history_query [OF n] by (simp add: rest_then_def p(1) j(1) at_rest_def)
  then have "rest03_handle_request lib (\<lambda>q. Inr (default_build q)) (rest03_on_get_task h k rc) ?req s = (s', RestJson j)"
    unfolding rest03_handle_request_def rest03_context_built by (simp add: version_0_3_ok)
  then show ?thesis
    by (simp add: crt_get_task_call_def read_rest03_def read_task03_def j(2) p(2,3))
qed

subsection \<open>Sending a message\<close>

text \<open>
  What the server is asked: a history length that was not set is zero, and without a configuration
  the server is to return at once.
\<close>

definition config_over_proto :: "send_config option \<Rightarrow> send_config" where
  "config_over_proto c =
     (case c of
        None \<Rightarrow> \<lparr>sc_accepted_output_modes = [], sc_push_config = None, sc_history_length = Some 0,
                 sc_return_immediately = True\<rparr>
      | Some x \<Rightarrow> (send_config_normal x)\<lparr>sc_history_length := Some (read_field 0 (sc_history_length x))\<rparr>)"

definition send_request_over_proto :: "send_message_request \<Rightarrow> send_message_request" where
  "send_request_over_proto r =
     \<lparr>smr_tenant = [],
      smr_message = Some (message_over_proto (message_normal (case smr_message r of None \<Rightarrow> empty_message | Some m \<Rightarrow> m))),
      smr_configuration = Some (config_over_proto (smr_configuration r)),
      smr_metadata = some_truthy (smr_metadata r)\<rparr>"

lemma push_config_over_proto [simp]:
  "to_core_push_notification_config (push_config03_normal (to_compat_push_notification_config p)) =
     p\<lparr>pc_tenant := [], pc_task_id := []\<rparr>"
proof -
  have "to_core_authentication_info (auth03_normal (to_compat_authentication_info a)) = a" for a
    by (simp add: to_core_authentication_info_def auth03_normal_def to_compat_authentication_info_def)
  then show ?thesis
    by (cases p) (simp add: to_core_push_notification_config_def push_config03_normal_def
        to_compat_push_notification_config_def option.map_comp comp_def option.map_ident)
qed

lemma send_config_over_proto:
  assumes "pred_option (\<lambda>c. pred_option int32 (sc_history_length c)) c"
  shows "\<exists>p. to_proto_message_send_configuration (map_option to_compat_send_message_configuration c) = Inr p \<and>
    to_core_send_message_configuration (from_proto_message_send_configuration p) = Inr (config_over_proto c)"
proof (cases c)
  case None
  then show ?thesis
    by (simp add: to_proto_message_send_configuration_def from_proto_message_send_configuration_def
        p3_empty_send_config_def to_core_send_message_configuration_def config_over_proto_def int32_field_def)
next
  case (Some x)
  then have "pred_option int32 (sc_history_length x)" using assms by simp
  with Some show ?thesis
    by (cases "sc_history_length x")
      (simp_all add: to_proto_message_send_configuration_def from_proto_message_send_configuration_def
        to_compat_send_message_configuration_def to_core_send_message_configuration_def config_over_proto_def
        int32_field_def int32_def send_config_normal_def option.map_comp comp_def push_config_passes)
qed

lemma send_request_over_proto_back:
  assumes k: "json_codec_ok k" and f: "send_request_free r" and p: "send_request_proto k r = Inr p"
  shows "\<exists>q. from_proto_message_send_params k p = Inr q \<and>
    to_core_send_message_request k \<lparr>rq_id = i, rq_params = q\<rparr> = Inr (send_request_over_proto r)"
proof -
  let ?m = "case smr_message r of None \<Rightarrow> empty_message | Some m \<Rightarrow> m"
  from p obtain m d m' conf d' where m: "to_compat_message k ?m = Inr m"
    and d: "rmap_opt (struct_to_dict k) (smr_metadata r) = Inr d"
    and m': "to_proto_message k m = Inr m'"
    and conf: "to_proto_message_send_configuration (map_option to_compat_send_message_configuration (smr_configuration r)) = Inr conf"
    and d': "to_proto_metadata k d = Inr d'"
    and p': "p = \<lparr>sr3_request = Some m', sr3_configuration = Some conf, sr3_metadata = d'\<rparr>"
    by (auto simp: send_request_proto_def to_compat_send_message_request_def)
  have "message_free ?m" using f by (cases "smr_message r") (auto simp: send_request_free_def message_free_def empty_message_def)
  then have mb: "to_core_message k m = Inr (message_normal ?m)" using m by (rule message_back [OF k])
  have "from_proto_message k m' = Inr (message03_normal m)"
    using message_passes [OF k compat_message_printed [OF k m]] m' by (auto simp: passes_def)
  moreover have "from_proto_metadata k d' = Inr (list_or_nil d)"
    using passes_metadata(1) [OF k printed_meta [OF d]] d' by (auto simp: passes_def)
  moreover have "to_core_send_message_configuration (from_proto_message_send_configuration conf) =
      Inr (config_over_proto (smr_configuration r))"
    using send_config_over_proto [of "smr_configuration r"] f conf by (auto simp: send_request_free_def)
  moreover have "rmap_opt (dict_to_struct k) (some_truthy d) = Inr (some_truthy (smr_metadata r))"
    using meta_back(2) [OF k d] .
  ultimately show ?thesis using core_message_normal [OF mb]
    by (simp add: from_proto_message_send_params_def p' to_core_send_message_request_def send_request_over_proto_def)
qed

subsection \<open>Subscribing\<close>

lemma py_truthy_Some_ne [simp]: "py_truthy (Some (c # s))" by simp

text \<open>
  POST first; a server that refuses it is asked with GET, and the client remembers which of the
  two it takes; when it takes none, POST is used from then on and its refusal is raised.
\<close>

definition answered :: "(bool \<times> client_error) option \<Rightarrow> client_error option" where
  "answered e = map_option snd e"

definition not_allowed :: "(bool \<times> client_error) option \<Rightarrow> bool" where
  "not_allowed e \<longleftrightarrow> (case e of Some (True, x) \<Rightarrow> True | _ \<Rightarrow> False)"

lemma subscribe_first_post:
  assumes "send ''POST'' s = (s1, evs, e)" "\<not> not_allowed e"
  shows "crt_subscribe send (subscribe_init None) s = (s1, subscribe_init None, evs, answered e)"
  using assms by (subst crt_subscribe.simps)
    (auto simp: subscribe_init_def not_allowed_def answered_def split: option.splits bool.splits)

lemma subscribe_with_override:
  assumes "py_truthy (ss_override st)" "send (or_empty (ss_override st)) s = (s1, evs, e)"
  shows "crt_subscribe send st s =
    (s1, if not_allowed e \<and> ss_auto st then \<lparr>ss_override = Some ''POST'', ss_auto = False\<rparr> else st, evs, answered e)"
  using assms by (subst crt_subscribe.simps)
    (auto simp: not_allowed_def answered_def split: option.splits bool.splits)

lemma subscribe_falls_back:
  assumes "send ''POST'' s = (s1, evs1, e1)" "not_allowed e1" "send ''GET'' s1 = (s2, evs2, e2)"
  shows "crt_subscribe send (subscribe_init None) s =
    (s2, if not_allowed e2 then \<lparr>ss_override = Some ''POST'', ss_auto = False\<rparr>
         else \<lparr>ss_override = Some ''GET'', ss_auto = True\<rparr>, evs1 @ evs2, answered e2)"
  using assms by (subst crt_subscribe.simps)
    (auto simp: subscribe_init_def not_allowed_def subscribe_with_override split: option.splits bool.splits)

text \<open>The states that a client without a method of its own can be in.\<close>

definition subscribe_states :: "subscribe_state set" where
  "subscribe_states = {subscribe_init None, \<lparr>ss_override = Some ''GET'', ss_auto = True\<rparr>,
     \<lparr>ss_override = Some ''POST'', ss_auto = False\<rparr>}"

lemma subscribe_keeps_states:
  assumes "st \<in> subscribe_states" "crt_subscribe send st s = (s', st', evs, e)"
  shows "st' \<in> subscribe_states"
proof (cases "st = subscribe_init None")
  case True
  obtain s1 evs1 e1 where 1: "send ''POST'' s = (s1, evs1, e1)" by (cases "send ''POST'' s")
  obtain s2 evs2 e2 where 2: "send ''GET'' s1 = (s2, evs2, e2)" by (cases "send ''GET'' s1")
  show ?thesis
    using assms True subscribe_first_post [of send s, OF 1] subscribe_falls_back [of send s, OF 1 _ 2]
    by (cases "not_allowed e1") (auto simp: subscribe_states_def split: if_splits)
next
  case False
  obtain s1 evs1 e1 where 1: "send (or_empty (ss_override st)) s = (s1, evs1, e1)"
    by (cases "send (or_empty (ss_override st)) s")
  have "py_truthy (ss_override st)" using assms(1) False by (auto simp: subscribe_states_def)
  from subscribe_with_override [of st send s, OF this 1] assms False show ?thesis
    by (auto simp: subscribe_states_def split: if_splits)
qed

end
