(* ===== verification/Compat_Grpc.thy ===== *)
theory Compat_Grpc
  imports Grpc Compat_Rest_Laws
begin

text \<open>
  gRPC in protocol 0.3: the servicer (\<^verbatim>\<open>compat/v0_3/grpc_handler.py\<close>) and the client's transport
  (\<^verbatim>\<open>compat/v0_3/grpc_transport.py\<close>). Both speak the protobuf messages of \<^verbatim>\<open>Compat_Proto\<close>; an error
  is a text that begins with the name of its class.
\<close>

subsection \<open>Contexts\<close>

definition v03_grpc_build ::
  "((string \<times> string) list \<Rightarrow> exn + call_context) \<Rightarrow> (string \<times> string) list \<Rightarrow> exn + call_context" where
  "v03_grpc_build build md =
     rbind (build md) (\<lambda>c. Inr (c\<lparr>cc_requested_extensions := remdups (cc_requested_extensions c @
       get_requested_extensions (get_metadata_value md LEGACY_HTTP_EXTENSION_HEADER))\<rparr>))"

text \<open>The parameters of a call are a dictionary: its items, each key once.\<close>

definition add_legacy_extension_header :: "(string \<times> string) list \<Rightarrow> (string \<times> string) list" where
  "add_legacy_extension_header ps =
     (case (map_of ps HTTP_EXTENSION_HEADER, map_of ps LEGACY_HTTP_EXTENSION_HEADER) of
        (Some v, None) \<Rightarrow> ps @ [(LEGACY_HTTP_EXTENSION_HEADER, v)]
      | _ \<Rightarrow> ps)"

definition grpc_metadata03 :: "(string \<times> string) list \<Rightarrow> (string \<times> string) list" where
  "grpc_metadata03 params = grpc_metadata PROTOCOL_VERSION_0_3 (add_legacy_extension_header params)"

subsection \<open>Errors\<close>

fun abort_context03 :: "a2a_error \<Rightarrow> grpc_abort" where
  "abort_context03 e =
     (case GRPC_ERROR_CODE_MAP (err_kind e) of
        Some c \<Rightarrow> \<lparr>ab_code = c, ab_details = kind_name (err_kind e) @ '': '' @ err_message e, ab_trailing = []\<rparr>
      | None \<Rightarrow> \<lparr>ab_code = G_UNKNOWN, ab_details = ''Unknown error type: '' @ err_message e, ab_trailing = []\<rparr>)"

fun grpc_failure03 :: "exn \<Rightarrow> 'a grpc_reply" where
  "grpc_failure03 (A2A e) = GrpcAborted (abort_context03 e)"
| "grpc_failure03 e = GrpcRaised e"

text \<open>\<^verbatim>\<open>details.split(': ', 1)\<close>\<close>

fun split_error_text :: "string \<Rightarrow> (string \<times> string) option" where
  "split_error_text [] = None"
| "split_error_text (c # s) =
     (if c = CHR '':'' \<and> s \<noteq> [] \<and> hd s = CHR '' '' then Some ([], tl s)
      else (case split_error_text s of None \<Rightarrow> None | Some (a, b) \<Rightarrow> Some (c # a, b)))"

definition map_grpc_error03 :: "grpc_abort \<Rightarrow> client_error" where
  "map_grpc_error03 e =
     (if ab_code e = G_DEADLINE_EXCEEDED then ClientError ''Client Request timed out''
      else (case split_error_text (ab_details e) of
              None \<Rightarrow> grpc_error_text e
            | Some (n, m) \<Rightarrow>
                (case A2A_ERROR_NAME_TO_CLS (to_ustr n) of
                   None \<Rightarrow> grpc_error_text e
                 | Some k \<Rightarrow> KnownError (mk_error k (Some m) None))))"

subsection \<open>The servicer\<close>

definition grpc03_unary ::
  "((string \<times> string) list \<Rightarrow> exn + call_context) \<Rightarrow> (string \<times> string) list \<Rightarrow>
   (call_context \<Rightarrow> ('a, 's) call) \<Rightarrow> 's \<Rightarrow> 's \<times> 'a grpc_reply" where
  "grpc03_unary build md f s =
     (case v03_grpc_build build md of
        Inl e \<Rightarrow> (s, grpc_failure03 e)
      | Inr c \<Rightarrow> (case f c s of (s', Inl e) \<Rightarrow> (s', grpc_failure03 e) | (s', Inr x) \<Rightarrow> (s', GrpcOk x)))"

definition grpc03_stream ::
  "((string \<times> string) list \<Rightarrow> exn + call_context) \<Rightarrow> (string \<times> string) list \<Rightarrow>
   (call_context \<Rightarrow> ('a, 's) stream_call) \<Rightarrow> 's \<Rightarrow> 's \<times> 'a list \<times> unit grpc_reply" where
  "grpc03_stream build md f s =
     (case v03_grpc_build build md of
        Inl e \<Rightarrow> (s, [], grpc_failure03 e)
      | Inr c \<Rightarrow> (let (s', xs, e) = f c s in (s', xs, case e of None \<Rightarrow> GrpcOk () | Some x \<Rightarrow> grpc_failure03 x)))"

definition extract_task_id :: "string \<Rightarrow> exn + string" where
  "extract_task_id name = (case TASK_NAME_MATCH name of None \<Rightarrow> Inl (no_task name) | Some t \<Rightarrow> Inr t)"

definition extract_task_and_config_id :: "string \<Rightarrow> exn + string \<times> string" where
  "extract_task_and_config_id name =
     (case TASK_PUSH_CONFIG_NAME_MATCH name of
        None \<Rightarrow> Inl (A2A (err_msg InvalidParamsError (''Bad resource name '' @ name)))
      | Some x \<Rightarrow> Inr x)"

text \<open>The request of protocol 0.3 has the id 0.\<close>

definition with_id0 :: "exn + 'q \<Rightarrow> exn + 'q rpc_request" where
  "with_id0 q = rbind q (\<lambda>x. Inr \<lparr>rq_id = IdInt 0, rq_params = x\<rparr>)"

definition grpc03_SendMessage where
  "grpc03_SendMessage build h k r md = grpc03_unary build md (\<lambda>c.
     call_through (with_id0 (from_proto_message_send_params k r)) (\<lambda>q. h03_message_send h k q c) (to_proto_task_or_message k))"

definition grpc03_SendStreamingMessage where
  "grpc03_SendStreamingMessage build h k r md = grpc03_stream build md (\<lambda>c.
     stream_through (with_id0 (from_proto_message_send_params k r)) (\<lambda>q. h03_message_send_stream h k q c)
       (\<lambda>ev. to_proto_stream_response k (ok_result ev)))"

definition grpc03_GetTask where
  "grpc03_GetTask build h k r md = grpc03_unary build md (\<lambda>c.
     call_through (with_id0 (from_proto_task_query_params r)) (\<lambda>q. h03_get_task h k q c) (to_proto_task k))"

definition grpc03_CancelTask where
  "grpc03_CancelTask build h k name md = grpc03_unary build md (\<lambda>c.
     call_through (with_id0 (from_proto_task_id_params (P3Cancel name))) (\<lambda>q. h03_cancel_task h k q c) (to_proto_task k))"

definition grpc03_TaskSubscription where
  "grpc03_TaskSubscription build h k name md = grpc03_stream build md (\<lambda>c.
     stream_through (with_id0 (from_proto_task_id_params (P3Subscription name))) (\<lambda>q. h03_subscribe_to_task h k q c)
       (\<lambda>ev. to_proto_stream_response k (ok_result ev)))"

definition grpc03_CreateTaskPushNotificationConfig where
  "grpc03_CreateTaskPushNotificationConfig build h r md = grpc03_unary build md (\<lambda>c.
     call_through (with_id0 (from_proto_task_push_notification_config_request r)) (\<lambda>q. h03_create_push_config h q c)
       (\<lambda>x. Inr (to_proto_task_push_notification_config x)))"

definition grpc03_GetTaskPushNotificationConfig where
  "grpc03_GetTaskPushNotificationConfig build h name md = grpc03_unary build md (\<lambda>c.
     call_through (with_id0 (rbind (extract_task_and_config_id name) (\<lambda>(t, i).
         Inr (QueryConfig \<lparr>gp_id = t, gp_metadata = None, gp_push_notification_config_id = Some i\<rparr>))))
       (\<lambda>q. h03_get_push_config h q c) (\<lambda>x. Inr (to_proto_task_push_notification_config x)))"

definition grpc03_ListTaskPushNotificationConfig where
  "grpc03_ListTaskPushNotificationConfig build h parent md = grpc03_unary build md (\<lambda>c.
     call_through (with_id0 (rbind (extract_task_id parent) (\<lambda>t. Inr \<lparr>lp_id = t, lp_metadata = None\<rparr>)))
       (\<lambda>q. h03_list_push_configs h q c) (\<lambda>xs. Inr (map to_proto_task_push_notification_config xs)))"

definition grpc03_GetAgentCard where
  "grpc03_GetAgentCard lib build h k md = grpc03_unary build md (\<lambda>c.
     call_through (Inr ()) (\<lambda>_. h03_get_extended_agent_card lib h k c) (to_proto_agent_card k))"

definition grpc03_DeleteTaskPushNotificationConfig where
  "grpc03_DeleteTaskPushNotificationConfig build h name md = grpc03_unary build md (\<lambda>c.
     call_through (with_id0 (rbind (extract_task_and_config_id name) (\<lambda>(t, i).
         Inr \<lparr>dl_id = t, dl_metadata = None, dl_push_notification_config_id = i\<rparr>)))
       (\<lambda>q. h03_delete_push_config h q c) Inr)"

subsection \<open>The client\<close>

text \<open>An exception of a conversion is raised as it is.\<close>

fun client_raised :: "exn \<Rightarrow> client_error" where
  "client_raised (A2A e) = KnownError e"
| "client_raised e = ClientError (exn_text e)"

definition or_raised :: "exn + 'a \<Rightarrow> client_error + 'a" where
  "or_raised x = (case x of Inl e \<Rightarrow> Inl (client_raised e) | Inr y \<Rightarrow> Inr y)"

definition call_grpc03 ::
  "(exn \<Rightarrow> string) \<Rightarrow> exn + 'q \<Rightarrow> ('q \<Rightarrow> (string \<times> string) list \<Rightarrow> 's \<Rightarrow> 's \<times> 'a grpc_reply) \<Rightarrow> ('a \<Rightarrow> exn + 'b) \<Rightarrow>
   (string \<times> string) list \<Rightarrow> 's \<Rightarrow> 's \<times> (client_error + 'b)" where
  "call_grpc03 unexpected req stub back params s =
     (case req of
        Inl e \<Rightarrow> (s, Inl (client_raised e))
      | Inr q \<Rightarrow> (let (s', y) = stub q (grpc_metadata03 params) s
                  in (s', rbind (read_grpc unexpected (\<lambda>a. Inr (map_grpc_error03 a)) y) (\<lambda>x. or_raised (back x)))))"

definition call_grpc_stream03 ::
  "(exn \<Rightarrow> string) \<Rightarrow> exn + 'q \<Rightarrow> ('q \<Rightarrow> (string \<times> string) list \<Rightarrow> 's \<Rightarrow> 's \<times> p3_payload list \<times> unit grpc_reply) \<Rightarrow>
   json_codec \<Rightarrow> (string \<times> string) list \<Rightarrow> 's \<Rightarrow> 's \<times> stream_response list \<times> client_error option" where
  "call_grpc_stream03 unexpected req stub k params s =
     (case req of
        Inl e \<Rightarrow> (s, [], Some (client_raised e))
      | Inr q \<Rightarrow>
          (let (s', ps, y) = stub q (grpc_metadata03 params) s;
               (xs, x) = conv_stream (\<lambda>p. read_event03 k (Inr (Some p))) ps None
           in (s', xs, case x of
                         Some e \<Rightarrow> Some (client_raised e)
                       | None \<Rightarrow> (case read_grpc unexpected (\<lambda>a. Inr (map_grpc_error03 a)) y of
                                   Inl e \<Rightarrow> Some e | Inr _ \<Rightarrow> None))))"

type_synonym 's grpc_client03 =
  "(exn \<Rightarrow> string) \<times> ((string \<times> string) list \<Rightarrow> exn + call_context) \<times> 's request_handler \<times> json_codec"

definition task_name :: "string \<Rightarrow> string" where
  "task_name i = ''tasks/'' @ i"

definition push_name :: "string \<Rightarrow> string \<Rightarrow> string" where
  "push_name t i = ''tasks/'' @ t @ ''/pushNotificationConfigs/'' @ i"

definition core_of_task :: "json_codec \<Rightarrow> p3_task \<Rightarrow> exn + task" where
  "core_of_task k p = rbind (from_proto_task k p) (to_core_task k)"

definition core_of_config :: "p3_task_push_config \<Rightarrow> exn + push_config" where
  "core_of_config p = rbind (from_proto_task_push_notification_config p) (\<lambda>c. Inr (to_core_task_push_notification_config c))"

definition cgt_send_message where
  "cgt_send_message g r = (case g of (u, build, h, k) \<Rightarrow>
     call_grpc03 u (send_request_proto k r) (grpc03_SendMessage build h k) (\<lambda>p. core_send_payload k (Some p)))"

definition cgt_send_message_streaming where
  "cgt_send_message_streaming g r = (case g of (u, build, h, k) \<Rightarrow>
     call_grpc_stream03 u (send_request_proto k r) (grpc03_SendStreamingMessage build h k) k)"

definition cgt_subscribe where
  "cgt_subscribe g r = (case g of (u, build, h, k) \<Rightarrow>
     call_grpc_stream03 u (Inr (task_name (sb_id r))) (grpc03_TaskSubscription build h k) k)"

text \<open>A history length that is not set reads as zero.\<close>

definition get_task_proto :: "get_task_request \<Rightarrow> p3_get_task_request" where
  "get_task_proto r = \<lparr>gr3_name = task_name (gt_id r), gr3_history_length = read_field 0 (gt_history_length r)\<rparr>"

definition cgt_get_task ::
  "'s grpc_client03 \<Rightarrow> get_task_request \<Rightarrow> (string \<times> string) list \<Rightarrow> 's \<Rightarrow> 's \<times> (client_error + task)" where
  "cgt_get_task g r = (case g of (u, build, h, k) \<Rightarrow>
     call_grpc03 u (Inr (get_task_proto r)) (grpc03_GetTask build h k) (core_of_task k))"

definition cgt_list_tasks :: "'s grpc_client03 \<Rightarrow> list_tasks_request \<Rightarrow> (string \<times> string) list \<Rightarrow> 's \<Rightarrow>
    's \<times> (client_error + list_tasks_response)" where
  "cgt_list_tasks g r params s = (s, Inl (ClientError ''ListTasks is not supported in A2A v0.3 gRPC.''))"

definition cgt_cancel_task where
  "cgt_cancel_task g r = (case g of (u, build, h, k) \<Rightarrow>
     call_grpc03 u (Inr (task_name (ct_id r))) (grpc03_CancelTask build h k) (core_of_task k))"

definition create_push_proto :: "push_config \<Rightarrow> p3_create_push_request" where
  "create_push_proto r =
     (let q = rq_params (to_compat_create_task_push_notification_config_request r (IdInt 0))
      in \<lparr>cr3_parent = task_name (pc_task_id r),
          cr3_config_id = or_empty (pc3_id (tpc3_push_notification_config q)),
          cr3_config = Some (to_proto_task_push_notification_config q)\<rparr>)"

definition cgt_create_push_config where
  "cgt_create_push_config g r = (case g of (u, build, h, k) \<Rightarrow>
     call_grpc03 u (Inr (create_push_proto r)) (grpc03_CreateTaskPushNotificationConfig build h) core_of_config)"

definition cgt_get_push_config where
  "cgt_get_push_config g r = (case g of (u, build, h, k) \<Rightarrow>
     call_grpc03 u (Inr (push_name (gpr_task_id r) (gpr_id r))) (grpc03_GetTaskPushNotificationConfig build h) core_of_config)"

definition cgt_list_push_configs where
  "cgt_list_push_configs g r = (case g of (u, build, h, k) \<Rightarrow>
     call_grpc03 u (Inr (task_name (lpr_task_id r))) (grpc03_ListTaskPushNotificationConfig build h)
       (\<lambda>ps. rbind (from_proto_list_push_response ps) (\<lambda>x. Inr (to_core_list_task_push_notification_config_response x))))"

definition cgt_delete_push_config where
  "cgt_delete_push_config g r = (case g of (u, build, h, k) \<Rightarrow>
     call_grpc03 u (Inr (push_name (dpr_task_id r) (dpr_id r))) (grpc03_DeleteTaskPushNotificationConfig build h) Inr)"

text \<open>The card that arrives is kept.\<close>

definition cgt_get_extended_agent_card where
  "cgt_get_extended_agent_card lib g own params s = (case g of (u, build, h, k) \<Rightarrow>
     (let (s', x) = call_grpc03 u (Inr ()) (\<lambda>_. grpc03_GetAgentCard lib build h k)
            (\<lambda>p. rbind (from_proto_agent_card k p) (to_core_agent_card k)) params s
      in (s', case x of Inl e \<Rightarrow> own | Inr c \<Rightarrow> Some c, x)))"

end
