(* ===== verification/Compat_Grpc_Laws.thy ===== *)
theory Compat_Grpc_Laws
  imports Compat_Grpc
begin

text \<open>
  Laws of gRPC in protocol 0.3: what a client sees of an error, and what of a task, of the answer to
  a message, of a stream and of a push configuration.
\<close>

subsection \<open>Errors and tasks\<close>


lemma split_error_text_app: "CHR '':'' \<notin> set n \<Longrightarrow> split_error_text (n @ '': '' @ m) = Some (n, m)"
  by (induction n) auto

lemma kind_name_plain: "CHR '':'' \<notin> set (kind_name k)"
  by (cases k) simp_all

lemma kind_of_name: "A2A_ERROR_NAME_TO_CLS (to_ustr (kind_name k)) = Some k"
proof -
  have "list_all (\<lambda>k. A2A_ERROR_NAME_TO_CLS (to_ustr (kind_name k)) = Some k) all_kinds" by code_simp
  moreover have "k \<in> set all_kinds" by (cases k) (simp_all add: all_kinds_def)
  ultimately show ?thesis by (simp add: list_all_iff)
qed

text \<open>The kind and the message of an error cross as text; its data does not.\<close>

definition grpc03_view :: "(exn \<Rightarrow> string) \<Rightarrow> exn \<Rightarrow> client_error" where
  "grpc03_view unexpected e =
     (case e of
        A2A a \<Rightarrow> if err_kind a = JSONParseError
                 then ClientError (''gRPC Error UNKNOWN: Unknown error type: '' @ err_message a)
                 else KnownError (mk_error (err_kind a) (Some (err_message a)) None)
      | x \<Rightarrow> map_grpc_error03 \<lparr>ab_code = G_UNKNOWN, ab_details = unexpected x, ab_trailing = []\<rparr>)"

lemma unknown_type_text:
  "map_grpc_error03 \<lparr>ab_code = G_UNKNOWN, ab_details = ''Unknown error type: '' @ m, ab_trailing = []\<rparr> =
   ClientError (''gRPC Error UNKNOWN: Unknown error type: '' @ m)"
proof -
  have "split_error_text (''Unknown error type'' @ '': '' @ m) = Some (''Unknown error type'', m)"
    by (rule split_error_text_app) simp
  then have "split_error_text (''Unknown error type: '' @ m) = Some (''Unknown error type'', m)" by simp
  moreover have "A2A_ERROR_NAME_TO_CLS (to_ustr ''Unknown error type'') = None" by code_simp
  moreover have "code_name G_UNKNOWN = ''UNKNOWN''" by (simp add: code_name_def grpc_codes_def)
  ultimately show ?thesis by (simp add: map_grpc_error03_def grpc_error_text_def del: split_error_text.simps)
qed

lemma named_error_read:
  assumes "c \<noteq> G_DEADLINE_EXCEEDED"
  shows "map_grpc_error03 \<lparr>ab_code = c, ab_details = kind_name k @ '': '' @ m, ab_trailing = tr\<rparr> =
    KnownError (mk_error k (Some m) None)"
  unfolding map_grpc_error03_def grpc_abort.simps split_error_text_app [OF kind_name_plain]
  using assms by (simp add: kind_of_name)

lemma failure_seen03:
  "read_grpc unexpected (\<lambda>a. Inr (map_grpc_error03 a)) (grpc_failure03 e) = Inl (grpc03_view unexpected e)"
proof (cases e)
  case (A2A a)
  show ?thesis
  proof (cases "GRPC_ERROR_CODE_MAP (err_kind a)")
    case None
    then have "err_kind a = JSONParseError" by (simp add: grpc_code_defined)
    then show ?thesis by (simp add: A2A grpc03_view_def unknown_type_text del: append.simps)
  next
    case (Some c)
    then have "c \<noteq> G_DEADLINE_EXCEEDED" "err_kind a \<noteq> JSONParseError"
      using grpc_code_defined(2) [of "err_kind a"] by auto
    then show ?thesis by (simp add: A2A grpc03_view_def Some named_error_read del: append.simps)
  qed
qed (simp_all add: grpc03_view_def)

lemma call_unary_end_to_end03:
  assumes "v03_grpc_build build (grpc_metadata03 params) = Inr c" and "f q c s = (s', x)"
  shows "call_grpc03 unexpected (Inr q) (\<lambda>q md. grpc03_unary build md (f q)) back params s =
    (s', case x of Inr y \<Rightarrow> or_raised (back y) | Inl e \<Rightarrow> Inl (grpc03_view unexpected e))"
  using assms by (cases x) (simp_all add: call_grpc03_def grpc03_unary_def failure_seen03)

definition grpc03_context :: "(string \<times> string) list \<Rightarrow> call_context" where
  "grpc03_context params =
     \<lparr>cc_user_name = [], cc_tenant = [],
      cc_requested_extensions = remdups (cc_requested_extensions (default_grpc_build (grpc_metadata03 params)) @
        get_requested_extensions (get_metadata_value (grpc_metadata03 params) LEGACY_HTTP_EXTENSION_HEADER)),
      cc_headers = []\<rparr>"

lemma grpc03_context_built:
  "v03_grpc_build (\<lambda>md. Inr (default_grpc_build md)) (grpc_metadata03 params) = Inr (grpc03_context params)"
  by (simp add: v03_grpc_build_def default_grpc_build_def grpc03_context_def)

text \<open>The request that the handler gets: a limit of zero is none.\<close>

definition get_task_over_grpc03 :: "get_task_request \<Rightarrow> get_task_request" where
  "get_task_over_grpc03 r = \<lparr>gt_tenant = [], gt_id = gt_id r,
     gt_history_length = (if gt_history_length r = Some 0 then None else gt_history_length r)\<rparr>"

lemma get_task_request_arrives:
  assumes "CHR ''/'' \<notin> set (gt_id r)" "gt_id r \<noteq> []" "pred_option int32 (gt_history_length r)"
  shows "\<exists>q. with_id0 (from_proto_task_query_params (get_task_proto r)) = Inr q \<and>
    to_core_get_task_request q = Inr (get_task_over_grpc03 r)"
proof -
  have "TASK_NAME_MATCH (task_name (gt_id r)) = Some (gt_id r)"
    unfolding task_name_def by (rule task_name_match [OF assms(1,2)])
  then show ?thesis
    using assms(3) by (cases "gt_history_length r")
      (auto simp: with_id0_def from_proto_task_query_params_def get_task_proto_def get_task_over_grpc03_def
        to_core_get_task_request_def int32_field_def int32_def read_field_def)
qed

definition outcome_over_grpc03 :: "(exn \<Rightarrow> string) \<Rightarrow> exn + task option \<Rightarrow> client_error + task" where
  "outcome_over_grpc03 unexpected x =
     (case x of
        Inr (Some t) \<Rightarrow> Inr (task_over_proto (task_normal t))
      | Inr None \<Rightarrow> Inl (KnownError (err TaskNotFoundError))
      | Inl e \<Rightarrow> Inl (grpc03_view unexpected e))"

lemma get_task_over_grpc03_end_to_end:
  assumes k: "json_codec_ok k" and i: "CHR ''/'' \<notin> set (gt_id r)" "gt_id r \<noteq> []"
    and n: "pred_option int32 (gt_history_length r)"
    and run: "rh_get_task h (get_task_over_grpc03 r) (grpc03_context params) s = (s', x)"
    and f: "\<And>t. x = Inr (Some t) \<Longrightarrow> task_free t \<and> \<not> isl (to_compat_task k t)"
  shows "cgt_get_task (unexpected, \<lambda>md. Inr (default_grpc_build md), h, k) r params s =
    (s', outcome_over_grpc03 unexpected x)"
proof -
  let ?f = "\<lambda>r c. call_through (with_id0 (from_proto_task_query_params r)) (\<lambda>q. h03_get_task h k q c) (to_proto_task k)"
  have stub: "grpc03_GetTask b h k = (\<lambda>r md. grpc03_unary b md (?f r))" for b
    by (simp add: fun_eq_iff grpc03_GetTask_def)
  obtain q where q: "with_id0 (from_proto_task_query_params (get_task_proto r)) = Inr q"
    "to_core_get_task_request q = Inr (get_task_over_grpc03 r)"
    using get_task_request_arrives [OF i n] by auto
  let ?y = "rbind x (\<lambda>t. rbind (task_or_not_found (to_compat_task k) t) (to_proto_task k))"
  have "?f (get_task_proto r) (grpc03_context params) s = (s', ?y)"
    by (cases x) (auto simp: call_through_def h03_get_task_def q run rbind_def split: sum.split)
  then have "cgt_get_task (unexpected, \<lambda>md. Inr (default_grpc_build md), h, k) r params s =
      (s', case ?y of Inr y \<Rightarrow> or_raised (core_of_task k y) | Inl e \<Rightarrow> Inl (grpc03_view unexpected e))"
    unfolding cgt_get_task_def prod.case stub by (rule call_unary_end_to_end03 [OF grpc03_context_built])
  moreover have "(case ?y of Inr y \<Rightarrow> or_raised (core_of_task k y) | Inl e \<Rightarrow> Inl (grpc03_view unexpected e)) =
      outcome_over_grpc03 unexpected x"
  proof (cases x)
    case (Inr o')
    show ?thesis
    proof (cases o')
      case None
      then show ?thesis
        by (simp add: Inr outcome_over_grpc03_def task_or_not_found_def grpc03_view_def err_def mk_error_def)
    next
      case (Some t)
      with f Inr obtain q where t: "task_free t" "to_compat_task k t = Inr q" by (cases "to_compat_task k t") auto
      obtain p q' where "to_proto_task k q = Inr p" "from_proto_task k p = Inr q'"
        "to_core_task k q' = Inr (task_over_proto (task_normal t))"
        using task_over_proto_back [OF k t] by blast
      then show ?thesis
        by (simp add: Inr Some outcome_over_grpc03_def task_or_not_found_def t(2) core_of_task_def or_raised_def)
    qed
  qed (simp add: outcome_over_grpc03_def)
  ultimately show ?thesis by simp
qed

subsection \<open>Sending a message\<close>

fun send_response_over_proto :: "send_response \<Rightarrow> send_response" where
  "send_response_over_proto (TaskResponse t) = TaskResponse (task_over_proto (task_normal t))"
| "send_response_over_proto (MessageResponse m) = MessageResponse (message_over_proto (message_normal m))"
| "send_response_over_proto EmptySendResponse = MessageResponse (message_over_proto (message_normal empty_message))"

lemma message_over_proto_back:
  assumes k: "json_codec_ok k" and f: "message_free m" and c: "to_compat_message k m = Inr q"
  shows "\<exists>p q'. to_proto_message k q = Inr p \<and> from_proto_message k p = Inr q' \<and>
    to_core_message k q' = Inr (message_over_proto (message_normal m))"
proof -
  from message_passes [OF k compat_message_printed [OF k c]] obtain p where
    "to_proto_message k q = Inr p" "from_proto_message k p = Inr (message03_normal q)" by (auto elim: passesE)
  with core_message_normal [OF message_back [OF k f c]] show ?thesis by blast
qed

lemma send_response_over_proto_back:
  assumes k: "json_codec_ok k" and f: "send_response_free r" and c: "compat_send_result k r = Inr q"
  shows "\<exists>p. to_proto_task_or_message k q = Inr p \<and> core_send_payload k (Some p) = Inr (send_response_over_proto r)"
proof (cases r)
  case (TaskResponse t)
  with f c obtain x where x: "task_free t" "to_compat_task k t = Inr x" "q = SendTask x" by auto
  with task_over_proto_back [OF k x(1,2)] TaskResponse show ?thesis by (auto simp: core_send_payload_def)
next
  case (MessageResponse m)
  with f c obtain x where x: "message_free m" "to_compat_message k m = Inr x" "q = SendMessage x" by auto
  with message_over_proto_back [OF k x(1,2)] MessageResponse show ?thesis by (auto simp: core_send_payload_def)
next
  case EmptySendResponse
  with c obtain x where x: "to_compat_message k empty_message = Inr x" "q = SendMessage x" by auto
  have "message_free empty_message" by (simp add: message_free_def empty_message_def)
  from message_over_proto_back [OF k this x(1)] EmptySendResponse x(2) show ?thesis by (auto simp: core_send_payload_def)
qed

lemma send_message_over_grpc03:
  assumes k: "json_codec_ok k" and rf: "send_request_free r" and req: "send_request_proto k r = Inr p"
    and run: "rh_message_send h (send_request_over_proto r) (grpc03_context params) s = (s', x)"
    and f: "\<And>y. x = Inr y \<Longrightarrow> send_response_free y \<and> \<not> isl (compat_send_result k y)"
  shows "cgt_send_message (unexpected, \<lambda>md. Inr (default_grpc_build md), h, k) r params s =
    (s', case x of Inr y \<Rightarrow> Inr (send_response_over_proto y) | Inl e \<Rightarrow> Inl (grpc03_view unexpected e))"
proof -
  let ?f = "\<lambda>r c. call_through (with_id0 (from_proto_message_send_params k r)) (\<lambda>q. h03_message_send h k q c)
    (to_proto_task_or_message k)"
  have stub: "grpc03_SendMessage b h k = (\<lambda>r md. grpc03_unary b md (?f r))" for b
    by (simp add: fun_eq_iff grpc03_SendMessage_def)
  obtain q where q: "from_proto_message_send_params k p = Inr q"
    "to_core_send_message_request k \<lparr>rq_id = IdInt 0, rq_params = q\<rparr> = Inr (send_request_over_proto r)"
    using send_request_over_proto_back [OF k rf req] by blast
  let ?y = "rbind x (\<lambda>y. rbind (compat_send_result k y) (to_proto_task_or_message k))"
  have "?f p (grpc03_context params) s = (s', ?y)"
    by (cases x) (auto simp: call_through_def h03_message_send_def with_id0_def q run rbind_def split: sum.split)
  then have "cgt_send_message (unexpected, \<lambda>md. Inr (default_grpc_build md), h, k) r params s =
      (s', case ?y of Inr y \<Rightarrow> or_raised (core_send_payload k (Some y)) | Inl e \<Rightarrow> Inl (grpc03_view unexpected e))"
    unfolding cgt_send_message_def prod.case stub req by (rule call_unary_end_to_end03 [OF grpc03_context_built])
  moreover have "(case ?y of Inr y \<Rightarrow> or_raised (core_send_payload k (Some y)) | Inl e \<Rightarrow> Inl (grpc03_view unexpected e)) =
      (case x of Inr y \<Rightarrow> Inr (send_response_over_proto y) | Inl e \<Rightarrow> Inl (grpc03_view unexpected e))"
  proof (cases x)
    case (Inr y)
    with f obtain z where y: "send_response_free y" "compat_send_result k y = Inr z" by (cases "compat_send_result k y") auto
    from send_response_over_proto_back [OF k y] y(2) show ?thesis by (auto simp: Inr or_raised_def)
  qed simp
  ultimately show ?thesis by simp
qed

subsection \<open>Streams\<close>

definition status_event_over_proto :: "status_event \<Rightarrow> status_event" where
  "status_event_over_proto e = e\<lparr>se_status := map_option status_over_proto (se_status e)\<rparr>"

definition artifact_event_over_proto :: "artifact_event \<Rightarrow> artifact_event" where
  "artifact_event_over_proto e = e\<lparr>ae_artifact := map_option artifact_over_proto (ae_artifact e)\<rparr>"

fun event_over_proto :: "event \<Rightarrow> event" where
  "event_over_proto (MessageEv m) = MessageEv (message_over_proto m)"
| "event_over_proto (TaskEv (TaskObj t)) = TaskEv (TaskObj (task_over_proto t))"
| "event_over_proto (TaskEv (StatusUpdate e)) = TaskEv (StatusUpdate (status_event_over_proto e))"
| "event_over_proto (TaskEv (ArtifactUpdate e)) = TaskEv (ArtifactUpdate (artifact_event_over_proto e))"

lemma core_status_event_normal:
  assumes "to_core_task_status_update_event k e = Inr q"
  shows "to_core_task_status_update_event k (status_event03_normal e) = Inr (status_event_over_proto q)"
proof -
  from assms obtain st where "to_core_task_status k (se3_status e) = Inr st" "se_status q = Some st"
    by (auto simp: to_core_task_status_update_event_def)
  with core_status_normal [of k "se3_status e" st] assms show ?thesis
    by (cases q) (auto simp: to_core_task_status_update_event_def status_event03_normal_def status_event_over_proto_def)
qed

lemma core_artifact_event_normal:
  assumes "to_core_task_artifact_update_event k e = Inr q"
  shows "to_core_task_artifact_update_event k (artifact_event03_normal e) = Inr (artifact_event_over_proto q)"
proof -
  from assms obtain a where "to_core_artifact k (ae3_artifact e) = Inr a" "ae_artifact q = Some a"
    by (auto simp: to_core_task_artifact_update_event_def)
  with core_artifact_normal [of k "ae3_artifact e" a] assms show ?thesis
    by (cases q) (auto simp: to_core_task_artifact_update_event_def artifact_event03_normal_def artifact_event_over_proto_def)
qed

lemma core_event_normal:
  assumes "to_core_stream_response k \<lparr>ok_id = i, ok_result = r\<rparr> = Inr (StreamEvent ev)"
  shows "to_core_stream_response k \<lparr>ok_id = j, ok_result = stream03_normal r\<rparr> = Inr (StreamEvent (event_over_proto ev))"
  using assms
  by (cases r) (auto simp: core_message_normal core_task_normal core_status_event_normal core_artifact_event_normal)

lemma compat_event_printed:
  assumes k: "json_codec_ok k" and c: "to_compat_event k ev = Inr q"
  shows "stream03_printed k q"
  using c
proof (induction ev rule: event_normal.induct)
  case (3 e)
  then show ?case
    by (auto simp: to_compat_task_status_update_event_def compat_status_printed [OF k] printed_meta)
next
  case (4 e)
  then show ?case
    by (auto simp: to_compat_task_artifact_update_event_def compat_artifact_printed [OF k] printed_meta)
qed (auto simp: compat_message_printed [OF k] compat_task_printed [OF k])

text \<open>One event: through the conversion, protobuf and back.\<close>

lemma event_over_proto_back:
  assumes k: "json_codec_ok k" and f: "event_free ev"
    and c: "to_compat_stream_response k (StreamEvent ev) i = Inr q"
  shows "\<exists>p. to_proto_stream_response k (ok_result q) = Inr p \<and>
    read_event03 k (Inr (Some p)) = Inr (StreamEvent (event_over_proto (event_normal ev)))"
proof -
  from c obtain r where r: "to_compat_event k ev = Inr r" "q = \<lparr>ok_id = i, ok_result = r\<rparr>" by auto
  from stream_passes [OF k compat_event_printed [OF k r(1)]] obtain p where
    "to_proto_stream_response k r = Inr p" "from_proto_stream_response k (Some p) = Inr (stream03_normal r)"
    by (auto elim: passesE)
  moreover have "to_core_stream_response k \<lparr>ok_id = i, ok_result = r\<rparr> = Inr (StreamEvent (event_normal ev))"
    using stream_response_back(1) [OF k f c] r(2) by (simp del: to_core_stream_response.simps)
  ultimately show ?thesis
    using core_event_normal by (simp add: read_event03_def r(2) del: to_core_stream_response.simps)
qed

lemma conv_stream_each:
  assumes "\<And>x. x \<in> set xs \<Longrightarrow> f (h x) = Inr (g x)"
  shows "conv_stream f (map h xs) e = (map g xs, e)"
  using assms by (induction xs) auto

text \<open>
  A stream of a server of protocol 1.0 at a client that speaks 0.3: when its events can be
  converted, the client reads each of them, in order, up to what 0.3 cannot say; then it sees the
  error that ended the stream.
\<close>

lemma stream_over_grpc03:
  assumes k: "json_codec_ok k" and rf: "send_request_free r" and req: "send_request_proto k r = Inr p"
    and run: "rh_message_send_stream h (send_request_over_proto r) (grpc03_context params) s = (s', evs, x)"
    and evs: "\<And>ev. ev \<in> set evs \<Longrightarrow> ev \<noteq> None \<and> event_free (the ev) \<and> \<not> isl (to_compat_event k (the ev))"
  shows "cgt_send_message_streaming (unexpected, \<lambda>md. Inr (default_grpc_build md), h, k) r params s =
    (s', map (\<lambda>ev. StreamEvent (event_over_proto (event_normal (the ev)))) evs, map_option (grpc03_view unexpected) x)"
proof -
  let ?i = "Some (IdInt 0)"
  define c where "c ev = projr (to_compat_stream_response k (stream_response_of ev) ?i)" for ev
  define d where "d ev = projr (to_proto_stream_response k (ok_result (c ev)))" for ev
  have ev: "to_compat_stream_response k (stream_response_of ev) ?i = Inr (c ev) \<and>
      to_proto_stream_response k (ok_result (c ev)) = Inr (d ev) \<and>
      read_event03 k (Inr (Some (d ev))) = Inr (StreamEvent (event_over_proto (event_normal (the ev))))"
    if "ev \<in> set evs" for ev
  proof -
    from evs [OF that] obtain e r where e: "ev = Some e" "event_free e" "to_compat_event k e = Inr r"
      by (cases "to_compat_event k (the ev)") auto
    then have q: "to_compat_stream_response k (StreamEvent e) ?i = Inr \<lparr>ok_id = ?i, ok_result = r\<rparr>" by simp
    from event_over_proto_back [OF k e(2) q] show ?thesis
      using e by (auto simp: c_def d_def stream_response_of_def to_stream_response_def)
  qed
  obtain q where q: "from_proto_message_send_params k p = Inr q"
    "to_core_send_message_request k \<lparr>rq_id = IdInt 0, rq_params = q\<rparr> = Inr (send_request_over_proto r)"
    using send_request_over_proto_back [OF k rf req] by blast
  have "h03_message_send_stream h k \<lparr>rq_id = IdInt 0, rq_params = q\<rparr> (grpc03_context params) s = (s', map c evs, x)"
    using run conv_stream_each [of evs "\<lambda>ev. to_compat_stream_response k (stream_response_of ev) ?i" id c x] ev
    by (simp add: h03_message_send_stream_def stream_through_def q(2))
  then have "grpc03_SendStreamingMessage (\<lambda>md. Inr (default_grpc_build md)) h k p (grpc_metadata03 params) s =
      (s', map d evs, case x of None \<Rightarrow> GrpcOk () | Some y \<Rightarrow> grpc_failure03 y)"
    using conv_stream_each [of evs "\<lambda>ev. to_proto_stream_response k (ok_result ev)" c d x] ev
    by (simp add: grpc03_SendStreamingMessage_def grpc03_stream_def grpc03_context_built stream_through_def
        with_id0_def q(1))
  moreover have "conv_stream (\<lambda>p. read_event03 k (Inr (Some p))) (map d evs) None =
      (map (\<lambda>ev. StreamEvent (event_over_proto (event_normal (the ev)))) evs, None)"
    using ev by (intro conv_stream_each) simp
  ultimately show ?thesis
    by (cases x) (simp_all add: cgt_send_message_streaming_def call_grpc_stream03_def req failure_seen03)
qed

end
