(* ===== verification/Client_Auth.thy ===== *)
theory Client_Auth
  imports Compat_Grpc_Laws Proto_Utils Proto_Helpers
begin

text \<open>
  What a client adds to its calls: service parameters (\<^verbatim>\<open>client/service_parameters.py\<close>) and
  credentials (\<^verbatim>\<open>client/auth/credentials.py\<close>, \<^verbatim>\<open>client/auth/interceptor.py\<close>).
\<close>

subsection \<open>Service parameters\<close>

type_synonym service_parameters = "(string, string) dict"

text \<open>An update changes the dictionary in place; the copy that it changes is new.\<close>

definition create_service_parameters ::
  "service_parameters option \<Rightarrow> (service_parameters \<Rightarrow> service_parameters) list \<Rightarrow> service_parameters" where
  "create_service_parameters ps updates = fold (\<lambda>u p. u p) updates (list_or_nil ps)"

definition with_a2a_extensions :: "string list \<Rightarrow> service_parameters \<Rightarrow> service_parameters" where
  "with_a2a_extensions exts ps =
     (if exts = [] then ps
      else (let existing = or_empty (map_of ps HTTP_EXTENSION_HEADER);
                merged = sort (get_requested_extensions (existing # exts))
            in AList.update HTTP_EXTENSION_HEADER (py_join '','' merged) ps))"

definition find_extension_by_uri :: "agent_card \<Rightarrow> string \<Rightarrow> agent_extension option" where
  "find_extension_by_uri c uri = find (\<lambda>e. ax_uri e = uri) (cap_extensions (card_capabilities_of c))"

subsection \<open>The context of a call\<close>

text \<open>Of the state only the session is read.\<close>

record client_context =
  cx_session_id :: "string option"
  cx_service_parameters :: "service_parameters option"

definition empty_context :: client_context where
  "empty_context = \<lparr>cx_session_id = None, cx_service_parameters = None\<rparr>"

subsection \<open>Credentials\<close>

type_synonym credential_store = "(string, (string, string) dict) dict"

definition get_credentials :: "credential_store \<Rightarrow> string \<Rightarrow> client_context option \<Rightarrow> string option" where
  "get_credentials st n c =
     (case c of
        None \<Rightarrow> None
      | Some x \<Rightarrow> (case cx_session_id x of
                     None \<Rightarrow> None
                   | Some sid \<Rightarrow> map_of (list_or_nil (map_of st sid)) n))"

definition set_credentials :: "string \<Rightarrow> string \<Rightarrow> string \<Rightarrow> credential_store \<Rightarrow> credential_store" where
  "set_credentials sid n cred st = AList.update sid (AList.update n cred (list_or_nil (map_of st sid))) st"

subsection \<open>The interceptor\<close>

text \<open>The header that carries a credential of a scheme.\<close>

fun auth_header :: "string \<Rightarrow> security_scheme option \<Rightarrow> (string \<times> string) option" where
  "auth_header cred (Some (HttpAuthS s)) =
     (if lower_string (has_scheme s) = ''bearer'' then Some (''Authorization'', ''Bearer '' @ cred) else None)"
| "auth_header cred (Some (OAuth2S s)) = Some (''Authorization'', ''Bearer '' @ cred)"
| "auth_header cred (Some (OpenIdConnectS s)) = Some (''Authorization'', ''Bearer '' @ cred)"
| "auth_header cred (Some (ApiKeyS s)) =
     (if lower_string (aks_location s) = ''header'' then Some (aks_name s, cred) else None)"
| "auth_header cred x = None"

text \<open>The context and its parameters are made when a credential of a scheme of the card is found.\<close>

definition prepared :: "client_context option \<Rightarrow> client_context" where
  "prepared c = (let x = (case c of None \<Rightarrow> empty_context | Some x \<Rightarrow> x)
     in x\<lparr>cx_service_parameters := Some (list_or_nil (cx_service_parameters x))\<rparr>)"

fun try_schemes ::
  "(string \<Rightarrow> client_context option \<Rightarrow> string option) \<Rightarrow> (string, security_scheme option) dict \<Rightarrow> string list \<Rightarrow>
   client_context option \<Rightarrow> client_context option" where
  "try_schemes svc schemes [] c = c"
| "try_schemes svc schemes (n # ns) c =
     (let cred = svc n c
      in if py_truthy cred \<and> n \<in> set (map fst schemes)
         then (let x = prepared c
               in case auth_header (or_empty cred) (the (map_of schemes n)) of
                    Some (k, v) \<Rightarrow> Some (x\<lparr>cx_service_parameters :=
                        Some (AList.update k v (list_or_nil (cx_service_parameters x)))\<rparr>)
                  | None \<Rightarrow> try_schemes svc schemes ns (Some x))
         else try_schemes svc schemes ns c)"

definition auth_before ::
  "(string \<Rightarrow> client_context option \<Rightarrow> string option) \<Rightarrow> ('i, 'r, client_context option) before_args \<Rightarrow>
   exn + ('i, 'r, client_context option) before_args" where
  "auth_before svc a =
     (let c = ba_card a
      in if card_security_requirements c = [] \<or> card_security_schemes c = [] then Inr a
         else Inr (a\<lparr>ba_context := try_schemes svc (card_security_schemes c)
                (concat (map (map fst) (card_security_requirements c))) (ba_context a)\<rparr>))"

definition auth_interceptor ::
  "(string \<Rightarrow> client_context option \<Rightarrow> string option) \<Rightarrow> ('i, 'r, client_context option) interceptor" where
  "auth_interceptor svc = \<lparr>ic_before = auth_before svc, ic_after = Inr\<rparr>"

subsection \<open>Laws\<close>

lemma credentials_after_set:
  "get_credentials (set_credentials sid n cred st) m (Some c) =
     (if cx_session_id c = Some sid \<and> m = n then Some cred else get_credentials st m (Some c))"
  by (auto simp: get_credentials_def set_credentials_def split: option.split)

definition call_parameters :: "client_context option \<Rightarrow> service_parameters" where
  "call_parameters c = (case c of None \<Rightarrow> [] | Some x \<Rightarrow> list_or_nil (cx_service_parameters x))"

definition session_of :: "client_context option \<Rightarrow> string option" where
  "session_of c = (case c of None \<Rightarrow> None | Some x \<Rightarrow> cx_session_id x)"

lemma prepared_same [simp]: "call_parameters (Some (prepared c)) = call_parameters c" "session_of (Some (prepared c)) = session_of c"
  by (cases c; simp add: prepared_def call_parameters_def session_of_def empty_context_def)+

lemma credentials_by_session: "get_credentials st n c = get_credentials st n d" if "session_of c = session_of d"
  using that by (cases c; cases d) (auto simp: get_credentials_def session_of_def)

text \<open>
  At most one parameter is set: the header of a scheme of the card, with a credential of that
  scheme and of the call's session. Everything else stays.
\<close>

lemma try_schemes_adds_one:
  assumes "try_schemes (get_credentials st) schemes ns c = c'"
  shows "session_of c' = session_of c \<and>
    (call_parameters c' = call_parameters c \<or>
     (\<exists>n cred k v. n \<in> set ns \<and> n \<in> set (map fst schemes) \<and> get_credentials st n c = Some cred \<and> cred \<noteq> [] \<and>
        auth_header cred (the (map_of schemes n)) = Some (k, v) \<and>
        call_parameters c' = AList.update k v (call_parameters c)))"
  using assms
proof (induction ns arbitrary: c)
  case (Cons n ns)
  show ?case
  proof (cases "py_truthy (get_credentials st n c) \<and> n \<in> set (map fst schemes)")
    case True
    then obtain cred where cred: "get_credentials st n c = Some cred" "cred \<noteq> []"
      by (cases "get_credentials st n c") auto
    show ?thesis
    proof (cases "auth_header cred (the (map_of schemes n))")
      case None
      with Cons.prems True cred have "try_schemes (get_credentials st) schemes ns (Some (prepared c)) = c'" by (simp add: Let_def)
      from Cons.IH [OF this] show ?thesis
        using credentials_by_session [of "Some (prepared c)" c st] by (auto 4 4)
    next
      case (Some kv)
      then obtain k v where kv: "auth_header cred (the (map_of schemes n)) = Some (k, v)" by (cases kv) auto
      have "c' = Some (prepared c\<lparr>cx_service_parameters :=
          Some (AList.update k v (list_or_nil (cx_service_parameters (prepared c))))\<rparr>)"
        using Cons.prems True cred kv by (simp add: Let_def)
      moreover have "list_or_nil (cx_service_parameters (prepared c)) = call_parameters c"
        using prepared_same(1) [of c] by (simp add: call_parameters_def)
      moreover have "cx_session_id (prepared c) = session_of c"
        using prepared_same(2) [of c] by (simp add: session_of_def)
      ultimately have "session_of c' = session_of c" "call_parameters c' = AList.update k v (call_parameters c)"
        by (simp_all add: session_of_def call_parameters_def)
      with True cred kv show ?thesis by auto
    qed
  next
    case False
    with Cons.prems have "try_schemes (get_credentials st) schemes ns c = c'" by (auto simp: Let_def)
    from Cons.IH [OF this] show ?thesis by auto
  qed
qed simp

text \<open>A credential of another session has no influence.\<close>

lemma other_session_irrelevant:
  assumes "session_of c \<noteq> Some sid"
  shows "try_schemes (get_credentials (set_credentials sid n cred st)) schemes ns c = try_schemes (get_credentials st) schemes ns c"
  using assms
proof (induction ns arbitrary: c)
  case (Cons m ns)
  have "get_credentials (set_credentials sid n cred st) m c = get_credentials st m c"
    using Cons.prems by (cases c) (auto simp: credentials_after_set session_of_def, simp add: get_credentials_def)
  moreover have "session_of (Some (prepared c)) \<noteq> Some sid" using Cons.prems by simp
  ultimately show ?case using Cons.IH [OF Cons.prems] Cons.IH [of "Some (prepared c)"]
    by (simp add: Let_def split: option.split)
qed simp

subsection \<open>Extensions\<close>

lemma strip_idem [simp]: "py_strip (py_strip s) = py_strip s"
proof -
  let ?d = "dropWhile is_space"
  have idem: "?d (?d s) = ?d s" for s :: string by (induction s) auto
  have keep: "?d (rev (?d (rev t))) = rev (?d (rev t))" if "?d t = t" for t
  proof (cases "rev (?d (rev t))")
    case (Cons c cs)
    have "\<exists>zs. t = rev (?d (rev t)) @ zs"
      by (metis takeWhile_dropWhile_id rev_append rev_rev_ident)
    then obtain zs where "t = c # cs @ zs" using Cons by auto
    with that have "\<not> is_space c" by (metis dropWhile.simps(2) impossible_Cons length_dropWhile_le)
    with Cons show ?thesis by simp
  next
    case Nil
    show ?thesis unfolding Nil by simp
  qed
  show ?thesis unfolding py_strip_def using keep [of "?d s"] idem by simp
qed

lemma strip_subset: "set (py_strip s) \<subseteq> set s"
  by (auto simp: py_strip_def dest!: set_dropWhileD)

lemma split_comma_free: "x \<in> set (split_comma s) \<Longrightarrow> CHR '','' \<notin> set x"
proof (induction s arbitrary: x)
  case (Cons c s)
  then show ?case using split_comma_ne [of s] by (cases "split_comma s") (auto split: if_splits)
qed simp

lemma split_comma_id: "CHR '','' \<notin> set s \<Longrightarrow> split_comma s = [s]"
  by (induction s) auto

definition extension_text :: "string \<Rightarrow> bool" where
  "extension_text x \<longleftrightarrow> x \<noteq> [] \<and> CHR '','' \<notin> set x \<and> py_strip x = x"

lemma requested_are_texts: "list_all extension_text (get_requested_extensions vs)"
  using strip_subset
  by (fastforce simp: list_all_iff get_requested_extensions_def extension_text_def dest: split_comma_free)

lemma requested_of_text: "extension_text x \<Longrightarrow> map py_strip (split_comma x) = [x]"
  by (simp add: extension_text_def split_comma_id)

lemma split_join: "list_all extension_text xs \<Longrightarrow> filter (\<lambda>x. x \<noteq> []) (map py_strip (split_comma (py_join '','' xs))) = xs"
proof (induction "'',''::string" xs rule: py_join.induct)
  case (3 x y ys)
  have "split_comma (x @ '','' @ py_join '','' (y # ys)) = split_comma x @ split_comma (py_join '','' (y # ys))"
    using split_comma_join [of x "py_join '','' (y # ys)"] by simp
  then show ?case using 3 requested_of_text [of x] by (simp add: extension_text_def)
qed (simp_all add: py_strip_def requested_of_text extension_text_def)

text \<open>The server reads back what the client wrote.\<close>

lemma requested_round_trip:
  assumes "list_all extension_text xs" "distinct xs"
  shows "get_requested_extensions [py_join '','' xs] = xs"
  using split_join [OF assms(1)] assms(2) by (simp add: get_requested_extensions_def)

lemma requested_set: "set (get_requested_extensions (v # vs)) = set (get_requested_extensions [v]) \<union> set (get_requested_extensions vs)"
  by (auto simp: get_requested_extensions_def)

definition header_extensions :: "service_parameters \<Rightarrow> string list" where
  "header_extensions ps = get_requested_extensions [or_empty (map_of ps HTTP_EXTENSION_HEADER)]"

lemma with_extensions_read:
  "set (header_extensions (with_a2a_extensions exts ps)) = set (header_extensions ps) \<union> set (get_requested_extensions exts)"
proof (cases "exts = []")
  case True
  then show ?thesis by (simp add: with_a2a_extensions_def get_requested_extensions_def)
next
  case False
  let ?m = "sort (get_requested_extensions (or_empty (map_of ps HTTP_EXTENSION_HEADER) # exts))"
  have "list_all extension_text ?m" using requested_are_texts by (simp add: list_all_iff)
  moreover have "distinct ?m" by (simp add: get_requested_extensions_def)
  ultimately have "get_requested_extensions [py_join '','' ?m] = ?m" by (rule requested_round_trip)
  with False show ?thesis
    using requested_set [of "or_empty (map_of ps HTTP_EXTENSION_HEADER)" exts]
    by (simp add: header_extensions_def with_a2a_extensions_def Let_def)
qed

end
