(* ===== verification/Card_Resolver.thy ===== *)
theory Card_Resolver
  imports Compat_Rest_Laws
begin

text \<open>
  Fetching a card (\<^verbatim>\<open>client/card_resolver.py\<close>): the URL, the keys of older cards turned into those of
  1.0, and the errors. What \<^verbatim>\<open>httpx\<close> answers, \<^verbatim>\<open>ParseDict\<close> and the verifier are parameters.
\<close>

subsection \<open>Values where the code expects an object or a list\<close>

datatype card_failure =
    HttpStatus int | BadJson | NetworkError | BadStructure | WrongShape | VerifierRaised exn

definition iter_json :: "json \<Rightarrow> card_failure + json list" where
  "iter_json v =
     (case v of
        JArr xs \<Rightarrow> Inr xs
      | JObj d \<Rightarrow> Inr (map (\<lambda>e. JStr (fst e)) d)
      | JStr s \<Rightarrow> Inr (map (\<lambda>c. JStr [c]) s)
      | _ \<Rightarrow> Inl WrongShape)"

definition as_object :: "json \<Rightarrow> card_failure + struct" where
  "as_object v = (case v of JObj d \<Rightarrow> Inr d | _ \<Rightarrow> Inl WrongShape)"

text \<open>\<^verbatim>\<open>k in v\<close>\<close>

fun text_within :: "ustr \<Rightarrow> ustr \<Rightarrow> bool" where
  "text_within k [] \<longleftrightarrow> k = []"
| "text_within k (c # s) \<longleftrightarrow> take (length k) (c # s) = k \<or> text_within k s"

definition key_in :: "ustr \<Rightarrow> json \<Rightarrow> card_failure + bool" where
  "key_in k v =
     (case v of
        JObj d \<Rightarrow> Inr (k \<in> set (map fst d))
      | JArr xs \<Rightarrow> Inr (JStr k \<in> set xs)
      | JStr s \<Rightarrow> Inr (text_within k s)
      | _ \<Rightarrow> Inl WrongShape)"

definition has_key :: "string \<Rightarrow> struct \<Rightarrow> bool" where
  "has_key k d \<longleftrightarrow> to_ustr k \<in> set (map fst d)"

text \<open>\<^verbatim>\<open>pop(k, default)\<close>: the value and what is left.\<close>

definition pop :: "string \<Rightarrow> json \<Rightarrow> struct \<Rightarrow> json \<times> struct" where
  "pop k def d = (case map_of d (to_ustr k) of None \<Rightarrow> def | Some v \<Rightarrow> v, AList.delete (to_ustr k) d)"

definition put :: "string \<Rightarrow> json \<Rightarrow> struct \<Rightarrow> struct" where
  "put k v d = AList.update (to_ustr k) v d"

definition get_or_null :: "string \<Rightarrow> struct \<Rightarrow> json" where
  "get_or_null k d = (case map_of d (to_ustr k) of None \<Rightarrow> JNull | Some v \<Rightarrow> v)"

subsection \<open>Older cards\<close>

definition handle_extended_card_compatibility :: "struct \<Rightarrow> card_failure + struct" where
  "handle_extended_card_compatibility d0 =
     (let (flag, d) = pop ''supportsAuthenticatedExtendedCard'' JNull d0
      in if json_truthy flag
         then (let cap = (case map_of d (to_ustr ''capabilities'') of None \<Rightarrow> JObj [] | Some v \<Rightarrow> v);
                   d1 = (if has_key ''capabilities'' d then d else put ''capabilities'' cap d)
               in rbind (key_in (to_ustr ''extendedAgentCard'') cap) (\<lambda>present.
                    if present then Inr d1
                    else rbind (as_object cap) (\<lambda>c.
                      Inr (put ''capabilities'' (JObj (put ''extendedAgentCard'' (JBool True) c)) d1))))
         else Inr d)"

definition interface_entry :: "json \<Rightarrow> json \<Rightarrow> json \<Rightarrow> json" where
  "interface_entry url transport version = JObj [(to_ustr ''url'', url), (to_ustr ''protocolBinding'', transport),
     (to_ustr ''protocolVersion'', version)]"

definition handle_connection_fields_compatibility :: "struct \<Rightarrow> card_failure + struct" where
  "handle_connection_fields_compatibility d0 =
     (let (main_url, d1) = pop ''url'' JNull d0;
          (main_transport, d2) = pop ''preferredTransport'' (JStr (to_ustr ''JSONRPC'')) d1;
          (version, d3) = pop ''protocolVersion'' (JStr (to_ustr ''0.3.0'')) d2;
          (others, d) = pop ''additionalInterfaces'' JNull d3
      in if \<not> has_key ''supportedInterfaces'' d \<and> json_truthy main_url
         then rbind (if json_truthy others then iter_json others else Inr []) (\<lambda>ifaces.
              rbind (rmap_list as_object ifaces) (\<lambda>ds.
                Inr (put ''supportedInterfaces'' (JArr (interface_entry main_url main_transport version #
                  map (\<lambda>i. interface_entry (get_or_null ''url'' i) (get_or_null ''transport'' i) version) ds)) d)))
         else Inr d)"

definition map_legacy_security :: "json \<Rightarrow> card_failure + json" where
  "map_legacy_security secs =
     rbind (iter_json secs) (\<lambda>xs. rbind (rmap_list as_object xs) (\<lambda>ds.
       Inr (JArr (map (\<lambda>d. JObj [(to_ustr ''schemes'',
         JObj (map (\<lambda>(n, scopes). (n, JObj [(to_ustr ''list'', scopes)])) d))]) ds))))"

text \<open>The same step for the card and for each skill.\<close>

definition handle_security :: "struct \<Rightarrow> card_failure + struct" where
  "handle_security d0 =
     (let (legacy, d) = pop ''security'' JNull d0
      in if \<not> has_key ''securityRequirements'' d \<and> legacy \<noteq> JNull
         then rbind (map_legacy_security legacy) (\<lambda>r. Inr (put ''securityRequirements'' r d))
         else Inr d)"

definition handle_skills :: "struct \<Rightarrow> card_failure + struct" where
  "handle_skills d =
     (case map_of d (to_ustr ''skills'') of
        None \<Rightarrow> Inr d
      | Some v \<Rightarrow>
          rbind (iter_json v) (\<lambda>xs. rbind (rmap_list as_object xs) (\<lambda>ss.
          rbind (rmap_list handle_security ss) (\<lambda>ts.
            Inr (case v of JArr _ \<Rightarrow> put ''skills'' (JArr (map JObj ts)) d | _ \<Rightarrow> d)))))"

definition type_mapping :: "(ustr \<times> string) list" where
  "type_mapping = [(to_ustr ''apiKey'', ''apiKeySecurityScheme''), (to_ustr ''http'', ''httpAuthSecurityScheme''),
     (to_ustr ''oauth2'', ''oauth2SecurityScheme''), (to_ustr ''openIdConnect'', ''openIdConnectSecurityScheme''),
     (to_ustr ''mutualTLS'', ''mtlsSecurityScheme'')]"

definition handle_scheme :: "json \<Rightarrow> card_failure + json" where
  "handle_scheme v =
     rbind (as_object v) (\<lambda>s0.
       let (ty, s) = pop ''type'' JNull s0
       in case ty of
            JArr _ \<Rightarrow> Inl WrongShape
          | JObj _ \<Rightarrow> Inl WrongShape
          | JStr t \<Rightarrow>
              (case map_of type_mapping t of
                 None \<Rightarrow> Inr (JObj s)
               | Some name \<Rightarrow>
                   Inr (JObj [(to_ustr name, JObj (if t = to_ustr ''apiKey'' \<and> has_key ''in'' s
                     then (let (l, s') = pop ''in'' JNull s in put ''location'' l s') else s))]))
          | _ \<Rightarrow> Inr (JObj s))"

definition handle_schemes :: "struct \<Rightarrow> card_failure + struct" where
  "handle_schemes d =
     (let v = get_or_null ''securitySchemes'' d
      in if json_truthy v
         then rbind (as_object v) (\<lambda>m.
              rbind (rmap_list (\<lambda>e. rbind (handle_scheme (snd e)) (\<lambda>w. Inr (fst e, w))) m) (\<lambda>m'.
                Inr (put ''securitySchemes'' (JObj m') d)))
         else Inr d)"

definition handle_security_compatibility :: "struct \<Rightarrow> card_failure + struct" where
  "handle_security_compatibility d = rbind (handle_security d) (\<lambda>d1. rbind (handle_skills d1) handle_schemes)"

definition upgrade_card :: "struct \<Rightarrow> card_failure + struct" where
  "upgrade_card d = rbind (handle_extended_card_compatibility d) (\<lambda>d1.
     rbind (handle_connection_fields_compatibility d1) handle_security_compatibility)"

definition parse_agent_card :: "(struct \<Rightarrow> card_failure + agent_card) \<Rightarrow> struct \<Rightarrow> card_failure + agent_card" where
  "parse_agent_card parse_dict d = rbind (upgrade_card d) parse_dict"

subsection \<open>The resolver\<close>

definition strip_slashes_left :: "string \<Rightarrow> string" where
  "strip_slashes_left s = dropWhile (\<lambda>c. c = CHR ''/'') s"

definition strip_slashes_right :: "string \<Rightarrow> string" where
  "strip_slashes_right s = rev (strip_slashes_left (rev s))"

record card_resolver =
  cr_base_url :: string
  cr_agent_card_path :: string

definition make_resolver :: "string \<Rightarrow> string \<Rightarrow> card_resolver" where
  "make_resolver base path = \<lparr>cr_base_url = strip_slashes_right base, cr_agent_card_path = strip_slashes_left path\<rparr>"

definition card_url :: "card_resolver \<Rightarrow> string option \<Rightarrow> string" where
  "card_url r relative =
     (let seg = (if py_truthy relative then strip_slashes_left (or_empty relative) else cr_agent_card_path r)
      in if seg \<noteq> [] then cr_base_url r @ ''/'' @ seg else cr_base_url r)"

datatype resolve_error = AgentCardResolutionError string "int option" | Propagated card_failure

text \<open>\<open>text\<close> is the text of the exception.\<close>

fun resolve_error_of :: "(card_failure \<Rightarrow> string) \<Rightarrow> string \<Rightarrow> card_failure \<Rightarrow> resolve_error" where
  "resolve_error_of text url (HttpStatus code) = AgentCardResolutionError
     (''Failed to fetch agent card from '' @ url @ '' (HTTP '' @ int_str code @ ''): '' @ text (HttpStatus code)) (Some code)"
| "resolve_error_of text url BadJson =
     AgentCardResolutionError (''Failed to parse JSON for agent card from '' @ url @ '': '' @ text BadJson) None"
| "resolve_error_of text url NetworkError =
     AgentCardResolutionError (''Network communication error fetching agent card from '' @ url @ '': '' @ text NetworkError) None"
| "resolve_error_of text url BadStructure =
     AgentCardResolutionError (''Failed to validate agent card structure from '' @ url @ '': '' @ text BadStructure) None"
| "resolve_error_of text url e = Propagated e"

definition get_agent_card ::
  "(card_failure \<Rightarrow> string) \<Rightarrow> (string \<Rightarrow> card_failure + json) \<Rightarrow> (struct \<Rightarrow> card_failure + agent_card) \<Rightarrow>
   (agent_card \<Rightarrow> exn + unit) option \<Rightarrow> card_resolver \<Rightarrow> string option \<Rightarrow> resolve_error + agent_card" where
  "get_agent_card text fetch parse_dict verifier r relative =
     (let url = card_url r relative
      in case rbind (fetch url) (\<lambda>j. rbind (as_object j) (\<lambda>d. rbind (parse_agent_card parse_dict d) (\<lambda>c.
             case verifier of
               None \<Rightarrow> Inr c
             | Some v \<Rightarrow> (case v c of Inl e \<Rightarrow> Inl (VerifierRaised e) | Inr _ \<Rightarrow> Inr c)))) of
           Inl e \<Rightarrow> Inl (resolve_error_of text url e)
         | Inr c \<Rightarrow> Inr c)"

subsection \<open>Laws\<close>

lemma update_same: "map_of d k = Some v \<Longrightarrow> AList.update k v d = d"
  by (induction d) auto

lemma has_key_put [simp]: "has_key k (put k' v d) \<longleftrightarrow> k = k' \<or> has_key k d"
  by (auto simp: has_key_def put_def update_keys)

lemma has_key_pop [simp]: "has_key k (snd (pop k' def d)) \<longleftrightarrow> k \<noteq> k' \<and> has_key k d"
  by (auto simp: has_key_def pop_def delete_keys)

lemma map_of_put [simp]: "map_of (put k v d) (to_ustr k') = (if k' = k then Some v else map_of d (to_ustr k'))"
  by (simp add: put_def)

lemma fst_pop [simp]: "fst (pop k def d) = (case map_of d (to_ustr k) of None \<Rightarrow> def | Some v \<Rightarrow> v)"
  by (simp add: pop_def)

lemma map_of_pop [simp]: "map_of (snd (pop k def d)) (to_ustr k') = (if k' = k then None else map_of d (to_ustr k'))"
  by (simp add: pop_def)

text \<open>A card without any of the older keys.\<close>

definition legacy_keys :: "string list" where
  "legacy_keys = [''supportsAuthenticatedExtendedCard'', ''url'', ''preferredTransport'', ''protocolVersion'',
     ''additionalInterfaces'', ''security'']"

definition current_skills :: "json \<Rightarrow> bool" where
  "current_skills v \<longleftrightarrow>
     (case v of
        JArr xs \<Rightarrow> list_all (\<lambda>s. case s of JObj d \<Rightarrow> \<not> has_key ''security'' d | _ \<Rightarrow> False) xs
      | JObj d \<Rightarrow> d = []
      | JStr s \<Rightarrow> s = []
      | _ \<Rightarrow> False)"

definition current_schemes :: "json \<Rightarrow> bool" where
  "current_schemes v \<longleftrightarrow> \<not> json_truthy v \<or>
     (case v of
        JObj m \<Rightarrow> list_all (\<lambda>e. case snd e of JObj s \<Rightarrow> \<not> has_key ''type'' s | _ \<Rightarrow> False) m
      | _ \<Rightarrow> False)"

definition current_card :: "struct \<Rightarrow> bool" where
  "current_card d \<longleftrightarrow> list_all (\<lambda>k. \<not> has_key k d) legacy_keys \<and>
     pred_option current_skills (map_of d (to_ustr ''skills'')) \<and> current_schemes (get_or_null ''securitySchemes'' d)"

lemma pop_absent: "\<not> has_key k d \<Longrightarrow> pop k def d = (def, d)"
  by (simp add: pop_def has_key_def delete_id map_of_eq_None_iff [THEN iffD2])

lemma handle_security_id: "\<not> has_key ''security'' d \<Longrightarrow> handle_security d = Inr d"
  by (simp add: handle_security_def pop_absent)

lemma objects_back: "list_all (\<lambda>s. case s of JObj d \<Rightarrow> P d | _ \<Rightarrow> False) xs \<Longrightarrow>
    \<exists>ds. xs = map JObj ds \<and> list_all P ds"
proof (induction xs)
  case (Cons x xs)
  then obtain ds where "xs = map JObj ds" "list_all P ds" by auto
  with Cons.prems show ?case by (intro exI [of _ "(case x of JObj d \<Rightarrow> d | _ \<Rightarrow> []) # ds"]) (auto split: json.splits)
qed simp

lemma rmap_objects: "rmap_list as_object (map JObj ds) = Inr ds"
  by (induction ds) (simp_all add: as_object_def)

lemma handle_skills_id:
  assumes "pred_option current_skills (map_of d (to_ustr ''skills''))"
  shows "handle_skills d = Inr d"
proof (cases "map_of d (to_ustr ''skills'')")
  case (Some v)
  with assms have v: "current_skills v" by simp
  show ?thesis
  proof (cases v)
    case (JArr xs)
    with v obtain ds where ds: "xs = map JObj ds" "list_all (\<lambda>d. \<not> has_key ''security'' d) ds"
      using objects_back [of "\<lambda>d. \<not> has_key ''security'' d" xs] by (auto simp: current_skills_def)
    have "rmap_list handle_security ds = Inr ds"
      using ds(2) by (induction ds) (simp_all add: handle_security_id)
    with Some JArr ds(1) show ?thesis by (simp add: handle_skills_def iter_json_def rmap_objects put_def update_same)
  qed (use v Some in \<open>simp_all add: current_skills_def handle_skills_def iter_json_def\<close>)
qed (simp add: handle_skills_def)

lemma handle_scheme_id: "\<not> has_key ''type'' s \<Longrightarrow> handle_scheme (JObj s) = Inr (JObj s)"
  by (simp add: handle_scheme_def as_object_def pop_absent)

lemma handle_schemes_id:
  assumes "current_schemes (get_or_null ''securitySchemes'' d)"
  shows "handle_schemes d = Inr d"
proof (cases "json_truthy (get_or_null ''securitySchemes'' d)")
  case True
  with assms obtain m where m: "get_or_null ''securitySchemes'' d = JObj m"
    and ok: "list_all (\<lambda>e. case snd e of JObj s \<Rightarrow> \<not> has_key ''type'' s | _ \<Rightarrow> False) m"
    by (auto simp: current_schemes_def split: json.splits)
  have "rmap_list (\<lambda>e. rbind (handle_scheme (snd e)) (\<lambda>w. Inr (fst e, w))) m = Inr m"
    using ok by (induction m) (auto simp: handle_scheme_id split: json.splits)
  moreover have "map_of d (to_ustr ''securitySchemes'') = Some (JObj m)"
    using m True by (auto simp: get_or_null_def split: option.splits)
  ultimately show ?thesis using True by (simp add: handle_schemes_def m as_object_def put_def update_same)
qed (simp add: handle_schemes_def)

text \<open>A card of 1.0 is left as it is.\<close>

lemma current_card_unchanged:
  assumes "current_card d"
  shows "upgrade_card d = Inr d"
proof -
  have keys: "\<not> has_key ''supportsAuthenticatedExtendedCard'' d" "\<not> has_key ''url'' d" "\<not> has_key ''preferredTransport'' d"
    "\<not> has_key ''protocolVersion'' d" "\<not> has_key ''additionalInterfaces'' d" "\<not> has_key ''security'' d"
    using assms by (simp_all add: current_card_def legacy_keys_def)
  have "handle_extended_card_compatibility d = Inr d"
    by (simp add: handle_extended_card_compatibility_def pop_absent [OF keys(1)])
  moreover have "handle_connection_fields_compatibility d = Inr d"
    by (simp add: handle_connection_fields_compatibility_def pop_absent [OF keys(2)] pop_absent [OF keys(3)]
        pop_absent [OF keys(4)] pop_absent [OF keys(5)])
  ultimately show ?thesis
    using assms
    by (simp add: upgrade_card_def handle_security_compatibility_def handle_security_id [OF keys(6)]
        handle_skills_id handle_schemes_id current_card_def)
qed

text \<open>What each step leaves alone.\<close>

definition same_but :: "string list \<Rightarrow> struct \<Rightarrow> struct \<Rightarrow> bool" where
  "same_but ks d e \<longleftrightarrow> (\<forall>k. k \<notin> set ks \<longrightarrow> has_key k e = has_key k d \<and> map_of e (to_ustr k) = map_of d (to_ustr k))"

lemma same_butD:
  "same_but ks d e \<Longrightarrow> k \<notin> set ks \<Longrightarrow> has_key k e = has_key k d"
  "same_but ks d e \<Longrightarrow> k \<notin> set ks \<Longrightarrow> map_of e (to_ustr k) = map_of d (to_ustr k)"
  by (simp_all add: same_but_def)

lemma extended_card_step:
  "handle_extended_card_compatibility d = Inr e \<Longrightarrow>
   \<not> has_key ''supportsAuthenticatedExtendedCard'' e \<and> same_but [''supportsAuthenticatedExtendedCard'', ''capabilities''] d e"
  by (auto simp: handle_extended_card_compatibility_def Let_def split_def same_but_def split: if_splits)

lemma connection_step:
  "handle_connection_fields_compatibility d = Inr e \<Longrightarrow>
   \<not> has_key ''url'' e \<and> \<not> has_key ''preferredTransport'' e \<and> \<not> has_key ''protocolVersion'' e \<and>
   \<not> has_key ''additionalInterfaces'' e \<and>
   same_but [''url'', ''preferredTransport'', ''protocolVersion'', ''additionalInterfaces'', ''supportedInterfaces''] d e"
  by (auto simp: handle_connection_fields_compatibility_def Let_def split_def same_but_def split: if_splits)

lemma security_step:
  "handle_security d = Inr e \<Longrightarrow> \<not> has_key ''security'' e \<and> same_but [''security'', ''securityRequirements''] d e"
  by (auto simp: handle_security_def Let_def split_def same_but_def split: if_splits)

lemma skills_step:
  assumes "handle_skills d = Inr e"
  shows "same_but [''skills''] d e \<and> pred_option current_skills (map_of e (to_ustr ''skills''))"
proof (cases "map_of d (to_ustr ''skills'')")
  case None
  with assms show ?thesis by (simp add: handle_skills_def same_but_def)
next
  case (Some v)
  with assms obtain xs ss ts where xs: "iter_json v = Inr xs" and ss: "rmap_list as_object xs = Inr ss"
    and ts: "rmap_list handle_security ss = Inr ts"
    and e: "e = (case v of JArr _ \<Rightarrow> put ''skills'' (JArr (map JObj ts)) d | _ \<Rightarrow> d)"
    by (auto simp: handle_skills_def)
  have "list_all (\<lambda>d. \<not> has_key ''security'' d) ts"
    using ts by (rule rmap_list_all) (simp add: security_step)
  moreover have "(\<exists>ys. v = JArr ys) \<or> (v = JObj [] \<or> v = JStr [])"
  proof (cases v)
    case (JObj f)
    with xs ss show ?thesis by (cases f) (auto simp: iter_json_def as_object_def)
  next
    case (JStr f)
    with xs ss show ?thesis by (cases f) (auto simp: iter_json_def as_object_def)
  qed (use xs in \<open>simp_all add: iter_json_def\<close>)
  ultimately show ?thesis
    using e Some by (auto simp: same_but_def current_skills_def list_all_length)
qed

lemma scheme_step: "handle_scheme v = Inr w \<Longrightarrow> \<exists>s. w = JObj s \<and> \<not> has_key ''type'' s"
proof -
  assume h: "handle_scheme v = Inr w"
  have names: "map_of type_mapping t = Some n \<Longrightarrow> n \<noteq> ''type''" for t n
    using map_of_SomeD [of type_mapping t n] by (auto simp: type_mapping_def)
  have one: "has_key ''type'' [(to_ustr n, x)] \<longleftrightarrow> n = ''type''" for n x by (auto simp: has_key_def)
  from h obtain s0 where "as_object v = Inr s0" by (auto simp: handle_scheme_def)
  with h names one show ?thesis
    by (cases "fst (pop ''type'' JNull s0)")
      (auto simp: handle_scheme_def Let_def split_def split: option.splits if_splits)
qed

lemma schemes_step:
  assumes "handle_schemes d = Inr e"
  shows "same_but [''securitySchemes''] d e \<and> current_schemes (get_or_null ''securitySchemes'' e)"
proof (cases "json_truthy (get_or_null ''securitySchemes'' d)")
  case False
  with assms show ?thesis by (simp add: handle_schemes_def same_but_def current_schemes_def)
next
  case True
  with assms obtain m m' where m: "rmap_list (\<lambda>e. rbind (handle_scheme (snd e)) (\<lambda>w. Inr (fst e, w))) m = Inr m'"
    and e: "e = put ''securitySchemes'' (JObj m') d"
    by (auto simp: handle_schemes_def)
  have "list_all (\<lambda>e. case snd e of JObj s \<Rightarrow> \<not> has_key ''type'' s | _ \<Rightarrow> False) m'"
    using m by (rule rmap_list_all) (auto dest!: scheme_step)
  with e show ?thesis by (simp add: same_but_def current_schemes_def get_or_null_def)
qed

text \<open>What the upgrade returns is a card of 1.0, and upgrading it again changes nothing.\<close>

lemma upgraded_is_current:
  assumes "upgrade_card d = Inr e"
  shows "current_card e"
proof -
  from assms obtain d1 d2 d3 d4 where steps:
    "handle_extended_card_compatibility d = Inr d1" "handle_connection_fields_compatibility d1 = Inr d2"
    "handle_security d2 = Inr d3" "handle_skills d3 = Inr d4" "handle_schemes d4 = Inr e"
    by (auto simp: upgrade_card_def handle_security_compatibility_def)
  note s1 = extended_card_step [OF steps(1)] and s2 = connection_step [OF steps(2)] and s3 = security_step [OF steps(3)]
    and s4 = skills_step [OF steps(4)] and s5 = schemes_step [OF steps(5)]
  have e3: "has_key k e = has_key k d3" if "k \<notin> {''skills'', ''securitySchemes''}" for k
    using same_butD(1) [OF conjunct1 [OF s4], of k] same_butD(1) [OF conjunct1 [OF s5], of k] that by simp
  have e2: "has_key k e = has_key k d2" if "k \<notin> {''skills'', ''securitySchemes'', ''security'', ''securityRequirements''}" for k
    using e3 [of k] same_butD(1) [OF conjunct2 [OF s3], of k] that by simp
  have "has_key ''supportsAuthenticatedExtendedCard'' d2 = has_key ''supportsAuthenticatedExtendedCard'' d1"
    using s2 same_butD(1) [of _ d1 d2 "''supportsAuthenticatedExtendedCard''"] by fastforce
  then have "\<not> has_key ''supportsAuthenticatedExtendedCard'' e" using s1 e2 by simp
  moreover have "\<not> has_key ''url'' e" "\<not> has_key ''preferredTransport'' e" "\<not> has_key ''protocolVersion'' e"
    "\<not> has_key ''additionalInterfaces'' e" using s2 by (simp_all add: e2)
  moreover have "\<not> has_key ''security'' e" using s3 by (simp add: e3)
  ultimately have "list_all (\<lambda>k. \<not> has_key k e) legacy_keys" by (simp add: legacy_keys_def)
  moreover have "map_of e (to_ustr ''skills'') = map_of d4 (to_ustr ''skills'')"
    by (rule same_butD(2) [OF conjunct1 [OF s5]]) simp
  ultimately show ?thesis using s4 s5 by (simp add: current_card_def)
qed

text \<open>The interfaces of an older card: the main one first.\<close>

lemma legacy_interfaces:
  assumes "map_of d (to_ustr ''url'') = Some url" "json_truthy url" "\<not> has_key ''supportedInterfaces'' d"
    and "get_or_null ''additionalInterfaces'' d = JArr (map JObj ds)" and "upgrade_card d = Inr e"
  shows "map_of e (to_ustr ''supportedInterfaces'') =
    (let v = (case map_of d (to_ustr ''protocolVersion'') of None \<Rightarrow> JStr (to_ustr ''0.3.0'') | Some x \<Rightarrow> x);
         t = (case map_of d (to_ustr ''preferredTransport'') of None \<Rightarrow> JStr (to_ustr ''JSONRPC'') | Some x \<Rightarrow> x)
     in Some (JArr (interface_entry url t v #
          map (\<lambda>i. interface_entry (get_or_null ''url'' i) (get_or_null ''transport'' i) v) ds)))"
proof -
  from assms(5) obtain d1 d2 d3 d4 where steps:
    "handle_extended_card_compatibility d = Inr d1" "handle_connection_fields_compatibility d1 = Inr d2"
    "handle_security d2 = Inr d3" "handle_skills d3 = Inr d4" "handle_schemes d4 = Inr e"
    by (auto simp: upgrade_card_def handle_security_compatibility_def)
  have same: "has_key k d1 = has_key k d" "map_of d1 (to_ustr k) = map_of d (to_ustr k)"
    if "k \<notin> {''supportsAuthenticatedExtendedCard'', ''capabilities''}" for k
    using same_butD [OF conjunct2 [OF extended_card_step [OF steps(1)]], of k] that by simp_all
  have late: "map_of e (to_ustr ''supportedInterfaces'') = map_of d2 (to_ustr ''supportedInterfaces'')"
    using same_butD(2) [OF conjunct2 [OF security_step [OF steps(3)]], of "''supportedInterfaces''"]
      same_butD(2) [OF conjunct1 [OF skills_step [OF steps(4)]], of "''supportedInterfaces''"]
      same_butD(2) [OF conjunct1 [OF schemes_step [OF steps(5)]], of "''supportedInterfaces''"] by simp
  have others: "(case map_of d (to_ustr ''additionalInterfaces'') of None \<Rightarrow> JNull | Some v \<Rightarrow> v) = JArr (map JObj ds)"
    using assms(4) by (simp add: get_or_null_def)
  show ?thesis unfolding late
    by (cases "ds = []")
      (use steps(2) in \<open>auto simp: handle_connection_fields_compatibility_def split_def same assms(1-3) others Let_def
        iter_json_def rmap_objects\<close>)
qed

end
