(* ===== verification/Client_Calls.thy ===== *)
theory Client_Calls
  imports Client_Rpc
begin

text \<open>
  The calls of the client: over JSON-RPC (\<^verbatim>\<open>client/transports/jsonrpc.py\<close>), through the interface of a
  transport (\<^verbatim>\<open>client/transports/base.py\<close>) with the decorator that adds a tenant
  (\<^verbatim>\<open>client/transports/tenant_decorator.py\<close>), and those of the client itself
  (\<^verbatim>\<open>client/base_client.py\<close>).
\<close>

subsection \<open>Calls over JSON-RPC\<close>

text \<open>
  The two ends of a connection: the server with its libraries, and at the client what
  \<^verbatim>\<open>MessageToDict\<close> prints and \<^verbatim>\<open>ParseDict\<close> parses.
\<close>

record ('v, 's) rpc_link =
  rl_lib :: "'v version_lib"
  rl_handler :: "'s request_handler"
  rl_codec :: rpc_codec
  rl_v03 :: "compat03 option"
  rl_user :: "string option"
  rl_wire :: wire
  rl_print :: "rpc_request_msg \<Rightarrow> json"
  rl_task :: "json \<Rightarrow> task option"
  rl_send :: "json \<Rightarrow> send_response option"
  rl_list :: "json \<Rightarrow> list_tasks_response option"
  rl_config :: "json \<Rightarrow> push_config option"
  rl_configs :: "json \<Rightarrow> list_push_configs_response option"
  rl_card :: "json \<Rightarrow> agent_card option"

definition rpc_exchange ::
  "('v, 's) rpc_link \<Rightarrow> string \<Rightarrow> rpc_request_msg \<Rightarrow> json \<Rightarrow> 's \<Rightarrow> 's \<times> (json response + result03 response)" where
  "rpc_exchange l m q rid s =
     handle_requests (rl_lib l) (rl_handler l) (rl_codec l) (rl_v03 l) (\<lambda>r. Inr (default_build r))
       (send_request m (rl_print l q) rid [(''a2a-version'', ''1.0'')] (rl_user l)) s"

definition rpc_unary ::
  "('v, 's) rpc_link \<Rightarrow> string \<Rightarrow> rpc_request_msg \<Rightarrow> (json \<Rightarrow> 'a option) \<Rightarrow> json \<Rightarrow> 's \<Rightarrow> 's \<times> (client_error + 'a)" where
  "rpc_unary l m q parse rid s =
     (case rpc_exchange l m q rid s of
        (s', Inl resp) \<Rightarrow> (s', read_reply (wr_error_text (rl_wire l)) parse resp)
      | (s', Inr resp) \<Rightarrow> (s', Inl (ClientError ''parse error'')))"

text \<open>An answer that is no stream is read as its only event.\<close>

fun stream_events :: "wire \<Rightarrow> json response \<Rightarrow> stream_response list \<times> client_error option" where
  "stream_events w (EventStream items) =
     read_stream w (parse_sse ''message'' [] (concat (map sse_lines (response_events w items))))"
| "stream_events w (JsonResponse r) = read_stream w [(''message'', wr_text w r)]"
| "stream_events w (HttpRaised n) = ([], Some (ClientError ''HTTP Error''))"
| "stream_events w (ServerRaised e) = ([], Some (ClientError ''HTTP Error''))"

definition rpc_streaming ::
  "('v, 's) rpc_link \<Rightarrow> string \<Rightarrow> rpc_request_msg \<Rightarrow> json \<Rightarrow> 's \<Rightarrow> 's \<times> stream_response list \<times> client_error option" where
  "rpc_streaming l m q rid s =
     (case rpc_exchange l m q rid s of
        (s', Inl resp) \<Rightarrow> (s', stream_events (rl_wire l) resp)
      | (s', Inr resp) \<Rightarrow> (s', [], Some (ClientError ''parse error'')))"

definition jr_send_message where
  "jr_send_message l r = rpc_unary l ''SendMessage'' (SendReq r) (rl_send l)"

definition jr_send_message_streaming where
  "jr_send_message_streaming l r = rpc_streaming l ''SendStreamingMessage'' (SendReq r)"

definition jr_get_task where
  "jr_get_task l r = rpc_unary l ''GetTask'' (GetReq r) (rl_task l)"

definition jr_list_tasks where
  "jr_list_tasks l r = rpc_unary l ''ListTasks'' (ListReq r) (rl_list l)"

definition jr_cancel_task where
  "jr_cancel_task l r = rpc_unary l ''CancelTask'' (CancelReq r) (rl_task l)"

definition jr_create_push_config where
  "jr_create_push_config l r = rpc_unary l ''CreateTaskPushNotificationConfig'' (CreatePushReq r) (rl_config l)"

definition jr_get_push_config where
  "jr_get_push_config l r = rpc_unary l ''GetTaskPushNotificationConfig'' (GetPushReq r) (rl_config l)"

definition jr_list_push_configs where
  "jr_list_push_configs l r = rpc_unary l ''ListTaskPushNotificationConfigs'' (ListPushReq r) (rl_configs l)"

definition jr_delete_push_config where
  "jr_delete_push_config l r = rpc_unary l ''DeleteTaskPushNotificationConfig'' (DeletePushReq r) (\<lambda>j. Some ())"

definition jr_subscribe where
  "jr_subscribe l r = rpc_streaming l ''SubscribeToTask'' (SubscribeReq r)"

text \<open>A result that is no object is refused; the texts of the errors of parsing are not told apart.\<close>

definition jr_get_extended_agent_card ::
  "('v, 's) rpc_link \<Rightarrow> agent_card \<Rightarrow> string \<Rightarrow> json \<Rightarrow> 's \<Rightarrow> 's \<times> (client_error + agent_card)" where
  "jr_get_extended_agent_card l own tenant rid s =
     (if cap_extended_agent_card (card_capabilities_of own) \<noteq> Some True then (s, Inr own)
      else rpc_unary l ''GetExtendedAgentCard'' (CardReq tenant)
             (\<lambda>j. case j of JObj d \<Rightarrow> rl_card l j | _ \<Rightarrow> None) rid s)"

subsection \<open>Transports and tenants\<close>

record ('s, 'c) client_transport =
  tp_send_message :: "send_message_request \<Rightarrow> 'c \<Rightarrow> (send_response, 's) call"
  tp_send_message_streaming :: "send_message_request \<Rightarrow> 'c \<Rightarrow> (stream_response, 's) stream_call"
  tp_get_task :: "get_task_request \<Rightarrow> 'c \<Rightarrow> (task, 's) call"
  tp_list_tasks :: "list_tasks_request \<Rightarrow> 'c \<Rightarrow> (list_tasks_response, 's) call"
  tp_cancel_task :: "cancel_task_request \<Rightarrow> 'c \<Rightarrow> (task, 's) call"
  tp_create_push_config :: "push_config \<Rightarrow> 'c \<Rightarrow> (push_config, 's) call"
  tp_get_push_config :: "get_push_config_request \<Rightarrow> 'c \<Rightarrow> (push_config, 's) call"
  tp_list_push_configs :: "list_push_configs_request \<Rightarrow> 'c \<Rightarrow> (list_push_configs_response, 's) call"
  tp_delete_push_config :: "delete_push_config_request \<Rightarrow> 'c \<Rightarrow> (unit, 's) call"
  tp_subscribe :: "subscribe_request \<Rightarrow> 'c \<Rightarrow> (stream_response, 's) stream_call"
  tp_get_extended_agent_card :: "string \<Rightarrow> 'c \<Rightarrow> (agent_card, 's) call"

definition with_tenant :: "string \<Rightarrow> ('s, 'c) client_transport \<Rightarrow> ('s, 'c) client_transport" where
  "with_tenant t b =
     \<lparr>tp_send_message = (\<lambda>r. tp_send_message b (r\<lparr>smr_tenant := resolve_tenant t (smr_tenant r)\<rparr>)),
      tp_send_message_streaming = (\<lambda>r. tp_send_message_streaming b (r\<lparr>smr_tenant := resolve_tenant t (smr_tenant r)\<rparr>)),
      tp_get_task = (\<lambda>r. tp_get_task b (r\<lparr>gt_tenant := resolve_tenant t (gt_tenant r)\<rparr>)),
      tp_list_tasks = (\<lambda>r. tp_list_tasks b (r\<lparr>lr_tenant := resolve_tenant t (lr_tenant r)\<rparr>)),
      tp_cancel_task = (\<lambda>r. tp_cancel_task b (r\<lparr>ct_tenant := resolve_tenant t (ct_tenant r)\<rparr>)),
      tp_create_push_config = (\<lambda>r. tp_create_push_config b (r\<lparr>pc_tenant := resolve_tenant t (pc_tenant r)\<rparr>)),
      tp_get_push_config = (\<lambda>r. tp_get_push_config b (r\<lparr>gpr_tenant := resolve_tenant t (gpr_tenant r)\<rparr>)),
      tp_list_push_configs = (\<lambda>r. tp_list_push_configs b (r\<lparr>lpr_tenant := resolve_tenant t (lpr_tenant r)\<rparr>)),
      tp_delete_push_config = (\<lambda>r. tp_delete_push_config b (r\<lparr>dpr_tenant := resolve_tenant t (dpr_tenant r)\<rparr>)),
      tp_subscribe = (\<lambda>r. tp_subscribe b (r\<lparr>sb_tenant := resolve_tenant t (sb_tenant r)\<rparr>)),
      tp_get_extended_agent_card = (\<lambda>r. tp_get_extended_agent_card b (resolve_tenant t r))\<rparr>"

subsection \<open>The calls of the client\<close>

definition client_get_task where
  "client_get_task hs acard tp r c = execute_with_interceptors hs acard r ''get_task'' c (tp_get_task tp)"

definition client_list_tasks where
  "client_list_tasks hs acard tp r c = execute_with_interceptors hs acard r ''list_tasks'' c (tp_list_tasks tp)"

definition client_cancel_task where
  "client_cancel_task hs acard tp r c = execute_with_interceptors hs acard r ''cancel_task'' c (tp_cancel_task tp)"

definition client_create_push_config where
  "client_create_push_config hs acard tp r c =
     execute_with_interceptors hs acard r ''create_task_push_notification_config'' c (tp_create_push_config tp)"

definition client_get_push_config where
  "client_get_push_config hs acard tp r c =
     execute_with_interceptors hs acard r ''get_task_push_notification_config'' c (tp_get_push_config tp)"

definition client_list_push_configs where
  "client_list_push_configs hs acard tp r c =
     execute_with_interceptors hs acard r ''list_task_push_notification_configs'' c (tp_list_push_configs tp)"

definition client_delete_push_config where
  "client_delete_push_config hs acard tp r c =
     execute_with_interceptors hs acard r ''delete_task_push_notification_config'' c (tp_delete_push_config tp)"

text \<open>The card of the client is the one that arrived, when the verifier accepts it.\<close>

definition client_get_extended_agent_card where
  "client_get_extended_agent_card hs acard tp verifier r c s =
     (case execute_with_interceptors hs acard r ''get_extended_agent_card'' c (tp_get_extended_agent_card tp) s of
        (s', Inl e) \<Rightarrow> (s', acard, Inl e)
      | (s', Inr x) \<Rightarrow>
          (case (case verifier of None \<Rightarrow> Inr () | Some f \<Rightarrow> f x) of
             Inl e \<Rightarrow> (s', acard, Inl e)
           | Inr _ \<Rightarrow> (s', x, Inr x)))"

subsection \<open>Laws\<close>

text \<open>Of two tenants around a transport the outer one counts.\<close>

lemma tenant_nests: "with_tenant t (with_tenant u b) = with_tenant (if t \<noteq> [] then t else u) b"
proof -
  have "resolve_tenant u (resolve_tenant t x) = resolve_tenant (if t \<noteq> [] then t else u) x" for x
    by (simp add: resolve_tenant_def)
  then show ?thesis by (simp add: with_tenant_def)
qed

text \<open>
  A call over JSON-RPC: the endpoint runs the method on the request that it parses, in the caller's
  context, and the client has the result or the error.
\<close>

lemma rpc_unary_end_to_end:
  assumes m: "METHOD_TO_MODEL m = Some model" "m \<notin> set methods03"
    and base: "rk_from_data (rl_codec l) (request_body m (rl_print l q) rid) =
      Inr (Some \<lparr>br_method = Some m, br_id = Some rid\<rparr>)"
    and req: "rk_parse (rl_codec l) model (rl_print l q) = Inr q"
    and once: "stream_request (rl_handler l) m q (rpc_context (rl_user l) (request_tenant q)) = None"
    and run: "process_request (rl_handler l) (rl_codec l) m q (rpc_context (rl_user l) (request_tenant q)) s = (s', y)"
    and np: "\<And>a. y = Inl (A2A a) \<Longrightarrow> err_kind a \<noteq> JSONParseError"
  shows "rpc_unary l m q parse rid s = (s', case y of
      Inl e \<Rightarrow> Inl (client_view e)
    | Inr j \<Rightarrow> (case parse (case j of None \<Rightarrow> JNull | Some x \<Rightarrow> x) of
                None \<Rightarrow> Inl (ClientError ''parse error'') | Some x \<Rightarrow> Inr x))"
proof -
  let ?c = "rpc_context (rl_user l) (request_tenant q)"
  let ?q = "send_request m (rl_print l q) rid [(''a2a-version'', ''1.0'')] (rl_user l)"
  have d: "dispatch_v1 (rl_lib l) (rl_handler l) (rl_codec l) (\<lambda>q. Inr (default_build q)) (Some rid) m
      (request_body m (rl_print l q) rid) ?q s = (s', answer_call (Some rid) y)"
    by (rule dispatch_v1_call [where r = q and c = ?c and c0 = "rpc_context (rl_user l) []", OF m(1)])
      (simp_all add: req default_build_v1 once run version_1_0_ok, simp add: rpc_context_def)
  have "m \<noteq> []" using m(1) by auto
  then have "rpc_exchange l m q rid s = (s', Inl (answer_call (Some rid) y))"
    unfolding rpc_exchange_def handle_requests_def
    by (simp add: send_request_def base m(2) d [unfolded send_request_def] Let_def split: option.split
        del: METHOD_TO_MODEL.simps)
  moreover have "read_reply tx parse (answer_call (Some rid) y) = (case y of
      Inl e \<Rightarrow> Inl (client_view e)
    | Inr j \<Rightarrow> (case parse (case j of None \<Rightarrow> JNull | Some x \<Rightarrow> x) of
                None \<Rightarrow> Inl (ClientError ''parse error'') | Some x \<Rightarrow> Inr x))" for tx
    using np answer_error_seen [of _ tx parse "Some rid"]
    by (cases y) (auto simp: answer_call_def read_reply_def split: option.splits)
  ultimately show ?thesis by (simp add: rpc_unary_def)
qed

text \<open>A stream over JSON-RPC that begins with an event.\<close>

lemma rpc_streaming_end_to_end:
  assumes m: "METHOD_TO_MODEL m = Some model" "m \<notin> set methods03"
    and base: "rk_from_data (rl_codec l) (request_body m (rl_print l q) rid) =
      Inr (Some \<lparr>br_method = Some m, br_id = Some rid\<rparr>)"
    and req: "rk_parse (rl_codec l) model (rl_print l q) = Inr q"
    and stream: "stream_request (rl_handler l) m q (rpc_context (rl_user l) (request_tenant q)) = Some f"
    and run: "f s = (s', evs, x)" and first: "evs \<noteq> []" "hd evs \<noteq> None"
    and w: "list_all (\<lambda>i. wire_ok (rl_wire l) (snd i)) (sse_items (rl_codec l) (Some rid) evs x)"
    and p: "\<And>ev. ev \<in> set evs \<Longrightarrow> rk_print (rl_codec l) (StreamMsg (stream_response_of ev)) = Inr (pj ev) \<and>
      wr_response (rl_wire l) (pj ev) = Some (stream_response_of ev)"
  shows "rpc_streaming l m q rid s = (s', map stream_response_of evs, map_option client_view x)"
proof -
  let ?c = "rpc_context (rl_user l) (request_tenant q)"
  let ?q = "send_request m (rl_print l q) rid [(''a2a-version'', ''1.0'')] (rl_user l)"
  have c: "default_build ?q\<lparr>cc_tenant := request_tenant q\<rparr> = ?c"
    by (simp add: default_build_v1, simp add: rpc_context_def)
  have "\<not> isl (check_version (rl_lib l) PROTOCOL_VERSION_1_0 ?c)"
    by (simp only: version_guard version_1_0_ok)
  then have v: "check_version (rl_lib l) PROTOCOL_VERSION_1_0 ?c = Inr ()"
    by (cases "check_version (rl_lib l) PROTOCOL_VERSION_1_0 ?c") simp_all
  have "drop_first_none evs = evs" using first by (cases evs; cases "hd evs") auto
  then have "answer_stream (rl_codec l) (Some rid) evs x = EventStream (sse_items (rl_codec l) (Some rid) evs x)"
    using first(1) by (cases evs; cases x) (simp_all add: answer_stream_def)
  then have d: "dispatch_v1 (rl_lib l) (rl_handler l) (rl_codec l) (\<lambda>q. Inr (default_build q)) (Some rid) m
      (request_body m (rl_print l q) rid) ?q s = (s', EventStream (sse_items (rl_codec l) (Some rid) evs x))"
    using m(1) by (simp add: dispatch_v1_def req Let_def c stream v run del: METHOD_TO_MODEL.simps)
  have "m \<noteq> []" using m(1) by auto
  then have "rpc_exchange l m q rid s = (s', Inl (EventStream (sse_items (rl_codec l) (Some rid) evs x)))"
    unfolding rpc_exchange_def handle_requests_def
    by (simp add: send_request_def base m(2) d [unfolded send_request_def] Let_def split: option.split
        del: METHOD_TO_MODEL.simps)
  with rpc_stream_end_to_end [OF w p] show ?thesis by (simp add: rpc_streaming_def del: parse_sse.simps)
qed

end
