(* ===== verification/Compat_Rpc.thy ===== *)
theory Compat_Rpc
  imports Client_Auth Card_Resolver Client_Calls
begin

text \<open>
  The client of protocol 0.3 over JSON-RPC (\<^verbatim>\<open>compat/v0_3/jsonrpc_transport.py\<close>). What \<^verbatim>\<open>pydantic\<close>
  prints and validates, and the class \<^verbatim>\<open>JSONRPC20Response\<close>, are parameters.
\<close>

subsection \<open>A connection\<close>

text \<open>
  The server, its user of this connection, and the libraries: \<open>r3_params\<close> prints the parameters of a
  request, \<open>r3_dump\<close> a result, \<open>r3_text\<close> a reply of a stream, which \<open>r3_read\<close> reads: its error, its
  result if there is one, or \<open>None\<close> for a text that is no JSON object. \<open>r3_neither\<close> is raised for a
  reply with neither.
\<close>

record ('v, 's) rpc03_link =
  r3_lib :: "'v version_lib"
  r3_handler :: "'s request_handler"
  r3_rpc :: rpc_codec
  r3_conv :: json_codec
  r3_validate :: "string \<Rightarrow> json \<Rightarrow> exn + request03"
  r3_user :: "string option"
  r3_params :: "request03 \<Rightarrow> json"
  r3_dump :: "result03 \<Rightarrow> json"
  r3_text :: "result03 reply \<Rightarrow> string"
  r3_read :: "string \<Rightarrow> (jsonrpc_error + json option) option"
  r3_neither :: exn
  r3_task :: "json \<Rightarrow> exn + task03"
  r3_message :: "json \<Rightarrow> exn + message03"
  r3_status :: "json \<Rightarrow> exn + status_event03"
  r3_artifact :: "json \<Rightarrow> exn + artifact_event03"
  r3_config :: "json \<Rightarrow> exn + task_push_config03"
  r3_card :: "json \<Rightarrow> exn + agent_card03"

text \<open>The headers of a call; they arrive with names in lower case.\<close>

definition http_headers03 :: "service_parameters \<Rightarrow> service_parameters" where
  "http_headers03 ps =
     add_legacy_extension_header (AList.update (lower_string VERSION_HEADER) PROTOCOL_VERSION_0_3 ps)"

definition arriving :: "service_parameters \<Rightarrow> (string \<times> string) list" where
  "arriving hs = map (\<lambda>(k, v). (lower_string k, v)) hs"

definition rpc03_exchange ::
  "('v, 's) rpc03_link \<Rightarrow> string \<Rightarrow> request03 \<Rightarrow> json \<Rightarrow> service_parameters \<Rightarrow> 's \<Rightarrow>
   's \<times> (json response + result03 response)" where
  "rpc03_exchange l m q rid ps s =
     handle_requests (r3_lib l) (r3_handler l) (r3_rpc l) (Some (r3_conv l, r3_validate l)) (\<lambda>r. Inr (default_build r))
       (send_request m (r3_params l q) rid (arriving (http_headers03 ps)) (r3_user l)) s"

subsection \<open>Reading the answer\<close>

definition create_jsonrpc_error03 :: "jsonrpc_error \<Rightarrow> client_error" where
  "create_jsonrpc_error03 j =
     (case JSON_RPC_ERROR_CODE_TO_A2A_ERROR (je_code j) of
        Some k \<Rightarrow> KnownError (mk_error k (Some (je_message j)) None)
      | None \<Rightarrow> ClientError (je_message j))"

text \<open>
  What the object of a reply holds: \<^verbatim>\<open>exclude_none\<close> leaves out the result that is \<^verbatim>\<open>None\<close>.
\<close>

fun data_of_reply :: "('r \<Rightarrow> json option) \<Rightarrow> 'r reply \<Rightarrow> jsonrpc_error + json option" where
  "data_of_reply dump (ErrorReply i e) = Inl e"
| "data_of_reply dump (ResultReply i x) = Inr (dump x)"

definition dumped :: "('v, 's) rpc03_link \<Rightarrow> result03 \<Rightarrow> json option" where
  "dumped l x = (if x = NoneR then None else Some (r3_dump l x))"

fun http_error03 :: "'r response \<Rightarrow> client_error" where
  "http_error03 (HttpRaised n) = ClientError (''HTTP Error: '' @ int_str n)"
| "http_error03 (ServerRaised e) = ClientError ''HTTP Error: 500''"
| "http_error03 _ = ClientError ''JSON Decode Error''"

fun response_data :: "('v, 's) rpc03_link \<Rightarrow> json response + result03 response \<Rightarrow>
    client_error + (jsonrpc_error + json option)" where
  "response_data l (Inl (JsonResponse r)) = Inr (data_of_reply Some r)"
| "response_data l (Inr (JsonResponse r)) = Inr (data_of_reply (dumped l) r)"
| "response_data l (Inl r) = Inl (http_error03 r)"
| "response_data l (Inr r) = Inl (http_error03 r)"

definition read_data03 ::
  "('v, 's) rpc03_link \<Rightarrow> (json \<Rightarrow> exn + 'a) \<Rightarrow> jsonrpc_error + json option \<Rightarrow> client_error + 'a" where
  "read_data03 l parse d =
     (case d of
        Inl e \<Rightarrow> Inl (create_jsonrpc_error03 e)
      | Inr None \<Rightarrow> Inl (client_raised (r3_neither l))
      | Inr (Some j) \<Rightarrow> or_raised (parse j))"

text \<open>The reply to a deletion may have neither a result nor an error.\<close>

definition or_null_result :: "jsonrpc_error + json option \<Rightarrow> jsonrpc_error + json option" where
  "or_null_result d = (if d = Inr None then Inr (Some JNull) else d)"

definition rpc03_unary ::
  "('v, 's) rpc03_link \<Rightarrow> string \<Rightarrow> exn + request03 \<Rightarrow> (jsonrpc_error + json option \<Rightarrow> client_error + 'a) \<Rightarrow> json \<Rightarrow>
   service_parameters \<Rightarrow> 's \<Rightarrow> 's \<times> (client_error + 'a)" where
  "rpc03_unary l m req get rid ps s =
     (case req of
        Inl e \<Rightarrow> (s, Inl (client_raised e))
      | Inr q \<Rightarrow> (let (s', r) = rpc03_exchange l m q rid ps s in (s', rbind (response_data l r) get)))"

subsection \<open>The kind of a result\<close>

definition named :: "string \<Rightarrow> json" where
  "named s = JStr (to_ustr s)"

text \<open>Old servers may omit the kind.\<close>

definition send_kind :: "struct \<Rightarrow> json" where
  "send_kind d =
     (let k = get_or_null ''kind'' d
      in if json_truthy k then k
         else if has_key ''messageId'' d then named ''message''
         else if has_key ''id'' d then named ''task''
         else k)"

definition stream_kind :: "struct \<Rightarrow> json" where
  "stream_kind d =
     (let k = get_or_null ''kind'' d
      in if json_truthy k then k
         else if has_key ''taskId'' d \<and> has_key ''final'' d then named ''status-update''
         else if has_key ''messageId'' d then named ''message''
         else if has_key ''id'' d then named ''task''
         else k)"

definition read_send_result03 :: "('v, 's) rpc03_link \<Rightarrow> json \<Rightarrow> exn + send_response" where
  "read_send_result03 l j =
     (case j of
        JObj d \<Rightarrow>
          (let k = send_kind d
           in if k = named ''task'' then rbind (r3_task l j) (\<lambda>t. core_send_result (r3_conv l) (SendTask t))
              else if k = named ''message'' then rbind (r3_message l j) (\<lambda>m. core_send_result (r3_conv l) (SendMessage m))
              else Inr EmptySendResponse)
      | _ \<Rightarrow> Inr EmptySendResponse)"

text \<open>An event, or none for a result of another kind.\<close>

definition read_event_result03 :: "('v, 's) rpc03_link \<Rightarrow> json \<Rightarrow> exn + stream_result03 option" where
  "read_event_result03 l j =
     (case j of
        JObj d \<Rightarrow>
          (let k = stream_kind d
           in if k = named ''task'' then rbind (r3_task l j) (\<lambda>t. Inr (Some (StreamTask t)))
              else if k = named ''message'' then rbind (r3_message l j) (\<lambda>m. Inr (Some (StreamMessage m)))
              else if k = named ''status-update'' then rbind (r3_status l j) (\<lambda>u. Inr (Some (StreamStatus u)))
              else if k = named ''artifact-update'' then rbind (r3_artifact l j) (\<lambda>u. Inr (Some (StreamArtifact u)))
              else Inr None)
      | _ \<Rightarrow> Inr None)"

text \<open>What the data of an event give: an event, none, or an error.\<close>

definition event_of_data ::
  "('v, 's) rpc03_link \<Rightarrow> jsonrpc_error + json option \<Rightarrow> client_error + stream_response option" where
  "event_of_data l d =
     (case d of
        Inl e \<Rightarrow> Inl (create_jsonrpc_error03 e)
      | Inr x \<Rightarrow> or_raised (rbind (read_event_result03 l (case x of None \<Rightarrow> JObj [] | Some j \<Rightarrow> j))
          (\<lambda>y. case y of
             None \<Rightarrow> Inr None
           | Some r \<Rightarrow> rbind (to_core_stream_response (r3_conv l) \<lparr>ok_id = None, ok_result = r\<rparr>) (\<lambda>z. Inr (Some z)))))"

subsection \<open>Streams\<close>

fun read_stream03 :: "('v, 's) rpc03_link \<Rightarrow> (string \<times> string) list \<Rightarrow> stream_response list \<times> client_error option" where
  "read_stream03 l [] = ([], None)"
| "read_stream03 l ((ev, dat) # es) =
     (if dat = [] then read_stream03 l es
      else if ev = ''error'' then ([], Some (ClientError (''SSE stream error event received: '' @ dat)))
      else (case r3_read l dat of
              None \<Rightarrow> ([], Some (ClientError ''JSON Decode Error''))
            | Some d \<Rightarrow>
                (case event_of_data l d of
                   Inl e \<Rightarrow> ([], Some e)
                 | Inr None \<Rightarrow> read_stream03 l es
                 | Inr (Some y) \<Rightarrow> (let (ys, e) = read_stream03 l es in (y # ys, e)))))"

text \<open>
  The events as they arrive, or a single reply that is no stream. (For a method of 0.3 the part of the
  endpoint for 1.0 answers with errors of the request only.)
\<close>

definition reply_lines03 :: "('v, 's) rpc03_link \<Rightarrow> (bool \<times> result03 reply) list \<Rightarrow> string list" where
  "reply_lines03 l items =
     concat (map (\<lambda>(err, r). sse_lines (if err then ''error'' else ''message'', [r3_text l r])) items)"

definition stream_events03 :: "('v, 's) rpc03_link \<Rightarrow> json response + result03 response \<Rightarrow>
    stream_response list \<times> client_error option" where
  "stream_events03 l resp =
     (case resp of
        Inr (EventStream items) \<Rightarrow> read_stream03 l (parse_sse ''message'' [] (reply_lines03 l items))
      | _ \<Rightarrow> (case rbind (response_data l resp) (event_of_data l) of
                Inl e \<Rightarrow> ([], Some e)
              | Inr None \<Rightarrow> ([], None)
              | Inr (Some y) \<Rightarrow> ([y], None)))"

definition rpc03_streaming ::
  "('v, 's) rpc03_link \<Rightarrow> string \<Rightarrow> exn + request03 \<Rightarrow> json \<Rightarrow> service_parameters \<Rightarrow> 's \<Rightarrow>
   's \<times> stream_response list \<times> client_error option" where
  "rpc03_streaming l m req rid ps s =
     (case req of
        Inl e \<Rightarrow> (s, [], Some (client_raised e))
      | Inr q \<Rightarrow> (let (s', r) = rpc03_exchange l m q rid ps s in (s', stream_events03 l r)))"

subsection \<open>The calls\<close>

type_synonym ('a, 's) client_call = "json \<Rightarrow> service_parameters \<Rightarrow> 's \<Rightarrow> 's \<times> (client_error + 'a)"

type_synonym 's client_stream = "json \<Rightarrow> service_parameters \<Rightarrow> 's \<Rightarrow> 's \<times> stream_response list \<times> client_error option"

definition j3_send_request :: "('v, 's) rpc03_link \<Rightarrow> send_message_request \<Rightarrow> exn + send_request03" where
  "j3_send_request l r = to_compat_send_message_request (r3_conv l) r (IdInt 0)"

definition j3_send_message :: "('v, 's) rpc03_link \<Rightarrow> send_message_request \<Rightarrow> (send_response, 's) client_call" where
  "j3_send_message l r = rpc03_unary l ''message/send'' (rbind (j3_send_request l r) (\<lambda>q. Inr (Send03 q)))
     (read_data03 l (read_send_result03 l))"

definition j3_send_message_streaming :: "('v, 's) rpc03_link \<Rightarrow> send_message_request \<Rightarrow> 's client_stream" where
  "j3_send_message_streaming l r =
     rpc03_streaming l ''message/stream'' (rbind (j3_send_request l r) (\<lambda>q. Inr (Stream03 q)))"

definition core_task_of :: "('v, 's) rpc03_link \<Rightarrow> json \<Rightarrow> exn + task" where
  "core_task_of l j = rbind (r3_task l j) (to_core_task (r3_conv l))"

definition core_config_of :: "('v, 's) rpc03_link \<Rightarrow> json \<Rightarrow> exn + push_config" where
  "core_config_of l j = rbind (r3_config l j) (\<lambda>c. Inr (to_core_task_push_notification_config c))"

definition j3_get_task :: "('v, 's) rpc03_link \<Rightarrow> get_task_request \<Rightarrow> (task, 's) client_call" where
  "j3_get_task l r = rpc03_unary l ''tasks/get'' (Inr (Get03 (to_compat_get_task_request r (IdInt 0))))
     (read_data03 l (core_task_of l))"

definition j3_list_tasks :: "('v, 's) rpc03_link \<Rightarrow> list_tasks_request \<Rightarrow> (list_tasks_response, 's) client_call" where
  "j3_list_tasks l r rid ps s = (s, Inl (ClientError ''ListTasks is not supported in A2A v0.3 JSONRPC.''))"

definition j3_cancel_task :: "('v, 's) rpc03_link \<Rightarrow> cancel_task_request \<Rightarrow> (task, 's) client_call" where
  "j3_cancel_task l r = rpc03_unary l ''tasks/cancel''
     (rbind (to_compat_cancel_task_request (r3_conv l) r (IdInt 0)) (\<lambda>q. Inr (Cancel03 q))) (read_data03 l (core_task_of l))"

definition j3_create_push_config :: "('v, 's) rpc03_link \<Rightarrow> push_config \<Rightarrow> (push_config, 's) client_call" where
  "j3_create_push_config l r = rpc03_unary l ''tasks/pushNotificationConfig/set''
     (Inr (SetPush03 (to_compat_create_task_push_notification_config_request r (IdInt 0)))) (read_data03 l (core_config_of l))"

definition j3_get_push_config :: "('v, 's) rpc03_link \<Rightarrow> get_push_config_request \<Rightarrow> (push_config, 's) client_call" where
  "j3_get_push_config l r = rpc03_unary l ''tasks/pushNotificationConfig/get''
     (Inr (GetPush03 (to_compat_get_task_push_notification_config_request r (IdInt 0)))) (read_data03 l (core_config_of l))"

definition j3_list_push_configs ::
  "('v, 's) rpc03_link \<Rightarrow> list_push_configs_request \<Rightarrow> (list_push_configs_response, 's) client_call" where
  "j3_list_push_configs l r = rpc03_unary l ''tasks/pushNotificationConfig/list''
     (Inr (ListPush03 (to_compat_list_task_push_notification_config_request r (IdInt 0))))
     (read_data03 l (\<lambda>j. case j of
        JArr js \<Rightarrow> rbind (rmap_list (core_config_of l) js) (\<lambda>cs. Inr \<lparr>lps_configs = cs, lps_next_page_token = []\<rparr>)
      | _ \<Rightarrow> Inr \<lparr>lps_configs = [], lps_next_page_token = []\<rparr>))"

definition j3_delete_push_config :: "('v, 's) rpc03_link \<Rightarrow> delete_push_config_request \<Rightarrow> (unit, 's) client_call" where
  "j3_delete_push_config l r = rpc03_unary l ''tasks/pushNotificationConfig/delete''
     (Inr (DeletePush03 (to_compat_delete_task_push_notification_config_request r (IdInt 0))))
     (\<lambda>d. read_data03 l (\<lambda>j. Inr ()) (or_null_result d))"

definition j3_subscribe :: "('v, 's) rpc03_link \<Rightarrow> subscribe_request \<Rightarrow> 's client_stream" where
  "j3_subscribe l r = rpc03_streaming l ''tasks/resubscribe''
     (Inr (Subscribe03 (to_compat_subscribe_to_task_request r (IdInt 0))))"

text \<open>The card of the transport becomes the one that arrived.\<close>

definition j3_get_extended_agent_card ::
  "('v, 's) rpc03_link \<Rightarrow> agent_card option \<Rightarrow> json \<Rightarrow> service_parameters \<Rightarrow> 's \<Rightarrow>
   's \<times> agent_card option \<times> (client_error + agent_card)" where
  "j3_get_extended_agent_card l own rid ps s =
     (if own \<noteq> None \<and> cap_extended_agent_card (card_capabilities_of (the own)) \<noteq> Some True then (s, own, Inr (the own))
      else (case rpc03_unary l ''agent/getAuthenticatedExtendedCard'' (Inr (Card03 (IdInt 0)))
                   (read_data03 l (\<lambda>j. rbind (r3_card l j) (to_core_agent_card (r3_conv l)))) rid ps s of
              (s', Inr c) \<Rightarrow> (s', Some c, Inr c)
            | (s', Inl e) \<Rightarrow> (s', own, Inl e)))"

subsection \<open>Laws: the context\<close>

text \<open>The context that the server builds from the headers.\<close>

definition rpc03_context :: "string option \<Rightarrow> service_parameters \<Rightarrow> call_context" where
  "rpc03_context user ps =
     (let q = \<lparr>hq_body = BodyJson JNull, hq_headers = arriving (http_headers03 ps), hq_user = user\<rparr>
      in (default_build q)\<lparr>cc_requested_extensions := remdups (cc_requested_extensions (default_build q) @
           get_requested_extensions (getlist q LEGACY_HTTP_EXTENSION_HEADER))\<rparr>)"

text \<open>No other spelling of a header.\<close>

definition one_spelling :: "string \<Rightarrow> service_parameters \<Rightarrow> bool" where
  "one_spelling h ps \<longleftrightarrow> list_all (\<lambda>k. lower_string k = lower_string h \<longrightarrow> k = h) (map fst ps)"

lemma map_of_arriving:
  "list_all (\<lambda>k. lower_string k = x \<longrightarrow> k = h) (map fst ps) \<Longrightarrow> lower_string h = x \<Longrightarrow> map_of (arriving ps) x = map_of ps h"
  by (induction ps) (auto simp: arriving_def)

lemma getlist_arriving:
  "one_spelling h ps \<Longrightarrow> dict_ok ps \<Longrightarrow>
   getlist \<lparr>hq_body = b, hq_headers = arriving ps, hq_user = u\<rparr> h = (case map_of ps h of None \<Rightarrow> [] | Some v \<Rightarrow> [v])"
proof (induction ps)
  case (Cons e ps)
  obtain k v where e: "e = (k, v)" by (cases e)
  have none: "getlist \<lparr>hq_body = b, hq_headers = arriving qs, hq_user = u\<rparr> h = []"
    if "one_spelling h qs" "h \<notin> set (map fst qs)" for qs
    using that by (induction qs) (auto simp: getlist_def arriving_def one_spelling_def)
  from Cons.prems have IH: "getlist \<lparr>hq_body = b, hq_headers = arriving ps, hq_user = u\<rparr> h =
      (case map_of ps h of None \<Rightarrow> [] | Some v \<Rightarrow> [v])"
    by (intro Cons.IH) (simp_all add: one_spelling_def dict_ok_def)
  show ?case
  proof (cases "k = h")
    case True
    with Cons.prems e none [of ps] show ?thesis
      by (auto simp: getlist_def arriving_def one_spelling_def dict_ok_def)
  next
    case False
    with Cons.prems e IH show ?thesis by (auto simp: getlist_def arriving_def one_spelling_def)
  qed
qed (simp add: getlist_def arriving_def)

lemma map_of_header_dict: "map_of (header_dict r) k = map_of (hq_headers r) k"
proof -
  have table: "map_of (map (\<lambda>k. (k, f k)) ks) k = (if k \<in> set ks then Some (f k) else None)"
    for ks and f :: "string \<Rightarrow> string"
    by (induction ks) auto
  show ?thesis
  proof (cases "map_of (hq_headers r) k")
    case None
    then have "k \<notin> fst ` set (hq_headers r)" by (simp add: map_of_eq_None_iff)
    with None show ?thesis by (simp add: header_dict_def table)
  next
    case (Some v)
    then have "k \<in> fst ` set (hq_headers r)" by (force dest: map_of_SomeD)
    with Some show ?thesis by (simp add: header_dict_def table)
  qed
qed

lemma lower_char_range: "\<not> (65 \<le> (of_char (lower_char c) :: nat) \<and> (of_char (lower_char c) :: nat) \<le> 90)"
  by (auto simp: lower_char_def)

lemma lower_char_not_A: "lower_char c \<noteq> CHR ''A''"
proof
  assume h: "lower_char c = CHR ''A''"
  have "(of_char (CHR ''A'') :: nat) = 65" by simp
  with lower_char_range [of c, unfolded h] show False by simp
qed

lemma header_names:
  "lower_string HTTP_EXTENSION_HEADER = ''a2a-extensions''" "lower_string LEGACY_HTTP_EXTENSION_HEADER = ''x-a2a-extensions''"
  "lower_string ''a2a-version'' = ''a2a-version''"
  by code_simp+

lemma header_names_differ:
  "HTTP_EXTENSION_HEADER \<noteq> ''a2a-version''" "LEGACY_HTTP_EXTENSION_HEADER \<noteq> ''a2a-version''"
  "LEGACY_HTTP_EXTENSION_HEADER \<noteq> HTTP_EXTENSION_HEADER"
  by code_simp+

text \<open>The header of version 0.3 is there, once; both names of the extensions have the same value.\<close>

lemma http_headers03_lookup:
  "map_of (http_headers03 ps) ''a2a-version'' = Some ''0.3''"
  "map_of (http_headers03 ps) HTTP_EXTENSION_HEADER = map_of ps HTTP_EXTENSION_HEADER"
  "map_of (http_headers03 ps) LEGACY_HTTP_EXTENSION_HEADER =
     (case map_of ps LEGACY_HTTP_EXTENSION_HEADER of None \<Rightarrow> map_of ps HTTP_EXTENSION_HEADER | Some v \<Rightarrow> Some v)"
  using header_names_differ
  by (simp_all add: http_headers03_def add_legacy_extension_header_def lower_version_header PROTOCOL_VERSION_0_3_def
      map_add_def split: option.split)

lemma http_headers03_keys:
  "set (map fst (http_headers03 ps)) \<subseteq> set (map fst ps) \<union> {''a2a-version'', LEGACY_HTTP_EXTENSION_HEADER}"
  by (auto simp: http_headers03_def add_legacy_extension_header_def lower_version_header dom_update update_keys
      simp del: set_map split: option.splits)

lemma http_headers03_dict: "dict_ok ps \<Longrightarrow> dict_ok (http_headers03 ps)"
proof -
  assume "dict_ok ps"
  then have u: "dict_ok (AList.update ''a2a-version'' PROTOCOL_VERSION_0_3 ps)" by simp
  show ?thesis
  proof (cases "map_of ps HTTP_EXTENSION_HEADER = None \<or> map_of ps LEGACY_HTTP_EXTENSION_HEADER \<noteq> None")
    case True
    with u header_names_differ show ?thesis
      by (auto simp: http_headers03_def add_legacy_extension_header_def lower_version_header split: option.split)
  next
    case False
    then have "LEGACY_HTTP_EXTENSION_HEADER \<notin> set (map fst (AList.update ''a2a-version'' PROTOCOL_VERSION_0_3 ps))"
      using header_names_differ by (auto simp: update_keys map_of_eq_None_iff)
    with False u header_names_differ show ?thesis
      by (auto simp: http_headers03_def add_legacy_extension_header_def lower_version_header dict_ok_def)
  qed
qed

lemma http_headers03_spelling:
  assumes "one_spelling h ps" "h \<in> {''a2a-version'', HTTP_EXTENSION_HEADER, LEGACY_HTTP_EXTENSION_HEADER}"
  shows "one_spelling h (http_headers03 ps)"
  using assms http_headers03_keys [of ps] header_names
  by (fastforce simp: one_spelling_def list_all_iff)

lemma version_0_3_arrives:
  assumes "one_spelling ''a2a-version'' ps"
  shows "check_version lib PROTOCOL_VERSION_0_3 (rpc03_context user ps) = Inr ()"
proof -
  let ?hs = "arriving (http_headers03 ps)"
  have "map_of ?hs ''a2a-version'' = Some ''0.3''"
    using http_headers03_spelling [OF assms] map_of_arriving [of "''a2a-version''" "''a2a-version''" "http_headers03 ps"]
    by (simp add: http_headers03_lookup one_spelling_def header_names)
  moreover have "map_of ?hs VERSION_HEADER = None"
  proof -
    have up: "VERSION_HEADER ! 0 = CHR ''A''" by (simp add: VERSION_HEADER_def)
    have "lower_string k \<noteq> VERSION_HEADER" for k
    proof
      assume k: "lower_string k = VERSION_HEADER"
      then have "k \<noteq> []" by (auto simp: lower_string_def VERSION_HEADER_def)
      then have "lower_string k ! 0 = lower_char (k ! 0)" by (cases k) (simp_all add: lower_string_def)
      with k up lower_char_not_A [of "k ! 0"] show False by simp
    qed
    then have "VERSION_HEADER \<notin> set (map fst (arriving (http_headers03 ps)))"
      by (auto simp: arriving_def split_def) metis
    then show ?thesis by (simp add: map_of_eq_None_iff)
  qed
  ultimately have "get_actual_version PROTOCOL_VERSION_0_3 (Some (rpc03_context user ps)) = PROTOCOL_VERSION_0_3"
    unfolding get_actual_version_def lower_version_header
    by (simp add: rpc03_context_def default_build_def map_of_header_dict PROTOCOL_VERSION_0_3_def Let_def)
  then show ?thesis by (simp add: check_version_def validate_version_def is_version_compatible_def)
qed

text \<open>The extensions that were asked for, under either name.\<close>

lemma extensions_arrive:
  assumes "dict_ok ps" "one_spelling HTTP_EXTENSION_HEADER ps" "one_spelling LEGACY_HTTP_EXTENSION_HEADER ps"
  shows "set (cc_requested_extensions (rpc03_context user ps)) =
    set (header_extensions ps) \<union> set (get_requested_extensions [or_empty (map_of ps LEGACY_HTTP_EXTENSION_HEADER)])"
proof -
  have nil: "get_requested_extensions [[]] = []" "get_requested_extensions [] = []"
    by (simp_all add: get_requested_extensions_def py_strip_def)
  note gl = getlist_arriving [OF http_headers03_spelling http_headers03_dict [OF assms(1)]]
  show ?thesis
    using gl [OF assms(2)] gl [OF assms(3)]
    by (auto simp: rpc03_context_def default_build_def http_headers03_lookup header_extensions_def nil Let_def
        split: option.splits)
qed

lemma rpc03_context_built:
  "v03_build (\<lambda>r. Inr (default_build r)) (send_request m p rid (arriving (http_headers03 ps)) user) = Inr (rpc03_context user ps)"
  by (simp add: v03_build_def rpc03_context_def default_build_def send_request_def getlist_def header_dict_def Let_def)

lemma rpc03_context_tenant [simp]: "rpc03_context user ps\<lparr>cc_tenant := []\<rparr> = rpc03_context user ps"
  by (simp add: rpc03_context_def default_build_def Let_def)

subsection \<open>Laws: a call\<close>

text \<open>
  What the libraries must do with a request: the endpoint reads the method and the id of the body
  that was written, and \<^verbatim>\<open>pydantic\<close> makes \<open>q'\<close> of it.
\<close>

definition reads_request03 :: "('v, 's) rpc03_link \<Rightarrow> string \<Rightarrow> request03 \<Rightarrow> json \<Rightarrow> request03 \<Rightarrow> bool" where
  "reads_request03 l m q rid q' \<longleftrightarrow>
     (let body = request_body m (r3_params l q) rid
      in rk_from_data (r3_rpc l) body = Inr (Some \<lparr>br_method = Some m, br_id = Some rid\<rparr>) \<and>
         r3_validate l m body = Inr q')"

lemma rpc03_exchange_adapter:
  assumes "reads_request03 l m q rid q'" "m \<in> set methods03"
  shows "rpc03_exchange l m q rid ps s =
    (let (s', x) = adapter03 (r3_lib l) (r3_handler l) (r3_conv l) (r3_validate l) (\<lambda>r. Inr (default_build r)) (Some rid) m
           (request_body m (r3_params l q) rid)
           (send_request m (r3_params l q) rid (arriving (http_headers03 ps)) (r3_user l)) s
     in (s', Inr x))"
proof -
  have "m \<noteq> []" using assms(2) by (auto simp: methods03_def)
  with assms show ?thesis
    unfolding rpc03_exchange_def handle_requests_def
    by (simp add: send_request_def reads_request03_def Let_def)
qed

lemma rpc03_exchange_unary:
  assumes q: "reads_request03 l m q rid q'" "m \<in> set methods03" and v: "one_spelling ''a2a-version'' ps"
    and one: "stream_request03 (r3_handler l) (r3_conv l) q' (rpc03_context (r3_user l) ps) = None"
    and run: "process_request03 (r3_lib l) (r3_handler l) (r3_conv l) q' (rpc03_context (r3_user l) ps) s = (s', x)"
  shows "rpc03_exchange l m q rid ps s = (s', Inr (JsonResponse (case x of
      Inl e \<Rightarrow> ErrorReply (Some rid) (JE_INTERNAL (exn_text e)) | Inr y \<Rightarrow> ResultReply (Some rid) y)))"
proof -
  have "r3_validate l m (request_body m (r3_params l q) rid) = Inr q'"
    using q(1) by (simp add: reads_request03_def Let_def)
  then show ?thesis
    unfolding rpc03_exchange_adapter [OF q] adapter03_def
    by (cases x) (simp_all add: rpc03_context_built one versioned_def version_0_3_arrives [OF v] run)
qed

text \<open>Every error of the server is an internal error for the client, with its text.\<close>

definition internal_view :: "exn \<Rightarrow> client_error" where
  "internal_view e = KnownError (mk_error InternalError (Some (exn_text e)) None)"

lemma internal_seen03: "create_jsonrpc_error03 (JE_INTERNAL t) = KnownError (mk_error InternalError (Some t) None)"
proof -
  have "JSON_RPC_ERROR_CODE_TO_A2A_ERROR (-32603) = Some InternalError" by code_simp
  then show ?thesis by (simp add: create_jsonrpc_error03_def JE_INTERNAL_def)
qed

lemma rpc03_unary_end_to_end:
  assumes "reads_request03 l m q rid q'" "m \<in> set methods03" "one_spelling ''a2a-version'' ps"
    and "stream_request03 (r3_handler l) (r3_conv l) q' (rpc03_context (r3_user l) ps) = None"
    and "process_request03 (r3_lib l) (r3_handler l) (r3_conv l) q' (rpc03_context (r3_user l) ps) s = (s', x)"
  shows "rpc03_unary l m (Inr q) get rid ps s =
    (s', case x of Inl e \<Rightarrow> get (Inl (JE_INTERNAL (exn_text e))) | Inr y \<Rightarrow> get (Inr (dumped l y)))"
  by (cases x) (simp_all add: rpc03_unary_def rpc03_exchange_unary [OF assms])

text \<open>
  Sending a message: a result of \<^verbatim>\<open>message/send\<close> is written so that its kind is found and its value
  read back.
\<close>

definition reads_send03 :: "('v, 's) rpc03_link \<Rightarrow> send_result03 \<Rightarrow> bool" where
  "reads_send03 l z \<longleftrightarrow>
     (case r3_dump l (SendR z) of
        JObj d \<Rightarrow> (case z of
            SendTask t \<Rightarrow> send_kind d = named ''task'' \<and> r3_task l (JObj d) = Inr t
          | SendMessage m \<Rightarrow> send_kind d = named ''message'' \<and> r3_message l (JObj d) = Inr m)
      | _ \<Rightarrow> False)"

lemma named_kinds [simp]: "named ''task'' \<noteq> named ''message''" "named ''message'' \<noteq> named ''task''"
  "named ''task'' \<noteq> named ''status-update''" "named ''task'' \<noteq> named ''artifact-update''"
  "named ''message'' \<noteq> named ''status-update''" "named ''message'' \<noteq> named ''artifact-update''"
  "named ''status-update'' \<noteq> named ''task''" "named ''status-update'' \<noteq> named ''message''"
  "named ''status-update'' \<noteq> named ''artifact-update''" "named ''artifact-update'' \<noteq> named ''task''"
  "named ''artifact-update'' \<noteq> named ''message''" "named ''artifact-update'' \<noteq> named ''status-update''"
  by (simp_all add: named_def to_ustr_def)

lemma read_send_back:
  "reads_send03 l z \<Longrightarrow> read_send_result03 l (r3_dump l (SendR z)) = core_send_result (r3_conv l) z"
  by (cases "r3_dump l (SendR z)"; cases z) (simp_all add: reads_send03_def read_send_result03_def Let_def)

lemma send_over_json_0_3:
  assumes k: "json_codec_ok (r3_conv l)" and rf: "send_request_free r" and v: "one_spelling ''a2a-version'' ps"
    and req: "j3_send_request l r = Inr q"
    and arrives: "reads_request03 l ''message/send'' (Send03 q) rid (Send03 (q\<lparr>rq_id := i\<rparr>))"
    and core: "rh_message_send (r3_handler l) (send_request_normal r) (rpc03_context (r3_user l) ps) s = (s', x)"
    and ok: "\<And>y. x = Inr y \<Longrightarrow> send_response_free y \<and>
      (\<exists>z. compat_send_result (r3_conv l) y = Inr z \<and> reads_send03 l z)"
  shows "j3_send_message l r rid ps s =
    (s', case x of Inl e \<Rightarrow> Inl (internal_view e) | Inr y \<Rightarrow> Inr (send_response_normal y))"
proof -
  have "to_core_send_message_request (r3_conv l) q = Inr (send_request_normal r)"
    by (rule send_request_back(1) [OF k rf req [unfolded j3_send_request_def]])
  then have q': "to_core_send_message_request (r3_conv l) (q\<lparr>rq_id := i\<rparr>) = Inr (send_request_normal r)"
    by (simp add: to_core_send_message_request_def)
  let ?x = "case x of Inl e \<Rightarrow> Inl e | Inr y \<Rightarrow> (case compat_send_result (r3_conv l) y of Inl e \<Rightarrow> Inl e | Inr z \<Rightarrow> Inr (SendR z))"
  have run: "process_request03 (r3_lib l) (r3_handler l) (r3_conv l) (Send03 (q\<lparr>rq_id := i\<rparr>))
      (rpc03_context (r3_user l) ps) s = (s', ?x)"
    by (cases x) (simp_all add: h03_message_send_def call_through_def q' core rpc_call_def split: sum.split)
  have "''message/send'' \<in> set methods03" by (simp add: methods03_def)
  from rpc03_unary_end_to_end [OF arrives this v _ run]
  have "j3_send_message l r rid ps s = (s', case ?x of
      Inl e \<Rightarrow> read_data03 l (read_send_result03 l) (Inl (JE_INTERNAL (exn_text e)))
    | Inr y \<Rightarrow> read_data03 l (read_send_result03 l) (Inr (dumped l y)))"
    by (simp add: j3_send_message_def req)
  moreover have "(case ?x of
      Inl e \<Rightarrow> read_data03 l (read_send_result03 l) (Inl (JE_INTERNAL (exn_text e)))
    | Inr y \<Rightarrow> read_data03 l (read_send_result03 l) (Inr (dumped l y))) =
    (case x of Inl e \<Rightarrow> Inl (internal_view e) | Inr y \<Rightarrow> Inr (send_response_normal y))"
  proof (cases x)
    case (Inl e)
    then show ?thesis by (simp add: read_data03_def internal_seen03 internal_view_def)
  next
    case (Inr y)
    from ok [OF this] obtain z where y: "send_response_free y" and z: "compat_send_result (r3_conv l) y = Inr z" "reads_send03 l z"
      by auto
    from send_result_back [OF k y z(1)] read_send_back [OF z(2)] Inr z(1) show ?thesis
      by (simp add: read_data03_def dumped_def or_raised_def)
  qed
  ultimately show ?thesis by simp
qed

text \<open>A deletion succeeds although its reply has no result.\<close>

lemma delete_over_json_0_3:
  assumes v: "one_spelling ''a2a-version'' ps"
    and arrives: "reads_request03 l ''tasks/pushNotificationConfig/delete''
      (DeletePush03 (to_compat_delete_task_push_notification_config_request r (IdInt 0))) rid
      (DeletePush03 (to_compat_delete_task_push_notification_config_request r i))"
    and core: "rh_delete_push_config (r3_handler l) (r\<lparr>dpr_tenant := []\<rparr>) (rpc03_context (r3_user l) ps) s = (s', x)"
  shows "j3_delete_push_config l r rid ps s =
    (s', case x of Inl e \<Rightarrow> Inl (internal_view e) | Inr _ \<Rightarrow> Inr ())"
proof -
  let ?q = "to_compat_delete_task_push_notification_config_request r i"
  have core_q: "to_core_delete_task_push_notification_config_request ?q = r\<lparr>dpr_tenant := []\<rparr>"
    by (cases r) (simp add: to_core_delete_task_push_notification_config_request_def
        to_compat_delete_task_push_notification_config_request_def)
  have run: "process_request03 (r3_lib l) (r3_handler l) (r3_conv l) (DeletePush03 ?q) (rpc03_context (r3_user l) ps) s =
      (s', case x of Inl e \<Rightarrow> Inl e | Inr y \<Rightarrow> Inr NoneR)"
    by (cases x) (simp_all add: h03_delete_push_config_def call_through_def core_q core rpc_call_def)
  have "''tasks/pushNotificationConfig/delete'' \<in> set methods03" by (simp add: methods03_def)
  note e = rpc03_unary_end_to_end [OF arrives this v _ run]
  have none: "stream_request03 (r3_handler l) (r3_conv l) (DeletePush03 ?q) (rpc03_context (r3_user l) ps) = None" by simp
  show ?thesis
    unfolding j3_delete_push_config_def e [OF none]
    by (cases x) (simp_all add: or_null_result_def read_data03_def internal_seen03 internal_view_def dumped_def or_raised_def)
qed

subsection \<open>Laws: a stream\<close>

definition reads_event03 :: "('v, 's) rpc03_link \<Rightarrow> stream_result03 \<Rightarrow> bool" where
  "reads_event03 l z \<longleftrightarrow>
     (case r3_dump l (StreamR z) of
        JObj d \<Rightarrow> (case z of
            StreamTask t \<Rightarrow> stream_kind d = named ''task'' \<and> r3_task l (JObj d) = Inr t
          | StreamMessage m \<Rightarrow> stream_kind d = named ''message'' \<and> r3_message l (JObj d) = Inr m
          | StreamStatus u \<Rightarrow> stream_kind d = named ''status-update'' \<and> r3_status l (JObj d) = Inr u
          | StreamArtifact u \<Rightarrow> stream_kind d = named ''artifact-update'' \<and> r3_artifact l (JObj d) = Inr u)
      | _ \<Rightarrow> False)"

lemma read_event_back:
  "reads_event03 l z \<Longrightarrow> read_event_result03 l (r3_dump l (StreamR z)) = Inr (Some z)"
  by (cases "r3_dump l (StreamR z)"; cases z) (simp_all add: reads_event03_def read_event_result03_def Let_def)

text \<open>A reply is written in one line, and read as what it holds.\<close>

definition reply_ok03 :: "('v, 's) rpc03_link \<Rightarrow> result03 reply \<Rightarrow> bool" where
  "reply_ok03 l r \<longleftrightarrow> r3_read l (r3_text l r) = Some (data_of_reply (dumped l) r) \<and> r3_text l r \<noteq> [] \<and> no_eol (r3_text l r)"

lemma parse_reply_lines03:
  assumes "list_all (\<lambda>i. reply_ok03 l (snd i)) items"
  shows "parse_sse ''message'' [] (reply_lines03 l items) =
    map (\<lambda>i. (if fst i then ''error'' else ''message'', r3_text l (snd i))) items"
proof -
  let ?e = "\<lambda>i. (if fst i then ''error'' else ''message'', [r3_text l (snd i)])"
  have "no_eol ''error''" "no_eol ''message''" by code_simp+
  with assms have "list_all sse_event_ok (map ?e items)"
    by (induction items) (simp_all add: sse_event_ok_def reply_ok03_def)
  from parse_sse_stream [OF this] show ?thesis
    by (simp add: reply_lines03_def comp_def split_def)
qed

lemma read_replies03:
  assumes "\<And>r. r \<in> set rs \<Longrightarrow> reply_ok03 l (ResultReply rid (StreamR (ok_result r))) \<and> reads_event03 l (ok_result r) \<and>
      to_core_stream_response (r3_conv l) \<lparr>ok_id = None, ok_result = ok_result r\<rparr> = Inr (g r)"
  shows "read_stream03 l (map (\<lambda>r. (''message'', r3_text l (ResultReply rid (StreamR (ok_result r))))) rs @ es) =
    (let (ys, e) = read_stream03 l es in (map g rs @ ys, e))"
  using assms
proof (induction rs)
  case (Cons r rs)
  from Cons.prems [of r] have r: "reply_ok03 l (ResultReply rid (StreamR (ok_result r)))" "reads_event03 l (ok_result r)"
    "to_core_stream_response (r3_conv l) \<lparr>ok_id = None, ok_result = ok_result r\<rparr> = Inr (g r)" by simp_all
  have "event_of_data l (Inr (dumped l (StreamR (ok_result r)))) = Inr (Some (g r))"
    using read_event_back [OF r(2)] r(3) by (simp add: event_of_data_def dumped_def or_raised_def del: to_core_stream_response.simps)
  with r(1) Cons show ?case
    by (simp add: reply_ok03_def split_def Let_def del: to_core_stream_response.simps)
qed simp

lemma rpc03_streaming_end_to_end:
  assumes q: "reads_request03 l m q rid q'" "m \<in> set methods03" and v: "one_spelling ''a2a-version'' ps"
    and f: "stream_request03 (r3_handler l) (r3_conv l) q' (rpc03_context (r3_user l) ps) = Some f"
    and run: "f s = (s', rs, e)"
    and ok: "\<And>r. r \<in> set rs \<Longrightarrow> reply_ok03 l (ResultReply (Some rid) (StreamR (ok_result r))) \<and>
      reads_event03 l (ok_result r) \<and>
      to_core_stream_response (r3_conv l) \<lparr>ok_id = None, ok_result = ok_result r\<rparr> = Inr (g r)"
    and last: "\<And>x. e = Some x \<Longrightarrow> reply_ok03 l (ErrorReply (Some rid) (JE_INTERNAL (exn_text x)))"
  shows "rpc03_streaming l m (Inr q) rid ps s = (s', map g rs, map_option internal_view e)"
proof -
  let ?items = "sse_items03 (Some rid) rs e"
  have "r3_validate l m (request_body m (r3_params l q) rid) = Inr q'"
    using q(1) by (simp add: reads_request03_def Let_def)
  then have x: "rpc03_exchange l m q rid ps s = (s', Inr (EventStream ?items))"
    unfolding rpc03_exchange_adapter [OF q] adapter03_def
    by (simp add: rpc03_context_built f version_0_3_arrives [OF v] run)
  have "list_all (\<lambda>i. reply_ok03 l (snd i)) ?items"
    using ok last by (cases e) (auto simp: sse_items03_def list_all_iff)
  from parse_reply_lines03 [OF this] have p: "parse_sse ''message'' [] (reply_lines03 l ?items) =
      map (\<lambda>r. (''message'', r3_text l (ResultReply (Some rid) (StreamR (ok_result r))))) rs @
      (case e of None \<Rightarrow> [] | Some x \<Rightarrow> [(''message'', r3_text l (ErrorReply (Some rid) (JE_INTERNAL (exn_text x))))])"
    by (cases e) (simp_all add: sse_items03_def)
  have "read_stream03 l (case e of None \<Rightarrow> [] | Some x \<Rightarrow>
      [(''message'', r3_text l (ErrorReply (Some rid) (JE_INTERNAL (exn_text x))))]) = ([], map_option internal_view e)"
  proof (cases e)
    case (Some x)
    with last [OF Some] show ?thesis
      by (simp add: reply_ok03_def event_of_data_def internal_seen03 internal_view_def)
  qed simp
  with read_replies03 [OF ok, of rs] show ?thesis
    by (simp add: rpc03_streaming_def x stream_events03_def p)
qed

lemma stream_over_json_0_3:
  assumes k: "json_codec_ok (r3_conv l)" and rf: "send_request_free r" and v: "one_spelling ''a2a-version'' ps"
    and req: "j3_send_request l r = Inr q"
    and arrives: "reads_request03 l ''message/stream'' (Stream03 q) rid (Stream03 (q\<lparr>rq_id := i\<rparr>))"
    and core: "rh_message_send_stream (r3_handler l) (send_request_normal r) (rpc03_context (r3_user l) ps) s = (s', evs, e)"
    and ok: "\<And>ev. ev \<in> set evs \<Longrightarrow> stream_event_free ev \<and>
      to_compat_stream_response (r3_conv l) (stream_response_of ev) (Some i) = Inr (z ev) \<and>
      reply_ok03 l (ResultReply (Some rid) (StreamR (ok_result (z ev)))) \<and> reads_event03 l (ok_result (z ev))"
    and last: "\<And>x. e = Some x \<Longrightarrow> reply_ok03 l (ErrorReply (Some rid) (JE_INTERNAL (exn_text x)))"
  shows "j3_send_message_streaming l r rid ps s =
    (s', map (\<lambda>ev. StreamEvent (event_normal (the ev))) evs, map_option internal_view e)"
proof -
  have "to_core_send_message_request (r3_conv l) q = Inr (send_request_normal r)"
    by (rule send_request_back(1) [OF k rf req [unfolded j3_send_request_def]])
  then have q': "to_core_send_message_request (r3_conv l) (q\<lparr>rq_id := i\<rparr>) = Inr (send_request_normal r)"
    by (simp add: to_core_send_message_request_def)
  let ?f = "h03_message_send_stream (r3_handler l) (r3_conv l) (q\<lparr>rq_id := i\<rparr>) (rpc03_context (r3_user l) ps)"
  have run: "?f s = (s', map z evs, e)"
    using ok by (simp add: h03_message_send_stream_def stream_through_def q' core conv_stream_total [of evs _ z]
        del: to_compat_stream_response.simps)
  have core_event: "to_core_stream_response (r3_conv l) \<lparr>ok_id = None, ok_result = ok_result (z ev)\<rparr> =
      Inr (StreamEvent (event_normal (the ev)))" if "ev \<in> set evs" for ev
  proof (cases ev)
    case None
    with ok [OF that] show ?thesis by (simp add: stream_response_of_def)
  next
    case (Some x)
    with ok [OF that] have x: "event_free x" "to_compat_stream_response (r3_conv l) (StreamEvent x) (Some i) = Inr (z ev)"
      by (simp_all add: stream_event_free_def stream_response_of_def to_stream_response_def del: to_compat_stream_response.simps)
    have "to_core_stream_response (r3_conv l) \<lparr>ok_id = None, ok_result = ok_result (z ev)\<rparr> =
        to_core_stream_response (r3_conv l) (z ev)" by simp
    with stream_response_back(1) [OF k x] Some show ?thesis by simp
  qed
  let ?g = "\<lambda>w. projr (to_core_stream_response (r3_conv l) \<lparr>ok_id = None, ok_result = ok_result w\<rparr>)"
  have m: "''message/stream'' \<in> set methods03" by (simp add: methods03_def)
  have f: "stream_request03 (r3_handler l) (r3_conv l) (Stream03 (q\<lparr>rq_id := i\<rparr>)) (rpc03_context (r3_user l) ps) = Some ?f"
    by simp
  have "rpc03_streaming l ''message/stream'' (Inr (Stream03 q)) rid ps s = (s', map ?g (map z evs), map_option internal_view e)"
    by (rule rpc03_streaming_end_to_end [OF arrives m v f run])
      (use ok last core_event in \<open>auto simp del: to_core_stream_response.simps to_compat_stream_response.simps\<close>)
  moreover have "map ?g (map z evs) = map (\<lambda>ev. StreamEvent (event_normal (the ev))) evs"
    using core_event by (simp del: to_core_stream_response.simps)
  ultimately show ?thesis by (simp add: j3_send_message_streaming_def req)
qed

end
