(* ===== verification/Library_Examples.thy ===== *)
theory Library_Examples
  imports Wire_Examples Legacy_Laws Proto_Utils Signing Push_Url Compat_Grpc_Laws Compat_Rpc
begin

text \<open>
  Concrete libraries and data for the properties of signatures, canonical JSON, the older request
  handler, the protobuf utilities, REST and gRPC.
\<close>

subsection \<open>A JWS library with a table of the tokens that its keys signed\<close>

lemma b64_no_point: "\<forall>b \<in> set bs. b < 256 \<Longrightarrow> CHR ''.'' \<notin> set (b64encode bs)"
proof -
  have c: "b64_char n \<noteq> CHR ''.''" if "n < 64" for n
  proof -
    have "CHR ''.'' \<notin> set b64_alphabet" by (simp add: b64_alphabet_def)
    moreover have "b64_char n \<in> set b64_alphabet" using that by (simp add: b64_char_def length_b64_alphabet)
    ultimately show ?thesis by metis
  qed
  have bound: "b mod 16 * 4 + d div 64 < 64" if "d < 256" for b d :: nat
  proof -
    have "d div 64 < 4" "b mod 16 < 16" using that by auto
    then show ?thesis by linarith
  qed
  show "\<forall>b \<in> set bs. b < 256 \<Longrightarrow> CHR ''.'' \<notin> set (b64encode bs)"
  proof (induction bs rule: b64encode.induct)
    case (2 a)
    then show ?case using byte_halves [of a 0] by (auto dest!: c [OF _, THEN not_sym] simp: c [THEN not_sym])
  next
    case (3 a b)
    then show ?case using byte_halves [of a b] by (auto simp: c [THEN not_sym])
  next
    case (4 a b d rest)
    then show ?case using byte_halves [of a b] bound [of d b] by (auto simp: c [THEN not_sym])
  qed simp
qed

lemma split_dots_free: "CHR ''.'' \<notin> set a \<Longrightarrow> split_dots a = [a]"
  by (induction a) auto

lemma split_dots_append: "CHR ''.'' \<notin> set a \<Longrightarrow> split_dots (a @ CHR ''.'' # r) = a # split_dots r"
  by (induction a) auto

lemma split_dots_three:
  "CHR ''.'' \<notin> set a \<union> set b \<union> set c \<Longrightarrow> split_dots (a @ CHR ''.'' # b @ CHR ''.'' # c) = [a, b, c]"
  by (simp add: split_dots_append split_dots_free)

definition ex_header :: struct where
  "ex_header = [(to_ustr ''alg'', JStr (to_ustr ''HS256'')), (to_ustr ''kid'', JStr (to_ustr ''k1''))]"

definition ex_jws :: "string list \<Rightarrow> string jws_lib" where
  "ex_jws tokens = \<lparr>
     jw_encode = (\<lambda>bs key alg h. Inr (''h.'' @ b64encode bs @ ''.'' @ key)),
     jw_decode = (\<lambda>t key algs. if t \<in> set tokens then Inr () else Inl (PyJWTError ''Signature verification failed'')),
     jw_base64url_encode = b64encode,
     jw_base64url_decode = (\<lambda>s. Inr []),
     jw_json_loads = (\<lambda>s. Inr (JObj ex_header))\<rparr>"

definition ex_to_dict :: "agent_card \<Rightarrow> struct" where
  "ex_to_dict c = [(to_ustr ''name'', JStr (to_ustr (card_name c))), (to_ustr ''description'', JStr [])]"

definition ex_token :: string where
  "ex_token = ''h.'' @ b64encode (payload_bytes (projr (canonicalize_agent_card ex_to_dict ex_card))) @ ''.s''"

definition ex_signed_card :: agent_card where
  "ex_signed_card = ex_card\<lparr>card_signatures := [\<lparr>sig_protected = ''h'', sig_signature = ''s'', sig_header = None\<rparr>]\<rparr>"

lemmas canonical_eval = canonicalize_def to_ustr_def sorted_items_def utf16_be_def utf16_char_def MAX_DEPTH_def
  quote_def escape_char_def hex_char_def is_scalar_def is_surrogate_def utf8_char_def

lemma ex_payload: "canonicalize_agent_card ex_to_dict ex_card = Inr (to_ustr ''{\"name\":\"echo\"}'')"
  by (simp add: canonicalize_agent_card_def ex_to_dict_def ex_card_def drop_null_members_def canonical_eval)

lemma ex_base64: "base64url_ok (ex_jws tokens)"
proof -
  have "inj_on b64encode {bs. \<forall>b \<in> set bs. b < 256}"
  proof (rule inj_on_inverseI)
    fix bs :: "nat list" assume "bs \<in> {bs. \<forall>b \<in> set bs. b < 256}"
    then show "the (b64decode (b64encode bs)) = bs" using b64_roundtrip [of bs] by simp
  qed
  with b64_no_point show ?thesis by (simp add: base64url_ok_def ex_jws_def)
qed

lemma ex_to_dict_ok: "to_dict_ok ex_to_dict"
  by (simp add: to_dict_ok_def ex_to_dict_def)

lemma ex_content: "content_ok ex_to_dict c"
proof -
  have "to_ustr ''name'' \<noteq> to_ustr ''signatures''" "to_ustr ''description'' \<noteq> to_ustr ''signatures''" by simp_all
  then show ?thesis
    by (auto simp: content_ok_def signed_content_def ex_to_dict_def MAX_DEPTH_def drop_null_members_def dict_ok_def
        intro: json_ok.intros split: sum.split)
qed

subsection \<open>Calls of the older handler\<close>

definition ex_follow_up :: send_message_request where
  "ex_follow_up = ex_send\<lparr>smr_message := Some ((ex_message ''m2'' ''and then?'')
     \<lparr>message_task_id := ''t1'', message_context_id := ''c1''\<rparr>)\<rparr>"

definition ex_done :: event where
  "ex_done = TaskEv (StatusUpdate (ex_status TASK_STATE_COMPLETED None))"

definition ex_busy :: event where
  "ex_busy = TaskEv (StatusUpdate (ex_status TASK_STATE_WORKING None))"

fun task_reply :: "'p \<times> 's \<times> legacy_state \<times> (legacy_exn + event) option \<Rightarrow> bool" where
  "task_reply (p, s, lg, Some (Inr (TaskEv (TaskObj u)))) = True"
| "task_reply _ = False"

lemma task_replyD: "task_reply x \<Longrightarrow> \<exists>p s lg u. x = (p, s, lg, Some (Inr (TaskEv (TaskObj u))))"
  by (cases x rule: task_reply.cases) auto

fun rest_of :: "('a \<times> event list option) outcome \<Rightarrow> event list option" where
  "rest_of (Returned (x, rest)) = rest"
| "rest_of _ = None"

subsection \<open>Unicode\<close>

definition ex_unicode :: unicode where
  "ex_unicode = \<lparr>un_isdigit = (\<lambda>c. 48 \<le> c \<and> c < 58), un_decimal = (\<lambda>c. if 48 \<le> c \<and> c < 58 then Some (c - 48) else None)\<rparr>"

lemma ex_unicode_ok: "unicode_ok ex_unicode"
  by (simp add: unicode_ok_def ex_unicode_def list_all_iff)

subsection \<open>REST\<close>

definition ex_rest :: rest_codec where
  "ex_rest = \<lparr>
     sc_send = (\<lambda>s. Inl RestOther), sc_config = (\<lambda>s. Inl RestOther),
     sc_get = (\<lambda>ps. Inr \<lparr>gt_tenant = [], gt_id = [], gt_history_length =
       (case ps of (k, OneValue v) # _ \<Rightarrow> Some (str_int v) | _ \<Rightarrow> None)\<rparr>),
     sc_list = (\<lambda>ps. Inl RestOther), sc_list_push = (\<lambda>ps. Inl RestOther)\<rparr>"

subsection \<open>gRPC\<close>

definition ex_unexpected :: "exn \<Rightarrow> string" where
  "ex_unexpected e = ''Unexpected '' @ exn_text e"

definition ex_grpc03 :: "nat grpc_client03" where
  "ex_grpc03 = (ex_unexpected, \<lambda>md. Inr (default_grpc_build md), ex_rh, ex_json)"

text \<open>A server that takes subscriptions with GET only.\<close>

definition ex_get_only :: "string \<Rightarrow> nat \<Rightarrow> nat \<times> nat list \<times> (bool \<times> client_error) option" where
  "ex_get_only m n = (if m = ''GET'' then (n + 1, [n], None) else (n + 1, [], Some (True, ClientError ''405'')))"

subsection \<open>A connection of protocol 0.3 over JSON-RPC\<close>

text \<open>The libraries know one request and one message.\<close>

definition ex_send03 :: send_request03 where
  "ex_send03 = projr (to_compat_send_message_request ex_json ex_send (IdInt 0))"

definition ex_link :: "(nat \<times> nat, nat) rpc03_link" where
  "ex_link = \<lparr>
     r3_lib = ex_versions, r3_handler = ex_rh, r3_rpc = ex_rpc, r3_conv = ex_json,
     r3_validate = (\<lambda>m j. Inr (Send03 (ex_send03\<lparr>rq_id := IdStr ''r1''\<rparr>))),
     r3_user = Some ''alice'', r3_params = (\<lambda>q. JObj []),
     r3_dump = (\<lambda>x. JObj [(to_ustr ''kind'', named ''message'')]),
     r3_text = (\<lambda>r. ''reply''), r3_read = (\<lambda>s. None), r3_neither = ValueError ''Either result or error should be used'',
     r3_task = (\<lambda>j. Inl (ValueError ''Task'')),
     r3_message = (\<lambda>j. to_compat_message ex_json ex_note),
     r3_status = (\<lambda>j. Inl (ValueError ''TaskStatusUpdateEvent'')),
     r3_artifact = (\<lambda>j. Inl (ValueError ''TaskArtifactUpdateEvent'')),
     r3_config = (\<lambda>j. Inl (ValueError ''TaskPushNotificationConfig'')),
     r3_card = (\<lambda>j. Inl (ValueError ''AgentCard''))\<rparr>"

subsection \<open>A card with a security scheme, and one of protocol 0.3\<close>

definition ex_secured_card :: agent_card where
  "ex_secured_card = ex_card\<lparr>
     card_security_schemes := [(''token'', Some (HttpAuthS \<lparr>has_description = [], has_scheme = ''Bearer'', has_bearer_format = []\<rparr>))],
     card_security_requirements := [[(''token'', [])]]\<rparr>"

definition ex_old_card :: struct where
  "ex_old_card =
     [(to_ustr ''name'', named ''echo''), (to_ustr ''url'', named ''http://old''),
      (to_ustr ''supportsAuthenticatedExtendedCard'', JBool True),
      (to_ustr ''security'', JArr [JObj [(to_ustr ''key'', JArr [])]]),
      (to_ustr ''securitySchemes'', JObj [(to_ustr ''key'', JObj [(to_ustr ''type'', named ''apiKey''), (to_ustr ''in'', named ''header'')])]),
      (to_ustr ''skills'', JArr [JObj [(to_ustr ''id'', named ''s1''), (to_ustr ''security'', JArr [])]])]"

end
