(* ===== verification/Spec2Isabelle.thy ===== *)
theory Spec2Isabelle
  imports Library_Examples
begin

text \<open>
  The A2A Python SDK (\<^verbatim>\<open>src/src/a2a\<close>): the server, which answers the protocol's requests about tasks
  and messages, the agent whose events they start and the state that is kept between them; the
  client; the conversions to protocol 0.3; and agent cards with their signatures.

  How the parts interact. A client's call passes its interceptors and a transport. On the server the
  JSON-RPC endpoint reads the request, checks the version, and calls a request handler, directly or
  through the conversions of protocol 0.3. For a message \<^verbatim>\<open>DefaultRequestHandlerV2\<close> builds a
  \<^verbatim>\<open>RequestContext\<close> and asks the \<^verbatim>\<open>ActiveTaskRegistry\<close> for the task's \<^verbatim>\<open>ActiveTask\<close>. That object runs
  two coroutines: a producer, which runs the agent for one request after the other, and a
  consumer (\<^verbatim>\<open>EventConsumer\<close>), which takes the agent's events, checks their order, hands them to the
  \<^verbatim>\<open>TaskManager\<close>, and passes each event with the task as it is then to the subscribers and to the
  push sender. The manager applies an event to the task and saves it in the \<^verbatim>\<open>TaskStore\<close>. The agent
  makes its events with a \<^verbatim>\<open>TaskUpdater\<close>. The requests that read or list tasks go from the handler
  to the store, those about push notifications to the \<^verbatim>\<open>PushNotificationConfigStore\<close>. The older
  handler has the same stores and manager, with an aggregator and a queue for each task.

  Theories, each with the files it models.
  \<^item> \<^verbatim>\<open>A2A_Prelude\<close>: strings, dictionaries as association lists, slices, stable sorting, sums.
  \<^item> \<^verbatim>\<open>A2A_Types\<close>: the protocol messages (\<^verbatim>\<open>types/a2a_pb2\<close>) as records, task states, events, the call
    context. A field with presence is an option, a string field a text that is empty when unset.
    \<^verbatim>\<open>Agent_Card\<close>: the messages of a card and \<^verbatim>\<open>helpers/agent_card.py\<close>.
  \<^item> \<^verbatim>\<open>A2A_Errors\<close> (\<^verbatim>\<open>utils/errors.py\<close>, \<^verbatim>\<open>utils/error_handlers.py\<close>): the exceptions and the tables of
    codes and reasons. An operation that can raise returns \<open>exn + 'a\<close>, \<open>Inl\<close> the exception.
  \<^item> \<^verbatim>\<open>Page_Token\<close> (\<^verbatim>\<open>utils/task.py\<close>): UTF-8, base64 and the tokens; \<^verbatim>\<open>Task_List\<close>: history limits, page sizes,
    filters, the order of a listing and its pages.
  \<^item> \<^verbatim>\<open>Task_Store\<close> (\<^verbatim>\<open>server/tasks/inmemory_task_store.py\<close>): the store as a dictionary of owners and the
    locale \<open>task_store\<close>, the contract every client relies on. \<^verbatim>\<open>Copying_Store\<close>
    (\<^verbatim>\<open>server/tasks/copying_task_store.py\<close>): both on a heap, where tasks are addresses and a client may
    change the objects it holds. \<^verbatim>\<open>Database_Store\<close> (\<^verbatim>\<open>server/tasks/database_task_store.py\<close>,
    \<^verbatim>\<open>server/tasks/database_push_notification_config_store.py\<close>): rows, conversions and statements.
  \<^item> \<^verbatim>\<open>Task_Manager\<close> (\<^verbatim>\<open>server/tasks/task_manager.py\<close>), \<^verbatim>\<open>Task_Updater\<close> (\<^verbatim>\<open>server/tasks/task_updater.py\<close>),
    \<^verbatim>\<open>Proto_Helpers\<close> (\<^verbatim>\<open>helpers/proto_helpers.py\<close>).
  \<^item> \<^verbatim>\<open>Push_Store\<close> (\<^verbatim>\<open>server/tasks/inmemory_push_notification_config_store.py\<close> and the sender), with
    the locale \<open>push_store\<close>.
  \<^item> \<^verbatim>\<open>Request_Context\<close> (\<^verbatim>\<open>server/agent_execution/context.py\<close> and its builder).
  \<^item> \<^verbatim>\<open>Event_Queue\<close> (\<^verbatim>\<open>server/events/event_queue_v2.py\<close>): a source, its dispatcher and its sinks, each
    stretch of code between two awaits an action.
  \<^item> \<^verbatim>\<open>Event_Consumer\<close>, \<^verbatim>\<open>Active_Task\<close> (\<^verbatim>\<open>server/agent_execution/active_task.py\<close>): the consumer on the
    sequence of events it dequeues, and the operations of the active task; \<^verbatim>\<open>Task_System\<close>: producer and
    consumer as a transition system with the request queue, the event queue and the request lock.
  \<^item> \<^verbatim>\<open>Handlers\<close> (\<^verbatim>\<open>server/request_handlers/default_request_handler_v2.py\<close>,
    \<^verbatim>\<open>server/agent_execution/active_task_registry.py\<close>): the handler and the registry. \<^verbatim>\<open>Handler_Laws\<close>: the
    locale \<open>server\<close>, the two store contracts together, with the handler's lemmas.
  \<^item> \<^verbatim>\<open>Legacy_Queue\<close> (\<^verbatim>\<open>server/events/event_queue.py\<close>, \<^verbatim>\<open>server/events/in_memory_queue_manager.py\<close>): a
    queue with its taps as a tree, and the locale \<open>queue_manager\<close>; \<^verbatim>\<open>Legacy_Handler\<close>
    (\<^verbatim>\<open>server/request_handlers/default_request_handler.py\<close>, \<^verbatim>\<open>server/tasks/result_aggregator.py\<close>,
    \<^verbatim>\<open>server/events/event_consumer.py\<close>) and \<^verbatim>\<open>Legacy_Laws\<close>: the older handler over any store.
  \<^item> \<^verbatim>\<open>Versions\<close> (\<^verbatim>\<open>utils/version_validator.py\<close>, \<^verbatim>\<open>utils/constants.py\<close>): which version a caller speaks.
  \<^item> \<^verbatim>\<open>Compat_Types\<close>, \<^verbatim>\<open>Compat_Conversions\<close>, \<^verbatim>\<open>Compat_Laws\<close>, \<^verbatim>\<open>Compat_Cards\<close>, \<^verbatim>\<open>Compat_Handler\<close>
    (\<^verbatim>\<open>compat/v0_3\<close>): the types of protocol 0.3, both conversions, the normal forms up to which they
    are inverse, cards, and the handler that serves older callers.
  \<^item> \<^verbatim>\<open>Jsonrpc\<close> (\<^verbatim>\<open>server/routes/jsonrpc_dispatcher.py\<close>, \<^verbatim>\<open>compat/v0_3/jsonrpc_adapter.py\<close>): the endpoint.
  \<^item> \<^verbatim>\<open>Client\<close> (\<^verbatim>\<open>client/base_client.py\<close>, \<^verbatim>\<open>client/client_factory.py\<close>), \<^verbatim>\<open>Client_Rpc\<close>
    (\<^verbatim>\<open>client/transports/jsonrpc.py\<close>, \<^verbatim>\<open>client/transports/http_helpers.py\<close>): interceptors, the choice of a
    transport, server-sent events, and a call through both sides. \<^verbatim>\<open>Rest\<close>
    (\<^verbatim>\<open>server/routes/rest_dispatcher.py\<close>, \<^verbatim>\<open>server/routes/rest_routes.py\<close>, \<^verbatim>\<open>client/transports/rest.py\<close>) and
    \<^verbatim>\<open>Rest_Laws\<close>: the same over REST. \<^verbatim>\<open>Grpc\<close> (\<^verbatim>\<open>server/request_handlers/grpc_handler.py\<close>,
    \<^verbatim>\<open>utils/grpc_status.py\<close>, \<^verbatim>\<open>client/transports/grpc.py\<close>): the same over gRPC, where an error is a status
    with details. \<^verbatim>\<open>Client_Calls\<close> (\<^verbatim>\<open>client/transports/base.py\<close>,
    \<^verbatim>\<open>client/transports/tenant_decorator.py\<close>): every call over JSON-RPC, the interface of a transport and
    its tenant, and the client's calls on it.
  \<^item> \<^verbatim>\<open>Client_Auth\<close> (\<^verbatim>\<open>client/service_parameters.py\<close>, \<^verbatim>\<open>client/auth/credentials.py\<close>,
    \<^verbatim>\<open>client/auth/interceptor.py\<close>): the parameters of a call and the credentials in them.
    \<^verbatim>\<open>Card_Resolver\<close> (\<^verbatim>\<open>client/card_resolver.py\<close>): fetching a card, and the keys of older cards.
  \<^item> \<^verbatim>\<open>Compat_Rpc\<close> (\<^verbatim>\<open>compat/v0_3/jsonrpc_transport.py\<close>): the client of protocol 0.3 over JSON-RPC, its
    headers, the kind of a result, and calls and streams through to the endpoint.
  \<^item> \<^verbatim>\<open>Compat_Proto\<close>, \<^verbatim>\<open>Compat_Proto_Cards\<close> (\<^verbatim>\<open>compat/v0_3/proto_utils.py\<close>): the protobuf messages of
    protocol 0.3 and the conversions between them and the types of 0.3; \<^verbatim>\<open>Compat_Proto_Laws\<close>: what
    passes them (\<open>passes\<close>), and what is left of a 1.0 value after both conversions (\<open>task_over_proto\<close>
    and its like). \<^verbatim>\<open>Compat_Rest\<close>, \<^verbatim>\<open>Compat_Rest_Laws\<close> (\<^verbatim>\<open>compat/v0_3/rest_handler.py\<close>,
    \<^verbatim>\<open>compat/v0_3/rest_adapter.py\<close>, \<^verbatim>\<open>compat/v0_3/rest_transport.py\<close>) and \<^verbatim>\<open>Compat_Grpc\<close>,
    \<^verbatim>\<open>Compat_Grpc_Laws\<close> (\<^verbatim>\<open>compat/v0_3/grpc_handler.py\<close>, \<^verbatim>\<open>compat/v0_3/grpc_transport.py\<close>): both bindings that
    speak these messages, server and client.
  \<^item> \<^verbatim>\<open>Push_Url\<close> (\<^verbatim>\<open>utils/push_url_validator.py\<close>): which URLs notifications may be posted to.
  \<^item> \<^verbatim>\<open>Jcs\<close> (\<^verbatim>\<open>utils/_jcs.py\<close>), \<^verbatim>\<open>Jcs_Laws\<close>, \<^verbatim>\<open>Jcs_Canon\<close>: canonical JSON, the texts of numbers, and what
    a canonical text determines. \<^verbatim>\<open>Signing\<close> (\<^verbatim>\<open>utils/signing.py\<close>): signatures of cards.
  \<^item> \<^verbatim>\<open>Proto_Utils\<close> (\<^verbatim>\<open>utils/proto_utils.py\<close>): large integers, query parameters, required fields.
  \<^item> \<^verbatim>\<open>Examples\<close>, \<^verbatim>\<open>Wire_Examples\<close>, \<^verbatim>\<open>Library_Examples\<close>: the concrete values of the witnesses.

  What the lemmas show. A manager is coherent (\<open>tm_coherent\<close>) when its cached task is the stored one;
  every operation keeps it so and changes no other task. An active task is ok (\<open>at_ok\<close>) when its
  manager is coherent and belongs to it; every event the consumer accepts keeps it so. On these two
  rest the theorems about sequences of events; the older handler starts from the weaker \<open>tm_bound\<close>,
  which one event makes coherent. The store contract is discharged for the in-memory store by \<open>ims\<close>,
  the push store's by \<open>pcs\<close>, both by \<open>a2a\<close>, that of the queue manager by \<open>imq\<close>; the theorems below
  are about these instances. The database stores are related to the in-memory ones by a simulation.
  The invariant \<open>sy_ok\<close> of the transition system says that the lock is held exactly from a request's
  start to its end. The conversions are inverse up to the normal forms that \<^verbatim>\<open>Compat_Laws\<close> defines.
  The canonical text is the rendering of \<open>canon_of\<close>, the content of a value, and rendering is
  injective. An error that the gRPC servicer aborts with is read back by the client
  (\<open>abort_seen\<close>, \<open>failure_seen03\<close>), so a call through both ends is the handler's call and a view of its
  outcome (\<open>call_unary_end_to_end\<close>, over JSON-RPC \<open>rpc_unary_end_to_end\<close> and \<open>rpc03_unary_end_to_end\<close>).

  Parameters. What is not under \<open>src/\<close> is an argument: \<open>tjs\<close> is the JSON text of a timestamp,
  \<open>from_iso\<close> the parser of ISO times, generated ids are arguments, the answers of the HTTP client and
  of the URL check are functions, the list of missing required fields is an argument, and
  \<open>settle\<close> is what the coroutines of a task do between its cancellation and its end. Libraries are
  records of their operations: \<open>orm_codec\<close> for the columns of the database, \<open>json_codec\<close>, \<open>rpc_codec\<close>, \<open>rest_codec\<close>,
  \<open>rest03_codec\<close> and \<open>rest03_reader\<close> for protobuf's and pydantic's JSON, \<open>version_lib\<close> for \<^verbatim>\<open>packaging.version\<close>, \<open>wire\<close>, \<open>rpc_link\<close>, \<open>rpc03_link\<close> and \<open>rest_wire\<close> for the texts
  on the connection, \<open>net_lib\<close> for URLs and addresses, \<open>jws_lib\<close> for \<^verbatim>\<open>jwt\<close>, \<open>unicode\<close> for the digits of Unicode. What is assumed of them is a
  predicate of their own (\<open>json_codec_ok\<close>, \<open>version_lib_ok\<close>, \<open>base64url_ok\<close>, and so on).

  Fuel. Only \<open>collect_pages\<close>, the client that follows the page tokens, takes fuel: one call for each
  task and one more are enough, as \<open>pagination_complete\<close> shows.

  Not modelled: \<^verbatim>\<open>grpc.aio\<close> and \<^verbatim>\<open>httpx\<close> themselves (a gRPC message arrives as it was sent, time limits do
  not run out), database migrations, the OpenAPI schemas, telemetry and generated code; sessions and the creation
  of tables of the database; the awaits inside an operation, where the code holds a lock.
\<close>

section \<open>The task manager\<close>

text \<open>C1: saving an event of a task keeps the manager's cached task equal to the stored one,
  whether the event is accepted or refused; it changes no other task and no other owner's task
  in the store; and an accepted event's result is what the store then returns to the caller.\<close>

theorem save_event_coherent:
  assumes "tm_coherent (ims_ops r) ims_ok tm" "event_task_id ev \<noteq> []"
    and "tm_save_task_event (ims_ops r) ev tm = (tm', res)"
  shows "tm_coherent (ims_ops r) ims_ok tm' \<and>
    (\<forall>i c. r c \<noteq> r (tm_call_context tm) \<or> i \<noteq> event_task_id ev \<longrightarrow>
       ims_get r i c (tm_store tm') = ims_get r i c (tm_store tm)) \<and>
    (\<forall>t. res = Inr t \<longrightarrow> ims_get r (event_task_id ev) (tm_call_context tm) (tm_store tm') = Some t)"
proof -
  have fr: "ims.tm_frame r tm (event_task_id ev) tm'"
    and cur: "res = Inr t \<Longrightarrow> tm_current_task tm' = Some t \<and> task_id t = event_task_id ev" for t
    using ims.save_task_event_spec [OF assms] by auto
  show ?thesis
    using fr cur by (auto simp: ims.tm_frame_def tm_coherent_def)
qed

theorem save_event_coherent_witness:
  "\<exists>tm' t. tm_save_task_event (ims_ops rus) (StatusUpdate (ex_status TASK_STATE_COMPLETED None)) ex_tm = (tm', Inr t) \<and>
    task_state_of t = TASK_STATE_COMPLETED \<and> ims_get rus ''t1'' alice (tm_store tm') = Some t"
proof -
  let ?ev = "StatusUpdate (ex_status TASK_STATE_COMPLETED None)"
  have "\<not> isl (snd (tm_save_task_event (ims_ops rus) ?ev ex_tm))" by code_simp
  from pair_Inr [OF this] obtain tm' t where run: "tm_save_task_event (ims_ops rus) ?ev ex_tm = (tm', Inr t)"
    by blast
  have st: "task_state_of t = TASK_STATE_COMPLETED"
    using ims.save_task_event_result [OF ex_tm_coherent ex_tm_view run] by simp
  from save_event_coherent [OF ex_tm_coherent _ run] st run show ?thesis by auto
qed

text \<open>C2: over any sequence of update events that a manager accepts, no message of the task is
  lost or reordered: the conversation (the history, then the message of the current status) of
  the resulting task is the old conversation followed by the messages of the events.\<close>

theorem conversation_preserved:
  assumes "tm_coherent (ims_ops r) ims_ok tm" "tm_view (ims_ops r) tm = Some t"
    and "list_all (is_update_of (task_id t)) evs"
    and "tm_process_all (ims_ops r) evs tm = (tm', None)"
  shows "\<exists>t'. tm_view (ims_ops r) tm' = Some t' \<and>
    conversation t' = conversation t @ concat (map event_messages evs)"
  using ims.process_all_conversation [OF assms(1,2) _ assms(4)] assms(3) by (auto simp: list_all_iff)

theorem conversation_preserved_witness:
  "\<exists>tm' t'. tm_process_all (ims_ops rus)
      [TaskEv (StatusUpdate (ex_status TASK_STATE_WORKING (Some (ex_message ''m2'' ''a'')))),
       TaskEv (StatusUpdate (ex_status TASK_STATE_COMPLETED (Some (ex_message ''m3'' ''b''))))] ex_tm = (tm', None) \<and>
    tm_view (ims_ops rus) tm' = Some t' \<and>
    map message_id (conversation t') = [''m1'', ''m2'', ''m3'']"
proof -
  let ?evs = "[TaskEv (StatusUpdate (ex_status TASK_STATE_WORKING (Some (ex_message ''m2'' ''a'')))),
       TaskEv (StatusUpdate (ex_status TASK_STATE_COMPLETED (Some (ex_message ''m3'' ''b''))))]"
  have "Option.is_none (snd (tm_process_all (ims_ops rus) ?evs ex_tm))" by code_simp
  from pair_None [OF this] obtain tm' where run: "tm_process_all (ims_ops rus) ?evs ex_tm = (tm', None)"
    by blast
  have "conversation ex_task = [ex_message ''m1'' ''hello'']"
    by (simp add: conversation_def status_messages_def task_status_of_def ex_task_def new_task_def
        empty_task_def empty_status_def)
  with conversation_preserved [OF ex_tm_coherent ex_tm_view _ run] run show ?thesis
    by (auto simp: ex_message_def empty_message_def)
qed

text \<open>C3: text streamed as artifact chunks is reassembled: the first chunk (\<^verbatim>\<open>append=False\<close>)
  opens the artifact, the following ones (\<^verbatim>\<open>append=True\<close>) extend it, no chunk is refused, no
  other artifact changes, and the text of the stored artifact is the concatenation.\<close>

theorem chunks_reassembled:
  assumes "aid \<noteq> []"
  shows "\<exists>t1 t' a'.
    append_artifact_to_task t (new_text_artifact_update_event u i c n s False l (Some aid)) = Inr t1 \<and>
    append_all t1 (map (\<lambda>s. new_text_artifact_update_event u i c n s True l (Some aid)) ss) = Inr t' \<and>
    find_artifact aid t' = Some a' \<and> get_artifact_text a' [] = concat (s # ss) \<and>
    (\<forall>b. b \<noteq> aid \<longrightarrow> find_artifact b t' = find_artifact b t)"
  using assms by (rule streamed_text)

theorem chunks_reassembled_witness:
  "\<exists>t1 t' a'.
    append_artifact_to_task ex_task (new_text_artifact_update_event [] ''t1'' ''c1'' ''n'' ''ab'' False False (Some ''x'')) = Inr t1 \<and>
    append_all t1 (map (\<lambda>s. new_text_artifact_update_event [] ''t1'' ''c1'' ''n'' s True False (Some ''x'')) [''cd'', ''ef'']) = Inr t' \<and>
    find_artifact ''x'' t' = Some a' \<and> get_artifact_text a' [] = ''abcdef''"
  using chunks_reassembled [of "''x''" ex_task "[]" "''t1''" "''c1''" "''n''" "''ab''" False "[''cd'', ''ef'']"]
  by fastforce

text \<open>A chunk that appends to an artifact the task does not have is refused with
  \<^verbatim>\<open>InvalidAgentResponseError\<close>, and the manager stores nothing.\<close>

theorem append_to_missing_artifact:
  assumes "tm_coherent (ims_ops r) ims_ok tm" "tm_view (ims_ops r) tm = Some t"
    and "ae_task_id e = task_id t" "ae_context_id e = task_context_id t"
    and "tm_context_id tm = Some (task_context_id t)"
    and "ae_append e" "find_artifact (artifact_id (ae_artifact_of e)) t = None"
  shows "\<exists>tm'. tm_save_task_event (ims_ops r) (ArtifactUpdate e) tm =
      (tm', Inl (A2A (err InvalidAgentResponseError))) \<and> tm_store tm' = tm_store tm"
proof -
  have id: "tm_task_id tm = Some (task_id t)" "task_id t \<noteq> []"
    using ims.coherent_view [OF assms(1,2)] by simp_all
  obtain tm1 x where chk: "tm_ids_check (ArtifactUpdate e) tm = (tm1, x)" by force
  have "snd (tm_ids_check (ArtifactUpdate e) tm) = None"
    using id assms(3-5) by (simp add: tm_ids_check_accepts)
  then have x: "x = None" using chk by simp
  have "tm_view (ims_ops r) tm1 = Some t" by (rule ims.ids_check_view [OF assms(1,2) chk])
  then show ?thesis
    using chk append_artifact_missing [OF assms(6,7)] tm_ids_check_frame(1) [OF chk]
    by (simp add: tm_save_task_event_def x tm_ensure_task_id_eq)
qed

theorem append_to_missing_artifact_witness:
  "\<exists>tm'. tm_save_task_event (ims_ops rus)
      (ArtifactUpdate (new_text_artifact_update_event [] ''t1'' ''c1'' ''n'' ''ab'' True False (Some ''x''))) ex_tm =
      (tm', Inl (A2A (err InvalidAgentResponseError))) \<and> tm_store tm' = ex_store"
proof -
  let ?e = "new_text_artifact_update_event [] ''t1'' ''c1'' ''n'' ''ab'' True False (Some ''x'')"
  have "ae_task_id ?e = ''t1''" "ae_context_id ?e = ''c1''"
    by (simp_all add: new_text_artifact_update_event_def artifact_update_def)
  then show ?thesis
    using append_to_missing_artifact [OF ex_tm_coherent ex_tm_view, of ?e]
    by (simp add: find_artifact_def)
qed

section \<open>The consumer of the agent's events\<close>

text \<open>C4: what a fresh consumer accepts: a stream of agent events that it processes without an
  exception is one \<^verbatim>\<open>Message\<close> and nothing else, or contains no \<^verbatim>\<open>Message\<close> at all.\<close>

theorem consumer_discipline:
  assumes "at_task_mode a = None" "ec_process_all ops evs a = Some a'"
  shows "(\<exists>m. agent_events evs = [MessageEv m]) \<or> filter is_message (agent_events evs) = []"
  using process_all_discipline [OF assms(2)] assms(1) by (auto simp: filter_empty_conv)

theorem consumer_discipline_witness:
  "\<exists>a'. ec_process_all (ims_ops rus) [ex_update TASK_STATE_WORKING, ex_update TASK_STATE_COMPLETED] ex_active = Some a' \<and>
    filter is_message (agent_events [ex_update TASK_STATE_WORKING, ex_update TASK_STATE_COMPLETED]) = []"
proof -
  let ?evs = "[ex_update TASK_STATE_WORKING, ex_update TASK_STATE_COMPLETED]"
  have "\<not> Option.is_none (ec_process_all (ims_ops rus) ?evs ex_active)" by code_simp
  from not_none [OF this] obtain a' where run: "ec_process_all (ims_ops rus) ?evs ex_active = Some a'"
    by blast
  from consumer_discipline [OF ex_active_simps(3) run] run show ?thesis
    by (simp add: ex_update_def)
qed

text \<open>C5: every task event that the consumer processes is delivered to the subscribers with a
  snapshot that is, at that moment, the manager's task and the task that the store returns to
  the manager's caller; the consumer's invariant holds again afterwards.\<close>

theorem snapshot_is_stored:
  assumes "at_ok (ims_ops r) ims_ok a"
    and "ec_process_event (ims_ops r) (AgentEv (TaskEv te)) a = (a', None)"
  shows "at_ok (ims_ops r) ims_ok a' \<and>
    (\<exists>u. at_subscribers a' = at_subscribers a @ [(AgentEv (TaskEv te), Some u)] \<and>
       at_view (ims_ops r) a' = Some u \<and>
       ims_get r (at_task_id a') (tm_call_context (at_task_manager a')) (tm_store (at_task_manager a')) = Some u)"
  using ims.process_event_ok [OF assms] by simp

theorem snapshot_is_stored_witness:
  "\<exists>a' u. ec_process_event (ims_ops rus) (ex_update TASK_STATE_COMPLETED) ex_active = (a', None) \<and>
    at_subscribers a' = [(ex_update TASK_STATE_COMPLETED, Some u)] \<and>
    ims_get rus (at_task_id a') (tm_call_context (at_task_manager a')) (tm_store (at_task_manager a')) = Some u"
proof -
  have "Option.is_none (snd (ec_process_event (ims_ops rus) (ex_update TASK_STATE_COMPLETED) ex_active))"
    by code_simp
  from pair_None [OF this] obtain a' where
    "ec_process_event (ims_ops rus) (ex_update TASK_STATE_COMPLETED) ex_active = (a', None)"
    by blast
  with snapshot_is_stored [OF ex_active_ok, of "StatusUpdate (ex_status TASK_STATE_COMPLETED None)" a']
  show ?thesis by (auto simp: ex_update_def)
qed

text \<open>C6: the message of a request is recorded exactly once. When the consumer handles an
  update event, the conversation of the task (the stored one, or the new one that an artifact
  event without a task creates) grows by the pending message of the request, unless a message
  with its id is in the history, and then by the event's own message; afterwards no message
  is pending, and the event was one of this active task.\<close>

theorem request_message_recorded:
  assumes "at_ok (ims_ops r) ims_ok a" "\<And>t. te \<noteq> TaskObj t"
    and "ec_handle_task_modification_event (ims_ops r) te a = (a', None)"
  shows "at_message_to_save a' = None \<and> event_task_id te = at_task_id a \<and>
    (\<exists>t'. at_view (ims_ops r) a' = Some t' \<and>
       conversation t' = conversation (base_task (ims_ops r) a te) @
         pending_messages (at_message_to_save a) (base_task (ims_ops r) a te) @ event_messages (TaskEv te))"
  using ims.modification_ok [OF assms] by auto

theorem request_message_recorded_witness:
  "\<exists>a' t'. ec_handle_task_modification_event (ims_ops rus) (StatusUpdate (ex_status TASK_STATE_WORKING None))
      (ex_active\<lparr>at_message_to_save := Some (ex_message ''m2'' ''more'')\<rparr>) = (a', None) \<and>
    at_view (ims_ops rus) a' = Some t' \<and> map message_id (conversation t') = [''m1'', ''m2'']"
proof -
  let ?te = "StatusUpdate (ex_status TASK_STATE_WORKING None)"
  let ?a = "ex_active\<lparr>at_message_to_save := Some (ex_message ''m2'' ''more'')\<rparr>"
  have "Option.is_none (snd (ec_handle_task_modification_event (ims_ops rus) ?te ?a))" by code_simp
  from pair_None [OF this] obtain a' where
    run: "ec_handle_task_modification_event (ims_ops rus) ?te ?a = (a', None)"
    by blast
  have ok: "at_ok (ims_ops rus) ims_ok ?a" and v: "at_view (ims_ops rus) ?a = Some ex_task"
    by (simp_all add: at_ok_def at_view_def)
  have "conversation ex_task = [ex_message ''m1'' ''hello'']"
    by (simp add: conversation_def status_messages_def task_status_of_def ex_task_def new_task_def
        empty_task_def empty_status_def)
  with request_message_recorded [OF ok _ run] run v show ?thesis
    by (auto simp: base_task_def pending_messages_def ex_message_def empty_message_def)
qed



text \<open>An exception in message mode while the task exists in a non-terminal state is lost.
  The \<open>except\<close> branch of the consumer raises again, so the subscribers get neither the
  exception nor a status, and the stored task stays as it was.\<close>

theorem failure_in_message_mode_lost:
  assumes "at_ok (ims_ops r) ims_ok a" "at_view (ims_ops r) a = Some t"
    and "task_state_of t \<notin> TERMINAL_TASK_STATES" "at_task_mode a = Some False"
  shows "\<exists>a'. ec_fail (ims_ops r) e a = (a', Some (A2A (err InvalidAgentResponseError))) \<and>
    at_subscribers a' = at_subscribers a \<and> at_view (ims_ops r) a' = Some t \<and>
    tm_store (at_task_manager a') = tm_store (at_task_manager a)"
  using ims.fail_in_message_mode [OF assms] .

theorem failure_in_message_mode_lost_witness:
  "\<exists>a'. ec_fail (ims_ops rus) (AgentException ''boom'') (ex_active\<lparr>at_task_mode := Some False\<rparr>) =
      (a', Some (A2A (err InvalidAgentResponseError))) \<and> at_subscribers a' = []"
proof -
  have "at_ok (ims_ops rus) ims_ok (ex_active\<lparr>at_task_mode := Some False\<rparr>)"
    "at_view (ims_ops rus) (ex_active\<lparr>at_task_mode := Some False\<rparr>) = Some ex_task"
    by (simp_all add: at_ok_def at_view_def)
  from failure_in_message_mode_lost [OF this, of "AgentException ''boom''"] show ?thesis
    by (auto simp: TERMINAL_TASK_STATES_def)
qed

text \<open>A terminal state is not final for the consumer: an agent that goes on emitting
  status updates after a terminal one is not refused, and the later state is stored.\<close>

theorem update_after_terminal_accepted:
  assumes "at_ok (ims_ops r) ims_ok a" "at_view (ims_ops r) a = Some t"
    and "task_state_of t \<in> TERMINAL_TASK_STATES" "at_task_mode a = Some True" "at_message_to_save a = None"
    and "se_task_id e = at_task_id a"
  shows "\<exists>a' u. ec_handle_task_event (ims_ops r) (StatusUpdate e) a = (a', Inr u) \<and>
    task_state_of u = status_state (se_status_of e) \<and>
    ims_get r (at_task_id a') (tm_call_context (at_task_manager a')) (tm_store (at_task_manager a')) = Some u"
proof -
  have "is_update_of (at_task_id a) (TaskEv (StatusUpdate e))" "\<not> appends (TaskEv (StatusUpdate e))"
    using assms(6) by (simp_all add: appends_def)
  from ims.handle_update_succeeds [OF assms(1,2) _ assms(5) this] assms(4)
  obtain a' u where "ec_handle_task_event (ims_ops r) (StatusUpdate e) a = (a', Inr u)"
    "task_state_of u = status_state (se_status_of e)"
    by auto
  with ims.handle_task_event_ok [OF assms(1)] show ?thesis by force
qed

theorem update_after_terminal_accepted_witness:
  "\<exists>a a' u. ec_process_all (ims_ops rus) [ex_update TASK_STATE_COMPLETED] ex_active = Some a \<and>
    ec_handle_task_event (ims_ops rus) (StatusUpdate (ex_status TASK_STATE_WORKING None)) a = (a', Inr u) \<and>
    task_state_of u = TASK_STATE_WORKING"
proof -
  let ?run = "ec_process_all (ims_ops rus) [ex_update TASK_STATE_COMPLETED] ex_active"
  have "\<not> Option.is_none ?run" by code_simp
  from not_none [OF this] obtain a where a: "?run = Some a" by blast
  from ims.process_all_ok [OF ex_active_ok a] have ok: "at_ok (ims_ops rus) ims_ok a" .
  have "at_task_mode (the ?run) = Some True \<and> at_task_id (the ?run) = ''t1'' \<and>
      Option.is_none (at_message_to_save (the ?run)) \<and>
      map_option task_state_of (at_view (ims_ops rus) (the ?run)) = Some TASK_STATE_COMPLETED"
    by code_simp
  then have s: "at_task_mode a = Some True" "at_task_id a = ''t1''" "at_message_to_save a = None"
    "map_option task_state_of (at_view (ims_ops rus) a) = Some TASK_STATE_COMPLETED"
    unfolding a by (simp_all add: Option.is_none_def)
  then obtain t where "at_view (ims_ops rus) a = Some t" "task_state_of t = TASK_STATE_COMPLETED" by auto
  with update_after_terminal_accepted [OF ok, of t "ex_status TASK_STATE_WORKING None"] s a
  show ?thesis by (auto simp: TERMINAL_TASK_STATES_def)
qed

section \<open>The active task and the request handler\<close>

text \<open>C8: requests of an active task are executed one at a time. In every state that the
  producer, the consumer, clients, the agent and cancellations can reach, an execution in
  progress excludes an unconsumed report of completion, and there is at most one of the two;
  a report that the consumer takes finds the request lock held (so releasing it cannot raise),
  no execution in progress, and no start or end of another request behind it in the queue.\<close>

theorem one_request_at_a_time:
  assumes "sys_reachable ops (sy_init a) s"
  shows "completions (sy_queue s) + of_bool (executing (sy_producer s)) \<le> (1 :: nat) \<and>
    (\<forall>i rest. sy_queue s = RequestCompleted i # rest \<longrightarrow>
       at_request_lock_held (sy_task s) \<and> \<not> executing (sy_producer s) \<and>
       filter (\<lambda>x. is_completed x \<or> is_started x) rest = [])"
proof -
  have "completions (sy_queue s) + of_bool (executing (sy_producer s)) \<le> (1 :: nat)"
    using reachable_ok [OF assms] by (cases "at_request_lock_held (sy_task s)") (auto simp: sy_ok_def)
  then show ?thesis
    using reachable_release [OF assms] by (auto simp: filter_empty_conv)
qed

theorem one_request_at_a_time_witness:
  "\<exists>s. sys_reachable (ims_ops rus) (sy_init ex_active) s \<and> executing (sy_producer s) \<and>
    completions (sy_queue s) = 0"
proof -
  let ?rc = "\<lparr>rc_call_context = alice, rc_params = None, rc_task_id = Some ''t1'', rc_context_id = Some ''c1'',
     rc_current_task = None, rc_related_tasks = []\<rparr>"
  let ?s0 = "sy_init ex_active"
  let ?s1 = "?s0\<lparr>sy_requests := sy_requests ?s0 @ [(?rc, sy_next_id ?s0)], sy_next_id := Suc (sy_next_id ?s0)\<rparr>"
  let ?s2 = "?s1\<lparr>sy_requests := [], sy_producer := PTaken ?rc 0\<rparr>"
  let ?s3 = "sy_acquire (ims_ops rus) ?rc 0 ?s2"
  have "sys_step (ims_ops rus) ?s0 ?s1"
    by (rule sys_step.request) (simp add: sy_init_def ex_active_def at_init_def)
  moreover have "sys_step (ims_ops rus) ?s1 ?s2"
    by (rule sys_step.take) (simp_all add: sy_init_def)
  moreover have "sys_step (ims_ops rus) ?s2 ?s3"
    by (rule sys_step.acquire) (simp_all add: sy_init_def ex_active_def at_init_def)
  ultimately have reach: "sys_reachable (ims_ops rus) ?s0 ?s3"
    by (meson sys_reachable.intros)
  have ex: "executing (sy_producer ?s3)"
    by (simp add: sy_acquire_def Let_def split: prod.split)
  show ?thesis
    using one_request_at_a_time [OF reach] reach ex by auto
qed

text \<open>C9: a blocking \<^verbatim>\<open>on_message_send\<close> returns what was stored. When the agent reports a
  sequence of states of which only the last is terminal or interrupted, the events that the
  subscription delivers make the handler return the task that the store holds at the end, its
  history cut to the requested length.\<close>

theorem blocking_send_returns_stored_task:
  assumes "at_ok (ims_ops r) ims_ok a" "at_view (ims_ops r) a = Some t" "es \<noteq> []"
    and "ec_process_all (ims_ops r) (RequestStarted i m #
      map (\<lambda>e. AgentEv (TaskEv (StatusUpdate e))) es @ [RequestCompleted i]) a = Some a'"
    and "\<not> sc_return_immediately cfg"
    and "list_all (\<lambda>e. status_state (se_status_of e) \<notin> TERMINAL_TASK_STATES \<union> INTERRUPTED_TASK_STATES) (butlast es)"
    and "status_state (se_status_of (last es)) \<in> TERMINAL_TASK_STATES \<union> INTERRUPTED_TASK_STATES"
  shows "\<exists>u. ims_get r (at_task_id a') (tm_call_context (at_task_manager a')) (tm_store (at_task_manager a')) = Some u \<and>
    send_result (ims_ops r) cfg (at_task_id a) i (drop (length (at_subscribers a)) (at_subscribers a')) a' =
      Inr (TaskEv (TaskObj (apply_history_length u (sc_history_length cfg))))"
  using ims.blocking_send [OF assms(1-5) _ assms(7)] assms(6) by (simp add: list_all_iff)

theorem blocking_send_returns_stored_task_witness:
  "\<exists>a' u. ec_process_all (ims_ops rus) [RequestStarted 0 (Some (ex_message ''m2'' ''go'')),
       ex_update TASK_STATE_WORKING, ex_update TASK_STATE_COMPLETED, RequestCompleted 0]
       (ex_active\<lparr>at_request_lock_held := True\<rparr>) = Some a' \<and>
     send_result (ims_ops rus) (empty_send_config\<lparr>sc_history_length := Some 1\<rparr>) ''t1'' 0 (at_subscribers a') a' =
       Inr (TaskEv (TaskObj (apply_history_length u (Some 1))))"
proof -
  let ?es = "[ex_status TASK_STATE_WORKING None, ex_status TASK_STATE_COMPLETED None]"
  let ?a = "ex_active\<lparr>at_request_lock_held := True\<rparr>"
  let ?cfg = "empty_send_config\<lparr>sc_history_length := Some 1\<rparr>"
  let ?run = "ec_process_all (ims_ops rus) (RequestStarted 0 (Some (ex_message ''m2'' ''go'')) #
      map (\<lambda>e. AgentEv (TaskEv (StatusUpdate e))) ?es @ [RequestCompleted 0]) ?a"
  have "\<not> Option.is_none ?run" by code_simp
  from not_none [OF this] obtain a' where run: "?run = Some a'" by blast
  have ok: "at_ok (ims_ops rus) ims_ok ?a" "at_view (ims_ops rus) ?a = Some ex_task"
    by (simp_all add: at_ok_def at_view_def)
  have "\<exists>u. send_result (ims_ops rus) ?cfg ''t1'' 0 (at_subscribers a') a' =
      Inr (TaskEv (TaskObj (apply_history_length u (Some 1))))"
    using blocking_send_returns_stored_task [OF ok _ run, of ?cfg]
    by (auto simp: empty_send_config_def TERMINAL_TASK_STATES_def INTERRUPTED_TASK_STATES_def)
  with run show ?thesis by (auto simp: ex_update_def simp del: ec_process_all.simps)
qed

text \<open>An active task is not handed to a stranger. Without \<^verbatim>\<open>create_task_if_missing\<close> (the
  path of cancelling and subscribing), \<^verbatim>\<open>get_or_create\<close> succeeds, on a hit as on a miss of the
  registry, only for a caller whose own partition of the store has the task.\<close>

theorem registry_owner_guard:
  assumes "rg_get_or_create (ims_ops r) push store tid c cid False msg rg = (rg', Inr a)" "tid \<noteq> []"
  shows "ims_get r tid c store \<noteq> None"
  using rg_owner_guard [OF assms] by simp

theorem registry_owner_guard_witness:
  "\<exists>rg' a. rg_get_or_create (ims_ops rus) False ex_store ''t1'' alice None False None rg_init = (rg', Inr a) \<and>
    ims_get rus ''t1'' alice ex_store \<noteq> None"
proof -
  have "\<not> isl (snd (rg_get_or_create (ims_ops rus) False ex_store ''t1'' alice None False None rg_init))"
    by code_simp
  from pair_Inr [OF this] obtain rg' and a where
    run: "rg_get_or_create (ims_ops rus) False ex_store ''t1'' alice None False None rg_init = (rg', Inr a)"
    by blast
  from registry_owner_guard [OF run] run show ?thesis by auto
qed

text \<open>C10: \<^verbatim>\<open>cancel\<close> ends in a terminal state. When the consumer has ended and the manager's
  context id is that of the task, the task returned to the caller is terminal, is what the
  store holds, is the stored task itself when that was terminal already, and has its
  conversation.\<close>

theorem cancel_ends_terminal:
  assumes "at_ok (ims_ops r) ims_ok a" "at_view (ims_ops r) a = Some t"
    and "tm_context_id (at_task_manager a) = Some (task_context_id t)"
  shows "\<exists>a' u. at_close_out (ims_ops r) a = (a', Inr u) \<and> task_state_of u \<in> TERMINAL_TASK_STATES \<and>
    (task_state_of t \<in> TERMINAL_TASK_STATES \<longrightarrow> u = t) \<and> conversation u = conversation t \<and>
    ims_get r (task_id u) (tm_call_context (at_task_manager a')) (tm_store (at_task_manager a')) = Some u"
  using ims.close_out_terminal [OF assms(1,2)] assms(3) by simp

theorem cancel_ends_terminal_witness:
  "\<exists>a' u. at_close_out (ims_ops rus) ex_active = (a', Inr u) \<and> task_state_of u \<in> TERMINAL_TASK_STATES"
  using cancel_ends_terminal [OF ex_active_ok ex_active_view] by auto

text \<open>An update event with another context id breaks a later cancel. The consumer takes
  the context id of every update event over without a check, so afterwards the close-out of a
  cancelled task that is not terminal is refused with \<^verbatim>\<open>InvalidParamsError\<close> and the store is
  left with the live task.\<close>

theorem foreign_context_blocks_cancel:
  assumes "at_ok (ims_ops r) ims_ok a" "at_view (ims_ops r) a = Some t"
    and "task_state_of t \<notin> TERMINAL_TASK_STATES"
    and "tm_context_id (at_task_manager a) = Some cid" "cid \<noteq> []" "cid \<noteq> task_context_id t"
  shows "\<exists>a'. at_close_out (ims_ops r) a = (a', Inl (A2A (err InvalidParamsError))) \<and>
    tm_store (at_task_manager a') = tm_store (at_task_manager a)"
  using ims.close_out_other_context [OF assms(1-3)] assms(4-6) by simp

theorem foreign_context_blocks_cancel_witness:
  "\<exists>a a'. ec_process_all (ims_ops rus) [AgentEv (TaskEv (StatusUpdate
        ((ex_status TASK_STATE_WORKING None)\<lparr>se_context_id := ''other''\<rparr>)))] ex_active = Some a \<and>
    at_close_out (ims_ops rus) a = (a', Inl (A2A (err InvalidParamsError)))"
proof -
  let ?run = "ec_process_all (ims_ops rus) [AgentEv (TaskEv (StatusUpdate
        ((ex_status TASK_STATE_WORKING None)\<lparr>se_context_id := ''other''\<rparr>)))] ex_active"
  have "\<not> Option.is_none ?run" by code_simp
  from not_none [OF this] obtain a where a: "?run = Some a" by blast
  from ims.process_all_ok [OF ex_active_ok a] have ok: "at_ok (ims_ops rus) ims_ok a" .
  have "tm_context_id (at_task_manager (the ?run)) = Some ''other'' \<and>
      map_option (\<lambda>t. (task_state_of t, task_context_id t)) (at_view (ims_ops rus) (the ?run)) =
        Some (TASK_STATE_WORKING, ''c1'')"
    by code_simp
  then have s: "tm_context_id (at_task_manager a) = Some ''other''"
    "map_option (\<lambda>t. (task_state_of t, task_context_id t)) (at_view (ims_ops rus) a) = Some (TASK_STATE_WORKING, ''c1'')"
    unfolding a by simp_all
  then obtain t where "at_view (ims_ops rus) a = Some t" "task_state_of t = TASK_STATE_WORKING"
    "task_context_id t = ''c1''"
    by auto
  with foreign_context_blocks_cancel [OF ok, of t "''other''"] s a show ?thesis
    by (auto simp: TERMINAL_TASK_STATES_def simp del: ec_process_all.simps)
qed

text \<open>Reading a task, on every branch: a negative history length is refused before the
  store is read, a task that the caller's partition does not have is not found, and otherwise
  the task comes back with the last \<^verbatim>\<open>history_length\<close> messages (all of them when unset).\<close>

theorem get_task_every_branch:
  "on_get_task h [] params c s =
     (if (\<exists>n. gt_history_length params = Some n \<and> n < 0)
      then Inl (A2A (err_msg InvalidParamsError ''history length must be non-negative''))
      else (case st_get (h_store_ops h) (gt_id params) c s of
              None \<Rightarrow> Inl (A2A (err TaskNotFoundError))
            | Some t \<Rightarrow>
                (case gt_history_length params of
                   None \<Rightarrow> Inr t
                 | Some n \<Rightarrow> Inr (t\<lparr>task_history :=
                     drop (length (task_history t) - nat n) (task_history t)\<rparr>))))"
  by (rule on_get_task_spec)

section \<open>Stores\<close>

text \<open>C11: pagination is complete. A client that starts without a token and follows
  \<^verbatim>\<open>next_page_token\<close> until it is empty collects, within one call per selected task plus one,
  exactly the selected tasks in their order, without omission or repetition, whatever the page
  size.\<close>

theorem pagination_complete:
  assumes "ims_ok s" "\<And>i t. ims_get r i c s = Some t \<Longrightarrow> i \<noteq> []"
    and "lr_page_token req = []" "0 < page_size_of req"
  shows "collect_pages (Suc (length (ims_selected r tjs req c s))) (\<lambda>q. ims_list r tjs q c s) req =
      Some (Inr (ims_selected r tjs req c s)) \<and>
    distinct (map task_id (ims_selected r tjs req c s))"
  using list_all_pages [OF assms(1) _ assms(3,4)] assms(2) ims_selected_distinct [OF assms(1)] by blast

theorem pagination_complete_witness:
  "\<exists>ts. collect_pages (Suc (length ts)) (\<lambda>q. ims_list rus (\<lambda>_. []) q alice ex_store2) (ex_list_request 1) = Some (Inr ts) \<and>
    map task_id ts = [''t2'', ''t1'']"
proof -
  have ok: "ims_ok ex_store2" by (simp add: ex_store2_def ims_ok_save)
  have ne: "i \<noteq> []" if "ims_get rus i alice ex_store2 = Some t" for i t
    using that ims.get_save [of ex_store rus i alice "ex_task\<lparr>task_id := ''t2''\<rparr>" alice]
    by (auto simp: ex_store2_def split: if_splits)
  let ?L = "ims_selected rus (\<lambda>_. []) (ex_list_request 1) alice ex_store2"
  have ids: "map task_id ?L = [''t2'', ''t1'']" by code_simp
  have tok: "lr_page_token (ex_list_request 1) = []" and size: "0 < page_size_of (ex_list_request 1)"
    by (simp_all add: ex_list_request_def page_size_of_def)
  have all: "collect_pages (Suc (length ?L)) (\<lambda>q. ims_list rus (\<lambda>_. []) q alice ex_store2) (ex_list_request 1) = Some (Inr ?L)"
    using pagination_complete [where r = rus and c = alice and tjs = "\<lambda>_. []", OF ok _ tok size] ne by blast
  show ?thesis by (rule exI [of _ ?L], rule conjI [OF all ids])
qed

text \<open>C12: what a listing selects and in which order. The selected tasks are exactly the caller's
  own tasks that pass the filters, in descending order of the key (has a timestamp, the
  timestamp's text, id).\<close>

theorem listing_selects_and_sorts:
  assumes "ims_ok s"
  shows "set (ims_selected r tjs req c s) = {t. (\<exists>i. ims_get r i c s = Some t) \<and> list_matches tjs req t} \<and>
    sorted_wrt (\<ge>) (map (list_key tjs) (ims_selected r tjs req c s))"
  using set_ims_selected [OF assms] ims_selected_sorted by blast

theorem listing_selects_and_sorts_witness:
  "set (ims_selected rus (\<lambda>_. []) (ex_list_request 5) alice ex_store2) =
     {t. (\<exists>i. ims_get rus i alice ex_store2 = Some t) \<and> list_matches (\<lambda>_. []) (ex_list_request 5) t}"
proof -
  have "ims_ok ex_store2" by (simp add: ex_store2_def ims_ok_save)
  from listing_selects_and_sorts [OF this] show ?thesis by blast
qed

text \<open>The time filter compares texts. Protobuf writes an instant on a full second without a
  fraction and one between seconds with three digits; with these texts of two instants half a
  second apart, the filter \<^verbatim>\<open>status_timestamp_after\<close> of the earlier one drops a task that was
  updated at the later one.\<close>

theorem later_task_filtered_out:
  fixes tjs :: "timestamp \<Rightarrow> string"
  assumes "tjs \<lparr>ts_seconds = 0, ts_nanos = 0\<rparr> = ''1970-01-01T00:00:00Z''"
    and "tjs \<lparr>ts_seconds = 0, ts_nanos = 500000000\<rparr> = ''1970-01-01T00:00:00.500Z''"
    and "lr_status_timestamp_after req = Some \<lparr>ts_seconds = 0, ts_nanos = 0\<rparr>"
    and "status_timestamp (task_status_of t) = Some \<lparr>ts_seconds = 0, ts_nanos = 500000000\<rparr>"
  shows "filter_tasks tjs req [t] = []"
proof (cases "task_status t")
  case None
  with assms(4) show ?thesis by (simp add: task_status_of_def empty_status_def)
next
  case (Some st)
  with assms show ?thesis
    by (simp add: filter_tasks_eq list_matches_def time_string_def task_status_of_def)
qed

theorem later_task_filtered_out_witness:
  "\<exists>tjs req t. filter_tasks tjs req [t] = [] \<and>
    lr_status_timestamp_after req = Some \<lparr>ts_seconds = 0, ts_nanos = 0\<rparr> \<and>
    status_timestamp (task_status_of t) = Some \<lparr>ts_seconds = 0, ts_nanos = 500000000\<rparr>"
proof -
  define tjs :: "timestamp \<Rightarrow> string" where "tjs = (\<lambda>x. if ts_nanos x = 0 then ''1970-01-01T00:00:00Z'' else ''1970-01-01T00:00:00.500Z'')"
  define req where "req = (ex_list_request 5)\<lparr>lr_status_timestamp_after := Some \<lparr>ts_seconds = 0, ts_nanos = 0\<rparr>\<rparr>"
  define t where "t = ex_task\<lparr>task_status := Some (empty_status\<lparr>status_timestamp :=
    Some \<lparr>ts_seconds = 0, ts_nanos = 500000000\<rparr>\<rparr>)\<rparr>"
  have "filter_tasks tjs req [t] = []"
    by (rule later_task_filtered_out) (simp_all add: tjs_def req_def t_def task_status_of_def)
  moreover have "lr_status_timestamp_after req = Some \<lparr>ts_seconds = 0, ts_nanos = 0\<rparr>"
    "status_timestamp (task_status_of t) = Some \<lparr>ts_seconds = 0, ts_nanos = 500000000\<rparr>"
    by (simp_all add: req_def t_def task_status_of_def)
  ultimately show ?thesis by blast
qed

text \<open>C13: the copies isolate the store. In every state that callers can reach by creating,
  saving, getting, deleting and mutating task objects through the copying adapter, no object
  of the store is an object that a caller holds.\<close>

theorem store_objects_private:
  assumes "client_reachable r (s, held)"
  shows "store_addrs s \<inter> held = {}"
  using reachable_isolated [OF assms] by (simp add: isolated_def)

theorem store_objects_private_witness:
  "\<exists>s held. client_reachable rus (s, held) \<and> held \<noteq> {} \<and> store_addrs s \<inter> held = {}"
proof -
  obtain s a where n: "new_object ex_task hs_init = (s, a)" by force
  have "client_reachable rus (copying_save rus a alice s, {a})"
    using client_reachable.start client_step.create [OF n, of rus "{}"] client_step.save [of a "{a}" rus s alice]
    by (meson client_reachable.step insertI1)
  from store_objects_private [OF this] this show ?thesis by blast
qed

text \<open>C14: the copying adapter over a store of references refines the store of values: a save
  stores the present value of the object, a get returns a fresh object with the value store's
  value, a delete deletes, and no mutation of a held object changes any stored value.\<close>

theorem copying_store_refines:
  assumes "client_reachable r (s, held)"
  shows "hs_abs (copying_save r a c s) = ims_save r (hs_heap s a) c (hs_abs s) \<and>
    (\<forall>s' res. copying_get r i c s = (s', res) \<longrightarrow>
       hs_abs s' = hs_abs s \<and> map_option (hs_heap s') res = ims_get r i c (hs_abs s)) \<and>
    hs_abs (copying_delete r i c s) = ims_delete r i c (hs_abs s) \<and>
    (b \<in> held \<longrightarrow> hs_abs (mutate b t s) = hs_abs s)"
  using copying_save_abs copying_get_abs copying_delete_abs mutate_abs reachable_isolated [OF assms] by metis

theorem copying_store_refines_witness:
  "\<exists>s a. client_reachable rus (s, {a}) \<and> ims_get rus ''t1'' alice (hs_abs s) = Some ex_task \<and>
    ims_get rus ''t1'' alice (hs_abs (mutate a empty_task s)) = Some ex_task"
proof -
  obtain s a where n: "new_object ex_task hs_init = (s, a)" by force
  let ?s = "copying_save rus a alice s"
  have r0: "client_reachable rus (s, {a})"
    using client_reachable.start client_step.create [OF n, of rus "{}"] by (meson client_reachable.step)
  have r1: "client_reachable rus (?s, {a})"
    using r0 client_step.save [of a "{a}" rus s alice] by (meson client_reachable.step insertI1)
  have h: "hs_heap s a = ex_task" "hs_abs s = ims_empty"
    using n by (auto simp: new_object_def hs_init_def hs_abs_def ims_empty_def)
  have g: "ims_get rus ''t1'' alice (hs_abs ?s) = Some ex_task"
    using copying_store_refines [OF r0, of a alice] ims.get_save [of ims_empty rus "''t1''" alice ex_task alice] h
    by simp
  have "hs_abs (mutate a empty_task ?s) = hs_abs ?s"
    using copying_store_refines [OF r1, where b = a and t = empty_task] by blast
  with g r1 show ?thesis by (intro exI [of _ ?s] exI [of _ a]) simp
qed

section \<open>Push notifications\<close>

text \<open>A push configuration that a client creates is read back unchanged under the id that
  the creation returned (the task's id when none was given), and its url is the given one.\<close>

theorem push_config_create_then_get:
  assumes "a2a.serves r h" "pcs_ok p"
    and "on_create_push_config h missing cfg c s p = Inr (p', cfg')"
  shows "on_get_push_config h [] (pc_task_id cfg) (pc_id cfg') c s p' = Inr cfg' \<and> pcs_ok p' \<and>
    pc_url cfg' = pc_url cfg \<and> pc_id cfg' = (if pc_id cfg = [] then pc_task_id cfg else pc_id cfg)"
  using a2a.create_then_get [OF assms] .

theorem push_config_create_then_get_witness:
  "\<exists>p' cfg'. on_create_push_config ex_handler [] (ex_config [] ''http://x'') alice ex_store pcs_empty = Inr (p', cfg') \<and>
    on_get_push_config ex_handler [] ''t1'' ''t1'' alice ex_store p' = Inr cfg' \<and> pc_url cfg' = ''http://x''"
proof -
  let ?run = "on_create_push_config ex_handler [] (ex_config [] ''http://x'') alice ex_store pcs_empty"
  have "\<not> isl ?run" by code_simp
  from not_isl [OF this] obtain p' cfg' where run: "?run = Inr (p', cfg')" by force
  from push_config_create_then_get [OF ex_handler_serves pcs_ok_empty run] run show ?thesis
    by (auto simp: ex_config_def)
qed

text \<open>Deleting a push configuration removes exactly it: the caller's list for the task
  loses the configuration of that id and keeps the others, reading it is \<^verbatim>\<open>not found\<close>, and no
  other task's or owner's configurations change.\<close>

theorem push_config_delete:
  assumes "a2a.serves r h" "pcs_ok p"
    and "on_delete_push_config h missing tid i c s p = Inr p'"
  shows "on_list_push_configs h [] tid c s p' = Inr (filter (\<lambda>x. pc_id x \<noteq> i) (pcs_get_info r tid c p)) \<and>
    on_get_push_config h [] tid i c s p' = Inl (A2A (err TaskNotFoundError)) \<and>
    (\<forall>t c'. r c' \<noteq> r c \<or> t \<noteq> tid \<longrightarrow> pcs_get_info r t c' p' = pcs_get_info r t c' p)"
  using a2a.delete_then_list [OF assms] by simp

theorem push_config_delete_witness:
  "\<exists>p'. on_delete_push_config ex_handler [] ''t1'' ''a'' alice ex_store
      (pcs_set_info rus ''t1'' (ex_config ''b'' ''u2'') alice
        (pcs_set_info rus ''t1'' (ex_config ''a'' ''u1'') alice pcs_empty)) = Inr p' \<and>
    on_list_push_configs ex_handler [] ''t1'' alice ex_store p' = Inr [ex_config ''b'' ''u2'']"
proof -
  let ?p = "pcs_set_info rus ''t1'' (ex_config ''b'' ''u2'') alice
        (pcs_set_info rus ''t1'' (ex_config ''a'' ''u1'') alice pcs_empty)"
  have ok: "pcs_ok ?p" by (simp add: pcs_ok_set)
  have "\<not> isl (on_delete_push_config ex_handler [] ''t1'' ''a'' alice ex_store ?p)" by code_simp
  from not_isl [OF this] obtain p' where run: "on_delete_push_config ex_handler [] ''t1'' ''a'' alice ex_store ?p = Inr p'"
    by blast
  have "pcs_get_info rus ''t1'' alice ?p = [ex_config ''a'' ''u1'', ex_config ''b'' ''u2'']"
    by code_simp
  with push_config_delete [OF ex_handler_serves ok run] run show ?thesis
    by (auto simp: ex_config_def)
qed

text \<open>C15: an event of a task is posted to the url of every configuration that any owner
  registered for the task and the url policy accepts, and to no other, whatever becomes of the
  single posts.\<close>

theorem notification_targets:
  assumes "pcs_ok s"
  shows "u \<in> hr_url ` set (fst (send_notification v to_dict post tid ev s)) \<longleftrightarrow>
    (\<exists>ow cfg. cfg \<in> set (configs_at tid (get_owner_infos ow s)) \<and> pc_url cfg = u \<and>
       (case v of None \<Rightarrow> True | Some ok \<Rightarrow> ok u))"
  by (rule send_notification_targets [OF assms])

theorem notification_targets_witness:
  "''u1'' \<in> hr_url ` set (fst (send_notification (Some (\<lambda>u. u \<noteq> ''u2'')) (\<lambda>_. JNull) (\<lambda>_. False) ''t1'' (TaskEv (TaskObj ex_task))
      (pcs_set_info rus ''t1'' (ex_config ''b'' ''u2'') bob
        (pcs_set_info rus ''t1'' (ex_config ''a'' ''u1'') alice pcs_empty))))"
proof -
  let ?p = "pcs_set_info rus ''t1'' (ex_config ''b'' ''u2'') bob
        (pcs_set_info rus ''t1'' (ex_config ''a'' ''u1'') alice pcs_empty)"
  have ok: "pcs_ok ?p" by (simp add: pcs_ok_set)
  have "ex_config ''a'' ''u1'' \<in> set (pcs_get_info rus ''t1'' alice ?p)"
    by (simp add: pcs_get_set pcs_ok_set upsert_config_def default_id_def ex_config_def)
  then have "ex_config ''a'' ''u1'' \<in> set (configs_at ''t1'' (get_owner_infos ''alice'' ?p))"
    by (simp add: pcs_get_info_def)
  then show ?thesis
    unfolding notification_targets [OF ok]
  proof (intro exI conjI)
    show "pc_url (ex_config ''a'' ''u1'') = ''u1''" by (simp add: ex_config_def)
    show "case Some (\<lambda>u. u \<noteq> ''u2'') of None \<Rightarrow> True | Some ok \<Rightarrow> ok ''u1''" by simp
  qed
qed

section \<open>Publishing, requests and helpers\<close>

text \<open>C16: an updater publishes at most one terminal state, and no state after it. Whatever
  calls an agent makes, in whatever order and with whatever timestamps, of the published states
  none but the last is terminal, and every published event carries the updater's ids.\<close>

theorem updater_terminal_is_last:
  "list_all (\<lambda>st. st \<notin> TERMINAL_TASK_STATES) (butlast (published_states (tu_run f calls (tu_init tid cid)))) \<and>
   list_all (is_update_of tid) (tu_event_queue (tu_run f calls (tu_init tid cid)))"
proof -
  have "tu_ok (tu_run f calls (tu_init tid cid))" by (rule tu_ok_run [OF tu_ok_init])
  moreover have "tu_task_id (tu_init tid cid) = tid" by (simp add: tu_init_def)
  ultimately show ?thesis by (force simp: tu_ok_def list_all_iff)
qed

text \<open>What an agent publishes through an updater is accepted by the manager of its task: if
  no artifact chunk is an append, the manager of that task and context processes all published
  events without an exception, and the stored task ends in the state last published.\<close>

theorem updater_events_accepted:
  assumes "tm_coherent (ims_ops r) ims_ok tm" "tm_view (ims_ops r) tm = Some t"
    and "tm_context_id tm = Some cid"
    and "filter appends (tu_event_queue (tu_run f calls (tu_init (task_id t) cid))) = []"
  shows "\<exists>tm' t'. tm_process_all (ims_ops r) (tu_event_queue (tu_run f calls (tu_init (task_id t) cid))) tm = (tm', None) \<and>
    tm_view (ims_ops r) tm' = Some t' \<and>
    task_state_of t' = last (task_state_of t # published_states (tu_run f calls (tu_init (task_id t) cid)))"
proof -
  let ?u = "tu_run f calls (tu_init (task_id t) cid)"
  have "tu_ok ?u" by (rule tu_ok_run [OF tu_ok_init])
  moreover have "tu_task_id ?u = task_id t" "tu_context_id ?u = cid" by (simp_all add: tu_init_def)
  ultimately have evs: "\<forall>ev \<in> set (tu_event_queue ?u). \<exists>te. ev = TaskEv te \<and>
      is_update_of (task_id t) ev \<and> event_context_id te = cid"
    by (simp add: tu_ok_def)
  have "\<forall>ev \<in> set (tu_event_queue ?u). \<not> appends ev"
    using assms(4) by (simp add: filter_empty_conv)
  from ims.process_updates_ok [OF assms(1,2) _ evs this] assms(3) show ?thesis
    by (auto simp: state_after_def published_states_def)
qed

theorem updater_events_accepted_witness:
  "\<exists>tm' t'. tm_process_all (ims_ops rus)
     (tu_event_queue (tu_run (\<lambda>_. Inl IndexError) [(\<lparr>ts_seconds = 1, ts_nanos = 0\<rparr>, [], StartWork None),
        (\<lparr>ts_seconds = 2, ts_nanos = 0\<rparr>, ''a1'', AddArtifact [] None None None None None None),
        (\<lparr>ts_seconds = 3, ts_nanos = 0\<rparr>, [], Complete None)] (tu_init ''t1'' ''c1''))) ex_tm = (tm', None) \<and>
    tm_view (ims_ops rus) tm' = Some t' \<and> task_state_of t' = TASK_STATE_COMPLETED"
proof -
  let ?calls = "[(\<lparr>ts_seconds = 1, ts_nanos = 0\<rparr>, [], StartWork None),
        (\<lparr>ts_seconds = 2, ts_nanos = 0\<rparr>, ''a1'', AddArtifact [] None None None None None None),
        (\<lparr>ts_seconds = 3, ts_nanos = 0\<rparr>, [], Complete None)]"
  let ?u = "tu_run (\<lambda>_. Inl IndexError) ?calls (tu_init (task_id ex_task) ''c1'')"
  have a: "filter appends (tu_event_queue ?u) = []" by code_simp
  have l: "last (task_state_of ex_task # published_states ?u) = TASK_STATE_COMPLETED" by code_simp
  from updater_events_accepted [OF ex_tm_coherent ex_tm_view ex_tm_simps(4) a] obtain tm' t' where
    "tm_process_all (ims_ops rus) (tu_event_queue ?u) ex_tm = (tm', None)" "tm_view (ims_ops rus) tm' = Some t'"
    "task_state_of t' = TASK_STATE_COMPLETED"
    unfolding l by blast
  then show ?thesis unfolding ex_task_simps by blast
qed

text \<open>A timestamp that does not parse blocks the task. The updater sets its terminal flag
  before it reads the timestamp, so a terminal update with an unreadable timestamp raises
  without publishing anything, and every later status update raises as well: the task can
  never be finished through this updater.\<close>

theorem bad_timestamp_blocks_updater:
  assumes "\<not> tu_terminal_state_reached u" "st \<in> TERMINAL_TASK_STATES" "py_truthy ts"
    and "f (replace_Z (or_empty ts)) = Inl e"
  shows "\<exists>u'. tu_update_status f now st m ts md u = (u', Some e) \<and> tu_event_queue u' = tu_event_queue u \<and>
    (\<forall>now' st' m' ts' md'. \<exists>e'. tu_update_status f now' st' m' ts' md' u' = (u', Some e'))"
  by (rule tu_bad_timestamp_locks [where f = f and ts = ts, OF assms])

theorem bad_timestamp_blocks_updater_witness:
  "\<exists>u'. tu_update_status (\<lambda>s. Inl (ValueError ''Invalid isoformat string'')) \<lparr>ts_seconds = 0, ts_nanos = 0\<rparr>
      TASK_STATE_COMPLETED None (Some ''yesterday'') None (tu_init ''t1'' ''c1'') =
      (u', Some (ValueError ''Invalid isoformat string'')) \<and> tu_event_queue u' = []"
  using bad_timestamp_blocks_updater [of "tu_init ''t1'' ''c1''" TASK_STATE_COMPLETED "Some ''yesterday''"
      "\<lambda>s. Inl (ValueError ''Invalid isoformat string'')" "ValueError ''Invalid isoformat string''"
      "\<lparr>ts_seconds = 0, ts_nanos = 0\<rparr>" None None]
  by (auto simp: tu_init_def TERMINAL_TASK_STATES_def)

text \<open>The ids of a request context. A context built for a request has a task id and a
  context id, both the ids of its message; a given id wins over the message's and the message's
  over a generated one; nothing else of the message changes.\<close>

theorem request_context_ids:
  assumes "rc_init gt gc c (Some p) tid cid t rel = Inr rc"
    and "\<And>x. gt x \<noteq> []" "\<And>x. gc x \<noteq> []"
  shows "\<exists>m. rc_message rc = Some m \<and> rc_task_id rc = Some (message_task_id m) \<and>
    rc_context_id rc = Some (message_context_id m) \<and>
    message_task_id m = (if py_truthy tid then or_empty tid
      else if message_task_id (params_message p) \<noteq> [] then message_task_id (params_message p) else gt cid) \<and>
    message_context_id m = (if py_truthy cid then or_empty cid
      else if message_context_id (params_message p) \<noteq> [] then message_context_id (params_message p)
      else gc (Some (message_task_id m))) \<and>
    message_task_id m \<noteq> [] \<and> message_context_id m \<noteq> [] \<and>
    m = (params_message p)\<lparr>message_task_id := message_task_id m, message_context_id := message_context_id m\<rparr>"
  by (rule rc_init_ids [OF assms])

theorem request_context_ids_witness:
  "\<exists>rc m. rc_init (\<lambda>_. ''gt'') (\<lambda>_. ''gc'') alice (Some \<lparr>smr_tenant = [], smr_message = Some (ex_message ''m'' ''x''),
      smr_configuration = None, smr_metadata = None\<rparr>) (Some ''t1'') None None None = Inr rc \<and>
    rc_message rc = Some m \<and> message_task_id m = ''t1'' \<and> message_context_id m = ''gc''"
proof -
  let ?p = "\<lparr>smr_tenant = [], smr_message = Some (ex_message ''m'' ''x''), smr_configuration = None, smr_metadata = None\<rparr>"
  let ?run = "rc_init (\<lambda>_. ''gt'') (\<lambda>_. ''gc'') alice (Some ?p) (Some ''t1'') None None None"
  have "\<not> isl ?run" by code_simp
  from not_isl [OF this] obtain rc where run: "?run = Inr rc" by blast
  from request_context_ids [OF run] run show ?thesis
    by (auto simp: params_message_def ex_message_def empty_message_def)
qed

text \<open>A new task from a user message is refused exactly when the message is not the user's,
  has no part, or has an empty text part; otherwise the task is submitted, its conversation is
  that message, and its ids are the message's, or the generated ones where the message has none.\<close>

theorem task_from_user_message:
  "case new_task_from_user_message u1 u2 m of
      Inl e \<Rightarrow> \<not> (message_role m = ROLE_USER \<and> message_parts m \<noteq> [] \<and>
        [] \<notin> set (get_text_parts (message_parts m)))
    | Inr t \<Rightarrow> message_role m = ROLE_USER \<and> message_parts m \<noteq> [] \<and>
        [] \<notin> set (get_text_parts (message_parts m)) \<and>
        conversation t = [m] \<and> task_state_of t = TASK_STATE_SUBMITTED \<and>
        task_id t = (if message_task_id m = [] then u1 else message_task_id m) \<and>
        task_context_id t = (if message_context_id m = [] then u2 else message_context_id m)"
  using new_task_from_user_message_spec [of m u1 u2] by (auto split: sum.splits)

text \<open>Page tokens round-trip: for every task id, decoding its encoded token gives the id
  (base64 over UTF-8), and different ids have different tokens.\<close>

theorem page_token_round_trip:
  "decode_page_token (encode_page_token tid) = Inr (to_ustr tid) \<and>
   (encode_page_token tid = encode_page_token tid' \<longleftrightarrow> tid = tid')"
  using decode_encode_token encode_page_token_inj by blast

text \<open>A listing through the handler shows the store's page: same tasks in the same order
  with the same status, token and total; no artifacts unless asked for; no history longer than
  asked for; and it succeeds only for a non-negative history length and a page size from 1
  to 100.\<close>

theorem list_tasks_page:
  assumes "on_list_tasks (ims_list r tjs) missing params c s = Inr page"
  shows "\<exists>p. ims_list r tjs params c s = Inr p \<and>
    map task_id (lresp_tasks page) = map task_id (lresp_tasks p) \<and>
    map task_status (lresp_tasks page) = map task_status (lresp_tasks p) \<and>
    lresp_next_page_token page = lresp_next_page_token p \<and> lresp_total_size page = lresp_total_size p \<and>
    (lr_include_artifacts params \<noteq> Some True \<longrightarrow> list_all (\<lambda>t. task_artifacts t = []) (lresp_tasks page)) \<and>
    (\<forall>n. lr_history_length params = Some n \<longrightarrow>
       0 \<le> n \<and> list_all (\<lambda>t. int (length (task_history t)) \<le> n) (lresp_tasks page)) \<and>
    (\<forall>n. lr_page_size params = Some n \<longrightarrow> 1 \<le> n \<and> n \<le> 100)"
  using on_list_tasks_spec [OF assms] by (simp add: list_all_iff)

theorem list_tasks_page_witness:
  "\<exists>page. on_list_tasks (ims_list rus (\<lambda>_. [])) [] \<lparr>lr_tenant = [], lr_context_id = [], lr_status = TASK_STATE_UNSPECIFIED,
     lr_page_size = Some 5, lr_page_token = [], lr_history_length = Some 0,
     lr_status_timestamp_after = None, lr_include_artifacts = None\<rparr> alice ex_store = Inr page \<and>
     list_all (\<lambda>t. task_history t = []) (lresp_tasks page)"
proof -
  let ?q = "\<lparr>lr_tenant = [], lr_context_id = [], lr_status = TASK_STATE_UNSPECIFIED,
     lr_page_size = Some 5, lr_page_token = [], lr_history_length = Some 0,
     lr_status_timestamp_after = None, lr_include_artifacts = None\<rparr> :: list_tasks_request"
  let ?run = "on_list_tasks (ims_list rus (\<lambda>_. [])) [] ?q alice ex_store"
  have "\<not> isl ?run" by code_simp
  from not_isl [OF this] obtain page where run: "?run = Inr page" by blast
  from list_tasks_page [OF run] run show ?thesis by (auto simp: list_all_iff)
qed

text \<open>The reason of a REST error identifies its class. The payload of every A2A error
  starts with an error info whose reason a client's look-up maps back to exactly that class;
  only \<^verbatim>\<open>JSONParseError\<close>, which has no REST mapping, has a reason that is not found.\<close>

theorem error_reason_round_trip:
  "\<exists>i ds. ep_details (build_rest_error_payload (RestA2A e)) = Some (ErrorInfo i # ds) \<and>
     A2A_REASON_TO_ERROR (ei_reason i) = (if err_kind e = JSONParseError then None else Some (err_kind e))"
  by (rule payload_reason)

section \<open>The event queue\<close>

text \<open>C17: a sink delivers, in order and without gaps or repetitions, what was waiting in the
  source when the sink was made and what producers have put since: whatever the actions, what its
  consumer has taken is a prefix of that; and while the sink is open and nobody stops the source at
  once, the rest is still in the sink's queue, under delivery or in the incoming queue.\<close>

theorem event_delivery:
  assumes "sr_init n d = Inr s0" "sr_run xs s0 = Some s1" "sr_tap m ev s1 = Inr (s2, i)"
    and "sr_run ys s2 = Some s3"
  shows "(\<exists>rest. got_events i ys @ rest = q_items (sr_incoming s1) @ taken_events ys) \<and>
    (sr_open i s3 \<and> (\<forall>y \<in> set ys. \<not> immediate_stop y) \<longrightarrow>
       got_events i ys @ sr_stream i s3 = q_items (sr_incoming s1) @ taken_events ys)"
proof -
  have ok: "sr_ok s1" using sr_run_ok [OF sr_init_ok [OF assms(1)] assms(2)] .
  note tap = tap_stream [OF ok assms(3)]
  show ?thesis
    using promised_prefix [OF run_promised [OF tap_ok [OF ok assms(3)] assms(4) tap(1,4)]]
      run_stream [OF tap_ok [OF ok assms(3)] assms(4) tap(1)] tap(2) by auto
qed

theorem event_delivery_witness: "sr_stream 1 ex_source3 = [1, 2]"
proof -
  have "sr_open 1 ex_source3" by code_simp
  moreover have "q_items (sr_incoming ex_source1) = [1]" by code_simp
  ultimately show ?thesis
    using event_delivery [OF ex_source_runs] by (simp add: got_events_def taken_events_def)
qed

text \<open>C18: no queue grows beyond the size it was made with, which is positive: neither the incoming
  queue of a source nor the queue of any of its sinks, closed ones included.\<close>

theorem queues_bounded:
  assumes "sr_init n d = Inr s0" "sr_run xs s0 = Some s"
  shows "0 < n \<and> length (q_items (sr_incoming s)) \<le> nat n \<and>
    (\<forall>k \<in> set (sr_objects s). 0 < q_maxsize (sk_queue k) \<and>
       length (q_items (sk_queue k)) \<le> q_maxsize (sk_queue k))"
  using sr_run_bounded [OF sr_init_bounded [OF assms(1)] assms(2)] sr_run_maxsize [OF assms(2)] assms(1)
  by (auto simp: sr_bounded_def q_bounded_def list_all_iff sr_init_maxsize)

theorem queues_bounded_witness:
  "length (q_items (sr_incoming ex_source1)) \<le> 2 \<and> q_full (sk_queue (sr_objects ex_source3 ! 1))"
  using queues_bounded [OF ex_source_runs(1,2)] by (auto, code_simp)

text \<open>C19: a producer that has to wait for room in the source gets it by actions of the dispatcher
  alone, no consumer taking an event, provided that the sinks of the delivery under way are closed,
  have room or are evicted when full; and a delivery waits only for an open sink that is full and is
  not to be evicted.\<close>

theorem producer_not_held_up:
  assumes "sr_init n d = Inr s0" "sr_run xs s0 = Some s"
  shows "(sr_enqueue_event x s = None \<and>
      (\<forall>e p v j. sr_dispatcher s = Delivering e p v \<and> j \<in> set p \<longrightarrow> unblocked j s) \<longrightarrow>
      (\<exists>ys s' s''. sr_run ys s = Some s' \<and> list_all dispatcher_action ys \<and>
         sr_enqueue_event x s' = Some (s'', True))) \<and>
    (\<forall>e p v j. sr_dispatcher s = Delivering e p v \<and> j \<in> set p \<longrightarrow>
      (sr_deliver_to_sink j s = None \<longleftrightarrow> \<not> unblocked j s))"
proof -
  have ok: "sr_ok s" and bd: "sr_bounded s"
    using sr_run_ok [OF sr_init_ok [OF assms(1)] assms(2)]
      sr_run_bounded [OF sr_init_bounded [OF assms(1)] assms(2)] .
  show ?thesis
    using producer_recovers [OF ok bd, of x] delivery_waits [OF ok] by blast
qed

theorem producer_not_held_up_witness:
  "\<exists>ys s' s''. sr_run ys ex_source4 = Some s' \<and> list_all dispatcher_action ys \<and>
     sr_enqueue_event 6 s' = Some (s'', True)"
proof -
  have "sr_enqueue_event 6 ex_source4 = None" by code_simp
  moreover have "sr_dispatcher ex_source4 = Delivering 2 [1] []" "unblocked 1 ex_source4" by code_simp+
  ultimately show ?thesis
    using producer_not_held_up [OF ex_source_runs(1) ex_source4_run, of 6] by simp
qed

text \<open>C20: a graceful close loses nothing: when its wait for the incoming queue is over, every event
  that a producer put has reached each open sink, none was put after the close began, and the
  consumer can take from its queue exactly those it has not yet taken.\<close>

theorem graceful_close_complete:
  assumes "sr_init n d = Inr s0" "sr_run xs s0 = Some s1" "sr_tap m ev s1 = Inr (s2, i)"
    and run: "sr_run (ys @ CloseSource False # zs @ [CloseJoined]) s2 = Some s3"
    and go: "\<forall>y \<in> set (ys @ zs). \<not> immediate_stop y" and op: "sr_open i s3"
  shows "taken_events zs = [] \<and> (\<exists>es s4. sr_run (map (Dequeue i) es) s3 = Some s4 \<and>
    got_events i (ys @ zs) @ es = q_items (sr_incoming s1) @ taken_events ys)"
proof -
  let ?acts = "ys @ CloseSource False # zs @ [CloseJoined]"
  have ok1: "sr_ok s1" using sr_run_ok [OF sr_init_ok [OF assms(1)] assms(2)] .
  note tap = tap_stream [OF ok1 assms(3)] and ok2 = tap_ok [OF ok1 assms(3)]
  have ok3: "sr_ok s3" using sr_run_ok [OF ok2 run] .
  have stop: "sr_dispatcher s3 = Stopped" and none: "taken_events zs = []"
    using graceful_close_run [OF run] by auto
  have "got_events i ?acts @ sr_stream i s3 = q_items (sr_incoming s1) @ taken_events ?acts"
    using run_stream [OF ok2 run tap(1) op] go tap(2) by auto
  then have "got_events i (ys @ zs) @ sink_items i s3 = q_items (sr_incoming s1) @ taken_events ys"
    using joined_stream [OF ok3 stop] none by (simp add: got_events_def taken_events_def)
  moreover have "i < length (sr_objects s3)" using run_objects_grow [OF run] tap(1) by simp
  ultimately show ?thesis using none dequeue_all by metis
qed

theorem graceful_close_complete_witness:
  "\<exists>es s4. sr_run (map (Dequeue 1) es) ex_source5 = Some s4 \<and> es = [1::nat]"
proof -
  have "sr_open 1 ex_source5" by code_simp
  moreover have "q_items (sr_incoming ex_source1) = [1]" by code_simp
  ultimately show ?thesis
    using graceful_close_complete [OF ex_source_runs(1-3), of "[]" "[DispatchGet, Deliver 1, Deliver 0, DispatchDone]"]
      ex_source5_run by (auto simp: got_events_def taken_events_def)
qed

section \<open>The database stores\<close>

text \<open>C21: the database store behaves as the in-memory store: after any sequence of saves and deletes
  in which no two owners save a task of the same id, it returns for every owner and id the task
  that the in-memory store returns after the same calls, but for a default status and empty
  metadata, which come back unset.\<close>

theorem database_refines_memory:
  assumes "db_plain db" "ids_private (td_resolver db) calls"
  shows "db_get db i c (fold (db_call db) calls []) =
    Inr (map_option orm_normal (ims_get (td_resolver db) i c (fold (ims_call (td_resolver db)) calls ims_empty)))"
  using db_get_rel [OF assms(1)] store_runs_agree [OF assms] by blast

theorem database_refines_memory_witness:
  "db_get ex_db ''t1'' alice (fold (db_call ex_db) [SaveCall ex_task alice, DeleteCall ''t1'' bob] []) =
    Inr (Some (orm_normal ex_task))"
proof -
  have "ids_private rus [SaveCall ex_task alice, DeleteCall ''t1'' bob]" by code_simp
  moreover have "ims_get rus ''t1'' alice (fold (ims_call rus) [SaveCall ex_task alice, DeleteCall ''t1'' bob] ims_empty)
      = Some ex_task" by code_simp
  ultimately show ?thesis
    using database_refines_memory [OF ex_db_plain, of "[SaveCall ex_task alice, DeleteCall ''t1'' bob]" "''t1''" alice]
    by simp
qed

text \<open>The owner is not part of the primary keys. A save of a task whose id is in use takes over
  the row: the caller reads its task, and an owner who had a task under that id has none any more;
  and setting a push configuration leaves no row of that task and configuration id to another
  owner.\<close>

theorem database_save_takes_over:
  assumes "db_plain db" "distinct (map tr_id rows)" "td_resolver db c' \<noteq> td_resolver db c"
    and "pd_core_to_model pdb = None"
  shows "db_get db (task_id t) c (db_save db t c rows) = Inr (Some (orm_normal t)) \<and>
    db_get db (task_id t) c' (db_save db t c rows) = Inr None \<and>
    (\<forall>x \<in> set (db_set_info pdb tid cfg c configs).
       push_key x = (tid, pc_id (default_id tid cfg)) \<longrightarrow> pr_owner x = pd_resolver pdb c)"
  using db_save_takes [OF assms(1-3)] db_set_info_owner [OF assms(4)] by blast

theorem database_save_takes_over_witness:
  "db_get ex_db ''t1'' alice (db_save ex_db ex_task alice []) = Inr (Some (orm_normal ex_task)) \<and>
   db_get ex_db ''t1'' alice (db_save ex_db ex_task bob (db_save ex_db ex_task alice [])) = Inr None \<and>
   list_all (\<lambda>x. pr_owner x = ''bob'') (db_set_info ex_push_db ''t1'' (ex_config ''p'' ''u'') bob
      (db_set_info ex_push_db ''t1'' (ex_config ''p'' ''u'') alice []))"
proof -
  have "distinct (map tr_id (db_save ex_db ex_task alice []))" by code_simp
  moreover have "rus alice \<noteq> rus bob" by simp
  moreover have "pd_core_to_model ex_push_db = None" "pd_resolver ex_push_db = rus" by (simp_all add: ex_push_db_def)
  moreover have "map push_key (db_set_info ex_push_db ''t1'' (ex_config ''p'' ''u'') bob
      (db_set_info ex_push_db ''t1'' (ex_config ''p'' ''u'') alice [])) = [(''t1'', ''p'')]"
    "pc_id (default_id ''t1'' (ex_config ''p'' ''u'')) = ''p''" by code_simp+
  ultimately show ?thesis
    using database_save_takes_over [OF ex_db_plain, of "[]" bob alice ex_push_db ex_task]
      database_save_takes_over [OF ex_db_plain, of "db_save ex_db ex_task alice []" alice bob ex_push_db ex_task
        "''t1''" "ex_config ''p'' ''u''" "db_set_info ex_push_db ''t1'' (ex_config ''p'' ''u'') alice []"]
    by (auto simp: list_all_iff)
qed

text \<open>The two stores list alike. When the texts and the datetimes of the times compared are in
  the same order, a page of the in-memory store (the sorted filter, cut at the index of the token's
  task) is the page of the database (a condition on the keys and a limit of one row more than the
  page): the same tasks in the same order, next token, size and total.\<close>

theorem listings_agree:
  assumes "db_plain db" "db_rel db rows s" "times_agree db tjs req c s" "0 < page_size_of req"
    and "ims_list (td_resolver db) tjs req c s = Inr page"
  shows "db_list db req c rows = Inr (page\<lparr>lresp_tasks := map orm_normal (lresp_tasks page)\<rparr>)"
  using db_list_agrees [OF assms] .

theorem listings_agree_witness:
  "\<exists>page. db_list ex_db (ex_list_request 1) alice (db_save ex_db ex_task alice []) =
      Inr (page\<lparr>lresp_tasks := [orm_normal ex_task]\<rparr>) \<and> lresp_total_size page = 1"
proof -
  have "\<not> isl (ims_list rus (\<lambda>_. []) (ex_list_request 1) alice ex_store)" by code_simp
  then obtain page where page: "ims_list rus (\<lambda>_. []) (ex_list_request 1) alice ex_store = Inr page"
    using not_isl by blast
  have "lresp_tasks (projr (ims_list rus (\<lambda>_. []) (ex_list_request 1) alice ex_store)) = [ex_task]"
    "lresp_total_size (projr (ims_list rus (\<lambda>_. []) (ex_list_request 1) alice ex_store)) = 1" by code_simp+
  then have p: "lresp_tasks page = [ex_task]" "lresp_total_size page = 1" by (simp_all only: page sum.sel)
  have rel: "db_rel ex_db (db_save ex_db ex_task alice []) ex_store"
    using db_save_rel [OF ex_db_plain db_rel_empty, of alice ex_task]
    by (simp add: ex_store_def get_owner_tasks_def ims_empty_def)
  have none: "status_timestamp (task_status_of ex_task) = None" by code_simp
  then have "times_agree ex_db (\<lambda>_. []) (ex_list_request 1) alice ex_store"
    by (auto simp: times_agree_def Let_def ex_list_request_def split: if_splits)
  moreover have "0 < page_size_of (ex_list_request 1)" by code_simp
  ultimately show ?thesis
    using listings_agree [OF ex_db_plain rel, of "\<lambda>_. []" "ex_list_request 1" alice page] page p by auto
qed

section \<open>Protocol 0.3\<close>





text \<open>C24: what the resolver makes of a fetched card is a card of protocol 1.0: none of the
  keys of older cards is left in the card, its skills and its security schemes; upgrading it again
  changes nothing, and a card of 1.0 is left as it is.\<close>

theorem older_card_upgraded:
  assumes "upgrade_card d = Inr e"
  shows "current_card e \<and> upgrade_card e = Inr e \<and> (current_card d \<longrightarrow> e = d)"
  using upgraded_is_current [OF assms] current_card_unchanged [of e] current_card_unchanged [of d] assms by auto

theorem older_card_upgraded_witness:
  "\<exists>e. upgrade_card ex_old_card = Inr e \<and> current_card e \<and>
     map_of e (to_ustr ''supportedInterfaces'') =
       Some (JArr [interface_entry (named ''http://old'') (named ''JSONRPC'') (named ''0.3.0'')])"
proof -
  have "case upgrade_card ex_old_card of Inl f \<Rightarrow> False | Inr e \<Rightarrow> map_of e (to_ustr ''supportedInterfaces'') =
       Some (JArr [interface_entry (named ''http://old'') (named ''JSONRPC'') (named ''0.3.0'')])" by code_simp
  then obtain e where e: "upgrade_card ex_old_card = Inr e" "map_of e (to_ustr ''supportedInterfaces'') =
       Some (JArr [interface_entry (named ''http://old'') (named ''JSONRPC'') (named ''0.3.0'')])"
    by (auto split: sum.splits)
  with older_card_upgraded [OF e(1)] show ?thesis by blast
qed

text \<open>A stream through the two conversions. A 1.0 client that calls a 0.3 server reads
  the events that its handler yields for the request, in order, each in normal form; the stream ends
  as the handler's does, or, before the first event that has no 0.3 form, with the exception of the
  conversion; the handler runs on the request in normal form.\<close>

theorem streaming_over_protocol_0_3:
  assumes "json_codec_ok k" "send_request_free r"
    and "to_compat_send_message_request k r rid = Inr q"
    and "rh_message_send_stream h (send_request_normal r) c s = (s1, evs, e)"
    and "list_all stream_event_free evs"
    and "c03_send_message_streaming h k rid r c s = (s', out, e')"
  shows "s' = s1 \<and> (\<exists>i \<le> length evs.
    out = map (\<lambda>ev. StreamEvent (event_normal (the ev))) (take i evs) \<and>
    (if i = length evs then e' = e
     else isl (to_compat_stream_response k (stream_response_of (evs ! i)) (Some rid))))"
  using assms by (rule stream_over_03)

theorem streaming_over_protocol_0_3_witness:
  "\<exists>e. c03_send_message_streaming ex_rh ex_json (IdStr ''r1'') ex_send alice 0 =
    (1, [StreamEvent ex_event, StreamEvent (MessageEv ex_note)], e)"
proof -
  obtain s' out e' where run: "c03_send_message_streaming ex_rh ex_json (IdStr ''r1'') ex_send alice 0 = (s', out, e')"
    by (metis prod_cases3)
  have "\<not> isl (to_compat_send_message_request ex_json ex_send (IdStr ''r1''))" by code_simp
  from not_isl [OF this] obtain q where q: "to_compat_send_message_request ex_json ex_send (IdStr ''r1'') = Inr q" by blast
  let ?evs = "[Some ex_event, Some (MessageEv ex_note)]"
  have core: "rh_message_send_stream ex_rh (send_request_normal ex_send) alice 0 = (1, ?evs, None)"
    by (simp add: ex_rh_def)
  have free: "send_request_free ex_send" "list_all stream_event_free ?evs" by code_simp+
  have norm: "event_normal ex_event = ex_event" "event_normal (MessageEv ex_note) = MessageEv ex_note" by code_simp+
  have conv: "list_all (\<lambda>ev. \<not> isl (to_compat_stream_response ex_json (stream_response_of ev) (Some (IdStr ''r1'')))) ?evs"
    by code_simp
  from streaming_over_protocol_0_3 [OF ex_json_ok free(1) q core free(2) run]
  obtain i where i: "i \<le> length ?evs" "s' = 1" "out = map (\<lambda>ev. StreamEvent (event_normal (the ev))) (take i ?evs)"
    "if i = length ?evs then e' = None else isl (to_compat_stream_response ex_json (stream_response_of (?evs ! i)) (Some (IdStr ''r1'')))"
    by blast
  have "i = length ?evs"
  proof (rule ccontr)
    assume ne: "i \<noteq> length ?evs"
    with i(1) have "i < length ?evs" by (rule le_neq_implies_less)
    with conv [unfolded list_all_length]
    have "\<not> isl (to_compat_stream_response ex_json (stream_response_of (?evs ! i)) (Some (IdStr ''r1'')))" by blast
    with i(4) ne show False by simp
  qed
  with i(2,3) run norm show ?thesis by simp
qed





text \<open>Sending a message over gRPC in protocol 0.3. The handler gets the request once, in
  the form that the 0.3 messages give it (a history length that was not set is zero, a missing
  configuration asks for an immediate return), and its answer, a task or a message, arrives up to
  what 0.3 cannot say; an error arrives with its class and message.\<close>

theorem answer_over_protobuf_0_3:
  assumes "json_codec_ok k" and "send_request_free r" and "send_request_proto k r = Inr p"
    and "rh_message_send h (send_request_over_proto r) (grpc03_context params) s = (s', x)"
    and "\<And>y. x = Inr y \<Longrightarrow> send_response_free y \<and> \<not> isl (compat_send_result k y)"
  shows "cgt_send_message (unexpected, \<lambda>md. Inr (default_grpc_build md), h, k) r params s =
    (s', case x of Inr y \<Rightarrow> Inr (send_response_over_proto y) | Inl e \<Rightarrow> Inl (grpc03_view unexpected e))"
  using assms by (rule send_message_over_grpc03)

theorem answer_over_protobuf_0_3_witness:
  "cgt_send_message ex_grpc03 ex_send [] 5 = (6, Inr (MessageResponse (message_over_proto (message_normal ex_note))))"
proof -
  have "send_request_free ex_send" by code_simp
  moreover obtain p where "send_request_proto ex_json ex_send = Inr p"
  proof -
    have "\<not> isl (send_request_proto ex_json ex_send)" by code_simp
    with that show ?thesis by (cases "send_request_proto ex_json ex_send") auto
  qed
  moreover have "rh_message_send ex_rh (send_request_over_proto ex_send) (grpc03_context []) 5 =
      (6, Inr (MessageResponse ex_note))" by (simp add: ex_rh_def)
  moreover have "message_free ex_note" by code_simp
  moreover have "\<not> isl (compat_send_result ex_json (MessageResponse ex_note))" by code_simp
  ultimately show ?thesis
    unfolding ex_grpc03_def
    using answer_over_protobuf_0_3 [OF ex_json_ok, where r = ex_send and h = ex_rh and params = "[]" and s = 5
        and x = "Inr (MessageResponse ex_note)"] by simp
qed

text \<open>A stream over gRPC in protocol 0.3. The client reads every event that the handler
  produced, in order and once, up to what 0.3 cannot say; after the last it sees the end of the
  stream or the error that ended it.\<close>

theorem stream_over_protobuf_0_3:
  assumes "json_codec_ok k" and "send_request_free r" and "send_request_proto k r = Inr p"
    and "rh_message_send_stream h (send_request_over_proto r) (grpc03_context params) s = (s', map Some evs, x)"
    and "\<forall>ev \<in> set evs. event_free ev \<and> \<not> isl (to_compat_event k ev)"
  shows "cgt_send_message_streaming (unexpected, \<lambda>md. Inr (default_grpc_build md), h, k) r params s =
    (s', map (\<lambda>ev. StreamEvent (event_over_proto (event_normal ev))) evs, map_option (grpc03_view unexpected) x)"
proof -
  have "ev \<noteq> None \<and> event_free (the ev) \<and> \<not> isl (to_compat_event k (the ev))" if "ev \<in> set (map Some evs)" for ev
    using that assms(5) by auto
  from stream_over_grpc03 [OF assms(1-4) this] show ?thesis by (simp add: comp_def)
qed

theorem stream_over_protobuf_0_3_witness:
  "cgt_send_message_streaming ex_grpc03 ex_send [] 5 =
    (6, [StreamEvent (event_over_proto (event_normal ex_event)),
         StreamEvent (event_over_proto (event_normal (MessageEv ex_note)))], None)"
proof -
  have "send_request_free ex_send" by code_simp
  moreover obtain p where "send_request_proto ex_json ex_send = Inr p"
  proof -
    have "\<not> isl (send_request_proto ex_json ex_send)" by code_simp
    with that show ?thesis by (cases "send_request_proto ex_json ex_send") auto
  qed
  moreover have "rh_message_send_stream ex_rh (send_request_over_proto ex_send) (grpc03_context []) 5 =
      (6, map Some [ex_event, MessageEv ex_note], None)" by (simp add: ex_rh_def)
  moreover have "event_free ex_event" "event_free (MessageEv ex_note)" by code_simp+
  moreover have "\<not> isl (to_compat_event ex_json ex_event)" "\<not> isl (to_compat_event ex_json (MessageEv ex_note))"
    by code_simp+
  ultimately show ?thesis
    unfolding ex_grpc03_def
    using stream_over_protobuf_0_3 [OF ex_json_ok, where r = ex_send and h = ex_rh and params = "[]" and s = 5
        and evs = "[ex_event, MessageEv ex_note]" and x = None] by simp
qed

text \<open>C27: the client of protocol 0.3 finds out how to subscribe over REST. When a server
  refuses POST with 405 and takes GET, the first subscription delivers the events of the GET
  request, and every later subscription asks with GET at once; while GET is not refused the client
  stays with it.\<close>

theorem subscribe_method_found:
  assumes "send ''POST'' s = (s1, evs1, Some (True, e1))"
    and "send ''GET'' s1 = (s2, evs2, e2)" and "\<not> not_allowed e2"
  shows "\<exists>st. crt_subscribe send (subscribe_init None) s = (s2, st, evs1 @ evs2, answered e2) \<and>
    (\<forall>s3. case send ''GET'' s3 of (s4, evs, e) \<Rightarrow>
       \<exists>st'. crt_subscribe send st s3 = (s4, st', evs, answered e) \<and> (\<not> not_allowed e \<longrightarrow> st' = st))"
proof -
  let ?st = "\<lparr>ss_override = Some ''GET'', ss_auto = True\<rparr>"
  have "crt_subscribe send (subscribe_init None) s = (s2, ?st, evs1 @ evs2, answered e2)"
    using subscribe_falls_back [of send s, OF assms(1) _ assms(2)] assms(3) by (simp add: not_allowed_def)
  moreover have "case send ''GET'' s3 of (s4, evs, e) \<Rightarrow>
       \<exists>st'. crt_subscribe send ?st s3 = (s4, st', evs, answered e) \<and> (\<not> not_allowed e \<longrightarrow> st' = ?st)" for s3
    by (cases "send ''GET'' s3") (auto simp: subscribe_with_override [of ?st send s3])
  ultimately show ?thesis by blast
qed

theorem subscribe_method_found_witness:
  "\<exists>st. crt_subscribe ex_get_only (subscribe_init None) 7 = (9, st, [8], None) \<and>
    (\<exists>st'. crt_subscribe ex_get_only st 20 = (21, st', [20], None) \<and> st' = st)"
proof -
  have "ex_get_only ''POST'' 7 = (8, [], Some (True, ClientError ''405''))"
    "ex_get_only ''GET'' 8 = (9, [8], None)" "ex_get_only ''GET'' 20 = (21, [20], None)" by code_simp+
  note calls = this
  have "\<not> not_allowed None" by (simp add: not_allowed_def)
  from subscribe_method_found [OF calls(1,2) this] obtain st
    where st: "crt_subscribe ex_get_only (subscribe_init None) 7 = (9, st, [] @ [8], answered None)"
      and later: "\<forall>s3. case ex_get_only ''GET'' s3 of (s4, evs, e) \<Rightarrow>
        \<exists>st'. crt_subscribe ex_get_only st s3 = (s4, st', evs, answered e) \<and> (\<not> not_allowed e \<longrightarrow> st' = st)" by blast
  from spec [OF later, of 20] have "crt_subscribe ex_get_only st 20 = (21, st, [20], answered None)"
    unfolding calls(3) by (auto simp: not_allowed_def)
  with st show ?thesis by (simp add: answered_def)
qed

text \<open>A caller who names no version speaks 0.3: the methods of protocol 0.3 run for it,
  and those of 1.0 are refused with \<^verbatim>\<open>VersionNotSupportedError\<close>.\<close>

theorem version_by_header:
  assumes "version_lib_ok lib" "no_version_header c"
  shows "validate_version lib PROTOCOL_VERSION_0_3 (Some c) body = body () \<and>
    validate_version lib PROTOCOL_VERSION_1_0 (Some c) body = Inl (A2A (version_mismatch ''1.0'' ''0.3''))"
  using validate_no_header [OF assms] by blast

theorem version_by_header_witness:
  "validate_version ex_versions PROTOCOL_VERSION_1_0 (Some alice) (\<lambda>_. Inr (7::nat)) =
    Inl (A2A (version_mismatch ''1.0'' ''0.3''))"
proof -
  have "no_version_header alice" by (simp add: no_version_header_def alice_def ex_ctx_def)
  from version_by_header [OF ex_versions_ok this] show ?thesis by blast
qed

section \<open>The JSON-RPC endpoint and the client\<close>

text \<open>C28: a request reaches the handler only through the guards. When a dispatch changed the
  state, the method is one of 1.0, its parameters parsed, the context was built, and its version,
  with the tenant of the request, is compatible with 1.0.\<close>

theorem dispatcher_guard:
  assumes "fst (dispatch_v1 lib h rk build rid m bd req s) \<noteq> s"
  shows "\<exists>model r c0. METHOD_TO_MODEL m = Some model \<and>
    rk_parse rk model (case json_get bd ''params'' of None \<Rightarrow> JObj [] | Some p \<Rightarrow> p) = Inr r \<and>
    build req = Inr c0 \<and>
    is_version_compatible lib PROTOCOL_VERSION_1_0
      (get_actual_version PROTOCOL_VERSION_1_0 (Some (c0\<lparr>cc_tenant := request_tenant r\<rparr>)))"
  using assms by (rule dispatch_v1_guard)

theorem dispatcher_guard_witness:
  "\<exists>c0. fst (dispatch_v1 ex_versions ex_rh (ex_rpc\<lparr>rk_parse := \<lambda>m j. Inr (SendReq ex_send)\<rparr>)
      (\<lambda>q. Inr (default_build q)) None ''SendMessage'' (JObj [])
      (send_request ''SendMessage'' (JObj []) (JInt 1) [(''a2a-version'', ''1.0'')] None) 0) = 1 \<and>
    default_build (send_request ''SendMessage'' (JObj []) (JInt 1) [(''a2a-version'', ''1.0'')] None) = c0 \<and>
    is_version_compatible ex_versions PROTOCOL_VERSION_1_0 (get_actual_version PROTOCOL_VERSION_1_0 (Some (c0\<lparr>cc_tenant := []\<rparr>)))"
proof -
  let ?rk = "ex_rpc\<lparr>rk_parse := \<lambda>m j. Inr (SendReq ex_send)\<rparr>"
  let ?q = "send_request ''SendMessage'' (JObj []) (JInt 1) [(''a2a-version'', ''1.0'')] None"
  have run: "fst (dispatch_v1 ex_versions ex_rh ?rk (\<lambda>q. Inr (default_build q)) None ''SendMessage'' (JObj []) ?q 0) = 1"
    by code_simp
  then have "fst (dispatch_v1 ex_versions ex_rh ?rk (\<lambda>q. Inr (default_build q)) None ''SendMessage'' (JObj []) ?q 0) \<noteq> 0"
    by simp
  from dispatcher_guard [OF this] run show ?thesis by (auto simp: ex_send_def)
qed







text \<open>C32: the interceptor for authentication sets at most one service parameter: the header
  of a security scheme that the card requires and declares, with a credential that the store has for
  that scheme in the session of the call. The session and the request stay as they are, and storing
  a credential for another session changes nothing.\<close>

theorem credentials_stay_in_session:
  assumes "auth_before (get_credentials st) a = Inr b"
  shows "session_of (ba_context b) = session_of (ba_context a) \<and> ba_input b = ba_input a \<and>
    (call_parameters (ba_context b) = call_parameters (ba_context a) \<or>
     (\<exists>n cred k v. n \<in> set (concat (map (map fst) (card_security_requirements (ba_card a)))) \<and>
        map_of (card_security_schemes (ba_card a)) n \<noteq> None \<and>
        get_credentials st n (ba_context a) = Some cred \<and> cred \<noteq> [] \<and>
        auth_header cred (the (map_of (card_security_schemes (ba_card a)) n)) = Some (k, v) \<and>
        call_parameters (ba_context b) = AList.update k v (call_parameters (ba_context a)))) \<and>
    (\<forall>sid n cred. session_of (ba_context a) \<noteq> Some sid \<longrightarrow>
       auth_before (get_credentials (set_credentials sid n cred st)) a = Inr b)"
proof (cases "card_security_requirements (ba_card a) = [] \<or> card_security_schemes (ba_card a) = []")
  case True
  with assms show ?thesis by (auto simp: auth_before_def)
next
  case False
  let ?ss = "card_security_schemes (ba_card a)"
  let ?ns = "concat (map (map fst) (card_security_requirements (ba_card a)))"
  from assms False have b: "b = a\<lparr>ba_context := try_schemes (get_credentials st) ?ss ?ns (ba_context a)\<rparr>"
    by (simp add: auth_before_def Let_def)
  then have c: "ba_context b = try_schemes (get_credentials st) ?ss ?ns (ba_context a)" by simp
  have known: "n \<in> set (map fst ?ss) \<longleftrightarrow> map_of ?ss n \<noteq> None" for n by (simp add: map_of_eq_None_iff)
  have "auth_before (get_credentials (set_credentials sid n cred st)) a = Inr b" if "session_of (ba_context a) \<noteq> Some sid"
    for sid n cred
    using False b other_session_irrelevant [OF that] by (simp add: auth_before_def Let_def)
  moreover have "ba_input b = ba_input a" using b by simp
  ultimately show ?thesis using try_schemes_adds_one [OF c [symmetric], unfolded known] by blast
qed

theorem credentials_stay_in_session_witness:
  "\<exists>b. auth_before (get_credentials [(''s1'', [(''token'', ''abc'')]), (''s2'', [(''token'', ''xyz'')])])
      \<lparr>ba_input = (), ba_method = ''get_task'', ba_card = ex_secured_card,
        ba_context = Some \<lparr>cx_session_id = Some ''s1'', cx_service_parameters = None\<rparr>, ba_early_return = (None :: unit option)\<rparr> = Inr b \<and>
    call_parameters (ba_context b) = [(''Authorization'', ''Bearer abc'')] \<and> session_of (ba_context b) = Some ''s1''"
proof -
  let ?st = "[(''s1'', [(''token'', ''abc'')]), (''s2'', [(''token'', ''xyz'')])]"
  let ?a = "\<lparr>ba_input = (), ba_method = ''get_task'', ba_card = ex_secured_card,
        ba_context = Some \<lparr>cx_session_id = Some ''s1'', cx_service_parameters = None\<rparr>, ba_early_return = (None :: unit option)\<rparr>"
  have "\<not> isl (auth_before (get_credentials ?st) ?a)" by (simp add: auth_before_def Let_def)
  from not_isl [OF this] obtain b where b: "auth_before (get_credentials ?st) ?a = Inr b" by blast
  have "auth_header ''abc'' (the (map_of (card_security_schemes ex_secured_card) ''token'')) = Some (''Authorization'', ''Bearer abc'')"
    by code_simp
  moreover have "call_parameters (ba_context b) = [(''Authorization'', ''Bearer abc'')]"
    using b calculation
    by (simp add: auth_before_def Let_def ex_secured_card_def get_credentials_def prepared_def call_parameters_def)
      (auto simp: call_parameters_def)
  moreover have "session_of (ba_context b) = Some ''s1''"
    using credentials_stay_in_session [OF b] by (simp add: session_of_def)
  ultimately show ?thesis using b by blast
qed

text \<open>The transport that the factory makes fits one interface of the card: its binding,
  url, tenant and protocol version are those of the best interface for the binding, also when
  several interfaces share a url or a binding.\<close>

theorem transport_of_one_interface:
  assumes "create_transport lib cfg (register_defaults lib supported) acard = Inr t"
  shows "\<exists>i \<in> set (card_supported_interfaces acard). transport_matches lib i t \<and>
    (\<exists>b. find_best_interface lib (card_supported_interfaces acard) [b] None = Some i)"
  using assms by (rule create_matches)

theorem transport_of_one_interface_witness:
  "create_transport ex_versions ex_client (register_defaults ex_versions []) ex_card =
     Inr (Transport ''JSONRPC'' ''http://new'' False) \<and>
   (\<exists>i \<in> set (card_supported_interfaces ex_card). transport_matches ex_versions i (Transport ''JSONRPC'' ''http://new'' False))"
proof -
  have run: "create_transport ex_versions ex_client (register_defaults ex_versions []) ex_card =
     Inr (Transport ''JSONRPC'' ''http://new'' False)" by code_simp
  from transport_of_one_interface [OF this] run show ?thesis by blast
qed

section \<open>Canonical JSON\<close>

text \<open>C33: a float is written as ECMAScript writes it: rearranging the text of Python's
  \<^verbatim>\<open>str\<close> gives the text of \<^verbatim>\<open>Number::toString\<close>, for
  every sign, every digits and every exponent.\<close>

theorem number_text_is_ecmascript:
  assumes "wf_float ds n"
  shows "format_number (FFin neg ds n) = Inr ((if neg then ''-'' else []) @ ecma_number ds n)"
  by (simp add: format_positive_ecma [OF assms])

theorem number_text_is_ecmascript_witness:
  "format_number (FFin True [1, 5] (-9)) = Inr ''-1.5e-10'' \<and>
   format_number (FFin False [1, 2, 3] 20) = Inr ''12300000000000000000''"
proof -
  have "wf_float [1, 5] (-9)" "wf_float [1, 2, 3] 20" by code_simp+
  from this [THEN number_text_is_ecmascript] show ?thesis
    by (simp only:) code_simp
qed

section \<open>The older request handler\<close>

text \<open>C34: what a call of the older handler returns is stored. When the agent reports at
  least one event, each with a task id, and \<^verbatim>\<open>on_message_send\<close> returns a
  task, the store holds this task for the caller, and what is returned is the stored task with its
  history cut to the requested length; this holds for new tasks, follow-ups, and calls that return
  early.\<close>

theorem legacy_send_returns_stored_task:
  assumes "ims_ok s" "h_store_ops h = ims_ops r" "named_events (fst (consume_all os))" "fst (consume_all os) \<noteq> []"
    and "legacy_on_message_send h gen_task gen_context missing params c s p lg os producer_end =
      (p', s', lg', Some (Inr (TaskEv (TaskObj u))))"
  shows "\<exists>t. ims_get r (task_id t) c s' = Some t \<and>
    u = apply_history_length t (sc_history_length (smr_config params))"
  using ims.on_message_send_stored [OF assms] by simp

theorem legacy_send_returns_stored_task_witness:
  "\<exists>p s lg t. legacy_on_message_send ex_handler (\<lambda>x. ''g'') (\<lambda>x. ''h'') [] ex_follow_up alice ex_store pcs_empty lg_init
      [Got ex_busy, TimedOut, Got ex_done] None = (p, s, lg, Some (Inr (TaskEv (TaskObj t)))) \<and>
    (\<exists>u. ims_get rus (task_id u) alice s = Some u \<and> t = apply_history_length u None)"
proof -
  let ?os = "[Got ex_busy, TimedOut, Got ex_done]"
  let ?run = "legacy_on_message_send ex_handler (\<lambda>x. ''g'') (\<lambda>x. ''h'') [] ex_follow_up alice ex_store pcs_empty lg_init ?os None"
  have "task_reply ?run" by code_simp
  then obtain p s lg t where run: "?run = (p, s, lg, Some (Inr (TaskEv (TaskObj t))))" using task_replyD by blast
  have "named_events (fst (consume_all ?os)) \<and> fst (consume_all ?os) \<noteq> []" by code_simp
  moreover have "h_store_ops ex_handler = ims_ops rus" by (simp add: ex_handler_def)
  moreover have "sc_history_length (smr_config ex_follow_up) = None" by code_simp
  ultimately show ?thesis
    using legacy_send_returns_stored_task [OF ex_store_ok, of ex_handler rus ?os] run by fastforce
qed

text \<open>C35: an early return loses no event. The events handled before
  \<^verbatim>\<open>consume_and_break_on_interrupt\<close> returns and those that the background
  task handles afterwards are the whole stream, in order, and the manager ends in the state that
  processing the whole stream at once leaves; an exception of the manager ends both.\<close>

theorem interruption_loses_no_event:
  assumes "ra_consume_and_break ops blocking evs r tm = (tm1, sent1, Returned (x, Some rest))"
    and "ra_continue_consuming ops rest r tm1 = (tm2, sent2, y)"
    and "list_all (\<lambda>ev. case ev of MessageEv m \<Rightarrow> False | TaskEv te \<Rightarrow> event_task_id te \<noteq> []) evs"
  shows "tm_process_all ops evs tm = (tm2, None) \<and> sent1 @ sent2 = evs \<and> y = end_outcome r () \<or>
    (\<exists>z. tm_process_all ops evs tm = (tm2, Some z) \<and> y = Raised z)"
  by (rule break_and_continue [OF assms])

theorem interruption_loses_no_event_witness:
  "\<exists>tm. tm_process_all (ims_ops rus) [ex_busy, ex_done] ex_tm = (tm, None) \<and> task_result (ims_ops rus) tm \<noteq> (tm, None)"
proof -
  let ?evs = "[ex_busy, ex_done]"
  let ?one = "ra_consume_and_break (ims_ops rus) False ?evs Ended ex_tm"
  let ?two = "ra_continue_consuming (ims_ops rus) [ex_done] Ended (fst ?one)"
  have "rest_of (snd (snd ?one)) = Some [ex_done]" by code_simp
  then obtain tm1 sent1 x where one: "?one = (tm1, sent1, Returned (x, Some [ex_done]))"
    by (cases ?one; cases "snd (snd ?one)" rule: rest_of.cases) auto
  obtain tm2 sent2 y where two: "?two = (tm2, sent2, y)" using prod_cases3 by blast
  have y: "snd (snd ?two) = Returned ()" by code_simp
  have "list_all (\<lambda>ev. case ev of MessageEv m \<Rightarrow> False | TaskEv te \<Rightarrow> event_task_id te \<noteq> []) ?evs" by code_simp
  from interruption_loses_no_event [OF one _ this] two one y have "tm_process_all (ims_ops rus) ?evs ex_tm = (tm2, None)" by auto
  moreover have "task_result (ims_ops rus) (fst ?two) \<noteq> (fst ?two, None)" by code_simp
  ultimately show ?thesis using two by auto
qed

section \<open>Canonical JSON and signatures\<close>

text \<open>C36: the canonical text stands for the content. Two JSON values with distinct keys have
  the same canonical text exactly when they have the same content: the order of members does not
  count, numbers count as their ECMAScript text, texts as their characters, and nothing else is
  identified.\<close>

theorem canonical_text_determines:
  assumes "json_ok v" "json_ok w" "canonicalize v = Inr s" "canonicalize w = Inr t"
  shows "s = t \<longleftrightarrow> canon_of v = canon_of w"
  by (rule canonical_text_iff [OF assms])

theorem canonical_text_determines_witness:
  "canon_of (JObj [(to_ustr ''b'', JInt 2), (to_ustr ''a'', JNull)]) =
   canon_of (JObj [(to_ustr ''a'', JNull), (to_ustr ''b'', JFloat (FFin False [2] 1))])"
proof -
  let ?v = "JObj [(to_ustr ''b'', JInt 2), (to_ustr ''a'', JNull)]"
  let ?w = "JObj [(to_ustr ''a'', JNull), (to_ustr ''b'', JFloat (FFin False [2] 1))]"
  have "json_ok ?v" "json_ok ?w" by (simp_all add: dict_ok_def json_ok.intros wf_float_def)
  moreover have "format_number (FFin False [2] 1) = Inr ''2''" by code_simp
  then have "canonicalize ?v = Inr (to_ustr ''{\"a\":null,\"b\":2}'')" "canonicalize ?w = Inr (to_ustr ''{\"a\":null,\"b\":2}'')"
    by (simp_all add: canonical_eval int_str_def nat_str_1 digit_char_def SAFE_INT_MIN_def SAFE_INT_MAX_def)
  ultimately show ?thesis using canonical_text_determines [of ?v ?w] by blast
qed

text \<open>What is signed has nothing empty in it: the value that cleaning returns is null or
  has no null, no empty text, no empty list and no empty object at any depth.\<close>

theorem signed_values_have_no_empty:
  assumes "clean_empty depth v = Inr w"
  shows "w = JNull \<or> no_empty w"
  by (rule clean_no_empty [OF assms])

theorem signed_values_have_no_empty_witness:
  "\<exists>w. clean_empty 0 (JObj [(to_ustr ''name'', JStr (to_ustr ''echo'')), (to_ustr ''tags'', JArr [JStr [], JNull])]) = Inr w \<and> no_empty w"
proof -
  let ?v = "JObj [(to_ustr ''name'', JStr (to_ustr ''echo'')), (to_ustr ''tags'', JArr [JStr [], JNull])]"
  have "clean_empty 0 ?v = Inr (JObj [(to_ustr ''name'', JStr (to_ustr ''echo''))])"
    by (simp add: MAX_DEPTH_def drop_null_members_def to_ustr_def)
  moreover from signed_values_have_no_empty [OF this] have "no_empty (JObj [(to_ustr ''name'', JStr (to_ustr ''echo''))])"
    by simp
  ultimately show ?thesis by blast
qed

text \<open>C37: a card verifies after it was signed. With a library and a key provider that accept
  their own tokens, the verifier accepts the card that the signer returns, also when the card
  carried other signatures before, as long as checking those does not raise other errors than those
  of the JWS library.\<close>

theorem sign_then_verify_ok:
  assumes "to_dict_ok to_dict"
    and "agent_card_signer lib to_dict key protected header c = Inr c'"
    and "canonicalize_agent_card to_dict c = Inr payload"
    and "signs_for lib key_provider algorithms key protected (payload_bytes payload)"
    and "list_all (\<lambda>sg. loop_goes_on (check_signature lib key_provider algorithms
      (jw_base64url_encode lib (payload_bytes payload)) sg)) (card_signatures c)"
  shows "signature_verifier lib to_dict key_provider algorithms c' = Inr ()"
  by (rule sign_then_verify [OF assms])

theorem sign_then_verify_ok_witness:
  "\<exists>c. agent_card_signer (ex_jws [ex_token]) ex_to_dict ''s'' ex_header None ex_card = Inr c \<and> card_signatures c \<noteq> [] \<and>
    signature_verifier (ex_jws [ex_token]) ex_to_dict (\<lambda>kid jku. Inr ''s'') [''HS256''] c = Inr ()"
proof -
  let ?lib = "ex_jws [ex_token]" and ?text = "to_ustr ''{\"name\":\"echo\"}''"
  have sp: "split_dots (''h.'' @ b64encode (payload_bytes ?text) @ ''.s'') = [''h'', b64encode (payload_bytes ?text), ''s'']"
    using split_dots_three [of "''h''" "b64encode (payload_bytes ?text)" "''s''"] b64_no_point payload_bytes_range by simp
  then obtain c where c: "agent_card_signer ?lib ex_to_dict ''s'' ex_header None ex_card = Inr c" "card_signatures c \<noteq> []"
    by (auto simp: agent_card_signer_def ex_payload ex_jws_def)
  have "signs_for ?lib (\<lambda>kid jku. Inr ''s'') [''HS256''] ''s'' ex_header (payload_bytes ?text)"
    using sp by (simp add: signs_for_def ex_jws_def read_protected_def ex_token_def ex_payload)
  moreover have "card_signatures ex_card = []" by (simp add: ex_card_def)
  ultimately have "signature_verifier ?lib ex_to_dict (\<lambda>kid jku. Inr ''s'') [''HS256''] c = Inr ()"
    by (intro sign_then_verify_ok [OF ex_to_dict_ok c(1) ex_payload]) simp_all
  with c show ?thesis by blast
qed

text \<open>C38: tampering is detected. When the accepted tokens are only those made for the
  payloads of some cards, a card that the verifier accepts has the content of one of these
  cards.\<close>

theorem verified_card_is_signed_card:
  assumes "signature_verifier lib to_dict key_provider algorithms c = Inr ()"
    and "signs_only lib to_dict algorithms cs" "base64url_ok lib" "list_all (content_ok to_dict) (c # cs)"
  shows "\<exists>c' v v'. c' \<in> set cs \<and> signed_content to_dict c = Inr v \<and> signed_content to_dict c' = Inr v' \<and>
    canon_of v = canon_of v'"
  by (rule verified_is_signed [OF assms])

theorem verified_card_is_signed_card_witness:
  "signature_verifier (ex_jws [ex_token]) ex_to_dict (\<lambda>kid jku. Inr ''s'') [''HS256''] ex_signed_card = Inr () \<and>
   (\<exists>v v'. signed_content ex_to_dict ex_signed_card = Inr v \<and> signed_content ex_to_dict ex_card = Inr v' \<and> canon_of v = canon_of v')"
proof -
  let ?lib = "ex_jws [ex_token]"
  have same: "canonicalize_agent_card ex_to_dict ex_signed_card = Inr (to_ustr ''{\"name\":\"echo\"}'')"
    using canonical_without_signatures [OF ex_to_dict_ok] ex_payload by (simp add: ex_signed_card_def)
  have dec: "utf8_decode [] = Some []" by simp
  have v: "signature_verifier ?lib ex_to_dict (\<lambda>kid jku. Inr ''s'') [''HS256''] ex_signed_card = Inr ()"
    using same ex_payload dec
    by (simp add: signature_verifier_def ex_signed_card_def check_signature_def read_protected_def header_get_def ex_jws_def ex_token_def)
  have tok: "signing_input ex_token = ''h.'' @ b64encode (payload_bytes (to_ustr ''{\"name\":\"echo\"}''))"
    using signing_input_append [of "''s''" "''h.'' @ b64encode (payload_bytes (to_ustr ''{\"name\":\"echo\"}''))"]
    by (simp add: ex_token_def ex_payload)
  have "\<exists>h. CHR ''.'' \<notin> set h \<and> signing_input ex_token = h @ ''.'' @ b64encode (payload_bytes (to_ustr ''{\"name\":\"echo\"}''))"
    by (rule exI [of _ "''h''"]) (simp add: tok)
  then have only: "signs_only ?lib ex_to_dict [''HS256''] [ex_card]"
    unfolding signs_only_def using ex_payload by (auto simp: ex_jws_def split: if_splits)
  from verified_card_is_signed_card [OF v only ex_base64] ex_content v show ?thesis by simp
qed

section \<open>Integers and required fields\<close>

text \<open>C39: integers survive JSON. Parsing a value whose large integers were made texts gives
  the value back, with lists for tuples, when no text of the value looks like a large integer; and
  no integer of the normalised value has more digits than allowed.\<close>

theorem large_integers_round_trip:
  assumes "unicode_ok u" "0 < d" "normalize_large_integers_to_strings d v = Inr w" "py_all (text_ok u d) v"
  shows "parse_string_integers_in_dict u d w = Inr (listed v) \<and> py_all (int_small d) w"
  using parse_normalize [OF assms(1-4)] normalize_small [OF assms(3)] by simp

theorem large_integers_round_trip_witness:
  "\<exists>w. normalize_large_integers_to_strings 15 (PyDict [(''k'', PyTuple [PyInt (- 9007199254740993), PyStr (to_ustr ''7'')])]) = Inr w \<and>
    parse_string_integers_in_dict ex_unicode 15 w = Inr (PyDict [(''k'', PyList [PyInt (- 9007199254740993), PyStr (to_ustr ''7'')])])"
proof -
  let ?v = "PyDict [(''k'', PyTuple [PyInt (- 9007199254740993), PyStr (to_ustr ''7'')])]"
  have l: "length (nat_str 9007199254740993) \<le> INT_MAX_STR_DIGITS"
    using nat_str_length [of 16 9007199254740993] by (simp add: INT_MAX_STR_DIGITS_def)
  then have "py_all int_ok ?v" by simp
  with normalize_succeeds [of 15 ?v] obtain w where w: "normalize_large_integers_to_strings 15 ?v = Inr w"
    by (auto simp: isl_def split: sum.splits)
  have "py_all (text_ok ex_unicode 15) ?v" by (simp add: big_digits_def to_ustr_def Let_def)
  from large_integers_round_trip [OF ex_unicode_ok _ w this]
  have "parse_string_integers_in_dict ex_unicode 15 w = Inr (listed ?v)" by (rule conjunct1) simp
  then have "parse_string_integers_in_dict ex_unicode 15 w =
      Inr (PyDict [(''k'', PyList [PyInt (- 9007199254740993), PyStr (to_ustr ''7'')])])"
    by (simp only: listed.simps list.map prod.case)
  with w show ?thesis by blast
qed

text \<open>C40: the validation of required fields accepts a message exactly when every required
  field of the message and of the messages in its fields, lists and maps, at any depth, is
  filled.\<close>

theorem validation_finds_every_gap:
  "validate_proto_required_fields m = Inr () \<longleftrightarrow> complete_message m"
  by (simp add: validate_proto_required_fields_def validate_iff Let_def)

end
